(* ===== verification/Prelude.thy ===== *)
theory Prelude
  imports Main
begin

text \<open>
  Shared vocabulary of the development: JavaScript values as the sources handle them, the
  string operations they use, the insertion-ordered \<^verbatim>\<open>Map\<close>, and the operations of an
  asynchronous function (state passing with a thrown value or a result).

  Strings are lists of code units below 256; the few non-ASCII literals of the sources
  (arrows in log headlines) are written as their UTF-8 bytes. White space is the ASCII white
  space of \<^verbatim>\<open>\s\<close> and \<^verbatim>\<open>trim\<close>. Numbers are integers: every number the modelled code
  computes with (epoch times, lifetimes, status codes, replica counts) is integral.
\<close>

named_theorems io_simps \<open>unfolding rules for the operations of asynchronous code\<close>
named_theorems omap_simps \<open>laws of the insertion-ordered map\<close>
named_theorems js_simps \<open>evaluation rules for JavaScript values\<close>
named_theorems eval_simps \<open>definitions unfolded when a closed instance is computed\<close>

section \<open>JavaScript values\<close>

datatype js =
    JUndef
  | JNull
  | JBool bool
  | JNum int
  | JStr string
  | JArr "js list"
  | JObj "(string \<times> js) list"

text \<open>Property access \<^verbatim>\<open>o.k\<close> and \<^verbatim>\<open>o?.k\<close> (undefined on anything without the property).\<close>

fun jget :: "js \<Rightarrow> string \<Rightarrow> js" where
  "jget (JObj kvs) k = (case map_of kvs k of None \<Rightarrow> JUndef | Some v \<Rightarrow> v)"
| "jget _ k = JUndef"

fun truthy :: "js \<Rightarrow> bool" where
  "truthy JUndef = False"
| "truthy JNull = False"
| "truthy (JBool b) = b"
| "truthy (JNum n) = (n \<noteq> 0)"
| "truthy (JStr s) = (s \<noteq> [])"
| "truthy (JArr _) = True"
| "truthy (JObj _) = True"

text \<open>\<^verbatim>\<open>v && typeof v === 'object'\<close>: objects and arrays, never null.\<close>

fun is_object :: "js \<Rightarrow> bool" where
  "is_object (JObj _) = True"
| "is_object (JArr _) = True"
| "is_object _ = False"

text \<open>\<^verbatim>\<open>v == null\<close>\<close>

fun nullish :: "js \<Rightarrow> bool" where
  "nullish JUndef = True"
| "nullish JNull = True"
| "nullish _ = False"

fun as_str :: "js \<Rightarrow> string option" where
  "as_str (JStr s) = Some s"
| "as_str _ = None"

fun as_num :: "js \<Rightarrow> int option" where
  "as_num (JNum n) = Some n"
| "as_num _ = None"

fun as_arr :: "js \<Rightarrow> js list option" where
  "as_arr (JArr xs) = Some xs"
| "as_arr _ = None"

section \<open>Strings\<close>

fun join :: "string \<Rightarrow> string list \<Rightarrow> string" where
  "join sep [] = []"
| "join sep [x] = x"
| "join sep (x # y # ys) = x @ sep @ join sep (y # ys)"

fun digits :: "nat \<Rightarrow> string" where
  "digits n = (if n < 10 then [''0123456789'' ! n] else digits (n div 10) @ [''0123456789'' ! (n mod 10)])"

declare digits.simps [simp del]

definition int_str :: "int \<Rightarrow> string" where
  "int_str n = (if n < 0 then ''-'' @ digits (nat (- n)) else digits (nat n))"

definition nat_str :: "nat \<Rightarrow> string" where
  "nat_str n = digits n"

text \<open>\<^verbatim>\<open>String(v)\<close>\<close>

fun js_string :: "js \<Rightarrow> string" where
  "js_string JUndef = ''undefined''"
| "js_string JNull = ''null''"
| "js_string (JBool b) = (if b then ''true'' else ''false'')"
| "js_string (JNum n) = int_str n"
| "js_string (JStr s) = s"
| "js_string (JArr xs) = join '','' (map (\<lambda>x. if nullish x then [] else js_string x) xs)"
| "js_string (JObj _) = ''[object Object]''"

definition is_ws :: "char \<Rightarrow> bool" where
  "is_ws c = (c \<in> set [CHR '' '', CHR 0x09, CHR 0x0A, CHR 0x0B, CHR 0x0C, CHR 0x0D])"

definition trim_start :: "string \<Rightarrow> string" where
  "trim_start s = dropWhile is_ws s"

definition trim :: "string \<Rightarrow> string" where
  "trim s = rev (trim_start (rev (trim_start s)))"

definition lower_char :: "char \<Rightarrow> char" where
  "lower_char c =
     (case map_of (zip ''ABCDEFGHIJKLMNOPQRSTUVWXYZ'' ''abcdefghijklmnopqrstuvwxyz'') c of
        None \<Rightarrow> c | Some d \<Rightarrow> d)"

definition lower :: "string \<Rightarrow> string" where
  "lower s = map lower_char s"

definition starts_with :: "string \<Rightarrow> string \<Rightarrow> bool" where
  "starts_with p s = (take (length p) s = p)"

fun contains :: "string \<Rightarrow> string \<Rightarrow> bool" where
  "contains p [] = (p = [])"
| "contains p (c # s) = (starts_with p (c # s) \<or> contains p s)"

text \<open>\<^verbatim>\<open>/p/i.test(s)\<close> for a literal lower-case \<^verbatim>\<open>p\<close>.\<close>

definition contains_ci :: "string \<Rightarrow> string \<Rightarrow> bool" where
  "contains_ci p s = contains p (lower s)"

text \<open>\<^verbatim>\<open>s.split(c)\<close> at one character.\<close>

fun split_on :: "char \<Rightarrow> string \<Rightarrow> string list" where
  "split_on c [] = [[]]"
| "split_on c (x # xs) =
     (if x = c then [] # split_on c xs
      else (case split_on c xs of [] \<Rightarrow> [[x]] | w # ws \<Rightarrow> (x # w) # ws))"

text \<open>
  \<^verbatim>\<open>s.split(/[...]+/).filter(Boolean)\<close>: the maximal runs without a separator, here as the
  non-empty pieces between single separators. \<open>words_ws\<close> is the case of \<^verbatim>\<open>/\s+/\<close>.
\<close>

fun split_by :: "(char \<Rightarrow> bool) \<Rightarrow> string \<Rightarrow> string list" where
  "split_by p [] = [[]]"
| "split_by p (x # xs) =
     (if p x then [] # split_by p xs
      else (case split_by p xs of [] \<Rightarrow> [[x]] | w # ws \<Rightarrow> (x # w) # ws))"

definition words_by :: "(char \<Rightarrow> bool) \<Rightarrow> string \<Rightarrow> string list" where
  "words_by p s = filter (\<lambda>w. w \<noteq> []) (split_by p s)"

definition words_ws :: "string \<Rightarrow> string list" where
  "words_ws s = words_by is_ws s"

text \<open>\<^verbatim>\<open>s.replace(/c/g, d)\<close> for single characters, \<^verbatim>\<open>s.replace(/\/+$/, '')\<close>.\<close>

definition replace_char :: "char \<Rightarrow> char \<Rightarrow> string \<Rightarrow> string" where
  "replace_char c d s = map (\<lambda>x. if x = c then d else x) s"

definition strip_slashes :: "string \<Rightarrow> string" where
  "strip_slashes s = rev (dropWhile (\<lambda>c. c = CHR ''/'') (rev s))"

text \<open>\<^verbatim>\<open>v?.[0]\<close>\<close>

fun js_first :: "js \<Rightarrow> js" where
  "js_first (JArr (x # _)) = x"
| "js_first (JStr (c # _)) = JStr [c]"
| "js_first (JObj kvs) = jget (JObj kvs) ''0''"
| "js_first _ = JUndef"

text \<open>
  \<^verbatim>\<open>Number(v)\<close> where it is an integer; \<open>None\<close> is NaN. Strings are read as decimal numerals (the
  other numerals of JavaScript are outside the model), the empty one as 0.
\<close>

fun numeral_of :: "string \<Rightarrow> int option" where
  "numeral_of [] = Some 0"
| "numeral_of (c # s) =
     (case map_of (zip ''0123456789'' [0, 1, 2, 3, 4, 5, 6, 7, 8, 9]) c of
        None \<Rightarrow> None
      | Some d \<Rightarrow> map_option (\<lambda>n. d * 10 ^ length s + n) (numeral_of s))"

fun js_number :: "js \<Rightarrow> int option" where
  "js_number JUndef = None"
| "js_number JNull = Some 0"
| "js_number (JBool b) = Some (if b then 1 else 0)"
| "js_number (JNum n) = Some n"
| "js_number (JStr s) =
     (case trim s of
        c # d # r \<Rightarrow> (if c = CHR ''-'' then map_option uminus (numeral_of (d # r))
                     else if c = CHR ''+'' then numeral_of (d # r) else numeral_of (c # d # r))
      | r \<Rightarrow> numeral_of r)"
| "js_number _ = None"

section \<open>Insertion-ordered maps\<close>

text \<open>
  \<^verbatim>\<open>Map\<close> iterates in insertion order; setting an existing key keeps its position, deleting
  and setting again moves it to the end. The code relies on this order for eviction.
\<close>

type_synonym ('k, 'v) omap = "('k \<times> 'v) list"

definition om_get :: "('k, 'v) omap \<Rightarrow> 'k \<Rightarrow> 'v option" where
  "om_get m k = map_of m k"

definition om_delete :: "('k, 'v) omap \<Rightarrow> 'k \<Rightarrow> ('k, 'v) omap" where
  "om_delete m k = filter (\<lambda>p. fst p \<noteq> k) m"

fun om_set :: "('k, 'v) omap \<Rightarrow> 'k \<Rightarrow> 'v \<Rightarrow> ('k, 'v) omap" where
  "om_set [] k v = [(k, v)]"
| "om_set (p # m) k v = (if fst p = k then (k, v) # m else p # om_set m k v)"

definition om_keys :: "('k, 'v) omap \<Rightarrow> 'k list" where
  "om_keys m = map fst m"

definition om_ok :: "('k, 'v) omap \<Rightarrow> bool" where
  "om_ok m = distinct (om_keys m)"

section \<open>Asynchronous operations\<close>

text \<open>
  An \<^verbatim>\<open>async\<close> function runs on the process state and either throws or returns. State
  changes made before a throw persist.
\<close>

type_synonym ('s, 'e, 'a) io = "'s \<Rightarrow> ('e + 'a) \<times> 's"

definition io_return :: "'a \<Rightarrow> ('s, 'e, 'a) io" where
  "io_return a s = (Inr a, s)"

definition io_throw :: "'e \<Rightarrow> ('s, 'e, 'a) io" where
  "io_throw e s = (Inl e, s)"

definition io_bind :: "('s, 'e, 'a) io \<Rightarrow> ('a \<Rightarrow> ('s, 'e, 'b) io) \<Rightarrow> ('s, 'e, 'b) io" where
  "io_bind m f s = (case m s of (Inl e, t) \<Rightarrow> (Inl e, t) | (Inr a, t) \<Rightarrow> f a t)"

text \<open>\<^verbatim>\<open>try { m } catch (e) { h(e) }\<close>\<close>

definition io_catch :: "('s, 'e, 'a) io \<Rightarrow> ('e \<Rightarrow> ('s, 'e, 'a) io) \<Rightarrow> ('s, 'e, 'a) io" where
  "io_catch m h s = (case m s of (Inl e, t) \<Rightarrow> h e t | (Inr a, t) \<Rightarrow> (Inr a, t))"

text \<open>The outcome of \<open>m\<close> as a value: for a \<^verbatim>\<open>try\<close> whose two exits continue differently.\<close>

definition io_try :: "('s, 'e, 'a) io \<Rightarrow> ('s, 'e, 'e + 'a) io" where
  "io_try m s = (case m s of (r, t) \<Rightarrow> (Inr r, t))"

definition io_finally :: "('s, 'e, 'a) io \<Rightarrow> ('s, 'e, unit) io \<Rightarrow> ('s, 'e, 'a) io" where
  "io_finally m f s =
     (case m s of (r, t) \<Rightarrow> (case f t of (Inl e, u) \<Rightarrow> (Inl e, u) | (Inr _, u) \<Rightarrow> (r, u)))"

definition io_modify :: "('s \<Rightarrow> 's) \<Rightarrow> ('s, 'e, unit) io" where
  "io_modify f s = (Inr (), f s)"

definition io_read :: "('s \<Rightarrow> 'a) \<Rightarrow> ('s, 'e, 'a) io" where
  "io_read f s = (Inr (f s), s)"

lemmas io_defs [io_simps] =
  io_return_def io_throw_def io_bind_def io_catch_def io_try_def io_finally_def
  io_modify_def io_read_def

lemmas prelude_eval [eval_simps] = words_by_def words_ws_def is_ws_def trim_start_def trim_def lower_char_def lower_def
  starts_with_def contains_ci_def replace_char_def strip_slashes_def om_get_def om_delete_def
  om_keys_def om_ok_def int_str_def nat_str_def digits.simps Let_def

section \<open>Facts\<close>

lemma jget_not_object [js_simps]: "\<not> is_object v \<Longrightarrow> jget v k = JUndef"
  by (cases v) simp_all

lemma is_object_truthy [simp]: "is_object v \<Longrightarrow> truthy v"
  by (cases v) simp_all

lemma jget_size [termination_simp]: "is_object v \<Longrightarrow> jget v k \<noteq> JUndef \<Longrightarrow> size (jget v k) < size v"
proof (cases v)
  case (JObj kvs)
  assume "jget v k \<noteq> JUndef"
  with JObj obtain x where m: "map_of kvs k = Some x" and j: "jget v k = x"
    by (auto split: option.splits)
  from m have "(k, x) \<in> set kvs" by (rule map_of_SomeD)
  then have "size x < Suc (size_list (size_prod (\<lambda>_. 0) size) kvs)"
    by (induction kvs) auto
  then show ?thesis using JObj j by simp
qed simp_all

lemma jget_object_size [termination_simp]: "is_object (jget v k) \<Longrightarrow> size (jget v k) < size v"
  using jget_size [of v k] jget_not_object [of v k] by (metis is_object.simps(3))

lemma nullish_iff [js_simps]: "nullish v \<longleftrightarrow> v = JUndef \<or> v = JNull"
  by (cases v) simp_all

lemma as_str_Some [simp]: "as_str v = Some s \<longleftrightarrow> v = JStr s"
  by (cases v) simp_all

lemma as_num_Some [simp]: "as_num v = Some n \<longleftrightarrow> v = JNum n"
  by (cases v) simp_all

lemma starts_with_append: "starts_with p (p @ s)"
  by (simp add: starts_with_def)

lemma starts_withE:
  assumes "starts_with p s"
  obtains r where "s = p @ r"
  using assms by (metis append_take_drop_id starts_with_def)

lemma split_by_no_sep: "\<forall>w \<in> set (split_by p s). \<forall>c \<in> set w. \<not> p c"
  by (induction s) (auto split: list.splits)

lemma words_by_no_sep: "w \<in> set (words_by p s) \<Longrightarrow> w \<noteq> [] \<and> (\<forall>c \<in> set w. \<not> p c)"
  using split_by_no_sep by (auto simp: words_by_def)

lemma omap_keys_set: "set (om_keys (om_set m k v)) = insert k (set (om_keys m))"
  by (induction m) (auto simp: om_keys_def)

lemma om_get_set [omap_simps]:
  "om_get (om_set m k v) k' = (if k' = k then Some v else om_get m k')"
  by (induction m) (auto simp: om_get_def)

lemma om_get_delete [omap_simps]:
  "om_get (om_delete m k) k' = (if k' = k then None else om_get m k')"
  by (induction m) (auto simp: om_get_def om_delete_def)

lemma om_get_Nil [omap_simps]: "om_get [] k = None"
  by (simp add: om_get_def)

lemma om_get_None_iff: "om_get m k = None \<longleftrightarrow> k \<notin> set (om_keys m)"
  by (simp add: om_get_def om_keys_def map_of_eq_None_iff)

lemma om_get_in: "om_get m k = Some v \<Longrightarrow> (k, v) \<in> set m"
  by (simp add: om_get_def map_of_SomeD)

lemma om_ok_Nil [omap_simps]: "om_ok []"
  by (simp add: om_ok_def om_keys_def)

lemma om_ok_set [omap_simps]: "om_ok m \<Longrightarrow> om_ok (om_set m k v)"
proof (induction m)
  case Nil
  then show ?case by (simp add: om_ok_def om_keys_def)
next
  case (Cons p m)
  then show ?case using omap_keys_set [of m k v] by (auto simp: om_ok_def om_keys_def)
qed

lemma om_ok_delete [omap_simps]: "om_ok m \<Longrightarrow> om_ok (om_delete m k)"
  by (simp add: om_ok_def om_keys_def om_delete_def distinct_map_filter)

lemma om_set_absent: "k \<notin> set (om_keys m) \<Longrightarrow> om_set m k v = m @ [(k, v)]"
  by (induction m) (auto simp: om_keys_def)

lemma om_keys_delete [omap_simps]: "set (om_keys (om_delete m k)) = set (om_keys m) - {k}"
  by (auto simp: om_keys_def om_delete_def)

lemma om_delete_absent: "k \<notin> set (om_keys m) \<Longrightarrow> om_delete m k = m"
  by (induction m) (auto simp: om_keys_def om_delete_def)

lemma om_get_Some_iff: "om_ok m \<Longrightarrow> om_get m k = Some v \<longleftrightarrow> (k, v) \<in> set m"
  by (simp add: om_ok_def om_keys_def om_get_def)

lemma length_om_delete_le: "length (om_delete m k) \<le> length m"
  by (simp add: om_delete_def)

lemma length_om_delete_set: "length (om_set (om_delete m k) k v) = Suc (length (om_delete m k))"
  by (simp add: om_set_absent om_keys_delete)

section \<open>The interface of a keyed store\<close>

text \<open>
  What the caches rely on: a store answers the last value set for a key, deletion removes
  exactly one key, and both keep the store well formed.
\<close>

locale keyed_store =
  fixes sget :: "'m \<Rightarrow> 'k \<Rightarrow> 'v option"
    and sset :: "'m \<Rightarrow> 'k \<Rightarrow> 'v \<Rightarrow> 'm"
    and sdel :: "'m \<Rightarrow> 'k \<Rightarrow> 'm"
    and sempty :: 'm
    and sok :: "'m \<Rightarrow> bool"
  assumes get_empty: "sget sempty k = None"
    and get_set: "sok m \<Longrightarrow> sget (sset m k v) k' = (if k' = k then Some v else sget m k')"
    and get_del: "sok m \<Longrightarrow> sget (sdel m k) k' = (if k' = k then None else sget m k')"
    and ok_empty: "sok sempty"
    and ok_set: "sok m \<Longrightarrow> sok (sset m k v)"
    and ok_del: "sok m \<Longrightarrow> sok (sdel m k)"
begin

lemma set_after_delete: "sok m \<Longrightarrow> sget (sset (sdel m k) k v) k' = sget (sset m k v) k'"
  by (simp add: get_set get_del ok_del)

lemma delete_other: "sok m \<Longrightarrow> k' \<noteq> k \<Longrightarrow> sget (sdel m k) k' = sget m k'"
  by (simp add: get_del)

lemma hit_after_delete_unchanged: "sok m \<Longrightarrow> sget (sdel m k) k' = Some v \<Longrightarrow> sget m k' = Some v"
  by (simp add: get_del split: if_splits)

end

interpretation om: keyed_store om_get om_set om_delete "[]" om_ok
  by unfold_locales (simp_all add: omap_simps)

end
