(* ===== verification/Url.thy ===== *)
theory Url
  imports Prelude
begin

text \<open>
  \<^verbatim>\<open>new URL(s)\<close> as the sources use it: absolute URLs with an authority, of the schemes
  \<^verbatim>\<open>http\<close> and \<^verbatim>\<open>https\<close> (every URL the code parses is one, or is meant to fail). The
  scheme and the host are lower-cased, the scheme's default port is dropped and an empty
  path is \<^verbatim>\<open>/\<close>, as the URL standard says. Credentials, percent-encoding, dot segments and the
  other schemes are outside this model: there \<open>parse_url\<close> answers \<open>None\<close> or leaves the path as it is.
\<close>

record url =
  uProtocol :: string   \<comment> \<open>with its colon, as \<^verbatim>\<open>URL.protocol\<close>\<close>
  uHostname :: string
  uPort :: string
  uPathname :: string
  uSearch :: string     \<comment> \<open>with its question mark, empty when absent\<close>
  uHash :: string

definition break_at :: "(char \<Rightarrow> bool) \<Rightarrow> string \<Rightarrow> string \<times> string" where
  "break_at p s = (takeWhile (\<lambda>c. \<not> p c) s, dropWhile (\<lambda>c. \<not> p c) s)"

definition is_digit :: "char \<Rightarrow> bool" where
  "is_digit c = (c \<in> set ''0123456789'')"

definition default_port :: "string \<Rightarrow> string" where
  "default_port scheme = (if scheme = ''https:'' then ''443'' else ''80'')"

definition drop_lone :: "string \<Rightarrow> string" where
  "drop_lone s = (if length s \<le> 1 then [] else s)"

definition valid_host :: "string \<Rightarrow> bool" where
  "valid_host h = (h \<noteq> [] \<and> list_all (\<lambda>c. \<not> is_ws c \<and> c \<notin> set ''@<>[]^|%'') h)"

definition parse_rest :: "string \<Rightarrow> string \<Rightarrow> url option" where
  "parse_rest scheme s =
     (let (auth, r1) = break_at (\<lambda>c. c \<in> set ''/?#'') s;
          (host, portp) = break_at (\<lambda>c. c = CHR '':'') auth;
          port = drop 1 portp;
          (path, r2) = break_at (\<lambda>c. c \<in> set ''?#'') r1;
          (query, frag) = break_at (\<lambda>c. c = CHR ''#'') r2
      in if \<not> valid_host host \<or> \<not> list_all is_digit port then None
         else Some \<lparr> uProtocol = scheme, uHostname = lower host,
                     uPort = (if port = default_port scheme then [] else port),
                     uPathname = (if path = [] then ''/'' else path),
                     uSearch = drop_lone query, uHash = drop_lone frag \<rparr>)"

definition parse_url :: "string \<Rightarrow> url option" where
  "parse_url s0 =
     (let s = trim s0
      in if lower (take 8 s) = ''https://'' then parse_rest ''https:'' (drop 8 s)
         else if lower (take 7 s) = ''http://'' then parse_rest ''http:'' (drop 7 s)
         else None)"

definition url_host :: "url \<Rightarrow> string" where
  "url_host u = uHostname u @ (if uPort u = [] then [] else '':'' @ uPort u)"

definition url_origin :: "url \<Rightarrow> string" where
  "url_origin u = uProtocol u @ ''//'' @ url_host u"

definition url_str :: "url \<Rightarrow> string" where
  "url_str u = url_origin u @ uPathname u @ uSearch u @ uHash u"

lemmas url_eval [eval_simps] = parse_url_def parse_rest_def break_at_def valid_host_def drop_lone_def
  default_port_def is_digit_def url_str_def url_origin_def url_host_def

section \<open>Facts\<close>

lemma parse_rest_protocol: "parse_rest sch s = Some u \<Longrightarrow> uProtocol u = sch"
  by (auto simp: parse_rest_def Let_def split: prod.splits if_splits)

lemma parse_url_protocol: "parse_url s = Some u \<Longrightarrow> uProtocol u \<in> {''https:'', ''http:''}"
  by (auto simp: parse_url_def Let_def dest: parse_rest_protocol split: if_splits)

end
