(* ===== verification/Runtime.thy ===== *)
theory Runtime
  imports Url
begin

text \<open>
  What the services share at run time: the errors they throw
  (\<^verbatim>\<open>packages/auth-curity/src/errors.ts\<close>, \<^verbatim>\<open>packages/a2a-helpers/src/step-up-error.ts\<close>),
  the HTTP messages, the platform a process calls (clock, network, the \<^verbatim>\<open>jose\<close> package, the
  OpenTelemetry span context) and the module-level state of \<^verbatim>\<open>auth-curity\<close>.
\<close>

section \<open>Errors\<close>

datatype auth_code =
    AccessDenied | CimdUnsupported | DiscoveryFailed | ExchangeFailed | ExpiredToken
  | InvalidActor | InvalidAudience | InvalidClient | InvalidGrant | InvalidIssuer
  | InvalidScope | InvalidToken | JwksFailed | ResourceMismatch | ScopeUnavailable
  | StepUpRequiredCode
  | PrototypeMember string  \<comment> \<open>a member of \<^verbatim>\<open>Object.prototype\<close> standing where a code should\<close>

fun code_str :: "auth_code \<Rightarrow> string" where
  "code_str AccessDenied = ''access_denied''"
| "code_str CimdUnsupported = ''cimd_unsupported''"
| "code_str DiscoveryFailed = ''discovery_failed''"
| "code_str ExchangeFailed = ''exchange_failed''"
| "code_str ExpiredToken = ''expired_token''"
| "code_str InvalidActor = ''invalid_actor''"
| "code_str InvalidAudience = ''invalid_audience''"
| "code_str InvalidClient = ''invalid_client''"
| "code_str InvalidGrant = ''invalid_grant''"
| "code_str InvalidIssuer = ''invalid_issuer''"
| "code_str InvalidScope = ''invalid_scope''"
| "code_str InvalidToken = ''invalid_token''"
| "code_str JwksFailed = ''jwks_failed''"
| "code_str ResourceMismatch = ''resource_mismatch''"
| "code_str ScopeUnavailable = ''scope_unavailable''"
| "code_str StepUpRequiredCode = ''step_up_required''"
| "code_str (PrototypeMember m) = ''function '' @ m @ ''() { [native code] }''"

text \<open>The members of the challenge; an agent passes on the values it was given, whatever their type.\<close>

record step_up_fields =
  acrValues :: js
  resourceMetadata :: js
  suScope :: js

text \<open>
  A thrown value: the error classes of the sources, any other \<^verbatim>\<open>Error\<close> with its name, or a
  value that is no \<^verbatim>\<open>Error\<close> at all.
\<close>

datatype exn =
    CurityAuthError string auth_code
  | DpopProofError string
  | StepUpRequiredError step_up_fields
  | JsError string string
  | Thrown js

definition step_up_message :: "step_up_fields \<Rightarrow> string" where
  "step_up_message f = ''step-up required: acr_values='' @ js_string (acrValues f)"

fun is_Error :: "exn \<Rightarrow> bool" where
  "is_Error (Thrown _) = False"
| "is_Error _ = True"

text \<open>\<^verbatim>\<open>(e as Error).message\<close> as a string (\<^verbatim>\<open>undefined\<close> when there is none).\<close>

fun message_of :: "exn \<Rightarrow> string" where
  "message_of (CurityAuthError m _) = m"
| "message_of (DpopProofError m) = m"
| "message_of (StepUpRequiredError f) = step_up_message f"
| "message_of (JsError _ m) = m"
| "message_of (Thrown v) = js_string (jget v ''message'')"

text \<open>\<^verbatim>\<open>String(e)\<close>\<close>

fun exn_string :: "exn \<Rightarrow> string" where
  "exn_string (CurityAuthError m _) = ''CurityAuthError: '' @ m"
| "exn_string (DpopProofError m) = ''DpopProofError: '' @ m"
| "exn_string (StepUpRequiredError f) = ''StepUpRequiredError: '' @ step_up_message f"
| "exn_string (JsError n m) = (if m = [] then n else n @ '': '' @ m)"
| "exn_string (Thrown v) = js_string v"

text \<open>\<^verbatim>\<open>e instanceof Error ? e.message : String(e)\<close>\<close>

definition error_text :: "exn \<Rightarrow> string" where
  "error_text e = (if is_Error e then message_of e else exn_string e)"

definition type_error :: "string \<Rightarrow> exn" where
  "type_error m = JsError ''TypeError'' m"

text \<open>\<^verbatim>\<open>required(name)\<close> of every service's \<^verbatim>\<open>config.ts\<close>, on an environment; \<open>sum_bind\<close> sequences fallible steps.\<close>

definition required_env :: "(string \<Rightarrow> string option) \<Rightarrow> string \<Rightarrow> exn + string" where
  "required_env env k =
     (case env k of
        Some v \<Rightarrow> if v = [] then Inl (JsError ''Error'' (''Missing required env var: '' @ k)) else Inr v
      | None \<Rightarrow> Inl (JsError ''Error'' (''Missing required env var: '' @ k)))"

definition sum_bind :: "'e + 'a \<Rightarrow> ('a \<Rightarrow> 'e + 'b) \<Rightarrow> 'e + 'b" where
  "sum_bind r f = (case r of Inl e \<Rightarrow> Inl e | Inr a \<Rightarrow> f a)"

section \<open>HTTP messages\<close>

record http_req =
  qMethod :: string
  qUrl :: string
  qHeaders :: "(string \<times> string) list"
  qBody :: string

text \<open>
  A response of \<^verbatim>\<open>fetch\<close>. Its body is what \<^verbatim>\<open>response.json()\<close> gives: a value, or the error it
  rejects with. Header names are lower case, as \<^verbatim>\<open>Headers\<close> stores them.
\<close>

record http_rsp =
  pStatus :: int
  pStatusText :: string
  pHeaders :: "(string \<times> string) list"
  pJson :: "exn + js"

definition rsp_ok :: "http_rsp \<Rightarrow> bool" where
  "rsp_ok r = (200 \<le> pStatus r \<and> pStatus r \<le> 299)"

definition rsp_header :: "http_rsp \<Rightarrow> string \<Rightarrow> string option" where
  "rsp_header r k = map_of (pHeaders r) k"

text \<open>What an express handler answers with.\<close>

record http_res =
  rStatus :: int
  rHeaders :: "(string \<times> string) list"
  rBody :: js

section \<open>Observable effects\<close>

text \<open>
  \<open>KeySet\<close> records that \<^verbatim>\<open>jose\<close> was handed the key set at a URI, which it downloads unless it still has it; requests the
  program's own code makes are \<open>Request\<close>.
\<close>

datatype effect =
    Request http_req
  | KeySet string
  | K8sCall string "js list"
  | Console string
  | ConsoleError string
  | SpanStart string "(string \<times> js) list"
  | SpanAttrs "(string \<times> js) list"
  | SpanStatusOk
  | SpanStatusError string
  | SpanException exn
  | SpanEnd

record span_ctx =
  ctxValid :: bool
  ctxTraceId :: string
  ctxSpanId :: string

section \<open>The platform\<close>

text \<open>
  What a process calls and does not define: the clock, randomness, the network, and the
  functions of \<^verbatim>\<open>jose\<close> and \<^verbatim>\<open>node:crypto\<close> over a world \<open>'w\<close>. \<open>'j\<close> is a remote key set.
  \<open>jsonSegment\<close> is \<^verbatim>\<open>JSON.parse(Buffer.from(s, 'base64url').toString())\<close>, \<open>None\<close> when it throws.
\<close>

record jwt_expect =
  jxIssuer :: string
  jxAudience :: string
  jxAlgorithms :: "string list"
  jxTolerance :: int

record ('w, 'j) platform =
  dateNow :: "'w \<Rightarrow> int \<times> 'w"
  isoTime :: "int \<Rightarrow> string"
  randomUUID :: "'w \<Rightarrow> string \<times> 'w"
  fetchHttp :: "http_req \<Rightarrow> 'w \<Rightarrow> (exn + http_rsp) \<times> 'w"
  newSpan :: "string \<Rightarrow> 'w \<Rightarrow> span_ctx \<times> 'w"
  createRemoteJWKSet :: "string \<Rightarrow> 'j"
  jwtVerify :: "string \<Rightarrow> 'j \<Rightarrow> jwt_expect \<Rightarrow> 'w \<Rightarrow> (exn + js \<times> js) \<times> 'w"
  jsonSegment :: "string \<Rightarrow> js option"
  decodeJwt :: "string \<Rightarrow> js option"
  decodeProtectedHeader :: "string \<Rightarrow> js option"
  jwtVerifyEmbedded :: "string \<Rightarrow> string \<Rightarrow> string list \<Rightarrow> 'w \<Rightarrow> (exn + js) \<times> 'w"
  jwkThumbprint :: "js \<Rightarrow> exn + string"
  sha256 :: "string \<Rightarrow> string"
  importPKCS8 :: "string \<Rightarrow> string \<Rightarrow> exn + string"
  exportJWK :: "string \<Rightarrow> js"
  generateKeyPair :: "string \<Rightarrow> 'w \<Rightarrow> (string \<times> string) \<times> 'w"
  signJwt :: "string \<Rightarrow> js \<Rightarrow> js \<Rightarrow> exn + string"
  oboOff :: bool

section \<open>Process state\<close>

text \<open>
  The module-level state of \<^verbatim>\<open>auth-curity\<close> in a process: the key sets by URI, the discovery
  documents by issuer, the nonce remembered on each DPoP key (by its thumbprint), the stack
  of active spans, and what the process has emitted.
\<close>

record ('w, 'j) proc =
  world :: 'w
  out :: "effect list"
  spans :: "span_ctx list"
  jwksCache :: "(string, 'j) omap"
  oidcCache :: "(string, js \<times> int) omap"
  dpopNonces :: "(string, string) omap"

type_synonym ('w, 'j, 'z, 'a) act = "(('w, 'j, 'z) proc_scheme, exn, 'a) io"

definition world_get :: "('w \<Rightarrow> 'a \<times> 'w) \<Rightarrow> ('w, 'j, 'z, 'a) act" where
  "world_get f s = (case f (world s) of (a, w) \<Rightarrow> (Inr a, s\<lparr>world := w\<rparr>))"

definition world_try :: "('w \<Rightarrow> (exn + 'a) \<times> 'w) \<Rightarrow> ('w, 'j, 'z, 'a) act" where
  "world_try f s = (case f (world s) of (r, w) \<Rightarrow> (r, s\<lparr>world := w\<rparr>))"

definition emit :: "effect \<Rightarrow> ('w, 'j, 'z, unit) act" where
  "emit x s = (Inr (), s\<lparr>out := out s @ [x]\<rparr>)"

definition active_span :: "('w, 'j, 'z) proc_scheme \<Rightarrow> span_ctx option" where
  "active_span s = (case spans s of [] \<Rightarrow> None | c # _ \<Rightarrow> Some c)"

text \<open>\<^verbatim>\<open>trace.getActiveSpan()?.setAttributes(attrs)\<close>\<close>

definition set_active_attrs :: "(string \<times> js) list \<Rightarrow> ('w, 'j, 'z, unit) act" where
  "set_active_attrs as s =
     (case active_span s of None \<Rightarrow> (Inr (), s) | Some _ \<Rightarrow> emit (SpanAttrs as) s)"

text \<open>\<^verbatim>\<open>await fetch(url, init)\<close>: the request becomes visible, then the network answers.\<close>

definition http_fetch :: "('w, 'j) platform \<Rightarrow> http_req \<Rightarrow> ('w, 'j, 'z, http_rsp) act" where
  "http_fetch P q = io_bind (emit (Request q)) (\<lambda>_. world_try (fetchHttp P q))"

text \<open>
  \<^verbatim>\<open>tracer.startActiveSpan(name, { attributes }, fn)\<close>: \<open>fn\<close> runs with the new span active; the
  previous one is active again afterwards, whichever way \<open>fn\<close> ends.
\<close>

definition pop_span :: "('w, 'j, 'z, unit) act" where
  "pop_span s = (Inr (), s\<lparr>spans := tl (spans s)\<rparr>)"

definition with_active_span ::
  "('w, 'j) platform \<Rightarrow> string \<Rightarrow> (string \<times> js) list \<Rightarrow> ('w, 'j, 'z, 'a) act \<Rightarrow> ('w, 'j, 'z, 'a) act" where
  "with_active_span P nm as body =
     io_bind (world_get (newSpan P nm)) (\<lambda>ctx.
     io_bind (emit (SpanStart nm as)) (\<lambda>_.
     io_bind (io_modify (\<lambda>s. s\<lparr>spans := ctx # spans s\<rparr>)) (\<lambda>_.
       io_finally body pop_span)))"

text \<open>A guard: throw unless the condition holds.\<close>

definition require_that :: "bool \<Rightarrow> exn \<Rightarrow> ('s, exn, unit) io" where
  "require_that b e = (if b then io_return () else io_throw e)"

text \<open>\<^verbatim>\<open>v.k\<close>, which throws on null and undefined.\<close>

definition prop_of :: "js \<Rightarrow> string \<Rightarrow> ('s, exn, js) io" where
  "prop_of v k =
     (if nullish v then io_throw (type_error (''Cannot read properties of '' @ js_string v))
      else io_return (jget v k))"

definition lift_sum :: "exn + 'a \<Rightarrow> ('s, exn, 'a) io" where
  "lift_sum r s = (r, s)"

lemmas rt_defs [io_simps] = world_get_def world_try_def emit_def set_active_attrs_def
  prop_of_def lift_sum_def

text \<open>
  A concrete platform over a clock, for closed instances of the theorems: the network is
  \<open>net\<close>, tokens (and their payload segments) are read by \<open>tok\<close>, every key has the thumbprint
  \<^verbatim>\<open>jkt\<close> and hashing is the identity.
\<close>

definition fixture ::
  "(http_req \<Rightarrow> int \<Rightarrow> (exn + http_rsp) \<times> int) \<Rightarrow> (string \<Rightarrow> js option) \<Rightarrow> (int, string) platform" where
  "fixture net tok =
     \<lparr> dateNow = (\<lambda>w. (w, w)), isoTime = (\<lambda>_. ''now''), randomUUID = (\<lambda>w. (''id'', w)),
       fetchHttp = net, newSpan = (\<lambda>_ w. (\<lparr> ctxValid = True, ctxTraceId = ''t'', ctxSpanId = ''s'' \<rparr>, w)),
       createRemoteJWKSet = (\<lambda>u. u),
       jwtVerify = (\<lambda>t _ _ w. ((case tok t of None \<Rightarrow> Inl (JsError ''JWSInvalid'' ''bad token'')
                                        | Some p \<Rightarrow> Inr (p, JObj [(''alg'', JStr ''RS256'')])), w)),
       jsonSegment = tok, decodeJwt = tok,
       decodeProtectedHeader = (\<lambda>_. Some (JObj [(''jwk'', JObj [(''kty'', JStr ''EC'')])])),
       jwtVerifyEmbedded = (\<lambda>t _ _ w. ((case tok t of None \<Rightarrow> Inl (JsError ''JWSInvalid'' ''bad proof'')
                                                   | Some p \<Rightarrow> Inr p), w)),
       jwkThumbprint = (\<lambda>_. Inr ''jkt''), sha256 = (\<lambda>t. t),
       importPKCS8 = (\<lambda>pem _. Inr pem), exportJWK = (\<lambda>_. JObj [(''kty'', JStr ''EC'')]),
       generateKeyPair = (\<lambda>_ w. ((''priv'', ''pub''), w)),
       signJwt = (\<lambda>_ _ _. Inr ''signed''), oboOff = False \<rparr>"

definition no_net :: "http_req \<Rightarrow> int \<Rightarrow> (exn + http_rsp) \<times> int" where
  "no_net q w = (Inl (JsError ''TypeError'' ''fetch failed''), w)"

definition idle :: "int \<Rightarrow> (int, string) proc" where
  "idle w = \<lparr> world = w, out = [], spans = [], jwksCache = [], oidcCache = [], dpopNonces = [] \<rparr>"

lemmas runtime_eval [eval_simps] = io_defs rt_defs step_up_message_def error_text_def type_error_def
  rsp_ok_def rsp_header_def active_span_def http_fetch_def pop_span_def with_active_span_def
  require_that_def fixture_def no_net_def idle_def required_env_def sum_bind_def

text \<open>
  What an operation adds to the effects of its process: \<open>does m Q\<close> says that every run of \<open>m\<close>
  appends a list of effects that satisfies \<open>Q\<close> together with the outcome.
\<close>

definition does :: "('w, 'j, 'z, 'a) act \<Rightarrow> (effect list \<Rightarrow> exn + 'a \<Rightarrow> bool) \<Rightarrow> bool" where
  "does m Q = (\<forall>s r t. m s = (r, t) \<longrightarrow> (\<exists>es. out t = out s @ es \<and> Q es r))"

fun requests :: "effect list \<Rightarrow> http_req list" where
  "requests [] = []"
| "requests (Request q # es) = q # requests es"
| "requests (_ # es) = requests es"

fun consoles :: "effect list \<Rightarrow> string list" where
  "consoles [] = []"
| "consoles (Console l # es) = l # consoles es"
| "consoles (_ # es) = consoles es"

fun k8s_calls :: "effect list \<Rightarrow> (string \<times> js list) list" where
  "k8s_calls [] = []"
| "k8s_calls (K8sCall op args # es) = (op, args) # k8s_calls es"
| "k8s_calls (_ # es) = k8s_calls es"

fun key_sets :: "effect list \<Rightarrow> string list" where
  "key_sets [] = []"
| "key_sets (KeySet u # es) = u # key_sets es"
| "key_sets (_ # es) = key_sets es"

section \<open>Facts\<close>

named_theorems does_intros \<open>what each operation adds to the effects\<close>

lemma requests_append [simp]: "requests (xs @ ys) = requests xs @ requests ys"
  by (induction xs rule: requests.induct) simp_all

lemma consoles_append [simp]: "consoles (xs @ ys) = consoles xs @ consoles ys"
  by (induction xs rule: consoles.induct) simp_all

lemma k8s_calls_append [simp]: "k8s_calls (xs @ ys) = k8s_calls xs @ k8s_calls ys"
  by (induction xs rule: k8s_calls.induct) simp_all

lemma key_sets_append [simp]: "key_sets (xs @ ys) = key_sets xs @ key_sets ys"
  by (induction xs rule: key_sets.induct) simp_all

lemma doesI: "(\<And>s r t. m s = (r, t) \<Longrightarrow> \<exists>es. out t = out s @ es \<and> Q es r) \<Longrightarrow> does m Q"
  by (simp add: does_def)

lemma doesD: "does m Q \<Longrightarrow> m s = (r, t) \<Longrightarrow> \<exists>es. out t = out s @ es \<and> Q es r"
  by (simp add: does_def)

lemma does_conseq: "does m Q \<Longrightarrow> (\<And>es r. Q es r \<Longrightarrow> R es r) \<Longrightarrow> does m R"
  unfolding does_def by blast

lemma does_return: "does (io_return a) (\<lambda>es r. es = [] \<and> r = Inr a)"
  by (simp add: does_def io_simps)

lemma does_throw: "does (io_throw e) (\<lambda>es r. es = [] \<and> r = Inl e)"
  by (simp add: does_def io_simps)

lemma does_emit: "does (emit x) (\<lambda>es r. es = [x] \<and> r = Inr ())"
  by (simp add: does_def io_simps)

lemma does_world_get: "does (world_get f) (\<lambda>es r. es = [] \<and> (\<exists>a. r = Inr a))"
  by (auto simp: does_def io_simps split: prod.splits)

lemma does_world_try: "does (world_try f) (\<lambda>es r. es = [])"
  by (auto simp: does_def io_simps split: prod.splits)

lemma does_read: "does (io_read f) (\<lambda>es r. es = [] \<and> (\<exists>a. r = Inr a))"
  by (simp add: does_def io_simps)

lemma does_lift_sum: "does (lift_sum x) (\<lambda>es r. es = [] \<and> r = x)"
  by (simp add: does_def io_simps)

lemma does_bind:
  assumes "does m Q" and "\<And>a. does (f a) (R a)"
  shows "does (io_bind m f)
     (\<lambda>es r. (\<exists>e. r = Inl e \<and> Q es (Inl e))
           \<or> (\<exists>a es1 es2. es = es1 @ es2 \<and> Q es1 (Inr a) \<and> R a es2 r))"
proof (rule doesI)
  fix s r t assume h: "io_bind m f s = (r, t)"
  obtain x u where m: "m s = (x, u)" by fastforce
  obtain es1 where e1: "out u = out s @ es1" "Q es1 x" using doesD [OF assms(1) m] by blast
  show "\<exists>es. out t = out s @ es \<and> ((\<exists>e. r = Inl e \<and> Q es (Inl e))
      \<or> (\<exists>a es1 es2. es = es1 @ es2 \<and> Q es1 (Inr a) \<and> R a es2 r))"
  proof (cases x)
    case (Inl e)
    then show ?thesis using h m e1 by (auto simp: io_bind_def)
  next
    case (Inr a)
    then have "f a u = (r, t)" using h m by (simp add: io_bind_def)
    then obtain es2 where "out t = out u @ es2" "R a es2 r" using doesD [OF assms(2)] by blast
    then show ?thesis using e1 Inr by auto
  qed
qed

lemma does_catch:
  assumes "does m Q" and "\<And>e. does (h e) (R e)"
  shows "does (io_catch m h)
     (\<lambda>es r. (\<exists>a. r = Inr a \<and> Q es (Inr a))
           \<or> (\<exists>e es1 es2. es = es1 @ es2 \<and> Q es1 (Inl e) \<and> R e es2 r))"
proof (rule doesI)
  fix s r t assume h: "io_catch m h s = (r, t)"
  obtain x u where m: "m s = (x, u)" by fastforce
  obtain es1 where e1: "out u = out s @ es1" "Q es1 x" using doesD [OF assms(1) m] by blast
  show "\<exists>es. out t = out s @ es \<and> ((\<exists>a. r = Inr a \<and> Q es (Inr a))
      \<or> (\<exists>e es1 es2. es = es1 @ es2 \<and> Q es1 (Inl e) \<and> R e es2 r))"
  proof (cases x)
    case (Inr a)
    then show ?thesis using h m e1 by (auto simp: io_catch_def)
  next
    case (Inl e)
    then have "h e u = (r, t)" using h m by (simp add: io_catch_def)
    then obtain es2 where "out t = out u @ es2" "R e es2 r" using doesD [OF assms(2)] by blast
    then show ?thesis using e1 Inl by auto
  qed
qed

lemma does_finally:
  assumes "does m Q" and "does f (\<lambda>es r. R es \<and> r = Inr ())"
  shows "does (io_finally m f) (\<lambda>es r. \<exists>es1 es2. es = es1 @ es2 \<and> Q es1 r \<and> R es2)"
proof (rule doesI)
  fix s r t assume h: "io_finally m f s = (r, t)"
  obtain x u where m: "m s = (x, u)" by fastforce
  obtain es1 where e1: "out u = out s @ es1" "Q es1 x" using doesD [OF assms(1) m] by blast
  obtain y v where f: "f u = (y, v)" by fastforce
  obtain es2 where "out v = out u @ es2" "R es2" "y = Inr ()" using doesD [OF assms(2) f] by blast
  then show "\<exists>es. out t = out s @ es \<and> (\<exists>es1 es2. es = es1 @ es2 \<and> Q es1 r \<and> R es2)"
    using h m f e1 by (auto simp: io_finally_def)
qed

lemma does_http_fetch [does_intros]: "does (http_fetch P q) (\<lambda>es r. es = [Request q])"
  unfolding http_fetch_def
  by (rule does_conseq [OF does_bind [OF does_emit does_world_try]]) auto

lemma does_require_that:
  "does (require_that b e) (\<lambda>es r. es = [] \<and> (if b then r = Inr () else r = Inl e))"
  by (simp add: require_that_def does_def io_simps)

lemma does_prop_of: "does (prop_of v k) (\<lambda>es r. es = [])"
  by (simp add: prop_of_def does_def io_simps)

lemma does_with_active_span:
  assumes "does m Q"
  shows "does (with_active_span P nm as m) (\<lambda>es r. \<exists>es1. es = SpanStart nm as # es1 \<and> Q es1 r)"
proof (rule doesI)
  fix s r t assume h: "with_active_span P nm as m s = (r, t)"
  obtain ctx w where n: "newSpan P nm (world s) = (ctx, w)" by fastforce
  define s' where "s' = s\<lparr>world := w, out := out s @ [SpanStart nm as], spans := ctx # spans s\<rparr>"
  obtain x u where m: "m s' = (x, u)" by fastforce
  obtain es1 where "out u = out s' @ es1" "Q es1 x" using doesD [OF assms m] by blast
  then show "\<exists>es. out t = out s @ es \<and> (\<exists>es1. es = SpanStart nm as # es1 \<and> Q es1 r)"
    using h n m by (auto simp: with_active_span_def io_simps pop_span_def s'_def)
qed

lemma code_str_inj_codes:
  "code_str c = code_str d \<Longrightarrow> (\<forall>m. c \<noteq> PrototypeMember m) \<Longrightarrow> (\<forall>m. d \<noteq> PrototypeMember m) \<Longrightarrow> c = d"
  by (cases c; cases d; simp)

lemma error_text_Error [simp]: "is_Error e \<Longrightarrow> error_text e = message_of e"
  by (simp add: error_text_def)

text \<open>
  \<open>emits p m\<close>: every effect \<open>m\<close> adds satisfies \<open>p\<close>. Its rules follow the shape of the code, so
  that frame facts (no request, no call of the cluster) are discharged by \<open>emits_intros\<close>.
\<close>

definition emits :: "(effect \<Rightarrow> bool) \<Rightarrow> ('w, 'j, 'z, 'a) act \<Rightarrow> bool" where
  "emits p m = does m (\<lambda>es r. list_all p es)"

named_theorems emits_intros \<open>frame rules for the effects of an operation\<close>

lemma emitsD: "emits p m \<Longrightarrow> m s = (r, t) \<Longrightarrow> \<exists>es. out t = out s @ es \<and> list_all p es"
  unfolding emits_def by (drule doesD) auto

lemma emits_bind [emits_intros]: "emits p m \<Longrightarrow> (\<And>a. emits p (f a)) \<Longrightarrow> emits p (io_bind m f)"
  unfolding emits_def by (rule does_conseq [OF does_bind]) auto

lemma emits_catch [emits_intros]: "emits p m \<Longrightarrow> (\<And>e. emits p (h e)) \<Longrightarrow> emits p (io_catch m h)"
  unfolding emits_def by (rule does_conseq [OF does_catch]) auto

lemma emits_finally [emits_intros]:
  assumes "emits p m" "emits p f"
  shows "emits p (io_finally m f)"
  unfolding emits_def
proof (rule doesI)
  fix s r t assume h: "io_finally m f s = (r, t)"
  obtain x u where m: "m s = (x, u)" by fastforce
  obtain y v where f: "f u = (y, v)" by fastforce
  obtain es1 where "out u = out s @ es1" "list_all p es1" using emitsD [OF assms(1) m] by blast
  moreover obtain es2 where "out v = out u @ es2" "list_all p es2" using emitsD [OF assms(2) f] by blast
  moreover have "t = v" using h m f by (auto simp: io_finally_def split: sum.splits)
  ultimately show "\<exists>es. out t = out s @ es \<and> list_all p es" by auto
qed

lemma emits_atoms [emits_intros]:
  "emits p (io_return a)" "emits p (io_throw e)" "emits p (world_get f)" "emits p (world_try g)"
  "emits p (io_read h)" "emits p (lift_sum x)" "emits p (require_that b e)" "emits p (prop_of v k)"
  by (auto simp: emits_def does_def io_simps require_that_def split: prod.splits)

lemma emits_emit [emits_intros]: "p x \<Longrightarrow> emits p (emit x)"
  by (simp add: emits_def does_def io_simps)

lemma emits_set_active [emits_intros]: "(\<And>a. p (SpanAttrs a)) \<Longrightarrow> emits p (set_active_attrs as)"
  by (auto simp: emits_def does_def io_simps split: option.splits)

lemma emits_http_fetch [emits_intros]: "p (Request q) \<Longrightarrow> emits p (http_fetch P q)"
  unfolding http_fetch_def by (intro emits_intros)

lemma emits_with_active_span [emits_intros]:
  "p (SpanStart nm as) \<Longrightarrow> emits p m \<Longrightarrow> emits p (with_active_span P nm as m)"
  unfolding emits_def by (rule does_conseq [OF does_with_active_span]) auto

lemma emits_if [emits_intros]: "(b \<Longrightarrow> emits p m) \<Longrightarrow> (\<not> b \<Longrightarrow> emits p n) \<Longrightarrow> emits p (if b then m else n)"
  by simp

lemma emits_option [emits_intros]:
  "emits p m \<Longrightarrow> (\<And>x. emits p (f x)) \<Longrightarrow> emits p (case v of None \<Rightarrow> m | Some x \<Rightarrow> f x)"
  by (cases v) simp_all

lemma emits_mono: "emits p m \<Longrightarrow> (\<And>x. p x \<Longrightarrow> q x) \<Longrightarrow> emits q m"
  unfolding emits_def by (erule does_conseq) (auto simp: list_all_iff)

definition no_k8s :: "effect \<Rightarrow> bool" where
  "no_k8s x = (\<forall>op args. x \<noteq> K8sCall op args)"

lemma no_k8s_calls: "list_all no_k8s es \<Longrightarrow> k8s_calls es = []"
  by (induction es rule: k8s_calls.induct) (simp_all add: no_k8s_def)

lemma no_k8s_simps [simp]:
  "no_k8s (Request q)" "no_k8s (KeySet u)" "no_k8s (Console l)" "no_k8s (ConsoleError l)" "no_k8s (SpanStart n as)"
  "no_k8s (SpanAttrs as)" "no_k8s SpanStatusOk" "no_k8s (SpanStatusError m)"
  "no_k8s (SpanException e)" "no_k8s SpanEnd" "\<not> no_k8s (K8sCall op args)"
  by (simp_all add: no_k8s_def)

definition no_request :: "effect \<Rightarrow> bool" where
  "no_request x = (\<forall>q. x \<noteq> Request q)"

lemma no_request_requests: "list_all no_request es \<Longrightarrow> requests es = []"
  by (induction es rule: requests.induct) (simp_all add: no_request_def)

lemma no_request_simps [simp]:
  "\<not> no_request (Request q)" "no_request (KeySet u)" "no_request (Console l)" "no_request (ConsoleError l)" "no_request (SpanStart n as)"
  "no_request (SpanAttrs as)" "no_request SpanStatusOk" "no_request (SpanStatusError m)"
  "no_request (SpanException e)" "no_request SpanEnd" "no_request (K8sCall op args)"
  by (simp_all add: no_request_def)

text \<open>Only key sets of \<open>U\<close> are consulted.\<close>

definition keys_from :: "string set \<Rightarrow> effect \<Rightarrow> bool" where
  "keys_from U x = (\<forall>u. x = KeySet u \<longrightarrow> u \<in> U)"

lemma keys_from_sets: "list_all (keys_from U) es \<Longrightarrow> set (key_sets es) \<subseteq> U"
  by (induction es rule: key_sets.induct) (simp_all add: keys_from_def)

lemma keys_from_simps [simp]:
  "keys_from U (Request q)" "keys_from U (KeySet u) \<longleftrightarrow> u \<in> U" "keys_from U (Console l)" "keys_from U (ConsoleError l)"
  "keys_from U (SpanStart n as)" "keys_from U (SpanAttrs as)" "keys_from U SpanStatusOk" "keys_from U (SpanStatusError m)"
  "keys_from U (SpanException e)" "keys_from U SpanEnd" "keys_from U (K8sCall op args)"
  by (simp_all add: keys_from_def)

end
