(* ===== verification/Verify.thy ===== *)
theory Verify
  imports Runtime
begin

text \<open>
  \<^verbatim>\<open>packages/auth-curity/src/verify.ts\<close>: verification of an access token against an issuer,
  an audience and a key set, the classification of its failures, the per-URI cache of key
  sets, and the reading of the scope claims. The cryptographic check is the platform's
  \<open>jwtVerify\<close>.
\<close>

record verified_jwt =
  vPayload :: js
  vHeader :: js
  vScopes :: "js list"

record verify_options =
  voIssuer :: string
  voAudience :: string
  voJwksUri :: "string option"
  voAlgorithms :: "string list option"
  voTolerance :: "int option"

text \<open>
  \<^verbatim>\<open>new Set(xs)\<close>, in insertion order. Primitive values are equal by value; every object of
  the list is a value of its own.
\<close>

fun js_set_from :: "js list \<Rightarrow> js list \<Rightarrow> js list" where
  "js_set_from seen [] = []"
| "js_set_from seen (x # xs) =
     (if \<not> is_object x \<and> x \<in> set seen then js_set_from seen xs
      else x # js_set_from (x # seen) xs)"

definition js_set :: "js list \<Rightarrow> js list" where
  "js_set xs = js_set_from [] xs"

definition parseScopes :: "js \<Rightarrow> js list" where
  "parseScopes payload =
     (case jget payload ''scp'' of
        JArr xs \<Rightarrow> js_set xs
      | _ \<Rightarrow> (case jget payload ''scope'' of
                JStr s \<Rightarrow> js_set (map JStr (filter (\<lambda>w. w \<noteq> []) (split_on CHR '' '' s)))
              | _ \<Rightarrow> []))"

definition has_scope :: "verified_jwt \<Rightarrow> string \<Rightarrow> bool" where
  "has_scope v s = (JStr s \<in> set (vScopes v))"

definition getJwks :: "('w, 'j) platform \<Rightarrow> string \<Rightarrow> ('w, 'j, 'z, 'j) act" where
  "getJwks P uri s =
     (case om_get (jwksCache s) uri of
        Some j \<Rightarrow> (Inr j, s)
      | None \<Rightarrow>
          (case parse_url uri of
             None \<Rightarrow> (Inl (type_error ''Invalid URL''), s)
           | Some _ \<Rightarrow>
               (let j = createRemoteJWKSet P uri
                in (Inr j, s\<lparr>jwksCache := om_set (jwksCache s) uri j\<rparr>))))"

text \<open>The \<^verbatim>\<open>catch\<close> of \<open>verifyJwt\<close>.\<close>

definition classify_verify_error :: "exn \<Rightarrow> exn" where
  "classify_verify_error e =
     (let msg = error_text e
      in if contains ''JWTExpired'' msg \<or> contains (''\"exp\"'') msg
           then CurityAuthError ''Token expired'' ExpiredToken
         else if contains ''issuer'' msg \<or> contains ''iss'' msg
           then CurityAuthError (''Invalid issuer: '' @ msg) InvalidIssuer
         else if contains ''audience'' msg \<or> contains ''aud'' msg
           then CurityAuthError (''Invalid audience: '' @ msg) InvalidAudience
         else CurityAuthError (''Token verification failed: '' @ msg) InvalidToken)"

definition jwt_expectations :: "verify_options \<Rightarrow> jwt_expect" where
  "jwt_expectations opts =
     \<lparr> jxIssuer = voIssuer opts, jxAudience = voAudience opts,
       jxAlgorithms = (case voAlgorithms opts of None \<Rightarrow> [''RS256'', ''ES256''] | Some a \<Rightarrow> a),
       jxTolerance = (case voTolerance opts of None \<Rightarrow> 30 | Some t \<Rightarrow> t) \<rparr>"

definition verified_of :: "js \<times> js \<Rightarrow> verified_jwt" where
  "verified_of p = \<lparr> vPayload = fst p, vHeader = snd p, vScopes = parseScopes (fst p) \<rparr>"

definition verifyJwt ::
  "('w, 'j) platform \<Rightarrow> string \<Rightarrow> verify_options \<Rightarrow> ('w, 'j, 'z, verified_jwt) act" where
  "verifyJwt P token opts =
     (case voJwksUri opts of
        None \<Rightarrow> io_throw (CurityAuthError
          ''verifyJwt: jwksUri is required (call getOidcConfig first if you only have the issuer URL)'' JwksFailed)
      | Some uri \<Rightarrow>
          if uri = [] then io_throw (CurityAuthError
            ''verifyJwt: jwksUri is required (call getOidcConfig first if you only have the issuer URL)'' JwksFailed)
          else io_bind (getJwks P uri) (\<lambda>jwks.
            io_catch
              (io_bind (emit (KeySet uri)) (\<lambda>_.
               io_bind (world_try (jwtVerify P token jwks (jwt_expectations opts)))
                 (\<lambda>p. io_return (verified_of p))))
              (\<lambda>e. io_throw (classify_verify_error e))))"

lemmas verify_eval [eval_simps] = js_set_def parseScopes_def has_scope_def getJwks_def
  classify_verify_error_def jwt_expectations_def verified_of_def verifyJwt_def

section \<open>Facts\<close>

lemma js_set_from_set: "set (js_set_from seen xs) \<union> set seen = set xs \<union> set seen"
  by (induction seen xs rule: js_set_from.induct) auto

lemma set_js_set [simp]: "set (js_set xs) = set xs"
  using js_set_from_set [of "[]" xs] by (simp add: js_set_def)

lemma js_set_from_distinct:
  "\<forall>x \<in> set xs. \<not> is_object x \<Longrightarrow> distinct (js_set_from seen xs) \<and> set (js_set_from seen xs) \<inter> set seen = {}"
  by (induction seen xs rule: js_set_from.induct) auto

lemma split_on_ne: "split_on c s \<noteq> []"
  by (induction s) (auto split: list.splits)

lemma split_on_no_sep: "w \<in> set (split_on c s) \<Longrightarrow> c \<notin> set w"
  by (induction s arbitrary: w) (auto split: list.splits if_splits)

lemma split_on_id: "c \<notin> set w \<Longrightarrow> split_on c w = [w]"
  by (induction w) auto

lemma split_on_append: "c \<notin> set w \<Longrightarrow> split_on c (w @ c # s) = w # split_on c s"
  by (induction w) auto

lemma split_on_join:
  "ws \<noteq> [] \<Longrightarrow> \<forall>w \<in> set ws. c \<notin> set w \<Longrightarrow> split_on c (join [c] ws) = ws"
proof (induction "[c]" ws rule: join.induct)
  case 1
  then show ?case by simp
next
  case (2 x)
  then show ?case by (simp add: split_on_id)
next
  case (3 x y ys)
  then show ?case by (simp add: split_on_append)
qed

lemma parseScopes_string:
  "jget p ''scp'' = JUndef \<Longrightarrow> jget p ''scope'' = JStr s \<Longrightarrow>
   set (parseScopes p) = JStr ` (set (split_on CHR '' '' s) - {[]})"
  by (auto simp: parseScopes_def)

text \<open>A scope string printed with single spaces parses back to the same scopes.\<close>

lemma parseScopes_join:
  assumes "jget p ''scp'' = JUndef" "jget p ''scope'' = JStr (join '' '' ws)"
    "\<forall>w \<in> set ws. w \<noteq> [] \<and> CHR '' '' \<notin> set w"
  shows "set (parseScopes p) = JStr ` set ws"
proof (cases "ws = []")
  case True
  then show ?thesis using assms by (simp add: parseScopes_def)
next
  case False
  then have "split_on CHR '' '' (join '' '' ws) = ws" using assms(3) by (intro split_on_join) auto
  then show ?thesis using assms by (simp add: parseScopes_string) blast
qed

definition jwks_cache_ok :: "('w, 'j) platform \<Rightarrow> ('w, 'j, 'z) proc_scheme \<Rightarrow> bool" where
  "jwks_cache_ok P s = (\<forall>(u, j) \<in> set (jwksCache s). j = createRemoteJWKSet P u)"

lemma getJwks_value:
  "jwks_cache_ok P s \<Longrightarrow> getJwks P uri s = (Inr j, t) \<Longrightarrow> j = createRemoteJWKSet P uri"
  by (auto simp: getJwks_def jwks_cache_ok_def Let_def dest: om_get_in split: option.splits)

lemma om_set_mem: "p \<in> set (om_set m k v) \<Longrightarrow> p = (k, v) \<or> p \<in> set m"
  by (induction m) (auto split: if_splits)

lemma getJwks_keeps:
  "jwks_cache_ok P s \<Longrightarrow> getJwks P uri s = (r, t) \<Longrightarrow> jwks_cache_ok P t"
  by (auto simp: getJwks_def jwks_cache_ok_def Let_def dest!: om_set_mem split: option.splits)

lemma verifyJwt_error_kinds:
  assumes "verifyJwt P token opts s = (Inl e, t)"
  shows "(\<exists>m c. e = CurityAuthError m c) \<or> (\<exists>m. e = JsError ''TypeError'' m)"
  using assms
  by (auto simp: verifyJwt_def io_simps getJwks_def Let_def classify_verify_error_def type_error_def
      split: option.splits if_splits prod.splits sum.splits)

lemma verifyJwt_success:
  assumes "verifyJwt P token opts s = (Inr v, t)" "jwks_cache_ok P s"
  shows "\<exists>uri w w' p. voJwksUri opts = Some uri \<and> uri \<noteq> []
     \<and> jwtVerify P token (createRemoteJWKSet P uri) (jwt_expectations opts) w = (Inr p, w')
     \<and> v = verified_of p"
proof (cases "voJwksUri opts")
  case None
  then show ?thesis using assms by (simp add: verifyJwt_def io_simps)
next
  case (Some uri)
  obtain r u where g: "getJwks P uri s = (r, u)" by fastforce
  show ?thesis
  proof (cases r)
    case (Inl e)
    then show ?thesis using assms Some g by (simp add: verifyJwt_def io_simps split: if_splits)
  next
    case (Inr j)
    then have "j = createRemoteJWKSet P uri" using getJwks_value [OF assms(2) g [unfolded Inr]] by simp
    then show ?thesis using assms Some g Inr
      by (auto simp: verifyJwt_def io_simps split: if_splits prod.splits sum.splits)
  qed
qed

text \<open>Verification writes no log line and makes no request; it consults the one key set it is configured with.\<close>

lemma emits_verifyJwt [emits_intros]:
  "(\<And>uri. voJwksUri opts = Some uri \<Longrightarrow> p (KeySet uri)) \<Longrightarrow> emits p (verifyJwt P token opts)"
proof -
  assume p: "\<And>uri. voJwksUri opts = Some uri \<Longrightarrow> p (KeySet uri)"
  have "emits p (getJwks P uri)" for uri
    by (auto simp: emits_def does_def getJwks_def Let_def split: option.splits)
  then show ?thesis using p unfolding verifyJwt_def by (cases "voJwksUri opts") (auto intro!: emits_intros)
qed

end
