(* ===== verification/OboLog.thy ===== *)
theory OboLog
  imports Verify
begin

text \<open>
  \<^verbatim>\<open>packages/auth-curity/src/obo-log.ts\<close>, \<^verbatim>\<open>identity-span.ts\<close> and \<^verbatim>\<open>exchange-span.ts\<close>: the
  on-behalf-of log lines, the decoding of a token's claims for display, and the identity and
  exchange attributes put on spans. \<^verbatim>\<open>JSON.stringify\<close> is \<open>json_text\<close>.
\<close>

section \<open>JSON text\<close>

definition hex_digit :: "nat \<Rightarrow> char" where
  "hex_digit n = (if n < 10 then char_of (n + 48) else char_of (n + 87))"

definition json_char :: "char \<Rightarrow> string" where
  "json_char c = (let n = (of_char c :: nat) in
     if n = 34 then [CHR 0x5C, CHR 0x22] else if n = 92 then [CHR 0x5C, CHR 0x5C]
     else if n = 8 then [CHR 0x5C, CHR ''b''] else if n = 12 then [CHR 0x5C, CHR ''f'']
     else if n = 10 then [CHR 0x5C, CHR ''n''] else if n = 13 then [CHR 0x5C, CHR ''r'']
     else if n = 9 then [CHR 0x5C, CHR ''t'']
     else if n < 32 then [CHR 0x5C, CHR ''u'', CHR ''0'', CHR ''0'', hex_digit (n div 16), hex_digit (n mod 16)]
     else [c])"

definition json_string :: "string \<Rightarrow> string" where
  "json_string s = [CHR 0x22] @ concat (map json_char s) @ [CHR 0x22]"

fun json_text :: "js \<Rightarrow> string" where
  "json_text JUndef = ''undefined''"
| "json_text JNull = ''null''"
| "json_text (JBool b) = (if b then ''true'' else ''false'')"
| "json_text (JNum n) = int_str n"
| "json_text (JStr s) = json_string s"
| "json_text (JArr xs) =
     ''['' @ join '','' (map (\<lambda>x. if x = JUndef then ''null'' else json_text x) xs) @ '']''"
| "json_text (JObj kvs) =
     ''{'' @ join '','' (map (\<lambda>p. json_string (fst p) @ '':'' @ json_text (snd p))
                       (filter (\<lambda>p. snd p \<noteq> JUndef) kvs)) @ ''}''"

section \<open>The log events\<close>

datatype obo_kind = RECEIVE | EXCHANGE | CALL | DENY | DISCOVER

fun kind_str :: "obo_kind \<Rightarrow> string" where
  "kind_str RECEIVE = ''RECEIVE''"
| "kind_str EXCHANGE = ''EXCHANGE''"
| "kind_str CALL = ''CALL''"
| "kind_str DENY = ''DENY''"
| "kind_str DISCOVER = ''DISCOVER''"

record obo_trace =
  otTraceId :: "string option"
  otSpanId :: "string option"

record obo_event =
  oService :: string
  oKind :: obo_kind
  oHeadline :: string
  oFields :: "(string \<times> js) list"
  oAt :: "string option"
  oTrace :: "obo_trace option"

text \<open>An event as the callers write it: \<^verbatim>\<open>at\<close> and \<^verbatim>\<open>trace\<close> left to \<open>oboLog\<close>.\<close>

definition event :: "string \<Rightarrow> obo_kind \<Rightarrow> string \<Rightarrow> (string \<times> js) list \<Rightarrow> obo_event" where
  "event svc k h fs =
     \<lparr> oService = svc, oKind = k, oHeadline = h, oFields = fs, oAt = None, oTrace = None \<rparr>"

definition arrow :: string where "arrow = [CHR 0xE2, CHR 0x86, CHR 0x92]"
definition tri :: string where "tri = [CHR 0xE2, CHR 0x96, CHR 0xB8]"
definition box_top :: string where "box_top = [CHR 0xE2, CHR 0x94, CHR 0x8C, CHR 0xE2, CHR 0x94, CHR 0x80]"
definition box_side :: string where "box_side = [CHR 0xE2, CHR 0x94, CHR 0x82]"
definition box_bottom :: string where "box_bottom = [CHR 0xE2, CHR 0x94, CHR 0x94, CHR 0xE2, CHR 0x94, CHR 0x80]"

definition traceFields :: "span_ctx option \<Rightarrow> obo_trace" where
  "traceFields sp =
     (case sp of
        None \<Rightarrow> \<lparr> otTraceId = None, otSpanId = None \<rparr>
      | Some c \<Rightarrow> if \<not> ctxValid c then \<lparr> otTraceId = None, otSpanId = None \<rparr>
                  else \<lparr> otTraceId = Some (ctxTraceId c), otSpanId = Some (ctxSpanId c) \<rparr>)"

definition activeTraceId :: "('w, 'j, 'z) proc_scheme \<Rightarrow> string option" where
  "activeTraceId s = otTraceId (traceFields (active_span s))"

text \<open>\<^verbatim>\<open>/\/sa\/([^/]+)$/\<close>\<close>

definition ends_with :: "string \<Rightarrow> string \<Rightarrow> bool" where
  "ends_with p s = starts_with (rev p) (rev s)"

definition shortSpiffe :: "string \<Rightarrow> string" where
  "shortSpiffe s =
     (let m = rev (takeWhile (\<lambda>c. c \<noteq> CHR ''/'') (rev s));
          pre = rev (dropWhile (\<lambda>c. c \<noteq> CHR ''/'') (rev s))
      in if m \<noteq> [] \<and> ends_with ''/sa/'' pre then m else s)"

fun flatten_loop :: "nat \<Rightarrow> js \<Rightarrow> string list \<Rightarrow> string list" where
  "flatten_loop 0 cur chain = chain"
| "flatten_loop (Suc n) cur chain =
     (if \<not> is_object cur then chain
      else flatten_loop n (jget cur ''act'')
             (if nullish (jget cur ''sub'') then chain
              else chain @ [shortSpiffe (js_string (jget cur ''sub''))]))"

definition flattenAct :: "js \<Rightarrow> string option" where
  "flattenAct v =
     (let chain = flatten_loop 16 v []
      in if chain = [] then None else Some (join ('' '' @ tri @ '' '') (rev chain)))"

definition mayActSub :: "js \<Rightarrow> string option" where
  "mayActSub v =
     (if \<not> is_object v then None
      else if nullish (jget v ''sub'') then None
      else Some (shortSpiffe (js_string (jget v ''sub''))))"

definition formatList :: "js \<Rightarrow> string option" where
  "formatList v =
     (if nullish v then None
      else Some (case v of JArr xs \<Rightarrow> join '', '' (map js_string xs) | _ \<Rightarrow> js_string v))"

record jwt_summary =
  jsSub :: "string option"
  jsAud :: "string option"
  jsScope :: "string option"
  jsAcr :: "string option"
  jsAct :: "string option"
  jsMayAct :: "string option"
  jsRoles :: "string option"

definition empty_summary :: jwt_summary where
  "empty_summary = \<lparr> jsSub = None, jsAud = None, jsScope = None, jsAcr = None,
                     jsAct = None, jsMayAct = None, jsRoles = None \<rparr>"

definition str_unless_null :: "js \<Rightarrow> string option" where
  "str_unless_null v = (if nullish v then None else Some (js_string v))"

definition summarizeJwt :: "('w, 'j) platform \<Rightarrow> string option \<Rightarrow> jwt_summary" where
  "summarizeJwt P jwt =
     (case jwt of
        None \<Rightarrow> empty_summary
      | Some t \<Rightarrow>
          (let parts = split_on CHR ''.'' t
           in if t = [] \<or> length parts < 2 \<or> parts ! 1 = [] then empty_summary
              else (case jsonSegment P (parts ! 1) of
                      None \<Rightarrow> empty_summary
                    | Some payload \<Rightarrow>
                        if nullish payload then empty_summary
                        else \<lparr> jsSub = str_unless_null (jget payload ''sub''),
                               jsAud = formatList (jget payload ''aud''),
                               jsScope = str_unless_null (jget payload ''scope''),
                               jsAcr = str_unless_null (jget payload ''acr''),
                               jsAct = flattenAct (jget payload ''act''),
                               jsMayAct = mayActSub (jget payload ''may_act''),
                               jsRoles = formatList (jget payload ''roles'') \<rparr>)))"

definition opt_js :: "string option \<Rightarrow> js" where
  "opt_js x = (case x of None \<Rightarrow> JUndef | Some s \<Rightarrow> JStr s)"

definition formatTrace :: "obo_trace option \<Rightarrow> string option" where
  "formatTrace tc =
     (case tc of
        None \<Rightarrow> None
      | Some t \<Rightarrow>
          (case otTraceId t of
             None \<Rightarrow> None
           | Some tid \<Rightarrow>
               if tid = [] then None
               else (case otSpanId t of
                       None \<Rightarrow> Some tid
                     | Some sid \<Rightarrow> if sid = [] then Some tid else Some (tid @ '' '' @ tri @ '' '' @ sid))))"

definition stringifyVal :: "js \<Rightarrow> string" where
  "stringifyVal v = (case v of JStr s \<Rightarrow> s | _ \<Rightarrow> json_text v)"

definition padEnd :: "string \<Rightarrow> nat \<Rightarrow> string" where
  "padEnd s n = s @ replicate (n - length s) CHR '' ''"

text \<open>\<^verbatim>\<open>{ ...base, ...over }\<close>\<close>

definition spread :: "(string \<times> js) list \<Rightarrow> (string \<times> js) list \<Rightarrow> (string \<times> js) list" where
  "spread base over = fold (\<lambda>p m. om_set m (fst p) (snd p)) over base"

definition obo_entries :: "obo_event \<Rightarrow> (string \<times> js) list" where
  "obo_entries ev =
     filter (\<lambda>p. \<not> nullish (snd p) \<and> snd p \<noteq> JStr [])
       (spread [(''trace'', opt_js (formatTrace (oTrace ev)))] (oFields ev))"

definition formatOboLog :: "obo_event \<Rightarrow> string" where
  "formatOboLog ev =
     (let stamp = (case oAt ev of None \<Rightarrow> [] | Some a \<Rightarrow> if a = [] then [] else a @ '' '');
          entries = obo_entries ev;
          width = fold (\<lambda>p w. max w (length (fst p))) entries 0
      in join [CHR 0x0A]
           ([box_top @ '' '' @ stamp @ ''INFO ['' @ oService ev @ ''] '' @ kind_str (oKind ev) @ '' '' @ oHeadline ev]
            @ map (\<lambda>p. box_side @ ''  '' @ padEnd (fst p) width @ '' : '' @ stringifyVal (snd p)) entries
            @ [box_bottom]))"

definition oboLog :: "('w, 'j) platform \<Rightarrow> obo_event \<Rightarrow> ('w, 'j, 'z, unit) act" where
  "oboLog P ev s =
     (if oboOff P then (Inr (), s)
      else io_bind (world_get (dateNow P)) (\<lambda>now.
             io_bind (io_read active_span) (\<lambda>sp.
               emit (Console (formatOboLog
                 (ev\<lparr> oAt := (case oAt ev of Some a \<Rightarrow> Some a | None \<Rightarrow> Some (isoTime P now)),
                      oTrace := (case oTrace ev of Some t \<Rightarrow> Some t | None \<Rightarrow> Some (traceFields sp)) \<rparr>))))) s)"

section \<open>Identity attributes\<close>

text \<open>Claims are acyclic JSON, so the unbounded walk ends; \<open>size\<close> bounds it.\<close>

function walkActChain :: "js \<Rightarrow> string list" where
  "walkActChain cur =
     (if \<not> is_object cur then []
      else (case jget cur ''sub'' of
              JStr s \<Rightarrow> (if is_object (jget cur ''act'') then s # walkActChain (jget cur ''act'') else [s])
            | _ \<Rightarrow> []))"
  by pat_completeness auto
termination
  by (relation "measure size") (simp_all add: jget_object_size)

declare walkActChain.simps [simp del]

text \<open>
  \<^verbatim>\<open>flattenActChain\<close> of \<^verbatim>\<open>identity-span.ts\<close> is the walk of the services' middlewares: push
  the \<^verbatim>\<open>sub\<close>, stop at the first node without a string \<^verbatim>\<open>sub\<close> or without an \<^verbatim>\<open>act\<close> object.
\<close>

definition flattenActChain :: "js \<Rightarrow> string list" where
  "flattenActChain claim = walkActChain claim"

text \<open>The \<^verbatim>\<open>cnf.jkt\<close> of a token's claims (\<^verbatim>\<open>cnfJkt\<close> of \<^verbatim>\<open>dpop.ts\<close>).\<close>

definition cnfJkt :: "js \<Rightarrow> string option" where
  "cnfJkt payload = as_str (jget (jget payload ''cnf'') ''jkt'')"

definition string_attr :: "string \<Rightarrow> js \<Rightarrow> (string \<times> js) list" where
  "string_attr k v = (case v of JStr s \<Rightarrow> [(k, JStr s)] | _ \<Rightarrow> [])"

definition is_string :: "js \<Rightarrow> bool" where
  "is_string v = (case v of JStr _ \<Rightarrow> True | _ \<Rightarrow> False)"

definition js_join :: "string \<Rightarrow> js list \<Rightarrow> string" where
  "js_join sep xs = join sep (map (\<lambda>x. if nullish x then [] else js_string x) xs)"

definition buildIdentityAttributes :: "verified_jwt \<Rightarrow> (string \<times> js) list" where
  "buildIdentityAttributes v =
     (let payload = vPayload v; aud = jget payload ''aud''; roles = jget payload ''roles'';
          chain = flattenActChain (jget payload ''act'')
      in string_attr ''auth.sub'' (jget payload ''sub'')
       @ (if vScopes v = [] then [] else [(''auth.scope'', JStr (js_join '' '' (vScopes v)))])
       @ string_attr ''auth.acr'' (jget payload ''acr'')
       @ (if truthy aud then [(''auth.aud'', (case aud of JArr _ \<Rightarrow> aud | _ \<Rightarrow> JArr [aud]))] else [])
       @ (case roles of JArr rs \<Rightarrow> (if rs = [] then [] else [(''auth.roles'', JArr (filter is_string rs))]) | _ \<Rightarrow> [])
       @ (if chain = [] then [] else [(''auth.act'', JArr (map JStr chain))])
       @ string_attr ''auth.may_act'' (jget (jget payload ''may_act'') ''sub'')
       @ (case cnfJkt payload of
            None \<Rightarrow> []
          | Some jkt \<Rightarrow> if jkt = [] then [] else [(''auth.cnf_jkt'', JStr jkt)]))"

definition decorateSpanWithIdentity :: "verified_jwt \<Rightarrow> ('w, 'j, 'z, unit) act" where
  "decorateSpanWithIdentity v = set_active_attrs (buildIdentityAttributes v)"

definition upstreamVerifiedIdentityAttributes :: "('w, 'j) platform \<Rightarrow> string \<Rightarrow> (string \<times> js) list" where
  "upstreamVerifiedIdentityAttributes P token =
     (case decodeJwt P token of
        None \<Rightarrow> []
      | Some payload \<Rightarrow> buildIdentityAttributes
          \<lparr> vPayload = payload, vHeader = JObj [(''alg'', JStr ''unverified'')],
            vScopes = parseScopes payload \<rparr>)"

definition buildExchangeAttributes ::
  "string \<Rightarrow> string \<Rightarrow> string \<Rightarrow> string \<Rightarrow> string option \<Rightarrow> (string \<times> js) list" where
  "buildExchangeAttributes endpoint client audience scope jkt =
     [(''auth.exchange.audience'', JStr audience),
      (''auth.exchange.scope'', JStr scope),
      (''auth.exchange.client_id'', JStr client),
      (''auth.exchange.grant_type'', JStr ''urn:ietf:params:oauth:grant-type:token-exchange''),
      (''auth.exchange.token_endpoint'', JStr endpoint)]
     @ (case jkt of None \<Rightarrow> [] | Some j \<Rightarrow> [(''auth.exchange.dpop_jkt'', JStr j)])
     @ (case parse_url endpoint of
          None \<Rightarrow> []
        | Some u \<Rightarrow> [(''server.address'', JStr (uHostname u)), (''url.path'', JStr (uPathname u))])"

lemmas obo_eval [eval_simps] = event_def traceFields_def activeTraceId_def ends_with_def
  shortSpiffe_def flattenAct_def mayActSub_def formatList_def empty_summary_def
  str_unless_null_def summarizeJwt_def opt_js_def formatTrace_def oboLog_def flattenActChain_def
  cnfJkt_def string_attr_def is_string_def js_join_def buildIdentityAttributes_def
  decorateSpanWithIdentity_def upstreamVerifiedIdentityAttributes_def buildExchangeAttributes_def
  walkActChain.simps

lemma emits_oboLog [emits_intros]: "(\<And>l. p (Console l)) \<Longrightarrow> emits p (oboLog P ev)"
  by (auto simp: emits_def does_def oboLog_def io_simps split: prod.splits)

lemma emits_decorate [emits_intros]: "(\<And>as. p (SpanAttrs as)) \<Longrightarrow> emits p (decorateSpanWithIdentity v)"
  unfolding decorateSpanWithIdentity_def by (intro emits_intros) simp

end
