(* ===== verification/Dpop.thy ===== *)
theory Dpop
  imports OboLog
begin

text \<open>
  \<^verbatim>\<open>packages/auth-curity/src/dpop.ts\<close> (RFC 9449): keys and proofs on the client side, the
  verification of a proof and the memory of seen proof ids on the server side. Signature
  checks, thumbprints and hashing are the platform's. \<open>dpop_proc\<close> adds to a process the
  \<^verbatim>\<open>DpopReplayCache\<close> it verifies proofs against.

  The loop of \<open>remember\<close> that makes room ends only for a cache of at least one entry; the
  sources build it with its default of 10,000, and the model is that of such caches.
\<close>

section \<open>Keys and proofs\<close>

record dpop_key =
  dkPrivateKey :: string
  dkPublicJwk :: js
  dkJkt :: string

definition dpop_alg :: string where "dpop_alg = ''ES256''"
definition proof_typ :: string where "proof_typ = ''dpop+jwt''"

definition accepted_algs :: "string list" where
  "accepted_algs = [''ES256'', ''ES384'', ''RS256'', ''PS256'', ''EdDSA'']"

definition createDpopKey :: "('w, 'j) platform \<Rightarrow> ('w, 'j, 'z, dpop_key) act" where
  "createDpopKey P =
     io_bind (world_get (generateKeyPair P dpop_alg)) (\<lambda>(priv, pub).
     io_bind (lift_sum (jwkThumbprint P (exportJWK P pub))) (\<lambda>jkt.
       io_return \<lparr> dkPrivateKey = priv, dkPublicJwk = exportJWK P pub, dkJkt = jkt \<rparr>))"

definition accessTokenHash :: "('w, 'j) platform \<Rightarrow> string \<Rightarrow> string" where
  "accessTokenHash P token = sha256 P token"

text \<open>\<open>None\<close> stands for the \<^verbatim>\<open>undefined\<close> of both exits: no \<^verbatim>\<open>cnf.jkt\<close>, or no JWT at all.\<close>

definition tokenCnfJkt :: "('w, 'j) platform \<Rightarrow> string \<Rightarrow> string option" where
  "tokenCnfJkt P token =
     (case decodeJwt P token of None \<Rightarrow> None | Some payload \<Rightarrow> cnfJkt payload)"

text \<open>\<^verbatim>\<open>...(x ? { k: x } : {})\<close> for an optional string.\<close>

definition opt_field :: "string \<Rightarrow> string option \<Rightarrow> (string \<times> js) list" where
  "opt_field k x = (case x of None \<Rightarrow> [] | Some v \<Rightarrow> if v = [] then [] else [(k, JStr v)])"

definition createDpopProof ::
  "('w, 'j) platform \<Rightarrow> dpop_key \<Rightarrow> string \<Rightarrow> string \<Rightarrow> string option \<Rightarrow> string option
   \<Rightarrow> ('w, 'j, 'z, string) act" where
  "createDpopProof P key htm htu accessToken nonce =
     io_bind (world_get (randomUUID P)) (\<lambda>jti.
     io_bind (world_get (dateNow P)) (\<lambda>now.
       lift_sum (signJwt P (dkPrivateKey key)
         (JObj [(''typ'', JStr proof_typ), (''alg'', JStr dpop_alg), (''jwk'', dkPublicJwk key)])
         (JObj ([(''htm'', JStr htm), (''htu'', JStr htu), (''jti'', JStr jti)]
                @ (case accessToken of
                     None \<Rightarrow> []
                   | Some at \<Rightarrow> if at = [] then [] else [(''ath'', JStr (accessTokenHash P at))])
                @ opt_field ''nonce'' nonce
                @ [(''iat'', JNum (now div 1000))])))))"

section \<open>The replay cache\<close>

record replay_cache =
  rcSeen :: "(string, int) omap"
  rcMax :: nat

definition new_replay_cache :: replay_cache where
  "new_replay_cache = \<lparr> rcSeen = [], rcMax = 10000 \<rparr>"

text \<open>Delete every entry that has expired, in one pass over the map.\<close>

definition purge :: "int \<Rightarrow> (string, int) omap \<Rightarrow> (string, int) omap" where
  "purge now m = filter (\<lambda>p. \<not> snd p \<le> now) m"

text \<open>Delete the oldest entries while the map is full.\<close>

fun evict :: "nat \<Rightarrow> ('k, 'v) omap \<Rightarrow> ('k, 'v) omap" where
  "evict cap [] = []"
| "evict cap (p # m) = (if cap \<le> length (p # m) then evict cap m else p # m)"

definition remember :: "string \<Rightarrow> int \<Rightarrow> int \<Rightarrow> replay_cache \<Rightarrow> bool \<times> replay_cache" where
  "remember jti expiresAt now c =
     (case om_get (rcSeen c) jti of
        Some until \<Rightarrow>
          (if until > now then (False, c)
           else (True, c\<lparr>rcSeen := om_set (evict (rcMax c) (purge now (rcSeen c))) jti expiresAt\<rparr>))
      | None \<Rightarrow> (True, c\<lparr>rcSeen := om_set (evict (rcMax c) (purge now (rcSeen c))) jti expiresAt\<rparr>))"

text \<open>A sequence of calls \<open>(jti, expiresAt, now)\<close> on one cache.\<close>

fun remember_all :: "(string \<times> int \<times> int) list \<Rightarrow> replay_cache \<Rightarrow> replay_cache" where
  "remember_all [] c = c"
| "remember_all ((jti, e, now) # calls) c = remember_all calls (snd (remember jti e now c))"

section \<open>Verification of a proof\<close>

record ('w, 'j) dpop_proc = "('w, 'j) proc" +
  replay :: replay_cache

definition stripQuery :: "string \<Rightarrow> string" where
  "stripQuery s =
     (case parse_url s of None \<Rightarrow> s | Some u \<Rightarrow> url_str (u\<lparr> uSearch := [], uHash := [] \<rparr>))"

text \<open>\<^verbatim>\<open>jwk && 'd' in jwk\<close>; \<^verbatim>\<open>in\<close> throws on a value that is no object.\<close>

definition has_private_part :: "js \<Rightarrow> exn + bool" where
  "has_private_part jwk =
     (if \<not> truthy jwk then Inr False
      else (case jwk of
              JObj kvs \<Rightarrow> Inr (''d'' \<in> set (map fst kvs))
            | JArr _ \<Rightarrow> Inr False
            | _ \<Rightarrow> Inl (type_error ''Cannot use the in operator'')))"

text \<open>The rules of RFC 9449 on the claims of a proof whose signature holds.\<close>

definition iat_in_window :: "js \<Rightarrow> int \<Rightarrow> int \<Rightarrow> bool" where
  "iat_in_window claims now maxAgeMs =
     (case jget claims ''iat'' of
        JNum iat \<Rightarrow> \<not> \<bar>now - iat * 1000\<bar> > maxAgeMs
      | _ \<Rightarrow> False)"

definition iat_ms :: "js \<Rightarrow> int" where
  "iat_ms claims = (case jget claims ''iat'' of JNum iat \<Rightarrow> iat * 1000 | _ \<Rightarrow> 0)"

definition htu_matches :: "js \<Rightarrow> string \<Rightarrow> bool" where
  "htu_matches claims htu =
     (case jget claims ''htu'' of JStr u \<Rightarrow> stripQuery u = stripQuery htu | _ \<Rightarrow> False)"

definition check_claims ::
  "('w, 'j) platform \<Rightarrow> js \<Rightarrow> string \<Rightarrow> string \<Rightarrow> string \<Rightarrow> int \<Rightarrow> int \<Rightarrow> ('s, exn, unit) io" where
  "check_claims P claims htm htu accessToken now maxAgeMs =
     io_bind (require_that (jget claims ''htm'' = JStr htm)
       (DpopProofError (''htm mismatch: '' @ js_string (jget claims ''htm'')))) (\<lambda>_.
     io_bind (require_that (htu_matches claims htu)
       (DpopProofError (''htu mismatch: '' @ js_string (jget claims ''htu'')))) (\<lambda>_.
     io_bind (require_that (jget claims ''ath'' = JStr (accessTokenHash P accessToken))
       (DpopProofError ''ath does not match the presented access token'')) (\<lambda>_.
       require_that (iat_in_window claims now maxAgeMs)
         (DpopProofError ''iat outside the acceptance window''))))"

definition remember_jti :: "js \<Rightarrow> int \<Rightarrow> int \<Rightarrow> ('w, 'j, 'z) dpop_proc_scheme \<Rightarrow> (exn + unit) \<times> ('w, 'j, 'z) dpop_proc_scheme" where
  "remember_jti claims maxAgeMs now s =
     (case jget claims ''jti'' of
        JStr jti \<Rightarrow>
          (case remember jti (iat_ms claims + maxAgeMs) now (replay s) of
             (ok, c) \<Rightarrow> (if ok then Inr () else Inl (DpopProofError ''proof jti missing or replayed''),
                        s\<lparr>replay := c\<rparr>))
      | _ \<Rightarrow> (Inl (DpopProofError ''proof jti missing or replayed''), s))"

record dpop_check =
  dcHtm :: string
  dcHtu :: string
  dcAccessToken :: string
  dcJkt :: string
  dcMaxAgeSec :: "int option"

definition embedded_error :: "exn \<Rightarrow> exn" where
  "embedded_error e = DpopProofError (''invalid proof signature or header: '' @ message_of e)"

definition max_age_ms :: "dpop_check \<Rightarrow> int" where
  "max_age_ms o' = (case dcMaxAgeSec o' of None \<Rightarrow> 60 | Some m \<Rightarrow> m) * 1000"

definition verifyDpopProof ::
  "('w, 'j) platform \<Rightarrow> string \<Rightarrow> dpop_check
   \<Rightarrow> ('w, 'j, 'z) dpop_proc_scheme \<Rightarrow> (exn + unit) \<times> ('w, 'j, 'z) dpop_proc_scheme" where
  "verifyDpopProof P prf opts =
     io_bind (world_get (dateNow P)) (\<lambda>now.
     io_bind (case decodeProtectedHeader P prf of
                None \<Rightarrow> io_throw (DpopProofError ''malformed proof'')
              | Some h \<Rightarrow> io_return (jget h ''jwk'')) (\<lambda>jwk.
     io_bind (lift_sum (has_private_part jwk)) (\<lambda>priv.
     io_bind (require_that (\<not> priv) (DpopProofError ''proof JWK contains private key material'')) (\<lambda>_.
     io_bind (io_catch (world_try (jwtVerifyEmbedded P prf proof_typ accepted_algs))
                (\<lambda>e. io_throw (embedded_error e))) (\<lambda>claims.
     io_bind (if \<not> truthy jwk then io_return False
              else io_bind (lift_sum (jwkThumbprint P jwk)) (\<lambda>t. io_return (t = dcJkt opts))) (\<lambda>same.
     io_bind (require_that same (DpopProofError ''proof key does not match the token cnf.jkt'')) (\<lambda>_.
     io_bind (check_claims P claims (dcHtm opts) (dcHtu opts) (dcAccessToken opts) now (max_age_ms opts)) (\<lambda>_.
       remember_jti claims (max_age_ms opts) now))))))))"

lemmas dpop_eval [eval_simps] = dpop_alg_def proof_typ_def accepted_algs_def createDpopKey_def
  accessTokenHash_def tokenCnfJkt_def opt_field_def createDpopProof_def new_replay_cache_def
  purge_def remember_def stripQuery_def has_private_part_def iat_in_window_def iat_ms_def
  htu_matches_def check_claims_def remember_jti_def embedded_error_def max_age_ms_def verifyDpopProof_def

text \<open>A concrete proof and check, for closed instances.\<close>

definition fixture_proof :: js where
  "fixture_proof = JObj [(''htm'', JStr ''POST''), (''htu'', JStr ''https://g.example/mcp?x=1''),
     (''jti'', JStr ''j1''), (''ath'', JStr ''tok''), (''iat'', JNum 100)]"

definition fixture_check :: dpop_check where
  "fixture_check = \<lparr> dcHtm = ''POST'', dcHtu = ''https://G.example:443/mcp'', dcAccessToken = ''tok'',
     dcJkt = ''jkt'', dcMaxAgeSec = None \<rparr>"

definition fixture_dpop_proc :: "int \<Rightarrow> (int, string) dpop_proc" where
  "fixture_dpop_proc w = \<lparr> world = w, out = [], spans = [], jwksCache = [], oidcCache = [],
     dpopNonces = [], replay = new_replay_cache \<rparr>"

definition fixture_dpop :: "(int, string) platform" where
  "fixture_dpop = fixture no_net (\<lambda>t. if t = ''proof'' then Some fixture_proof else None)"

section \<open>Facts about the replay cache\<close>

definition replay_ok :: "replay_cache \<Rightarrow> bool" where
  "replay_ok c = (om_ok (rcSeen c) \<and> length (rcSeen c) \<le> rcMax c \<and> 0 < rcMax c)"

lemma evict_drop: "\<exists>n. evict cap m = drop n m"
proof (induction m)
  case Nil
  then show ?case by simp
next
  case (Cons p m)
  then obtain n where "evict cap m = drop n m" by blast
  then show ?case by (cases "cap \<le> length (p # m)") (auto intro: exI [of _ "Suc n"] exI [of _ 0])
qed

lemma evict_length: "0 < cap \<Longrightarrow> length (evict cap m) < cap"
  by (induction m) auto

lemma evict_small: "length m < cap \<Longrightarrow> evict cap m = m"
  by (cases m) auto

lemma evict_length_eq: "length (evict cap m) = min (length m) (cap - 1)"
  by (induction m) auto

lemma om_ok_drop: "om_ok m \<Longrightarrow> om_ok (drop n m)"
  unfolding om_ok_def om_keys_def by (metis distinct_drop drop_map)

lemma om_ok_filter: "om_ok m \<Longrightarrow> om_ok (filter f m)"
  by (simp add: om_ok_def om_keys_def distinct_map_filter)

lemma om_ok_evict [intro]: "om_ok m \<Longrightarrow> om_ok (evict cap m)"
  using evict_drop [of cap m] om_ok_drop by metis

lemma evict_keys: "set (om_keys (evict cap m)) \<subseteq> set (om_keys m)"
proof -
  obtain n where "evict cap m = drop n m" using evict_drop by blast
  then show ?thesis using set_drop_subset [of n "om_keys m"] by (simp add: om_keys_def drop_map)
qed

lemma length_om_set_le: "length (om_set m k v) \<le> Suc (length m)"
  by (induction m) auto

lemma purge_absent: "om_get (purge now m) k = None \<longleftrightarrow> (\<forall>e. (k, e) \<in> set m \<longrightarrow> e \<le> now)"
  by (auto simp: om_get_None_iff om_keys_def purge_def image_iff)

text \<open>The key a \<open>remember\<close> writes is absent from the purged map, so it goes to the end.\<close>

lemma remember_fresh:
  assumes "om_ok (rcSeen c)" "remember jti e now c = (True, c')"
  shows "rcSeen c' = evict (rcMax c) (purge now (rcSeen c)) @ [(jti, e)]" "rcMax c' = rcMax c"
proof -
  have ab: "jti \<notin> set (om_keys (purge now (rcSeen c)))"
  proof
    assume "jti \<in> set (om_keys (purge now (rcSeen c)))"
    then obtain u where u: "(jti, u) \<in> set (rcSeen c)" "now < u"
      by (auto simp: om_keys_def purge_def)
    then have "om_get (rcSeen c) jti = Some u" using assms(1) om_get_Some_iff by metis
    then show False using assms(2) u by (simp add: remember_def)
  qed
  then have "jti \<notin> set (om_keys (evict (rcMax c) (purge now (rcSeen c))))"
    using evict_keys by (meson in_mono)
  then show "rcSeen c' = evict (rcMax c) (purge now (rcSeen c)) @ [(jti, e)]" "rcMax c' = rcMax c"
    using assms(2) by (auto simp: remember_def om_set_absent split: option.splits if_splits)
qed

lemma remember_keeps_ok:
  assumes "replay_ok c" "remember jti e now c = (b, c')"
  shows "replay_ok c'"
proof (cases b)
  case True
  have f: "rcSeen c' = evict (rcMax c) (purge now (rcSeen c)) @ [(jti, e)]" "rcMax c' = rcMax c"
    using remember_fresh assms True by (auto simp: replay_ok_def)
  have "om_ok (rcSeen c')"
  proof -
    have "om_ok (om_set (evict (rcMax c) (purge now (rcSeen c))) jti e)"
      using assms(1) by (auto simp: replay_ok_def purge_def intro!: om_ok_set om_ok_filter)
    then show ?thesis using assms(2) True
      by (auto simp: remember_def split: option.splits if_splits)
  qed
  then show ?thesis using f evict_length [of "rcMax c" "purge now (rcSeen c)"] assms(1)
    by (simp add: replay_ok_def)
next
  case False
  then have "c' = c" using assms(2) by (auto simp: remember_def split: option.splits if_splits)
  then show ?thesis using assms(1) by simp
qed


lemma remember_all_keeps_ok: "replay_ok c \<Longrightarrow> replay_ok (remember_all calls c)"
proof (induction calls c rule: remember_all.induct)
  case (2 jti e now calls c)
  then show ?case using remember_keeps_ok [of c jti e now] by (metis prod.collapse remember_all.simps(2))
qed simp

text \<open>\<open>held k\<close>: the entry is in the map with at most \<open>k\<close> younger ones.\<close>

definition held :: "string \<Rightarrow> int \<Rightarrow> nat \<Rightarrow> replay_cache \<Rightarrow> bool" where
  "held jti e k c = (\<exists>pre post. rcSeen c = pre @ (jti, e) # post \<and> length post \<le> k)"

lemma held_get: "replay_ok c \<Longrightarrow> held jti e k c \<Longrightarrow> om_get (rcSeen c) jti = Some e"
  by (auto simp: held_def replay_ok_def om_get_Some_iff)

lemma held_fresh: "replay_ok c \<Longrightarrow> remember jti e now c = (True, c') \<Longrightarrow> held jti e 0 c'"
  using remember_fresh [of c jti e now c'] by (auto simp: held_def replay_ok_def)

lemma evict_append: "Suc (length post) < cap \<Longrightarrow> \<exists>pre'. evict cap (pre @ p # post) = pre' @ p # post"
  by (induction pre) auto

lemma held_step:
  assumes "replay_ok c" "held jti e k c" "now < e" "Suc (Suc k) \<le> rcMax c"
  shows "held jti e (Suc k) (snd (remember j e' now c))"
proof (cases "fst (remember j e' now c)")
  case False
  then have "snd (remember j e' now c) = c" by (auto simp: remember_def split: option.splits)
  then show ?thesis using assms(2) by (auto simp: held_def intro: le_SucI)
next
  case True
  then have r: "remember j e' now c = (True, snd (remember j e' now c))" by (simp add: prod_eq_iff)
  obtain pre post where c: "rcSeen c = pre @ (jti, e) # post" "length post \<le> k"
    using assms(2) by (auto simp: held_def)
  define post' where "post' = purge now post"
  have l: "length post' \<le> k" using c(2) by (auto simp: post'_def purge_def intro: le_trans [OF length_filter_le])
  have "purge now (rcSeen c) = purge now pre @ (jti, e) # post'"
    using c(1) assms(3) by (simp add: purge_def post'_def)
  moreover obtain pre' where "evict (rcMax c) (purge now pre @ (jti, e) # post') = pre' @ (jti, e) # post'"
    using evict_append [of post' "rcMax c" "purge now pre" "(jti, e)"] l assms(4) by auto
  ultimately have "rcSeen (snd (remember j e' now c)) = pre' @ (jti, e) # (post' @ [(j, e')])"
    using remember_fresh(1) [OF _ r] assms(1) by (simp add: replay_ok_def)
  then show ?thesis using l unfolding held_def by fastforce
qed

lemma rcMax_remember: "rcMax (snd (remember j e now c)) = rcMax c"
  by (auto simp: remember_def split: option.splits)

lemma rcMax_remember_all: "rcMax (remember_all calls c) = rcMax c"
  by (induction calls c rule: remember_all.induct) (simp_all add: rcMax_remember)

lemma held_all:
  assumes "replay_ok c" "held jti e k c" "\<forall>(j, e', n) \<in> set calls. n < e"
    "k + length calls < rcMax c"
  shows "\<exists>k'. held jti e k' (remember_all calls c)"
  using assms
proof (induction calls c arbitrary: k rule: remember_all.induct)
  case (1 c)
  then show ?case by auto
next
  case (2 j e' n calls c)
  have "held jti e (Suc k) (snd (remember j e' n c))" using 2 by (intro held_step) auto
  moreover have "replay_ok (snd (remember j e' n c))"
    using 2(2) remember_keeps_ok by (metis prod.collapse)
  ultimately show ?case using 2 by (auto simp: rcMax_remember)
qed

lemma remember_replay:
  "replay_ok c \<Longrightarrow> held jti e k c \<Longrightarrow> now < e \<Longrightarrow> remember jti e' now c = (False, c)"
  by (simp add: remember_def held_get)


section \<open>Facts about the verification\<close>

lemma require_that_simps [simp]:
  "require_that b e s = (if b then (Inr (), s) else (Inl e, s))"
  by (simp add: require_that_def io_simps)

lemma check_claims_Inr:
  "check_claims P claims htm htu at now ma s = (Inr (), t) \<longleftrightarrow>
     t = s \<and> jget claims ''htm'' = JStr htm \<and> htu_matches claims htu
     \<and> jget claims ''ath'' = JStr (accessTokenHash P at) \<and> iat_in_window claims now ma"
  by (auto simp: check_claims_def io_bind_def)

lemma remember_jti_result:
  "remember_jti claims ma now s = (Inr (), t) \<Longrightarrow>
     \<exists>jti. jget claims ''jti'' = JStr jti
        \<and> remember jti (iat_ms claims + ma) now (replay s) = (True, replay t)"
  by (auto simp: remember_jti_def split: js.splits prod.splits if_splits)

lemma io_bind_Inr:
  "io_bind m f s = (Inr b, t) \<longleftrightarrow> (\<exists>a u. m s = (Inr a, u) \<and> f a u = (Inr b, t))"
  by (auto simp: io_bind_def split: prod.splits sum.splits)

lemma io_bind_Inl:
  "io_bind m f s = (Inl e, t) \<longleftrightarrow> m s = (Inl e, t) \<or> (\<exists>a u. m s = (Inr a, u) \<and> f a u = (Inl e, t))"
  by (auto simp: io_bind_def split: prod.splits sum.splits)

lemma io_return_Inl [simp]: "io_return a s \<noteq> (Inl e, t)"
  by (simp add: io_return_def)

lemma io_return_Inr [simp]: "io_return a s = (Inr b, t) \<longleftrightarrow> a = b \<and> s = t"
  by (simp add: io_return_def)

lemma io_throw_Inr [simp]: "io_throw e s \<noteq> (Inr b, t)"
  by (simp add: io_throw_def)

lemma lift_sum_Inr [simp]: "lift_sum x s = (Inr b, t) \<longleftrightarrow> x = Inr b \<and> s = t"
  by (simp add: lift_sum_def)

lemma world_get_Inr:
  "world_get f s = (Inr a, t) \<longleftrightarrow> (\<exists>w. f (world s) = (a, w) \<and> t = s\<lparr>world := w\<rparr>)"
  by (auto simp: world_get_def split: prod.splits)

lemma world_try_Inr:
  "world_try f s = (Inr a, t) \<longleftrightarrow> (\<exists>w. f (world s) = (Inr a, w) \<and> t = s\<lparr>world := w\<rparr>)"
  by (auto simp: world_try_def split: prod.splits)

lemma catch_rethrow_Inr:
  "io_catch m (\<lambda>e. io_throw (f e)) s = (Inr b, t) \<longleftrightarrow> m s = (Inr b, t)"
  by (auto simp: io_catch_def io_throw_def split: prod.splits sum.splits)

lemmas io_Inr_simps = io_bind_Inr world_get_Inr world_try_Inr catch_rethrow_Inr

text \<open>
  C8. A proof is accepted only if its header key carries no private part and hashes to the
  token's \<^verbatim>\<open>cnf.jkt\<close>, its signature holds, it names the method, the URL and the hash of the
  presented token, its \<^verbatim>\<open>iat\<close> is within the window of the clock the check read, and its \<^verbatim>\<open>jti\<close>
  was new to the replay cache, which now remembers it until the window closes.
\<close>

theorem dpop_accept_sound:
  assumes "verifyDpopProof P prf opts s = (Inr (), t)"
  shows "\<exists>now w0 h claims w w' jti.
      dateNow P (world s) = (now, w0)
    \<and> decodeProtectedHeader P prf = Some h
    \<and> truthy (jget h ''jwk'') \<and> has_private_part (jget h ''jwk'') = Inr False
    \<and> jwkThumbprint P (jget h ''jwk'') = Inr (dcJkt opts)
    \<and> jwtVerifyEmbedded P prf proof_typ accepted_algs w = (Inr claims, w')
    \<and> jget claims ''htm'' = JStr (dcHtm opts) \<and> htu_matches claims (dcHtu opts)
    \<and> jget claims ''ath'' = JStr (accessTokenHash P (dcAccessToken opts))
    \<and> iat_in_window claims now (max_age_ms opts)
    \<and> jget claims ''jti'' = JStr jti
    \<and> remember jti (iat_ms claims + max_age_ms opts) now (replay s) = (True, replay t)"
proof -
  from assms obtain now w0 h claims w w' u where
    a: "dateNow P (world s) = (now, w0)" "decodeProtectedHeader P prf = Some h"
      "has_private_part (jget h ''jwk'') = Inr False"
      "jwtVerifyEmbedded P prf proof_typ accepted_algs w = (Inr claims, w')"
      "truthy (jget h ''jwk'')" "jwkThumbprint P (jget h ''jwk'') = Inr (dcJkt opts)"
      "jget claims ''htm'' = JStr (dcHtm opts)" "htu_matches claims (dcHtu opts)"
      "jget claims ''ath'' = JStr (accessTokenHash P (dcAccessToken opts))"
      "iat_in_window claims now (max_age_ms opts)"
    and r: "remember_jti claims (max_age_ms opts) now u = (Inr (), t)" "replay u = replay s"
    unfolding verifyDpopProof_def
    by (fastforce simp: io_Inr_simps check_claims_Inr split: option.splits if_splits)
  show ?thesis
    using a remember_jti_result [OF r(1)] unfolding r(2) by blast
qed

theorem dpop_accept_sound_witness:
  "\<exists>claims jti. jget claims ''ath'' = JStr ''tok'' \<and> jget claims ''jti'' = JStr jti
     \<and> remember jti (iat_ms claims + 60000) 101000 new_replay_cache
       = (True, replay (snd (verifyDpopProof fixture_dpop ''proof'' fixture_check (fixture_dpop_proc 101000))))"
proof -
  let ?r = "verifyDpopProof fixture_dpop ''proof'' fixture_check (fixture_dpop_proc 101000)"
  have "?r = (Inr (), snd ?r)"
    by (simp add: prod_eq_iff eval_simps fixture_dpop_def fixture_check_def fixture_proof_def fixture_dpop_proc_def)
  from dpop_accept_sound [OF this] show ?thesis
    by (auto simp: fixture_dpop_def fixture_def fixture_check_def fixture_dpop_proc_def
        accessTokenHash_def max_age_ms_def)
qed

text \<open>
  C9. No replay: once a proof id is remembered until \<open>e\<close>, it is refused at every moment before
  \<open>e\<close>, whatever other proofs the cache sees in between, as long as they come before \<open>e\<close> and are
  fewer than the cache's capacity.
\<close>

theorem dpop_no_replay:
  assumes "replay_ok c" "remember jti e now c = (True, c1)"
    and "\<forall>(j, e', n) \<in> set calls. n < e" "length calls < rcMax c" "later < e"
  shows "remember jti e'' later (remember_all calls c1) = (False, remember_all calls c1)"
proof -
  have ok: "replay_ok c1" "rcMax c1 = rcMax c"
    using remember_keeps_ok assms(1,2) rcMax_remember [of jti e now c] by auto
  have "held jti e 0 c1" using held_fresh assms(1,2) by blast
  then obtain k where "held jti e k (remember_all calls c1)"
    using held_all [OF ok(1)] assms(3,4) ok(2) by (metis add_0)
  then show ?thesis using remember_replay remember_all_keeps_ok ok(1) assms(5) by blast
qed

theorem dpop_no_replay_witness:
  "remember ''j'' 99 7 (remember_all [(''x'', 80, 6)]
      (snd (remember ''j'' 65 5 new_replay_cache)))
   = (False, remember_all [(''x'', 80, 6)] (snd (remember ''j'' 65 5 new_replay_cache)))"
  by (rule dpop_no_replay [of new_replay_cache "''j''" 65 5])
     (simp_all add: replay_ok_def new_replay_cache_def om_ok_def om_keys_def remember_def om_get_def)

text \<open>
  The replay cache never holds an id twice nor more entries than its capacity, after any
  sequence of calls.
\<close>

theorem replay_cache_bounded:
  "om_ok (rcSeen (remember_all calls new_replay_cache))
   \<and> length (rcSeen (remember_all calls new_replay_cache)) \<le> 10000"
  using remember_all_keeps_ok [of new_replay_cache calls] rcMax_remember_all [of calls new_replay_cache]
  by (simp add: replay_ok_def new_replay_cache_def om_ok_def om_keys_def)

text \<open>
  The windows of the two checks differ by one instant: at exactly \<^verbatim>\<open>iat\<close> plus the maximal
  age the proof is still inside the acceptance window, but its remembered id has already
  lapsed, so a captured proof is accepted a second time then.
\<close>

theorem dpop_replay_at_window_end:
  assumes "om_get (rcSeen c) jti = Some (iat_ms claims + maxAge)" "jget claims ''iat'' = JNum iat"
    and "0 \<le> maxAge" "now = iat_ms claims + maxAge"
  shows "iat_in_window claims now maxAge \<and> fst (remember jti (iat_ms claims + maxAge) now c)"
  using assms by (simp add: iat_in_window_def iat_ms_def remember_def)

theorem dpop_replay_at_window_end_witness:
  "let claims = JObj [(''iat'', JNum 100)]; c = snd (remember ''j'' 160000 100000 new_replay_cache)
   in iat_in_window claims 160000 60000 \<and> fst (remember ''j'' (iat_ms claims + 60000) 160000 c)"
  unfolding Let_def
  by (rule dpop_replay_at_window_end [where iat = 100])
     (simp_all add: remember_def new_replay_cache_def om_get_def purge_def iat_ms_def)

end
