(* ===== verification/Gate.thy ===== *)
theory Gate
  imports Dpop
begin

text \<open>
  What the bearer-token middlewares of the five services share: the extraction of the token,
  the frame of verification and error answers, the walk of the actor chain, and, as a locale,
  the contract of such a gate. The services' own decisions are in their theories.
\<close>

section \<open>The frame\<close>

datatype 'n gate = Respond http_res | Next 'n

definition answer :: "int \<Rightarrow> (string \<times> string) list \<Rightarrow> (string \<times> js) list \<Rightarrow> http_res" where
  "answer st hs body = \<lparr> rStatus = st, rHeaders = hs, rBody = JObj body \<rparr>"

text \<open>
  \<^verbatim>\<open>!authz || !authz.toLowerCase().startsWith('bearer ')\<close>, then
  \<^verbatim>\<open>authz.slice('bearer '.length).trim()\<close>.
\<close>

definition bearer_of :: "string option \<Rightarrow> string option" where
  "bearer_of authz =
     (case authz of
        None \<Rightarrow> None
      | Some a \<Rightarrow> if a = [] \<or> \<not> starts_with ''bearer '' (lower a) then None else Some (trim (drop 7 a)))"

text \<open>
  The shape of every \<^verbatim>\<open>authMiddleware\<close>: answer a missing token, verify, decide, and turn what is
  thrown into a 401 (a \<^verbatim>\<open>CurityAuthError\<close>) or a logged 500.
\<close>

definition bearer_middleware ::
  "('w, 'j) platform \<Rightarrow> http_res \<Rightarrow> verify_options
   \<Rightarrow> (string \<Rightarrow> verified_jwt \<Rightarrow> ('w, 'j, 'z, 'n gate) act)
   \<Rightarrow> (string \<Rightarrow> auth_code \<Rightarrow> http_res) \<Rightarrow> string
   \<Rightarrow> string option \<Rightarrow> ('w, 'j, 'z, 'n gate) act" where
  "bearer_middleware P missing opts on_verified on_auth_error tag authz =
     (case bearer_of authz of
        None \<Rightarrow> io_return (Respond missing)
      | Some token \<Rightarrow>
          io_catch (io_bind (verifyJwt P token opts) (on_verified token))
            (\<lambda>e. case e of
               CurityAuthError m c \<Rightarrow> io_return (Respond (on_auth_error m c))
             | _ \<Rightarrow> io_bind (emit (ConsoleError (tag @ '' '' @ exn_string e))) (\<lambda>_.
                     io_return (Respond (answer 500 [] [(''error'', JStr ''server_error'')])))))"

text \<open>Decorate the active span, then answer with the refusal of \<open>decide\<close> or go on with \<open>k\<close>.\<close>

definition decorate_then ::
  "(verified_jwt \<Rightarrow> http_res option) \<Rightarrow> (string \<Rightarrow> verified_jwt \<Rightarrow> 'n) \<Rightarrow> string \<Rightarrow> verified_jwt
   \<Rightarrow> ('w, 'j, 'z, 'n gate) act" where
  "decorate_then decide k token v =
     io_bind (decorateSpanWithIdentity v) (\<lambda>_.
       io_return (case decide v of Some res \<Rightarrow> Respond res | None \<Rightarrow> Next (k token v)))"

definition missing_scopes :: "string list \<Rightarrow> verified_jwt \<Rightarrow> string list" where
  "missing_scopes required v = filter (\<lambda>s. \<not> has_scope v s) required"

text \<open>
  The per-position check of an actor chain: the first position whose actor does not match, with
  the code that tells an actor out of place from an unknown one.
\<close>

fun first_mismatch :: "(string \<Rightarrow> bool) list \<Rightarrow> nat \<Rightarrow> (string \<Rightarrow> bool) list \<Rightarrow> string list \<Rightarrow> (string \<times> nat \<times> string) option" where
  "first_mismatch pats i (p # ps) (c # cs) =
     (if p c then first_mismatch pats (Suc i) ps cs
      else Some (if list_ex (\<lambda>q. q c) pats then ''act_chain_order'' else ''act_chain_unknown'', i, c))"
| "first_mismatch pats i _ _ = None"

text \<open>\<^verbatim>\<open>new RegExp('^spiffe://demo\.curity\.local/ns/NS/sa/SA$')\<close>: no other string matches.\<close>

definition spiffe_id :: "string \<Rightarrow> string \<Rightarrow> string" where
  "spiffe_id ns sa = ''spiffe://demo.curity.local/ns/'' @ ns @ ''/sa/'' @ sa"

definition SPIFFE_ID :: "string \<Rightarrow> string \<Rightarrow> string \<Rightarrow> bool" where
  "SPIFFE_ID ns sa s = (s = spiffe_id ns sa)"

lemmas gate_eval [eval_simps] = answer_def bearer_of_def bearer_middleware_def decorate_then_def
  missing_scopes_def spiffe_id_def SPIFFE_ID_def

text \<open>The nested \<^verbatim>\<open>act\<close> claim of a chain of actors, most recent first.\<close>

fun nest_act :: "string list \<Rightarrow> js" where
  "nest_act [] = JUndef"
| "nest_act [s] = JObj [(''sub'', JStr s)]"
| "nest_act (s # t # ss) = JObj [(''sub'', JStr s), (''act'', nest_act (t # ss))]"

text \<open>A concrete token and the platform that verifies it, for closed instances.\<close>

definition fixture_claims :: "string list \<Rightarrow> string \<Rightarrow> string \<Rightarrow> js" where
  "fixture_claims chain scope acr = JObj [(''sub'', JStr ''alice''), (''scope'', JStr scope),
     (''acr'', JStr acr), (''act'', nest_act chain), (''roles'', JArr [JStr ''sre''])]"

definition fixture_verified :: "js \<Rightarrow> verified_jwt" where
  "fixture_verified claims = verified_of (claims, JObj [(''alg'', JStr ''RS256'')])"

definition fixture_gate :: "js \<Rightarrow> (int, string) platform" where
  "fixture_gate claims = fixture no_net (\<lambda>t. if t = ''tok'' then Some claims else None)"

section \<open>Facts about actor chains\<close>

lemma fixture_verifies:
  "voJwksUri opts = Some ''https://as/jwks'' \<Longrightarrow>
   \<exists>t. verifyJwt (fixture_gate claims) ''tok'' opts (idle 0) = (Inr (fixture_verified claims), t)"
  by (simp add: fixture_gate_def fixture_verified_def eval_simps del: verified_of_def)

lemma fixture_bearer: "bearer_of (Some ''Bearer tok'') = Some ''tok''"
  by (simp add: eval_simps)

lemma nest_act_object: "is_object (nest_act ss) \<longleftrightarrow> ss \<noteq> []"
  by (cases ss rule: nest_act.cases) simp_all

text \<open>
  Round trip of the actor chain: walking the nested \<^verbatim>\<open>act\<close> claim of a list of actors gives
  back exactly that list, most recent actor first, whatever its length.
\<close>

theorem walk_nested_chain: "walkActChain (nest_act ss) = ss"
proof (induction ss rule: nest_act.induct)
  case 1
  then show ?case by (simp add: walkActChain.simps)
next
  case (2 s)
  then show ?case by (simp add: walkActChain.simps)
next
  case (3 s t ss)
  then show ?case
    by (subst walkActChain.simps) (simp add: nest_act_object del: nest_act.simps(2, 3) add: nest_act.simps(3) [of s t ss])
qed

text \<open>
  A walk only reads actors: every element is the string \<^verbatim>\<open>sub\<close> of some node, so an object with
  no string \<^verbatim>\<open>sub\<close> at its top has the empty chain.
\<close>

lemma walk_no_sub: "as_str (jget v ''sub'') = None \<Longrightarrow> walkActChain v = []"
  by (subst walkActChain.simps) (auto split: js.splits)

lemma first_mismatch_None:
  "length ps = length cs \<Longrightarrow> first_mismatch pats i ps cs = None \<longleftrightarrow> list_all2 (\<lambda>p c. p c) ps cs"
  by (induction pats i ps cs rule: first_mismatch.induct) auto

lemma first_mismatch_Some:
  "first_mismatch pats i ps cs = Some (code, j, c) \<Longrightarrow>
   i \<le> j \<and> j - i < length ps \<and> j - i < length cs \<and> c = cs ! (j - i) \<and> \<not> (ps ! (j - i)) c
   \<and> (\<forall>k < j - i. (ps ! k) (cs ! k))
   \<and> code = (if list_ex (\<lambda>q. q c) pats then ''act_chain_order'' else ''act_chain_unknown'')"
proof (induction pats i ps cs rule: first_mismatch.induct)
  case (1 pats i p ps c' cs)
  show ?case
  proof (cases "p c'")
    case True
    then have "first_mismatch pats (Suc i) ps cs = Some (code, j, c)" using 1(2) by simp
    then have h: "Suc i \<le> j \<and> j - Suc i < length ps \<and> j - Suc i < length cs \<and> c = cs ! (j - Suc i)
      \<and> \<not> (ps ! (j - Suc i)) c \<and> (\<forall>k < j - Suc i. (ps ! k) (cs ! k))
      \<and> code = (if list_ex (\<lambda>q. q c) pats then ''act_chain_order'' else ''act_chain_unknown'')"
      using 1(1) True by blast
    then have "j - i = Suc (j - Suc i)" by auto
    then show ?thesis using h True by (auto simp: less_Suc_eq_0_disj)
  next
    case False
    then show ?thesis using 1(2) by auto
  qed
qed auto

lemma spiffe_chain_iff:
  "list_all2 (\<lambda>p c. p c) (map (\<lambda>p. SPIFFE_ID (fst p) (snd p)) cs) xs \<longleftrightarrow> xs = map (\<lambda>p. spiffe_id (fst p) (snd p)) cs"
proof (induction cs arbitrary: xs)
  case Nil
  then show ?case by simp
next
  case (Cons c cs)
  then show ?case by (cases xs) (auto simp: SPIFFE_ID_def)
qed

lemma emits_bearer_middleware [emits_intros]:
  "(\<And>tok v. emits p (on_verified tok v)) \<Longrightarrow> (\<And>l. p (ConsoleError l)) \<Longrightarrow> (\<And>uri. voJwksUri opts = Some uri \<Longrightarrow> p (KeySet uri)) \<Longrightarrow>
   emits p (bearer_middleware P missing opts on_verified on_err tag authz)"
  unfolding bearer_middleware_def by (auto intro!: emits_intros split: exn.splits)

lemma emits_decorate_then [emits_intros]:
  "(\<And>as. p (SpanAttrs as)) \<Longrightarrow> emits p (decorate_then decide k tok v)"
  unfolding decorate_then_def by (intro emits_intros) simp

section \<open>The contract of a gate\<close>

text \<open>
  \<open>grants\<close> is the policy of the service on a verified token. The laws: the gate never throws, a
  request without a token gets 401 and nothing happens, a refused token gets 401, any other
  failure 500, and a verified token passes exactly when the policy grants it.
\<close>

locale bearer_gate =
  fixes gate :: "('w, 'j) platform \<Rightarrow> string option \<Rightarrow> ('w, 'j, 'z, 'n gate) act"
    and opts :: verify_options
    and grants :: "verified_jwt \<Rightarrow> bool"
  assumes no_bearer: "bearer_of h = None \<Longrightarrow> \<exists>res. gate P h s = (Inr (Respond res), s) \<and> rStatus res = 401"
    and refused: "bearer_of h = Some tok \<Longrightarrow> verifyJwt P tok opts s = (Inl (CurityAuthError m c), t) \<Longrightarrow>
       \<exists>res. gate P h s = (Inr (Respond res), t) \<and> rStatus res = 401"
    and failed: "bearer_of h = Some tok \<Longrightarrow> verifyJwt P tok opts s = (Inl e, t) \<Longrightarrow>
       (\<forall>m c. e \<noteq> CurityAuthError m c) \<Longrightarrow> \<exists>res u. gate P h s = (Inr (Respond res), u) \<and> rStatus res = 500"
    and granted: "bearer_of h = Some tok \<Longrightarrow> verifyJwt P tok opts s = (Inr v, t) \<Longrightarrow> grants v \<Longrightarrow>
       \<exists>n u. gate P h s = (Inr (Next n), u)"
    and denied: "bearer_of h = Some tok \<Longrightarrow> verifyJwt P tok opts s = (Inr v, t) \<Longrightarrow> \<not> grants v \<Longrightarrow>
       \<exists>res u. gate P h s = (Inr (Respond res), u) \<and> rStatus res \<in> {401, 403}"
begin

lemma total: "\<exists>g u. gate P h s = (Inr g, u)"
proof (cases "bearer_of h")
  case None
  then show ?thesis using no_bearer by blast
next
  case (Some tok)
  obtain r t where v: "verifyJwt P tok opts s = (r, t)" by fastforce
  show ?thesis
  proof (cases r)
    case (Inl e)
    then show ?thesis using refused [OF Some, of P s _ _ t] failed [OF Some, of P s e t] v by (cases e) auto
  next
    case (Inr v')
    then show ?thesis using granted [OF Some, of P s v' t] denied [OF Some, of P s v' t] v
      by (cases "grants v'") auto
  qed
qed

text \<open>A request passes exactly when its token is verified and the policy grants it.\<close>

lemma next_iff:
  "(\<exists>n u. gate P h s = (Inr (Next n), u)) \<longleftrightarrow>
   (\<exists>tok v t. bearer_of h = Some tok \<and> verifyJwt P tok opts s = (Inr v, t) \<and> grants v)"
proof
  assume "\<exists>n u. gate P h s = (Inr (Next n), u)"
  then obtain n u where g: "gate P h s = (Inr (Next n), u)" by blast
  obtain tok where tok: "bearer_of h = Some tok" using no_bearer [of h P s] g by (cases "bearer_of h") auto
  obtain r t where v: "verifyJwt P tok opts s = (r, t)" by fastforce
  show "\<exists>tok v t. bearer_of h = Some tok \<and> verifyJwt P tok opts s = (Inr v, t) \<and> grants v"
  proof (cases r)
    case (Inl e)
    then show ?thesis using refused [OF tok, of P s _ _ t] failed [OF tok, of P s e t] v g by (cases e) auto
  next
    case (Inr v')
    then show ?thesis using denied [OF tok, of P s v' t] v g tok by auto
  qed
next
  assume "\<exists>tok v t. bearer_of h = Some tok \<and> verifyJwt P tok opts s = (Inr v, t) \<and> grants v"
  then show "\<exists>n u. gate P h s = (Inr (Next n), u)" using granted by blast
qed

text \<open>A request that passes carries a token the key set of the configuration vouches for.\<close>

lemma next_verified:
  assumes "gate P h s = (Inr (Next n), u)" "jwks_cache_ok P s"
  shows "\<exists>tok uri w w' p. bearer_of h = Some tok \<and> voJwksUri opts = Some uri
    \<and> jwtVerify P tok (createRemoteJWKSet P uri) (jwt_expectations opts) w = (Inr p, w')
    \<and> grants (verified_of p)"
proof -
  obtain tok v t where "bearer_of h = Some tok" "verifyJwt P tok opts s = (Inr v, t)" "grants v"
    using next_iff assms(1) by blast
  then show ?thesis using verifyJwt_success assms(2) by blast
qed

text \<open>Whatever else the gate answers is a refusal.\<close>

lemma response_status:
  assumes "gate P h s = (Inr (Respond res), u)"
  shows "rStatus res \<in> {401, 403, 500}"
proof (cases "bearer_of h")
  case None
  then show ?thesis using no_bearer [of h P s] assms by auto
next
  case (Some tok)
  obtain r t where v: "verifyJwt P tok opts s = (r, t)" by fastforce
  show ?thesis
  proof (cases r)
    case (Inl e)
    then show ?thesis using refused [OF Some, of P s _ _ t] failed [OF Some, of P s e t] v assms by (cases e) auto
  next
    case (Inr v')
    then show ?thesis using granted [OF Some, of P s v' t] denied [OF Some, of P s v' t] v assms
      by (cases "grants v'") auto
  qed
qed

end

text \<open>The frame meets the contract, for a decision that answers 401 or 403 exactly when it refuses.\<close>

lemma decorate_total: "\<exists>u. decorateSpanWithIdentity v s = (Inr (), u)"
  by (auto simp: decorateSpanWithIdentity_def set_active_attrs_def io_simps split: option.splits)

lemma bearer_gate_frame:
  assumes "rStatus missing = 401" "\<And>m c. rStatus (on_auth_error m c) = 401"
    and "\<And>token v s. grants v \<Longrightarrow> \<exists>n u. on_verified token v s = (Inr (Next n), u)"
    and "\<And>token v s. \<not> grants v \<Longrightarrow> \<exists>res u. on_verified token v s = (Inr (Respond res), u) \<and> rStatus res \<in> {401, 403}"
  shows "bearer_gate (\<lambda>P. bearer_middleware P missing opts on_verified on_auth_error tag) opts grants"
proof unfold_locales
  fix h and P :: "('a, 'b) platform" and s :: "('a, 'b, 'c) proc_scheme"
  assume "bearer_of h = None"
  then show "\<exists>res. bearer_middleware P missing opts on_verified on_auth_error tag h s = (Inr (Respond res), s) \<and> rStatus res = 401"
    using assms(1) by (simp add: bearer_middleware_def io_return_def)
next
  fix h tok m c and P :: "('a, 'b) platform" and s t :: "('a, 'b, 'c) proc_scheme"
  assume "bearer_of h = Some tok" "verifyJwt P tok opts s = (Inl (CurityAuthError m c), t)"
  then show "\<exists>res. bearer_middleware P missing opts on_verified on_auth_error tag h s = (Inr (Respond res), t) \<and> rStatus res = 401"
    using assms(2) by (simp add: bearer_middleware_def io_simps)
next
  fix h tok e and P :: "('a, 'b) platform" and s t :: "('a, 'b, 'c) proc_scheme"
  assume "bearer_of h = Some tok" "verifyJwt P tok opts s = (Inl e, t)" "\<forall>m c. e \<noteq> CurityAuthError m c"
  then show "\<exists>res u. bearer_middleware P missing opts on_verified on_auth_error tag h s = (Inr (Respond res), u) \<and> rStatus res = 500"
    by (cases e) (simp_all add: bearer_middleware_def io_simps answer_def)
next
  fix h tok v and P :: "('a, 'b) platform" and s t :: "('a, 'b, 'c) proc_scheme"
  assume a: "bearer_of h = Some tok" "verifyJwt P tok opts s = (Inr v, t)" "grants v"
  obtain n u where "on_verified tok v t = (Inr (Next n), u)" using assms(3) a(3) by blast
  then show "\<exists>n u. bearer_middleware P missing opts on_verified on_auth_error tag h s = (Inr (Next n), u)"
    using a by (simp add: bearer_middleware_def io_catch_def io_bind_def)
next
  fix h tok v and P :: "('a, 'b) platform" and s t :: "('a, 'b, 'c) proc_scheme"
  assume a: "bearer_of h = Some tok" "verifyJwt P tok opts s = (Inr v, t)" "\<not> grants v"
  obtain res u where "on_verified tok v t = (Inr (Respond res), u)" "rStatus res \<in> {401, 403}"
    using assms(4) a(3) by blast
  then show "\<exists>res u. bearer_middleware P missing opts on_verified on_auth_error tag h s = (Inr (Respond res), u) \<and> rStatus res \<in> {401, 403}"
    using a by (simp add: bearer_middleware_def io_catch_def io_bind_def)
qed

lemma bearer_gate_decorate:
  assumes "rStatus missing = 401" "\<And>m c. rStatus (on_auth_error m c) = 401"
    and "\<And>v. grants v \<longleftrightarrow> decide v = None"
    and "\<And>v res. decide v = Some res \<Longrightarrow> rStatus res \<in> {401, 403}"
  shows "bearer_gate (\<lambda>P. bearer_middleware P missing opts (decorate_then decide k) on_auth_error tag) opts grants"
proof (rule bearer_gate_frame)
  fix token v and s :: "('a, 'b, 'c) proc_scheme"
  obtain u where u: "decorateSpanWithIdentity v s = (Inr (), u)" using decorate_total by blast
  show "grants v \<Longrightarrow> \<exists>n u. decorate_then decide k token v s = (Inr (Next n), u)"
    using assms(3) u by (simp add: decorate_then_def io_bind_def io_return_def)
  show "\<not> grants v \<Longrightarrow> \<exists>res u. decorate_then decide k token v s = (Inr (Respond res), u) \<and> rStatus res \<in> {401, 403}"
    using assms(3,4) u by (auto simp: decorate_then_def io_bind_def io_return_def)
qed (simp_all add: assms)

end
