(* ===== verification/Exchange.thy ===== *)
theory Exchange
  imports Dpop
begin

text \<open>
  \<^verbatim>\<open>packages/auth-curity/src/exchange.ts\<close>: the RFC 8693 token exchange against Curity's token
  endpoint, with its client authentication, the DPoP binding and its single nonce retry, the
  classification of refusals, and the one log line every attempt ends in.
\<close>

section \<open>Encodings\<close>

definition b64_alphabet :: string where
  "b64_alphabet = ''ABCDEFGHIJKLMNOPQRSTUVWXYZabcdefghijklmnopqrstuvwxyz0123456789+/''"

fun base64 :: "string \<Rightarrow> string" where
  "base64 [] = []"
| "base64 [a] =
     (let n = (of_char a :: nat) * 16
      in [b64_alphabet ! (n div 64), b64_alphabet ! (n mod 64), CHR ''='', CHR ''=''])"
| "base64 [a, b] =
     (let n = ((of_char a :: nat) * 256 + of_char b) * 4
      in [b64_alphabet ! (n div 4096), b64_alphabet ! (n div 64 mod 64), b64_alphabet ! (n mod 64), CHR ''=''])"
| "base64 (a # b # c # s) =
     (let n = ((of_char a :: nat) * 256 + of_char b) * 256 + of_char c
      in [b64_alphabet ! (n div 262144), b64_alphabet ! (n div 4096 mod 64),
          b64_alphabet ! (n div 64 mod 64), b64_alphabet ! (n mod 64)] @ base64 s)"

text \<open>The \<^verbatim>\<open>application/x-www-form-urlencoded\<close> serializer of \<^verbatim>\<open>URLSearchParams\<close>.\<close>

definition upper_hex :: "nat \<Rightarrow> char" where
  "upper_hex n = ''0123456789ABCDEF'' ! n"

definition form_char :: "char \<Rightarrow> string" where
  "form_char c =
     (if c = CHR '' '' then ''+''
      else if c \<in> set ''ABCDEFGHIJKLMNOPQRSTUVWXYZabcdefghijklmnopqrstuvwxyz0123456789*-._'' then [c]
      else (let n = (of_char c :: nat) in [CHR ''%'', upper_hex (n div 16), upper_hex (n mod 16)]))"

definition form_text :: "string \<Rightarrow> string" where
  "form_text s = concat (map form_char s)"

definition form_encode :: "(string \<times> string) list \<Rightarrow> string" where
  "form_encode ps = join ''&'' (map (\<lambda>p. form_text (fst p) @ ''='' @ form_text (snd p)) ps)"

section \<open>Parameters and result\<close>

datatype client_auth =
    Basic
  | PrivateKeyJwt string string "string option" string
      \<comment> \<open>the PEM key, its \<^verbatim>\<open>kid\<close>, the algorithm, the assertion's audience\<close>

record exchange_params =
  xTokenEndpoint :: string
  xClientId :: string
  xClientSecret :: "string option"
  xClientAuth :: "client_auth option"
  xSubjectToken :: string
  xActorToken :: string
  xAudience :: string
  xScope :: string
  xSubjectTokenType :: "string option"
  xActorTokenType :: "string option"
  xRequestedTokenType :: "string option"
  xDpop :: "dpop_key option"

text \<open>The members come from the response body as they are, so they are JavaScript values.\<close>

record exchange_result =
  xrAccessToken :: js
  xrTokenType :: js
  xrExpiresInSec :: js
  xrScope :: js
  xrIssuedTokenType :: js

definition grant_type :: string where
  "grant_type = ''urn:ietf:params:oauth:grant-type:token-exchange''"
definition tt_access_token :: string where
  "tt_access_token = ''urn:ietf:params:oauth:token-type:access_token''"
definition tt_jwt :: string where
  "tt_jwt = ''urn:ietf:params:oauth:token-type:jwt''"
definition client_assertion_type :: string where
  "client_assertion_type = ''urn:ietf:params:oauth:client-assertion-type:jwt-bearer''"

definition or_else :: "'a option \<Rightarrow> 'a \<Rightarrow> 'a" where
  "or_else x d = (case x of None \<Rightarrow> d | Some v \<Rightarrow> v)"

text \<open>\<^verbatim>\<open>v ?? d\<close>\<close>

definition js_or :: "js \<Rightarrow> js \<Rightarrow> js" where
  "js_or v d = (if nullish v then d else v)"

text \<open>\<^verbatim>\<open>/^https:\/\/([^.]+)\./\<close>\<close>

definition callerLabel :: "string \<Rightarrow> string" where
  "callerLabel clientId =
     (if starts_with ''https://'' clientId
      then (case break_at (\<lambda>c. c = CHR ''.'') (drop 8 clientId) of
              (m, rest) \<Rightarrow> if m \<noteq> [] \<and> rest \<noteq> [] then ''agent-'' @ m else clientId)
      else clientId)"

text \<open>
  \<open>ERROR_MAP\<close> is an object literal, so \<^verbatim>\<open>in\<close> also finds what it inherits from
  \<^verbatim>\<open>Object.prototype\<close>.
\<close>

definition error_map :: "(string \<times> auth_code) list" where
  "error_map = [(''invalid_scope'', InvalidScope), (''invalid_grant'', InvalidGrant),
                (''access_denied'', AccessDenied), (''invalid_client'', InvalidClient)]"

definition object_prototype :: "string list" where
  "object_prototype = [''constructor'', ''__defineGetter__'', ''__defineSetter__'', ''hasOwnProperty'',
     ''__lookupGetter__'', ''__lookupSetter__'', ''isPrototypeOf'', ''propertyIsEnumerable'',
     ''toString'', ''valueOf'', ''__proto__'', ''toLocaleString'']"

definition in_error_map :: "js \<Rightarrow> auth_code option" where
  "in_error_map e =
     (case map_of error_map (js_string e) of
        Some c \<Rightarrow> Some c
      | None \<Rightarrow> if js_string e \<in> set object_prototype then Some (PrototypeMember (js_string e)) else None)"

section \<open>One request\<close>

definition buildClientAssertion ::
  "('w, 'j) platform \<Rightarrow> string \<Rightarrow> string \<Rightarrow> string \<Rightarrow> string option \<Rightarrow> string \<Rightarrow> ('w, 'j, 'z, string) act" where
  "buildClientAssertion P clientId pem kid alg aud =
     (let a = or_else alg ''RS256''
      in io_bind (io_catch (lift_sum (importPKCS8 P pem a))
                   (\<lambda>e. io_throw (CurityAuthError (''failed to import client signing key: '' @ message_of e) InvalidClient)))
           (\<lambda>key.
         io_bind (world_get (randomUUID P)) (\<lambda>jti.
         io_bind (world_get (dateNow P)) (\<lambda>now.
           lift_sum (signJwt P key (JObj [(''alg'', JStr a), (''kid'', JStr kid)])
             (JObj [(''iss'', JStr clientId), (''sub'', JStr clientId), (''aud'', JStr aud),
                    (''jti'', JStr jti), (''iat'', JNum (now div 1000)),
                    (''exp'', JNum (now div 1000 + 60))]))))))"

definition base_params :: "exchange_params \<Rightarrow> (string \<times> string) list" where
  "base_params x =
     [(''grant_type'', grant_type),
      (''subject_token'', xSubjectToken x),
      (''subject_token_type'', or_else (xSubjectTokenType x) tt_access_token),
      (''actor_token'', xActorToken x),
      (''actor_token_type'', or_else (xActorTokenType x) tt_jwt),
      (''requested_token_type'', or_else (xRequestedTokenType x) tt_access_token),
      (''audience'', xAudience x),
      (''scope'', xScope x)]"

definition base_headers :: "(string \<times> string) list" where
  "base_headers = [(''content-type'', ''application/x-www-form-urlencoded''), (''accept'', ''application/json'')]"

text \<open>The body parameters and headers that authenticate the client.\<close>

definition client_part ::
  "('w, 'j) platform \<Rightarrow> exchange_params \<Rightarrow> ('w, 'j, 'z, (string \<times> string) list \<times> (string \<times> string) list) act" where
  "client_part P x =
     (case or_else (xClientAuth x) Basic of
        PrivateKeyJwt pem kid alg aud \<Rightarrow>
          io_bind (buildClientAssertion P (xClientId x) pem kid alg aud) (\<lambda>jws.
            io_return (base_params x @ [(''client_id'', xClientId x),
                         (''client_assertion_type'', client_assertion_type), (''client_assertion'', jws)],
                       base_headers))
      | Basic \<Rightarrow>
          io_return (base_params x,
            base_headers @ [(''authorization'', ''Basic '' @
              base64 (xClientId x @ '':'' @ or_else (xClientSecret x) ''undefined''))]))"

definition nonce_of :: "dpop_key \<Rightarrow> ('w, 'j, 'z) proc_scheme \<Rightarrow> string option" where
  "nonce_of key s = om_get (dpopNonces s) (dkJkt key)"

definition dpop_part ::
  "('w, 'j) platform \<Rightarrow> exchange_params \<Rightarrow> ('w, 'j, 'z, (string \<times> string) list) act" where
  "dpop_part P x =
     (case xDpop x of
        None \<Rightarrow> io_return []
      | Some key \<Rightarrow>
          io_bind (io_read (nonce_of key)) (\<lambda>nonce.
          io_bind (createDpopProof P key ''POST'' (xTokenEndpoint x) None nonce) (\<lambda>prf.
            io_return [(''dpop'', prf)])))"

text \<open>\<^verbatim>\<open>if (params.dpop && nonce) params.dpop.nonce = nonce\<close>\<close>

definition store_nonce :: "exchange_params \<Rightarrow> http_rsp \<Rightarrow> ('w, 'j, 'z, unit) act" where
  "store_nonce x rsp =
     (case (xDpop x, rsp_header rsp ''dpop-nonce'') of
        (Some key, Some n) \<Rightarrow>
          if n = [] then io_return ()
          else io_modify (\<lambda>s. s\<lparr>dpopNonces := om_set (dpopNonces s) (dkJkt key) n\<rparr>)
      | _ \<Rightarrow> io_return ())"

definition fetch_error :: "exn \<Rightarrow> exn" where
  "fetch_error e = CurityAuthError (''token-exchange fetch failed: '' @ message_of e) ExchangeFailed"

definition sendExchange :: "('w, 'j) platform \<Rightarrow> exchange_params \<Rightarrow> ('w, 'j, 'z, http_rsp) act" where
  "sendExchange P x =
     io_bind (client_part P x) (\<lambda>(body, headers).
     io_bind (dpop_part P x) (\<lambda>dpop_headers.
     io_bind (io_catch
        (http_fetch P \<lparr> qMethod = ''POST'', qUrl = xTokenEndpoint x,
                         qHeaders = headers @ dpop_headers, qBody = form_encode body \<rparr>)
        (\<lambda>e. io_throw (fetch_error e))) (\<lambda>rsp.
     io_bind (store_nonce x rsp) (\<lambda>_. io_return rsp))))"

section \<open>The exchange\<close>

definition oauthErrorOf :: "http_rsp \<Rightarrow> js" where
  "oauthErrorOf rsp = (case pJson rsp of Inl _ \<Rightarrow> JUndef | Inr j \<Rightarrow> jget j ''error'')"

definition token_result :: "exchange_params \<Rightarrow> js \<Rightarrow> exchange_result" where
  "token_result x json =
     \<lparr> xrAccessToken = jget json ''access_token'',
       xrTokenType = js_or (jget json ''token_type'') (JStr ''Bearer''),
       xrExpiresInSec = js_or (jget json ''expires_in'') (JNum 0),
       xrScope = js_or (jget json ''scope'') (JStr (xScope x)),
       xrIssuedTokenType = js_or (jget json ''issued_token_type'') (JStr tt_access_token) \<rparr>"

text \<open>What a response other than 2xx is turned into.\<close>

definition refusal_error :: "http_rsp \<Rightarrow> exn" where
  "refusal_error rsp =
     (let parsed = (case pJson rsp of Inl _ \<Rightarrow> JObj [] | Inr j \<Rightarrow> j)
      in if nullish parsed then type_error (''Cannot read properties of '' @ js_string parsed)
         else (let oauthError = jget parsed ''error''; desc = jget parsed ''error_description'';
                   text = js_string (js_or desc (JStr []))
               in if truthy oauthError \<and> in_error_map oauthError \<noteq> None
                    then CurityAuthError (js_string (js_or desc oauthError)) (the (in_error_map oauthError))
                  else if oauthError = JStr ''invalid_request'' \<and> contains_ci ''actor'' text
                    then CurityAuthError (js_string (js_or desc (JStr ''invalid actor_token''))) InvalidActor
                  else if oauthError = JStr ''invalid_request'' \<and> contains_ci ''invalid_scope'' text
                    then CurityAuthError (js_string (js_or desc (JStr ''invalid_scope''))) InvalidScope
                  else CurityAuthError
                    (''token-exchange failed: HTTP '' @ int_str (pStatus rsp)
                     @ (if truthy oauthError then '' '' @ js_string oauthError else [])
                     @ (if truthy desc then '': '' @ js_string desc else [])) ExchangeFailed))"

text \<open>The fields of an EXCHANGE or DENY line that describe the request.\<close>

definition exchange_fields :: "('w, 'j) platform \<Rightarrow> exchange_params \<Rightarrow> (string \<times> js) list" where
  "exchange_fields P x =
     (let subj = summarizeJwt P (Some (xSubjectToken x)); actor = summarizeJwt P (Some (xActorToken x))
      in [(''client_id'', JStr (xClientId x)),
          (''subject (sub)'', opt_js (jsSub subj)),
          (''subject act'', opt_js (jsAct subj)),
          (''actor (spiffe)'', opt_js (jsSub actor)),
          (''scope req'', JStr (xScope x))])"

definition exchange_event :: "('w, 'j) platform \<Rightarrow> exchange_params \<Rightarrow> js \<Rightarrow> obo_event" where
  "exchange_event P x json =
     event (callerLabel (xClientId x)) EXCHANGE (arrow @ '' '' @ xAudience x)
       (exchange_fields P x @ [(''scope issued'', js_or (jget json ''scope'') (JStr (xScope x)))])"

definition denial_event :: "('w, 'j) platform \<Rightarrow> exchange_params \<Rightarrow> exn \<Rightarrow> obo_event" where
  "denial_event P x e =
     event (callerLabel (xClientId x)) DENY (arrow @ '' '' @ xAudience x)
       (exchange_fields P x @
        [(''error'', JStr (case e of CurityAuthError _ c \<Rightarrow> code_str c | _ \<Rightarrow> ''exchange_failed'')),
         (''reason'', JStr (message_of e))])"

definition logDenial :: "('w, 'j) platform \<Rightarrow> exchange_params \<Rightarrow> exn \<Rightarrow> ('w, 'j, 'z, unit) act" where
  "logDenial P x e = oboLog P (denial_event P x e)"

definition malformed_error :: "exn \<Rightarrow> exn" where
  "malformed_error e =
     CurityAuthError (''token-exchange returned malformed JSON: '' @ message_of e) ExchangeFailed"

definition granted :: "('w, 'j) platform \<Rightarrow> exchange_params \<Rightarrow> http_rsp \<Rightarrow> ('w, 'j, 'z, exchange_result) act" where
  "granted P x rsp =
     (case pJson rsp of
        Inl e \<Rightarrow> io_throw (malformed_error e)
      | Inr json \<Rightarrow>
          io_bind (prop_of json ''scope'') (\<lambda>_.
          io_bind (oboLog P (exchange_event P x json)) (\<lambda>_.
            io_return (token_result x json))))"

text \<open>\<^verbatim>\<open>params.dpop?.nonce && response.status === 400 && (await oauthErrorOf(response)) === 'use_dpop_nonce'\<close>\<close>

definition wants_nonce_retry :: "exchange_params \<Rightarrow> http_rsp \<Rightarrow> ('w, 'j, 'z) proc_scheme \<Rightarrow> bool" where
  "wants_nonce_retry x rsp s =
     ((case xDpop x of None \<Rightarrow> False
       | Some key \<Rightarrow> (case nonce_of key s of None \<Rightarrow> False | Some n \<Rightarrow> n \<noteq> []))
      \<and> pStatus rsp = 400 \<and> oauthErrorOf rsp = JStr ''use_dpop_nonce'')"

definition doExchange :: "('w, 'j) platform \<Rightarrow> exchange_params \<Rightarrow> ('w, 'j, 'z, exchange_result) act" where
  "doExchange P x =
     io_bind (sendExchange P x) (\<lambda>rsp1.
     io_bind (io_read (wants_nonce_retry x rsp1)) (\<lambda>retry.
     io_bind (if retry then sendExchange P x else io_return rsp1) (\<lambda>rsp.
       if rsp_ok rsp then granted P x rsp else io_throw (refusal_error rsp))))"

definition exchange_attrs :: "exchange_params \<Rightarrow> (string \<times> js) list" where
  "exchange_attrs x =
     buildExchangeAttributes (xTokenEndpoint x) (xClientId x) (xAudience x) (xScope x)
       (map_option dkJkt (xDpop x))"

definition exchangeToken :: "('w, 'j) platform \<Rightarrow> exchange_params \<Rightarrow> ('w, 'j, 'z, exchange_result) act" where
  "exchangeToken P x =
     with_active_span P ''auth.token_exchange'' (exchange_attrs x)
       (io_finally
          (io_catch
             (io_bind (doExchange P x) (\<lambda>r.
              io_bind (emit (SpanAttrs [(''auth.exchange.issued_scope'', xrScope r)])) (\<lambda>_.
              io_bind (emit SpanStatusOk) (\<lambda>_. io_return r))))
             (\<lambda>e.
              io_bind (emit (SpanStatusError (message_of e))) (\<lambda>_.
              io_bind (emit (SpanException e)) (\<lambda>_.
              io_bind (logDenial P x e) (\<lambda>_. io_throw e)))))
          (emit SpanEnd))"

lemmas exchange_eval [eval_simps] = grant_type_def tt_access_token_def tt_jwt_def
  client_assertion_type_def or_else_def js_or_def callerLabel_def error_map_def
  object_prototype_def in_error_map_def buildClientAssertion_def base_params_def base_headers_def
  client_part_def nonce_of_def dpop_part_def store_nonce_def fetch_error_def sendExchange_def
  oauthErrorOf_def token_result_def refusal_error_def exchange_fields_def exchange_event_def
  denial_event_def logDenial_def malformed_error_def granted_def wants_nonce_retry_def
  doExchange_def exchange_attrs_def exchangeToken_def

section \<open>What an exchange emits\<close>

definition stamped :: "obo_event \<Rightarrow> string \<Rightarrow> obo_trace \<Rightarrow> obo_event" where
  "stamped ev at tr = ev\<lparr> oAt := Some at, oTrace := Some tr \<rparr>"

definition line_of :: "('w, 'j) platform \<Rightarrow> obo_event \<Rightarrow> string list \<Rightarrow> bool" where
  "line_of P ev ls =
     (if oboOff P then ls = [] else \<exists>at tr. ls = [formatOboLog (stamped ev at tr)])"

lemma does_oboLog [does_intros]:
  "oAt ev = None \<Longrightarrow> oTrace ev = None \<Longrightarrow>
   does (oboLog P ev) (\<lambda>es r. r = Inr () \<and> requests es = [] \<and> line_of P ev (consoles es))"
  by (auto simp: does_def oboLog_def io_simps line_of_def stamped_def split: prod.splits)

lemma event_unstamped [simp]: "oAt (event a b c d) = None" "oTrace (event a b c d) = None"
  by (simp_all add: event_def)

definition quiet :: "effect list \<Rightarrow> bool" where
  "quiet es = (requests es = [] \<and> consoles es = [])"

lemma quiet_simps [simp]: "quiet []" "quiet (es @ fs) = (quiet es \<and> quiet fs)"
  by (auto simp: quiet_def)

lemma does_quiet_bind:
  assumes "does m (\<lambda>es r. quiet es)" "\<And>a. does (f a) (\<lambda>es r. quiet es)"
  shows "does (io_bind m f) (\<lambda>es r. quiet es)"
  by (rule does_conseq [OF does_bind [OF assms]]) auto

lemma does_quiet_catch_throw:
  "does m (\<lambda>es r. quiet es) \<Longrightarrow> does (io_catch m (\<lambda>e. io_throw (g e))) (\<lambda>es r. quiet es)"
  by (rule does_conseq [OF does_catch [OF _ does_throw]]) auto

lemma quiet_atoms:
  "does (io_return a) (\<lambda>es r. quiet es)" "does (io_throw e) (\<lambda>es r. quiet es)"
  "does (world_get f) (\<lambda>es r. quiet es)" "does (world_try g) (\<lambda>es r. quiet es)"
  "does (lift_sum x) (\<lambda>es r. quiet es)" "does (io_read h) (\<lambda>es r. quiet es)"
  "does (prop_of v k) (\<lambda>es r. quiet es)"
  by (rule does_conseq [OF does_return] does_conseq [OF does_throw] does_conseq [OF does_world_get]
        does_conseq [OF does_world_try] does_conseq [OF does_lift_sum] does_conseq [OF does_read]
        does_conseq [OF does_prop_of]; simp)+

lemma client_part_quiet: "does (client_part P x) (\<lambda>es r. quiet es)"
  by (auto simp: client_part_def buildClientAssertion_def Let_def split: client_auth.splits
      intro!: does_quiet_bind does_quiet_catch_throw quiet_atoms)

lemma dpop_part_quiet: "does (dpop_part P x) (\<lambda>es r. quiet es)"
  by (auto simp: dpop_part_def createDpopProof_def split: option.splits
      intro!: does_quiet_bind quiet_atoms)

lemma store_nonce_quiet: "does (store_nonce x rsp) (\<lambda>es r. es = [] \<and> r = Inr ())"
  by (auto simp: store_nonce_def does_def io_simps split: option.splits)

definition exchange_request :: "exchange_params \<Rightarrow> http_req \<Rightarrow> bool" where
  "exchange_request x q = (qMethod q = ''POST'' \<and> qUrl q = xTokenEndpoint x)"

lemma does_sendExchange:
  "does (sendExchange P x)
     (\<lambda>es r. consoles es = [] \<and> length (requests es) \<le> 1 \<and> list_all (exchange_request x) (requests es)
           \<and> (\<forall>a. r = Inr a \<longrightarrow> length (requests es) = 1))"
  unfolding sendExchange_def case_prod_unfold
  apply (rule does_conseq [OF does_bind [OF client_part_quiet does_bind [OF dpop_part_quiet
            does_bind [OF does_catch [OF does_http_fetch does_throw]
              does_bind [OF store_nonce_quiet does_return]]]]])
  apply (auto simp: quiet_def exchange_request_def)
  done

lemma does_granted:
  "does (granted P x rsp)
     (\<lambda>es r. requests es = [] \<and> (\<forall>e. r = Inl e \<longrightarrow> consoles es = [])
           \<and> (\<forall>a. r = Inr a \<longrightarrow> (\<exists>json. pJson rsp = Inr json \<and> \<not> nullish json \<and> a = token_result x json
                                   \<and> line_of P (exchange_event P x json) (consoles es))))"
proof (cases "pJson rsp")
  case (Inl e)
  then show ?thesis by (simp add: granted_def does_def io_simps)
next
  case (Inr json)
  have "does (prop_of json ''scope'') (\<lambda>es r. es = [] \<and> (\<forall>a. r = Inr a \<longrightarrow> \<not> nullish json))"
    by (auto simp: does_def prop_of_def io_simps)
  moreover have "does (oboLog P (exchange_event P x json))
      (\<lambda>es r. r = Inr () \<and> requests es = [] \<and> line_of P (exchange_event P x json) (consoles es))"
    by (rule does_oboLog) (simp_all add: exchange_event_def)
  ultimately show ?thesis
    unfolding granted_def Inr sum.case
    by (rule does_conseq [OF does_bind [OF _ does_bind [OF _ does_return]]]) auto
qed

lemma does_doExchange:
  "does (doExchange P x)
     (\<lambda>es r. length (requests es) \<le> 2 \<and> list_all (exchange_request x) (requests es)
           \<and> (\<forall>e. r = Inl e \<longrightarrow> consoles es = [])
           \<and> (\<forall>a. r = Inr a \<longrightarrow> (\<exists>json. \<not> nullish json \<and> a = token_result x json
                                   \<and> line_of P (exchange_event P x json) (consoles es))))"
proof -
  have second: "does (if retry then sendExchange P x else io_return rsp1)
     (\<lambda>es r. consoles es = [] \<and> length (requests es) \<le> 1 \<and> list_all (exchange_request x) (requests es))"
    for retry rsp1
    by (auto intro: does_conseq [OF does_sendExchange] does_conseq [OF does_return])
  have last: "does (if rsp_ok rsp then granted P x rsp else io_throw (refusal_error rsp))
     (\<lambda>es r. requests es = [] \<and> (\<forall>e. r = Inl e \<longrightarrow> consoles es = [])
           \<and> (\<forall>a. r = Inr a \<longrightarrow> (\<exists>json. \<not> nullish json \<and> a = token_result x json
                                   \<and> line_of P (exchange_event P x json) (consoles es))))" for rsp
    by (auto intro: does_conseq [OF does_granted] does_conseq [OF does_throw])
  show ?thesis unfolding doExchange_def
    by (rule does_conseq [OF does_bind [OF does_sendExchange does_bind [OF does_read
              does_bind [OF second last]]]]) auto
qed

definition attempt_trace ::
  "('w, 'j) platform \<Rightarrow> exchange_params \<Rightarrow> effect list \<Rightarrow> exn + exchange_result \<Rightarrow> bool" where
  "attempt_trace P x es r =
     (length (requests es) \<le> 2 \<and> list_all (exchange_request x) (requests es)
      \<and> (case r of
           Inl e \<Rightarrow> line_of P (denial_event P x e) (consoles es)
         | Inr a \<Rightarrow> \<exists>json. \<not> nullish json \<and> a = token_result x json
                         \<and> line_of P (exchange_event P x json) (consoles es)))"

lemma does_exchangeToken: "does (exchangeToken P x) (attempt_trace P x)"
proof -
  have den: "does (logDenial P x e)
     (\<lambda>es r. r = Inr () \<and> requests es = [] \<and> line_of P (denial_event P x e) (consoles es))" for e
    unfolding logDenial_def by (rule does_oboLog) (simp_all add: denial_event_def)
  show ?thesis unfolding exchangeToken_def
    apply (rule does_conseq [OF does_with_active_span [OF does_finally [OF does_catch [OF
              does_bind [OF does_doExchange does_bind [OF does_emit does_bind [OF does_emit does_return]]]
              does_bind [OF does_emit does_bind [OF does_emit does_bind [OF den does_throw]]]]
              does_emit]]])
    apply (auto simp: attempt_trace_def)
    done
qed

text \<open>
  Every exchange attempt makes at most two requests, all to the token endpoint, and (when
  the log is on) prints exactly one line: an EXCHANGE line when it returns, whose result is read
  off a JSON answer, and a DENY line naming the error when it throws, on every failure path.
\<close>

theorem exchange_one_line:
  assumes "exchangeToken P x s = (r, t)" "\<not> oboOff P"
  shows "\<exists>es line. out t = out s @ es \<and> length (requests es) \<le> 2
    \<and> (\<forall>q \<in> set (requests es). qMethod q = ''POST'' \<and> qUrl q = xTokenEndpoint x)
    \<and> consoles es = [line]
    \<and> (case r of
         Inl e \<Rightarrow> \<exists>at tr. line = formatOboLog (stamped (denial_event P x e) at tr)
       | Inr a \<Rightarrow> \<exists>json at tr. \<not> nullish json \<and> a = token_result x json
                   \<and> line = formatOboLog (stamped (exchange_event P x json) at tr))"
  using doesD [OF does_exchangeToken assms(1)] assms(2)
  by (cases r) (fastforce simp: attempt_trace_def line_of_def list_all_iff exchange_request_def)+


definition fixture_params :: exchange_params where
  "fixture_params =
     \<lparr> xTokenEndpoint = ''https://as/token'', xClientId = ''agentgateway'', xClientSecret = Some ''s'',
       xClientAuth = Some (PrivateKeyJwt ''pem'' ''kid'' None ''https://as/token''),
       xSubjectToken = ''subj'', xActorToken = ''svid'', xAudience = ''mcp-ops'', xScope = ''ops:write'',
       xSubjectTokenType = None, xActorTokenType = None, xRequestedTokenType = None, xDpop = None \<rparr>"

definition answering :: "http_rsp \<Rightarrow> http_req \<Rightarrow> int \<Rightarrow> (exn + http_rsp) \<times> int" where
  "answering rsp q w = (Inr rsp, w)"

definition json_rsp :: "int \<Rightarrow> js \<Rightarrow> http_rsp" where
  "json_rsp st j = \<lparr> pStatus = st, pStatusText = [], pHeaders = [], pJson = Inr j \<rparr>"

lemmas exchange_fixture_eval [eval_simps] = fixture_params_def answering_def json_rsp_def

theorem exchange_one_line_witness:
  "\<exists>line. consoles (out (snd (exchangeToken (fixture no_net (\<lambda>_. None)) fixture_params (idle 0)))) = [line]"
proof -
  let ?r = "exchangeToken (fixture no_net (\<lambda>_. None)) fixture_params (idle 0)"
  from exchange_one_line [of "fixture no_net (\<lambda>_. None)" fixture_params "idle 0" "fst ?r" "snd ?r"]
  show ?thesis by (auto simp: fixture_def idle_def)
qed

section \<open>The outcome of an exchange\<close>

lemma with_active_span_Inr:
  "with_active_span P nm as body s = (Inr a, t) \<Longrightarrow> \<exists>s' t'. body s' = (Inr a, t')"
  by (auto simp: with_active_span_def io_simps pop_span_def split: prod.splits sum.splits)

lemma finally_emit_Inr: "io_finally m (emit x) s = (Inr a, t) \<Longrightarrow> \<exists>t'. m s = (Inr a, t')"
  by (auto simp: io_simps split: prod.splits)

lemma catch_throwing_Inr:
  assumes "\<And>e s. \<exists>u. fst (h e s) = Inl u" "io_catch m h s = (Inr b, t)"
  shows "m s = (Inr b, t)"
proof (cases "m s")
  case (Pair r u)
  show ?thesis
  proof (cases r)
    case (Inl e)
    then show ?thesis using assms(2) assms(1) [of e u] Pair by (simp add: io_catch_def)
  next
    case (Inr a)
    then show ?thesis using assms(2) Pair by (simp add: io_catch_def)
  qed
qed

lemma sendExchange_answer:
  "sendExchange P x s = (Inr rsp, t) \<Longrightarrow>
   \<exists>q w w'. fetchHttp P q w = (Inr rsp, w') \<and> exchange_request x q"
  unfolding sendExchange_def case_prod_unfold http_fetch_def
  by (force simp: io_Inr_simps emit_def exchange_request_def)

text \<open>
  What an exchange returns is read off a 2xx JSON answer the token endpoint gave to a POST:
  the token and the four members with the documented defaults.
\<close>

theorem exchange_result_from_answer:
  fixes s :: "('w, 'j, 'z) proc_scheme"
  assumes "exchangeToken P x s = (Inr res, t)"
  shows "\<exists>q w w' rsp json. fetchHttp P q w = (Inr rsp, w') \<and> qUrl q = xTokenEndpoint x
    \<and> rsp_ok rsp \<and> pJson rsp = Inr json \<and> \<not> nullish json
    \<and> xrAccessToken res = jget json ''access_token''
    \<and> xrTokenType res = js_or (jget json ''token_type'') (JStr ''Bearer'')
    \<and> xrExpiresInSec res = js_or (jget json ''expires_in'') (JNum 0)
    \<and> xrScope res = js_or (jget json ''scope'') (JStr (xScope x))"
proof -
  have thrower: "\<exists>u. fst (io_bind (emit (SpanStatusError (message_of e))) (\<lambda>_.
              io_bind (emit (SpanException e)) (\<lambda>_.
              io_bind (logDenial P x e) (\<lambda>_. io_throw e))) s) = Inl u" for e and s :: "('w, 'j, 'z) proc_scheme"
    by (simp add: io_simps split: prod.splits sum.splits)
  obtain s' t' :: "('w, 'j, 'z) proc_scheme" where "doExchange P x s' = (Inr res, t')"
    using assms unfolding exchangeToken_def
    by (auto simp: io_bind_Inr dest!: with_active_span_Inr finally_emit_Inr catch_throwing_Inr [OF thrower])
  then obtain rsp1 rsp retry and u1 u2 u3 :: "('w, 'j, 'z) proc_scheme"
    where s1: "sendExchange P x s' = (Inr rsp1, u1)"
      and s2: "(if retry then sendExchange P x else io_return rsp1) u2 = (Inr rsp, u3)"
      and l: "(if rsp_ok rsp then granted P x rsp else io_throw (refusal_error rsp)) u3 = (Inr res, t')"
    unfolding doExchange_def io_bind_Inr by blast
  have g: "granted P x rsp u3 = (Inr res, t')" "rsp_ok rsp" using l by (simp_all split: if_splits)
  have a: "\<exists>q w w'. fetchHttp P q w = (Inr rsp, w') \<and> exchange_request x q"
    using sendExchange_answer [OF s1] sendExchange_answer s2 by (cases retry) auto
  from g(1) obtain json where "pJson rsp = Inr json" "\<not> nullish json" "res = token_result x json"
    using doesD [OF does_granted g(1)] by blast
  then show ?thesis using a g(2) unfolding exchange_request_def token_result_def by fastforce
qed

theorem exchange_result_from_answer_witness:
  "xrScope (projr (fst (exchangeToken
      (fixture (answering (json_rsp 200 (JObj [(''access_token'', JStr ''T'')]))) (\<lambda>_. None))
      fixture_params (idle 0)))) = JStr ''ops:write''"
proof -
  let ?P = "fixture (answering (json_rsp 200 (JObj [(''access_token'', JStr ''T'')]))) (\<lambda>_. None)"
  let ?r = "exchangeToken ?P fixture_params (idle 0)"
  have e: "\<exists>res t. ?r = (Inr res, t)"
    by (simp add: eval_simps)
  then obtain res t where r: "?r = (Inr res, t)" by blast
  from exchange_result_from_answer [OF r] have "xrScope res = JStr ''ops:write''"
    by (auto simp: fixture_def answering_def json_rsp_def js_or_def fixture_params_def)
  then show ?thesis by (simp only: r fst_conv sum.sel)
qed

lemma oboLog_Inr: "\<exists>u. oboLog P ev s = (Inr (), u)"
  by (simp add: oboLog_def io_simps split: prod.splits)

lemma io_bind_step: "m s = (Inr a, u) \<Longrightarrow> io_bind m f s = f a u"
  by (simp add: io_bind_def)

lemma finally_throws:
  assumes "m s = (Inl e, u)" "\<And>v. \<exists>w. f v = (Inr (), w)"
  shows "\<exists>w. io_finally m f s = (Inl e, w)"
  using assms(1) assms(2) [of u] by (auto simp: io_finally_def)

lemma with_active_span_throws:
  assumes "\<And>s. \<exists>u. body s = (Inl e, u)"
  shows "\<exists>u. with_active_span P nm as body s = (Inl e, u)"
proof -
  obtain ctx u1 where 1: "world_get (newSpan P nm) s = (Inr ctx, u1)"
    by (cases "newSpan P nm (world s)") (simp add: world_get_def)
  obtain u2 where 2: "emit (SpanStart nm as) u1 = (Inr (), u2)" by (simp add: emit_def)
  obtain u4 where 3: "body (u2\<lparr>spans := ctx # spans u2\<rparr>) = (Inl e, u4)" using assms by blast
  have "\<exists>w. io_finally body pop_span (u2\<lparr>spans := ctx # spans u2\<rparr>) = (Inl e, w)"
    using 3 by (rule finally_throws) (simp add: pop_span_def)
  then show ?thesis
    by (simp add: with_active_span_def io_bind_step [of "world_get (newSpan P nm)", OF 1]
        io_bind_step [of "emit (SpanStart nm as)", OF 2] io_bind_step [of "io_modify f" s "()" "f s" for f s]
        io_modify_def)
qed

lemma exchangeToken_throws:
  fixes s :: "('w, 'j, 'z) proc_scheme"
  assumes "\<And>s :: ('w, 'j, 'z) proc_scheme. \<exists>u. doExchange P x s = (Inl e, u)"
  shows "fst (exchangeToken P x s) = Inl e"
proof -
  have "\<exists>u. io_catch (io_bind (doExchange P x) (\<lambda>r.
              io_bind (emit (SpanAttrs [(''auth.exchange.issued_scope'', xrScope r)])) (\<lambda>_.
              io_bind (emit SpanStatusOk) (\<lambda>_. io_return r))))
             (\<lambda>e.
              io_bind (emit (SpanStatusError (message_of e))) (\<lambda>_.
              io_bind (emit (SpanException e)) (\<lambda>_.
              io_bind (logDenial P x e) (\<lambda>_. io_throw e)))) s' = (Inl e, u)"
    for s' :: "('w, 'j, 'z) proc_scheme"
  proof -
    obtain u where u: "doExchange P x s' = (Inl e, u)" using assms by blast
    obtain v where v: "logDenial P x e (u\<lparr>out := out u @ [SpanStatusError (message_of e)] @ [SpanException e]\<rparr>) = (Inr (), v)"
      unfolding logDenial_def using oboLog_Inr by blast
    show ?thesis using u v by (simp add: io_catch_def io_bind_def emit_def io_throw_def)
  qed
  then have "\<exists>u. exchangeToken P x s = (Inl e, u)"
    unfolding exchangeToken_def
    by (intro with_active_span_throws) (meson finally_throws emit_def)
  then show ?thesis by auto
qed

text \<open>
  A refusal of the token endpoint keeps its OAuth code: an answer outside 2xx whose error is
  one of the mapped codes makes the exchange throw that code with the endpoint's description.
\<close>

theorem exchange_refusal_code:
  fixes s :: "('w, 'j, 'z) proc_scheme"
  assumes "xDpop x = None" "xClientAuth x = None"
    and "\<And>q w. fst (fetchHttp P q w) = Inr rsp" "\<not> rsp_ok rsp"
    and "pJson rsp = Inr (JObj body)" "map_of body ''error'' = Some (JStr c)" "c \<noteq> []"
    and "map_of error_map c = Some code"
  shows "fst (exchangeToken P x s)
    = Inl (CurityAuthError (js_string (js_or (jget (JObj body) ''error_description'') (JStr c))) code)"
proof -
  have "refusal_error rsp
      = CurityAuthError (js_string (js_or (jget (JObj body) ''error_description'') (JStr c))) code"
    using assms(5-8) by (simp add: refusal_error_def in_error_map_def Let_def)
  moreover define W where "W q w = snd (fetchHttp P q w)" for q w
  have f: "fetchHttp P q w = (Inr rsp, W q w)" for q w
    using assms(3) by (simp add: prod_eq_iff W_def)
  have "\<exists>u. doExchange P x s' = (Inl (refusal_error rsp), u)" for s' :: "('w, 'j, 'z) proc_scheme"
    using assms(1,2,4)
    by (simp add: doExchange_def sendExchange_def client_part_def dpop_part_def store_nonce_def
        or_else_def wants_nonce_retry_def http_fetch_def io_simps f split: prod.splits option.splits)
  then have "fst (exchangeToken P x s) = Inl (refusal_error rsp)"
    by (rule exchangeToken_throws)
  ultimately show ?thesis by simp
qed


theorem exchange_refusal_code_witness:
  "fst (exchangeToken
     (fixture (answering (json_rsp 403 (JObj [(''error'', JStr ''access_denied'')]))) (\<lambda>_. None))
     (fixture_params\<lparr>xClientAuth := None\<rparr>) (idle 0))
   = Inl (CurityAuthError ''access_denied'' AccessDenied)"
  by (subst exchange_refusal_code [where rsp = "json_rsp 403 (JObj [(''error'', JStr ''access_denied'')])"
        and c = "''access_denied''" and code = AccessDenied and body = "[(''error'', JStr ''access_denied'')]"])
     (simp_all add: fixture_params_def fixture_def answering_def json_rsp_def rsp_ok_def
        error_map_def js_or_def)

text \<open>
  The code of a refusal is not always one of the declared codes: an error that names a
  member of \<^verbatim>\<open>Object.prototype\<close> passes the \<^verbatim>\<open>in\<close> test, and that member becomes the code.
\<close>

theorem refusal_prototype_member:
  "refusal_error \<lparr> pStatus = st, pStatusText = tx, pHeaders = hs, pJson = Inr (JObj [(''error'', JStr ''constructor'')]) \<rparr>
   = CurityAuthError ''constructor'' (PrototypeMember ''constructor'')"
  by (simp add: refusal_error_def in_error_map_def error_map_def object_prototype_def js_or_def)

end
