(* ===== verification/OpsApi.thy ===== *)
theory OpsApi
  imports Gate Exchange
begin

text \<open>
  \<^verbatim>\<open>apps/ops-api/src\<close>: the resource server of the write path. Its middleware requires the
  scope, an actor chain of exactly the configured actors in order, and the authentication
  class; its three routes patch a Deployment through the Kubernetes client, a parameter
  (\<open>patch\<close>) whose calls are observable.
\<close>

section \<open>Configuration\<close>

record ops_api_config =
  oaIssuer :: string
  oaJwksUri :: string
  oaAudience :: string
  oaRequiredScopes :: "string list"
  oaExpectedChain :: "(string \<Rightarrow> bool) list"
  oaTargetNamespace :: string
  oaRequiredAcr :: string
  oaResourceMetadataUrl :: string

definition ops_chain :: "(string \<times> string) list" where
  "ops_chain = [(''mcp'', ''mcp-ops''), (''mcp'', ''agentgateway''), (''agents'', ''agent-specialist''), (''agents'', ''agent-copilot'')]"

definition loadOpsApiConfig :: "(string \<Rightarrow> string option) \<Rightarrow> exn + ops_api_config" where
  "loadOpsApiConfig env =
     sum_bind (required_env env ''CURITY_ISSUER'') (\<lambda>iss.
     sum_bind (required_env env ''CURITY_JWKS_URI'') (\<lambda>jwks.
       Inr \<lparr> oaIssuer = iss, oaJwksUri = jwks,
             oaAudience = or_else (env ''EXPECTED_AUDIENCE'') ''ops-api'',
             oaRequiredScopes = words_ws (or_else (env ''REQUIRED_SCOPES'') ''ops:write''),
             oaExpectedChain = map (\<lambda>p. SPIFFE_ID (fst p) (snd p)) ops_chain,
             oaTargetNamespace = or_else (env ''TARGET_NAMESPACE'') ''prod'',
             oaRequiredAcr = or_else (env ''REQUIRED_ACR'') ''mfa'',
             oaResourceMetadataUrl = or_else (env ''RESOURCE_METADATA_URL'')
               ''https://ops-api.localtest.me/.well-known/oauth-protected-resource'' \<rparr>))"

section \<open>The middleware\<close>

definition ops_api_opts :: "ops_api_config \<Rightarrow> verify_options" where
  "ops_api_opts cfg = \<lparr> voIssuer = oaIssuer cfg, voAudience = oaAudience cfg,
     voJwksUri = Some (oaJwksUri cfg), voAlgorithms = None, voTolerance = None \<rparr>"

definition ops_api_missing :: "ops_api_config \<Rightarrow> http_res" where
  "ops_api_missing cfg =
     answer 401 [(''www-authenticate'', ''Bearer realm=\"'' @ oaAudience cfg @ ''\"'')]
       [(''error'', JStr ''invalid_token''), (''error_description'', JStr ''missing Bearer token'')]"

definition ops_api_auth_error :: "string \<Rightarrow> auth_code \<Rightarrow> http_res" where
  "ops_api_auth_error m c =
     answer 401 [(''www-authenticate'', ''Bearer error=\"'' @ code_str c @ ''\", error_description=\"'' @ m @ ''\"'')]
       [(''error'', JStr (code_str c)), (''error_description'', JStr m)]"

definition denied_header :: "string \<Rightarrow> (string \<times> string) list" where
  "denied_header why = [(''www-authenticate'', ''Bearer error=\"access_denied\", error_description=\"'' @ why @ ''\"'')]"

definition insufficient_scope :: "string list \<Rightarrow> http_res" where
  "insufficient_scope missing =
     answer 403 [(''www-authenticate'', ''Bearer error=\"insufficient_scope\", scope=\"'' @ join '' '' missing @ ''\"'')]
       [(''error'', JStr ''insufficient_scope''), (''missing_scopes'', JArr (map JStr missing))]"

definition act_required :: http_res where
  "act_required = answer 403 (denied_header ''act_required'')
     [(''error'', JStr ''act_required''), (''error_description'', JStr ''OBO actor chain missing'')]"

definition chain_length_wrong :: "nat \<Rightarrow> string list \<Rightarrow> http_res" where
  "chain_length_wrong n chain = answer 403 (denied_header ''act_chain_length'')
     [(''error'', JStr ''act_chain_length''),
      (''error_description'', JStr (''expected '' @ nat_str n @ '' actors, got '' @ nat_str (length chain))),
      (''chain'', JArr (map JStr chain))]"

definition chain_position_wrong :: "string \<Rightarrow> nat \<Rightarrow> string \<Rightarrow> string list \<Rightarrow> http_res" where
  "chain_position_wrong code i sub chain = answer 403 (denied_header code)
     [(''error'', JStr code), (''position'', JNum (int i)), (''sub'', JStr sub),
      (''chain'', JArr (map JStr chain))]"

definition step_up_challenge :: "string \<Rightarrow> string \<Rightarrow> string \<Rightarrow> http_res" where
  "step_up_challenge aud acr url =
     answer 401
       [(''WWW-Authenticate'', ''Bearer realm=\"'' @ aud @ ''\", error=\"insufficient_user_authentication\", ''
           @ ''acr_values=\"'' @ acr @ ''\", resource_metadata=\"'' @ url @ ''\"'')]
       [(''error'', JStr ''insufficient_user_authentication''), (''required_acr'', JStr acr)]"

definition ops_api_decide :: "ops_api_config \<Rightarrow> verified_jwt \<Rightarrow> http_res option" where
  "ops_api_decide cfg v =
     (let missing = missing_scopes (oaRequiredScopes cfg) v;
          claim = jget (vPayload v) ''act'';
          chain = walkActChain claim
      in if missing \<noteq> [] then Some (insufficient_scope missing)
         else if \<not> is_object claim then Some act_required
         else if length chain \<noteq> length (oaExpectedChain cfg)
           then Some (chain_length_wrong (length (oaExpectedChain cfg)) chain)
         else (case first_mismatch (oaExpectedChain cfg) 0 (oaExpectedChain cfg) chain of
                 Some (code, i, sub) \<Rightarrow> Some (chain_position_wrong code i sub chain)
               | None \<Rightarrow>
                   if jget (vPayload v) ''acr'' \<noteq> JStr (oaRequiredAcr cfg)
                   then Some (step_up_challenge (oaAudience cfg) (oaRequiredAcr cfg) (oaResourceMetadataUrl cfg))
                   else None))"

definition ops_api_auth ::
  "ops_api_config \<Rightarrow> ('w, 'j) platform \<Rightarrow> string option \<Rightarrow> ('w, 'j, 'z, verified_jwt gate) act" where
  "ops_api_auth cfg P =
     bearer_middleware P (ops_api_missing cfg) (ops_api_opts cfg)
       (decorate_then (ops_api_decide cfg) (\<lambda>_ v. v)) ops_api_auth_error ''[ops-api/auth-middleware] unexpected error''"

text \<open>The policy the middleware implements.\<close>

definition ops_api_grants :: "ops_api_config \<Rightarrow> verified_jwt \<Rightarrow> bool" where
  "ops_api_grants cfg v =
     ((\<forall>s \<in> set (oaRequiredScopes cfg). has_scope v s)
      \<and> is_object (jget (vPayload v) ''act'')
      \<and> list_all2 (\<lambda>p c. p c) (oaExpectedChain cfg) (walkActChain (jget (vPayload v) ''act''))
      \<and> jget (vPayload v) ''acr'' = JStr (oaRequiredAcr cfg))"

section \<open>Operations on deployments\<close>

type_synonym ('w) k8s_patch = "js \<Rightarrow> js \<Rightarrow> js \<Rightarrow> 'w \<Rightarrow> (exn + js) \<times> 'w"

definition patch_deployment :: "'w k8s_patch \<Rightarrow> js \<Rightarrow> js \<Rightarrow> js \<Rightarrow> ('w, 'j, 'z, js) act" where
  "patch_deployment patch name ns body =
     io_bind (emit (K8sCall ''patchNamespacedDeployment'' [name, ns, body])) (\<lambda>_.
       world_try (patch name ns body))"

text \<open>\<^verbatim>\<open>v.slice(0, 512)\<close>: strings and arrays have it.\<close>

definition slice512 :: "js \<Rightarrow> ('s, exn, js) io" where
  "slice512 v =
     (case v of
        JStr s \<Rightarrow> io_return (JStr (take 512 s))
      | JArr xs \<Rightarrow> io_return (JArr (take 512 xs))
      | _ \<Rightarrow> io_throw (type_error ''slice is not a function''))"

text \<open>\<^verbatim>\<open>v?.slice(0, 512)\<close>\<close>

definition opt_slice512 :: "js \<Rightarrow> ('s, exn, js) io" where
  "opt_slice512 v = (if nullish v then io_return JUndef else slice512 v)"

definition generation_of :: "js \<Rightarrow> ('s, exn, js) io" where
  "generation_of body = io_bind (prop_of body ''metadata'') (\<lambda>m. io_return (jget m ''generation''))"

definition restartDeployment ::
  "('w, 'j) platform \<Rightarrow> 'w k8s_patch \<Rightarrow> js \<Rightarrow> js \<Rightarrow> js \<Rightarrow> ('w, 'j, 'z, js) act" where
  "restartDeployment P patch name ns reason =
     io_bind (oboLog P (event ''ops-api'' CALL (arrow @ '' K8s API patch deployment (rollout restart)'')
        [(''namespace'', ns), (''deployment'', name), (''verb'', JStr ''patch''),
         (''resource'', JStr ''deployments''), (''reason'', reason)])) (\<lambda>_.
     io_bind (world_get (dateNow P)) (\<lambda>now.
     io_bind (if truthy reason
              then io_bind (slice512 reason) (\<lambda>r. io_return [(''demo.curity.local/restart-reason'', r)])
              else io_return []) (\<lambda>extra.
     io_bind (patch_deployment patch name ns
        (JObj [(''spec'', JObj [(''template'', JObj [(''metadata'',
           JObj [(''annotations'', JObj ((''kubectl.kubernetes.io/restartedAt'', JStr (isoTime P now)) # extra))])])])])) (\<lambda>body.
     io_bind (generation_of body) (\<lambda>gen.
       io_return (JObj [(''deployment'', name), (''namespace'', ns),
                        (''restartedAt'', JStr (isoTime P now)), (''generation'', gen)]))))))"

definition buildSetImageBody :: "js \<Rightarrow> js \<Rightarrow> js" where
  "buildSetImageBody containerName img =
     JObj [(''spec'', JObj [(''template'', JObj [(''spec'', JObj [(''containers'',
        JArr [JObj [(''name'', containerName), (''image'', img)]])])])])]"

definition buildScaleBody :: "js \<Rightarrow> js" where
  "buildScaleBody replicas = JObj [(''spec'', JObj [(''replicas'', replicas)])]"

definition setDeploymentImage ::
  "('w, 'j) platform \<Rightarrow> 'w k8s_patch \<Rightarrow> js \<Rightarrow> js \<Rightarrow> js \<Rightarrow> js \<Rightarrow> ('w, 'j, 'z, js) act" where
  "setDeploymentImage P patch name ns img reason =
     io_bind (opt_slice512 reason) (\<lambda>r.
     io_bind (oboLog P (event ''ops-api'' CALL (arrow @ '' K8s API patch deployment (set image)'')
        [(''namespace'', ns), (''deployment'', name), (''image'', img), (''reason'', r),
         (''verb'', JStr ''patch''), (''resource'', JStr ''deployments'')])) (\<lambda>_.
     io_bind (patch_deployment patch name ns (buildSetImageBody name img)) (\<lambda>body.
     io_bind (generation_of body) (\<lambda>gen.
       io_return (JObj [(''deployment'', name), (''namespace'', ns), (''generation'', gen)])))))"

definition scaleDeployment ::
  "('w, 'j) platform \<Rightarrow> 'w k8s_patch \<Rightarrow> js \<Rightarrow> js \<Rightarrow> js \<Rightarrow> js \<Rightarrow> ('w, 'j, 'z, js) act" where
  "scaleDeployment P patch name ns replicas reason =
     io_bind (opt_slice512 reason) (\<lambda>r.
     io_bind (oboLog P (event ''ops-api'' CALL (arrow @ '' K8s API patch deployment (scale)'')
        [(''namespace'', ns), (''deployment'', name), (''replicas'', replicas), (''reason'', r),
         (''verb'', JStr ''patch''), (''resource'', JStr ''deployments'')])) (\<lambda>_.
     io_bind (patch_deployment patch name ns (buildScaleBody replicas)) (\<lambda>body.
     io_bind (generation_of body) (\<lambda>gen.
       io_return (JObj [(''deployment'', name), (''namespace'', ns), (''generation'', gen)])))))"

section \<open>Routes\<close>

text \<open>\<^verbatim>\<open>e.k\<close> of a caught value: \<^verbatim>\<open>message\<close> of an error, any member of a thrown object.\<close>

definition exn_prop :: "exn \<Rightarrow> string \<Rightarrow> js" where
  "exn_prop e k = (case e of Thrown v \<Rightarrow> jget v k | _ \<Rightarrow> if k = ''message'' then JStr (message_of e) else JUndef)"

definition k8s_failure :: "(int \<Rightarrow> int) \<Rightarrow> string \<Rightarrow> exn \<Rightarrow> http_res" where
  "k8s_failure status_of err e =
     (let body = exn_prop e ''body''; code = jget body ''code''
      in answer (case code of JNum n \<Rightarrow> status_of n | _ \<Rightarrow> 500) []
           [(''error'', JStr err), (''k8s_code'', code),
            (''message'', js_or (js_or (jget body ''message'') (exn_prop e ''message'')) (JStr (exn_string e)))])"

definition status_403_404 :: "int \<Rightarrow> int" where
  "status_403_404 n = (if n = 403 then 403 else if n = 404 then 404 else 500)"

definition bad_request :: "string \<Rightarrow> http_res" where
  "bad_request why = answer 400 [] [(''error'', JStr ''bad_request''), (''error_description'', JStr why)]"

text \<open>\<^verbatim>\<open>(req.header('authorization') ?? '').replace(/^[Bb]earer\s+/, '')\<close>\<close>

definition logged_token :: "string option \<Rightarrow> string" where
  "logged_token authz =
     (let a = or_else authz []
      in if (starts_with ''Bearer'' a \<or> starts_with ''bearer'' a) \<and> drop 6 a \<noteq> [] \<and> is_ws (hd (drop 6 a))
         then dropWhile is_ws (drop 6 a) else a)"

definition caller_fields :: "('w, 'j) platform \<Rightarrow> string option \<Rightarrow> (string \<times> js) list" where
  "caller_fields P authz =
     (let tok = summarizeJwt P (Some (logged_token authz))
      in [(''user'', opt_js (jsSub tok)), (''scope'', opt_js (jsScope tok)),
          (''acr'', opt_js (jsAcr tok)), (''act'', opt_js (jsAct tok))])"

definition ok_or_failure :: "string \<Rightarrow> ('w, 'j, 'z, js) act \<Rightarrow> ('w, 'j, 'z, http_res) act" where
  "ok_or_failure err m =
     io_catch (io_bind m (\<lambda>j. io_return \<lparr> rStatus = 200, rHeaders = [], rBody = j \<rparr>))
       (\<lambda>e. io_return (k8s_failure status_403_404 err e))"

definition restart_handler ::
  "ops_api_config \<Rightarrow> ('w, 'j) platform \<Rightarrow> 'w k8s_patch \<Rightarrow> string option \<Rightarrow> js \<Rightarrow> ('w, 'j, 'z, http_res) act" where
  "restart_handler cfg P patch authz body =
     (let name = jget body ''name''; ns = js_or (jget body ''namespace'') (JStr (oaTargetNamespace cfg))
      in if \<not> truthy name \<or> \<not> is_string name then io_return (bad_request ''name is required'')
         else io_bind (oboLog P (event ''ops-api'' RECEIVE ''POST /restart''
                (caller_fields P authz @ [(''deployment'', name), (''namespace'', ns)]))) (\<lambda>_.
              ok_or_failure ''restart_failed'' (restartDeployment P patch name ns (jget body ''reason''))))"

definition set_image_handler ::
  "ops_api_config \<Rightarrow> ('w, 'j) platform \<Rightarrow> 'w k8s_patch \<Rightarrow> string option \<Rightarrow> js \<Rightarrow> ('w, 'j, 'z, http_res) act" where
  "set_image_handler cfg P patch authz body =
     (let name = jget body ''name''; img = jget body ''image'';
          ns = js_or (jget body ''namespace'') (JStr (oaTargetNamespace cfg))
      in if \<not> truthy name \<or> \<not> is_string name \<or> \<not> truthy img \<or> \<not> is_string img
           then io_return (bad_request ''name and image are required'')
         else io_bind (oboLog P (event ''ops-api'' RECEIVE ''POST /set-image''
                (caller_fields P authz @ [(''deployment'', name), (''namespace'', ns), (''image'', img)]))) (\<lambda>_.
              ok_or_failure ''set_image_failed'' (setDeploymentImage P patch name ns img (jget body ''reason''))))"

definition scale_handler ::
  "ops_api_config \<Rightarrow> ('w, 'j) platform \<Rightarrow> 'w k8s_patch \<Rightarrow> string option \<Rightarrow> js \<Rightarrow> ('w, 'j, 'z, http_res) act" where
  "scale_handler cfg P patch authz body =
     (let name = jget body ''name''; replicas = jget body ''replicas'';
          ns = js_or (jget body ''namespace'') (JStr (oaTargetNamespace cfg))
      in if \<not> truthy name \<or> (case replicas of JNum n \<Rightarrow> n < 0 | _ \<Rightarrow> True)
           then io_return (bad_request ''name and non-negative replicas are required'')
         else io_bind (oboLog P (event ''ops-api'' RECEIVE ''POST /scale''
                (caller_fields P authz @ [(''deployment'', name), (''namespace'', ns), (''replicas'', replicas)]))) (\<lambda>_.
              ok_or_failure ''scale_failed'' (scaleDeployment P patch name ns replicas (jget body ''reason''))))"

datatype ops_route = Restart | SetImage | Scale

definition ops_handler ::
  "ops_route \<Rightarrow> ops_api_config \<Rightarrow> ('w, 'j) platform \<Rightarrow> 'w k8s_patch \<Rightarrow> string option \<Rightarrow> js \<Rightarrow> ('w, 'j, 'z, http_res) act" where
  "ops_handler r = (case r of Restart \<Rightarrow> restart_handler | SetImage \<Rightarrow> set_image_handler | Scale \<Rightarrow> scale_handler)"

text \<open>\<^verbatim>\<open>app.post(path, authMiddleware(cfg), handler)\<close>\<close>

definition ops_api_serve ::
  "ops_route \<Rightarrow> ops_api_config \<Rightarrow> ('w, 'j) platform \<Rightarrow> 'w k8s_patch \<Rightarrow> string option \<Rightarrow> js \<Rightarrow> ('w, 'j, 'z, http_res) act" where
  "ops_api_serve r cfg P patch authz body =
     io_bind (ops_api_auth cfg P authz) (\<lambda>g.
       case g of Respond res \<Rightarrow> io_return res | Next _ \<Rightarrow> ops_handler r cfg P patch authz body)"

lemmas ops_api_eval [eval_simps] = ops_chain_def loadOpsApiConfig_def
  ops_api_opts_def ops_api_missing_def ops_api_auth_error_def denied_header_def
  insufficient_scope_def act_required_def chain_length_wrong_def chain_position_wrong_def
  step_up_challenge_def ops_api_decide_def ops_api_auth_def ops_api_grants_def
  patch_deployment_def slice512_def opt_slice512_def generation_of_def restartDeployment_def
  buildSetImageBody_def buildScaleBody_def setDeploymentImage_def scaleDeployment_def
  exn_prop_def k8s_failure_def status_403_404_def bad_request_def logged_token_def
  caller_fields_def ok_or_failure_def restart_handler_def set_image_handler_def
  scale_handler_def ops_handler_def ops_api_serve_def

section \<open>The middleware meets its policy\<close>

lemma missing_scopes_empty: "missing_scopes ss v = [] \<longleftrightarrow> (\<forall>s \<in> set ss. has_scope v s)"
  by (simp add: missing_scopes_def filter_empty_conv)

lemma ops_api_decide_None: "ops_api_decide cfg v = None \<longleftrightarrow> ops_api_grants cfg v"
proof (cases "length (oaExpectedChain cfg) = length (walkActChain (jget (vPayload v) ''act''))")
  case True
  then show ?thesis
    using first_mismatch_None [OF True, of "oaExpectedChain cfg" 0]
    by (auto simp: ops_api_decide_def ops_api_grants_def missing_scopes_empty Let_def split: option.splits)
next
  case False
  then show ?thesis
    by (auto simp: ops_api_decide_def ops_api_grants_def missing_scopes_empty Let_def
        dest: list_all2_lengthD split: option.splits)
qed

lemma ops_api_decide_status: "ops_api_decide cfg v = Some res \<Longrightarrow> rStatus res \<in> {401, 403}"
  by (auto simp: ops_api_decide_def Let_def insufficient_scope_def act_required_def chain_length_wrong_def
      chain_position_wrong_def step_up_challenge_def answer_def split: if_splits option.splits)

interpretation ops_gate: bearer_gate "ops_api_auth cfg" "ops_api_opts cfg" "ops_api_grants cfg"
  for cfg :: ops_api_config
  unfolding ops_api_auth_def
  by (rule bearer_gate_decorate)
     (auto simp: ops_api_missing_def ops_api_auth_error_def answer_def ops_api_decide_None dest: ops_api_decide_status)

section \<open>What the service guarantees\<close>

definition fixture_ops_config :: ops_api_config where
  "fixture_ops_config =
     \<lparr> oaIssuer = ''https://as'', oaJwksUri = ''https://as/jwks'', oaAudience = ''ops-api'',
       oaRequiredScopes = [''ops:write''],
       oaExpectedChain = map (\<lambda>p. SPIFFE_ID (fst p) (snd p)) ops_chain,
       oaTargetNamespace = ''prod'', oaRequiredAcr = ''mfa'', oaResourceMetadataUrl = ''https://md'' \<rparr>"

definition ops_actors :: "string list" where
  "ops_actors = map (\<lambda>p. spiffe_id (fst p) (snd p)) ops_chain"

definition fixture_ops_claims :: js where
  "fixture_ops_claims = fixture_claims ops_actors ''ops:write'' ''mfa''"

lemma fixture_ops_grants: "ops_api_grants fixture_ops_config (fixture_verified fixture_ops_claims)"
proof -
  have "walkActChain (jget fixture_ops_claims ''act'') = ops_actors"
    by (simp add: fixture_ops_claims_def fixture_claims_def walk_nested_chain)
  moreover have "is_object (jget fixture_ops_claims ''act'')"
    by (simp add: fixture_ops_claims_def fixture_claims_def nest_act_object ops_actors_def ops_chain_def)
  moreover have "list_all2 (\<lambda>p c. p c) (oaExpectedChain fixture_ops_config) ops_actors"
    by (simp add: fixture_ops_config_def spiffe_chain_iff ops_actors_def)
  moreover have "has_scope (fixture_verified fixture_ops_claims) ''ops:write''"
    by (simp add: fixture_verified_def fixture_ops_claims_def fixture_claims_def verified_of_def has_scope_def
        parseScopes_def)
  ultimately show ?thesis
    by (simp add: ops_api_grants_def fixture_verified_def verified_of_def fixture_ops_config_def)
       (simp add: fixture_ops_claims_def fixture_claims_def)
qed

text \<open>
  C1. The write API lets a request through exactly when its bearer token verifies for the
  configured issuer and audience, carries every required scope, has an actor chain that matches
  the configured one position by position and in length, and has the required authentication class.
\<close>

theorem ops_api_admits:
  "(\<exists>v u. ops_api_auth cfg P h s = (Inr (Next v), u)) \<longleftrightarrow>
   (\<exists>tok v t. bearer_of h = Some tok \<and> verifyJwt P tok (ops_api_opts cfg) s = (Inr v, t)
      \<and> (\<forall>sc \<in> set (oaRequiredScopes cfg). has_scope v sc)
      \<and> is_object (jget (vPayload v) ''act'')
      \<and> list_all2 (\<lambda>p c. p c) (oaExpectedChain cfg) (walkActChain (jget (vPayload v) ''act''))
      \<and> jget (vPayload v) ''acr'' = JStr (oaRequiredAcr cfg))"
  using ops_gate.next_iff [of cfg P h s] by (simp add: ops_api_grants_def)

theorem ops_api_admits_witness:
  "\<exists>v u. ops_api_auth fixture_ops_config (fixture_gate fixture_ops_claims) (Some ''Bearer tok'') (idle 0) = (Inr (Next v), u)"
proof -
  obtain t where "verifyJwt (fixture_gate fixture_ops_claims) ''tok'' (ops_api_opts fixture_ops_config) (idle 0)
      = (Inr (fixture_verified fixture_ops_claims), t)"
    using fixture_verifies [of "ops_api_opts fixture_ops_config"]
    by (auto simp: ops_api_opts_def fixture_ops_config_def)
  then show ?thesis
    using ops_api_admits [of fixture_ops_config "fixture_gate fixture_ops_claims" "Some ''Bearer tok''" "idle 0"]
      fixture_ops_grants fixture_bearer unfolding ops_api_grants_def by blast
qed

text \<open>A wrong chain of the right length is reported at its first wrong position.\<close>

lemma ops_api_first_mismatch:
  assumes "missing_scopes (oaRequiredScopes cfg) v = []" "is_object (jget (vPayload v) ''act'')"
    and "walkActChain (jget (vPayload v) ''act'') = chain" "length chain = length (oaExpectedChain cfg)"
    and "i < length chain" "\<not> (oaExpectedChain cfg ! i) (chain ! i)"
    and "\<forall>k < i. (oaExpectedChain cfg ! k) (chain ! k)"
  shows "ops_api_decide cfg v = Some (chain_position_wrong
     (if list_ex (\<lambda>q. q (chain ! i)) (oaExpectedChain cfg) then ''act_chain_order'' else ''act_chain_unknown'')
     i (chain ! i) chain)"
proof -
  let ?E = "oaExpectedChain cfg"
  obtain code j c where f: "first_mismatch ?E 0 ?E chain = Some (code, j, c)"
    using first_mismatch_None [of ?E chain ?E 0] assms(4-6)
    by (cases "first_mismatch ?E 0 ?E chain") (auto simp: list_all2_conv_all_nth)
  have m: "j < length ?E" "c = chain ! j" "\<not> (?E ! j) c" "\<forall>k < j. (?E ! k) (chain ! k)"
    "code = (if list_ex (\<lambda>q. q c) ?E then ''act_chain_order'' else ''act_chain_unknown'')"
    using first_mismatch_Some [OF f] by auto
  have "j = i" using m assms(6,7) by (metis linorder_neqE_nat)
  then show ?thesis using assms(1-4) f m by (simp add: ops_api_decide_def)
qed

lemma emits_ops_api_auth: "emits no_k8s (ops_api_auth cfg P h)"
  unfolding ops_api_auth_def by (intro emits_intros) simp_all

lemma emits_quiet_steps:
  "emits no_k8s (slice512 v)" "emits no_k8s (opt_slice512 v)" "emits no_k8s (generation_of j)"
  "emits no_k8s (oboLog P ev)"
  unfolding slice512_def opt_slice512_def generation_of_def
  by (auto intro!: emits_intros split: js.splits)

text \<open>The cluster calls of a step: at most one, a patch of this deployment in this namespace.\<close>

definition one_patch :: "js \<Rightarrow> js \<Rightarrow> effect list \<Rightarrow> bool" where
  "one_patch name ns es =
     (k8s_calls es = [] \<or> (\<exists>body. k8s_calls es = [(''patchNamespacedDeployment'', [name, ns, body])]))"

lemma one_patch_quiet: "list_all no_k8s es \<Longrightarrow> one_patch n k es"
  by (simp add: one_patch_def no_k8s_calls)

lemma one_patch_append:
  "list_all no_k8s xs \<Longrightarrow> one_patch n k (xs @ ys) = one_patch n k ys"
  "list_all no_k8s ys \<Longrightarrow> one_patch n k (xs @ ys) = one_patch n k xs"
  by (simp_all add: one_patch_def no_k8s_calls)

lemma does_quiet_then:
  assumes "emits no_k8s m" "\<And>a. does (f a) (\<lambda>es r. one_patch n k es)"
  shows "does (io_bind m f) (\<lambda>es r. one_patch n k es)"
  by (rule does_conseq [OF does_bind [OF assms(1) [unfolded emits_def] assms(2)]])
     (auto simp: one_patch_quiet one_patch_append)

lemma does_patch_then:
  assumes "\<And>a. emits no_k8s (f a)"
  shows "does (io_bind (patch_deployment patch n k body) f) (\<lambda>es r. one_patch n k es)"
proof -
  have "does (patch_deployment patch n k body) (\<lambda>es r. one_patch n k es)"
    unfolding patch_deployment_def
    by (rule does_conseq [OF does_bind [OF does_emit does_world_try]]) (auto simp: one_patch_def)
  then show ?thesis
    by (rule does_conseq [OF does_bind [OF _ assms [unfolded emits_def]]]) (auto simp: one_patch_append)
qed

lemma does_ok_or_failure:
  assumes "does m (\<lambda>es r. one_patch n k es)"
  shows "does (ok_or_failure err m) (\<lambda>es r. one_patch n k es)"
  unfolding ok_or_failure_def
  by (rule does_conseq [OF does_catch [OF does_bind [OF assms does_return] does_return]]) auto

lemma does_handler:
  "does (ops_handler r cfg P patch authz body)
     (\<lambda>es x. one_patch (jget body ''name'') (js_or (jget body ''namespace'') (JStr (oaTargetNamespace cfg))) es)"
proof -
  have q: "does (io_return a) (\<lambda>es r. one_patch n k es)" for a n k
    by (rule does_conseq [OF does_return]) (simp add: one_patch_def)
  have e: "emits no_k8s (io_bind (generation_of b) (\<lambda>g. io_return (f g)))" for b and f :: "js \<Rightarrow> js"
    by (intro emits_intros emits_quiet_steps)
  have x: "emits no_k8s (if truthy r' then io_bind (slice512 r') (\<lambda>r. io_return [(key, r)]) else io_return [])" for r' key
    by (intro emits_intros emits_quiet_steps)
  show ?thesis
    by (cases r)
       (auto simp: ops_handler_def restart_handler_def set_image_handler_def scale_handler_def Let_def
          restartDeployment_def setDeploymentImage_def scaleDeployment_def
          intro!: q does_quiet_then emits_quiet_steps does_ok_or_failure does_patch_then e x
            emits_intros)
qed

lemma serve_guard:
  assumes "ops_api_serve r cfg P patch authz body s = (x, t)"
  shows "\<exists>es. out t = out s @ es \<and>
    (k8s_calls es = [] \<or>
     (\<exists>b tok v u. k8s_calls es = [(''patchNamespacedDeployment'',
            [jget body ''name'', js_or (jget body ''namespace'') (JStr (oaTargetNamespace cfg)), b])]
       \<and> bearer_of authz = Some tok \<and> verifyJwt P tok (ops_api_opts cfg) s = (Inr v, u)
       \<and> ops_api_grants cfg v))"
proof -
  obtain g u where g: "ops_api_auth cfg P authz s = (Inr g, u)" using ops_gate.total by blast
  obtain es1 where es1: "out u = out s @ es1" "list_all no_k8s es1"
    using emitsD [OF emits_ops_api_auth g] by blast
  show ?thesis
  proof (cases g)
    case (Respond res)
    then have "t = u" using assms g by (simp add: ops_api_serve_def io_bind_def io_return_def)
    then show ?thesis using es1 no_k8s_calls by auto
  next
    case (Next v)
    then have h: "ops_handler r cfg P patch authz body u = (x, t)"
      using assms g by (simp add: ops_api_serve_def io_bind_def)
    obtain es2 where es2: "out t = out u @ es2"
      "one_patch (jget body ''name'') (js_or (jget body ''namespace'') (JStr (oaTargetNamespace cfg))) es2"
      using doesD [OF does_handler h] by blast
    have "\<exists>tok v t. bearer_of authz = Some tok \<and> verifyJwt P tok (ops_api_opts cfg) s = (Inr v, t) \<and> ops_api_grants cfg v"
      using ops_gate.next_iff g Next by blast
    then show ?thesis using es1 es2 no_k8s_calls [OF es1(2)]
      unfolding one_patch_def by (intro exI [of _ "es1 @ es2"]) auto
  qed
qed

text \<open>
  C2. The cluster is touched only for an admitted request: whatever a route of the write API does
  to the cluster is at most one patch, of the deployment and namespace the request names (the
  configured namespace by default), and only if the request's token verified and satisfied the
  policy.
\<close>

theorem ops_api_cluster_guard:
  assumes "ops_api_serve r cfg P patch authz body s = (x, t)"
  shows "\<exists>es. out t = out s @ es \<and>
    (k8s_calls es = [] \<or>
     (\<exists>b tok v u. k8s_calls es = [(''patchNamespacedDeployment'',
            [jget body ''name'', js_or (jget body ''namespace'') (JStr (oaTargetNamespace cfg)), b])]
       \<and> bearer_of authz = Some tok \<and> verifyJwt P tok (ops_api_opts cfg) s = (Inr v, u)
       \<and> ops_api_grants cfg v))"
  using assms by (rule serve_guard)

theorem ops_api_cluster_guard_witness:
  "\<exists>es. out (snd (ops_api_serve Scale fixture_ops_config (fixture_gate fixture_ops_claims)
        (\<lambda>_ _ _ w. (Inr (JObj []), w)) (Some ''Bearer other'') (JObj []) (idle 0))) = es \<and> k8s_calls es = []"
proof -
  let ?P = "fixture_gate fixture_ops_claims"
  let ?r = "ops_api_serve Scale fixture_ops_config ?P (\<lambda>_ _ _ w. (Inr (JObj []), w)) (Some ''Bearer other'') (JObj []) (idle 0)"
  have b: "bearer_of (Some ''Bearer other'') = Some ''other''" by (simp add: eval_simps)
  have "fst (verifyJwt ?P ''other'' (ops_api_opts fixture_ops_config) (idle 0)) = Inl (CurityAuthError ''Token verification failed: bad token'' InvalidToken)"
    by (simp add: fixture_gate_def eval_simps fixture_ops_config_def)
  then have "verifyJwt ?P ''other'' (ops_api_opts fixture_ops_config) (idle 0) \<noteq> (Inr v, u)" for v u by auto
  then show ?thesis
    using ops_api_cluster_guard [of Scale fixture_ops_config ?P _ "Some ''Bearer other''" "JObj []" "idle 0" "fst ?r" "snd ?r"] b
    by (auto simp: idle_def)
qed

end
