(* ===== verification/InspectApi.thy ===== *)
theory InspectApi
  imports OpsApi
begin

text \<open>
  \<^verbatim>\<open>apps/inspect-api/src\<close>: the resource server of the read path. Its middleware requires the
  scope and one of the configured actor chains; its three routes read pods, logs and deployments
  through the Kubernetes client, whose answers are the parameters \<open>list\<close>, \<open>logs\<close> and \<open>get\<close>.
\<close>

section \<open>Configuration and middleware\<close>

record inspect_api_config =
  iaIssuer :: string
  iaJwksUri :: string
  iaAudience :: string
  iaRequiredScopes :: "string list"
  iaExpectedChains :: "(string \<Rightarrow> bool) list list"
  iaTargetNamespace :: string

definition inspect_chains :: "(string \<times> string) list list" where
  "inspect_chains =
     [[(''mcp'', ''mcp-inspect''), (''mcp'', ''agentgateway''), (''agents'', ''agent-copilot'')],
      [(''mcp'', ''mcp-inspect''), (''mcp'', ''agentgateway''), (''agents'', ''agent-specialist''), (''agents'', ''agent-copilot'')]]"

definition loadInspectApiConfig :: "(string \<Rightarrow> string option) \<Rightarrow> exn + inspect_api_config" where
  "loadInspectApiConfig env =
     sum_bind (required_env env ''CURITY_ISSUER'') (\<lambda>iss.
     sum_bind (required_env env ''CURITY_JWKS_URI'') (\<lambda>jwks.
       Inr \<lparr> iaIssuer = iss, iaJwksUri = jwks,
             iaAudience = or_else (env ''EXPECTED_AUDIENCE'') ''inspect-api'',
             iaRequiredScopes = words_ws (or_else (env ''REQUIRED_SCOPES'') ''inspect:read''),
             iaExpectedChains = map (map (\<lambda>p. SPIFFE_ID (fst p) (snd p))) inspect_chains,
             iaTargetNamespace = or_else (env ''TARGET_NAMESPACE'') ''prod'' \<rparr>))"

definition inspect_api_opts :: "inspect_api_config \<Rightarrow> verify_options" where
  "inspect_api_opts cfg = \<lparr> voIssuer = iaIssuer cfg, voAudience = iaAudience cfg,
     voJwksUri = Some (iaJwksUri cfg), voAlgorithms = None, voTolerance = None \<rparr>"

definition chainMatchesAny :: "string list \<Rightarrow> (string \<Rightarrow> bool) list list \<Rightarrow> bool" where
  "chainMatchesAny chain allowed =
     list_ex (\<lambda>expected. length expected = length chain \<and> list_all (\<lambda>q. fst q (snd q)) (zip expected chain)) allowed"

definition act_chain_refused :: "string list \<Rightarrow> http_res" where
  "act_chain_refused chain = answer 403 (denied_header ''act_chain'')
     [(''error'', JStr ''act_chain''), (''error_description'', JStr ''actor chain not allowed''),
      (''chain'', JArr (map JStr chain))]"

definition inspect_api_missing :: "inspect_api_config \<Rightarrow> http_res" where
  "inspect_api_missing cfg =
     answer 401 [(''www-authenticate'', ''Bearer realm=\"'' @ iaAudience cfg @ ''\"'')]
       [(''error'', JStr ''invalid_token''), (''error_description'', JStr ''missing Bearer token'')]"

definition inspect_api_decide :: "inspect_api_config \<Rightarrow> verified_jwt \<Rightarrow> http_res option" where
  "inspect_api_decide cfg v =
     (let missing = missing_scopes (iaRequiredScopes cfg) v;
          claim = jget (vPayload v) ''act'';
          chain = walkActChain claim
      in if missing \<noteq> [] then Some (insufficient_scope missing)
         else if \<not> is_object claim then Some act_required
         else if \<not> chainMatchesAny chain (iaExpectedChains cfg) then Some (act_chain_refused chain)
         else None)"

definition inspect_api_auth ::
  "inspect_api_config \<Rightarrow> ('w, 'j) platform \<Rightarrow> string option \<Rightarrow> ('w, 'j, 'z, verified_jwt gate) act" where
  "inspect_api_auth cfg P =
     bearer_middleware P (inspect_api_missing cfg) (inspect_api_opts cfg)
       (decorate_then (inspect_api_decide cfg) (\<lambda>_ v. v)) ops_api_auth_error ''[inspect-api/auth-middleware] unexpected error''"

definition inspect_api_grants :: "inspect_api_config \<Rightarrow> verified_jwt \<Rightarrow> bool" where
  "inspect_api_grants cfg v =
     ((\<forall>s \<in> set (iaRequiredScopes cfg). has_scope v s)
      \<and> is_object (jget (vPayload v) ''act'')
      \<and> (\<exists>expected \<in> set (iaExpectedChains cfg).
            list_all2 (\<lambda>p c. p c) expected (walkActChain (jget (vPayload v) ''act''))))"

section \<open>Reading the cluster\<close>

text \<open>\<^verbatim>\<open>v ?? []\<close> on the client's objects.\<close>

definition items_of :: "js \<Rightarrow> js list" where
  "items_of v = (case v of JArr xs \<Rightarrow> xs | _ \<Rightarrow> [])"

definition count_of :: "js \<Rightarrow> int" where
  "count_of v = (case v of JNum n \<Rightarrow> n | _ \<Rightarrow> 0)"

text \<open>\<open>dateMs\<close> is the time of a \<^verbatim>\<open>Date\<close> of the client, in milliseconds.\<close>

definition toPodSummary :: "(js \<Rightarrow> int) \<Rightarrow> int \<Rightarrow> js \<Rightarrow> js" where
  "toPodSummary dateMs now pod =
     (let status = jget pod ''status''; meta = jget pod ''metadata'';
          start = (if truthy (jget status ''startTime'') then dateMs (jget status ''startTime'') else 0);
          ageSeconds = (if start \<noteq> 0 then max 0 ((now - start) div 1000) else 0);
          restarts = fold (\<lambda>c acc. acc + count_of (jget c ''restartCount'')) (items_of (jget status ''containerStatuses'')) 0
      in JObj [(''name'', js_or (jget meta ''name'') (JStr [])), (''namespace'', js_or (jget meta ''namespace'') (JStr [])),
               (''status'', js_or (jget status ''phase'') (JStr ''Unknown'')), (''restarts'', JNum restarts),
               (''ageSeconds'', JNum ageSeconds),
               (''image'', js_or (jget (js_first (jget (jget pod ''spec'') ''containers'')) ''image'') (JStr []))])"

definition toDeploymentSummary :: "js \<Rightarrow> js" where
  "toDeploymentSummary dep =
     (let meta = jget dep ''metadata''; spec = jget dep ''spec''; status = jget dep ''status''
      in JObj [(''name'', js_or (jget meta ''name'') (JStr [])), (''namespace'', js_or (jget meta ''namespace'') (JStr [])),
               (''image'', js_or (jget (js_first (jget (jget (jget spec ''template'') ''spec'') ''containers'')) ''image'') (JStr [])),
               (''replicas'', js_or (jget spec ''replicas'') (JNum 0)),
               (''readyReplicas'', js_or (jget status ''readyReplicas'') (JNum 0)),
               (''updatedReplicas'', js_or (jget status ''updatedReplicas'') (JNum 0)),
               (''generation'', jget meta ''generation''),
               (''observedGeneration'', jget status ''observedGeneration'')])"

type_synonym 'w k8s_read = "js list \<Rightarrow> 'w \<Rightarrow> (exn + js) \<times> 'w"

definition k8s_read :: "string \<Rightarrow> 'w k8s_read \<Rightarrow> js list \<Rightarrow> ('w, 'j, 'z, js) act" where
  "k8s_read op f args = io_bind (emit (K8sCall op args)) (\<lambda>_. world_try (f args))"

definition listPods ::
  "('w, 'j) platform \<Rightarrow> (js \<Rightarrow> int) \<Rightarrow> 'w k8s_read \<Rightarrow> js \<Rightarrow> ('w, 'j, 'z, js) act" where
  "listPods P dateMs list ns =
     io_bind (oboLog P (event ''inspect-api'' CALL (arrow @ '' K8s API list pods'')
        [(''namespace'', ns), (''verb'', JStr ''list''), (''resource'', JStr ''pods'')])) (\<lambda>_.
     io_bind (k8s_read ''listNamespacedPod'' list [ns]) (\<lambda>body.
     io_bind (prop_of body ''items'') (\<lambda>items.
     io_bind (world_get (dateNow P)) (\<lambda>now.
       io_return (JArr (map (toPodSummary dateMs now) (items_of items)))))))"

definition getPodLogs ::
  "('w, 'j) platform \<Rightarrow> 'w k8s_read \<Rightarrow> string \<Rightarrow> js \<Rightarrow> int \<Rightarrow> ('w, 'j, 'z, js) act" where
  "getPodLogs P logs podName ns tailLines =
     io_bind (oboLog P (event ''inspect-api'' CALL (arrow @ '' K8s API read pod logs'')
        [(''namespace'', ns), (''pod'', JStr podName), (''tailLines'', JNum tailLines),
         (''verb'', JStr ''get''), (''resource'', JStr ''pods/log'')])) (\<lambda>_.
     io_bind (k8s_read ''readNamespacedPodLog'' logs [JStr podName, ns, JNum tailLines]) (\<lambda>body.
       io_return (JObj [(''podName'', JStr podName), (''namespace'', ns),
         (''lines'', JArr (map JStr (filter (\<lambda>l. l \<noteq> []) (split_on CHR 0x0A (js_string (js_or body (JStr [])))))))])))"

definition getDeployment ::
  "('w, 'j) platform \<Rightarrow> 'w k8s_read \<Rightarrow> string \<Rightarrow> js \<Rightarrow> ('w, 'j, 'z, js) act" where
  "getDeployment P get name ns =
     io_bind (oboLog P (event ''inspect-api'' CALL (arrow @ '' K8s API get deployment'')
        [(''namespace'', ns), (''deployment'', JStr name), (''verb'', JStr ''get''), (''resource'', JStr ''deployments'')])) (\<lambda>_.
     io_bind (k8s_read ''readNamespacedDeployment'' get [JStr name, ns]) (\<lambda>body.
       io_return (toDeploymentSummary body)))"

section \<open>Routes\<close>

definition status_403 :: "int \<Rightarrow> int" where
  "status_403 n = (if n = 403 then 403 else 500)"

definition read_or_failure :: "(int \<Rightarrow> int) \<Rightarrow> string \<Rightarrow> ('w, 'j, 'z, js) act \<Rightarrow> ('w, 'j, 'z, http_res) act" where
  "read_or_failure status_of err m =
     io_catch (io_bind m (\<lambda>j. io_return \<lparr> rStatus = 200, rHeaders = [], rBody = j \<rparr>))
       (\<lambda>e. io_return (k8s_failure status_of err e))"

text \<open>The fields that describe the caller, without the authentication class.\<close>

definition reader_fields :: "('w, 'j) platform \<Rightarrow> string option \<Rightarrow> (string \<times> js) list" where
  "reader_fields P authz =
     (let tok = summarizeJwt P (Some (logged_token authz))
      in [(''user'', opt_js (jsSub tok)), (''scope'', opt_js (jsScope tok)), (''act'', opt_js (jsAct tok))])"

text \<open>
  \<^verbatim>\<open>Number(req.query.tailLines ?? 50)\<close>, clamped to 1..1000, or 50 when it is no number.
\<close>

definition tail_lines :: "js \<Rightarrow> int" where
  "tail_lines q = (case js_number (js_or q (JNum 50)) of None \<Rightarrow> 50 | Some n \<Rightarrow> min (max 1 n) 1000)"

datatype inspect_route = Pods | PodLogs string | Deployment string

definition inspect_handler ::
  "inspect_route \<Rightarrow> inspect_api_config \<Rightarrow> ('w, 'j) platform \<Rightarrow> (js \<Rightarrow> int) \<Rightarrow> 'w k8s_read \<Rightarrow> string option \<Rightarrow> js
   \<Rightarrow> ('w, 'j, 'z, http_res) act" where
  "inspect_handler r cfg P dateMs f authz query =
     (let ns = js_or (jget query ''namespace'') (JStr (iaTargetNamespace cfg))
      in case r of
           Pods \<Rightarrow>
             io_bind (oboLog P (event ''inspect-api'' RECEIVE ''GET /pods''
                (reader_fields P authz @ [(''namespace'', ns)]))) (\<lambda>_.
               read_or_failure status_403 ''list_failed'' (listPods P dateMs f ns))
         | PodLogs pod \<Rightarrow>
             (let tl = tail_lines (jget query ''tailLines'')
              in io_bind (oboLog P (event ''inspect-api'' RECEIVE ''GET /pods/:name/logs''
                (reader_fields P authz @ [(''pod'', JStr pod), (''namespace'', ns), (''tailLines'', JNum tl)]))) (\<lambda>_.
                  read_or_failure status_403_404 ''logs_failed'' (getPodLogs P f pod ns tl)))
         | Deployment name \<Rightarrow>
             io_bind (oboLog P (event ''inspect-api'' RECEIVE ''GET /deployments/:name''
                (reader_fields P authz @ [(''deployment'', JStr name), (''namespace'', ns)]))) (\<lambda>_.
               read_or_failure status_403_404 ''get_deployment_failed'' (getDeployment P f name ns)))"

definition inspect_api_serve ::
  "inspect_route \<Rightarrow> inspect_api_config \<Rightarrow> ('w, 'j) platform \<Rightarrow> (js \<Rightarrow> int) \<Rightarrow> 'w k8s_read \<Rightarrow> string option \<Rightarrow> js
   \<Rightarrow> ('w, 'j, 'z, http_res) act" where
  "inspect_api_serve r cfg P dateMs f authz query =
     io_bind (inspect_api_auth cfg P authz) (\<lambda>g.
       case g of Respond res \<Rightarrow> io_return res | Next _ \<Rightarrow> inspect_handler r cfg P dateMs f authz query)"

section \<open>The middleware meets its policy\<close>

lemma chainMatchesAny_iff:
  "chainMatchesAny chain allowed \<longleftrightarrow> (\<exists>expected \<in> set allowed. list_all2 (\<lambda>p c. p c) expected chain)"
  by (auto simp: chainMatchesAny_def list_ex_iff list_all2_iff list_all_iff case_prod_unfold)

lemma inspect_api_decide_None: "inspect_api_decide cfg v = None \<longleftrightarrow> inspect_api_grants cfg v"
  by (auto simp: inspect_api_decide_def inspect_api_grants_def missing_scopes_empty chainMatchesAny_iff Let_def)

lemma inspect_api_decide_status: "inspect_api_decide cfg v = Some res \<Longrightarrow> rStatus res \<in> {401, 403}"
  by (auto simp: inspect_api_decide_def Let_def insufficient_scope_def act_required_def act_chain_refused_def
      answer_def split: if_splits)

interpretation inspect_gate: bearer_gate "inspect_api_auth cfg" "inspect_api_opts cfg" "inspect_api_grants cfg"
  for cfg :: inspect_api_config
  unfolding inspect_api_auth_def
  by (rule bearer_gate_decorate)
     (auto simp: inspect_api_missing_def ops_api_auth_error_def answer_def inspect_api_decide_None
        dest: inspect_api_decide_status)

section \<open>What the service guarantees\<close>

text \<open>
  The read API lets a request through exactly when its token verifies, carries the required
  scopes and its actor chain is one of the allowed chains, actor by actor and in full; no
  authentication class is asked for.
\<close>

theorem inspect_api_admits:
  "(\<exists>v u. inspect_api_auth cfg P h s = (Inr (Next v), u)) \<longleftrightarrow>
   (\<exists>tok v t. bearer_of h = Some tok \<and> verifyJwt P tok (inspect_api_opts cfg) s = (Inr v, t)
      \<and> (\<forall>sc \<in> set (iaRequiredScopes cfg). has_scope v sc)
      \<and> is_object (jget (vPayload v) ''act'')
      \<and> (\<exists>expected \<in> set (iaExpectedChains cfg).
            list_all2 (\<lambda>p c. p c) expected (walkActChain (jget (vPayload v) ''act''))))"
  using inspect_gate.next_iff [of cfg P h s] by (simp add: inspect_api_grants_def)

definition fixture_inspect_config :: inspect_api_config where
  "fixture_inspect_config =
     \<lparr> iaIssuer = ''https://as'', iaJwksUri = ''https://as/jwks'', iaAudience = ''inspect-api'',
       iaRequiredScopes = [''inspect:read''],
       iaExpectedChains = map (map (\<lambda>p. SPIFFE_ID (fst p) (snd p))) inspect_chains, iaTargetNamespace = ''prod'' \<rparr>"

definition read_actors :: "nat \<Rightarrow> string list" where
  "read_actors i = map (\<lambda>p. spiffe_id (fst p) (snd p)) (inspect_chains ! i)"

definition fixture_inspect_claims :: js where
  "fixture_inspect_claims = fixture_claims (read_actors 1) ''inspect:read'' ''password''"

lemma fixture_inspect_grants: "inspect_api_grants fixture_inspect_config (fixture_verified fixture_inspect_claims)"
proof -
  have "walkActChain (jget fixture_inspect_claims ''act'') = read_actors 1"
    by (simp add: fixture_inspect_claims_def fixture_claims_def walk_nested_chain)
  moreover have "is_object (jget fixture_inspect_claims ''act'')"
    by (simp add: fixture_inspect_claims_def fixture_claims_def nest_act_object read_actors_def inspect_chains_def)
  moreover have "\<exists>expected \<in> set (iaExpectedChains fixture_inspect_config). list_all2 (\<lambda>p c. p c) expected (read_actors 1)"
    by (rule bexI [of _ "map (\<lambda>p. SPIFFE_ID (fst p) (snd p)) (inspect_chains ! 1)"])
       (simp_all add: spiffe_chain_iff read_actors_def fixture_inspect_config_def inspect_chains_def SPIFFE_ID_def)
  moreover have "has_scope (fixture_verified fixture_inspect_claims) ''inspect:read''"
    by (simp add: fixture_verified_def fixture_inspect_claims_def fixture_claims_def verified_of_def has_scope_def
        parseScopes_def)
  moreover have "vPayload (fixture_verified fixture_inspect_claims) = fixture_inspect_claims"
    by (simp add: fixture_verified_def verified_of_def)
  ultimately show ?thesis
    unfolding inspect_api_grants_def by (simp add: fixture_inspect_config_def)
qed

theorem inspect_api_admits_witness:
  "\<exists>v u. inspect_api_auth fixture_inspect_config (fixture_gate fixture_inspect_claims) (Some ''Bearer tok'') (idle 0)
     = (Inr (Next v), u)"
proof -
  obtain t where "verifyJwt (fixture_gate fixture_inspect_claims) ''tok'' (inspect_api_opts fixture_inspect_config) (idle 0)
      = (Inr (fixture_verified fixture_inspect_claims), t)"
    using fixture_verifies [of "inspect_api_opts fixture_inspect_config"]
    by (auto simp: inspect_api_opts_def fixture_inspect_config_def)
  then show ?thesis
    using inspect_api_admits [of fixture_inspect_config "fixture_gate fixture_inspect_claims" "Some ''Bearer tok''" "idle 0"]
      fixture_inspect_grants fixture_bearer unfolding inspect_api_grants_def by blast
qed

text \<open>The number of log lines asked of the cluster is between 1 and 1000, whatever the query says.\<close>

lemma tail_lines_bounds: "1 \<le> tail_lines q \<and> tail_lines q \<le> 1000"
  by (auto simp: tail_lines_def split: option.splits)

definition one_read :: "effect list \<Rightarrow> bool" where
  "one_read es = (k8s_calls es = [] \<or> (\<exists>op args. k8s_calls es = [(op, args)]
     \<and> op \<in> {''listNamespacedPod'', ''readNamespacedPodLog'', ''readNamespacedDeployment''}
     \<and> (op = ''readNamespacedPodLog'' \<longrightarrow> (\<exists>p n k. args = [p, n, JNum k] \<and> 1 \<le> k \<and> k \<le> 1000))))"

lemma does_read_then:
  assumes "op \<in> {''listNamespacedPod'', ''readNamespacedPodLog'', ''readNamespacedDeployment''}"
    and "op = ''readNamespacedPodLog'' \<Longrightarrow> \<exists>p n k. args = [p, n, JNum k] \<and> 1 \<le> k \<and> k \<le> 1000"
    and "\<And>a. emits no_k8s (g a)"
  shows "does (io_bind (k8s_read op f args) g) (\<lambda>es r. one_read es)"
proof -
  have "does (k8s_read op f args) (\<lambda>es r. es = [K8sCall op args])"
    unfolding k8s_read_def by (rule does_conseq [OF does_bind [OF does_emit does_world_try]]) auto
  then show ?thesis
    by (rule does_conseq [OF does_bind [OF _ assms(3) [unfolded emits_def]]])
       (use assms(1,2) no_k8s_calls in \<open>auto simp: one_read_def\<close>)
qed

lemma does_log_then:
  assumes "does m (\<lambda>es r. one_read es)"
  shows "does (io_bind (oboLog P ev) (\<lambda>_. m)) (\<lambda>es r. one_read es)"
proof -
  have "emits no_k8s (oboLog P ev)" by (intro emits_intros) simp
  then show ?thesis
    by (intro does_conseq [OF does_bind [OF _ assms]]) (auto simp: emits_def one_read_def no_k8s_calls)
qed

lemma does_read_or_failure:
  assumes "does m (\<lambda>es r. one_read es)"
  shows "does (read_or_failure st err m) (\<lambda>es r. one_read es)"
  unfolding read_or_failure_def
  by (rule does_conseq [OF does_catch [OF does_bind [OF assms does_return] does_return]]) auto

lemma does_inspect_handler: "does (inspect_handler r cfg P dateMs f authz query) (\<lambda>es x. one_read es)"
  using tail_lines_bounds
  by (cases r)
     (auto simp: inspect_handler_def Let_def listPods_def getPodLogs_def getDeployment_def
        intro!: does_log_then does_read_or_failure does_read_then emits_intros)

lemma emits_inspect_api_auth: "emits no_k8s (inspect_api_auth cfg P h)"
  unfolding inspect_api_auth_def by (intro emits_intros) simp_all

text \<open>
  C24. The read API only reads: an admitted request makes at most one call of the cluster, a list or
  a get, with a log tail between 1 and 1000 lines, and a refused request makes none.
\<close>

theorem inspect_api_reads_only:
  assumes "inspect_api_serve r cfg P dateMs f authz query s = (x, t)"
  shows "\<exists>es. out t = out s @ es \<and> one_read es
    \<and> (k8s_calls es \<noteq> [] \<longrightarrow> (\<exists>tok v u. bearer_of authz = Some tok
          \<and> verifyJwt P tok (inspect_api_opts cfg) s = (Inr v, u) \<and> inspect_api_grants cfg v))"
proof -
  obtain g u where g: "inspect_api_auth cfg P authz s = (Inr g, u)" using inspect_gate.total by blast
  obtain es1 where es1: "out u = out s @ es1" "list_all no_k8s es1"
    using emitsD [OF emits_inspect_api_auth g] by blast
  show ?thesis
  proof (cases g)
    case (Respond res)
    then have "t = u" using assms g by (simp add: inspect_api_serve_def io_bind_def io_return_def)
    then show ?thesis using es1 no_k8s_calls by (auto simp: one_read_def)
  next
    case (Next v)
    then have h: "inspect_handler r cfg P dateMs f authz query u = (x, t)"
      using assms g by (simp add: inspect_api_serve_def io_bind_def)
    obtain es2 where es2: "out t = out u @ es2" "one_read es2" using doesD [OF does_inspect_handler h] by blast
    have "\<exists>tok v t. bearer_of authz = Some tok \<and> verifyJwt P tok (inspect_api_opts cfg) s = (Inr v, t)
        \<and> inspect_api_grants cfg v"
      using inspect_gate.next_iff g Next by blast
    then show ?thesis using es1 es2 no_k8s_calls [OF es1(2)] by (auto simp: one_read_def)
  qed
qed

theorem inspect_api_reads_only_witness:
  "one_read (out (snd (inspect_api_serve (PodLogs ''p'') fixture_inspect_config (fixture_gate fixture_inspect_claims) (\<lambda>_. 0)
     (\<lambda>_ w. (Inr (JStr ''x''), w)) (Some ''Bearer tok'') (JObj [(''tailLines'', JStr ''5000'')]) (idle 0))))"
  using inspect_api_reads_only [OF prod.collapse [symmetric], of "PodLogs ''p''" fixture_inspect_config
      "fixture_gate fixture_inspect_claims" "\<lambda>_. 0" "\<lambda>_ w. (Inr (JStr ''x''), w)" "Some ''Bearer tok''"
      "JObj [(''tailLines'', JStr ''5000'')]" "idle 0"]
  by (auto simp: idle_def)

end
