(* ===== verification/Json.thy ===== *)
theory Json
  imports OboLog
begin

text \<open>
  \<^verbatim>\<open>JSON.stringify(v, null, 2)\<close> and \<^verbatim>\<open>JSON.parse\<close>, through which the agents exchange results over A2A.
  Values are those of \<open>js\<close>: numbers are integers, and strings are bytes in UTF-8.
  The two builtins are modelled as far as the agents' messages need them: a numeral with a fraction or an exponent is
  refused, and \<^verbatim>\<open>\u\<close> escapes are decoded one code unit at a time, which differs for an escaped surrogate pair;
  \<^verbatim>\<open>JSON.stringify\<close> escapes neither.
\<close>

section \<open>The indented text\<close>

definition new_line :: "nat \<Rightarrow> string" where
  "new_line i = CHR 0x0A # replicate i CHR '' ''"

fun json_pretty :: "nat \<Rightarrow> js \<Rightarrow> string" where
  "json_pretty i (JArr xs) =
     (if xs = [] then ''[]''
      else ''['' @ new_line (i + 2)
        @ join ('','' @ new_line (i + 2)) (map (\<lambda>x. if x = JUndef then ''null'' else json_pretty (i + 2) x) xs)
        @ new_line i @ '']'')"
| "json_pretty i (JObj kvs) =
     (let ms = filter (\<lambda>p. snd p \<noteq> JUndef) kvs
      in if ms = [] then ''{}''
         else ''{'' @ new_line (i + 2)
           @ join ('','' @ new_line (i + 2)) (map (\<lambda>p. json_string (fst p) @ '': '' @ json_pretty (i + 2) (snd p)) ms)
           @ new_line i @ ''}'')"
| "json_pretty i v = json_text v"

section \<open>The parser\<close>

definition json_ws :: "char \<Rightarrow> bool" where
  "json_ws c = (c \<in> set [CHR '' '', CHR 0x09, CHR 0x0A, CHR 0x0D])"

definition skip_ws :: "string \<Rightarrow> string" where
  "skip_ws s = dropWhile json_ws s"

definition hex_value :: "char \<Rightarrow> nat option" where
  "hex_value c = map_of (zip ''0123456789abcdefABCDEF'' ([0..<16] @ [10..<16])) c"

text \<open>The bytes of a code unit.\<close>

definition utf8 :: "nat \<Rightarrow> string" where
  "utf8 n =
     (if n < 128 then [char_of n]
      else if n < 2048 then [char_of (192 + n div 64), char_of (128 + n mod 64)]
      else [char_of (224 + n div 4096), char_of (128 + n div 64 mod 64), char_of (128 + n mod 64)])"

definition unescape :: "char \<Rightarrow> char option" where
  "unescape c = map_of (zip [CHR 0x22, CHR 0x5C, CHR ''/'', CHR ''b'', CHR ''f'', CHR ''n'', CHR ''r'', CHR ''t'']
     [CHR 0x22, CHR 0x5C, CHR ''/'', CHR 0x08, CHR 0x0C, CHR 0x0A, CHR 0x0D, CHR 0x09]) c"

definition hex4 :: "char \<Rightarrow> char \<Rightarrow> char \<Rightarrow> char \<Rightarrow> nat option" where
  "hex4 a b c d =
     (case (hex_value a, hex_value b, hex_value c, hex_value d) of
        (Some w, Some x, Some y, Some z) \<Rightarrow> Some (4096 * w + 256 * x + 16 * y + z)
      | _ \<Rightarrow> None)"

text \<open>A string after its opening quote: its characters and what follows the closing one.\<close>

definition put_front :: "string \<Rightarrow> (string \<times> string) option \<Rightarrow> (string \<times> string) option" where
  "put_front w r = map_option (\<lambda>p. (w @ fst p, snd p)) r"

fun parse_string :: "string \<Rightarrow> (string \<times> string) option" where
  "parse_string [] = None"
| "parse_string (c # s) =
     (if c = CHR 0x22 then Some ([], s)
      else if c = CHR 0x5C
        then (case s of
                [] \<Rightarrow> None
              | e # s' \<Rightarrow>
                  if e = CHR ''u''
                  then (case s' of
                          a # b # x # y # r \<Rightarrow>
                            (case hex4 a b x y of None \<Rightarrow> None | Some n \<Rightarrow> put_front (utf8 n) (parse_string r))
                        | _ \<Rightarrow> None)
                  else (case unescape e of None \<Rightarrow> None | Some u \<Rightarrow> put_front [u] (parse_string s')))
      else if (of_char c :: nat) < 32 then None
      else put_front [c] (parse_string s))"

definition is_digit :: "char \<Rightarrow> bool" where
  "is_digit c = (c \<in> set ''0123456789'')"

fun digits_value :: "nat \<Rightarrow> string \<Rightarrow> nat" where
  "digits_value acc [] = acc"
| "digits_value acc (c # s) = digits_value (10 * acc + (of_char c - 48)) s"

definition parse_nat :: "string \<Rightarrow> (nat \<times> string) option" where
  "parse_nat s =
     (let ds = takeWhile is_digit s
      in if ds = [] \<or> (hd ds = CHR ''0'' \<and> length ds > 1) then None else Some (digits_value 0 ds, dropWhile is_digit s))"

definition parse_number :: "string \<Rightarrow> (js \<times> string) option" where
  "parse_number s =
     (if starts_with ''-'' s then map_option (\<lambda>p. (JNum (- int (fst p)), snd p)) (parse_nat (tl s))
      else map_option (\<lambda>p. (JNum (int (fst p)), snd p)) (parse_nat s))"

text \<open>\<open>n\<close> bounds the depth of the calls; more than twice the length of the text is always enough.\<close>

fun parse_value :: "nat \<Rightarrow> string \<Rightarrow> (js \<times> string) option"
  and parse_elements :: "nat \<Rightarrow> string \<Rightarrow> (js list \<times> string) option"
  and parse_members :: "nat \<Rightarrow> (string \<times> js) list \<Rightarrow> string \<Rightarrow> ((string \<times> js) list \<times> string) option" where
  "parse_value 0 s = None"
| "parse_value (Suc n) s =
     (case skip_ws s of
        [] \<Rightarrow> None
      | c # r \<Rightarrow>
          if c = CHR 0x22 then map_option (\<lambda>p. (JStr (fst p), snd p)) (parse_string r)
          else if c = CHR ''[''
            then (if starts_with '']'' (skip_ws r) then Some (JArr [], tl (skip_ws r))
                  else map_option (\<lambda>p. (JArr (fst p), snd p)) (parse_elements n r))
          else if c = CHR ''{''
            then (if starts_with ''}'' (skip_ws r) then Some (JObj [], tl (skip_ws r))
                  else map_option (\<lambda>p. (JObj (fst p), snd p)) (parse_members n [] r))
          else if starts_with ''true'' (c # r) then Some (JBool True, drop 4 (c # r))
          else if starts_with ''false'' (c # r) then Some (JBool False, drop 5 (c # r))
          else if starts_with ''null'' (c # r) then Some (JNull, drop 4 (c # r))
          else parse_number (c # r))"
| "parse_elements 0 s = None"
| "parse_elements (Suc n) s =
     (case parse_value n s of
        None \<Rightarrow> None
      | Some (v, t) \<Rightarrow>
          (case skip_ws t of
             c # r \<Rightarrow> if c = CHR '','' then map_option (\<lambda>p. (v # fst p, snd p)) (parse_elements n r)
                      else if c = CHR '']'' then Some ([v], r) else None
           | [] \<Rightarrow> None))"
| "parse_members 0 acc s = None"
| "parse_members (Suc n) acc s =
     (case skip_ws s of
        [] \<Rightarrow> None
      | q # r \<Rightarrow>
          if q \<noteq> CHR 0x22 then None
          else (case parse_string r of
                  None \<Rightarrow> None
                | Some (k, t) \<Rightarrow>
                    (case skip_ws t of
                       [] \<Rightarrow> None
                     | c # u \<Rightarrow>
                         if c \<noteq> CHR '':'' then None
                         else (case parse_value n u of
                                 None \<Rightarrow> None
                               | Some (v, w) \<Rightarrow>
                                   (case skip_ws w of
                                      d # x \<Rightarrow> if d = CHR '','' then parse_members n (om_set acc k v) x
                                               else if d = CHR ''}'' then Some (om_set acc k v, x) else None
                                    | [] \<Rightarrow> None)))))"

definition json_parse :: "string \<Rightarrow> js option" where
  "json_parse s =
     (case parse_value (Suc (2 * length s)) s of
        Some (v, r) \<Rightarrow> if skip_ws r = [] then Some v else None
      | None \<Rightarrow> None)"

text \<open>What is left of a value in its text: members and elements that are undefined go or become null.\<close>

fun json_norm :: "js \<Rightarrow> js" where
  "json_norm (JArr xs) = JArr (map (\<lambda>x. if x = JUndef then JNull else json_norm x) xs)"
| "json_norm (JObj kvs) = JObj (map (\<lambda>p. (fst p, json_norm (snd p))) (filter (\<lambda>p. snd p \<noteq> JUndef) kvs))"
| "json_norm v = v"

text \<open>Values as the runtime has them: an object has no key twice.\<close>

fun json_ok :: "js \<Rightarrow> bool" where
  "json_ok (JArr xs) = list_all json_ok xs"
| "json_ok (JObj kvs) = (distinct (map fst kvs) \<and> list_all (\<lambda>p. json_ok (snd p)) kvs)"
| "json_ok v = True"

lemmas json_eval [eval_simps] = new_line_def json_ws_def skip_ws_def hex_value_def utf8_def unescape_def hex4_def
  put_front_def is_digit_def parse_nat_def parse_number_def json_parse_def

section \<open>Strings and numbers survive\<close>

lemma put_front_Some [simp]: "put_front w (Some (x, t)) = Some (w @ x, t)"
  by (simp add: put_front_def)

lemma control_chars:
  "list_all (\<lambda>n. hex4 CHR ''0'' CHR ''0'' (hex_digit (n div 16)) (hex_digit (n mod 16)) = Some n \<and> utf8 n = [char_of n]) [0..<32]"
  by code_simp

lemma escapes:
  "unescape CHR 0x22 = Some CHR 0x22" "unescape CHR 0x5C = Some CHR 0x5C" "unescape CHR ''b'' = Some CHR 0x08"
  "unescape CHR ''f'' = Some CHR 0x0C" "unescape CHR ''n'' = Some CHR 0x0A" "unescape CHR ''r'' = Some CHR 0x0D"
  "unescape CHR ''t'' = Some CHR 0x09"
  by code_simp+

lemma code_inj: "of_char c = (of_char d :: nat) \<Longrightarrow> c = d"
  by simp

lemma parse_json_char: "parse_string (json_char c @ t) = put_front [c] (parse_string t)"
proof -
  define n :: nat where "n = of_char c"
  have e: "n = 34 \<Longrightarrow> c = CHR 0x22" "n = 92 \<Longrightarrow> c = CHR 0x5C" "n = 8 \<Longrightarrow> c = CHR 0x08" "n = 12 \<Longrightarrow> c = CHR 0x0C" "n = 10 \<Longrightarrow> c = CHR 0x0A" "n = 13 \<Longrightarrow> c = CHR 0x0D" "n = 9 \<Longrightarrow> c = CHR 0x09"
    by (rule code_inj, simp add: n_def)+
  consider "n = 34" | "n = 92" | "n = 8" | "n = 12" | "n = 10" | "n = 13" | "n = 9"
    | "n < 32" "n \<notin> {8, 9, 10, 12, 13}" | "\<not> n < 32" "n \<noteq> 34" "n \<noteq> 92"
    by fastforce
  then show ?thesis
  proof cases
    case 8
    then have h: "hex4 CHR ''0'' CHR ''0'' (hex_digit (n div 16)) (hex_digit (n mod 16)) = Some n" "utf8 n = [c]"
      using control_chars by (auto simp: list_all_iff n_def)
    have "json_char c = [CHR 0x5C, CHR ''u'', CHR ''0'', CHR ''0'', hex_digit (n div 16), hex_digit (n mod 16)]"
      using 8 by (simp add: json_char_def n_def [symmetric])
    then show ?thesis using h by simp
  next
    case 9
    then have j: "json_char c = [c]" by (simp add: json_char_def n_def [symmetric])
    have "c \<noteq> CHR 0x22" "c \<noteq> CHR 0x5C" using 9 by (auto simp: n_def)
    then show ?thesis using 9 j by (simp add: n_def [symmetric])
  qed (simp_all add: json_char_def e escapes)
qed

lemma parse_json_chars: "parse_string (concat (map json_char s) @ CHR 0x22 # t) = Some (s, t)"
  by (induction s) (simp_all add: parse_json_char)

lemma parse_json_string: "json_string s @ t = CHR 0x22 # u \<Longrightarrow> parse_string u = Some (s, t)"
  by (auto simp: json_string_def parse_json_chars)

lemma digits_digits: "list_all is_digit (digits n) \<and> digits n \<noteq> []"
proof (induction n rule: digits.induct)
  case (1 n)
  have "m < 10 \<Longrightarrow> is_digit (''0123456789'' ! m)" for m
    by (simp add: is_digit_def nth_Cons' del: set_simps) (auto simp: less_Suc_eq numeral_eq_Suc)
  then show ?case using 1 by (subst (1 2) digits.simps) simp
qed

lemma digits_value_snoc: "digits_value acc (xs @ [d]) = 10 * digits_value acc xs + (of_char d - 48)"
  by (induction xs arbitrary: acc) simp_all

lemma digit_code: "m < 10 \<Longrightarrow> of_char (''0123456789'' ! m) - 48 = (m::nat)"
  by (auto simp: less_Suc_eq numeral_eq_Suc)

lemma digits_value_digits: "digits_value 0 (digits n) = n"
proof (induction n rule: digits.induct)
  case (1 n)
  then show ?case
    by (subst digits.simps) (simp add: digits_value_snoc digit_code)
qed

lemma digits_no_zero: "hd (digits n) = CHR ''0'' \<Longrightarrow> length (digits n) = 1"
proof (induction n rule: digits.induct)
  case (1 n)
  show ?case
  proof (cases "n < 10")
    case True
    then show ?thesis by (subst digits.simps) simp
  next
    case False
    have "hd (digits (n div 10)) = CHR ''0''"
      using 1(2) False digits_digits [of "n div 10"] by (subst (asm) digits.simps) simp
    then have l: "length (digits (n div 10)) = 1" using 1(1) False by simp
    then have "n div 10 < 10" using digits.simps [of "n div 10"] digits_digits [of "n div 10 div 10"] by (auto split: if_splits)
    then have "digits (n div 10) = [''0123456789'' ! (n div 10)]" by (simp add: digits.simps)
    then have "''0123456789'' ! (n div 10) = CHR ''0''" using \<open>hd (digits (n div 10)) = CHR ''0''\<close> by simp
    then have "n div 10 = 0" using digit_code [OF \<open>n div 10 < 10\<close>] by simp
    then show ?thesis using False by simp
  qed
qed

definition no_digit :: "string \<Rightarrow> bool" where
  "no_digit t = (case t of [] \<Rightarrow> True | c # _ \<Rightarrow> \<not> is_digit c)"

lemma parse_nat_digits: "no_digit t \<Longrightarrow> parse_nat (digits n @ t) = Some (n, t)"
proof -
  assume t: "no_digit t"
  have d: "\<forall>c \<in> set (digits n). is_digit c" "digits n \<noteq> []" using digits_digits [of n] by (auto simp: list_all_iff)
  have "takeWhile is_digit (digits n @ t) = digits n" "dropWhile is_digit (digits n @ t) = t"
    using d(1) t by (auto simp: takeWhile_append2 dropWhile_append2 no_digit_def takeWhile_eq_Nil_iff split: list.splits)
  then show ?thesis using d(2) digits_no_zero [of n] by (auto simp: parse_nat_def Let_def digits_value_digits)
qed

lemma parse_number_int: "no_digit t \<Longrightarrow> parse_number (int_str n @ t) = Some (JNum n, t)"
proof -
  assume t: "no_digit t"
  have "\<not> starts_with ''-'' (digits m @ t)" for m
    using digits_digits [of m] by (cases "digits m") (auto simp: starts_with_def is_digit_def)
  then show ?thesis using parse_nat_digits [OF t] by (simp add: parse_number_def int_str_def starts_with_def)
qed

section \<open>Values survive\<close>

lemma skip_new_line [simp]: "skip_ws (new_line i @ s) = skip_ws s"
proof -
  have "dropWhile json_ws (replicate i CHR '' '' @ s) = dropWhile json_ws s"
    by (induction i) (simp_all add: json_ws_def)
  then show ?thesis by (simp add: skip_ws_def new_line_def json_ws_def)
qed

lemma parse_new_line [simp]:
  "parse_value n (new_line i @ s) = parse_value n s" "parse_elements n (new_line i @ s) = parse_elements n s"
  "parse_members n acc (new_line i @ s) = parse_members n acc s"
proof -
  show v: "parse_value n (new_line i @ s) = parse_value n s" for n by (cases n) simp_all
  show "parse_elements n (new_line i @ s) = parse_elements n s" by (cases n) (simp_all add: v)
  show "parse_members n acc (new_line i @ s) = parse_members n acc s" by (cases n) simp_all
qed

lemma skip_mark: "\<not> json_ws c \<Longrightarrow> skip_ws (c # s) = c # s"
  by (simp add: skip_ws_def)

lemma marks [simp]:
  "skip_ws (CHR '','' # s) = CHR '','' # s" "skip_ws (CHR '']'' # s) = CHR '']'' # s" "skip_ws (CHR ''}'' # s) = CHR ''}'' # s"
  "skip_ws (CHR '':'' # s) = CHR '':'' # s" "skip_ws (CHR 0x22 # s) = CHR 0x22 # s" "skip_ws (CHR ''['' # s) = CHR ''['' # s"
  "skip_ws (CHR ''{'' # s) = CHR ''{'' # s"
  by (simp_all add: skip_mark json_ws_def)

definition value_start :: "string \<Rightarrow> bool" where
  "value_start s = (s \<noteq> [] \<and> hd s \<in> set [CHR ''n'', CHR ''t'', CHR ''f'', CHR ''-'', CHR 0x22, CHR ''['', CHR ''{''] \<union> set ''0123456789'')"

lemma value_start_text: "v \<noteq> JUndef \<Longrightarrow> value_start (json_pretty i v)"
proof (cases v)
  case (JNum n)
  have "digits m \<noteq> [] \<and> hd (digits m) \<in> set ''0123456789''" for m
    using digits_digits [of m] by (cases "digits m") (auto simp: is_digit_def)
  then show ?thesis using JNum by (auto simp: value_start_def int_str_def)
qed (auto simp: value_start_def json_string_def Let_def)

lemma value_start_skip: "value_start s \<Longrightarrow> skip_ws (s @ t) = s @ t \<and> \<not> starts_with '']'' (s @ t) \<and> \<not> starts_with ''}'' (s @ t)"
  by (cases s) (auto simp: value_start_def skip_ws_def json_ws_def starts_with_def)

text \<open>The round trip for one value in any context, for the induction.\<close>

definition survives :: "js \<Rightarrow> bool" where
  "survives v = (\<forall>i n t. v \<noteq> JUndef \<longrightarrow> json_ok v \<longrightarrow> no_digit t \<longrightarrow> 2 * length (json_pretty i v @ t) < n \<longrightarrow>
     parse_value n (json_pretty i v @ t) = Some (json_norm v, t))"

lemma survivesD: "survives v \<Longrightarrow> v \<noteq> JUndef \<Longrightarrow> json_ok v \<Longrightarrow> no_digit t \<Longrightarrow> 2 * length (json_pretty i v @ t) < n \<Longrightarrow>
    parse_value n (json_pretty i v @ t) = Some (json_norm v, t)"
  by (simp add: survives_def)

lemma parse_value_null: "0 < n \<Longrightarrow> parse_value n (''null'' @ t) = Some (JNull, t)"
  by (cases n) (simp_all add: skip_ws_def json_ws_def starts_with_def)

lemma no_digit_simps [simp]: "no_digit (new_line i @ s)" "no_digit (CHR '','' # s)" "no_digit []"
  by (simp_all add: no_digit_def new_line_def is_digit_def)

lemma elements_survive:
  "xs \<noteq> [] \<Longrightarrow> (\<And>x. x \<in> set xs \<Longrightarrow> survives x \<and> json_ok x) \<Longrightarrow>
   2 * length (join ('','' @ new_line j) (map (\<lambda>x. if x = JUndef then ''null'' else json_pretty j x) xs) @ new_line k @ CHR '']'' # t) + 1 < n \<Longrightarrow>
   parse_elements n (join ('','' @ new_line j) (map (\<lambda>x. if x = JUndef then ''null'' else json_pretty j x) xs) @ new_line k @ CHR '']'' # t)
   = Some (map (\<lambda>x. if x = JUndef then JNull else json_norm x) xs, t)"
proof (induction xs arbitrary: n)
  case (Cons x xs)
  let ?f = "\<lambda>x. if x = JUndef then ''null'' else json_pretty j x" and ?g = "\<lambda>x. if x = JUndef then JNull else json_norm x"
  obtain m where n: "n = Suc m" using Cons.prems(3) by (cases n) auto
  have one: "no_digit r \<Longrightarrow> 2 * length (?f x @ r) < m \<Longrightarrow> parse_value m (?f x @ r) = Some (?g x, r)" for r
    using Cons.prems(2) [of x] survivesD [of x r j m] parse_value_null [of m r] by auto
  show ?case
  proof (cases xs)
    case Nil
    then show ?thesis using one [of "new_line k @ CHR '']'' # t"] Cons.prems(3) n by simp
  next
    case (Cons y ys)
    let ?r = "join ('','' @ new_line j) (map ?f xs) @ new_line k @ CHR '']'' # t"
    have e: "join ('','' @ new_line j) (map ?f (x # xs)) = ?f x @ '','' @ new_line j @ join ('','' @ new_line j) (map ?f xs)"
      using Cons by simp
    have "parse_value m (?f x @ CHR '','' # new_line j @ ?r) = Some (?g x, CHR '','' # new_line j @ ?r)"
      by (rule one) (use Cons.prems(3) n e in auto)
    moreover have "parse_elements m ?r = Some (map ?g xs, t)"
      by (rule Cons.IH) (use Cons Cons.prems n e in auto)
    ultimately show ?thesis unfolding e n by simp
  qed
qed simp

lemma om_set_new: "k \<notin> set (map fst m) \<Longrightarrow> om_set m k v = m @ [(k, v)]"
  by (induction m) auto

lemma parse_space: "parse_value n (CHR '' '' # s) = parse_value n s"
  by (cases n) (simp_all add: skip_ws_def json_ws_def)

definition member_text :: "nat \<Rightarrow> string \<times> js \<Rightarrow> string" where
  "member_text j p = json_string (fst p) @ '': '' @ json_pretty j (snd p)"

lemma parse_one_member:
  assumes "survives v" "v \<noteq> JUndef" "json_ok v" "no_digit r" "2 * length (member_text j (k, v) @ r) < Suc m"
  shows "parse_members (Suc m) acc (member_text j (k, v) @ r) =
    (case skip_ws r of
       d # x \<Rightarrow> if d = CHR '','' then parse_members m (om_set acc k (json_norm v)) x
                else if d = CHR ''}'' then Some (om_set acc k (json_norm v), x) else None
     | [] \<Rightarrow> None)"
proof -
  have t: "member_text j (k, v) @ r = CHR 0x22 # concat (map json_char k) @ CHR 0x22 # CHR '':'' # CHR '' '' # json_pretty j v @ r"
    by (simp add: member_text_def json_string_def)
  have "parse_value m (json_pretty j v @ r) = Some (json_norm v, r)"
    by (rule survivesD [OF assms(1-4)]) (use assms(5) t in auto)
  then show ?thesis unfolding t by (simp add: parse_json_chars parse_space)
qed

lemma members_survive:
  "ms \<noteq> [] \<Longrightarrow> (\<And>p. p \<in> set ms \<Longrightarrow> survives (snd p) \<and> json_ok (snd p) \<and> snd p \<noteq> JUndef) \<Longrightarrow> distinct (map fst acc @ map fst ms) \<Longrightarrow>
   2 * length (join ('','' @ new_line j) (map (member_text j) ms) @ new_line k @ CHR ''}'' # t) < n \<Longrightarrow>
   parse_members n acc (join ('','' @ new_line j) (map (member_text j) ms) @ new_line k @ CHR ''}'' # t)
   = Some (acc @ map (\<lambda>p. (fst p, json_norm (snd p))) ms, t)"
proof (induction ms arbitrary: n acc)
  case (Cons p ms)
  obtain k' v where p: "p = (k', v)" by fastforce
  obtain m where n: "n = Suc m" using Cons.prems(4) by (cases n) auto
  have f: "survives v" "v \<noteq> JUndef" "json_ok v" using Cons.prems(2) [of p] p by auto
  have new: "om_set acc k' (json_norm v) = acc @ [(k', json_norm v)]" using Cons.prems(3) p by (intro om_set_new) auto
  show ?case
  proof (cases ms)
    case Nil
    then show ?thesis using parse_one_member [OF f, of "new_line k @ CHR ''}'' # t" j k' m acc] Cons.prems(4) n p new by simp
  next
    case (Cons q qs)
    let ?r = "join ('','' @ new_line j) (map (member_text j) ms) @ new_line k @ CHR ''}'' # t"
    have e: "join ('','' @ new_line j) (map (member_text j) (p # ms)) @ new_line k @ CHR ''}'' # t
        = member_text j (k', v) @ CHR '','' # new_line j @ ?r"
      using Cons p by simp
    have "parse_members m (acc @ [(k', json_norm v)]) ?r
        = Some ((acc @ [(k', json_norm v)]) @ map (\<lambda>p. (fst p, json_norm (snd p))) ms, t)"
      by (rule Cons.IH) (use Cons Cons.prems n e p in auto)
    moreover have "2 * length (member_text j (k', v) @ CHR '','' # new_line j @ ?r) < Suc m" using Cons.prems(4) n e by simp
    ultimately show ?thesis unfolding e n using parse_one_member [OF f, of "CHR '','' # new_line j @ ?r" j k' m acc] new p by simp
  qed
qed simp

lemma all_survive: "survives v"
proof (induction v)
  case (JArr xs)
  show ?case
    unfolding survives_def
  proof (intro allI impI)
    fix i n t
    assume ok: "json_ok (JArr xs)" and len: "2 * length (json_pretty i (JArr xs) @ t) < n"
    obtain m where n: "n = Suc m" using len by (cases n) auto
    show "parse_value n (json_pretty i (JArr xs) @ t) = Some (json_norm (JArr xs), t)"
    proof (cases "xs = []")
      case True
      then show ?thesis using n by (simp add: starts_with_def)
    next
      case False
      let ?f = "\<lambda>x. if x = JUndef then ''null'' else json_pretty (i + 2) x"
      let ?r = "join ('','' @ new_line (i + 2)) (map ?f xs) @ new_line i @ CHR '']'' # t"
      have e: "json_pretty i (JArr xs) @ t = CHR ''['' # new_line (i + 2) @ ?r" using False by simp
      have "value_start (?f x)" for x using value_start_text [of x "i + 2"] by (auto simp: value_start_def)
      then have "value_start (join ('','' @ new_line (i + 2)) (map ?f xs))"
        using False by (cases xs; cases "tl xs") (auto simp: value_start_def)
      then have "skip_ws ?r = ?r" "\<not> starts_with '']'' ?r" using value_start_skip by blast+
      moreover have "parse_elements m ?r = Some (map (\<lambda>x. if x = JUndef then JNull else json_norm x) xs, t)"
        by (rule elements_survive [OF False]) (use JArr ok len n e in \<open>auto simp: list_all_iff\<close>)
      ultimately show ?thesis unfolding e n by simp
    qed
  qed
next
  case (JObj kvs)
  show ?case
    unfolding survives_def
  proof (intro allI impI)
    fix i n t
    assume ok: "json_ok (JObj kvs)" and len: "2 * length (json_pretty i (JObj kvs) @ t) < n"
    let ?ms = "filter (\<lambda>p. snd p \<noteq> JUndef) kvs"
    obtain m where n: "n = Suc m" using len by (cases n) auto
    show "parse_value n (json_pretty i (JObj kvs) @ t) = Some (json_norm (JObj kvs), t)"
    proof (cases "?ms = []")
      case True
      then show ?thesis using n by (simp add: starts_with_def)
    next
      case False
      let ?r = "join ('','' @ new_line (i + 2)) (map (member_text (i + 2)) ?ms) @ new_line i @ CHR ''}'' # t"
      have e: "json_pretty i (JObj kvs) @ t = CHR ''{'' # new_line (i + 2) @ ?r"
        using False by (simp add: Let_def member_text_def [abs_def])
      have "value_start (member_text (i + 2) p)" for p by (simp add: member_text_def value_start_def json_string_def)
      then have "value_start (join ('','' @ new_line (i + 2)) (map (member_text (i + 2)) ?ms))"
        using False by (cases ?ms; cases "tl ?ms") (auto simp: value_start_def)
      then have "skip_ws ?r = ?r" "\<not> starts_with ''}'' ?r" using value_start_skip by blast+
      moreover have "parse_members m [] ?r = Some ([] @ map (\<lambda>p. (fst p, json_norm (snd p))) ?ms, t)"
      proof (rule members_survive [OF False])
        show "survives (snd p) \<and> json_ok (snd p) \<and> snd p \<noteq> JUndef" if p: "p \<in> set ?ms" for p
        proof -
          have "snd p \<in> Basic_BNFs.snds p" by (simp add: prod_set_defs)
          then show ?thesis using p ok JObj.IH [of p "snd p"] by (simp add: list_all_iff)
        qed
        show "distinct (map fst [] @ map fst ?ms)" using ok by (simp add: distinct_map_filter)
        show "2 * length ?r < m" using len n unfolding e by simp
      qed
      ultimately show ?thesis unfolding e n by simp
    qed
  qed
next
  case (JNum x)
  show ?case unfolding survives_def
  proof (intro allI impI)
    fix i n t
    assume t: "no_digit t" and len: "2 * length (json_pretty i (JNum x) @ t) < n"
    obtain m where n: "n = Suc m" using len by (cases n) auto
    have "value_start (int_str x)" using value_start_text [of "JNum x" 0] by simp
    moreover have "hd (int_str x) \<in> set (CHR ''-'' # ''0123456789'')" "int_str x \<noteq> []"
      using digits_digits [of "nat x"] by (cases "digits (nat x)"; auto simp: int_str_def is_digit_def)+
    ultimately show "parse_value n (json_pretty i (JNum x) @ t) = Some (json_norm (JNum x), t)"
      using parse_number_int [OF t, of x] n value_start_skip [of "int_str x" t]
      by (cases "int_str x") (auto simp: starts_with_def)
  qed
next
  case (JStr x)
  show ?case unfolding survives_def
  proof (intro allI impI)
    fix i n t
    assume len: "2 * length (json_pretty i (JStr x) @ t) < n"
    obtain m where n: "n = Suc m" using len by (cases n) auto
    show "parse_value n (json_pretty i (JStr x) @ t) = Some (json_norm (JStr x), t)"
      unfolding n by (simp add: json_string_def parse_json_chars)
  qed
next
  case (JBool b)
  show ?case unfolding survives_def
  proof (intro allI impI)
    fix i n t
    assume len: "2 * length (json_pretty i (JBool b) @ t) < n"
    obtain m where n: "n = Suc m" using len by (cases n) auto
    show "parse_value n (json_pretty i (JBool b) @ t) = Some (json_norm (JBool b), t)"
      unfolding n by (simp add: skip_ws_def json_ws_def starts_with_def)
  qed
qed (use parse_value_null in \<open>auto simp: survives_def\<close>)

lemma json_parse_pretty: "json_ok v \<Longrightarrow> v \<noteq> JUndef \<Longrightarrow> json_parse (json_pretty 0 v) = Some (json_norm v)"
  using survivesD [OF all_survive, of v "[]" 0 "Suc (2 * length (json_pretty 0 v))"]
  by (simp add: json_parse_def skip_ws_def)

text \<open>
  Parsing the indented text of a value gives the value back, without its undefined members and with null for
  undefined elements. This is a fact about the model of the two builtins, which every theorem that sends JSON rests on:
  an integer is printed with all its digits, where JavaScript rounds above \<open>2 ^ 53\<close>.
\<close>

theorem json_roundtrip:
  assumes "json_ok v" "v \<noteq> JUndef"
  shows "json_parse (json_pretty 0 v) = Some (json_norm v)"
  using assms by (rule json_parse_pretty)

theorem json_roundtrip_witness:
  "json_parse (json_pretty 0 (JObj [(''ok'', JBool True), (''steps'', JArr [JNum (-12), JUndef]), (''gone'', JUndef)]))
   = Some (JObj [(''ok'', JBool True), (''steps'', JArr [JNum (-12), JNull])])"
  by (subst json_roundtrip) simp_all

end
