(* ===== verification/WireText.thy ===== *)
theory WireText
  imports Exchange Json
begin

text \<open>
  \<^verbatim>\<open>packages/otel-bootstrap/src/wire-log.ts\<close>, the formatter: what an outbound call is printed as. The state is
  the map of the tokens already shown in a trace, which keeps what was recorded when formatting throws (the time
  of a claim may be outside the range of \<^verbatim>\<open>Date\<close>). Members of an object keep their order, lengths are in bytes,
  and a number is an integer, so a body with other numbers is printed as the text it is.
\<close>

section \<open>Small helpers\<close>

definition ellipsis :: string where "ellipsis = [CHR 0xE2, CHR 0x80, CHR 0xA6]"
definition box_join :: string where "box_join = [CHR 0xE2, CHR 0x94, CHR 0x9C, CHR 0xE2, CHR 0x94, CHR 0x80]"
definition box_rule :: string where "box_rule = [CHR 0xE2, CHR 0x94, CHR 0x80, CHR 0xE2, CHR 0x94, CHR 0x80]"
definition left_tri :: string where "left_tri = [CHR 0xE2, CHR 0x97, CHR 0x80]"
definition double_arrow :: string where "double_arrow = [CHR 0xE2, CHR 0x87, CHR 0xA2]"

definition isObj :: "js \<Rightarrow> bool" where
  "isObj v = (case v of JObj _ \<Rightarrow> True | _ \<Rightarrow> False)"

fun members :: "js \<Rightarrow> (string \<times> js) list" where
  "members (JObj kvs) = kvs"
| "members _ = []"

definition tryJson :: "string option \<Rightarrow> js" where
  "tryJson s = (case s of None \<Rightarrow> JUndef | Some t \<Rightarrow> or_else (json_parse t) JUndef)"

definition clip :: "string \<Rightarrow> nat \<Rightarrow> string" where
  "clip s n = (if length s > n then take n s @ ellipsis @ '' ('' @ nat_str (length s) @ '' chars)'' else s)"

definition header_value :: "(string \<times> string) list \<Rightarrow> string \<Rightarrow> string option" where
  "header_value headers name = map_option snd (find (\<lambda>p. fst p = name) headers)"

definition content_type :: "(string \<times> string) list \<Rightarrow> string option" where
  "content_type headers = header_value headers ''content-type''"

definition has_part :: "string option \<Rightarrow> string \<Rightarrow> bool" where
  "has_part s p = (case s of None \<Rightarrow> False | Some t \<Rightarrow> contains p t)"

definition NOISY_RESPONSE_HEADERS :: "string list" where
  "NOISY_RESPONSE_HEADERS = [''date'', ''connection'', ''keep-alive'', ''transfer-encoding'', ''content-length'', ''vary'', ''etag'',
     ''x-powered-by'', ''cache-control'', ''pragma'', ''expires'']"

definition SHOWN_RESPONSE_HEADERS :: "string list" where
  "SHOWN_RESPONSE_HEADERS = [''content-type'', ''www-authenticate'', ''dpop-nonce'', ''location'', ''retry-after'']"

definition show_response_header :: "bool \<Rightarrow> string \<Rightarrow> bool" where
  "show_response_header full k =
     (if full then k \<notin> set NOISY_RESPONSE_HEADERS else k \<in> set SHOWN_RESPONSE_HEADERS \<or> starts_with ''mcp-'' k)"

definition split_lines :: "string \<Rightarrow> string list" where
  "split_lines s = split_on (CHR 0x0A) s"

definition prettyJson :: "js \<Rightarrow> string list" where
  "prettyJson v = split_lines (json_pretty 0 v)"

definition aligned :: "(string \<times> string) list \<Rightarrow> string list" where
  "aligned rows =
     (let width = fold (\<lambda>p w. max w (length (fst p))) rows 0 in map (\<lambda>p. padEnd (fst p) width @ ''  '' @ snd p) rows)"

text \<open>\<^verbatim>\<open>s.replace(/\s+/g, ' ')\<close>\<close>

fun collapse_ws :: "string \<Rightarrow> string" where
  "collapse_ws [] = []"
| "collapse_ws (c # s) =
     (if is_ws c then (case s of d # _ \<Rightarrow> if is_ws d then collapse_ws s else CHR '' '' # collapse_ws s | [] \<Rightarrow> [CHR '' ''])
      else c # collapse_ws s)"

section \<open>Tokens in a line\<close>

definition word_char :: "char \<Rightarrow> bool" where
  "word_char c = (c \<in> set ''ABCDEFGHIJKLMNOPQRSTUVWXYZabcdefghijklmnopqrstuvwxyz0123456789_-'')"

text \<open>\<^verbatim>\<open>/eyJ[\w-]*\.eyJ[\w-]*\.[\w-]*/\<close> at the start of a string: the token and what follows it.\<close>

definition jwt_at :: "string \<Rightarrow> (string \<times> string) option" where
  "jwt_at s =
     (let h = takeWhile word_char s; r = dropWhile word_char s;
          p = takeWhile word_char (drop 1 r); q = dropWhile word_char (drop 1 r)
      in if starts_with ''eyJ'' s \<and> starts_with ''.eyJ'' r \<and> starts_with ''.'' q
         then Some (h @ ''.'' @ p @ ''.'' @ takeWhile word_char (drop 1 q), dropWhile word_char (drop 1 q))
         else None)"

text \<open>The matches of the global expression, with the characters between them.\<close>

datatype piece = Plain char | Jwt string

lemma jwt_at_parts:
  assumes "jwt_at s = Some (j, r)"
  shows "s = j @ r" "starts_with ''eyJ'' j"
proof -
  let ?r = "dropWhile word_char s" let ?q = "dropWhile word_char (drop 1 ?r)"
  have c: "starts_with ''eyJ'' s" "starts_with ''.eyJ'' ?r" "starts_with ''.'' ?q"
    and jr: "j = takeWhile word_char s @ ''.'' @ takeWhile word_char (drop 1 ?r) @ ''.'' @ takeWhile word_char (drop 1 ?q)"
      "r = dropWhile word_char (drop 1 ?q)"
    using assms by (simp_all add: jwt_at_def Let_def split: if_splits)
  obtain x where x: "?r = CHR ''.'' # x" using c(2) by (auto elim: starts_withE)
  obtain y where y: "?q = CHR ''.'' # y" using c(3) by (auto elim: starts_withE)
  have j: "j = takeWhile word_char s @ ''.'' @ takeWhile word_char x @ ''.'' @ takeWhile word_char y"
    and r: "r = dropWhile word_char y" using jr x y by simp_all
  have y': "dropWhile word_char x = CHR ''.'' # y" using x y by simp
  have "s = takeWhile word_char s @ CHR ''.'' # takeWhile word_char x @ CHR ''.'' # y"
    using takeWhile_dropWhile_id [of word_char s, unfolded x] takeWhile_dropWhile_id [of word_char x, unfolded y'] by simp
  then show "s = j @ r" unfolding j r using takeWhile_dropWhile_id [of word_char y] by simp
  from c(1) obtain z where "s = ''eyJ'' @ z" by (rule starts_withE)
  then show "starts_with ''eyJ'' j" unfolding j by (simp add: starts_with_def word_char_def)
qed

lemma jwt_at_shorter: "jwt_at s = Some (j, r) \<Longrightarrow> length r < length s"
  using jwt_at_parts [of s j r] by (auto simp: starts_with_def)

function pieces :: "string \<Rightarrow> piece list" where
  "pieces [] = []"
| "pieces (c # s) = (case jwt_at (c # s) of None \<Rightarrow> Plain c # pieces s | Some (j, r) \<Rightarrow> Jwt j # pieces r)"
  by pat_completeness auto
termination
  by (relation "measure length") (auto dest: jwt_at_shorter)

declare pieces.simps [simp del]

definition jwts_in :: "string \<Rightarrow> string list" where
  "jwts_in line = concat (map (\<lambda>p. case p of Jwt j \<Rightarrow> [j] | Plain _ \<Rightarrow> []) (pieces line))"

definition short_jwt :: "string \<Rightarrow> string" where
  "short_jwt jwt = take 8 jwt @ ellipsis @ drop (length jwt - 6) jwt @ '' ('' @ nat_str (length jwt) @ '' chars)''"

section \<open>The claims of a token\<close>

text \<open>The tokens shown so far with the number of the block that showed them; a step may throw.\<close>

type_synonym seen = "(string, nat) omap"
type_synonym 'a fmt = "(seen, exn, 'a) io"

fun io_each :: "('a \<Rightarrow> ('s, 'e, 'b list) io) \<Rightarrow> 'a list \<Rightarrow> ('s, 'e, 'b list) io" where
  "io_each f [] = io_return []"
| "io_each f (x # xs) = io_bind (f x) (\<lambda>ys. io_bind (io_each f xs) (\<lambda>zs. io_return (ys @ zs)))"

definition wire_decode :: "('w, 'j) platform \<Rightarrow> string \<Rightarrow> (js \<times> js) option" where
  "wire_decode P jwt =
     (case split_on CHR ''.'' jwt of
        h # p # _ \<Rightarrow>
          (case (jsonSegment P h, jsonSegment P p) of
             (Some header, Some payload) \<Rightarrow> if isObj header \<and> isObj payload then Some (header, payload) else None
           | _ \<Rightarrow> None)
      | _ \<Rightarrow> None)"

text \<open>\<open>sentAt\<close> is in milliseconds; \<^verbatim>\<open>toISOString\<close> throws outside the range of \<^verbatim>\<open>Date\<close>.\<close>

definition clock :: "('w, 'j) platform \<Rightarrow> int \<Rightarrow> int \<Rightarrow> string fmt" where
  "clock P sec sentAt =
     (if \<bar>sec * 1000\<bar> > 8640000000000000 then io_throw (JsError ''RangeError'' ''Invalid time value'')
      else (let d = (sec * 1000 - sentAt + 500) div 1000
            in io_return (take 8 (drop 11 (isoTime P (sec * 1000))) @ ''Z ''
                 @ (if d \<ge> 0 then ''(in '' @ int_str d @ ''s)'' else ''('' @ int_str (- d) @ ''s ago)''))))"

text \<open>The short name of a SPIFFE id (\<^verbatim>\<open>/\/sa\/([^/]+)$/\<close>) and the actors of a claim, oldest first.\<close>

definition wire_spiffe :: "string \<Rightarrow> string" where
  "wire_spiffe s = shortSpiffe s"

fun wire_act_loop :: "nat \<Rightarrow> js \<Rightarrow> string list \<Rightarrow> string list" where
  "wire_act_loop 0 cur chain = chain"
| "wire_act_loop (Suc n) cur chain =
     (if \<not> isObj cur then chain
      else wire_act_loop n (jget cur ''act'')
             (if nullish (jget cur ''sub'') then chain else chain @ [wire_spiffe (js_string (jget cur ''sub''))]))"

definition wire_act :: "js \<Rightarrow> string option" where
  "wire_act act =
     (let chain = wire_act_loop 16 act [] in if chain = [] then None else Some (join ('' '' @ tri @ '' '') (rev chain)))"

definition claimValue :: "string \<Rightarrow> js \<Rightarrow> string" where
  "claimValue k v =
     (if k = ''act'' then or_else (wire_act v) (json_text v)
      else if k = ''may_act'' \<and> isObj v \<and> \<not> nullish (jget v ''sub'') then wire_spiffe (js_string (jget v ''sub''))
      else if k = ''cnf'' \<and> isObj v \<and> \<not> nullish (jget v ''jkt'') then ''jkt='' @ js_string (jget v ''jkt'')
      else case v of
             JArr xs \<Rightarrow> join '', '' (map js_string xs)
           | JObj kvs \<Rightarrow> json_text v
           | _ \<Rightarrow> js_string v)"

definition KEY_CLAIMS :: "string list" where
  "KEY_CLAIMS = [''sub'', ''aud'', ''scope'', ''acr'', ''roles'', ''client_id'', ''act'', ''may_act'', ''cnf'', ''iss'']"

definition TIME_CLAIMS :: "string list" where
  "TIME_CLAIMS = [''exp'', ''iat'', ''nbf'']"

definition time_row :: "('w, 'j) platform \<Rightarrow> int \<Rightarrow> js \<Rightarrow> string \<Rightarrow> (string \<times> string) list fmt" where
  "time_row P sentAt p k =
     (case jget p k of
        JNum sec \<Rightarrow> io_bind (clock P sec sentAt) (\<lambda>t. io_return [(k, t)])
      | _ \<Rightarrow> io_return [])"

definition claimRows :: "('w, 'j) platform \<Rightarrow> js \<Rightarrow> int \<Rightarrow> (string \<times> string) list fmt" where
  "claimRows P p sentAt =
     io_bind (io_each (time_row P sentAt p) TIME_CLAIMS) (\<lambda>times.
       (let other = filter (\<lambda>k. k \<notin> set KEY_CLAIMS \<and> k \<notin> set TIME_CLAIMS) (map fst (members p))
        in io_return (map (\<lambda>k. (k, claimValue k (jget p k))) (filter (\<lambda>k. jget p k \<noteq> JUndef) KEY_CLAIMS) @ times
             @ (if other = [] then [] else [(''other'', join '', '' other)]))))"

definition wire_thumbprint :: "('w, 'j) platform \<Rightarrow> js \<Rightarrow> string option" where
  "wire_thumbprint P jwk =
     (let required = (if jget jwk ''kty'' = JStr ''EC'' then [''crv'', ''kty'', ''x'', ''y'']
                      else if jget jwk ''kty'' = JStr ''RSA'' then [''e'', ''kty'', ''n'']
                      else if jget jwk ''kty'' = JStr ''OKP'' then [''crv'', ''kty'', ''x''] else [])
      in if required = [] then None
         else Some (sha256 P (json_text (JObj (map (\<lambda>k. (k, jget jwk k)) required)))))"

definition proofRows :: "('w, 'j) platform \<Rightarrow> js \<Rightarrow> js \<Rightarrow> int \<Rightarrow> (string \<times> string) list fmt" where
  "proofRows P h p sentAt =
     io_bind (time_row P sentAt p ''iat'') (\<lambda>times.
       (let jkt = (if isObj (jget h ''jwk'') then wire_thumbprint P (jget h ''jwk'') else None)
        in io_return (map (\<lambda>k. (k, js_string (jget p k)))
                          (filter (\<lambda>k. jget p k \<noteq> JUndef) [''htm'', ''htu'', ''nonce'', ''ath'', ''jti'']) @ times
             @ [(''key'', (case jkt of Some t \<Rightarrow> if t = [] then ''jwk'' else ''jkt='' @ t | None \<Rightarrow> ''jwk'')
                          @ '' ('' @ js_string (jget h ''alg'') @ '')'')])))"

definition jwtLines :: "('w, 'j) platform \<Rightarrow> string \<Rightarrow> bool \<Rightarrow> int \<Rightarrow> string list fmt" where
  "jwtLines P jwt full sentAt =
     (case wire_decode P jwt of
        None \<Rightarrow> io_return []
      | Some (header, payload) \<Rightarrow>
          (let isProof = (jget header ''typ'' = JStr ''dpop+jwt'')
           in if full
              then io_return [box_side @ ''     '' @ double_arrow @ '' '' @ (if isProof then json_text header @ '' '' else []) @ json_text payload]
              else io_bind (if isProof then proofRows P header payload sentAt else claimRows P payload sentAt) (\<lambda>rows.
                     io_return (map (\<lambda>l. box_side @ ''     '' @ l) (aligned rows)))))"

section \<open>Lines\<close>

record line_ctx =
  lcFull :: bool
  lcSentAt :: int
  lcSeq :: "nat option"
  lcSeen :: bool            \<comment> \<open>whether there is a map of the tokens seen\<close>

definition seen_before :: "line_ctx \<Rightarrow> seen \<Rightarrow> string \<Rightarrow> nat option" where
  "seen_before C m jwt = (if lcSeq C \<noteq> None \<and> lcSeen C then om_get m jwt else None)"

definition note_seen :: "line_ctx \<Rightarrow> seen \<Rightarrow> string \<Rightarrow> seen" where
  "note_seen C m jwt = (case lcSeq C of Some n \<Rightarrow> if lcSeen C then om_set m jwt n else m | None \<Rightarrow> m)"

text \<open>\<^verbatim>\<open>line.replace(JWT_RE, ...)\<close>: the line shown, the tokens to expand, and the map afterwards.\<close>

fun shown_pieces :: "line_ctx \<Rightarrow> piece list \<Rightarrow> seen \<Rightarrow> string \<times> string list \<times> seen" where
  "shown_pieces C [] m = ([], [], m)"
| "shown_pieces C (Plain c # ps) m = (let (s, e, m') = shown_pieces C ps m in (c # s, e, m'))"
| "shown_pieces C (Jwt j # ps) m =
     (case seen_before C m j of
        None \<Rightarrow> (let (s, e, m') = shown_pieces C ps (note_seen C m j) in (short_jwt j @ s, j # e, m'))
      | Some first \<Rightarrow>
          (let (s, e, m') = shown_pieces C ps m
           in (short_jwt j @ '' (same token as '' @ (if Some first = lcSeq C then ''above'' else ''#'' @ nat_str first) @ '')'' @ s, e, m')))"

definition push_line :: "('w, 'j) platform \<Rightarrow> line_ctx \<Rightarrow> string \<Rightarrow> string list fmt" where
  "push_line P C line =
     (if lcFull C
      then io_bind (io_each (\<lambda>j. jwtLines P j True (lcSentAt C)) (jwts_in line)) (\<lambda>ls. io_return ((box_side @ '' '' @ line) # ls))
      else (\<lambda>m. case shown_pieces C (pieces line) m of (shown, expand, m') \<Rightarrow>
             io_bind (io_each (\<lambda>j. jwtLines P j False (lcSentAt C)) expand) (\<lambda>ls. io_return ((box_side @ '' '' @ shown) # ls)) m'))"

section \<open>Bodies\<close>

text \<open>\<^verbatim>\<open>new URLSearchParams(body)\<close>: the fields of a form.\<close>

fun form_unescape :: "string \<Rightarrow> string" where
  "form_unescape [] = []"
| "form_unescape (c # s) =
     (if c = CHR ''+'' then CHR '' '' # form_unescape s
      else if c = CHR ''%''
        then (case s of
                a # b # r \<Rightarrow> (case (hex_value a, hex_value b) of
                                (Some x, Some y) \<Rightarrow> char_of (16 * x + y) # form_unescape r
                              | _ \<Rightarrow> c # form_unescape s)
              | _ \<Rightarrow> c # form_unescape s)
      else c # form_unescape s)"

definition form_field :: "string \<Rightarrow> string \<times> string" where
  "form_field part = (let (k, v) = break_at (\<lambda>c. c = CHR ''='') part in (form_unescape k, form_unescape (drop 1 v)))"

definition form_decode :: "string \<Rightarrow> (string \<times> string) list" where
  "form_decode body =
     map form_field (filter (\<lambda>part. part \<noteq> []) (split_on CHR ''&'' (if starts_with ''?'' body then drop 1 body else body)))"

definition AS_METADATA_FIELDS :: "string list" where
  "AS_METADATA_FIELDS = [''issuer'', ''token_endpoint'', ''jwks_uri'', ''grant_types_supported'',
     ''token_endpoint_auth_methods_supported'', ''client_id_metadata_document_supported'', ''dpop_signing_alg_values_supported'']"

definition asMetadata :: "js \<Rightarrow> string list" where
  "asMetadata v =
     (let shown = filter (\<lambda>k. jget v k \<noteq> JUndef) AS_METADATA_FIELDS;
          rows = aligned (map (\<lambda>k. (k, claimValue k (jget v k))) shown);
          more = int (length (members v)) - int (length shown)
      in if more > 0 then rows @ [ellipsis @ '' '' @ int_str more @ '' more fields (HTTP_WIRE_LOG=full shows them)''] else rows)"

definition tool_call_line :: "js \<Rightarrow> string" where
  "tool_call_line c =
     (let fn = (if isObj c \<and> isObj (jget c ''function'') then jget c ''function'' else JObj [])
      in ''  '' @ arrow @ '' tool_call '' @ js_string (jget fn ''name'') @ '' '' @ js_string (js_or (jget fn ''arguments'') (JStr [])))"

definition toolCalls :: "js \<Rightarrow> string list" where
  "toolCalls calls = (case calls of JArr cs \<Rightarrow> map tool_call_line cs | _ \<Rightarrow> [])"

definition text_part :: "js \<Rightarrow> string" where
  "text_part p =
     (if isObj p \<and> is_string (jget p ''text'') then js_string (jget p ''text'')
      else ''['' @ (if isObj p then js_string (jget p ''type'') else ''?'') @ '']'')"

definition messageText :: "js \<Rightarrow> string" where
  "messageText content =
     (case content of JStr s \<Rightarrow> s | JArr ps \<Rightarrow> join [CHR 0x0A] (map text_part ps) | _ \<Rightarrow> [])"

definition compactToolResult :: "string \<Rightarrow> string" where
  "compactToolResult text =
     (let v = tryJson (Some text) in clip (if v \<noteq> JUndef then json_text v else collapse_ws text) 300)"

definition tool_name :: "js \<Rightarrow> string" where
  "tool_name t = (if isObj t \<and> isObj (jget t ''function'') then js_string (jget (jget t ''function'') ''name'') else ''?'')"

definition indented :: "string list \<Rightarrow> string list" where
  "indented ls = map (\<lambda>l. ''  '' @ l) ls"

definition message_lines :: "js \<Rightarrow> string list" where
  "message_lines m =
     (if \<not> isObj m then []
      else (let text = (if jget m ''role'' = JStr ''tool'' then compactToolResult (messageText (jget m ''content''))
                        else messageText (jget m ''content''));
                body = (if text = [] then [] else split_lines text);
                shown = (if jget m ''role'' = JStr ''system'' \<and> length body > 4
                         then take 4 body @ [ellipsis @ '' ('' @ nat_str (length body - 4) @ '' more lines)''] else body)
            in [box_rule @ '' '' @ js_string (jget m ''role'')] @ indented shown @ toolCalls (jget m ''tool_calls'')))"

definition llmRequest :: "js \<Rightarrow> string list" where
  "llmRequest v =
     (let tools = map tool_name (or_else (as_arr (jget v ''tools'')) []);
          options = filter (\<lambda>k. k \<notin> {''model'', ''messages'', ''tools''} \<and> \<not> is_object (jget v k) \<and> jget v k \<noteq> JNull) (map fst (members v))
      in aligned ([(''model'', js_string (jget v ''model''))] @ (if tools = [] then [] else [(''tools'', join '', '' tools)])
           @ map (\<lambda>k. (k, js_string (jget v k))) options)
         @ concat (map message_lines (or_else (as_arr (jget v ''messages'')) [])))"

definition llmResponse :: "js \<Rightarrow> string list" where
  "llmResponse v =
     (let choice = (if isObj (js_first (jget v ''choices'')) then js_first (jget v ''choices'') else JObj []);
          usage = (if isObj (jget v ''usage'') then jget v ''usage'' else JObj []);
          message = (if isObj (jget choice ''message'') then jget choice ''message'' else JObj []);
          text = messageText (jget message ''content'')
      in aligned [(''model'', js_string (jget v ''model'')), (''finish'', js_string (jget choice ''finish_reason'')),
           (''usage'', js_string (jget usage ''prompt_tokens'') @ '' prompt '' @ arrow @ '' ''
              @ js_string (jget usage ''completion_tokens'') @ '' completion tokens'')]
         @ [box_rule @ '' assistant''] @ indented (if text = [] then [] else split_lines text) @ toolCalls (jget message ''tool_calls''))"

definition content_lines :: "nat \<Rightarrow> js \<Rightarrow> string list" where
  "content_lines i item =
     (if isObj item \<and> is_string (jget item ''text'')
      then (let t = js_string (jget item ''text''); inner = tryJson (Some t)
            in (''content['' @ nat_str i @ ''] text:'') # indented (if inner \<noteq> JUndef then prettyJson inner else split_lines t))
      else [''content['' @ nat_str i @ '']: '' @ json_text item])"

definition jsonRpc :: "js \<Rightarrow> string list" where
  "jsonRpc v =
     (let result = jget v ''result''
      in case jget result ''content'' of
           JArr content \<Rightarrow>
             (if isObj result
              then prettyJson (JObj (om_set (members v) ''result'' (JObj (om_delete (members result) ''content''))))
                   @ concat (map (\<lambda>p. content_lines (fst p) (snd p)) (zip [0..<length content] content))
              else prettyJson v)
         | _ \<Rightarrow> prettyJson v)"

text \<open>\<^verbatim>\<open>/\/\.well-known\/(oauth-authorization-server|openid-configuration)/\<close>\<close>

definition names_as_metadata :: "string \<Rightarrow> bool" where
  "names_as_metadata s =
     (contains ''/.well-known/oauth-authorization-server'' s \<or> contains ''/.well-known/openid-configuration'' s)"

definition summarizeJson :: "js \<Rightarrow> string \<Rightarrow> string list" where
  "summarizeJson v url =
     (if \<not> isObj v then prettyJson v
      else if names_as_metadata url then asMetadata v
      else if as_arr (jget v ''messages'') \<noteq> None then llmRequest v
      else if as_arr (jget v ''choices'') \<noteq> None then llmResponse v
      else jsonRpc v)"

definition sse_lines :: "string \<Rightarrow> string list" where
  "sse_lines l =
     (if trim l = [] then []
      else (let v = (if starts_with ''data:'' l then tryJson (Some (trim (drop 5 l))) else JUndef)
            in if v = JUndef then [l] else ''data:'' # indented (summarizeJson v [])))"

definition renderSse :: "string \<Rightarrow> string list" where
  "renderSse body = concat (map sse_lines (split_lines body))"

definition renderBody :: "string \<Rightarrow> string option \<Rightarrow> string \<Rightarrow> bool \<Rightarrow> int \<Rightarrow> string list" where
  "renderBody body ct url full maxBody =
     (let lines0 = (if has_part ct ''form-urlencoded'' then map (\<lambda>p. fst p @ ''='' @ snd p) (form_decode body)
                    else if has_part ct ''event-stream'' \<and> \<not> full then renderSse body
                    else if has_part ct ''json'' \<and> tryJson (Some body) \<noteq> JUndef
                      then (if full then prettyJson (tryJson (Some body)) else summarizeJson (tryJson (Some body)) url)
                    else split_lines body);
          lines = rev (dropWhile (\<lambda>l. trim l = []) (rev lines0));
          text = join [CHR 0x0A] lines
      in if maxBody > 0 \<and> int (length text) > maxBody
         then split_lines (take (nat maxBody) text @ [CHR 0x0A] @ ellipsis @ '' ('' @ int_str (int (length text) - maxBody)
                @ '' more chars; raise HTTP_WIRE_LOG_MAX_BODY)'')
         else lines)"

section \<open>A block\<close>

datatype wire_mode = Pretty | Full

record wire_record =
  wrService :: string
  wrAt :: int                          \<comment> \<open>milliseconds; printed as an ISO time\<close>
  wrSeq :: "nat option"
  wrTraceId :: "string option"
  wrSpanId :: "string option"
  wrMethod :: string
  wrUrl :: string
  wrRequestHeaders :: "(string \<times> string) list"
  wrRequestBody :: "string option"
  wrMs :: int
  wrStatus :: "int option"
  wrStatusText :: "string option"
  wrResponseHeaders :: "(string \<times> string) list"
  wrResponseBody :: "string option"
  wrError :: "string option"

text \<open>A string option that is present and not empty.\<close>

definition given :: "string option \<Rightarrow> string option" where
  "given x = (case x of Some s \<Rightarrow> if s = [] then None else Some s | None \<Rightarrow> None)"

definition form_headline :: "wire_record \<Rightarrow> string option" where
  "form_headline r =
     (if has_part (content_type (wrRequestHeaders r)) ''form-urlencoded''
      then Option.bind (given (wrRequestBody r)) (\<lambda>body.
        (let field = map_of (form_decode body)
         in case given (field ''grant_type'') of
              None \<Rightarrow> None
            | Some grant \<Rightarrow>
                Some (if ends_with '':token-exchange'' grant
                      then ''token-exchange  aud='' @ or_else (field ''audience'') ''?'' @ '' scope='' @ or_else (field ''scope'') ''?''
                        @ (if given (header_value (wrRequestHeaders r) ''dpop'') \<noteq> None then ''  (DPoP-bound)'' else [])
                      else ''token  grant_type='' @ grant)))
      else None)"

definition mcp_headline :: "wire_record \<Rightarrow> js \<Rightarrow> string" where
  "mcp_headline r body =
     (let params = (if isObj (jget body ''params'') then jget body ''params'' else JObj []);
          call = (if jget body ''method'' = JStr ''tools/call''
                  then '' '' @ js_string (jget params ''name'') @ '' '' @ json_text (js_or (jget params ''arguments'') (JObj [])) else [])
      in ''MCP '' @ js_string (jget body ''method'') @ call
         @ (if given (header_value (wrRequestHeaders r) ''authorization'') = None then ''  (no token: discovery probe)'' else []))"

definition a2a_headline :: "js \<Rightarrow> string" where
  "a2a_headline body =
     (let params = (if isObj (jget body ''params'') then jget body ''params'' else JObj []);
          message = (if isObj (jget params ''message'') then jget params ''message'' else JObj []);
          part = find (\<lambda>p. isObj p \<and> is_string (jget p ''text'')) (or_else (as_arr (jget message ''parts'')) []);
          text = (case part of Some p \<Rightarrow> js_string (jget p ''text'') | None \<Rightarrow> [])
      in ''A2A '' @ js_string (jget body ''method'')
         @ (if text \<noteq> [] then ''  '' @ [CHR 0x22] @ clip (collapse_ws text) 60 @ [CHR 0x22] else []))"

definition headline :: "wire_record \<Rightarrow> string" where
  "headline r =
     (let (path, search) = (case parse_url (wrUrl r) of Some u \<Rightarrow> (uPathname u, uSearch u) | None \<Rightarrow> (wrUrl r, []));
          body = tryJson (wrRequestBody r);
          count = (\<lambda>v. nat_str (length (or_else (as_arr v) [])))
      in case form_headline r of
           Some h \<Rightarrow> h
         | None \<Rightarrow>
             if contains ''/.well-known/oauth-protected-resource'' path then ''discovery  protected-resource metadata (RFC 9728)''
             else if names_as_metadata path then ''discovery  authorization-server metadata (RFC 8414)''
             else if isObj body \<and> as_arr (jget body ''messages'') \<noteq> None \<and> ends_with ''/chat/completions'' path
               then ''LLM chat  '' @ count (jget body ''messages'') @ '' messages, '' @ count (jget body ''tools'') @ '' tools''
             else if isObj body \<and> truthy (jget body ''jsonrpc'') \<and> is_string (jget body ''method'')
               then (if given (header_value (wrRequestHeaders r) ''mcp-protocol-version'') \<noteq> None then mcp_headline r body else a2a_headline body)
             else wrMethod r @ '' '' @ path @ search)"

record format_options =
  foMode :: wire_mode
  foMaxBody :: int
  foSeen :: bool          \<comment> \<open>whether \<^verbatim>\<open>seenTokens\<close> is given\<close>

definition trim_end :: "string \<Rightarrow> string" where
  "trim_end s = rev (dropWhile is_ws (rev s))"

definition head_lines :: "('w, 'j) platform \<Rightarrow> wire_record \<Rightarrow> string list" where
  "head_lines P r =
     [box_top @ '' '' @ (case wrSeq r of Some n \<Rightarrow> ''#'' @ nat_str n @ '' '' | None \<Rightarrow> []) @ isoTime P (wrAt r)
        @ '' ['' @ wrService r @ ''] '' @ headline r,
      box_side @ '' '' @ wrMethod r @ '' '' @ wrUrl r]
     @ (case given (wrTraceId r) of
          None \<Rightarrow> []
        | Some t \<Rightarrow> [box_side @ '' trace '' @ (case given (wrSpanId r) of Some sp \<Rightarrow> t @ '' '' @ tri @ '' '' @ sp | None \<Rightarrow> t)])"

definition header_lines :: "(string \<times> string) list \<Rightarrow> string list" where
  "header_lines headers = map (\<lambda>p. fst p @ '': '' @ snd p) headers"

text \<open>The lines of the request and of the response that are searched for tokens; the bar stands before a body.\<close>

definition request_lines :: "format_options \<Rightarrow> wire_record \<Rightarrow> string list \<times> string list option" where
  "request_lines opts r =
     (header_lines (wrRequestHeaders r),
      map_option (\<lambda>b. renderBody b (content_type (wrRequestHeaders r)) (wrUrl r) (foMode opts = Full) (foMaxBody opts)) (given (wrRequestBody r)))"

definition response_lines :: "format_options \<Rightarrow> wire_record \<Rightarrow> string list \<times> string list option" where
  "response_lines opts r =
     (header_lines (filter (\<lambda>p. show_response_header (foMode opts = Full) (fst p)) (wrResponseHeaders r)),
      (case wrResponseBody r of
         Some b \<Rightarrow> if trim b = [] then None
                   else Some (renderBody b (content_type (wrResponseHeaders r)) (wrUrl r) (foMode opts = Full) (foMaxBody opts))
       | None \<Rightarrow> None))"

definition push_part :: "('w, 'j) platform \<Rightarrow> line_ctx \<Rightarrow> string list \<times> string list option \<Rightarrow> string list fmt" where
  "push_part P C part =
     io_bind (io_each (push_line P C) (fst part)) (\<lambda>hs.
       case snd part of
         None \<Rightarrow> io_return hs
       | Some ls \<Rightarrow> io_bind (io_each (push_line P C) ls) (\<lambda>bs. io_return (hs @ [box_side] @ bs)))"

definition formatWireLog :: "('w, 'j) platform \<Rightarrow> wire_record \<Rightarrow> format_options \<Rightarrow> string fmt" where
  "formatWireLog P r opts =
     (let C = \<lparr> lcFull = (foMode opts = Full), lcSentAt = wrAt r, lcSeq = wrSeq r, lcSeen = foSeen opts \<rparr>;
          ms = '' ('' @ int_str (wrMs r) @ '' ms)''
      in io_bind (push_part P C (request_lines opts r)) (\<lambda>req.
         io_bind (case given (wrError r) of
                    Some e \<Rightarrow> io_return [box_join @ '' '' @ left_tri @ '' FAILED'' @ ms @ '': '' @ e]
                  | None \<Rightarrow>
                      io_bind (push_part P C (response_lines opts r)) (\<lambda>res.
                        io_return ((trim_end (box_join @ '' '' @ left_tri @ '' '' @ (case wrStatus r of Some n \<Rightarrow> int_str n | None \<Rightarrow> ''undefined'')
                                      @ '' '' @ or_else (wrStatusText r) []) @ ms) # res))) (\<lambda>res.
           io_return (join [CHR 0x0A] (head_lines P r @ req @ res @ [box_bottom])))))"

end
