(* ===== verification/WireTokens.thy ===== *)
theory WireTokens
  imports WireText
begin

text \<open>
  What the wire log shows of the tokens that pass: the lines it prints carry none of them, and over the blocks
  of a trace each token is explained once. The line being formatted is followed character by character.
\<close>

section \<open>What is shown of a token\<close>

lemma jwt_at_core:
  assumes "jwt_at s = Some (j, r)"
  obtains h p y where "s = h @ CHR ''.'' # p @ CHR ''.'' # y" "list_all word_char h" "list_all word_char p"
    "starts_with ''eyJ'' h" "starts_with ''eyJ'' p" "j = h @ ''.'' @ p @ ''.'' @ takeWhile word_char y"
proof -
  let ?h = "takeWhile word_char s" and ?r = "dropWhile word_char s"
  have c: "starts_with ''eyJ'' s" "starts_with ''.eyJ'' ?r" "starts_with ''.'' (dropWhile word_char (drop 1 ?r))"
    and jr: "j = ?h @ ''.'' @ takeWhile word_char (drop 1 ?r) @ ''.'' @ takeWhile word_char (drop 1 (dropWhile word_char (drop 1 ?r)))"
    using assms by (simp_all add: jwt_at_def Let_def split: if_splits)
  obtain x where x: "?r = CHR ''.'' # ''eyJ'' @ x" using c(2) by (auto elim: starts_withE)
  let ?p = "takeWhile word_char (''eyJ'' @ x)"
  obtain y where y: "dropWhile word_char (''eyJ'' @ x) = CHR ''.'' # y" using c(3) unfolding x by (auto elim: starts_withE)
  have "s = ?h @ CHR ''.'' # ?p @ CHR ''.'' # y"
    using takeWhile_dropWhile_id [of word_char s, unfolded x] takeWhile_dropWhile_id [of word_char "''eyJ'' @ x", unfolded y] by simp
  moreover obtain z where "s = ''eyJ'' @ z" using c(1) by (rule starts_withE)
  then have "starts_with ''eyJ'' ?h" by (simp add: starts_with_def word_char_def)
  moreover have "starts_with ''eyJ'' ?p" by (simp add: starts_with_def word_char_def)
  moreover have "j = ?h @ ''.'' @ ?p @ ''.'' @ takeWhile word_char y" unfolding jr x using y by simp
  ultimately show thesis by (intro that) (auto simp: list_all_iff dest: set_takeWhileD)
qed

lemma dot_no_word [simp]: "\<not> word_char CHR ''.''"
  by (simp add: word_char_def)

lemma word_run [simp]:
  assumes "list_all word_char h"
  shows "takeWhile word_char (h @ CHR ''.'' # y) = h" "dropWhile word_char (h @ CHR ''.'' # y) = CHR ''.'' # y"
  using assms by (simp_all add: takeWhile_append dropWhile_append list_all_iff)

lemma core_jwt_at:
  assumes "list_all word_char h" "list_all word_char p" "starts_with ''eyJ'' h" "starts_with ''eyJ'' p"
  shows "jwt_at (h @ CHR ''.'' # p @ CHR ''.'' # y) \<noteq> None"
proof -
  obtain h' p' where e: "h = ''eyJ'' @ h'" "p = ''eyJ'' @ p'" using assms(3,4) by (auto elim!: starts_withE)
  show ?thesis using word_run [OF assms(1)] word_run [OF assms(2)] unfolding e by (simp add: jwt_at_def starts_with_def)
qed

text \<open>What stands before a character that is in no token decides whether a token begins.\<close>

lemma append_until:
  assumes "u @ e # y = c @ x" "e \<notin> set c"
  obtains v where "u = c @ v" "v @ e # y = x"
proof -
  from assms(1) consider v where "u = c @ v" "v @ e # y = x" | v where "u @ v = c" "e # y = v @ x"
    unfolding append_eq_append_conv2 by blast
  then show thesis
  proof cases
    case 2
    then show thesis using assms(2) that [of "[]"] by (cases v) auto
  qed (rule that)
qed

lemma jwt_at_before:
  assumes "jwt_at (u @ e # y) = Some (j, r)" "\<not> word_char e" "e \<noteq> CHR ''.''"
  shows "jwt_at (u @ z) \<noteq> None" "8 \<le> length u" "length u = 8 \<Longrightarrow> j = ''eyJ.eyJ.''"
proof -
  from assms(1) obtain h p x where s: "u @ e # y = h @ CHR ''.'' # p @ CHR ''.'' # x"
    and hp: "list_all word_char h" "list_all word_char p" "starts_with ''eyJ'' h" "starts_with ''eyJ'' p"
    and j: "j = h @ ''.'' @ p @ ''.'' @ takeWhile word_char x"
    by (rule jwt_at_core)
  have "e \<notin> set (h @ CHR ''.'' # p @ ''.'')" using hp(1,2) assms(2,3) by (auto simp: list_all_iff)
  then obtain v where v: "u = (h @ CHR ''.'' # p @ ''.'') @ v" "v @ e # y = x"
    using append_until [of u e y "h @ CHR ''.'' # p @ ''.''" x] s by auto
  show "jwt_at (u @ z) \<noteq> None" using core_jwt_at [OF hp, of "v @ z"] unfolding v(1) by simp
  obtain h' p' where e: "h = ''eyJ'' @ h'" "p = ''eyJ'' @ p'" using hp(3,4) by (auto elim!: starts_withE)
  show "8 \<le> length u" unfolding v(1) e by simp
  assume "length u = 8"
  then have "h' = []" "p' = []" "v = []" unfolding v(1) e by simp_all
  then show "j = ''eyJ.eyJ.''" unfolding j e using v(2) assms(2) by auto
qed

text \<open>No token begins anywhere in a text, but for the one that carries nothing.\<close>

fun token_free :: "string \<Rightarrow> bool" where
  "token_free [] = True"
| "token_free (c # s) = ((case jwt_at (c # s) of None \<Rightarrow> True | Some (j, _) \<Rightarrow> j = ''eyJ.eyJ.'') \<and> token_free s)"

lemma token_free_drop: "token_free s \<Longrightarrow> token_free (drop n s)"
proof (induction n arbitrary: s)
  case (Suc n)
  then show ?case by (cases s) simp_all
qed simp

lemma token_free_jwts: "token_free s \<Longrightarrow> set (jwts_in s) \<subseteq> {''eyJ.eyJ.''}"
proof (induction s rule: pieces.induct)
  case (2 c s)
  show ?case
  proof (cases "jwt_at (c # s)")
    case None
    then show ?thesis using 2 by (simp add: jwts_in_def pieces.simps)
  next
    case (Some x)
    obtain j r where x: "x = (j, r)" by fastforce
    have "c # s = j @ r" using jwt_at_parts(1) Some x by simp
    then have "token_free r" using token_free_drop [OF 2(3), of "length j"] by simp
    then show ?thesis using 2 Some x by (simp add: jwts_in_def pieces.simps)
  qed
qed (simp add: jwts_in_def pieces.simps)

lemma token_free_append:
  assumes "token_free t" "\<And>w c v. s = w @ c # v \<Longrightarrow> case jwt_at (c # v @ t) of None \<Rightarrow> True | Some (j, _) \<Rightarrow> j = ''eyJ.eyJ.''"
  shows "token_free (s @ t)"
  using assms(2)
proof (induction s)
  case (Cons c s)
  have "token_free (s @ t)" by (rule Cons.IH) (use Cons.prems [of "c # w" for w] in simp)
  then show ?case using Cons.prems [of "[]" c s] by simp
qed (simp add: assms(1))

lemma token_free_quiet:
  assumes "token_free t" "CHR ''y'' \<notin> set s" "s \<noteq> [] \<Longrightarrow> last s \<noteq> CHR ''e''"
  shows "token_free (s @ t)"
proof (rule token_free_append [OF assms(1)])
  fix w c v assume s: "s = w @ c # v"
  have False if hit: "jwt_at (c # v @ t) = Some (j, r)" for j r
  proof -
    obtain x where "c # v @ t = ''eyJ'' @ x"
      using jwt_at_parts [OF hit] by (auto elim!: starts_withE)
    then show False using assms(2,3) s by (cases v) auto
  qed
  then show "case jwt_at (c # v @ t) of None \<Rightarrow> True | Some (j, _) \<Rightarrow> j = ''eyJ.eyJ.''" by (auto split: option.splits)
qed

lemma token_free_short:
  assumes "token_free (e # t)" "\<not> word_char e" "e \<noteq> CHR ''.''" "length s \<le> 8"
  shows "token_free (s @ e # t)"
proof (rule token_free_append [OF assms(1)])
  fix w c v assume s: "s = w @ c # v"
  have "j = ''eyJ.eyJ.''" if "jwt_at ((c # v) @ e # t) = Some (j, r)" for j r
    using jwt_at_before [OF that assms(2,3)] assms(4) s by simp
  then show "case jwt_at (c # v @ e # t) of None \<Rightarrow> True | Some (j, _) \<Rightarrow> j = ''eyJ.eyJ.''" by (auto split: option.splits)
qed

lemma nat_str_no_y: "CHR ''y'' \<notin> set (nat_str n)"
proof
  assume "CHR ''y'' \<in> set (nat_str n)"
  then have "Json.is_digit CHR ''y''" using digits_digits [of n] by (simp only: nat_str_def list_all_iff)
  then show False by (simp add: Json.is_digit_def)
qed

lemma short_jwt_free:
  assumes "token_free t" "CHR ''y'' \<notin> set ref" "ref \<noteq> [] \<Longrightarrow> last ref \<noteq> CHR ''e''"
  shows "token_free (short_jwt j @ ref @ t)"
proof -
  have "token_free (CHR '' '' # (''('' @ nat_str (length j) @ '' chars)'') @ ref @ t)"
    using nat_str_no_y token_free_quiet [OF token_free_quiet [OF assms], of "CHR '' '' # ''('' @ nat_str (length j) @ '' chars)''"] by simp
  from token_free_short [OF this, of "drop (length j - 6) j"]
  have "token_free (drop (length j - 6) j @ CHR '' '' # (''('' @ nat_str (length j) @ '' chars)'') @ ref @ t)"
    by (simp add: word_char_def)
  then have "token_free (ellipsis @ drop (length j - 6) j @ CHR '' '' # (''('' @ nat_str (length j) @ '' chars)'') @ ref @ t)"
    by (rule token_free_quiet) (simp_all add: ellipsis_def)
  from token_free_short [OF this [unfolded ellipsis_def append_Cons], of "take 8 j"]
  show ?thesis by (simp add: short_jwt_def ellipsis_def word_char_def)
qed

lemma shown_token_free:
  assumes "shown_pieces C (pieces s) m = (t, e, m')"
  shows "token_free t \<and> (\<exists>u z y. s = u @ z \<and> t = u @ y \<and> (y = [] \<and> z = [] \<or> (\<exists>y'. y = CHR 0xE2 # y')))"
  using assms
proof (induction s arbitrary: m t e m' rule: pieces.induct)
  case (2 c s)
  show ?case
  proof (cases "jwt_at (c # s)")
    case None
    obtain t1 e1 where t1: "shown_pieces C (pieces s) m = (t1, e1, m')" and t: "t = c # t1"
      using 2(3) None by (auto simp: pieces.simps split: prod.splits)
    from 2(1) [OF None t1] obtain u z y where uzy: "s = u @ z" "t1 = u @ y" "y = [] \<and> z = [] \<or> (\<exists>y'. y = CHR 0xE2 # y')"
      and free: "token_free t1" by blast
    have "jwt_at (c # t1) = None"
    proof (cases "y = []")
      case True
      then show ?thesis using None uzy by simp
    next
      case False
      then obtain y' where y: "y = CHR 0xE2 # y'" using uzy(3) by blast
      have "jwt_at ((c # u) @ CHR 0xE2 # y') = None"
        using jwt_at_before(1) [of "c # u" "CHR 0xE2" y' _ _ z] None uzy(1)
        by (cases "jwt_at ((c # u) @ CHR 0xE2 # y')") (auto simp: word_char_def)
      then show ?thesis using uzy(2) y by simp
    qed
    then have "token_free t" using free t by simp
    moreover have "c # s = (c # u) @ z" "t = (c # u) @ y" using uzy t by simp_all
    ultimately show ?thesis using uzy(3) by blast
  next
    case (Some x)
    obtain j r where x: "x = (j, r)" by fastforce
    have s: "c # s = j @ r" using jwt_at_parts(1) Some x by simp
    have p: "pieces (c # s) = Jwt j # pieces r" using Some x by (simp add: pieces.simps)
    obtain t1 e1 m1 ref where t1: "shown_pieces C (pieces r) m1 = (t1, e1, m')" and t: "t = short_jwt j @ ref @ t1"
      and ref: "CHR ''y'' \<notin> set ref" "ref \<noteq> [] \<Longrightarrow> last ref \<noteq> CHR ''e''"
    proof (cases "seen_before C m j")
      case None
      then show thesis using 2(3) p that [of "note_seen C m j" _ _ "[]"] by (auto split: prod.splits)
    next
      case (Some first)
      show thesis using nat_str_no_y 2(3) p Some that [of m _ _ "'' (same token as '' @ (if Some first = lcSeq C then ''above'' else ''#'' @ nat_str first) @ '')''"]
        by (auto split: prod.splits if_splits)
    qed
    have "token_free t1" using 2(2) [OF Some x [symmetric] t1] by blast
    then have "token_free t" unfolding t using short_jwt_free ref by blast
    moreover have "c # s = take 8 j @ drop 8 j @ r" using s by simp
    moreover have "\<exists>y'. t = take 8 j @ CHR 0xE2 # y'" unfolding t short_jwt_def ellipsis_def by simp
    ultimately show ?thesis by blast
  qed
qed (simp add: pieces.simps)

section \<open>What is explained\<close>

text \<open>
  The lines below a token do not depend on what was seen. They can only fail where a time of the token is outside
  the range of \<^verbatim>\<open>Date\<close>, for which \<^verbatim>\<open>toISOString\<close> throws; a token is \<open>readable\<close> when none is.
\<close>

definition readable :: "('w, 'j) platform \<Rightarrow> string \<Rightarrow> bool" where
  "readable P jwt =
     (case wire_decode P jwt of
        None \<Rightarrow> True
      | Some (header, payload) \<Rightarrow>
          list_all (\<lambda>k. case jget payload k of JNum sec \<Rightarrow> \<bar>sec * 1000\<bar> \<le> 8640000000000000 | _ \<Rightarrow> True)
            (if jget header ''typ'' = JStr ''dpop+jwt'' then [''iat''] else TIME_CLAIMS))"

definition pure_ok :: "('s, 'e, 'a) io \<Rightarrow> bool" where
  "pure_ok m = (\<exists>a. \<forall>s. m s = (Inr a, s))"

named_theorems pure_intros \<open>operations that answer and leave the state alone\<close>

lemma pure_return [pure_intros]: "pure_ok (io_return a)"
  by (auto simp: pure_ok_def io_simps)

lemma pure_bind [pure_intros]:
  assumes "pure_ok m" "\<And>a. pure_ok (f a)"
  shows "pure_ok (io_bind m f)"
proof -
  obtain a where a: "\<And>s. m s = (Inr a, s)" using assms(1) unfolding pure_ok_def by blast
  obtain b where "\<And>s. f a s = (Inr b, s)" using assms(2) [of a] unfolding pure_ok_def by blast
  then show ?thesis using a by (auto simp: pure_ok_def io_bind_def)
qed

lemma pure_each: "(\<And>a. a \<in> set xs \<Longrightarrow> pure_ok (f a)) \<Longrightarrow> pure_ok (io_each f xs)"
  by (induction xs) (auto intro!: pure_intros)

lemma pure_row:
  assumes "case jget p k of JNum sec \<Rightarrow> \<bar>sec * 1000\<bar> \<le> 8640000000000000 | _ \<Rightarrow> True"
  shows "pure_ok (time_row P sentAt p k)"
  using assms by (auto simp: time_row_def clock_def Let_def split: js.splits intro!: pure_intros)

lemma pure_rows:
  assumes "readable P j" "wire_decode P j = Some (header, payload)"
  shows "jget header ''typ'' = JStr ''dpop+jwt'' \<Longrightarrow> pure_ok (proofRows P header payload sentAt)"
    and "jget header ''typ'' \<noteq> JStr ''dpop+jwt'' \<Longrightarrow> pure_ok (claimRows P payload sentAt)"
proof -
  have ok: "pure_ok (time_row P sentAt payload k)"
    if "k \<in> set (if jget header ''typ'' = JStr ''dpop+jwt'' then [''iat''] else TIME_CLAIMS)" for k
    using assms that by (intro pure_row) (simp add: readable_def list_all_iff del: jget.simps)
  show "pure_ok (proofRows P header payload sentAt)" if "jget header ''typ'' = JStr ''dpop+jwt''"
    unfolding proofRows_def Let_def by (intro pure_bind pure_return ok) (simp add: that)
  show "pure_ok (claimRows P payload sentAt)" if "jget header ''typ'' \<noteq> JStr ''dpop+jwt''"
    unfolding claimRows_def Let_def by (intro pure_bind pure_return pure_each ok) (simp add: that)
qed

lemma pure_lines: "readable P j \<Longrightarrow> pure_ok (jwtLines P j False sentAt)"
  unfolding jwtLines_def by (auto simp: Let_def split: option.splits intro!: pure_intros pure_rows)

definition explanation :: "('w, 'j) platform \<Rightarrow> int \<Rightarrow> string \<Rightarrow> string list" where
  "explanation P sentAt j = (case fst (jwtLines P j False sentAt []) of Inr ls \<Rightarrow> ls | Inl _ \<Rightarrow> [])"

lemma explained_lines: "readable P j \<Longrightarrow> jwtLines P j False sentAt m = (Inr (explanation P sentAt j), m)"
  using pure_lines [of P j sentAt] by (auto simp: pure_ok_def explanation_def)

lemma explanations:
  "(\<And>j. j \<in> set js \<Longrightarrow> readable P j) \<Longrightarrow>
   io_each (\<lambda>j. jwtLines P j False sentAt) js m = (Inr (concat (map (explanation P sentAt) js)), m)"
  by (induction js arbitrary: m) (simp_all add: io_bind_def io_return_def explained_lines)

text \<open>A line: the tokens expanded below it are those of the line not seen before, each once.\<close>

lemma shown_expands:
  assumes "shown_pieces C ps m = (t, e, m')" "lcSeq C = Some n" "lcSeen C"
  shows "distinct e" "set e = {j. Jwt j \<in> set ps \<and> om_get m j = None}"
    "om_get m' j = (if j \<in> set e then Some n else om_get m j)"
  using assms(1)
proof (induction ps arbitrary: m t e m' rule: list.induct)
  case (Cons p ps)
  {
    case 1
    then show ?case using Cons.IH
      by (cases p) (auto simp: seen_before_def note_seen_def assms(2,3) omap_simps split: prod.splits option.splits)
  next
    case 2
    then show ?case using Cons.IH
      by (cases p) (fastforce simp: seen_before_def note_seen_def assms(2,3) omap_simps split: prod.splits option.splits if_splits)+
  next
    case 3
    then show ?case using Cons.IH
      by (cases p) (fastforce simp: seen_before_def note_seen_def assms(2,3) omap_simps split: prod.splits option.splits if_splits)+
  }
qed simp_all

lemma jwts_in_set: "set (jwts_in line) = {j. Jwt j \<in> set (pieces line)}"
  by (auto simp: jwts_in_def split: piece.splits)

text \<open>Every token of a line is shown shortened in it.\<close>

lemma shown_short: "shown_pieces C ps m = (t, e, m') \<Longrightarrow> Jwt j \<in> set ps \<Longrightarrow> \<exists>x y. t = x @ short_jwt j @ y"
proof (induction ps arbitrary: m t e m')
  case (Cons p ps)
  show ?case
  proof (cases "p = Jwt j")
    case True
    then show ?thesis using Cons.prems(1) by (fastforce split: prod.splits option.splits)
  next
    case False
    then obtain m1 t1 e1 u where t: "shown_pieces C ps m1 = (t1, e1, m')" "t = u @ t1"
      using Cons.prems(1) by (cases p) (fastforce split: prod.splits option.splits)+
    then obtain x y where "t1 = x @ short_jwt j @ y" using Cons.IH [OF t(1)] Cons.prems(2) False by auto
    then show ?thesis unfolding t(2) by (intro exI [of _ "u @ x"] exI [of _ y]) simp
  qed
qed simp

text \<open>
  \<open>newly n ts m m' es\<close>: the tokens \<open>es\<close> are those of \<open>ts\<close> that \<open>m\<close> does not have, once each, and \<open>m'\<close> has them
  under the number \<open>n\<close>.
\<close>

definition newly :: "nat \<Rightarrow> string set \<Rightarrow> seen \<Rightarrow> seen \<Rightarrow> string list \<Rightarrow> bool" where
  "newly n ts m m' es =
     (distinct es \<and> set es = {j \<in> ts. om_get m j = None} \<and> (\<forall>j. om_get m' j = (if j \<in> set es then Some n else om_get m j)))"

lemma newly_none: "newly n {} m m []"
  by (simp add: newly_def)

lemma newly_append: "newly n ts m m1 es \<Longrightarrow> newly n us m1 m2 fs \<Longrightarrow> newly n (ts \<union> us) m m2 (es @ fs)"
  unfolding newly_def by (auto split: if_splits)

text \<open>
  What is printed for a line: the line and the tokens explained directly below it. \<open>None\<close> stands for the bar
  before a body and for the line with the status; a line of a header or a body is shown with its tokens shortened.
\<close>

type_synonym group = "string \<times> string list"

definition below :: "('w, 'j) platform \<Rightarrow> int \<Rightarrow> group list \<Rightarrow> string list" where
  "below P sentAt gs = concat (map (\<lambda>(l, js). l # concat (map (explanation P sentAt) js)) gs)"

definition printed_for :: "string option \<Rightarrow> group \<Rightarrow> bool" where
  "printed_for src = (\<lambda>(l, js).
     case src of
       None \<Rightarrow> js = [] \<and> (l = box_side \<or> starts_with box_join l)
     | Some line \<Rightarrow> set js \<subseteq> set (jwts_in line) \<and> set (jwts_in l) \<subseteq> {''eyJ.eyJ.''}
         \<and> (\<forall>j \<in> set (jwts_in line). \<exists>x y. l = x @ short_jwt j @ y))"

definition source_tokens :: "string option list \<Rightarrow> string set" where
  "source_tokens srcs = (\<Union>src \<in> set srcs. case src of None \<Rightarrow> {} | Some line \<Rightarrow> set (jwts_in line))"

lemma source_tokens_append [simp]: "source_tokens (xs @ ys) = source_tokens xs \<union> source_tokens ys"
  by (simp add: source_tokens_def)

lemma source_tokens_simps [simp]:
  "source_tokens [] = {}" "source_tokens (None # xs) = source_tokens xs"
  "source_tokens (Some line # xs) = set (jwts_in line) \<union> source_tokens xs"
  by (simp_all add: source_tokens_def)

lemma below_simps [simp]:
  "below P a [] = []" "below P a (g # gs) = (fst g # concat (map (explanation P a) (snd g))) @ below P a gs"
  "below P a (gs @ hs) = below P a gs @ below P a hs"
  by (simp_all add: below_def case_prod_unfold)

text \<open>\<open>prints P at n srcs m ls m'\<close>: what is printed for the lines \<open>srcs\<close>.\<close>

definition prints ::
  "('w, 'j) platform \<Rightarrow> int \<Rightarrow> nat \<Rightarrow> string option list \<Rightarrow> seen \<Rightarrow> string list \<Rightarrow> seen \<Rightarrow> bool" where
  "prints P sentAt n srcs m ls m' =
     (\<exists>gs. ls = below P sentAt gs \<and> list_all2 printed_for srcs gs \<and> newly n (source_tokens srcs) m m' (concat (map snd gs)))"

lemma prints_none: "prints P a n [] m [] m"
  unfolding prints_def by (intro exI [of _ "[]"]) (simp add: newly_none)

lemma prints_bar: "l = box_side \<or> starts_with box_join l \<Longrightarrow> prints P a n [None] m [l] m"
  unfolding prints_def by (intro exI [of _ "[(l, [])]"]) (simp add: newly_none printed_for_def)

lemma prints_append:
  assumes "prints P a n xs m ls m1" "prints P a n ys m1 ks m2"
  shows "prints P a n (xs @ ys) m (ls @ ks) m2"
proof -
  from assms obtain gs hs where "ls = below P a gs" "list_all2 printed_for xs gs" "newly n (source_tokens xs) m m1 (concat (map snd gs))"
    "ks = below P a hs" "list_all2 printed_for ys hs" "newly n (source_tokens ys) m1 m2 (concat (map snd hs))"
    unfolding prints_def by blast
  then show ?thesis unfolding prints_def
    by (intro exI [of _ "gs @ hs"]) (simp add: newly_append list_all2_appendI)
qed

lemma push_line_prints:
  assumes "\<not> lcFull C" "lcSeq C = Some n" "lcSeen C" "\<And>j. j \<in> set (jwts_in line) \<Longrightarrow> readable P j"
  shows "\<exists>ls m'. push_line P C line m = (Inr ls, m') \<and> prints P (lcSentAt C) n [Some line] m ls m'"
proof -
  obtain t es m1 where s: "shown_pieces C (pieces line) m = (t, es, m1)" by (metis prod_cases3)
  note g = shown_expands [OF s assms(2,3)]
  have r: "\<And>j. j \<in> set es \<Longrightarrow> readable P j" using assms(4) g(2) unfolding jwts_in_set by blast
  have p: "push_line P C line m = (Inr ((box_side @ '' '' @ t) # concat (map (explanation P (lcSentAt C)) es)), m1)"
    using assms(1) s explanations [OF r] by (simp add: push_line_def io_bind_def io_return_def)
  have "token_free ((box_side @ '' '') @ t)"
    by (intro token_free_quiet conjunct1 [OF shown_token_free [OF s]]) (simp_all add: box_side_def)
  from token_free_jwts [OF this] have free: "set (jwts_in (box_side @ '' '' @ t)) \<subseteq> {''eyJ.eyJ.''}" by simp
  have short: "\<exists>x y. box_side @ '' '' @ t = x @ short_jwt j @ y" if "j \<in> set (jwts_in line)" for j
  proof -
    obtain x y where "t = x @ short_jwt j @ y" using shown_short [OF s] \<open>j \<in> set (jwts_in line)\<close> unfolding jwts_in_set by blast
    then show ?thesis by (intro exI [of _ "box_side @ '' '' @ x"] exI [of _ y]) simp
  qed
  have "printed_for (Some line) (box_side @ '' '' @ t, es)"
    using free short g(2) unfolding printed_for_def prod.case option.case jwts_in_set [of line] by blast
  moreover have "newly n (set (jwts_in line)) m m1 es" using g unfolding newly_def jwts_in_set by blast
  ultimately have "prints P (lcSentAt C) n [Some line] m ((box_side @ '' '' @ t) # concat (map (explanation P (lcSentAt C)) es)) m1"
    unfolding prints_def by (intro exI [of _ "[(box_side @ '' '' @ t, es)]"]) simp
  then show ?thesis unfolding p by blast
qed

lemma push_lines_print:
  assumes "\<not> lcFull C" "lcSeq C = Some n" "lcSeen C" "\<And>j. j \<in> source_tokens (map Some lines) \<Longrightarrow> readable P j"
  shows "\<exists>ls m'. io_each (push_line P C) lines m = (Inr ls, m') \<and> prints P (lcSentAt C) n (map Some lines) m ls m'"
  using assms(4)
proof (induction lines arbitrary: m)
  case Nil
  then show ?case by (simp add: io_return_def prints_none)
next
  case (Cons line lines)
  obtain xs m1 where x: "push_line P C line m = (Inr xs, m1)" "prints P (lcSentAt C) n [Some line] m xs m1"
    using push_line_prints [OF assms(1-3)] Cons.prems by fastforce
  obtain ys m2 where y: "io_each (push_line P C) lines m1 = (Inr ys, m2)" "prints P (lcSentAt C) n (map Some lines) m1 ys m2"
    using Cons.IH [of m1] Cons.prems by fastforce
  show ?case using x(1) y(1) prints_append [OF x(2) y(2)] by (simp add: io_bind_def io_return_def)
qed

section \<open>Blocks\<close>

text \<open>The lines of a block between its head and its end.\<close>

definition part_source :: "string list \<times> string list option \<Rightarrow> string option list" where
  "part_source part = map Some (fst part) @ (case snd part of None \<Rightarrow> [] | Some body \<Rightarrow> None # map Some body)"

definition block_source :: "format_options \<Rightarrow> wire_record \<Rightarrow> string option list" where
  "block_source opts r =
     part_source (request_lines opts r) @ None # (if given (wrError r) = None then part_source (response_lines opts r) else [])"

lemma push_part_prints:
  assumes "\<not> lcFull C" "lcSeq C = Some n" "lcSeen C" "\<And>j. j \<in> source_tokens (part_source part) \<Longrightarrow> readable P j"
  shows "\<exists>ls m'. push_part P C part m = (Inr ls, m') \<and> prints P (lcSentAt C) n (part_source part) m ls m'"
proof -
  note lines = push_lines_print [OF assms(1-3)]
  obtain hs m1 where h: "io_each (push_line P C) (fst part) m = (Inr hs, m1)" "prints P (lcSentAt C) n (map Some (fst part)) m hs m1"
    using lines [of "fst part" P m] assms(4) by (auto simp: part_source_def)
  show ?thesis
  proof (cases "snd part")
    case None
    then show ?thesis using h by (simp add: push_part_def part_source_def io_bind_def io_return_def)
  next
    case (Some body)
    obtain bs m2 where b: "io_each (push_line P C) body m1 = (Inr bs, m2)" "prints P (lcSentAt C) n (map Some body) m1 bs m2"
      using lines [of body P m1] assms(4) Some by (auto simp: part_source_def)
    from prints_append [OF h(2) prints_append [OF prints_bar b(2)], of box_side] show ?thesis
      using h(1) b(1) Some by (simp add: push_part_def part_source_def io_bind_def io_return_def)
  qed
qed

lemma trim_end_keeps: "\<not> is_ws c \<Longrightarrow> \<exists>x. trim_end (p @ c # s) = p @ c # x"
  by (cases "\<exists>x \<in> set s. \<not> is_ws x") (auto simp: trim_end_def dropWhile_append)

lemma status_joins: "starts_with box_join (trim_end (box_join @ '' '' @ left_tri @ s) @ ms)"
proof -
  obtain x where "trim_end ((box_join @ '' '') @ CHR 0xE2 # CHR 0x97 # CHR 0x80 # s) = (box_join @ '' '') @ CHR 0xE2 # x"
    using trim_end_keeps [of "CHR 0xE2" "box_join @ '' ''"] by (auto simp: is_ws_def)
  then show ?thesis by (simp add: left_tri_def starts_with_def)
qed

lemma format_prints:
  assumes "foMode opts = Pretty" "wrSeq r = Some n" "foSeen opts" "\<And>j. j \<in> source_tokens (block_source opts r) \<Longrightarrow> readable P j"
  shows "\<exists>ls m'. formatWireLog P r opts m = (Inr (join [CHR 0x0A] (head_lines P r @ ls @ [box_bottom])), m')
    \<and> prints P (wrAt r) n (block_source opts r) m ls m'"
proof -
  define C where "C = \<lparr> lcFull = (foMode opts = Full), lcSentAt = wrAt r, lcSeq = wrSeq r, lcSeen = foSeen opts \<rparr>"
  have c: "\<not> lcFull C" "lcSeq C = Some n" "lcSeen C" "lcSentAt C = wrAt r" using assms(1-3) by (simp_all add: C_def)
  note parts = push_part_prints [OF c(1-3), unfolded c(4)]
  obtain req m1 where q: "push_part P C (request_lines opts r) m = (Inr req, m1)" "prints P (wrAt r) n (part_source (request_lines opts r)) m req m1"
    using parts [of "request_lines opts r" P m] assms(4) by (auto simp: block_source_def)
  show ?thesis
  proof (cases "given (wrError r)")
    case None
    obtain res m2 where b: "push_part P C (response_lines opts r) m1 = (Inr res, m2)"
      "prints P (wrAt r) n (part_source (response_lines opts r)) m1 res m2"
      using parts [of "response_lines opts r" P m1] assms(4) None by (auto simp: block_source_def)
    let ?status = "trim_end (box_join @ '' '' @ left_tri @ '' '' @ (case wrStatus r of Some n \<Rightarrow> int_str n | None \<Rightarrow> ''undefined'')
                     @ '' '' @ or_else (wrStatusText r) []) @ '' ('' @ int_str (wrMs r) @ '' ms)''"
    have "formatWireLog P r opts m = (Inr (join [CHR 0x0A] (head_lines P r @ (req @ [?status] @ res) @ [box_bottom])), m2)"
      using q(1) b(1) None unfolding formatWireLog_def Let_def C_def [symmetric] by (simp add: io_bind_def io_return_def)
    moreover have "prints P (wrAt r) n (block_source opts r) m (req @ [?status] @ res) m2"
      using prints_append [OF q(2) prints_append [OF prints_bar [OF disjI2, OF status_joins] b(2)]] None
      by (simp add: block_source_def)
    ultimately show ?thesis by blast
  next
    case (Some e)
    let ?status = "box_join @ '' '' @ left_tri @ '' FAILED'' @ ('' ('' @ int_str (wrMs r) @ '' ms)'') @ '': '' @ e"
    have "formatWireLog P r opts m = (Inr (join [CHR 0x0A] (head_lines P r @ (req @ [?status]) @ [box_bottom])), m1)"
      using q(1) Some unfolding formatWireLog_def Let_def C_def [symmetric] by (simp add: io_bind_def io_return_def)
    moreover have "starts_with box_join ?status" by (simp add: starts_with_def)
    then have "prints P (wrAt r) n (block_source opts r) m (req @ [?status]) m1"
      using prints_append [OF q(2) prints_bar [OF disjI2]] Some by (simp add: block_source_def)
    ultimately show ?thesis by blast
  qed
qed

text \<open>The blocks of a trace, in the order in which its calls complete.\<close>

definition trace_blocks :: "('w, 'j) platform \<Rightarrow> format_options \<Rightarrow> wire_record list \<Rightarrow> string list fmt" where
  "trace_blocks P opts rs = io_each (\<lambda>r. io_bind (formatWireLog P r opts) (\<lambda>b. io_return [b])) rs"

definition block_of :: "('w, 'j) platform \<Rightarrow> wire_record \<Rightarrow> group list \<Rightarrow> string" where
  "block_of P r gs = join [CHR 0x0A] (head_lines P r @ below P (wrAt r) gs @ [box_bottom])"

lemma trace_prints:
  assumes "foMode opts = Pretty" "foSeen opts" "list_all (\<lambda>r. wrSeq r \<noteq> None) rs"
    and "\<forall>r \<in> set rs. \<forall>j \<in> source_tokens (block_source opts r). readable P j"
  shows "\<exists>m' gss. trace_blocks P opts rs m = (Inr (map2 (block_of P) rs gss), m')
    \<and> list_all2 (\<lambda>r gs. list_all2 printed_for (block_source opts r) gs) rs gss
    \<and> distinct (concat (map snd (concat gss)))
    \<and> set (concat (map snd (concat gss))) = {j \<in> (\<Union>r \<in> set rs. source_tokens (block_source opts r)). om_get m j = None}"
  using assms(3,4)
proof (induction rs arbitrary: m)
  case Nil
  show ?case by (intro exI [of _ m] exI [of _ "[]"]) (simp add: trace_blocks_def io_return_def)
next
  case (Cons r rs)
  then obtain n where n: "wrSeq r = Some n" by auto
  have ps: "list_all (\<lambda>r. wrSeq r \<noteq> None) rs" "\<forall>r \<in> set rs. \<forall>j \<in> source_tokens (block_source opts r). readable P j"
    using Cons.prems by simp_all
  have rd: "\<And>j. j \<in> source_tokens (block_source opts r) \<Longrightarrow> readable P j" using Cons.prems(2) by simp
  obtain ls m1 where b: "formatWireLog P r opts m = (Inr (join [CHR 0x0A] (head_lines P r @ ls @ [box_bottom])), m1)"
    "prints P (wrAt r) n (block_source opts r) m ls m1"
    using format_prints [OF assms(1) n assms(2) rd] by blast
  obtain gs where gs: "ls = below P (wrAt r) gs" "list_all2 printed_for (block_source opts r) gs"
    "newly n (source_tokens (block_source opts r)) m m1 (concat (map snd gs))"
    using b(2) unfolding prints_def by blast
  obtain m2 gss where ih: "trace_blocks P opts rs m1 = (Inr (map2 (block_of P) rs gss), m2)"
    "list_all2 (\<lambda>r gs. list_all2 printed_for (block_source opts r) gs) rs gss"
    "distinct (concat (map snd (concat gss)))"
    "set (concat (map snd (concat gss))) = {j \<in> (\<Union>r \<in> set rs. source_tokens (block_source opts r)). om_get m1 j = None}"
    using Cons.IH [OF ps, of m1] by blast
  have t: "trace_blocks P opts (r # rs) m = (Inr (map2 (block_of P) (r # rs) (gs # gss)), m2)"
    using b(1) ih(1) unfolding trace_blocks_def gs(1) by (simp add: io_bind_def io_return_def block_of_def)
  have nw: "distinct (concat (map snd gs))" "set (concat (map snd gs)) = {j \<in> source_tokens (block_source opts r). om_get m j = None}"
    "\<And>j. om_get m1 j = (if j \<in> set (concat (map snd gs)) then Some n else om_get m j)"
    using gs(3) unfolding newly_def by blast+
  have rest: "set (concat (map snd (concat gss))) =
      {j \<in> (\<Union>r \<in> set rs. source_tokens (block_source opts r)). om_get m j = None \<and> j \<notin> set (concat (map snd gs))}"
    unfolding ih(4) nw(3) by auto
  have all: "concat (map snd (concat (gs # gss))) = concat (map snd gs) @ concat (map snd (concat gss))" by simp
  have "distinct (concat (map snd (concat (gs # gss))))"
    unfolding all distinct_append using nw(1) ih(3) rest by blast
  moreover have "set (concat (map snd (concat (gs # gss)))) =
      {j \<in> (\<Union>r \<in> set (r # rs). source_tokens (block_source opts r)). om_get m j = None}"
    unfolding all set_append nw(2) rest by auto
  ultimately show ?case using t gs(2) ih(2) by (intro exI [of _ m2] exI [of _ "gs # gss"] conjI) simp_all
qed

text \<open>
  C20. The readable wire log shows tokens shortened and explains each once. Take the calls of a trace whose tokens all
  have times \<^verbatim>\<open>Date\<close> can print, logged while the process keeps the trace's memory of tokens (it is dropped when 256
  other traces came since). Then every call gets its block, and over all of them each token in their headers and
  bodies is explained exactly once, directly below a line that has it, and no other token is; no line of a
  header or a body is shown with a token in it (but for the one with empty segments, which is no token), only with
  the short form of each of its tokens. The explanation of a token that cannot be decoded is empty.
\<close>

theorem wire_log_explains_once:
  assumes "foMode opts = Pretty" "foSeen opts" "list_all (\<lambda>r. wrSeq r \<noteq> None) rs"
    and "\<forall>r \<in> set rs. \<forall>j \<in> source_tokens (block_source opts r). readable P j"
  shows "\<exists>m gss. trace_blocks P opts rs [] = (Inr (map2 (block_of P) rs gss), m)
    \<and> list_all2 (\<lambda>r gs. list_all2 printed_for (block_source opts r) gs) rs gss
    \<and> distinct (concat (map snd (concat gss)))
    \<and> set (concat (map snd (concat gss))) = (\<Union>r \<in> set rs. source_tokens (block_source opts r))"
  using trace_prints [OF assms, where m = "[]"] by (simp only: om_get_Nil simp_thms Collect_mem_eq)

definition fixture_record :: "nat \<Rightarrow> wire_record" where
  "fixture_record n =
     \<lparr> wrService = ''agent'', wrAt = 0, wrSeq = Some n, wrTraceId = Some ''t'', wrSpanId = None, wrMethod = ''GET'', wrUrl = ''/x'',
       wrRequestHeaders = [(''authorization'', ''eyJa.eyJb.c'')], wrRequestBody = None, wrMs = 1, wrStatus = Some 200,
       wrStatusText = None, wrResponseHeaders = [], wrResponseBody = None, wrError = None \<rparr>"

definition fixture_format :: format_options where
  "fixture_format = \<lparr> foMode = Pretty, foMaxBody = 0, foSeen = True \<rparr>"

lemma fixture_tokens: "source_tokens (block_source fixture_format (fixture_record n)) = {''eyJa.eyJb.c''}"
proof -
  have "jwts_in (''authorization: eyJa.eyJb.c'') = [''eyJa.eyJb.c'']" by code_simp
  then show ?thesis
    by (simp add: block_source_def part_source_def request_lines_def response_lines_def header_lines_def fixture_record_def given_def)
qed

theorem wire_log_explains_once_witness:
  "\<exists>gss. fst (trace_blocks (fixture no_net (\<lambda>_. None)) fixture_format [fixture_record 1, fixture_record 2] [])
       = Inr (map2 (block_of (fixture no_net (\<lambda>_. None))) [fixture_record 1, fixture_record 2] gss)
    \<and> length gss = 2 \<and> distinct (concat (map snd (concat gss))) \<and> set (concat (map snd (concat gss))) = {''eyJa.eyJb.c''}"
proof -
  let ?P = "fixture no_net (\<lambda>_. None)" and ?rs = "[fixture_record 1, fixture_record 2]"
  have "readable ?P ''eyJa.eyJb.c''" by code_simp
  then have "\<exists>m gss. trace_blocks ?P fixture_format ?rs [] = (Inr (map2 (block_of ?P) ?rs gss), m)
    \<and> list_all2 (\<lambda>r gs. list_all2 printed_for (block_source fixture_format r) gs) ?rs gss
    \<and> distinct (concat (map snd (concat gss)))
    \<and> set (concat (map snd (concat gss))) = (\<Union>r \<in> set ?rs. source_tokens (block_source fixture_format r))"
    by (intro wire_log_explains_once) (auto simp: fixture_tokens fixture_format_def [THEN arg_cong, of foMode] fixture_format_def [THEN arg_cong, of foSeen] fixture_record_def [THEN arg_cong, of wrSeq])
  then obtain m gss where g: "trace_blocks ?P fixture_format ?rs [] = (Inr (map2 (block_of ?P) ?rs gss), m)"
    "list_all2 (\<lambda>r gs. list_all2 printed_for (block_source fixture_format r) gs) ?rs gss"
    "distinct (concat (map snd (concat gss)))"
    "set (concat (map snd (concat gss))) = (\<Union>r \<in> set ?rs. source_tokens (block_source fixture_format r))" by blast
  have "length gss = 2" using list_all2_lengthD [OF g(2)] by simp
  moreover have "set (concat (map snd (concat gss))) = {''eyJa.eyJb.c''}" unfolding g(4) by (simp add: fixture_tokens)
  ultimately show ?thesis using g(1,3) by (intro exI [of _ gss]) simp
qed

end
