(* ===== verification/WireLog.thy ===== *)
theory WireLog
  imports WireTokens "HOL-Library.List_Lexorder" "HOL-Library.Char_ord"
begin

text \<open>
  \<^verbatim>\<open>packages/otel-bootstrap/src/wire-log.ts\<close>, the hook: \<^verbatim>\<open>wrapFetch\<close> numbers the calls of a trace, remembers the
  tokens shown in it for the 256 traces used last, and prints a block when a response is complete. What the hook
  is given (the wrapped fetch, the clock, the active span) is a parameter; the log's clock is not the network's.
\<close>

section \<open>The request as the log sees it\<close>

datatype fetch_body = NoBody | Text string | Params "(string \<times> string) list" | Bytes string | Other string

text \<open>A call: the string or \<^verbatim>\<open>Request\<close> it names, and what \<^verbatim>\<open>init\<close> adds.\<close>

record request_object =
  roMethod :: string
  roUrl :: string
  roHeaders :: "(string \<times> string) list"
  roText :: "string option"     \<comment> \<open>\<open>None\<close> when reading its clone fails\<close>

record fetch_call =
  fcRequest :: "request_object option"
  fcUrl :: string
  fcMethod :: "string option"
  fcHeaders :: "(string \<times> string) list option"
  fcBody :: fetch_body

definition open_quote :: string where "open_quote = [CHR 0xE2, CHR 0x80, CHR 0xB9]"
definition close_quote :: string where "close_quote = [CHR 0xE2, CHR 0x80, CHR 0xBA]"

definition requestBodyText :: "fetch_call \<Rightarrow> string option" where
  "requestBodyText q =
     (case fcBody q of
        NoBody \<Rightarrow> Option.bind (fcRequest q) roText
      | Text s \<Rightarrow> Some s
      | Params ps \<Rightarrow> Some (form_encode ps)
      | Bytes s \<Rightarrow> Some s
      | Other name \<Rightarrow> Some (open_quote @ name @ '' body not shown'' @ close_quote))"

definition upper_char :: "char \<Rightarrow> char" where
  "upper_char c =
     (case map_of (zip ''abcdefghijklmnopqrstuvwxyz'' ''ABCDEFGHIJKLMNOPQRSTUVWXYZ'') c of None \<Rightarrow> c | Some d \<Rightarrow> d)"

text \<open>\<^verbatim>\<open>[...new Headers(h).entries()]\<close>: names in lower case and in order, the values of one name joined.\<close>

definition header_append :: "string \<times> string \<Rightarrow> (string, string) omap \<Rightarrow> (string, string) omap" where
  "header_append p m =
     (let k = lower (fst p); v = trim (snd p)
      in om_set m k (case om_get m k of None \<Rightarrow> v | Some w \<Rightarrow> w @ '', '' @ v))"

definition header_entries :: "(string \<times> string) list \<Rightarrow> (string \<times> string) list" where
  "header_entries hs = sort_key fst (fold header_append hs [])"

section \<open>The traces\<close>

record trace_entry =
  teSeq :: nat
  teTokens :: seen

type_synonym traces = "(string, trace_entry) omap"

definition nextSeq :: "string option \<Rightarrow> traces \<Rightarrow> nat option \<times> traces" where
  "nextSeq traceId ts =
     (case given traceId of
        None \<Rightarrow> (None, ts)
      | Some i \<Rightarrow>
          (let t = or_else (om_get ts i) \<lparr> teSeq = 0, teTokens = [] \<rparr>;
               t' = t\<lparr> teSeq := Suc (teSeq t) \<rparr>;
               ts' = om_set (om_delete ts i) i t'
           in (Some (teSeq t'), if length ts' > 256 then tl ts' else ts')))"

section \<open>The hook\<close>

record wire_options =
  woService :: string
  woMode :: wire_mode
  woMaxBody :: int

text \<open>The state: the traces, the calls whose block is still to be printed, and what was printed.\<close>

record wire_state =
  wsTraces :: traces
  wsOpen :: "wire_record list"
  wsBlocks :: "string list"

definition base_record :: "wire_options \<Rightarrow> fetch_call \<Rightarrow> int \<Rightarrow> (string \<times> string) option \<Rightarrow> nat option \<Rightarrow> wire_record" where
  "base_record opts q started ctx seq =
     \<lparr> wrService = woService opts, wrAt = started, wrSeq = seq, wrTraceId = map_option fst ctx, wrSpanId = map_option snd ctx,
       wrMethod = map upper_char (or_else (case fcMethod q of Some m \<Rightarrow> Some m | None \<Rightarrow> map_option roMethod (fcRequest q)) ''GET''),
       wrUrl = (case fcRequest q of Some r \<Rightarrow> roUrl r | None \<Rightarrow> fcUrl q),
       wrRequestHeaders = header_entries (or_else (case fcHeaders q of Some h \<Rightarrow> Some h | None \<Rightarrow> map_option roHeaders (fcRequest q)) []),
       wrRequestBody = requestBodyText q, wrMs = 0, wrStatus = None, wrStatusText = None, wrResponseHeaders = [],
       wrResponseBody = None, wrError = None \<rparr>"

text \<open>
  A call: its number is taken, the wrapped fetch runs on the very call, and its outcome is returned; the record
  waits for its block. \<open>answered\<close> is when the outcome was there, \<open>body\<close> what reading the clone gives.
\<close>

definition failure_text :: "exn \<Rightarrow> string" where
  "failure_text e = (case e of Thrown v \<Rightarrow> js_string (js_or (jget v ''message'') v) | _ \<Rightarrow> message_of e)"

definition outcome_record :: "wire_record \<Rightarrow> int \<Rightarrow> (http_rsp \<Rightarrow> string option) \<Rightarrow> exn + http_rsp \<Rightarrow> wire_record" where
  "outcome_record r answered body x =
     (case x of
        Inl e \<Rightarrow> r\<lparr> wrMs := answered - wrAt r, wrError := Some (failure_text e) \<rparr>
      | Inr rsp \<Rightarrow> r\<lparr> wrMs := answered - wrAt r, wrStatus := Some (pStatus rsp), wrStatusText := Some (pStatusText rsp),
                       wrResponseHeaders := pHeaders rsp,
                       wrResponseBody := Some (or_else (body rsp) (open_quote @ ''response body unreadable'' @ close_quote)) \<rparr>)"

definition wire_call ::
  "wire_options \<Rightarrow> (fetch_call \<Rightarrow> 'w \<Rightarrow> (exn + http_rsp) \<times> 'w) \<Rightarrow> (http_rsp \<Rightarrow> string option) \<Rightarrow> fetch_call \<Rightarrow>
   int \<Rightarrow> int \<Rightarrow> (string \<times> string) option \<Rightarrow> wire_state \<times> 'w \<Rightarrow> (exn + http_rsp) \<times> wire_state \<times> 'w" where
  "wire_call opts original body q started answered ctx sw =
     (case sw of (s, w) \<Rightarrow>
        (case nextSeq (map_option fst ctx) (wsTraces s) of (seq, ts) \<Rightarrow>
           (case original q w of (x, w') \<Rightarrow>
              (x, s\<lparr> wsTraces := ts, wsOpen := wsOpen s @ [outcome_record (base_record opts q started ctx seq) answered body x] \<rparr>, w'))))"

text \<open>The block of an open record: the tokens it shows are noted on its trace, if that is still kept.\<close>

definition emit_block :: "('w, 'j) platform \<Rightarrow> wire_options \<Rightarrow> wire_record \<Rightarrow> traces \<Rightarrow> string option \<times> traces" where
  "emit_block P opts r ts =
     (let entry = Option.bind (given (wrTraceId r)) (om_get ts);
          fo = \<lparr> foMode = woMode opts, foMaxBody = woMaxBody opts, foSeen = (entry \<noteq> None) \<rparr>
      in case formatWireLog P r fo (case entry of Some t \<Rightarrow> teTokens t | None \<Rightarrow> []) of
           (x, m) \<Rightarrow>
             (case x of Inr block \<Rightarrow> Some block | Inl _ \<Rightarrow> None,
              case (given (wrTraceId r), entry) of
                (Some i, Some t) \<Rightarrow> om_set ts i (t\<lparr> teTokens := m \<rparr>)
              | _ \<Rightarrow> ts))"

definition wire_emit :: "('w, 'j) platform \<Rightarrow> wire_options \<Rightarrow> nat \<Rightarrow> wire_state \<Rightarrow> wire_state" where
  "wire_emit P opts i s =
     (case emit_block P opts (wsOpen s ! i) (wsTraces s) of (block, ts) \<Rightarrow>
        s\<lparr> wsTraces := ts, wsOpen := take i (wsOpen s) @ drop (Suc i) (wsOpen s),
           wsBlocks := wsBlocks s @ (case block of Some b \<Rightarrow> [b] | None \<Rightarrow> []) \<rparr>)"

text \<open>Whether the hook is installed, and how.\<close>

definition installWireLog :: "(string \<Rightarrow> string option) \<Rightarrow> wire_options option" where
  "installWireLog env =
     (let maxBody = (case env ''HTTP_WIRE_LOG_MAX_BODY'' of None \<Rightarrow> Some 6000 | Some v \<Rightarrow> js_number (JStr v))
      in map_option (\<lambda>mode. \<lparr> woService = or_else (env ''OTEL_SERVICE_NAME'') ''unknown'', woMode = mode, woMaxBody = or_else maxBody 6000 \<rparr>)
           (if env ''HTTP_WIRE_LOG'' = Some ''on'' then Some Pretty else if env ''HTTP_WIRE_LOG'' = Some ''full'' then Some Full else None))"

section \<open>Runs of the hook\<close>

text \<open>A process calls the wrapped fetch, and blocks are printed as responses complete, in whatever order.\<close>

datatype wire_event =
    Call fetch_call int int "(string \<times> string) option"
  | Print nat

fun wire_run ::
  "('w, 'j) platform \<Rightarrow> wire_options \<Rightarrow> (fetch_call \<Rightarrow> 'n \<Rightarrow> (exn + http_rsp) \<times> 'n) \<Rightarrow> (http_rsp \<Rightarrow> string option) \<Rightarrow>
   wire_event list \<Rightarrow> wire_state \<times> 'n \<Rightarrow> (exn + http_rsp) list \<times> wire_state \<times> 'n" where
  "wire_run P opts original body [] sw = ([], sw)"
| "wire_run P opts original body (Call q started answered ctx # evs) sw =
     (case wire_call opts original body q started answered ctx sw of (x, sw1) \<Rightarrow>
        (case wire_run P opts original body evs sw1 of (xs, sw2) \<Rightarrow> (x # xs, sw2)))"
| "wire_run P opts original body (Print i # evs) sw =
     wire_run P opts original body evs (if i < length (wsOpen (fst sw)) then (wire_emit P opts i (fst sw), snd sw) else sw)"

text \<open>The same calls without the hook.\<close>

fun plain_run :: "(fetch_call \<Rightarrow> 'n \<Rightarrow> (exn + http_rsp) \<times> 'n) \<Rightarrow> wire_event list \<Rightarrow> 'n \<Rightarrow> (exn + http_rsp) list \<times> 'n" where
  "plain_run original [] w = ([], w)"
| "plain_run original (Call q _ _ _ # evs) w =
     (case original q w of (x, w1) \<Rightarrow> (case plain_run original evs w1 of (xs, w2) \<Rightarrow> (x # xs, w2)))"
| "plain_run original (Print _ # evs) w = plain_run original evs w"

lemma run_transparent:
  "wire_run P opts original body evs (s, w) = (xs, s', w') \<Longrightarrow> plain_run original evs w = (xs, w')"
proof (induction evs arbitrary: s w xs)
  case (Cons ev evs)
  show ?case
  proof (cases ev)
    case (Call q started answered ctx)
    then show ?thesis using Cons by (fastforce simp: wire_call_def split: prod.splits)
  next
    case (Print i)
    then show ?thesis using Cons by (auto split: if_splits)
  qed
qed simp

section \<open>The numbers of a trace\<close>

text \<open>
  The number of the last call of a history, newest first: one more than that of its trace's call before, unless
  256 other traces have been used in between.
\<close>

function call_number :: "string list \<Rightarrow> nat" where
  "call_number [] = 0"
| "call_number (i # older) =
     (if i \<in> set older \<and> card (set (takeWhile (\<lambda>x. x \<noteq> i) older)) < 256
      then Suc (call_number (dropWhile (\<lambda>x. x \<noteq> i) older)) else 1)"
  by pat_completeness auto
termination
  by (relation "measure length") (auto simp: less_Suc_eq_le length_dropWhile_le)

declare call_number.simps [simp del]

text \<open>The traces kept after a history, oldest first: the 256 used last, in the order of their last use.\<close>

definition kept :: "string list \<Rightarrow> string list" where
  "kept ids = drop (length (remdups ids) - 256) (remdups ids)"

lemma remdups_snoc: "remdups (ids @ [i]) = filter (\<lambda>x. x \<noteq> i) (remdups ids) @ [i]"
  by (induction ids) auto

lemma kept_snoc:
  "kept (ids @ [i]) = (let ks = filter (\<lambda>x. x \<noteq> i) (kept ids) @ [i] in if length ks > 256 then tl ks else ks)"
proof -
  define A where "A = take (length (remdups ids) - 256) (remdups ids)"
  have r: "remdups ids = A @ kept ids" by (simp add: A_def kept_def)
  have d: "distinct (A @ kept ids)" using r by (metis distinct_remdups)
  have n: "length (kept ids) = min 256 (length (remdups ids))" "length A = length (remdups ids) - 256"
    by (simp_all add: kept_def A_def)
  have f: "length (filter (\<lambda>x. x \<noteq> i) xs) = length xs - (if i \<in> set xs then 1 else 0)" if "distinct xs" for xs :: "string list"
    using that by (induction xs) (auto simp: Suc_diff_le filter_id_conv dest: length_pos_if_in_set)
  have k: "kept (ids @ [i]) = drop (length (filter (\<lambda>x. x \<noteq> i) A) + length (filter (\<lambda>x. x \<noteq> i) (kept ids)) + 1 - 256)
      (filter (\<lambda>x. x \<noteq> i) A @ filter (\<lambda>x. x \<noteq> i) (kept ids) @ [i])"
    unfolding kept_def [of "ids @ [i]"] remdups_snoc r by simp
  have la: "length (filter (\<lambda>x. x \<noteq> i) A) = length A - (if i \<in> set A then 1 else 0)"
    and lk: "length (filter (\<lambda>x. x \<noteq> i) (kept ids)) = length (kept ids) - (if i \<in> set (kept ids) then 1 else 0)"
    using f d by simp_all
  show ?thesis
  proof (cases "A = []")
    case True
    have "length (filter (\<lambda>x. x \<noteq> i) (kept ids)) \<le> 256" using lk n(1) by auto
    then consider "length (filter (\<lambda>x. x \<noteq> i) (kept ids)) < 256" | a l where "filter (\<lambda>x. x \<noteq> i) (kept ids) = a # l" "length l = 255"
      by (cases "filter (\<lambda>x. x \<noteq> i) (kept ids)") fastforce+
    then show ?thesis using k True by cases (simp_all add: Let_def)
  next
    case False
    then have "length A > 0" by simp
    then have l: "length (kept ids) = 256" using n by linarith
    show ?thesis
    proof (cases "i \<in> set (kept ids)")
      case True
      then have "length (filter (\<lambda>x. x \<noteq> i) (kept ids)) = 255" using lk l by simp
      then show ?thesis using k by (simp add: Let_def)
    next
      case False
      then have "length (filter (\<lambda>x. x \<noteq> i) (kept ids)) = 256" using lk l by simp
      then show ?thesis using k by (cases "filter (\<lambda>x. x \<noteq> i) (kept ids)") (simp_all add: Let_def drop_Suc)
    qed
  qed
qed

lemma kept_mem: "i \<in> set (kept ids) \<longleftrightarrow> i \<in> set ids \<and> card (set (takeWhile (\<lambda>x. x \<noteq> i) (rev ids))) < 256"
proof (cases "i \<in> set ids")
  case True
  then obtain xs ys where ids: "ids = xs @ i # ys" "i \<notin> set ys" by (metis split_list_last)
  have app: "remdups (as @ bs) = filter (\<lambda>x. x \<notin> set bs) (remdups as) @ remdups bs" for as bs :: "string list"
    by (induction as) auto
  define A where "A = filter (\<lambda>x. x \<notin> set (i # ys)) (remdups xs)"
  have r: "remdups ids = A @ i # remdups ys" unfolding ids(1) A_def app [of xs "i # ys"] using ids(2) by simp
  have "takeWhile (\<lambda>x. x \<noteq> i) (rev ids) = rev ys" using ids by (simp add: takeWhile_append)
  moreover have "card (set ys) = length (remdups ys)" by (simp add: length_remdups_card_conv)
  moreover have "i \<notin> set A" by (simp add: A_def)
  ultimately show ?thesis using True ids(2) unfolding kept_def r by (auto simp: drop_append drop_Cons' dest: in_set_dropD split: if_splits)
next
  case False
  then show ?thesis by (auto simp: kept_def dest: in_set_dropD)
qed

definition numbered :: "string list \<Rightarrow> traces \<Rightarrow> bool" where
  "numbered ids ts =
     (om_ok ts \<and> om_keys ts = kept ids
      \<and> (\<forall>i t. om_get ts i = Some t \<longrightarrow> teSeq t = call_number (dropWhile (\<lambda>x. x \<noteq> i) (rev ids))))"

lemma next_number:
  assumes "numbered ids ts"
  shows "Suc (teSeq (or_else (om_get ts i) \<lparr> teSeq = 0, teTokens = [] \<rparr>)) = call_number (i # rev ids)"
proof -
  have "om_get ts i = None \<longleftrightarrow> \<not> (i \<in> set ids \<and> card (set (takeWhile (\<lambda>x. x \<noteq> i) (rev ids))) < 256)"
    using assms kept_mem [of i ids] by (simp add: numbered_def om_get_None_iff)
  then show ?thesis using assms
    by (cases "om_get ts i") (auto simp: call_number.simps or_else_def numbered_def)
qed

lemma om_keys_set_present: "k \<in> set (om_keys m) \<Longrightarrow> om_keys (om_set m k v) = om_keys m"
  by (induction m) (auto simp: om_keys_def)

lemma om_get_tl: "om_ok m \<Longrightarrow> om_get (tl m) k = Some v \<Longrightarrow> om_get m k = Some v"
  using om_get_in [of "tl m" k v] om_get_Some_iff [of m k v] by (cases m) auto

lemma numbered_next:
  assumes "numbered ids ts" "i \<noteq> []" "nextSeq (Some i) ts = (seq, ts')"
  shows "seq = Some (call_number (i # rev ids))" "numbered (ids @ [i]) ts'"
proof -
  define t where "t = or_else (om_get ts i) \<lparr> teSeq = 0, teTokens = [] \<rparr>"
  define ns where "ns = om_set (om_delete ts i) i (t\<lparr> teSeq := Suc (teSeq t) \<rparr>)"
  have n: "Suc (teSeq t) = call_number (i # rev ids)" using next_number [OF assms(1)] by (simp add: t_def)
  have s: "seq = Some (Suc (teSeq t))" "ts' = (if length ns > 256 then tl ns else ns)"
    using assms(2,3) by (auto simp: nextSeq_def given_def Let_def t_def [symmetric] ns_def)
  then show "seq = Some (call_number (i # rev ids))" using n by simp
  have ok: "om_ok ns" using assms(1) by (simp add: ns_def numbered_def omap_simps)
  have keys: "om_keys ns = filter (\<lambda>x. x \<noteq> i) (kept ids) @ [i]"
  proof -
    have "ns = om_delete ts i @ [(i, t\<lparr> teSeq := Suc (teSeq t) \<rparr>)]" by (simp add: ns_def om_set_absent omap_simps)
    then have "om_keys ns = filter (\<lambda>x. x \<noteq> i) (om_keys ts) @ [i]" by (simp add: om_keys_def om_delete_def filter_map o_def)
    then show ?thesis using assms(1) by (simp add: numbered_def)
  qed
  have len: "length ns = length (om_keys ns)" by (simp add: om_keys_def)
  have keys': "om_keys ts' = kept (ids @ [i])"
    unfolding kept_snoc keys [symmetric] s(2) len by (simp add: Let_def om_keys_def map_tl)
  have ok': "om_ok ts'" using ok s(2) by (auto simp: om_ok_def om_keys_def map_tl distinct_tl)
  have "teSeq u = call_number (dropWhile (\<lambda>x. x \<noteq> j) (rev (ids @ [i])))" if "om_get ts' j = Some u" for j u
  proof -
    have "om_get ns j = Some u" using that s(2) om_get_tl [OF ok] by (auto split: if_splits)
    then show ?thesis using assms(1) n by (auto simp: ns_def omap_simps numbered_def split: if_splits)
  qed
  then show "numbered (ids @ [i]) ts'" using ok' keys' by (simp add: numbered_def)
qed

lemma numbered_emit:
  assumes "numbered ids ts" "emit_block P opts r ts = (b, ts')"
  shows "numbered ids ts'"
proof (cases "\<exists>i t m. given (wrTraceId r) = Some i \<and> om_get ts i = Some t \<and> ts' = om_set ts i (t\<lparr> teTokens := m \<rparr>)")
  case True
  then obtain i t m where x: "om_get ts i = Some t" "ts' = om_set ts i (t\<lparr> teTokens := m \<rparr>)" by blast
  then have "i \<in> set (om_keys ts)" using om_get_None_iff [of ts i] by auto
  then show ?thesis using assms(1) x om_keys_set_present [of i ts] by (auto simp: numbered_def omap_simps)
next
  case False
  then have "ts' = ts" using assms(2) by (auto simp: emit_block_def Let_def split: prod.splits option.splits bind_splits)
  then show ?thesis using assms(1) by simp
qed

text \<open>The traces named by the calls of a run.\<close>

fun traces_of :: "wire_event list \<Rightarrow> string list" where
  "traces_of [] = []"
| "traces_of (Call _ _ _ ctx # evs) = (case given (map_option fst ctx) of None \<Rightarrow> traces_of evs | Some i \<Rightarrow> i # traces_of evs)"
| "traces_of (Print _ # evs) = traces_of evs"

lemma run_numbered:
  assumes "wire_run P opts original body evs (s, w) = (xs, s', w')" "numbered ids (wsTraces s)"
  shows "numbered (ids @ traces_of evs) (wsTraces s')"
  using assms
proof (induction evs arbitrary: s w xs ids)
  case (Cons ev evs)
  show ?case
  proof (cases ev)
    case (Call q started answered ctx)
    obtain x s1 w1 where c: "wire_call opts original body q started answered ctx (s, w) = (x, s1, w1)" by (metis prod_cases3)
    obtain ys where r: "wire_run P opts original body evs (s1, w1) = (ys, s', w')"
      using Cons.prems(1) Call c by (auto split: prod.splits)
    obtain seq ts where n: "nextSeq (map_option fst ctx) (wsTraces s) = (seq, ts)" by fastforce
    then have ts: "wsTraces s1 = ts" using c by (auto simp: wire_call_def split: prod.splits)
    show ?thesis
    proof (cases "given (map_option fst ctx)")
      case None
      then show ?thesis using Cons.IH [OF r] Cons.prems(2) n ts Call by (simp add: nextSeq_def)
    next
      case (Some i)
      then have i: "map_option fst ctx = Some i" "i \<noteq> []" by (auto simp: given_def split: option.splits if_splits)
      from numbered_next(2) [OF Cons.prems(2) i(2)] n i(1) ts have "numbered (ids @ [i]) (wsTraces s1)" by metis
      from Cons.IH [OF r this] show ?thesis using Some Call by simp
    qed
  next
    case (Print i)
    have "numbered ids (wsTraces (wire_emit P opts i s))"
      using numbered_emit [OF Cons.prems(2)] by (auto simp: wire_emit_def split: prod.splits)
    then show ?thesis using Cons Print by (cases "i < length (wsOpen s)") auto
  qed
qed simp

definition no_calls :: wire_state where
  "no_calls = \<lparr> wsTraces = [], wsOpen = [], wsBlocks = [] \<rparr>"

text \<open>
  C23. The wire log only watches, and its memory is bounded. Whatever the order in which blocks are printed, the
  caller gets for each call what the wrapped fetch gives for that very call; the traces remembered are the at
  most 256 used last; and the next call of a trace gets the number after that of the trace's call before, or
  starts at one when 256 other traces came in between.
\<close>

theorem wire_log_only_watches:
  assumes "wire_run P opts original body evs (no_calls, w) = (xs, s, w')" "i \<noteq> []"
  shows "plain_run original evs w = (xs, w')
    \<and> om_keys (wsTraces s) = kept (traces_of evs) \<and> length (wsTraces s) \<le> 256
    \<and> fst (nextSeq (Some i) (wsTraces s)) = Some (call_number (i # rev (traces_of evs)))"
proof -
  have "numbered [] (wsTraces no_calls)" by (simp add: numbered_def no_calls_def omap_simps om_keys_def kept_def)
  from run_numbered [OF assms(1) this] have n: "numbered (traces_of evs) (wsTraces s)" by simp
  then have "om_keys (wsTraces s) = kept (traces_of evs)" by (simp add: numbered_def)
  moreover from this have "length (wsTraces s) \<le> 256" using length_map [of fst "wsTraces s"] by (simp add: om_keys_def kept_def)
  ultimately show ?thesis using run_transparent [OF assms(1)] numbered_next(1) [OF n assms(2)]
    by (metis prod.collapse)
qed

theorem wire_log_only_watches_witness:
  "\<exists>s :: wire_state. fst (nextSeq (Some ''t'') (wsTraces s)) = Some 3 \<and> om_keys (wsTraces s) = [''u'', ''t'']"
proof -
  let ?q = "\<lparr> fcRequest = None, fcUrl = ''/x'', fcMethod = None, fcHeaders = None, fcBody = NoBody \<rparr>"
  let ?call = "\<lambda>i. Call ?q 0 0 (Some (i, ''s''))"
  obtain xs s w where r: "wire_run (fixture no_net (\<lambda>_. None)) \<lparr> woService = ''a'', woMode = Pretty, woMaxBody = 0 \<rparr>
      (\<lambda>_ w. (Inl (JsError ''TypeError'' ''fetch failed''), w)) (\<lambda>_. None) [?call ''t'', Print 0, ?call ''u'', ?call ''t''] (no_calls, 0 :: int) = (xs, s, w)"
    by (metis prod_cases3)
  have "fst (nextSeq (Some ''t'') (wsTraces s)) = Some (call_number [''t'', ''t'', ''u'', ''t''])" "om_keys (wsTraces s) = kept [''t'', ''u'', ''t'']"
    using wire_log_only_watches [OF r, of "''t''"] by (simp_all add: given_def)
  moreover have "call_number [''t'', ''t'', ''u'', ''t''] = 3" "kept [''t'', ''u'', ''t''] = [''u'', ''t'']"
    by code_simp+
  ultimately show ?thesis by auto
qed

end
