(* ===== verification/WireForm.thy ===== *)
theory WireForm
  imports WireLog
begin

text \<open>
  The wire log and the exchange client: \<^verbatim>\<open>URLSearchParams\<close> reads back the form it wrote, the headers of a
  request are found under their lower-case names, and an exchange is named for what it asks.
\<close>

section \<open>Forms\<close>

lemma hex_digits: "k < 16 \<Longrightarrow> hex_value (upper_hex k) = Some k"
proof -
  have "list_all (\<lambda>k. hex_value (upper_hex k) = Some k) [0..<16]" by code_simp
  then show "k < 16 \<Longrightarrow> hex_value (upper_hex k) = Some k" by (simp only: list_all_iff set_upt) simp
qed

lemma form_char_parsed: "form_unescape (form_char c @ r) = c # form_unescape r"
proof -
  have n: "(of_char c :: nat) div 16 < 16" "(of_char c :: nat) mod 16 < 16"
    using nat_of_char_less_256 [of c] by (simp_all add: less_mult_imp_div_less)
  have "16 * ((of_char c :: nat) div 16) + of_char c mod 16 = of_char c" by (rule mult_div_mod_eq)
  then show ?thesis using hex_digits [OF n(1)] hex_digits [OF n(2)]
    by (auto simp: form_char_def Let_def)
qed

lemma form_text_parsed: "form_unescape (form_text s) = s"
proof -
  have "form_unescape (form_text s @ []) = s" by (induction s) (simp_all add: form_text_def form_char_parsed)
  then show ?thesis by simp
qed

lemma hex_chars: "k < 16 \<Longrightarrow> upper_hex k \<notin> set ''&=?''"
proof -
  have "list_all (\<lambda>k. upper_hex k \<notin> set ''&=?'') [0..<16]" by code_simp
  then show "k < 16 \<Longrightarrow> upper_hex k \<notin> set ''&=?''" by (simp only: list_all_iff set_upt) simp
qed

lemma form_char_chars: "x \<in> set (form_char c) \<Longrightarrow> x \<noteq> CHR ''&'' \<and> x \<noteq> CHR ''='' \<and> x \<noteq> CHR ''?''"
proof -
  have n: "(of_char c :: nat) div 16 < 16" "(of_char c :: nat) mod 16 < 16"
    using nat_of_char_less_256 [of c] by (simp_all add: less_mult_imp_div_less)
  show "x \<in> set (form_char c) \<Longrightarrow> x \<noteq> CHR ''&'' \<and> x \<noteq> CHR ''='' \<and> x \<noteq> CHR ''?''"
    using hex_chars [OF n(1)] hex_chars [OF n(2)] by (auto simp: form_char_def Let_def split: if_splits)
qed

lemma form_text_chars: "x \<in> set (form_text s) \<Longrightarrow> x \<noteq> CHR ''&'' \<and> x \<noteq> CHR ''='' \<and> x \<noteq> CHR ''?''"
  using form_char_chars by (auto simp: form_text_def)

lemma form_field_parsed: "form_field (form_text k @ CHR ''='' # form_text v) = (k, v)"
proof -
  have "break_at (\<lambda>c. c = CHR ''='') (form_text k @ CHR ''='' # form_text v) = (form_text k, CHR ''='' # form_text v)"
    using form_text_chars by (auto simp: break_at_def takeWhile_append dropWhile_append)
  then show ?thesis by (simp add: form_field_def form_text_parsed)
qed

lemma form_decode_encode: "form_decode (form_encode ps) = ps"
proof (cases ps)
  case Nil
  then show ?thesis by (simp add: form_encode_def form_decode_def starts_with_def)
next
  case (Cons p ps')
  let ?f = "\<lambda>p. form_text (fst p) @ ''='' @ form_text (snd p)"
  have "\<exists>c r. form_encode ps = c # r \<and> c \<noteq> CHR ''?''"
    using form_text_chars [of _ "fst p"] Cons by (cases "form_text (fst p)"; cases ps') (auto simp: form_encode_def)
  then have q: "\<not> starts_with ''?'' (form_encode ps)" by (auto simp: starts_with_def)
  have "split_on CHR ''&'' (form_encode ps) = map ?f ps"
    unfolding form_encode_def by (rule split_on_join) (use Cons form_text_chars in auto)
  moreover have "filter (\<lambda>part. part \<noteq> []) (map ?f ps) = map ?f ps" by (simp add: filter_id_conv)
  ultimately show ?thesis using q form_field_parsed by (simp add: form_decode_def o_def)
qed

section \<open>Headers\<close>

lemma header_value_map: "header_value hs k = map_of hs k"
  by (induction hs) (auto simp: header_value_def)

lemma headers_ok: "om_ok m \<Longrightarrow> om_ok (fold header_append hs m)"
  by (induction hs arbitrary: m) (simp_all add: header_append_def Let_def omap_simps)

lemma header_entry: "header_value (header_entries hs) k = om_get (fold header_append hs []) k"
proof -
  let ?m = "fold header_append hs []"
  have ok: "om_ok ?m" by (rule headers_ok) (simp add: omap_simps)
  have "distinct (map fst (sort_key fst ?m))"
    using ok by (auto simp: om_ok_def om_keys_def distinct_map)
  then have "map_of (sort_key fst ?m) k = Some v \<longleftrightarrow> om_get ?m k = Some v" for v
    using om_get_Some_iff [OF ok, of k v] by (simp add: map_of_eq_Some_iff)
  then show ?thesis unfolding header_entries_def header_value_map by (metis option.exhaust)
qed

lemma header_append_get:
  "om_get (header_append p m) k = (if lower (fst p) = k then Some (case om_get m k of None \<Rightarrow> trim (snd p) | Some w \<Rightarrow> w @ '', '' @ trim (snd p)) else om_get m k)"
  by (auto simp: header_append_def Let_def omap_simps)

section \<open>The exchange as it is logged\<close>

text \<open>A request of the model as the call it is: a URL, with the rest in \<^verbatim>\<open>init\<close> and a string for a body.\<close>

definition as_call :: "http_req \<Rightarrow> fetch_call" where
  "as_call q = \<lparr> fcRequest = None, fcUrl = qUrl q, fcMethod = Some (qMethod q), fcHeaders = Some (qHeaders q), fcBody = Text (qBody q) \<rparr>"

lemma header_append_others:
  "\<forall>p \<in> set hs. lower (fst p) \<noteq> k \<Longrightarrow> om_get (fold header_append hs m) k = om_get m k"
  by (induction hs arbitrary: m) (simp_all add: header_append_get)

lemma lower_names: "lower ''content-type'' = ''content-type''" "lower ''accept'' = ''accept''"
  "lower ''authorization'' = ''authorization''" "lower ''dpop'' = ''dpop''"
  by code_simp+

lemma exchange_content_type:
  assumes "\<forall>p \<in> set hs. fst p \<in> {''authorization'', ''dpop''}"
  shows "content_type (header_entries (base_headers @ hs)) = Some ''application/x-www-form-urlencoded''"
proof -
  have t: "trim ''application/x-www-form-urlencoded'' = ''application/x-www-form-urlencoded''" by code_simp
  have "\<forall>p \<in> set hs. lower (fst p) \<noteq> ''content-type''" using assms lower_names by fastforce
  then show ?thesis
    by (simp add: content_type_def header_entry header_append_others base_headers_def header_append_get lower_names t omap_simps)
qed

lemma exchange_headline:
  assumes "qHeaders q = base_headers @ hs" "\<forall>p \<in> set hs. fst p \<in> {''authorization'', ''dpop''}"
    and "qBody q = form_encode (base_params x @ b)"
  shows "\<exists>bound. headline (base_record opts (as_call q) started ctx seq) =
      ''token-exchange  aud='' @ xAudience x @ '' scope='' @ xScope x @ bound
    \<and> bound \<in> {[], ''  (DPoP-bound)''} \<and> (''dpop'' \<notin> fst ` set hs \<longrightarrow> bound = [])"
proof -
  let ?r = "base_record opts (as_call q) started ctx seq"
  have headers: "wrRequestHeaders ?r = header_entries (base_headers @ hs)" and body: "wrRequestBody ?r = Some (form_encode (base_params x @ b))"
    using assms(1,3) by (simp_all add: base_record_def as_call_def or_else_def requestBodyText_def)
  have form: "has_part (Some ''application/x-www-form-urlencoded'') ''form-urlencoded''" by code_simp
  have grant: "ends_with '':token-exchange'' grant_type" by code_simp
  have "form_encode (base_params x @ b) \<noteq> []"
  proof
    assume "form_encode (base_params x @ b) = []"
    then have "form_decode [] = base_params x @ b" using form_decode_encode [of "base_params x @ b"] by simp
    then show False by (simp add: form_decode_def starts_with_def base_params_def)
  qed
  then have body': "given (wrRequestBody ?r) = Some (form_encode (base_params x @ b))" using body by (simp add: given_def)
  define dpop where "dpop = given (header_value (wrRequestHeaders ?r) ''dpop'')"
  have no_dpop: "dpop = None" if "''dpop'' \<notin> fst ` set hs"
  proof -
    have "\<forall>p \<in> set hs. lower (fst p) \<noteq> ''dpop''" using assms(2) that lower_names by force
    then show ?thesis unfolding dpop_def headers
      by (simp add: header_entry header_append_others base_headers_def header_append_get lower_names omap_simps given_def)
  qed
  have "form_headline ?r = Some (''token-exchange  aud='' @ xAudience x @ '' scope='' @ xScope x @ (if dpop \<noteq> None then ''  (DPoP-bound)'' else []))"
    unfolding form_headline_def body' headers exchange_content_type [OF assms(2)] dpop_def [symmetric, unfolded headers]
    using grant form by (simp add: form_decode_encode base_params_def given_def or_else_def grant_type_def)
  then have "headline ?r = ''token-exchange  aud='' @ xAudience x @ '' scope='' @ xScope x @ (if dpop \<noteq> None then ''  (DPoP-bound)'' else [])"
    unfolding headline_def by (simp split: prod.splits)
  then show ?thesis using no_dpop by (cases dpop) auto
qed

lemma does_client_part:
  "does (client_part P x) (\<lambda>es r. requests es = [] \<and> (\<forall>b h. r = Inr (b, h) \<longrightarrow>
     (\<exists>b' h'. b = base_params x @ b' \<and> h = base_headers @ h' \<and> (\<forall>p \<in> set h'. fst p = ''authorization''))))"
proof (cases "or_else (xClientAuth x) Basic")
  case Basic
  then show ?thesis by (auto simp: does_def client_part_def io_return_def)
next
  case (PrivateKeyJwt pem kid alg aud)
  have "does (buildClientAssertion P (xClientId x) pem kid alg aud) (\<lambda>es r. quiet es)"
    by (auto simp: buildClientAssertion_def Let_def intro!: does_quiet_bind does_quiet_catch_throw quiet_atoms)
  from does_bind [OF this does_return] show ?thesis unfolding client_part_def PrivateKeyJwt client_auth.case
    by (rule does_conseq) (auto simp: quiet_def)
qed

lemma does_dpop_part:
  "does (dpop_part P x) (\<lambda>es r. requests es = [] \<and> (\<forall>d. r = Inr d \<longrightarrow>
     (\<forall>p \<in> set d. fst p = ''dpop'') \<and> (xDpop x = None \<longrightarrow> d = [])))"
proof (cases "xDpop x")
  case None
  then show ?thesis by (auto simp: does_def dpop_part_def io_return_def)
next
  case (Some key)
  have q: "does (createDpopProof P key ''POST'' (xTokenEndpoint x) None n) (\<lambda>es r. quiet es)" for n
    by (auto simp: createDpopProof_def intro!: does_quiet_bind quiet_atoms)
  from does_bind [OF does_read does_bind [OF q does_return]] show ?thesis unfolding dpop_part_def Some option.case
    by (rule does_conseq) (auto simp: Some quiet_def)
qed

text \<open>
  C29. The wire log names a token exchange for what it is. Whatever the exchange client sends, however the client
  authenticates and whether or not the exchange is bound to a key, its block is headed by the audience and the
  scope that were asked for, read back out of the encoded form, and says DPoP-bound only if a key was given.
\<close>

theorem exchange_shown_as_sent:
  assumes "sendExchange P x s = (y, t)"
  shows "\<exists>es. out t = out s @ es \<and> (\<forall>q \<in> set (requests es). \<exists>bound.
      headline (base_record opts (as_call q) started ctx seq) = ''token-exchange  aud='' @ xAudience x @ '' scope='' @ xScope x @ bound
    \<and> bound \<in> {[], ''  (DPoP-bound)''} \<and> (xDpop x = None \<longrightarrow> bound = []))"
proof -
  define Q where "Q = (\<lambda>q. \<exists>bound. headline (base_record opts (as_call q) started ctx seq) =
      ''token-exchange  aud='' @ xAudience x @ '' scope='' @ xScope x @ bound \<and> bound \<in> {[], ''  (DPoP-bound)''} \<and> (xDpop x = None \<longrightarrow> bound = []))"
  have one: "Q \<lparr> qMethod = ''POST'', qUrl = xTokenEndpoint x, qHeaders = base_headers @ hs, qBody = form_encode (base_params x @ b) \<rparr>"
    if "\<forall>p \<in> set hs. fst p \<in> {''authorization'', ''dpop''}" "xDpop x = None \<longrightarrow> ''dpop'' \<notin> fst ` set hs" for hs b
    using exchange_headline [of "\<lparr> qMethod = ''POST'', qUrl = xTokenEndpoint x, qHeaders = base_headers @ hs, qBody = form_encode (base_params x @ b) \<rparr>" hs x b opts started ctx seq]
      that unfolding Q_def by fastforce
  have "does (sendExchange P x) (\<lambda>es r. \<forall>q \<in> set (requests es). Q q)"
    unfolding sendExchange_def case_prod_unfold
    by (rule does_conseq [OF does_bind [OF does_client_part does_bind [OF does_dpop_part
            does_bind [OF does_catch [OF does_http_fetch does_throw]
              does_bind [OF store_nonce_quiet does_return]]]]])
      (auto intro!: one, force+)
  from doesD [OF this assms] show ?thesis unfolding Q_def by blast
qed

theorem exchange_shown_as_sent_witness:
  "\<exists>q. requests (out (snd (sendExchange (fixture no_net (\<lambda>_. None)) fixture_params (idle 0)))) = [q]
    \<and> headline (base_record \<lparr> woService = ''agent'', woMode = Pretty, woMaxBody = 0 \<rparr> (as_call q) 0 None None)
      = ''token-exchange  aud='' @ xAudience fixture_params @ '' scope='' @ xScope fixture_params"
proof -
  let ?r = "sendExchange (fixture no_net (\<lambda>_. None)) fixture_params (idle 0)"
  have "length (requests (out (snd ?r))) = 1" "xDpop fixture_params = None"
    by (simp_all add: sendExchange_def client_part_def buildClientAssertion_def dpop_part_def store_nonce_def fetch_error_def Let_def exchange_fixture_eval runtime_eval or_else_def)
  then obtain q where "requests (out (snd ?r)) = [q]" by (auto simp: length_Suc_conv)
  then show ?thesis
    using exchange_shown_as_sent [of "fixture no_net (\<lambda>_. None)" fixture_params "idle 0" "fst ?r" "snd ?r"
        "\<lparr> woService = ''agent'', woMode = Pretty, woMaxBody = 0 \<rparr>" 0 None None] \<open>xDpop fixture_params = None\<close>
    by (auto simp: idle_def)
qed

end
