(* ===== verification/Curity.thy ===== *)
theory Curity
  imports Exchange Gate
begin

text \<open>
  \<^verbatim>\<open>k8s/curity/procedures\<close>: the three procedures the authorization server runs. The transformation
  of \<^verbatim>\<open>add-roles.js\<close> and the token procedure of \<^verbatim>\<open>authorization-code.js\<close> make the login token;
  \<^verbatim>\<open>token-exchange.js\<close> decides every exchange of the delegation. Curity, jose4j and SPIRE's key
  endpoint are parameters. Claims a procedure reads come as Java maps and sets, here as objects and
  arrays.
\<close>

section \<open>Failures\<close>

text \<open>
  What \<^verbatim>\<open>exceptionFactory\<close> makes, and any other exception. \<open>wire\<close> is how they reach the client,
  as the comment on the error helpers of the procedure documents it: status, error and description.
\<close>

datatype procedure_error =
    BadRequest string
  | BadRequestCode string string
  | Forbidden string
  | InternalError string
  | Raised string

fun wire :: "procedure_error \<Rightarrow> int \<times> string \<times> string" where
  "wire (BadRequest d) = (400, ''invalid_request'', d)"
| "wire (BadRequestCode c d) = (400, ''invalid_request'', c @ '' '' @ d)"
| "wire (Forbidden d) = (403, ''access_denied'', d)"
| "wire (InternalError d) = (500, ''server_error'', d)"
| "wire (Raised d) = (500, ''server_error'', d)"

section \<open>Policy\<close>

record aud_policy =
  apScopes :: "string list"
  apMayAct :: "string option"

record client_policy =
  cpPerAudience :: "(string, aud_policy) omap"
  cpAllowedActor :: string

definition SPIFFE_COPILOT :: string where "SPIFFE_COPILOT = spiffe_id ''agents'' ''agent-copilot''"
definition SPIFFE_SPECIALIST :: string where "SPIFFE_SPECIALIST = spiffe_id ''agents'' ''agent-specialist''"
definition SPIFFE_GATEWAY :: string where "SPIFFE_GATEWAY = spiffe_id ''mcp'' ''agentgateway''"
definition SPIFFE_MCP_OPS :: string where "SPIFFE_MCP_OPS = spiffe_id ''mcp'' ''mcp-ops''"
definition SPIFFE_MCP_INSPECT :: string where "SPIFFE_MCP_INSPECT = spiffe_id ''mcp'' ''mcp-inspect''"

definition copilot_client :: string where "copilot_client = ''https://copilot.localtest.me/.well-known/oauth-client''"
definition specialist_client :: string where "specialist_client = ''https://specialist.localtest.me/.well-known/oauth-client''"

definition grants :: "string list \<Rightarrow> string option \<Rightarrow> aud_policy" where
  "grants scopes mayAct = \<lparr> apScopes = scopes, apMayAct = mayAct \<rparr>"

definition CLIENT_POLICY :: "(string, client_policy) omap" where
  "CLIENT_POLICY =
     [(copilot_client, \<lparr> cpPerAudience =
         [(''mcp-gateway'', grants [''inspect:read''] (Some SPIFFE_GATEWAY)),
          (''agent-specialist'', grants [''inspect:read'', ''ops:write'', ''llm:invoke''] (Some SPIFFE_SPECIALIST)),
          (''llm-gateway'', grants [''llm:invoke''] None)], cpAllowedActor = SPIFFE_COPILOT \<rparr>),
      (specialist_client, \<lparr> cpPerAudience =
         [(''mcp-gateway'', grants [''inspect:read'', ''ops:write''] (Some SPIFFE_GATEWAY)),
          (''llm-gateway'', grants [''llm:invoke''] None)], cpAllowedActor = SPIFFE_SPECIALIST \<rparr>),
      (''agentgateway'', \<lparr> cpPerAudience =
         [(''mcp-inspect'', grants [''inspect:read''] (Some SPIFFE_MCP_INSPECT)),
          (''mcp-ops'', grants [''ops:write''] (Some SPIFFE_MCP_OPS))], cpAllowedActor = SPIFFE_GATEWAY \<rparr>),
      (''mcp-ops'', \<lparr> cpPerAudience = [(''ops-api'', grants [''ops:write''] None)], cpAllowedActor = SPIFFE_MCP_OPS \<rparr>),
      (''mcp-inspect'', \<lparr> cpPerAudience = [(''inspect-api'', grants [''inspect:read''] None)], cpAllowedActor = SPIFFE_MCP_INSPECT \<rparr>)]"

section \<open>The server around the procedure\<close>

text \<open>
  \<open>cuFetch\<close> is a request for SPIRE's key set (status and body, or the exception's text); \<open>cuKeys\<close> builds
  jose4j's resolver and lists the key ids; \<open>cuHeader\<close> decodes the first part of a compact JWS;
  \<open>cuProcess\<close> is jose4j's consumer for this endpoint's audience: the subject of a valid SVID.
  \<open>cuInit\<close> is \<^verbatim>\<open>getInitializedContext\<close> with its authorizers, giving the default token data for an
  audience and scopes; \<open>cuIssue\<close> signs token data; \<open>cuSecondsUntil\<close> is Curity's helper.
\<close>

record ('w, 'r) curity =
  cuNow :: "'w \<Rightarrow> int \<times> 'w"
  cuFetch :: "'w \<Rightarrow> (string + int \<times> string) \<times> 'w"
  cuKeys :: "string \<Rightarrow> string + ('r \<times> string option list)"
  cuHeader :: "string \<Rightarrow> string + js"
  cuProcess :: "'r \<Rightarrow> string \<Rightarrow> 'w \<Rightarrow> (string + string) \<times> 'w"
  cuInit :: "string \<Rightarrow> string list \<Rightarrow> 'w \<Rightarrow> (procedure_error + (string \<times> js) list) \<times> 'w"
  cuIssue :: "(string \<times> js) list \<Rightarrow> 'w \<Rightarrow> (procedure_error + string) \<times> 'w"
  cuSecondsUntil :: "js \<Rightarrow> js"

text \<open>\<^verbatim>\<open>JWKS_CACHE\<close> of a worker thread, the world, and what the server logged.\<close>

record ('w, 'r) curity_state =
  csWorld :: 'w
  csResolver :: "'r option"
  csKids :: "string list"
  csFetchedAt :: int
  csLog :: "string list"

type_synonym ('w, 'r, 'a) procedure = "(('w, 'r) curity_state, procedure_error, 'a) io"

definition cu_get :: "('w \<Rightarrow> 'a \<times> 'w) \<Rightarrow> ('w, 'r, 'a) procedure" where
  "cu_get f s = (case f (csWorld s) of (a, w) \<Rightarrow> (Inr a, s\<lparr> csWorld := w \<rparr>))"

definition cu_try :: "('w \<Rightarrow> (procedure_error + 'a) \<times> 'w) \<Rightarrow> ('w, 'r, 'a) procedure" where
  "cu_try f s = (case f (csWorld s) of (r, w) \<Rightarrow> (r, s\<lparr> csWorld := w \<rparr>))"

definition cu_warn :: "string \<Rightarrow> ('w, 'r, unit) procedure" where
  "cu_warn l = io_modify (\<lambda>s. s\<lparr> csLog := csLog s @ [l] \<rparr>)"

definition guard :: "bool \<Rightarrow> procedure_error \<Rightarrow> ('s, procedure_error, unit) io" where
  "guard b e = (if b then io_return () else io_throw e)"

definition lift_pe :: "procedure_error + 'a \<Rightarrow> ('s, procedure_error, 'a) io" where
  "lift_pe r s = (r, s)"

section \<open>Reading claims\<close>

definition proc_mayActSub :: "js \<Rightarrow> string option" where
  "proc_mayActSub raw =
     (case raw of
        JObj kvs \<Rightarrow> if nullish (jget raw ''sub'') then None else Some (js_string (jget raw ''sub''))
      | _ \<Rightarrow> None)"

definition claimToArray :: "js \<Rightarrow> string list" where
  "claimToArray v = (case v of JStr s \<Rightarrow> words_ws s | JArr xs \<Rightarrow> map js_string xs | _ \<Rightarrow> [])"

text \<open>\<^verbatim>\<open>String(v || '').split(/\s+/).filter(Boolean)\<close>\<close>

definition scope_words :: "js \<Rightarrow> string list" where
  "scope_words v = (if truthy v then words_ws (js_string v) else [])"

section \<open>The SVID of the actor\<close>

definition jwks_refetch_min_interval_ms :: int where "jwks_refetch_min_interval_ms = 30000"

definition fetchJwks :: "('w, 'r) curity \<Rightarrow> ('w, 'r, string + string) procedure" where
  "fetchJwks C =
     io_bind (cu_get (cuFetch C)) (\<lambda>r.
       io_return (case r of
          Inl m \<Rightarrow> Inl m
        | Inr p \<Rightarrow> if fst p \<noteq> 200 then Inl (''Error: SPIRE JWKS endpoint answered HTTP '' @ int_str (fst p)) else Inr (snd p)))"

definition jwtHeaderKid :: "('w, 'r) curity \<Rightarrow> string \<Rightarrow> procedure_error + string option" where
  "jwtHeaderKid C rawJwt =
     (case split_on CHR ''.'' rawJwt of
        p # _ # _ \<Rightarrow>
          (case cuHeader C p of
             Inl m \<Rightarrow> Inl (Raised m)
           | Inr header \<Rightarrow>
               if nullish header then Inl (Raised ''TypeError: Cannot read property \"kid\"'')
               else Inr (if truthy (jget header ''kid'') then Some (js_string (jget header ''kid'')) else None))
      | _ \<Rightarrow> Inr None)"

text \<open>\<^verbatim>\<open>kids[kid]\<close> on a plain object also finds what it inherits.\<close>

definition knows_kid :: "string list \<Rightarrow> string option \<Rightarrow> bool" where
  "knows_kid kids kid = (case kid of None \<Rightarrow> False | Some k \<Rightarrow> k \<in> set kids \<or> k \<in> set object_prototype)"

definition refetch :: "('w, 'r) curity \<Rightarrow> ('w, 'r, 'r) procedure" where
  "refetch C =
     io_bind (fetchJwks C) (\<lambda>body.
       case body of
         Inl m \<Rightarrow> io_bind (cu_warn (''SPIRE JWKS fetch failed: '' @ m)) (\<lambda>_. io_throw (InternalError ''SPIRE JWKS unavailable''))
       | Inr b \<Rightarrow>
           (case cuKeys C b of
              Inl m \<Rightarrow> io_throw (Raised m)
            | Inr p \<Rightarrow>
                io_bind (cu_get (cuNow C)) (\<lambda>now.
                io_bind (io_modify (\<lambda>s. s\<lparr> csResolver := Some (fst p),
                    csKids := filter (\<lambda>k. k \<noteq> []) (map the (filter (\<lambda>k. k \<noteq> None) (snd p))), csFetchedAt := now \<rparr>)) (\<lambda>_.
                  io_return (fst p)))))"

definition getResolver :: "('w, 'r) curity \<Rightarrow> string option \<Rightarrow> ('w, 'r, 'r) procedure" where
  "getResolver C neededKid =
     io_bind (io_read csResolver) (\<lambda>r.
       case r of
         None \<Rightarrow> refetch C
       | Some resolver \<Rightarrow>
           io_bind (io_read csKids) (\<lambda>kids.
             if knows_kid kids neededKid then io_return resolver
             else io_bind (cu_get (cuNow C)) (\<lambda>now.
                  io_bind (io_read csFetchedAt) (\<lambda>at.
                    if now - at < jwks_refetch_min_interval_ms then io_return resolver else refetch C))))"

definition verifySpiffeSvid :: "('w, 'r) curity \<Rightarrow> string \<Rightarrow> ('w, 'r, string) procedure" where
  "verifySpiffeSvid C rawJwt =
     io_bind (lift_pe (jwtHeaderKid C rawJwt)) (\<lambda>kid.
     io_bind (getResolver C kid) (\<lambda>resolver.
     io_bind (cu_get (cuProcess C resolver rawJwt)) (\<lambda>r.
       case r of
         Inl m \<Rightarrow> io_bind (cu_warn (''actor_token rejected: '' @ m)) (\<lambda>_.
                    io_throw (BadRequest ''actor_token is not a valid SPIFFE JWT-SVID for this token endpoint''))
       | Inr sub \<Rightarrow> io_return sub)))"

section \<open>The exchange\<close>

text \<open>The request; the subject token's claims are \<open>JNull\<close> when none was presented.\<close>

record exchange_request =
  erSubject :: js
  erActor :: "string option"
  erClientId :: string
  erAudiences :: "string list"
  erScopes :: "string list"

text \<open>
  \<^verbatim>\<open>perAudience[audience]\<close>: an entry, a member every object inherits (whose \<^verbatim>\<open>scopes\<close> are undefined), or
  nothing.
\<close>

datatype aud_lookup = Entry aud_policy | Inherited | Missing

definition lookup_audience :: "client_policy \<Rightarrow> string \<Rightarrow> aud_lookup" where
  "lookup_audience p a =
     (case om_get (cpPerAudience p) a of
        Some x \<Rightarrow> Entry x
      | None \<Rightarrow> if a \<in> set object_prototype then Inherited else Missing)"

definition no_scope :: "string \<Rightarrow> string \<Rightarrow> procedure_error" where
  "no_scope client aud =
     BadRequestCode ''invalid_scope'' (''no scope intersects subject + policy for client '' @ client @ '' / audience '' @ aud)"

text \<open>Steps 1 to 3: what the request may get, before anything is asked of the network. Client ids are
  registered ones, so never the name of an inherited member.\<close>

record decision =
  dcPolicy :: client_policy
  dcAudience :: string
  dcAudPolicy :: aud_policy
  dcNarrowed :: "string list"
  dcRoles :: "string list"
  dcActor :: string

definition requested_scopes :: "exchange_request \<Rightarrow> string list" where
  "requested_scopes q = (if erScopes q = [] then scope_words (jget (erSubject q) ''scope'') else erScopes q)"

definition narrow :: "exchange_request \<Rightarrow> string list \<Rightarrow> string list" where
  "narrow q allowed =
     filter (\<lambda>s. s \<in> set (scope_words (jget (erSubject q) ''scope'')) \<and> s \<in> set allowed) (requested_scopes q)"

definition lacks_write_role :: "exchange_request \<Rightarrow> string list \<Rightarrow> bool" where
  "lacks_write_role q allowed =
     (let roles = claimToArray (jget (erSubject q) ''roles'')
      in ''ops:write'' \<in> set (filter (\<lambda>s. s \<in> set allowed) (requested_scopes q)) \<and> ''sre'' \<notin> set roles \<and> ''oncall'' \<notin> set roles)"

definition decide_scopes :: "exchange_request \<Rightarrow> client_policy \<Rightarrow> string \<Rightarrow> string \<Rightarrow> procedure_error + decision" where
  "decide_scopes q p aud actor =
     (case lookup_audience p aud of
        Missing \<Rightarrow> Inl (BadRequest (''audience '' @ aud @ '' not allowed for client '' @ erClientId q))
      | Inherited \<Rightarrow>
          if list_ex (\<lambda>s. s \<in> set (scope_words (jget (erSubject q) ''scope''))) (requested_scopes q)
          then Inl (Raised ''TypeError: Cannot read property \"indexOf\" from undefined'')
          else Inl (no_scope (erClientId q) aud)
      | Entry ap \<Rightarrow>
          if narrow q (apScopes ap) = [] then Inl (no_scope (erClientId q) aud)
          else if lacks_write_role q (apScopes ap)
            then Inl (Forbidden (''user lacks a write role ('' @ [CHR 0x27] @ ''sre'' @ [CHR 0x27] @ '' or '' @ [CHR 0x27] @ ''oncall'' @ [CHR 0x27]
                        @ '') for ops:write''))
          else Inr \<lparr> dcPolicy = p, dcAudience = aud, dcAudPolicy = ap, dcNarrowed = narrow q (apScopes ap),
                     dcRoles = claimToArray (jget (erSubject q) ''roles''), dcActor = actor \<rparr>)"

definition decide :: "exchange_request \<Rightarrow> procedure_error + decision" where
  "decide q =
     (if erSubject q = JNull then Inl (BadRequest ''subject_token is required'')
      else case erActor q of
             None \<Rightarrow> Inl (BadRequest ''actor_token is required'')
           | Some actor \<Rightarrow>
               if actor = [] then Inl (BadRequest ''actor_token is required'')
               else (case om_get CLIENT_POLICY (erClientId q) of
                       None \<Rightarrow> Inl (BadRequestCode ''invalid_client''
                                 (''client '' @ erClientId q @ '' is not configured for token exchange''))
                     | Some p \<Rightarrow>
                         (case erAudiences q of
                            [aud] \<Rightarrow> decide_scopes q p aud actor
                          | auds \<Rightarrow> Inl (BadRequest (''exactly one audience is required, got '' @ nat_str (length auds))))))"

text \<open>Step 7: the claims stamped on Curity's default token data.\<close>

definition stamp :: "exchange_request \<Rightarrow> decision \<Rightarrow> string \<Rightarrow> (string \<times> js) list \<Rightarrow> (string \<times> js) list" where
  "stamp q d actor data0 =
     (let inboundAct = jget (erSubject q) ''act''; inboundAcr = jget (erSubject q) ''acr'';
          data1 = om_set data0 ''act'' (if nullish inboundAct then JObj [(''sub'', JStr actor)]
                                      else JObj [(''sub'', JStr actor), (''act'', inboundAct)]);
          data2 = (case apMayAct (dcAudPolicy d) of
                     Some m \<Rightarrow> if m = [] then data1 else om_set data1 ''may_act'' (JObj [(''sub'', JStr m)])
                   | None \<Rightarrow> data1);
          data3 = (if nullish inboundAcr then data2 else om_set data2 ''acr'' inboundAcr)
      in if dcRoles d \<noteq> [] then om_set data3 ''roles'' (JArr (map JStr (dcRoles d))) else data3)"

text \<open>Steps 4 to 7 up to the token data: initialise, verify the actor, check who may act, stamp.\<close>

definition token_data :: "('w, 'r) curity \<Rightarrow> exchange_request \<Rightarrow> decision \<Rightarrow> ('w, 'r, (string \<times> js) list) procedure" where
  "token_data C q d =
     io_bind (cu_try (cuInit C (dcAudience d) (dcNarrowed d))) (\<lambda>data0.
     io_bind (verifySpiffeSvid C (dcActor d)) (\<lambda>actor.
     io_bind (guard (actor = cpAllowedActor (dcPolicy d))
        (BadRequest (''actor SPIFFE ID '' @ actor @ '' is not on the allow-list for client '' @ erClientId q))) (\<lambda>_.
     io_bind (guard (proc_mayActSub (jget (erSubject q) ''may_act'') \<in> {None, Some actor})
        (BadRequest (''actor '' @ actor @ '' is not authorized by the subject token may_act (''
           @ or_else (proc_mayActSub (jget (erSubject q) ''may_act'')) [] @ '')''))) (\<lambda>_.
       io_return (stamp q d actor data0)))))"

definition exchange_result :: "('w, 'r) curity \<Rightarrow> exchange_request \<Rightarrow> ('w, 'r, js) procedure" where
  "exchange_result C q =
     io_bind (lift_pe (decide q)) (\<lambda>d.
     io_bind (token_data C q d) (\<lambda>data.
     io_bind (cu_try (cuIssue C data)) (\<lambda>tok.
       io_return (JObj [(''scope'', JStr (join '' '' (dcNarrowed d))), (''access_token'', JStr tok), (''token_type'', JStr ''bearer''),
         (''expires_in'', cuSecondsUntil C (jget (JObj data) ''exp'')),
         (''issued_token_type'', JStr ''urn:ietf:params:oauth:token-type:access_token'')]))))"

section \<open>Login\<close>

text \<open>\<^verbatim>\<open>add-roles.js\<close>: the roles of a subject at login.\<close>

definition add_roles :: "(string \<times> js) list \<Rightarrow> (string \<times> js) list" where
  "add_roles attributes =
     (let subject = jget (JObj attributes) ''subject''
      in if subject = JStr ''alice'' then om_set attributes ''roles'' (JArr [JStr ''sre''])
         else if subject = JStr ''carol'' then om_set attributes ''roles'' (JArr [JStr ''oncall''])
         else if subject = JStr ''bob'' then om_set attributes ''roles'' (JArr [JStr ''developer''])
         else attributes)"

text \<open>\<^verbatim>\<open>authorization-code.js\<close>: the claims of the login token; \<open>acr\<close> is the context attribute.\<close>

definition login_claims :: "js \<Rightarrow> (string \<times> js) list \<Rightarrow> (string \<times> js) list" where
  "login_claims acr data0 =
     om_set (om_set (om_set data0 ''acr'' acr) ''aud'' (JArr [JStr ''agent-copilot'']))
       ''may_act'' (JObj [(''sub'', JStr SPIFFE_COPILOT)])"

lemmas curity_eval [eval_simps] = SPIFFE_COPILOT_def SPIFFE_SPECIALIST_def SPIFFE_GATEWAY_def SPIFFE_MCP_OPS_def
  SPIFFE_MCP_INSPECT_def copilot_client_def specialist_client_def grants_def CLIENT_POLICY_def cu_get_def cu_try_def
  cu_warn_def guard_def lift_pe_def proc_mayActSub_def claimToArray_def scope_words_def jwks_refetch_min_interval_ms_def
  fetchJwks_def jwtHeaderKid_def knows_kid_def refetch_def getResolver_def verifySpiffeSvid_def lookup_audience_def
  no_scope_def requested_scopes_def narrow_def lacks_write_role_def decide_scopes_def decide_def stamp_def token_data_def
  exchange_result_def add_roles_def login_claims_def

end
