(* ===== verification/Invariant.thy ===== *)
theory Invariant
  imports Exchange
begin

text \<open>
  Contracts of asynchronous operations: \<open>ensures I m Q\<close> says that \<open>m\<close> keeps the state invariant
  \<open>I\<close>, whether it returns or throws, and that a value it returns satisfies \<open>Q\<close>. The rules follow
  the shape of the code. The locale \<open>stable_invariant\<close> is the interface between the packages: an
  invariant of one package's caches that does not look at what the others' operations write.
\<close>

definition ensures :: "('s \<Rightarrow> bool) \<Rightarrow> ('s, 'e, 'a) io \<Rightarrow> ('a \<Rightarrow> bool) \<Rightarrow> bool" where
  "ensures I m Q = (\<forall>s r t. I s \<longrightarrow> m s = (r, t) \<longrightarrow> I t \<and> (\<forall>a. r = Inr a \<longrightarrow> Q a))"

named_theorems ensures_intros \<open>rules for contracts\<close>

lemma ensuresI: "(\<And>s r t. I s \<Longrightarrow> m s = (r, t) \<Longrightarrow> I t \<and> (\<forall>a. r = Inr a \<longrightarrow> Q a)) \<Longrightarrow> ensures I m Q"
  unfolding ensures_def by blast

lemma ensuresD: "ensures I m Q \<Longrightarrow> I s \<Longrightarrow> m s = (r, t) \<Longrightarrow> I t \<and> (\<forall>a. r = Inr a \<longrightarrow> Q a)"
  unfolding ensures_def by blast

lemma ensures_post: "ensures I m Q \<Longrightarrow> I s \<Longrightarrow> m s = (Inr a, t) \<Longrightarrow> Q a"
  unfolding ensures_def by blast

lemma ensures_kept: "ensures I m Q \<Longrightarrow> I s \<Longrightarrow> I (snd (m s))"
  unfolding ensures_def by (metis prod.collapse)

lemma ensures_conseq: "ensures I m Q \<Longrightarrow> (\<And>a. Q a \<Longrightarrow> R a) \<Longrightarrow> ensures I m R"
  unfolding ensures_def by blast

lemma ensures_any: "ensures I m Q \<Longrightarrow> ensures I m (\<lambda>_. True)"
  by (erule ensures_conseq) simp

lemma ensures_return [ensures_intros]: "Q a \<Longrightarrow> ensures I (io_return a) Q"
  by (simp add: ensures_def io_return_def)

lemma ensures_throw [ensures_intros]: "ensures I (io_throw e) Q"
  by (simp add: ensures_def io_throw_def)

lemma ensures_lift_sum: "(\<And>a. x = Inr a \<Longrightarrow> Q a) \<Longrightarrow> ensures I (lift_sum x) Q"
  by (simp add: ensures_def lift_sum_def)

lemma ensures_require: "ensures I (require_that b e) (\<lambda>_. b)"
  by (simp add: ensures_def require_that_def io_return_def io_throw_def)

lemma ensures_read: "(\<And>s. I s \<Longrightarrow> Q (f s)) \<Longrightarrow> ensures I (io_read f) Q"
  by (simp add: ensures_def io_read_def)

lemma ensures_modify: "(\<And>s. I s \<Longrightarrow> I (f s)) \<Longrightarrow> ensures I (io_modify f) (\<lambda>_. True)"
  by (simp add: ensures_def io_modify_def)

lemma ensures_bind:
  assumes "ensures I m R" "\<And>a. R a \<Longrightarrow> ensures I (f a) Q"
  shows "ensures I (io_bind m f) Q"
proof (rule ensuresI)
  fix s r t assume s: "I s" and h: "io_bind m f s = (r, t)"
  obtain x u where m: "m s = (x, u)" by fastforce
  show "I t \<and> (\<forall>a. r = Inr a \<longrightarrow> Q a)"
  proof (cases x)
    case (Inl e)
    then show ?thesis using ensuresD [OF assms(1) s m] h m by (auto simp: io_bind_def)
  next
    case (Inr a)
    then have "I u" "R a" "f a u = (r, t)" using ensuresD [OF assms(1) s m] h m by (auto simp: io_bind_def)
    then show ?thesis using ensuresD [OF assms(2)] by blast
  qed
qed

lemma ensures_catch:
  assumes "ensures I m Q" "\<And>e. ensures I (h e) Q"
  shows "ensures I (io_catch m h) Q"
proof (rule ensuresI)
  fix s r t assume s: "I s" and k: "io_catch m h s = (r, t)"
  obtain x u where m: "m s = (x, u)" by fastforce
  show "I t \<and> (\<forall>a. r = Inr a \<longrightarrow> Q a)"
  proof (cases x)
    case (Inr a)
    then show ?thesis using ensuresD [OF assms(1) s m] k m by (auto simp: io_catch_def)
  next
    case (Inl e)
    then have "I u" "h e u = (r, t)" using ensuresD [OF assms(1) s m] k m by (auto simp: io_catch_def)
    then show ?thesis using ensuresD [OF assms(2)] by blast
  qed
qed

lemma ensures_finally:
  assumes "ensures I m Q" "ensures I f (\<lambda>_. True)"
  shows "ensures I (io_finally m f) Q"
proof (rule ensuresI)
  fix s r t assume s: "I s" and k: "io_finally m f s = (r, t)"
  obtain x u where m: "m s = (x, u)" by fastforce
  obtain y v where f: "f u = (y, v)" by fastforce
  show "I t \<and> (\<forall>a. r = Inr a \<longrightarrow> Q a)"
    using ensuresD [OF assms(1) s m] ensuresD [OF assms(2) _ f] k m f
    by (cases y) (auto simp: io_finally_def)
qed

lemma ensures_try: "ensures I m Q \<Longrightarrow> ensures I (io_try m) (\<lambda>r. \<forall>a. r = Inr a \<longrightarrow> Q a)"
  by (auto simp: ensures_def io_try_def split: prod.splits)

lemma ensures_if: "(b \<Longrightarrow> ensures I m Q) \<Longrightarrow> (\<not> b \<Longrightarrow> ensures I n Q) \<Longrightarrow> ensures I (if b then m else n) Q"
  by simp

lemma ensures_prop_of: "ensures I (prop_of v k) (\<lambda>a. a = jget v k \<and> \<not> nullish v)"
  by (simp add: ensures_def prop_of_def io_return_def io_throw_def)

lemma ensures_bind_any:
  "ensures I m R \<Longrightarrow> (\<And>a. ensures I (f a) Q) \<Longrightarrow> ensures I (io_bind m f) Q"
  by (rule ensures_bind)

locale stable_invariant =
  fixes I :: "('w, 'j, 'z) proc_scheme \<Rightarrow> bool"
  assumes stable_world: "I s \<Longrightarrow> I (s\<lparr>world := w\<rparr>)"
    and stable_out: "I s \<Longrightarrow> I (s\<lparr>out := es\<rparr>)"
    and stable_spans: "I s \<Longrightarrow> I (s\<lparr>spans := cs\<rparr>)"
    and stable_jwks: "I s \<Longrightarrow> I (s\<lparr>jwksCache := js\<rparr>)"
    and stable_nonces: "I s \<Longrightarrow> I (s\<lparr>dpopNonces := ns\<rparr>)"
begin

lemma world_get_ok: "ensures I (world_get f) (\<lambda>_. True)"
  by (auto simp: ensures_def world_get_def stable_world split: prod.splits)

lemma world_try_ok: "ensures I (world_try f) (\<lambda>_. True)"
  by (auto simp: ensures_def world_try_def stable_world split: prod.splits)

lemma emit_ok: "ensures I (emit x) (\<lambda>_. True)"
  by (simp add: ensures_def emit_def stable_out)

lemma set_active_attrs_ok: "ensures I (set_active_attrs as) (\<lambda>_. True)"
  by (auto simp: ensures_def set_active_attrs_def emit_def stable_out split: option.splits)

lemma http_fetch_ok: "ensures I (http_fetch P q) (\<lambda>_. True)"
  unfolding http_fetch_def by (rule ensures_bind [OF emit_ok world_try_ok])

lemma oboLog_ok: "ensures I (oboLog P ev) (\<lambda>_. True)"
proof (rule ensuresI)
  fix s r t assume s: "I s" and h: "oboLog P ev s = (r, t)"
  have g: "ensures I (io_bind (world_get (dateNow P)) (\<lambda>now. io_bind (io_read active_span) (\<lambda>sp. emit (g now sp)))) (\<lambda>_. True)" for g
    by (rule ensures_bind [OF world_get_ok ensures_bind [OF ensures_read emit_ok]]) simp
  show "I t \<and> (\<forall>a. r = Inr a \<longrightarrow> True)"
  proof (cases "oboOff P")
    case True
    then show ?thesis using s h by (simp add: oboLog_def)
  next
    case False
    then show ?thesis using ensuresD [OF g s] h unfolding oboLog_def by simp
  qed
qed

lemma with_active_span_ok:
  assumes "ensures I m Q"
  shows "ensures I (with_active_span P nm as m) Q"
  unfolding with_active_span_def
  by (intro ensures_bind_any [OF world_get_ok] ensures_bind_any [OF emit_ok]
      ensures_bind_any [OF ensures_modify] ensures_finally assms)
    (simp_all add: stable_spans ensures_def pop_span_def)

lemma lift_sum_ok: "ensures I (lift_sum x) (\<lambda>_. True)"
  by (simp add: ensures_lift_sum)

lemma client_part_ok: "ensures I (client_part P x) (\<lambda>_. True)"
proof -
  have "ensures I (buildClientAssertion P c pem kid alg aud) (\<lambda>_. True)" for c pem kid alg aud
    unfolding buildClientAssertion_def Let_def
    by (intro ensures_bind_any [OF ensures_catch [OF lift_sum_ok]] ensures_bind_any [OF world_get_ok] lift_sum_ok ensures_throw)
  then show ?thesis unfolding client_part_def
    by (cases "or_else (xClientAuth x) Basic") (auto intro!: ensures_bind_any ensures_return)
qed

lemma createDpopProof_ok: "ensures I (createDpopProof P k htm htu at n) (\<lambda>_. True)"
  unfolding createDpopProof_def
  by (intro ensures_bind_any [OF world_get_ok] ensures_lift_sum) simp

lemma dpop_part_ok: "ensures I (dpop_part P x) (\<lambda>_. True)"
  unfolding dpop_part_def
  by (cases "xDpop x")
     (auto intro!: ensures_bind_any [OF ensures_read] ensures_bind_any [OF createDpopProof_ok] ensures_intros)

lemma store_nonce_ok: "ensures I (store_nonce x rsp) (\<lambda>_. True)"
  by (auto simp: store_nonce_def ensures_def io_return_def io_modify_def stable_nonces split: option.splits)

lemma sendExchange_ok: "ensures I (sendExchange P x) (\<lambda>_. True)"
  unfolding sendExchange_def case_prod_unfold
  by (intro ensures_bind_any [OF client_part_ok] ensures_bind_any [OF dpop_part_ok]
      ensures_bind_any [OF ensures_catch [OF http_fetch_ok]] ensures_bind_any [OF store_nonce_ok] ensures_intros) simp

lemma doExchange_ok: "ensures I (doExchange P x) (\<lambda>_. True)"
proof -
  have g: "ensures I (granted P x rsp) (\<lambda>_. True)" for rsp
    unfolding granted_def
    by (cases "pJson rsp")
       (auto intro!: ensures_bind_any [OF ensures_prop_of] ensures_bind_any [OF oboLog_ok] ensures_intros)
  show ?thesis unfolding doExchange_def
    by (intro ensures_bind_any [OF sendExchange_ok] ensures_bind_any [OF ensures_read]
        ensures_bind_any [OF ensures_if [OF sendExchange_ok]] ensures_if g ensures_intros) simp_all
qed

lemma exchangeToken_ok: "ensures I (exchangeToken P x) (\<lambda>_. True)"
  unfolding exchangeToken_def logDenial_def
  by (intro with_active_span_ok ensures_finally [OF _ emit_ok] ensures_catch
      ensures_bind_any [OF doExchange_ok] ensures_bind_any [OF emit_ok] ensures_bind_any [OF oboLog_ok] ensures_intros) simp

lemma getJwks_ok: "ensures I (getJwks P uri) (\<lambda>_. True)"
  by (auto simp: ensures_def getJwks_def Let_def stable_jwks split: option.splits)

lemma verifyJwt_ok: "ensures I (verifyJwt P tok opts) (\<lambda>_. True)"
  unfolding verifyJwt_def
  by (cases "voJwksUri opts")
     (auto intro!: ensures_bind_any [OF getJwks_ok] ensures_catch ensures_bind_any [OF emit_ok] ensures_bind_any [OF world_try_ok] ensures_intros)

end

end
