(* ===== verification/Oidc.thy ===== *)
theory Oidc
  imports Invariant
begin

text \<open>
  \<^verbatim>\<open>packages/auth-curity/src/oidc.ts\<close>, the discovery document of an issuer with its
  per-process cache, and \<^verbatim>\<open>packages/auth-curity/src/cimd.ts\<close>, the metadata document an agent
  publishes as its OAuth client identity.
\<close>

section \<open>Discovery of an issuer\<close>

definition normalizeIssuer :: "string \<Rightarrow> string" where
  "normalizeIssuer issuer = (if ends_with ''/'' issuer then butlast issuer else issuer)"

definition oidc_ttl_ms :: int where "oidc_ttl_ms = 5 * 60000"

definition oidc_url :: "string \<Rightarrow> string" where
  "oidc_url normalized = normalized @ ''/.well-known/openid-configuration''"

text \<open>The cached document, if it has not expired; the clock is read only when there is one.\<close>

definition oidc_lookup :: "('w, 'j) platform \<Rightarrow> string \<Rightarrow> ('w, 'j, 'z, js option) act" where
  "oidc_lookup P normalized =
     io_bind (io_read (\<lambda>s. om_get (oidcCache s) normalized)) (\<lambda>cached.
       case cached of
         None \<Rightarrow> io_return None
       | Some (value, expiresAt) \<Rightarrow>
           io_bind (world_get (dateNow P)) (\<lambda>now. io_return (if expiresAt > now then Some value else None)))"

text \<open>\<^verbatim>\<open>normalizeIssuer(json.issuer)\<close>, which throws when the member is no string.\<close>

definition document_issuer :: "js \<Rightarrow> exn + string" where
  "document_issuer json =
     (if nullish json then Inl (type_error (''Cannot read properties of '' @ js_string json))
      else (case jget json ''issuer'' of
              JStr i \<Rightarrow> Inr i
            | JUndef \<Rightarrow> Inl (type_error ''Cannot read properties of undefined'')
            | JNull \<Rightarrow> Inl (type_error ''Cannot read properties of null'')
            | _ \<Rightarrow> Inl (type_error ''issuer.endsWith is not a function'')))"

definition oidc_store :: "('w, 'j) platform \<Rightarrow> string \<Rightarrow> int \<Rightarrow> js \<Rightarrow> ('w, 'j, 'z, unit) act" where
  "oidc_store P normalized ttl json =
     io_bind (world_get (dateNow P)) (\<lambda>now.
       io_modify (\<lambda>s. s\<lparr>oidcCache := om_set (oidcCache s) normalized (json, now + ttl)\<rparr>))"

definition oidc_fetch :: "('w, 'j) platform \<Rightarrow> string \<Rightarrow> int \<Rightarrow> ('w, 'j, 'z, js) act" where
  "oidc_fetch P normalized ttl =
     io_bind (io_catch
        (http_fetch P \<lparr> qMethod = ''GET'', qUrl = oidc_url normalized, qHeaders = [(''accept'', ''application/json'')], qBody = [] \<rparr>)
        (\<lambda>_. io_throw (CurityAuthError (''OIDC discovery network error: '' @ oidc_url normalized) DiscoveryFailed))) (\<lambda>rsp.
     io_bind (require_that (rsp_ok rsp)
        (CurityAuthError (''OIDC discovery failed: '' @ int_str (pStatus rsp) @ '' '' @ pStatusText rsp) DiscoveryFailed)) (\<lambda>_.
     io_bind (lift_sum (pJson rsp)) (\<lambda>json.
     io_bind (lift_sum (document_issuer json)) (\<lambda>issuer.
     io_bind (require_that (normalizeIssuer issuer = normalized)
        (CurityAuthError (''Discovery issuer mismatch: expected '' @ normalized @ '', got '' @ issuer) InvalidIssuer)) (\<lambda>_.
     io_bind (oidc_store P normalized ttl json) (\<lambda>_. io_return json))))))"

definition getOidcConfig :: "('w, 'j) platform \<Rightarrow> string \<Rightarrow> int option \<Rightarrow> ('w, 'j, 'z, js) act" where
  "getOidcConfig P issuer cacheTtlMs =
     (let normalized = normalizeIssuer issuer
      in io_bind (oidc_lookup P normalized) (\<lambda>cached.
           case cached of Some v \<Rightarrow> io_return v | None \<Rightarrow> oidc_fetch P normalized (or_else cacheTtlMs oidc_ttl_ms)))"

lemmas oidc_eval [eval_simps] = normalizeIssuer_def oidc_ttl_ms_def oidc_url_def oidc_lookup_def
  document_issuer_def oidc_store_def oidc_fetch_def getOidcConfig_def

text \<open>What the cache may hold: under a key, a document that names that issuer.\<close>

definition names_issuer :: "string \<Rightarrow> js \<Rightarrow> bool" where
  "names_issuer normalized json = (\<exists>i. jget json ''issuer'' = JStr i \<and> normalizeIssuer i = normalized)"

definition oidc_ok :: "('w, 'j, 'z) proc_scheme \<Rightarrow> bool" where
  "oidc_ok s = (\<forall>(k, (v, e)) \<in> set (oidcCache s). names_issuer k v)"

interpretation oidc_inv: stable_invariant oidc_ok
  by unfold_locales (simp_all add: oidc_ok_def)

lemma oidc_lookup_ok: "ensures oidc_ok (oidc_lookup P n) (\<lambda>r. \<forall>v. r = Some v \<longrightarrow> names_issuer n v)"
  unfolding oidc_lookup_def
proof (rule ensures_bind)
  show "ensures oidc_ok (io_read (\<lambda>s. om_get (oidcCache s) n)) (\<lambda>c. \<forall>v e. c = Some (v, e) \<longrightarrow> names_issuer n v)"
    by (rule ensures_read) (auto simp: oidc_ok_def om_get_def dest!: map_of_SomeD)
  fix c :: "(js \<times> int) option" assume "\<forall>v e. c = Some (v, e) \<longrightarrow> names_issuer n v"
  then show "ensures oidc_ok (case c of None \<Rightarrow> io_return None | Some (v, e) \<Rightarrow>
      io_bind (world_get (dateNow P)) (\<lambda>now. io_return (if e > now then Some v else None)))
      (\<lambda>r. \<forall>v. r = Some v \<longrightarrow> names_issuer n v)"
    by (auto split: option.splits if_splits intro!: ensures_return ensures_bind_any [OF oidc_inv.world_get_ok])
qed

lemma document_issuer_Inr: "document_issuer json = Inr i \<Longrightarrow> jget json ''issuer'' = JStr i"
  by (auto simp: document_issuer_def split: if_splits js.splits)

lemma oidc_store_ok: "names_issuer n json \<Longrightarrow> ensures oidc_ok (oidc_store P n ttl json) (\<lambda>_. True)"
  unfolding oidc_store_def
  by (intro ensures_bind_any [OF oidc_inv.world_get_ok] ensures_modify)
     (auto simp: oidc_ok_def dest!: om_set_mem)

lemma oidc_fetch_ok: "ensures oidc_ok (oidc_fetch P n ttl) (names_issuer n)"
  unfolding oidc_fetch_def
  apply (intro ensures_bind_any [OF ensures_catch [OF oidc_inv.http_fetch_ok ensures_throw]])
  apply (rule ensures_bind_any [OF ensures_require])
  apply (rule ensures_bind_any [OF oidc_inv.lift_sum_ok])
  apply (rule ensures_bind [OF ensures_lift_sum, OF document_issuer_Inr])
   apply assumption
  apply (rule ensures_bind [OF ensures_require])
  apply (rule ensures_bind_any [OF oidc_store_ok])
   apply (auto simp: names_issuer_def intro: ensures_return)
  done

text \<open>
  Issuer mix-up is excluded: the discovery document a caller gets, fetched or cached, names
  the issuer it asked for (a trailing slash aside), and the cache stays that way.
\<close>

theorem oidc_issuer_echo:
  assumes "oidc_ok s" "getOidcConfig P issuer ttl s = (r, t)"
  shows "oidc_ok t \<and> (\<forall>json. r = Inr json \<longrightarrow>
           (\<exists>i. jget json ''issuer'' = JStr i \<and> normalizeIssuer i = normalizeIssuer issuer))"
proof -
  have "ensures oidc_ok (getOidcConfig P issuer ttl) (names_issuer (normalizeIssuer issuer))"
    unfolding getOidcConfig_def Let_def
    by (rule ensures_bind [OF oidc_lookup_ok]) (auto split: option.splits intro: ensures_return oidc_fetch_ok)
  from ensuresD [OF this assms] show ?thesis by (auto simp: names_issuer_def)
qed

theorem oidc_issuer_echo_witness:
  "\<exists>json i. fst (getOidcConfig (fixture (\<lambda>_ w. (Inr (json_rsp 200 (JObj [(''issuer'', JStr ''https://as'')])), w)) (\<lambda>_. None))
       ''https://as/'' None (idle 0)) = Inr json
     \<and> jget json ''issuer'' = JStr i \<and> normalizeIssuer i = normalizeIssuer ''https://as/''"
proof -
  let ?P = "fixture (\<lambda>_ w. (Inr (json_rsp 200 (JObj [(''issuer'', JStr ''https://as'')])), w)) (\<lambda>_. None)"
  have "\<exists>json. fst (getOidcConfig ?P ''https://as/'' None (idle 0)) = Inr json"
    by (simp add: eval_simps ends_with_def json_rsp_def)
  moreover have "oidc_ok (idle 0)" by (simp add: oidc_ok_def idle_def)
  ultimately show ?thesis
    using oidc_issuer_echo [of "idle 0" ?P "''https://as/''" None] by (metis prod.collapse)
qed

section \<open>The client identity of an agent\<close>

record cimd_identity =
  ciKid :: string
  ciClientId :: string
  ciJwk :: js

definition private_members :: "string list" where
  "private_members = [''d'', ''p'', ''q'', ''dp'', ''dq'', ''qi'']"

fun without_members :: "string list \<Rightarrow> js \<Rightarrow> (string \<times> js) list" where
  "without_members ks (JObj kvs) = filter (\<lambda>p. fst p \<notin> set ks) kvs"
| "without_members ks _ = []"

definition public_only :: "js \<Rightarrow> (string \<times> js) list" where
  "public_only jwk = without_members private_members jwk"

definition createCimdIdentity :: "('w, 'j) platform \<Rightarrow> string \<Rightarrow> string \<Rightarrow> exn + cimd_identity" where
  "createCimdIdentity P pem clientId =
     sum_bind (importPKCS8 P pem ''RS256'') (\<lambda>key.
     let publicOnly = public_only (exportJWK P key)
     in sum_bind (jwkThumbprint P (JObj publicOnly)) (\<lambda>kid.
        Inr \<lparr> ciKid = kid, ciClientId = clientId,
              ciJwk = JObj (om_set (om_set (om_set publicOnly ''kid'' (JStr kid)) ''use'' (JStr ''sig'')) ''alg'' (JStr ''RS256'')) \<rparr>))"

definition cimd_jwks :: "cimd_identity \<Rightarrow> js" where
  "cimd_jwks ci = JObj [(''keys'', JArr [ciJwk ci])]"

definition metadataDocument :: "cimd_identity \<Rightarrow> js" where
  "metadataDocument ci =
     JObj [(''client_id'', JStr (ciClientId ci)), (''token_endpoint_auth_method'', JStr ''private_key_jwt''),
           (''token_endpoint_auth_signing_alg'', JStr ''RS256''), (''grant_types'', JArr [JStr grant_type]),
           (''jwks'', cimd_jwks ci)]"

lemma jget_obj_get: "jget (JObj kvs) k = (case om_get kvs k of None \<Rightarrow> JUndef | Some v \<Rightarrow> v)"
  by (simp add: om_get_def)

lemma without_members_get: "om_get (without_members ks (JObj kvs)) k = (if k \<in> set ks then None else om_get kvs k)"
  by (induction kvs) (auto simp: om_get_def)

lemma without_members_none: "k \<in> set ks \<Longrightarrow> om_get (without_members ks j) k = None"
  by (cases j) (simp_all add: without_members_get del: without_members.simps(1), simp_all add: om_get_def)

lemma assertion_signed:
  assumes "importPKCS8 P pem ''RS256'' = Inr key" "buildClientAssertion P clientId pem kid None aud s = (Inr jws, t)"
  shows "\<exists>claims. signJwt P key (JObj [(''alg'', JStr ''RS256''), (''kid'', JStr kid)]) claims = Inr jws
    \<and> jget claims ''iss'' = JStr clientId \<and> jget claims ''aud'' = JStr aud"
proof -
  obtain jti w now w' where "randomUUID P (world s) = (jti, w)" "dateNow P w = (now, w')" by fastforce
  then have "signJwt P key (JObj [(''alg'', JStr ''RS256''), (''kid'', JStr kid)])
      (JObj [(''iss'', JStr clientId), (''sub'', JStr clientId), (''aud'', JStr aud), (''jti'', JStr jti),
             (''iat'', JNum (now div 1000)), (''exp'', JNum (now div 1000 + 60))]) = Inr jws"
    using assms by (simp add: buildClientAssertion_def Let_def or_else_def io_bind_def io_catch_def lift_sum_def world_get_def)
  then show ?thesis by (intro exI conjI) (assumption, simp_all)
qed

text \<open>
  C31. What an agent publishes is the public half of the key it signs with. The metadata document has exactly one key;
  that key has no private member of an RSA key, and every other member of the imported key as it is exported, but
  for its identifier, use and algorithm; the identifier is the thumbprint of that public half; and a client
  assertion built, as the agents build theirs (\<open>mint\<close> of theory AgentTokens), with that identifier and the same PEM
  names the published key in its header, is signed with the key it is the public half of, and is issued by the
  client the document is for.
\<close>

theorem cimd_publishes_public:
  assumes "createCimdIdentity P pem clientId = Inr ci"
  shows "jget (jget (metadataDocument ci) ''jwks'') ''keys'' = JArr [ciJwk ci]
    \<and> (\<forall>k \<in> {''d'', ''p'', ''q'', ''dp'', ''dq'', ''qi''}. jget (ciJwk ci) k = JUndef)
    \<and> jget (ciJwk ci) ''kid'' = JStr (ciKid ci)
    \<and> (\<exists>key. importPKCS8 P pem ''RS256'' = Inr key
          \<and> (\<forall>kvs k. exportJWK P key = JObj kvs \<longrightarrow> k \<notin> {''d'', ''p'', ''q'', ''dp'', ''dq'', ''qi'', ''kid'', ''use'', ''alg''}
               \<longrightarrow> jget (ciJwk ci) k = jget (exportJWK P key) k)
          \<and> jwkThumbprint P (JObj (public_only (exportJWK P key))) = Inr (ciKid ci)
          \<and> (\<forall>aud s jws t. buildClientAssertion P clientId pem (ciKid ci) None aud s = (Inr jws, t) \<longrightarrow>
               (\<exists>claims. signJwt P key (JObj [(''alg'', JStr ''RS256''), (''kid'', jget (ciJwk ci) ''kid'')]) claims = Inr jws
                  \<and> jget claims ''iss'' = jget (metadataDocument ci) ''client_id'')))"
proof -
  obtain key kid where k: "importPKCS8 P pem ''RS256'' = Inr key"
    "jwkThumbprint P (JObj (public_only (exportJWK P key))) = Inr kid"
    and ci: "ciKid ci = kid" "ciClientId ci = clientId" "ciJwk ci = JObj (om_set (om_set (om_set (public_only (exportJWK P key)) ''kid'' (JStr kid))
               ''use'' (JStr ''sig'')) ''alg'' (JStr ''RS256''))"
    using assms by (auto simp: createCimdIdentity_def sum_bind_def Let_def split: sum.splits)
  have "jget (ciJwk ci) m = JUndef" if "m \<in> {''d'', ''p'', ''q'', ''dp'', ''dq'', ''qi''}" for m
    using that without_members_none [of m private_members] unfolding ci jget_obj_get public_only_def
    by (auto simp: omap_simps private_members_def)
  moreover have id: "jget (ciJwk ci) ''kid'' = JStr (ciKid ci)"
    unfolding ci jget_obj_get by (simp add: omap_simps)
  moreover have "jget (ciJwk ci) m = jget (JObj kvs) m"
    if "exportJWK P key = JObj kvs" "m \<notin> {''d'', ''p'', ''q'', ''dp'', ''dq'', ''qi'', ''kid'', ''use'', ''alg''}" for kvs m
    using that(2) unfolding ci jget_obj_get public_only_def that(1) by (simp add: omap_simps without_members_get private_members_def del: without_members.simps)
  moreover have "\<exists>claims. signJwt P key (JObj [(''alg'', JStr ''RS256''), (''kid'', jget (ciJwk ci) ''kid'')]) claims = Inr jws
        \<and> jget claims ''iss'' = jget (metadataDocument ci) ''client_id''"
    if "buildClientAssertion P clientId pem (ciKid ci) None aud s = (Inr jws, t)" for aud jws and s t :: "('a, 'b, 'c) proc_scheme"
    using assertion_signed [OF k(1) that] unfolding id by (auto simp: metadataDocument_def ci(2))
  moreover have "jget (jget (metadataDocument ci) ''jwks'') ''keys'' = JArr [ciJwk ci]" by (simp add: metadataDocument_def cimd_jwks_def)
  ultimately show ?thesis using k unfolding ci(1) by (intro conjI exI [of _ key]) simp_all
qed

definition fixture_pair :: "(int, string) platform" where
  "fixture_pair = (fixture no_net (\<lambda>_. None))\<lparr> exportJWK := (\<lambda>_. JObj [(''kty'', JStr ''RSA''), (''n'', JStr ''n''), (''d'', JStr ''secret'')]) \<rparr>"

theorem cimd_publishes_public_witness:
  "\<exists>ci. createCimdIdentity fixture_pair ''pem'' ''https://a'' = Inr ci \<and> jget (ciJwk ci) ''d'' = JUndef \<and> jget (ciJwk ci) ''n'' = JStr ''n''"
proof -
  obtain ci where ci: "createCimdIdentity fixture_pair ''pem'' ''https://a'' = Inr ci"
    by (simp add: createCimdIdentity_def fixture_pair_def fixture_def sum_bind_def)
  have "exportJWK fixture_pair key = JObj [(''kty'', JStr ''RSA''), (''n'', JStr ''n''), (''d'', JStr ''secret'')]" for key
    by (simp add: fixture_pair_def)
  moreover note c = cimd_publishes_public [OF ci]
  then obtain key where "\<forall>kvs k. exportJWK fixture_pair key = JObj kvs \<longrightarrow> k \<notin> {''d'', ''p'', ''q'', ''dp'', ''dq'', ''qi'', ''kid'', ''use'', ''alg''}
               \<longrightarrow> jget (ciJwk ci) k = jget (exportJWK fixture_pair key) k" by blast
  ultimately have "jget (ciJwk ci) ''n'' = JStr ''n''" by simp
  moreover have "jget (ciJwk ci) ''d'' = JUndef" by (rule bspec [OF conjunct1 [OF conjunct2 [OF c]]]) simp
  ultimately show ?thesis using ci by blast
qed

end
