(* ===== verification/Discovery.thy ===== *)
theory Discovery
  imports Oidc
begin

text \<open>
  \<^verbatim>\<open>packages/agent-runtime/src/authorization-server.ts\<close> and \<^verbatim>\<open>mcp-oauth-client.ts\<close>: how an agent
  learns, from the 401 challenge of an MCP server, which authorization server to exchange its
  token with and for which scope; the two caches in between; and the provider object the MCP
  SDK's transport calls.
\<close>

section \<open>The SDK and the process\<close>

text \<open>
  What the \<^verbatim>\<open>@modelcontextprotocol/client\<close> package supplies: the RFC 8414 lookup (its document,
  \<open>JUndef\<close> when no URL answers), the check of a token endpoint (the URL's \<^verbatim>\<open>href\<close>) and the
  parser of a challenge.
\<close>

record www_params =
  wwResourceMetadataUrl :: "url option"
  wwScope :: "string option"
  wwError :: "string option"

record 'w mcp_sdk =
  discoverAsMetadata :: "string \<Rightarrow> 'w \<Rightarrow> (exn + js) \<times> 'w"
  assertSecureTokenEndpoint :: "string \<Rightarrow> exn + string"
  wwwAuthParams :: "http_rsp \<Rightarrow> www_params"

record resolved_as =
  raIssuer :: js
  raTokenEndpoint :: string
  raMetadata :: js

record mcp_discovery =
  mdServerUrl :: string
  mdResourceMetadataUrl :: string
  mdResourceMetadata :: js
  mdAuthorizationServer :: string
  mdAsMetadata :: js
  mdTokenEndpoint :: string
  mdScope :: string
  mdScopeSource :: string
  mdDiscoveredAt :: int

text \<open>
  The module-level state an agent adds: both caches and the outcome of the one key generation
  (\<^verbatim>\<open>processKey\<close> holds a promise, so a failure is kept as well).
\<close>

record ('w, 'j) agent_proc = "('w, 'j) proc" +
  asCache :: "(string, resolved_as \<times> int) omap"
  discoveryCache :: "(string, mcp_discovery) omap"
  processKey :: "(exn + dpop_key) option"

section \<open>Authorization-server metadata\<close>

definition as_metadata_ttl_ms :: int where "as_metadata_ttl_ms = 10 * 60000"

fun exn_name :: "exn \<Rightarrow> string" where
  "exn_name (CurityAuthError _ _) = ''CurityAuthError''"
| "exn_name (DpopProofError _) = ''DpopProofError''"
| "exn_name (StepUpRequiredError _) = ''StepUpRequiredError''"
| "exn_name (JsError n _) = n"
| "exn_name (Thrown v) = js_string (jget v ''name'')"

text \<open>\<^verbatim>\<open>e instanceof Error ? `${e.name}: ${e.message}` : String(e)\<close>\<close>

definition describe :: "exn \<Rightarrow> string" where
  "describe e = (if is_Error e then exn_name e @ '': '' @ message_of e else exn_string e)"

definition validateAuthorizationServerMetadata :: "'w mcp_sdk \<Rightarrow> js \<Rightarrow> exn + resolved_as" where
  "validateAuthorizationServerMetadata sdk metadata =
     (let iss = js_string (jget metadata ''issuer'')
      in if jget metadata ''client_id_metadata_document_supported'' \<noteq> JBool True
           then Inl (CurityAuthError (iss @ '' does not advertise client_id_metadata_document_supported=true; ''
                  @ ''this client can only register via Client ID Metadata Documents'') CimdUnsupported)
         else (case jget metadata ''token_endpoint'' of
                 JStr ep \<Rightarrow>
                   if ep = [] then Inl (CurityAuthError (iss @ '' metadata has no token_endpoint'') DiscoveryFailed)
                   else (case assertSecureTokenEndpoint sdk ep of
                           Inl e \<Rightarrow> Inl (CurityAuthError (''token_endpoint rejected: '' @ describe e) DiscoveryFailed)
                         | Inr href \<Rightarrow> Inr \<lparr> raIssuer = jget metadata ''issuer'', raTokenEndpoint = href, raMetadata = metadata \<rparr>)
               | _ \<Rightarrow> Inl (CurityAuthError (iss @ '' metadata has no token_endpoint'') DiscoveryFailed)))"

text \<open>A cached entry, unless the caller forces, caches nothing, or its own window has passed.\<close>

definition fresh_hit ::
  "('w, 'j) platform \<Rightarrow> bool \<Rightarrow> int \<Rightarrow> ('v \<times> int) option \<Rightarrow> ('w, 'j, 'z, 'v option) act" where
  "fresh_hit P force ttl hit =
     (case hit of
        None \<Rightarrow> io_return None
      | Some p \<Rightarrow>
          if \<not> force \<and> ttl > 0
          then io_bind (world_get (dateNow P)) (\<lambda>now. io_return (if now - snd p < ttl then Some (fst p) else None))
          else io_return None)"

definition fetch_as :: "('w, 'j) platform \<Rightarrow> 'w mcp_sdk \<Rightarrow> string \<Rightarrow> ('w, 'j, 'z) agent_proc_scheme \<Rightarrow> (exn + resolved_as) \<times> ('w, 'j, 'z) agent_proc_scheme" where
  "fetch_as P sdk key =
     io_bind (io_catch (world_try (discoverAsMetadata sdk key))
        (\<lambda>e. io_throw (CurityAuthError (''authorization server metadata for '' @ key @ '': '' @ describe e) DiscoveryFailed))) (\<lambda>metadata.
     io_bind (require_that (truthy metadata)
        (CurityAuthError (''no authorization server metadata found for '' @ key
           @ '' (tried RFC 8414 and OIDC well-known URLs)'') DiscoveryFailed)) (\<lambda>_.
     io_bind (lift_sum (validateAuthorizationServerMetadata sdk metadata)) (\<lambda>value.
     io_bind (world_get (dateNow P)) (\<lambda>now.
     io_bind (io_modify (\<lambda>s. s\<lparr>asCache := om_set (asCache s) key (value, now)\<rparr>)) (\<lambda>_.
       io_return value)))))"

definition resolveAuthorizationServer ::
  "('w, 'j) platform \<Rightarrow> 'w mcp_sdk \<Rightarrow> string \<Rightarrow> bool \<Rightarrow> int option
   \<Rightarrow> ('w, 'j, 'z) agent_proc_scheme \<Rightarrow> (exn + resolved_as) \<times> ('w, 'j, 'z) agent_proc_scheme" where
  "resolveAuthorizationServer P sdk issuer force ttlMs =
     (let key = strip_slashes issuer
      in io_bind (require_that (starts_with ''https://'' key)
            (CurityAuthError (''authorization server '' @ key @ '' is not https'') DiscoveryFailed)) (\<lambda>_.
         io_bind (io_read (\<lambda>s. om_get (asCache s) key)) (\<lambda>hit.
         io_bind (fresh_hit P force (or_else ttlMs as_metadata_ttl_ms) hit) (\<lambda>cached.
           case cached of Some v \<Rightarrow> io_return v | None \<Rightarrow> fetch_as P sdk key))))"

section \<open>Discovery for an MCP server\<close>

definition discovery_ttl_ms :: int where "discovery_ttl_ms = 10 * 60000"
definition mcp_protocol_version :: string where "mcp_protocol_version = ''2026-07-28''"
definition well_known_prm :: string where "well_known_prm = ''/.well-known/oauth-protected-resource''"

fun isDiscoveryFailure :: "exn \<Rightarrow> bool" where
  "isDiscoveryFailure (CurityAuthError _ c) =
     (code_str c \<in> set [''discovery_failed'', ''resource_mismatch'', ''cimd_unsupported'', ''scope_unavailable''])"
| "isDiscoveryFailure _ = False"

text \<open>\<open>fetchFn\<close> is the fetch in use: the platform's, or a wrapper of it.\<close>

definition probeUnauthenticated ::
  "(http_req \<Rightarrow> ('s, exn, http_rsp) io) \<Rightarrow> string \<Rightarrow> ('s, exn, http_rsp) io" where
  "probeUnauthenticated fetchFn serverUrl =
     io_bind (io_catch
        (fetchFn \<lparr> qMethod = ''POST'', qUrl = serverUrl,
           qHeaders = [(''content-type'', ''application/json''), (''accept'', ''application/json, text/event-stream''),
                       (''mcp-protocol-version'', mcp_protocol_version)],
           qBody = json_text (JObj [(''jsonrpc'', JStr ''2.0''), (''id'', JNum 0), (''method'', JStr ''ping'')]) \<rparr>)
        (\<lambda>e. io_throw (CurityAuthError (''unauthenticated probe of '' @ serverUrl @ '' failed: '' @ describe e) DiscoveryFailed))) (\<lambda>rsp.
     io_bind (require_that (pStatus rsp = 401)
        (CurityAuthError (''unauthenticated probe of '' @ serverUrl @ '' answered '' @ int_str (pStatus rsp)
           @ '', expected 401 with a WWW-Authenticate challenge'') DiscoveryFailed)) (\<lambda>_. io_return rsp))"

definition is_prm :: "js \<Rightarrow> bool" where
  "is_prm doc = (is_object doc \<and> as_str (jget doc ''resource'') \<noteq> None)"

definition fetchPrm :: "(http_req \<Rightarrow> ('s, exn, http_rsp) io) \<Rightarrow> string \<Rightarrow> ('s, exn, js option) io" where
  "fetchPrm fetchFn url =
     io_bind (fetchFn \<lparr> qMethod = ''GET'', qUrl = url,
        qHeaders = [(''accept'', ''application/json''), (''mcp-protocol-version'', mcp_protocol_version)], qBody = [] \<rparr>) (\<lambda>rsp.
       if pStatus rsp = 404 then io_return None
       else io_bind (require_that (rsp_ok rsp) (JsError ''Error'' (url @ '' answered '' @ int_str (pStatus rsp)))) (\<lambda>_.
            io_bind (lift_sum (pJson rsp)) (\<lambda>doc.
            io_bind (require_that (is_prm doc)
              (JsError ''Error'' (url @ '' is not a protected resource metadata document (no string \"resource\")''))) (\<lambda>_.
              io_return (Some doc)))))"

definition wellKnownPrmUrls :: "string \<Rightarrow> exn + string list" where
  "wellKnownPrmUrls serverUrl =
     (case parse_url serverUrl of
        None \<Rightarrow> Inl (type_error ''Invalid URL'')
      | Some u \<Rightarrow>
          (let path = strip_slashes (uPathname u); root = url_origin u @ well_known_prm
           in Inr (if path \<noteq> [] then [url_origin u @ well_known_prm @ path, root] else [root])))"

fun first_prm :: "(http_req \<Rightarrow> ('s, exn, http_rsp) io) \<Rightarrow> string list \<Rightarrow> ('s, exn, (js \<times> string) option) io" where
  "first_prm fetchFn [] = io_return None"
| "first_prm fetchFn (url # urls) =
     io_bind (io_catch (fetchPrm fetchFn url)
        (\<lambda>e. io_throw (CurityAuthError (''protected resource metadata: '' @ describe e) DiscoveryFailed))) (\<lambda>r.
       case r of Some prm \<Rightarrow> io_return (Some (prm, url)) | None \<Rightarrow> first_prm fetchFn urls)"

record discover_opts =
  dpChallenge :: "http_rsp option"
  dpForce :: bool
  dpService :: "string option"
  dpTtlMs :: "int option"
  dpAllowed :: "string list option"

text \<open>Where the metadata document may be: the pointer of the challenge, else the well-known URLs.\<close>

definition prm_candidates :: "string \<Rightarrow> url option \<Rightarrow> exn + string list" where
  "prm_candidates key fromHeader =
     (case fromHeader of
        None \<Rightarrow> wellKnownPrmUrls key
      | Some u \<Rightarrow>
          if uProtocol u \<noteq> ''https:''
          then Inl (CurityAuthError (''resource_metadata in the challenge from '' @ key @ '' is not https: '' @ url_str u) DiscoveryFailed)
          else Inr [url_str u])"

text \<open>The authorization server a document names, if the document and the client allow it.\<close>

definition select_as :: "string \<Rightarrow> string \<Rightarrow> js \<Rightarrow> string list option \<Rightarrow> exn + string" where
  "select_as key prmUrl prm allowed =
     (let resource = js_string (jget prm ''resource''); server = js_first (jget prm ''authorization_servers'')
      in if strip_slashes resource \<noteq> key
           then Inl (CurityAuthError (''protected resource metadata at '' @ prmUrl @ '' describes '' @ resource @ '', not '' @ key) ResourceMismatch)
         else if \<not> truthy server
           then Inl (CurityAuthError (''protected resource metadata at '' @ prmUrl @ '' lists no authorization_servers'') DiscoveryFailed)
         else (case server of
                 JStr a \<Rightarrow>
                   if \<not> starts_with ''https://'' a
                     then Inl (CurityAuthError (''protected resource metadata at '' @ prmUrl @ '' names a non-https authorization server: '' @ a) DiscoveryFailed)
                   else (case allowed of
                           None \<Rightarrow> Inr a
                         | Some xs \<Rightarrow>
                             if strip_slashes a \<in> set (map strip_slashes xs) then Inr a
                             else Inl (CurityAuthError (''protected resource metadata at '' @ prmUrl @ '' names authorization server '' @ a
                                  @ '', which this client does not trust (allowed: '' @ join '', '' (map strip_slashes xs) @ '')'') DiscoveryFailed))
               | _ \<Rightarrow> Inl (type_error ''authorizationServer.startsWith is not a function'')))"

text \<open>\<^verbatim>\<open>v.join(' ')\<close>, and \<^verbatim>\<open>v && v.length > 0\<close>, on a member of a JSON document.\<close>

definition js_joined :: "js \<Rightarrow> exn + string" where
  "js_joined v = (case v of JArr xs \<Rightarrow> Inr (js_join '' '' xs) | _ \<Rightarrow> Inl (type_error ''join is not a function''))"

fun has_length :: "js \<Rightarrow> bool" where
  "has_length (JArr xs) = (xs \<noteq> [])"
| "has_length (JStr s) = (s \<noteq> [])"
| "has_length (JObj kvs) = (case jget (JObj kvs) ''length'' of JNum n \<Rightarrow> n > 0 | _ \<Rightarrow> False)"
| "has_length _ = False"

definition select_scope :: "string option \<Rightarrow> js \<Rightarrow> exn + (string \<times> string)" where
  "select_scope challengeScope prm =
     (if trim (or_else challengeScope []) \<noteq> [] then Inr (trim (or_else challengeScope []), ''challenge'')
      else if has_length (jget prm ''scopes_supported'')
        then map_sum id (\<lambda>sc. (sc, ''scopes_supported'')) (js_joined (jget prm ''scopes_supported''))
      else Inr ([], ''challenge''))"

definition scope_unavailable :: "string \<Rightarrow> string \<Rightarrow> exn" where
  "scope_unavailable key prmUrl =
     CurityAuthError (''neither the 401 challenge nor scopes_supported at '' @ prmUrl
       @ '' says which scope to request for '' @ key) ScopeUnavailable"

definition grant_types_field :: "js \<Rightarrow> exn + js" where
  "grant_types_field metadata =
     (let g = jget metadata ''grant_types_supported''
      in if nullish g then Inr JUndef else map_sum id JStr (js_joined g))"

definition discover_event :: "string \<Rightarrow> mcp_discovery \<Rightarrow> js \<Rightarrow> obo_event" where
  "discover_event service d grants =
     event service DISCOVER (arrow @ '' '' @ mdServerUrl d)
       [(''resource_metadata'', JStr (mdResourceMetadataUrl d)),
        (''resource'', jget (mdResourceMetadata d) ''resource''),
        (''authorization srv'', JStr (mdAuthorizationServer d)),
        (''token endpoint'', JStr (mdTokenEndpoint d)),
        (''scope selected'', JStr (mdScope d @ '' (from '' @ mdScopeSource d @ '')'')),
        (''cimd supported'', JStr (if jget (mdAsMetadata d) ''client_id_metadata_document_supported'' = JBool True then ''true'' else ''false'')),
        (''grant types'', grants)]"

text \<open>The run of a discovery: the challenge, the document, the server, its metadata, the scope.\<close>

definition store_discovery ::
  "('w, 'j) platform \<Rightarrow> string \<Rightarrow> mcp_discovery \<Rightarrow> ('w, 'j, 'z) agent_proc_scheme \<Rightarrow> (exn + mcp_discovery) \<times> ('w, 'j, 'z) agent_proc_scheme" where
  "store_discovery P service d =
     io_bind (io_modify (\<lambda>s. s\<lparr>discoveryCache := om_set (discoveryCache s) (mdServerUrl d) d\<rparr>)) (\<lambda>_.
     io_bind (lift_sum (grant_types_field (mdAsMetadata d))) (\<lambda>grants.
     io_bind (oboLog P (discover_event service d grants)) (\<lambda>_. io_return d)))"

definition run_discovery ::
  "('w, 'j) platform \<Rightarrow> 'w mcp_sdk \<Rightarrow> (http_req \<Rightarrow> ('w, 'j, 'z) agent_proc_scheme \<Rightarrow> (exn + http_rsp) \<times> ('w, 'j, 'z) agent_proc_scheme)
   \<Rightarrow> string \<Rightarrow> discover_opts \<Rightarrow> ('w, 'j, 'z) agent_proc_scheme \<Rightarrow> (exn + mcp_discovery) \<times> ('w, 'j, 'z) agent_proc_scheme" where
  "run_discovery P sdk fetchFn key opts =
     io_bind (case dpChallenge opts of Some c \<Rightarrow> io_return c | None \<Rightarrow> probeUnauthenticated fetchFn key) (\<lambda>challenge.
     let www = wwwAuthParams sdk challenge
     in io_bind (lift_sum (prm_candidates key (wwResourceMetadataUrl www))) (\<lambda>candidates.
        io_bind (first_prm fetchFn candidates) (\<lambda>found.
          case found of
            None \<Rightarrow> io_throw (CurityAuthError (''no protected resource metadata for '' @ key
                      @ '' (tried '' @ join '', '' candidates @ '')'') DiscoveryFailed)
          | Some p \<Rightarrow>
              io_bind (lift_sum (select_as key (snd p) (fst p) (dpAllowed opts))) (\<lambda>server.
              io_bind (resolveAuthorizationServer P sdk server (dpForce opts)
                 (Some (or_else (dpTtlMs opts) discovery_ttl_ms))) (\<lambda>as.
              io_bind (lift_sum (select_scope (wwScope www) (fst p))) (\<lambda>sc.
              io_bind (require_that (fst sc \<noteq> []) (scope_unavailable key (snd p))) (\<lambda>_.
              io_bind (world_get (dateNow P)) (\<lambda>now.
                store_discovery P (or_else (dpService opts) ''mcp-client'')
                  \<lparr> mdServerUrl = key, mdResourceMetadataUrl = snd p, mdResourceMetadata = fst p,
                    mdAuthorizationServer = server, mdAsMetadata = raMetadata as,
                    mdTokenEndpoint = raTokenEndpoint as, mdScope = fst sc, mdScopeSource = snd sc,
                    mdDiscoveredAt = now \<rparr>))))))))"

definition discoverMcpAuthorization ::
  "('w, 'j) platform \<Rightarrow> 'w mcp_sdk \<Rightarrow> (http_req \<Rightarrow> ('w, 'j, 'z) agent_proc_scheme \<Rightarrow> (exn + http_rsp) \<times> ('w, 'j, 'z) agent_proc_scheme)
   \<Rightarrow> string \<Rightarrow> discover_opts \<Rightarrow> ('w, 'j, 'z) agent_proc_scheme \<Rightarrow> (exn + mcp_discovery) \<times> ('w, 'j, 'z) agent_proc_scheme" where
  "discoverMcpAuthorization P sdk fetchFn serverUrl opts =
     (let key = strip_slashes serverUrl
      in io_bind (io_read (\<lambda>s. map_option (\<lambda>d. (d, mdDiscoveredAt d)) (om_get (discoveryCache s) key))) (\<lambda>hit.
         io_bind (fresh_hit P (dpForce opts) (or_else (dpTtlMs opts) discovery_ttl_ms) hit) (\<lambda>cached.
           case cached of Some d \<Rightarrow> io_return d | None \<Rightarrow> run_discovery P sdk fetchFn key opts)))"

section \<open>The provider of the MCP transport\<close>

text \<open>
  \<open>createMcpAuthProvider\<close>: its configuration, the two variables it closes over, and its methods.
  A method gives its outcome together with the provider's new variables.
\<close>

record exchange_input =
  eiTokenEndpoint :: string
  eiScope :: string
  eiDiscovery :: mcp_discovery
  eiForced :: bool

record provider_config =
  pcServerUrl :: string
  pcService :: string
  pcAllowed :: "string list option"
  pcDiscoveryTtlMs :: "int option"

record provider =
  pvToken :: "js option"
  pvDiscovery :: "mcp_discovery option"

definition new_provider :: provider where
  "new_provider = \<lparr> pvToken = None, pvDiscovery = None \<rparr>"

definition discovery_denied :: "provider_config \<Rightarrow> exn \<Rightarrow> obo_event" where
  "discovery_denied pc e =
     event (pcService pc) DENY (arrow @ '' '' @ pcServerUrl pc @ '' (discovery failed)'')
       [(''error'', JStr (case e of CurityAuthError _ c \<Rightarrow> code_str c | _ \<Rightarrow> ''discovery_failed'')),
        (''description'', JStr (error_text e))]"

definition provider_discover ::
  "('w, 'j) platform \<Rightarrow> 'w mcp_sdk \<Rightarrow> provider_config \<Rightarrow> bool \<Rightarrow> http_rsp option \<Rightarrow> provider
   \<Rightarrow> ('w, 'j, 'z) agent_proc_scheme \<Rightarrow> (exn + (exn + mcp_discovery) \<times> provider) \<times> ('w, 'j, 'z) agent_proc_scheme" where
  "provider_discover P sdk pc force challenge pv =
     io_bind (io_try (discoverMcpAuthorization P sdk (http_fetch P) (pcServerUrl pc)
        \<lparr> dpChallenge = challenge, dpForce = force, dpService = Some (pcService pc),
          dpTtlMs = pcDiscoveryTtlMs pc, dpAllowed = pcAllowed pc \<rparr>)) (\<lambda>r.
       case r of
         Inr d \<Rightarrow> io_return (Inr d, pv\<lparr> pvDiscovery := Some d \<rparr>)
       | Inl e \<Rightarrow> io_bind (oboLog P (discovery_denied pc e)) (\<lambda>_. io_return (Inl e, pv)))"

text \<open>\<^verbatim>\<open>discovery && !o.force && !o.challenge ? discovery : await discover(o)\<close>\<close>

definition provider_learn ::
  "('w, 'j) platform \<Rightarrow> 'w mcp_sdk \<Rightarrow> provider_config \<Rightarrow> bool \<Rightarrow> http_rsp option \<Rightarrow> provider
   \<Rightarrow> ('w, 'j, 'z) agent_proc_scheme \<Rightarrow> (exn + (exn + mcp_discovery) \<times> provider) \<times> ('w, 'j, 'z) agent_proc_scheme" where
  "provider_learn P sdk pc force challenge pv =
     (case pvDiscovery pv of
        Some d \<Rightarrow> if \<not> force \<and> challenge = None then io_return (Inr d, pv)
                  else provider_discover P sdk pc force challenge pv
      | None \<Rightarrow> provider_discover P sdk pc force challenge pv)"

definition provider_acquire ::
  "('w, 'j) platform \<Rightarrow> 'w mcp_sdk \<Rightarrow> provider_config
   \<Rightarrow> (exchange_input \<Rightarrow> ('w, 'j, 'z) agent_proc_scheme \<Rightarrow> (exn + js) \<times> ('w, 'j, 'z) agent_proc_scheme)
   \<Rightarrow> bool \<Rightarrow> http_rsp option \<Rightarrow> provider
   \<Rightarrow> ('w, 'j, 'z) agent_proc_scheme \<Rightarrow> (exn + (exn + js) \<times> provider) \<times> ('w, 'j, 'z) agent_proc_scheme" where
  "provider_acquire P sdk pc exchange force challenge pv =
     io_bind (provider_learn P sdk pc force challenge pv) (\<lambda>r.
       case fst r of
         Inl e \<Rightarrow> io_return (Inl e, snd r)
       | Inr d \<Rightarrow>
           io_bind (io_try (exchange \<lparr> eiTokenEndpoint = mdTokenEndpoint d, eiScope = mdScope d, eiDiscovery = d, eiForced = force \<rparr>)) (\<lambda>x.
             case x of
               Inl e \<Rightarrow> io_return (Inl e, snd r)
             | Inr tok \<Rightarrow> io_return (Inr tok, (snd r)\<lparr> pvToken := Some tok \<rparr>)))"

definition onUnauthorized ::
  "('w, 'j) platform \<Rightarrow> 'w mcp_sdk \<Rightarrow> provider_config
   \<Rightarrow> (exchange_input \<Rightarrow> ('w, 'j, 'z) agent_proc_scheme \<Rightarrow> (exn + js) \<times> ('w, 'j, 'z) agent_proc_scheme)
   \<Rightarrow> http_rsp \<Rightarrow> provider
   \<Rightarrow> ('w, 'j, 'z) agent_proc_scheme \<Rightarrow> (exn + (exn + unit) \<times> provider) \<times> ('w, 'j, 'z) agent_proc_scheme" where
  "onUnauthorized P sdk pc exchange rsp pv =
     (if wwError (wwwAuthParams sdk rsp) = Some ''insufficient_user_authentication''
      then io_return (Inl (CurityAuthError (''step-up required: '' @ or_else (rsp_header rsp ''www-authenticate'') []) StepUpRequiredCode), pv)
      else io_bind (provider_acquire P sdk pc exchange True (Some rsp) pv) (\<lambda>r.
             io_return (map_sum id (\<lambda>_. ()) (fst r), snd r)))"

lemmas discovery_eval [eval_simps] = as_metadata_ttl_ms_def describe_def validateAuthorizationServerMetadata_def
  fresh_hit_def fetch_as_def resolveAuthorizationServer_def discovery_ttl_ms_def mcp_protocol_version_def
  well_known_prm_def probeUnauthenticated_def is_prm_def fetchPrm_def wellKnownPrmUrls_def prm_candidates_def
  select_as_def js_joined_def select_scope_def scope_unavailable_def grant_types_field_def discover_event_def
  store_discovery_def run_discovery_def discoverMcpAuthorization_def new_provider_def discovery_denied_def
  provider_discover_def provider_learn_def provider_acquire_def onUnauthorized_def

section \<open>What the caches may hold\<close>

definition secure_as :: "'w mcp_sdk \<Rightarrow> resolved_as \<Rightarrow> bool" where
  "secure_as sdk v =
     (jget (raMetadata v) ''client_id_metadata_document_supported'' = JBool True
      \<and> (\<exists>ep. jget (raMetadata v) ''token_endpoint'' = JStr ep \<and> ep \<noteq> []
            \<and> assertSecureTokenEndpoint sdk ep = Inr (raTokenEndpoint v)))"

text \<open>A discovery as the specification wants it, for a server, under a list of trusted servers.\<close>

definition sound_discovery :: "'w mcp_sdk \<Rightarrow> string list \<Rightarrow> string \<Rightarrow> mcp_discovery \<Rightarrow> bool" where
  "sound_discovery sdk trusted key d =
     (strip_slashes (js_string (jget (mdResourceMetadata d) ''resource'')) = key
      \<and> js_first (jget (mdResourceMetadata d) ''authorization_servers'') = JStr (mdAuthorizationServer d)
      \<and> starts_with ''https://'' (mdAuthorizationServer d)
      \<and> strip_slashes (mdAuthorizationServer d) \<in> set (map strip_slashes trusted)
      \<and> secure_as sdk \<lparr> raIssuer = jget (mdAsMetadata d) ''issuer'', raTokenEndpoint = mdTokenEndpoint d, raMetadata = mdAsMetadata d \<rparr>
      \<and> mdScope d \<noteq> [])"

definition agent_ok :: "'w mcp_sdk \<Rightarrow> string list \<Rightarrow> ('w, 'j, 'z) agent_proc_scheme \<Rightarrow> bool" where
  "agent_ok sdk trusted s =
     ((\<forall>(k, (v, at)) \<in> set (asCache s). secure_as sdk v)
      \<and> (\<forall>(k, d) \<in> set (discoveryCache s). sound_discovery sdk trusted k d))"

interpretation agent_inv: stable_invariant "agent_ok sdk trusted"
  for sdk :: "'w mcp_sdk" and trusted :: "string list"
  by unfold_locales (simp_all add: agent_ok_def)

lemma fresh_hit_ok: "ensures (agent_ok sdk trusted) (fresh_hit P force ttl hit) (\<lambda>r. \<forall>v. r = Some v \<longrightarrow> (\<exists>at. hit = Some (v, at)))"
  unfolding fresh_hit_def
  by (auto split: option.splits if_splits intro!: ensures_if ensures_return ensures_bind_any [OF agent_inv.world_get_ok])

lemma validate_secure:
  "validateAuthorizationServerMetadata sdk m = Inr v \<Longrightarrow> secure_as sdk v \<and> raMetadata v = m \<and> raIssuer v = jget m ''issuer''"
  by (auto simp: validateAuthorizationServerMetadata_def secure_as_def Let_def split: if_splits js.splits sum.splits)

lemma fetch_as_ok: "ensures (agent_ok sdk trusted) (fetch_as P sdk key) (secure_as sdk)"
  unfolding fetch_as_def
  apply (rule ensures_bind_any [OF ensures_catch [OF agent_inv.world_try_ok ensures_throw]])
  apply (rule ensures_bind_any [OF ensures_require])
  apply (rule ensures_bind [OF ensures_lift_sum, OF validate_secure], assumption)
  apply (rule ensures_bind_any [OF agent_inv.world_get_ok])
  apply (rule ensures_bind_any [OF ensures_modify])
   apply (auto simp: agent_ok_def dest!: om_set_mem intro: ensures_return)
  done

lemma resolve_as_ok: "ensures (agent_ok sdk trusted) (resolveAuthorizationServer P sdk issuer force ttl) (secure_as sdk)"
  unfolding resolveAuthorizationServer_def Let_def
  apply (rule ensures_bind_any [OF ensures_require])
  apply (rule ensures_bind [OF ensures_read, where R = "\<lambda>h. \<forall>v at. h = Some (v, at) \<longrightarrow> secure_as sdk v" for h])
   apply (auto simp: agent_ok_def om_get_def dest!: map_of_SomeD) []
  apply (rule ensures_bind [OF fresh_hit_ok])
  apply (auto split: option.splits intro: ensures_return fetch_as_ok)
  done

lemma fetchPrm_ok:
  assumes "\<And>q. ensures I (fetchFn q) (\<lambda>_. True)"
  shows "ensures I (fetchPrm fetchFn url) (\<lambda>r. \<forall>prm. r = Some prm \<longrightarrow> is_prm prm)"
  unfolding fetchPrm_def
  apply (rule ensures_bind_any [OF assms])
  apply (rule ensures_if)
   apply (simp add: ensures_return)
  apply (rule ensures_bind_any [OF ensures_require])
  apply (rule ensures_bind_any [where R = "\<lambda>_. True"])
   apply (simp add: ensures_lift_sum)
  apply (rule ensures_bind [OF ensures_require])
  apply (simp add: ensures_return)
  done

lemma first_prm_ok:
  assumes "\<And>q. ensures I (fetchFn q) (\<lambda>_. True)"
  shows "ensures I (first_prm fetchFn urls) (\<lambda>r. \<forall>prm u. r = Some (prm, u) \<longrightarrow> is_prm prm \<and> u \<in> set urls)"
proof (induction urls)
  case Nil
  then show ?case by (simp add: ensures_return)
next
  case (Cons u urls)
  have "ensures I (case r of Some prm \<Rightarrow> io_return (Some (prm, u)) | None \<Rightarrow> first_prm fetchFn urls)
      (\<lambda>r. \<forall>prm v. r = Some (prm, v) \<longrightarrow> is_prm prm \<and> v \<in> set (u # urls))"
    if "\<forall>prm. r = Some prm \<longrightarrow> is_prm prm" for r
    using that by (cases r) (auto intro: ensures_return ensures_conseq [OF Cons.IH])
  then show ?case
    by (simp add: ensures_bind [OF ensures_catch [OF fetchPrm_ok [OF assms] ensures_throw]])
qed

lemma select_as_Inr:
  "select_as key url prm (Some trusted) = Inr a \<Longrightarrow>
   strip_slashes (js_string (jget prm ''resource'')) = key \<and> js_first (jget prm ''authorization_servers'') = JStr a
   \<and> starts_with ''https://'' a \<and> strip_slashes a \<in> set (map strip_slashes trusted)"
  by (auto simp: select_as_def Let_def split: if_splits js.splits)

lemma store_discovery_ok:
  assumes "sound_discovery sdk trusted (mdServerUrl d) d"
  shows "ensures (agent_ok sdk trusted) (store_discovery P service d) (\<lambda>x. x = d)"
  unfolding store_discovery_def
  apply (rule ensures_bind_any [OF ensures_modify])
  using assms apply (auto simp: agent_ok_def dest!: om_set_mem) []
  apply (rule ensures_bind_any [OF agent_inv.lift_sum_ok])
  apply (rule ensures_bind_any [OF agent_inv.oboLog_ok])
  apply (simp add: ensures_return)
  done

lemma run_discovery_ok:
  assumes f: "\<And>q. ensures (agent_ok sdk trusted) (fetchFn q) (\<lambda>_. True)" and o: "dpAllowed opts = Some trusted"
  shows "ensures (agent_ok sdk trusted) (run_discovery P sdk fetchFn key opts) (sound_discovery sdk trusted key)"
proof -
  have probe: "ensures (agent_ok sdk trusted) (probeUnauthenticated fetchFn key) (\<lambda>_. True)"
    unfolding probeUnauthenticated_def
    by (rule ensures_bind_any [OF ensures_catch [OF f ensures_throw] ensures_bind_any [OF ensures_require ensures_return]]) simp
  have tail: "ensures (agent_ok sdk trusted)
     (io_bind (lift_sum (select_as key url prm (dpAllowed opts))) (\<lambda>server.
      io_bind (resolveAuthorizationServer P sdk server force ttl) (\<lambda>as.
      io_bind (lift_sum (select_scope wsc prm)) (\<lambda>sc.
      io_bind (require_that (fst sc \<noteq> []) (scope_unavailable key url)) (\<lambda>_.
      io_bind (world_get (dateNow P)) (\<lambda>now.
        store_discovery P service \<lparr> mdServerUrl = key, mdResourceMetadataUrl = url, mdResourceMetadata = prm,
            mdAuthorizationServer = server, mdAsMetadata = raMetadata as, mdTokenEndpoint = raTokenEndpoint as,
            mdScope = fst sc, mdScopeSource = snd sc, mdDiscoveredAt = now \<rparr>))))))
     (sound_discovery sdk trusted key)" for url prm force ttl wsc service
    unfolding o
    apply (rule ensures_bind [OF ensures_lift_sum, OF select_as_Inr], assumption)
    apply (rule ensures_bind [OF resolve_as_ok])
    apply (rule ensures_bind_any [OF agent_inv.lift_sum_ok])
    apply (rule ensures_bind [OF ensures_require])
    apply (rule ensures_bind_any [OF agent_inv.world_get_ok])
    apply (rule ensures_conseq [OF store_discovery_ok])
     apply (auto simp: sound_discovery_def secure_as_def)
    done
  show ?thesis unfolding run_discovery_def Let_def
    apply (rule ensures_bind_any [where R = "\<lambda>_. True"])
     apply (cases "dpChallenge opts")
      apply (simp_all add: probe ensures_return)
    apply (rule ensures_bind_any [OF agent_inv.lift_sum_ok])
    apply (rule ensures_bind_any [OF first_prm_ok [OF f]])
    apply (auto simp: tail ensures_throw split: option.splits)
    done
qed

section \<open>What discovery guarantees\<close>

lemma discovery_ok:
  assumes "dpAllowed opts = Some trusted"
  shows "ensures (agent_ok sdk trusted) (discoverMcpAuthorization P sdk (http_fetch P) serverUrl opts)
      (sound_discovery sdk trusted (strip_slashes serverUrl))"
  unfolding discoverMcpAuthorization_def Let_def
  apply (rule ensures_bind [OF ensures_read, where R = "\<lambda>h. \<forall>d at. h = Some (d, at) \<longrightarrow> sound_discovery sdk trusted (strip_slashes serverUrl) d" for h])
   apply (auto simp: agent_ok_def om_get_def dest!: map_of_SomeD) []
  apply (rule ensures_bind [OF fresh_hit_ok])
  apply (auto split: option.splits intro: ensures_return run_discovery_ok [OF agent_inv.http_fetch_ok assms])
  done

text \<open>
  The states of a process that only ever discovers with one allow-list, as the agents do with the issuer they are
  configured with: its caches start empty, and between discoveries it may look up authorization servers and do
  anything that leaves the two caches alone.
\<close>

inductive one_list :: "('w, 'j) platform \<Rightarrow> 'w mcp_sdk \<Rightarrow> string list \<Rightarrow> ('w, 'j, 'z) agent_proc_scheme \<Rightarrow> bool"
  for P :: "('w, 'j) platform" and sdk :: "'w mcp_sdk" and trusted :: "string list" where
  fresh: "asCache s = [] \<Longrightarrow> discoveryCache s = [] \<Longrightarrow> one_list P sdk trusted s"
| discovered: "one_list P sdk trusted s \<Longrightarrow> dpAllowed opts = Some trusted \<Longrightarrow>
    discoverMcpAuthorization P sdk (http_fetch P) serverUrl opts s = (r, t) \<Longrightarrow> one_list P sdk trusted t"
| looked_up: "one_list P sdk trusted s \<Longrightarrow> resolveAuthorizationServer P sdk issuer force ttl s = (q, t) \<Longrightarrow> one_list P sdk trusted t"
| other: "one_list P sdk trusted s \<Longrightarrow> asCache t = asCache s \<Longrightarrow> discoveryCache t = discoveryCache s \<Longrightarrow> one_list P sdk trusted t"

lemma one_list_ok: "one_list P sdk trusted s \<Longrightarrow> agent_ok sdk trusted s"
proof (induction rule: one_list.induct)
  case (discovered s opts serverUrl r t)
  show ?case using ensuresD [OF discovery_ok [OF discovered.hyps(2)] discovered.IH discovered.hyps(3)] ..
next
  case (looked_up s issuer force ttl q t)
  show ?case using ensuresD [OF resolve_as_ok looked_up.IH looked_up.hyps(2)] ..
qed (simp_all add: agent_ok_def)

text \<open>
  C26. In a process whose discoveries all use the same allow-list, whatever its servers answered so far, a discovery
  that succeeds, freshly run or from the cache, describes the very server asked about and names an https authorization
  server of the list, whose metadata advertises CIMD and whose token endpoint passed the check of the SDK, and it has
  a scope to ask for. That the process uses one list is needed: the cache is shared and a hit is not checked against the
  caller's list, \<open>discovery_hit_skips_allow_list\<close>.
\<close>

theorem discovery_trusted:
  assumes "one_list P sdk trusted s" "dpAllowed opts = Some trusted"
    and "discoverMcpAuthorization P sdk (http_fetch P) serverUrl opts s = (Inr d, t)"
  shows "strip_slashes (js_string (jget (mdResourceMetadata d) ''resource'')) = strip_slashes serverUrl
    \<and> js_first (jget (mdResourceMetadata d) ''authorization_servers'') = JStr (mdAuthorizationServer d)
    \<and> starts_with ''https://'' (mdAuthorizationServer d)
    \<and> strip_slashes (mdAuthorizationServer d) \<in> set (map strip_slashes trusted)
    \<and> jget (mdAsMetadata d) ''client_id_metadata_document_supported'' = JBool True
    \<and> (\<exists>ep. jget (mdAsMetadata d) ''token_endpoint'' = JStr ep \<and> assertSecureTokenEndpoint sdk ep = Inr (mdTokenEndpoint d))
    \<and> mdScope d \<noteq> []"
  using ensuresD [OF discovery_ok [OF assms(2)] one_list_ok [OF assms(1)] assms(3)]
  by (auto simp: sound_discovery_def secure_as_def)

definition fixture_sdk :: "int mcp_sdk" where
  "fixture_sdk = \<lparr> discoverAsMetadata = (\<lambda>_ w. (Inr (JObj [(''issuer'', JStr ''https://as''),
         (''client_id_metadata_document_supported'', JBool True), (''token_endpoint'', JStr ''https://as/token'')]), w)),
      assertSecureTokenEndpoint = Inr,
      wwwAuthParams = (\<lambda>_. \<lparr> wwResourceMetadataUrl = None, wwScope = Some ''ops:write'', wwError = None \<rparr>) \<rparr>"

definition prm_net :: "js \<Rightarrow> http_req \<Rightarrow> int \<Rightarrow> (exn + http_rsp) \<times> int" where
  "prm_net servers q w =
     (Inr (if qMethod q = ''POST'' then json_rsp 401 JNull
           else json_rsp 200 (JObj [(''resource'', JStr ''https://mcp/ops''), (''authorization_servers'', servers)])), w)"

definition idle_agent :: "int \<Rightarrow> (int, string) agent_proc" where
  "idle_agent w = \<lparr> world = w, out = [], spans = [], jwksCache = [], oidcCache = [], dpopNonces = [],
     asCache = [], discoveryCache = [], processKey = None \<rparr>"

definition fixture_discover_opts :: discover_opts where
  "fixture_discover_opts = \<lparr> dpChallenge = None, dpForce = False, dpService = None, dpTtlMs = None, dpAllowed = Some [''https://as/''] \<rparr>"

lemmas discovery_fixture_eval [eval_simps] = fixture_sdk_def prm_net_def idle_agent_def fixture_discover_opts_def

theorem discovery_trusted_witness:
  "\<exists>d. fst (discoverMcpAuthorization (fixture (prm_net (JArr [JStr ''https://as''])) (\<lambda>_. None)) fixture_sdk
        (http_fetch (fixture (prm_net (JArr [JStr ''https://as''])) (\<lambda>_. None))) ''https://mcp/ops/'' fixture_discover_opts
        (snd (discoverMcpAuthorization (fixture (prm_net (JArr [JStr ''https://as''])) (\<lambda>_. None)) fixture_sdk
           (http_fetch (fixture (prm_net (JArr [JStr ''https://as''])) (\<lambda>_. None))) ''https://mcp/ops/'' fixture_discover_opts (idle_agent 0)))) = Inr d
     \<and> strip_slashes (mdAuthorizationServer d) = ''https://as'' \<and> mdScope d \<noteq> []"
proof -
  let ?P = "fixture (prm_net (JArr [JStr ''https://as''])) (\<lambda>_. None)"
  let ?m = "discoverMcpAuthorization ?P fixture_sdk (http_fetch ?P) ''https://mcp/ops/'' fixture_discover_opts
     :: (int, string) agent_proc \<Rightarrow> _"
  have "\<exists>d. fst (?m (snd (?m (idle_agent 0)))) = Inr d" by (simp add: eval_simps del: formatOboLog_def)
  then obtain d where d: "fst (?m (snd (?m (idle_agent 0)))) = Inr d" ..
  have o: "dpAllowed fixture_discover_opts = Some [''https://as/'']" by (simp add: fixture_discover_opts_def)
  have "one_list ?P fixture_sdk [''https://as/''] (idle_agent 0 :: (int, string) agent_proc)"
    by (rule one_list.fresh) (simp_all add: idle_agent_def)
  from one_list.discovered [OF this o prod.collapse [symmetric]]
  have "one_list ?P fixture_sdk [''https://as/''] (snd (?m (idle_agent 0)))" .
  from discovery_trusted [OF this o] d show ?thesis
    by (cases "?m (snd (?m (idle_agent 0)))") (fastforce simp: strip_slashes_def)
qed

text \<open>
  The allow-list is only checked when a discovery is run: while an entry of the process-wide
  cache is fresh it is returned as it is, whatever servers the caller is willing to trust.
\<close>

theorem discovery_hit_skips_allow_list:
  assumes "om_get (discoveryCache s) (strip_slashes serverUrl) = Some d" "\<not> dpForce opts"
    and "0 < or_else (dpTtlMs opts) discovery_ttl_ms"
    and "fst (dateNow P (world s)) - mdDiscoveredAt d < or_else (dpTtlMs opts) discovery_ttl_ms"
  shows "fst (discoverMcpAuthorization P sdk fetchFn serverUrl opts s) = Inr d"
  using assms
  by (cases "dateNow P (world s)") (simp add: discoverMcpAuthorization_def fresh_hit_def Let_def io_simps)

definition cached_discovery :: mcp_discovery where
  "cached_discovery = \<lparr> mdServerUrl = ''https://mcp/ops'', mdResourceMetadataUrl = ''https://mcp/prm'', mdResourceMetadata = JNull,
     mdAuthorizationServer = ''https://evil'', mdAsMetadata = JNull, mdTokenEndpoint = ''https://evil/token'',
     mdScope = ''ops:write'', mdScopeSource = ''challenge'', mdDiscoveredAt = 0 \<rparr>"

theorem discovery_hit_skips_allow_list_witness:
  "fst (discoverMcpAuthorization (fixture no_net (\<lambda>_. None)) fixture_sdk (http_fetch (fixture no_net (\<lambda>_. None)))
     ''https://mcp/ops'' fixture_discover_opts ((idle_agent 5)\<lparr>discoveryCache := [(''https://mcp/ops'', cached_discovery)]\<rparr>))
   = Inr cached_discovery"
  by (rule discovery_hit_skips_allow_list)
     (simp_all add: eval_simps cached_discovery_def)

text \<open>
  Not every failure of a discovery is typed: a metadata document whose server list holds a
  number makes it throw a \<^verbatim>\<open>TypeError\<close>, which \<open>isDiscoveryFailure\<close> does not recognise.
\<close>

theorem discovery_untyped_failure:
  "fst (discoverMcpAuthorization (fixture (prm_net (JArr [JNum 42])) (\<lambda>_. None)) fixture_sdk
        (http_fetch (fixture (prm_net (JArr [JNum 42])) (\<lambda>_. None))) ''https://mcp/ops'' fixture_discover_opts (idle_agent 0))
     = Inl (JsError ''TypeError'' ''authorizationServer.startsWith is not a function'')
   \<and> \<not> isDiscoveryFailure (JsError ''TypeError'' ''authorizationServer.startsWith is not a function'')"
  by (simp add: eval_simps del: formatOboLog_def)

lemma io_try_Inr [simp]: "io_try m s = (Inr r, t) \<longleftrightarrow> m s = (r, t)"
  by (auto simp: io_try_def split: prod.splits)

lemma provider_discover_Inr:
  assumes "provider_discover P sdk pc force ch pv s = (Inr (Inr d, pv'), t)"
  shows "discoverMcpAuthorization P sdk (http_fetch P) (pcServerUrl pc)
           \<lparr> dpChallenge = ch, dpForce = force, dpService = Some (pcService pc),
             dpTtlMs = pcDiscoveryTtlMs pc, dpAllowed = pcAllowed pc \<rparr> s = (Inr d, t) \<and> pv' = pv\<lparr> pvDiscovery := Some d \<rparr>"
proof -
  obtain r u where r: "discoverMcpAuthorization P sdk (http_fetch P) (pcServerUrl pc)
           \<lparr> dpChallenge = ch, dpForce = force, dpService = Some (pcService pc),
             dpTtlMs = pcDiscoveryTtlMs pc, dpAllowed = pcAllowed pc \<rparr> s = (r, u)" by fastforce
  show ?thesis using assms r
    by (cases r) (auto simp: provider_discover_def io_bind_def io_try_def io_return_def split: prod.splits sum.splits)
qed

lemma provider_acquire_Inr:
  assumes "provider_acquire P sdk pc exchange True ch pv s = (Inr (Inr tok, pv'), t)"
  obtains d u where "discoverMcpAuthorization P sdk (http_fetch P) (pcServerUrl pc)
           \<lparr> dpChallenge = ch, dpForce = True, dpService = Some (pcService pc),
             dpTtlMs = pcDiscoveryTtlMs pc, dpAllowed = pcAllowed pc \<rparr> s = (Inr d, u)"
    and "exchange \<lparr> eiTokenEndpoint = mdTokenEndpoint d, eiScope = mdScope d, eiDiscovery = d, eiForced = True \<rparr> u = (Inr tok, t)"
    and "pv' = pv\<lparr> pvDiscovery := Some d, pvToken := Some tok \<rparr>"
proof -
  have l: "provider_learn P sdk pc True ch pv = provider_discover P sdk pc True ch pv"
    by (simp add: provider_learn_def split: option.splits)
  from assms obtain p u where d: "provider_discover P sdk pc True ch pv s = (Inr p, u)"
    and r: "(case fst p of Inl e \<Rightarrow> io_return (Inl e, snd p)
       | Inr d \<Rightarrow> io_bind (io_try (exchange \<lparr> eiTokenEndpoint = mdTokenEndpoint d, eiScope = mdScope d, eiDiscovery = d, eiForced = True \<rparr>)) (\<lambda>x.
             case x of Inl e \<Rightarrow> io_return (Inl e, snd p) | Inr tok \<Rightarrow> io_return (Inr tok, (snd p)\<lparr> pvToken := Some tok \<rparr>))) u
       = (Inr (Inr tok, pv'), t)"
    unfolding provider_acquire_def l io_bind_Inr by blast
  then obtain dd where x: "fst p = Inr dd" by (cases "fst p") auto
  let ?ei = "\<lparr> eiTokenEndpoint = mdTokenEndpoint dd, eiScope = mdScope dd, eiDiscovery = dd, eiForced = True \<rparr>"
  obtain y w where e: "exchange ?ei u = (y, w)" by fastforce
  with r x have "exchange ?ei u = (Inr tok, t)" "pv' = (snd p)\<lparr> pvToken := Some tok \<rparr>"
    by (cases y; simp add: io_bind_def io_try_def io_return_def)+
  moreover have "discoverMcpAuthorization P sdk (http_fetch P) (pcServerUrl pc)
           \<lparr> dpChallenge = ch, dpForce = True, dpService = Some (pcService pc),
             dpTtlMs = pcDiscoveryTtlMs pc, dpAllowed = pcAllowed pc \<rparr> s = (Inr dd, u) \<and> snd p = pv\<lparr> pvDiscovery := Some dd \<rparr>"
    using provider_discover_Inr [of P sdk pc True ch pv s dd "snd p" u] d x by (metis prod.collapse)
  ultimately show thesis using that by simp
qed

lemma provider_acquire_Inl:
  assumes "provider_acquire P sdk pc exchange force ch pv s = (Inr (Inl e, pv'), t)"
  shows "pvToken pv' = pvToken pv"
proof -
  have d: "pvToken (snd p) = pvToken pv" if "provider_discover P sdk pc force ch pv u = (Inr p, w)" for p u w
  proof -
    obtain r v where r: "discoverMcpAuthorization P sdk (http_fetch P) (pcServerUrl pc)
           \<lparr> dpChallenge = ch, dpForce = force, dpService = Some (pcService pc),
             dpTtlMs = pcDiscoveryTtlMs pc, dpAllowed = pcAllowed pc \<rparr> u = (r, v)" by fastforce
    show ?thesis using that r by (cases r) (auto simp: provider_discover_def io_bind_def io_try_def io_return_def split: prod.splits sum.splits)
  qed
  obtain p u where p: "provider_learn P sdk pc force ch pv s = (Inr p, u)"
    and r: "(case fst p of Inl e \<Rightarrow> io_return (Inl e, snd p)
       | Inr d \<Rightarrow> io_bind (io_try (exchange \<lparr> eiTokenEndpoint = mdTokenEndpoint d, eiScope = mdScope d, eiDiscovery = d, eiForced = force \<rparr>)) (\<lambda>x.
             case x of Inl e \<Rightarrow> io_return (Inl e, snd p) | Inr tok \<Rightarrow> io_return (Inr tok, (snd p)\<lparr> pvToken := Some tok \<rparr>))) u
       = (Inr (Inl e, pv'), t)"
    using assms unfolding provider_acquire_def io_bind_Inr by blast
  have "pvToken (snd p) = pvToken pv"
    using p d by (cases p) (auto simp: provider_learn_def io_return_def split: option.splits if_splits)
  moreover have "pv' = snd p"
  proof (cases "fst p")
    case (Inr d)
    obtain y w where "exchange \<lparr> eiTokenEndpoint = mdTokenEndpoint d, eiScope = mdScope d, eiDiscovery = d, eiForced = force \<rparr> u = (y, w)"
      by fastforce
    then show ?thesis using r Inr by (cases y) (auto simp: io_bind_def io_try_def io_return_def)
  qed (use r in \<open>simp add: io_return_def\<close>)
  ultimately show ?thesis by simp
qed

text \<open>
  C40. The agents answer a 401 from an MCP server in the one safe way. A challenge for more authentication of the user
  is neither exchanged nor retried: the SDK's callback fails with it and nothing changes, neither the process nor what the
  provider holds. Any other 401 makes the callback succeed only after a forced discovery from the very response
  received, under the provider's allow-list, and one forced exchange for the endpoint and scope it found, whose
  token is the one the provider now holds; when either fails, the provider holds the token it held before.
\<close>

theorem unauthorized_seam:
  assumes "onUnauthorized P sdk pc exchange rsp pv s = (Inr (r, pv'), t)"
  shows "if wwError (wwwAuthParams sdk rsp) = Some ''insufficient_user_authentication''
         then t = s \<and> pv' = pv \<and> (\<exists>m. r = Inl (CurityAuthError m StepUpRequiredCode))
         else (case r of
           Inl e \<Rightarrow> pvToken pv' = pvToken pv
         | Inr _ \<Rightarrow>
           (\<exists>d u tok. discoverMcpAuthorization P sdk (http_fetch P) (pcServerUrl pc)
                \<lparr> dpChallenge = Some rsp, dpForce = True, dpService = Some (pcService pc),
                  dpTtlMs = pcDiscoveryTtlMs pc, dpAllowed = pcAllowed pc \<rparr> s = (Inr d, u)
              \<and> exchange \<lparr> eiTokenEndpoint = mdTokenEndpoint d, eiScope = mdScope d, eiDiscovery = d, eiForced = True \<rparr> u = (Inr tok, t)
              \<and> pvToken pv' = Some tok \<and> pvDiscovery pv' = Some d))"
proof (cases "wwError (wwwAuthParams sdk rsp) = Some ''insufficient_user_authentication''")
  case True
  then show ?thesis using assms by (auto simp: onUnauthorized_def io_return_def)
next
  case False
  obtain y where y: "provider_acquire P sdk pc exchange True (Some rsp) pv s = (Inr (y, pv'), t)" "r = map_sum id (\<lambda>_. ()) y"
    using assms False by (auto simp: onUnauthorized_def io_bind_Inr)
  show ?thesis
  proof (cases y)
    case (Inl e)
    then show ?thesis using False y provider_acquire_Inl [OF y(1) [unfolded Inl]] by simp
  next
    case (Inr tok)
    show ?thesis using False y(2) Inr
      by (auto intro: provider_acquire_Inr [OF y(1) [unfolded Inr]])
  qed
qed

theorem unauthorized_seam_witness:
  "\<exists>pv t d. onUnauthorized (fixture (prm_net (JArr [JStr ''https://as''])) (\<lambda>_. None)) fixture_sdk
       \<lparr> pcServerUrl = ''https://mcp/ops'', pcService = ''agent'', pcAllowed = None, pcDiscoveryTtlMs = None \<rparr>
       (\<lambda>_ s. (Inr (JStr ''T''), s)) (json_rsp 401 JNull) new_provider (idle_agent 0) = (Inr (Inr (), pv), t)
     \<and> pvToken pv = Some (JStr ''T'') \<and> pvDiscovery pv = Some d"
proof -
  let ?P = "fixture (prm_net (JArr [JStr ''https://as''])) (\<lambda>_. None)"
  let ?pc = "\<lparr> pcServerUrl = ''https://mcp/ops'', pcService = ''agent'', pcAllowed = None, pcDiscoveryTtlMs = None \<rparr>"
  let ?ex = "(\<lambda>_ s. (Inr (JStr ''T''), s)) :: exchange_input \<Rightarrow> (int, string) agent_proc \<Rightarrow> (exn + js) \<times> (int, string) agent_proc"
  let ?r = "onUnauthorized ?P fixture_sdk ?pc ?ex (json_rsp 401 JNull) new_provider (idle_agent 0)"
  have "\<exists>pv t. ?r = (Inr (Inr (), pv), t)"
    by (simp add: eval_simps del: formatOboLog_def)
  then obtain pv t where r: "?r = (Inr (Inr (), pv), t)" by blast
  from unauthorized_seam [OF this] have "\<exists>d. pvToken pv = Some (JStr ''T'') \<and> pvDiscovery pv = Some d"
    by (auto simp: fixture_sdk_def)
  then show ?thesis using r by blast
qed

end
