(* ===== verification/AgentFetch.thy ===== *)
theory AgentFetch
  imports Discovery OpsApi
begin

text \<open>
  What wraps the agents' HTTP: the step-up error that travels over A2A
  (\<^verbatim>\<open>packages/a2a-helpers/src/step-up-error.ts\<close>), the bearer carriers of both A2A sides
  (\<^verbatim>\<open>server.ts\<close>, \<^verbatim>\<open>client.ts\<close>), the DPoP wrapper (\<^verbatim>\<open>packages/agent-runtime/src/dpop-fetch.ts\<close>) and
  the specialist's step-up interceptor (\<^verbatim>\<open>apps/agent-specialist/src/mcp-ops-client.ts\<close>).
\<close>

section \<open>The step-up error\<close>

definition step_up_code :: int where "step_up_code = - 33001"

definition toPayload :: "step_up_fields \<Rightarrow> js" where
  "toPayload f =
     JObj [(''code'', JNum step_up_code), (''message'', JStr (step_up_message f)),
           (''data'', JObj [(''acrValues'', acrValues f), (''resourceMetadata'', resourceMetadata f), (''scope'', suScope f)])]"

text \<open>\<^verbatim>\<open>new StepUpRequiredError(p.data)\<close>\<close>

definition fromPayload :: "js \<Rightarrow> exn" where
  "fromPayload p =
     (let d = jget p ''data''
      in StepUpRequiredError \<lparr> acrValues = jget d ''acrValues'',
           resourceMetadata = jget d ''resourceMetadata'', suScope = jget d ''scope'' \<rparr>)"

definition isStepUpPayload :: "js \<Rightarrow> bool" where
  "isStepUpPayload p =
     (is_object p \<and> jget p ''code'' = JNum step_up_code \<and> is_object (jget p ''data'')
      \<and> jget (jget p ''data'') ''acrValues'' \<noteq> JUndef)"

section \<open>Bearers over A2A\<close>

datatype a2a_user = UnauthenticatedUser | BearerUser string string  \<comment> \<open>the bearer and the subject\<close>

fun bearerFromContext :: "a2a_user option \<Rightarrow> string option" where
  "bearerFromContext (Some (BearerUser b _)) = Some b"
| "bearerFromContext _ = None"

definition bearer_user_builder :: "(string \<Rightarrow> ('s, 'e, string) io) \<Rightarrow> string option \<Rightarrow> ('s, 'e, a2a_user) io" where
  "bearer_user_builder verify header =
     (case bearer_of header of
        None \<Rightarrow> io_return UnauthenticatedUser
      | Some bearer \<Rightarrow>
          if bearer = [] then io_return UnauthenticatedUser
          else io_bind (verify bearer) (\<lambda>sub. io_return (BearerUser bearer sub)))"

definition bearer_auth_headers :: "('s, 'e, string) io \<Rightarrow> ('s, 'e, (string \<times> string) list) io" where
  "bearer_auth_headers token_provider =
     io_bind token_provider (\<lambda>token. io_return [(''authorization'', ''Bearer '' @ token)])"

section \<open>Presenting DPoP-bound tokens\<close>

definition upper_char :: "char \<Rightarrow> char" where
  "upper_char c =
     (case map_of (zip ''abcdefghijklmnopqrstuvwxyz'' ''ABCDEFGHIJKLMNOPQRSTUVWXYZ'') c of None \<Rightarrow> c | Some d \<Rightarrow> d)"

definition upper :: "string \<Rightarrow> string" where
  "upper s = map upper_char s"

text \<open>\<^verbatim>\<open>/^Bearer\s+(\S+)$/i\<close>; header names are lower case and values trimmed, as \<^verbatim>\<open>Headers\<close> keeps them.\<close>

definition bearer_match :: "string \<Rightarrow> string option" where
  "bearer_match v =
     (let rest = drop 6 v; tok = trim_start rest
      in if lower (take 6 v) = ''bearer'' \<and> length tok < length rest \<and> tok \<noteq> [] \<and> (\<forall>c \<in> set tok. \<not> is_ws c)
         then Some tok else None)"

definition htuOf :: "string \<Rightarrow> exn + string" where
  "htuOf url =
     (case parse_url url of
        None \<Rightarrow> Inl (type_error ''Invalid URL'')
      | Some u \<Rightarrow> Inr (url_str (u\<lparr> uSearch := [], uHash := [] \<rparr>)))"

text \<open>The token of a request that is a bearer of a bound one.\<close>

definition bound_bearer :: "('w, 'j) platform \<Rightarrow> http_req \<Rightarrow> string option" where
  "bound_bearer P q =
     (case bearer_match (or_else (om_get (qHeaders q) ''authorization'') []) of
        None \<Rightarrow> None
      | Some tok \<Rightarrow> (case tokenCnfJkt P tok of None \<Rightarrow> None | Some j \<Rightarrow> if j = [] then None else Some tok))"

definition withDpop ::
  "('w, 'j) platform \<Rightarrow> dpop_key \<Rightarrow> (http_req \<Rightarrow> ('w, 'j, 'z, http_rsp) act) \<Rightarrow> http_req \<Rightarrow> ('w, 'j, 'z, http_rsp) act" where
  "withDpop P key inner q =
     (case bound_bearer P q of
        None \<Rightarrow> inner q
      | Some tok \<Rightarrow>
          (let verb = upper (qMethod q); headers = om_set (qHeaders q) ''authorization'' (''DPoP '' @ tok)
           in io_bind (lift_sum (htuOf (qUrl q))) (\<lambda>htu.
              io_bind (createDpopProof P key verb htu (Some tok) None) (\<lambda>jws.
                inner (q\<lparr> qMethod := verb, qHeaders := om_set headers ''dpop'' jws \<rparr>)))))"

text \<open>The process's one key; the outcome of its generation is kept, a failure as well.\<close>

definition processDpopKey ::
  "('w, 'j) platform \<Rightarrow> ('w, 'j, 'z) agent_proc_scheme \<Rightarrow> (exn + dpop_key) \<times> ('w, 'j, 'z) agent_proc_scheme" where
  "processDpopKey P s =
     (case processKey s of
        Some r \<Rightarrow> (r, s)
      | None \<Rightarrow> (case createDpopKey P s of (r, t) \<Rightarrow> (r, t\<lparr>processKey := Some r\<rparr>)))"

definition withProcessDpop ::
  "('w, 'j) platform \<Rightarrow> (http_req \<Rightarrow> ('w, 'j, 'z) agent_proc_scheme \<Rightarrow> (exn + http_rsp) \<times> ('w, 'j, 'z) agent_proc_scheme)
   \<Rightarrow> http_req \<Rightarrow> ('w, 'j, 'z) agent_proc_scheme \<Rightarrow> (exn + http_rsp) \<times> ('w, 'j, 'z) agent_proc_scheme" where
  "withProcessDpop P inner q = io_bind (processDpopKey P) (\<lambda>key. withDpop P key inner q)"

section \<open>The step-up interceptor\<close>

text \<open>\<^verbatim>\<open>s.match(/k="([^"]+)"/)?.[1]\<close>: the first place where the pattern matches.\<close>

definition quoted_here :: "string \<Rightarrow> string \<Rightarrow> string option" where
  "quoted_here k s =
     (let pre = k @ ''=\"''; (v, rest) = break_at (\<lambda>c. c = CHR 0x22) (drop (length pre) s)
      in if starts_with pre s \<and> v \<noteq> [] \<and> rest \<noteq> [] then Some v else None)"

fun quoted_param :: "string \<Rightarrow> string \<Rightarrow> string option" where
  "quoted_param k [] = None"
| "quoted_param k (c # s) = (case quoted_here k (c # s) of Some v \<Rightarrow> Some v | None \<Rightarrow> quoted_param k s)"

definition parseStepUpChallenge :: "string option \<Rightarrow> (string \<times> string) option" where
  "parseStepUpChallenge header =
     (case header of
        None \<Rightarrow> None
      | Some h \<Rightarrow>
          if quoted_param ''error'' h \<noteq> Some ''insufficient_user_authentication'' then None
          else Some (or_else (quoted_param ''acr_values'' h) ''mfa'', or_else (quoted_param ''resource_metadata'' h) []))"

text \<open>
  \<open>buildStepUpInterceptingFetch\<close>; \<open>get\<close> and \<open>set\<close> reach the sink, the variable a challenge
  escapes through.
\<close>

definition intercepting_fetch ::
  "(http_req \<Rightarrow> ('s, exn, http_rsp) io) \<Rightarrow> ('s \<Rightarrow> step_up_fields option) \<Rightarrow> (step_up_fields \<Rightarrow> 's \<Rightarrow> 's) \<Rightarrow> string
   \<Rightarrow> http_req \<Rightarrow> ('s, exn, http_rsp) io" where
  "intercepting_fetch fetchFn get put scope q =
     io_bind (fetchFn q) (\<lambda>rsp.
       if pStatus rsp = 401
       then (case parseStepUpChallenge (rsp_header rsp ''www-authenticate'') of
               Some c \<Rightarrow>
                 (let err = \<lparr> acrValues = JStr (fst c), resourceMetadata = JStr (snd c), suScope = JStr scope \<rparr>
                  in io_bind (io_modify (\<lambda>s. if get s = None then put err s else s)) (\<lambda>_.
                       io_throw (StepUpRequiredError err)))
             | None \<Rightarrow> io_return rsp)
       else io_return rsp)"

lemmas agent_fetch_eval [eval_simps] = step_up_code_def toPayload_def fromPayload_def isStepUpPayload_def
  bearer_user_builder_def bearer_auth_headers_def upper_char_def upper_def bearer_match_def htuOf_def
  bound_bearer_def withDpop_def processDpopKey_def withProcessDpop_def quoted_here_def parseStepUpChallenge_def
  intercepting_fetch_def

section \<open>What they guarantee\<close>

text \<open>
  The step-up error survives its trip over A2A: the payload it is sent as is recognised as
  one, if it says which authentication is wanted, and gives the same error back.
\<close>

theorem step_up_payload_roundtrip:
  "(isStepUpPayload (toPayload f) \<longleftrightarrow> acrValues f \<noteq> JUndef) \<and> fromPayload (toPayload f) = StepUpRequiredError f"
  by (cases f) (simp add: isStepUpPayload_def toPayload_def fromPayload_def)

lemma bound_bearer_nonempty: "bound_bearer P q = Some tok \<Longrightarrow> tok \<noteq> []"
  by (auto simp: bound_bearer_def bearer_match_def Let_def split: option.splits if_splits)

definition proof_header :: "dpop_key \<Rightarrow> js" where
  "proof_header key = JObj [(''typ'', JStr proof_typ), (''alg'', JStr dpop_alg), (''jwk'', dkPublicJwk key)]"

definition proof_claims :: "('w, 'j) platform \<Rightarrow> string \<Rightarrow> string \<Rightarrow> string \<Rightarrow> string \<Rightarrow> int \<Rightarrow> js" where
  "proof_claims P verb htu tok jti now =
     JObj [(''htm'', JStr verb), (''htu'', JStr htu), (''jti'', JStr jti),
           (''ath'', JStr (accessTokenHash P tok)), (''iat'', JNum (now div 1000))]"

lemma createDpopProof_run:
  assumes "tok \<noteq> []" "randomUUID P (world s) = (jti, w)" "dateNow P w = (now, w')"
  shows "createDpopProof P key verb htu (Some tok) None s =
    (signJwt P (dkPrivateKey key) (proof_header key) (proof_claims P verb htu tok jti now), s\<lparr>world := w'\<rparr>)"
  using assms by (simp add: createDpopProof_def proof_header_def proof_claims_def opt_field_def io_simps)

lemma proof_claims_checked:
  assumes "stripQuery htu = stripQuery server" "\<bar>clock - now div 1000 * 1000\<bar> \<le> 60000"
  shows "check_claims P (proof_claims P verb htu tok jti now) verb server tok clock 60000 v = (Inr (), v)"
  using assms by (simp add: check_claims_def proof_claims_def htu_matches_def iat_in_window_def require_that_def io_simps)

text \<open>
  C27. A bound token leaves the process only with proof of possession. For a request that carries one as a bearer,
  the wrapper either fails before anything is sent (the URL does not parse, or the proof cannot be signed), or it does
  exactly one thing with the fetch it wraps: call it, from the state in which only an identifier and the time have been
  drawn, on the request with the token as \<^verbatim>\<open>DPoP\<close> and a proof in its headers. The proof is signed with the process
  key; its jti is the identifier just drawn and its iat the time just read, in seconds; and its claims pass the check
  of a server that knows the resource by the same URL and whose clock is within a minute of that iat.
\<close>

theorem bound_token_presented_with_proof:
  fixes s :: "('w, 'j, 'z) proc_scheme"
  assumes "bound_bearer P q = Some tok"
  shows "(\<exists>e w. \<forall>inner. withDpop P key inner q s = (Inl e, s\<lparr>world := w\<rparr>))
    \<or> (\<exists>htu jti w now w' claims jws. htuOf (qUrl q) = Inr htu \<and> randomUUID P (world s) = (jti, w) \<and> dateNow P w = (now, w')
        \<and> signJwt P (dkPrivateKey key) (JObj [(''typ'', JStr proof_typ), (''alg'', JStr dpop_alg), (''jwk'', dkPublicJwk key)]) claims = Inr jws
        \<and> jget claims ''jti'' = JStr jti \<and> jget claims ''iat'' = JNum (now div 1000)
        \<and> (\<forall>inner. withDpop P key inner q s =
             inner (q\<lparr> qMethod := upper (qMethod q),
                       qHeaders := om_set (om_set (qHeaders q) ''authorization'' (''DPoP '' @ tok)) ''dpop'' jws \<rparr>) (s\<lparr>world := w'\<rparr>))
        \<and> (\<forall>server clock (v :: 'v). stripQuery htu = stripQuery server \<longrightarrow> \<bar>clock - now div 1000 * 1000\<bar> \<le> 60000 \<longrightarrow>
             check_claims P claims (upper (qMethod q)) server tok clock 60000 v = (Inr (), v)))"
proof -
  note run = withDpop_def [of P key _ q, unfolded assms Let_def option.case]
  obtain jti w now w' where w: "randomUUID P (world s) = (jti, w)" "dateNow P w = (now, w')" by fastforce
  note c = createDpopProof_run [OF bound_bearer_nonempty [OF assms] w]
  show ?thesis
  proof (cases "htuOf (qUrl q)")
    case (Inl e)
    then have "withDpop P key inner q s = (Inl e, s\<lparr>world := world s\<rparr>)" for inner :: "http_req \<Rightarrow> ('w, 'j, 'z, http_rsp) act"
      unfolding run by (simp add: io_simps)
    then show ?thesis by blast
  next
    case (Inr htu)
    let ?claims = "proof_claims P (upper (qMethod q)) htu tok jti now"
    show ?thesis
    proof (cases "signJwt P (dkPrivateKey key) (proof_header key) ?claims")
      case (Inl e)
      then have "withDpop P key inner q s = (Inl e, s\<lparr>world := w'\<rparr>)" for inner :: "http_req \<Rightarrow> ('w, 'j, 'z, http_rsp) act"
        unfolding run by (simp add: \<open>htuOf (qUrl q) = Inr htu\<close> io_bind_def lift_sum_def c)
      then show ?thesis by blast
    next
      case (Inr jws)
      have "withDpop P key inner q s =
             inner (q\<lparr> qMethod := upper (qMethod q),
                       qHeaders := om_set (om_set (qHeaders q) ''authorization'' (''DPoP '' @ tok)) ''dpop'' jws \<rparr>) (s\<lparr>world := w'\<rparr>)"
        for inner :: "http_req \<Rightarrow> ('w, 'j, 'z, http_rsp) act"
        unfolding run by (simp add: \<open>htuOf (qUrl q) = Inr htu\<close> io_bind_def lift_sum_def c Inr)
      moreover have "jget ?claims ''jti'' = JStr jti" "jget ?claims ''iat'' = JNum (now div 1000)" by (simp_all add: proof_claims_def)
      moreover have "\<forall>server clock (v :: 'v). stripQuery htu = stripQuery server \<longrightarrow> \<bar>clock - now div 1000 * 1000\<bar> \<le> 60000 \<longrightarrow>
             check_claims P ?claims (upper (qMethod q)) server tok clock 60000 v = (Inr (), v)"
        by (intro allI impI proof_claims_checked)
      ultimately show ?thesis
        using \<open>htuOf (qUrl q) = Inr htu\<close> w Inr [unfolded proof_header_def]
        by (intro disjI2) (rule exI [of _ htu], rule exI [of _ jti], rule exI [of _ w], rule exI [of _ now], rule exI [of _ w'],
            rule exI [of _ ?claims], rule exI [of _ jws], intro conjI allI; (assumption | rule refl | blast))
    qed
  qed
qed

definition bound_fixture :: "(int, string) platform" where
  "bound_fixture = fixture no_net (\<lambda>t. if t = ''T'' then Some (JObj [(''cnf'', JObj [(''jkt'', JStr ''jkt'')])]) else None)"

definition fixture_dpop_key :: dpop_key where
  "fixture_dpop_key = \<lparr> dkPrivateKey = ''priv'', dkPublicJwk = JObj [(''kty'', JStr ''EC'')], dkJkt = ''jkt'' \<rparr>"

definition bearer_request :: http_req where
  "bearer_request = \<lparr> qMethod = ''post'', qUrl = ''https://g/ops/mcp?x=1'', qHeaders = [(''authorization'', ''Bearer T'')], qBody = [] \<rparr>"

theorem bound_token_presented_with_proof_witness:
  "\<exists>jws. fst (withDpop bound_fixture fixture_dpop_key (\<lambda>q s. (Inr (json_rsp 200 (JStr (or_else (om_get (qHeaders q) ''authorization'') []))), s))
       bearer_request (idle 0 :: (int, string) proc)) = Inr (json_rsp 200 (JStr ''DPoP T''))
     \<and> signJwt bound_fixture ''priv'' (JObj [(''typ'', JStr proof_typ), (''alg'', JStr dpop_alg), (''jwk'', JObj [(''kty'', JStr ''EC'')])]) jws \<noteq> Inl (Thrown JNull)"
proof -
  let ?inner = "\<lambda>q s. (Inr (json_rsp 200 (JStr (or_else (om_get (qHeaders q) ''authorization'') []))), s :: (int, string) proc)"
  have b: "bound_bearer bound_fixture bearer_request = Some ''T''"
    by (simp add: eval_simps bound_fixture_def bearer_request_def cnfJkt_def)
  have sent: "\<exists>rsp t. withDpop bound_fixture fixture_dpop_key ?inner bearer_request (idle 0) = (Inr rsp, t)"
    unfolding withDpop_def b
    by (simp add: eval_simps bound_fixture_def bearer_request_def fixture_dpop_key_def)
  with bound_token_presented_with_proof [OF b, of fixture_dpop_key "idle 0 :: (int, string) proc", where ?'v = nat]
  obtain htu claims jws w' where
    s: "signJwt bound_fixture (dkPrivateKey fixture_dpop_key) (JObj [(''typ'', JStr proof_typ), (''alg'', JStr dpop_alg), (''jwk'', dkPublicJwk fixture_dpop_key)]) claims = Inr jws"
    and i: "\<forall>inner. withDpop bound_fixture fixture_dpop_key inner bearer_request (idle 0 :: (int, string) proc) =
             inner (bearer_request\<lparr> qMethod := upper (qMethod bearer_request),
                       qHeaders := om_set (om_set (qHeaders bearer_request) ''authorization'' (''DPoP '' @ ''T'')) ''dpop'' jws \<rparr>) ((idle 0)\<lparr>world := w'\<rparr>)"
    by fastforce
  have "withDpop bound_fixture fixture_dpop_key ?inner bearer_request (idle 0) = (Inr (json_rsp 200 (JStr ''DPoP T'')), (idle 0)\<lparr>world := w'\<rparr>)"
    unfolding i [rule_format] by (simp add: omap_simps or_else_def)
  then show ?thesis using s by (intro exI [of _ claims]) (simp add: fixture_dpop_key_def)
qed

text \<open>Reading a challenge, character by character.\<close>

lemma starts_with_simps [simp]:
  "starts_with [] s" "\<not> starts_with (p # ps) []" "starts_with (p # ps) (c # cs) = (p = c \<and> starts_with ps cs)"
  by (auto simp: starts_with_def)

declare starts_with_append [simp]

lemma pattern_needs_equals:
  "starts_with (k @ ''=\"'') (y @ CHR 0x22 # s) \<Longrightarrow> y \<noteq> [] \<Longrightarrow> CHR 0x22 \<notin> set k \<Longrightarrow> CHR 0x22 \<notin> set y \<Longrightarrow> CHR ''='' \<in> set y"
proof (induction k arbitrary: y)
  case Nil
  then show ?case by (cases y) auto
next
  case (Cons a k)
  then obtain c y' where y: "y = c # y'" by (cases y) auto
  show ?case
  proof (cases "y' = []")
    case True
    then show ?thesis using Cons.prems y by (cases k) auto
  next
    case False
    then show ?thesis using Cons y by auto
  qed
qed

lemma skip_text:
  "CHR 0x22 \<notin> set k \<Longrightarrow> CHR 0x22 \<notin> set x \<Longrightarrow> CHR ''='' \<notin> set x \<Longrightarrow>
   quoted_param k (x @ CHR 0x22 # s) = quoted_param k (CHR 0x22 # s)"
proof (induction x)
  case (Cons c x)
  have "quoted_here k (c # x @ CHR 0x22 # s) = None"
    using pattern_needs_equals [of k "c # x" s] Cons.prems by (auto simp: quoted_here_def Let_def split: prod.splits)
  then show ?case using Cons by simp
qed simp

lemma quoted_here_hit:
  "CHR 0x22 \<notin> set v \<Longrightarrow> v \<noteq> [] \<Longrightarrow> quoted_here k (k @ ''=\"'' @ v @ CHR 0x22 # r) = Some v"
proof -
  assume v: "CHR 0x22 \<notin> set v" "v \<noteq> []"
  have "drop (length (k @ ''=\"'')) (k @ ''=\"'' @ v @ CHR 0x22 # r) = v @ CHR 0x22 # r"
    by (metis append_assoc append_eq_conv_conj)
  moreover have "takeWhile (\<lambda>c. c \<noteq> CHR 0x22) (v @ CHR 0x22 # r) = v" "dropWhile (\<lambda>c. c \<noteq> CHR 0x22) (v @ CHR 0x22 # r) = CHR 0x22 # r"
    using v(1) by (induction v) auto
  ultimately show ?thesis
    using v starts_with_append [of "k @ ''=\"''" "v @ CHR 0x22 # r"] by (simp add: quoted_here_def break_at_def Let_def)
qed

lemma quoted_here_empty: "quoted_here k (k @ ''=\"'' @ CHR 0x22 # r) = None"
proof -
  have "drop (length (k @ ''=\"'')) (k @ ''=\"'' @ CHR 0x22 # r) = CHR 0x22 # r"
    by (metis append_assoc append_eq_conv_conj)
  then show ?thesis by (simp add: quoted_here_def break_at_def Let_def)
qed

text \<open>A value needs two quotes, so the last one of a text opens none.\<close>

lemma no_value_left: "CHR 0x22 \<notin> set y \<Longrightarrow> CHR 0x22 \<notin> set k \<Longrightarrow> quoted_param k (y @ ''\"'') = None"
proof (induction y)
  case Nil
  then show ?case by (cases k) (auto simp: quoted_here_def Let_def break_at_def)
next
  case (Cons c y)
  have "quoted_here k (c # y @ ''\"'') = None"
  proof (rule ccontr)
    assume h: "quoted_here k (c # y @ ''\"'') \<noteq> None"
    then have p: "starts_with (k @ ''=\"'') (c # y @ ''\"'')"
      by (auto simp: quoted_here_def Let_def split: prod.splits if_splits)
    then obtain z where z: "c # y @ ''\"'' = (k @ ''=\"'') @ z" by (auto elim: starts_withE)
    have "z = []"
    proof (rule ccontr)
      assume "z \<noteq> []"
      then have "c # y = k @ ''=\"'' @ butlast z" using z by (metis append_Cons append_assoc butlast_append butlast_snoc)
      then show False using Cons.prems(1) by (metis Un_iff list.set_intros(1,2) set_append)
    qed
    then show False using h z by (simp add: quoted_here_def break_at_def Let_def split: prod.splits)
  qed
  then show ?case using Cons by simp
qed

text \<open>
  C28. A step-up challenge of the write path is understood where it arrives: what the API puts into
  its header is what the specialist reads out of it, for any audience, acr and metadata URL without
  a double quote (and, for the first two, without an equals sign); only an empty acr, which the pattern
  cannot match, is read as the default \<^verbatim>\<open>mfa\<close>.
\<close>

theorem step_up_challenge_understood:
  assumes "CHR 0x22 \<notin> set aud" "CHR ''='' \<notin> set aud" "CHR 0x22 \<notin> set acr" "CHR ''='' \<notin> set acr" "CHR 0x22 \<notin> set url"
  shows "\<exists>h. rHeaders (step_up_challenge aud acr url) = [(''WWW-Authenticate'', h)]
           \<and> parseStepUpChallenge (Some h) = Some (if acr = [] then ''mfa'' else acr, url)"
proof -
  let ?err = "''insufficient_user_authentication''"
  let ?h3 = "'', resource_metadata=\"'' @ url @ ''\"''"
  let ?h2 = "'', acr_values=\"'' @ acr @ CHR 0x22 # ?h3"
  let ?h = "''Bearer realm=\"'' @ aud @ CHR 0x22 # '', error=\"insufficient_user_authentication\"'' @ ?h2"
  have skip: "quoted_param k (''Bearer realm=\"'' @ aud @ CHR 0x22 # s) = quoted_param k (CHR 0x22 # s)"
    if "k \<in> {''error'', ''acr_values'', ''resource_metadata''}" for k s
    using that skip_text [of k aud s] assms(1,2) by (auto simp: quoted_here_def Let_def)
  have "quoted_param ''error'' ?h = Some ?err"
    using skip [of "''error''"] quoted_here_hit [of ?err "''error''" ?h2] by (simp add: quoted_here_def Let_def)
  moreover have "or_else (quoted_param ''acr_values'' ?h) ''mfa'' = (if acr = [] then ''mfa'' else acr)"
  proof (cases "acr = []")
    case True
    have "quoted_param ''acr_values'' (url @ ''\"'') = None" using no_value_left assms(5) by simp
    then show ?thesis unfolding True
      using skip [of "''acr_values''"] quoted_here_empty [of "''acr_values''" ?h3] by (simp add: quoted_here_def Let_def or_else_def)
  next
    case False
    then show ?thesis
      using skip [of "''acr_values''"] quoted_here_hit [of acr "''acr_values''" ?h3] assms
      by (simp add: quoted_here_def Let_def or_else_def)
  qed
  moreover have "or_else (quoted_param ''resource_metadata'' ?h) [] = url"
  proof (cases "url = []")
    case True
    then show ?thesis
      using skip [of "''resource_metadata''"] skip_text [of "''resource_metadata''" acr ?h3]
        quoted_here_empty [of "''resource_metadata''" "[]"] assms by (simp add: quoted_here_def Let_def or_else_def)
  next
    case False
    then show ?thesis
      using skip [of "''resource_metadata''"] skip_text [of "''resource_metadata''" acr ?h3]
        quoted_here_hit [of url "''resource_metadata''" "[]"] assms by (simp add: quoted_here_def Let_def or_else_def)
  qed
  ultimately have "parseStepUpChallenge (Some ?h) = Some (if acr = [] then ''mfa'' else acr, url)"
    by (simp add: parseStepUpChallenge_def)
  then show ?thesis by (simp add: step_up_challenge_def answer_def)
qed

theorem step_up_challenge_understood_witness:
  "\<exists>h. parseStepUpChallenge (Some h) = Some (''mfa'', ''https://md'')"
  using step_up_challenge_understood [of "''mcp-ops''" "''mfa''" "''https://md''"] by auto

end
