(* ===== verification/TokenCache.thy ===== *)
theory TokenCache
  imports Prelude
begin

text \<open>
  The contract of the caches of the system, as a locale over what a cache may still serve
  (\<open>live\<close>), and \<^verbatim>\<open>TokenExchangeCache\<close>
  (\<^verbatim>\<open>apps/agent-copilot/src/token-exchange-cache.ts\<close>, which \<^verbatim>\<open>apps/agent-specialist\<close> carries as an
  identical file) as its first instance. Times are the milliseconds of \<^verbatim>\<open>Date.now()\<close>.
\<close>

section \<open>The agents' cache of exchanged tokens\<close>

record cache_key =
  ckSub :: string
  ckScope :: string
  ckAudience :: string
  ckAcr :: string

record cache_value =
  cvAccessToken :: js
  cvExpiresInSec :: js
  cvScope :: js

record token_cache =
  tcStore :: "(string, cache_value \<times> int) omap"   \<comment> \<open>the value and its \<^verbatim>\<open>expiresAtMs\<close>\<close>
  tcTtlMs :: int

definition new_token_cache :: "int \<Rightarrow> token_cache option" where
  "new_token_cache ttlMs = (if ttlMs \<le> 0 then None else Some \<lparr> tcStore = [], tcTtlMs = ttlMs \<rparr>)"

definition nul :: char where "nul = CHR 0x00"

definition keyOf :: "cache_key \<Rightarrow> string" where
  "keyOf k = ckSub k @ [nul] @ ckAudience k @ [nul] @ ckScope k @ [nul] @ ckAcr k"

definition tc_get :: "token_cache \<Rightarrow> cache_key \<Rightarrow> int \<Rightarrow> cache_value option \<times> token_cache" where
  "tc_get c key now =
     (case om_get (tcStore c) (keyOf key) of
        None \<Rightarrow> (None, c)
      | Some (v, expiresAt) \<Rightarrow>
          if now \<ge> expiresAt then (None, c\<lparr>tcStore := om_delete (tcStore c) (keyOf key)\<rparr>)
          else (Some v, c))"

definition tc_set :: "token_cache \<Rightarrow> cache_key \<Rightarrow> cache_value \<Rightarrow> int \<Rightarrow> int \<Rightarrow> token_cache" where
  "tc_set c key v ttlMs now =
     (if ttlMs \<le> 0 then c
      else c\<lparr>tcStore := om_set (tcStore c) (keyOf key) (v, now + ttlMs)\<rparr>)"

definition tc_invalidate :: "token_cache \<Rightarrow> cache_key \<Rightarrow> token_cache" where
  "tc_invalidate c key = c\<lparr>tcStore := om_delete (tcStore c) (keyOf key)\<rparr>"

text \<open>A session of the cache: \<^verbatim>\<open>get\<close>, \<^verbatim>\<open>set\<close> and \<^verbatim>\<open>invalidate\<close> calls, each at its time.\<close>

datatype tc_op =
    TcGet cache_key int
  | TcSet cache_key cache_value int int
  | TcInvalidate cache_key

fun tc_run :: "tc_op list \<Rightarrow> token_cache \<Rightarrow> token_cache" where
  "tc_run [] c = c"
| "tc_run (TcGet k now # ops) c = tc_run ops (snd (tc_get c k now))"
| "tc_run (TcSet k v ttl now # ops) c = tc_run ops (tc_set c k v ttl now)"
| "tc_run (TcInvalidate k # ops) c = tc_run ops (tc_invalidate c k)"

lemmas token_cache_eval [eval_simps] = new_token_cache_def nul_def keyOf_def tc_get_def tc_set_def
  tc_invalidate_def

section \<open>The contract\<close>

text \<open>
  \<open>given p now x\<close>: putting \<open>p\<close> at time \<open>now\<close> may make \<open>x\<close>, a value with its expiry, servable.
  Lookups and other operations only ever drop what is servable.
\<close>

locale ttl_cache =
  fixes lookup :: "'c \<Rightarrow> 'k \<Rightarrow> int \<Rightarrow> 'v option \<times> 'c"
    and put :: "'c \<Rightarrow> 'k \<Rightarrow> 'p \<Rightarrow> int \<Rightarrow> 'c"
    and live :: "'c \<Rightarrow> 'k \<Rightarrow> ('v \<times> int) option"
    and given :: "'p \<Rightarrow> int \<Rightarrow> 'v \<times> int \<Rightarrow> bool"
    and sound :: "'c \<Rightarrow> bool"
  assumes lookup_hit: "sound c \<Longrightarrow> lookup c k now = (Some v, c') \<Longrightarrow> \<exists>e. live c k = Some (v, e) \<and> now < e"
    and lookup_live: "sound c \<Longrightarrow> live (snd (lookup c k now)) k' = Some x \<Longrightarrow> live c k' = Some x"
    and lookup_sound: "sound c \<Longrightarrow> sound (snd (lookup c k now))"
    and put_live: "sound c \<Longrightarrow> live (put c k p now) k' = Some x \<Longrightarrow>
                     (k' = k \<and> given p now x) \<or> live c k' = Some x"
    and put_sound: "sound c \<Longrightarrow> sound (put c k p now)"
begin

text \<open>A history: lookups at a time, and puts of a payload at a time.\<close>

fun run :: "('k \<times> 'p option \<times> int) list \<Rightarrow> 'c \<Rightarrow> 'c" where
  "run [] c = c"
| "run ((k, None, now) # ops) c = run ops (snd (lookup c k now))"
| "run ((k, Some p, now) # ops) c = run ops (put c k p now)"

lemma run_sound: "sound c \<Longrightarrow> sound (run ops c)"
  by (induction ops c rule: run.induct) (simp_all add: lookup_sound put_sound)

lemma run_live:
  "sound c \<Longrightarrow> live (run ops c) k = Some x \<Longrightarrow>
   live c k = Some x \<or> (\<exists>p now. (k, Some p, now) \<in> set ops \<and> given p now x)"
proof (induction ops c rule: run.induct)
  case (1 c)
  then show ?case by simp
next
  case (2 k' now ops c)
  then show ?case using lookup_live [of c k' now k x] lookup_sound [of c k' now] by auto
next
  case (3 k' p now ops c)
  then show ?case using put_live [of c k' p now k x] put_sound [of c k' p now] by auto
qed

text \<open>A hit serves what was put for that key, before its expiry.\<close>

lemma hit_was_put:
  assumes "sound c" "\<And>k. live c k = None" "lookup (run ops c) k now = (Some v, c')"
  shows "\<exists>p t e. (k, Some p, t) \<in> set ops \<and> given p t (v, e) \<and> now < e"
proof -
  obtain e where e: "live (run ops c) k = Some (v, e)" "now < e"
    using lookup_hit [OF run_sound [OF assms(1)] assms(3)] by blast
  then show ?thesis using run_live [OF assms(1) e(1)] assms(2) by auto
qed

end

section \<open>The agents' cache meets the contract\<close>

definition tc_live :: "token_cache \<Rightarrow> string \<Rightarrow> (cache_value \<times> int) option" where
  "tc_live c s = om_get (tcStore c) s"

definition tc_lookup :: "token_cache \<Rightarrow> string \<Rightarrow> int \<Rightarrow> cache_value option \<times> token_cache" where
  "tc_lookup c s now =
     (case om_get (tcStore c) s of
        None \<Rightarrow> (None, c)
      | Some (v, expiresAt) \<Rightarrow>
          if now \<ge> expiresAt then (None, c\<lparr>tcStore := om_delete (tcStore c) s\<rparr>) else (Some v, c))"

definition tc_put :: "token_cache \<Rightarrow> string \<Rightarrow> cache_value \<times> int \<Rightarrow> int \<Rightarrow> token_cache" where
  "tc_put c s p now =
     (if snd p \<le> 0 then c else c\<lparr>tcStore := om_set (tcStore c) s (fst p, now + snd p)\<rparr>)"

lemma tc_get_lookup: "tc_get c key now = tc_lookup c (keyOf key) now"
  by (simp add: tc_get_def tc_lookup_def)

lemma tc_set_put: "tc_set c key v ttl now = tc_put c (keyOf key) (v, ttl) now"
  by (simp add: tc_set_def tc_put_def)

interpretation tc: ttl_cache tc_lookup tc_put tc_live
    "\<lambda>p now x. 0 < snd p \<and> x = (fst p, now + snd p)" "\<lambda>c. True"
  by unfold_locales
     (auto simp: tc_lookup_def tc_put_def tc_live_def omap_simps split: option.splits if_splits prod.splits)

lemma append_nul_inj:
  "nul \<notin> set a \<Longrightarrow> nul \<notin> set b \<Longrightarrow> a @ nul # x = b @ nul # y \<longleftrightarrow> a = b \<and> x = y"
proof (induction a arbitrary: b)
  case Nil
  then show ?case by (cases b) auto
next
  case (Cons c a)
  then show ?case by (cases b) auto
qed

definition nul_free :: "cache_key \<Rightarrow> bool" where
  "nul_free k = (nul \<notin> set (ckSub k) \<and> nul \<notin> set (ckAudience k) \<and> nul \<notin> set (ckScope k) \<and> nul \<notin> set (ckAcr k))"

lemma keyOf_inj: "nul_free k \<Longrightarrow> nul_free k' \<Longrightarrow> keyOf k = keyOf k' \<Longrightarrow> k = k'"
  by (cases k; cases k') (auto simp: keyOf_def nul_free_def append_nul_inj)

text \<open>What the history of a session puts, in the vocabulary of the contract.\<close>

fun tc_history :: "tc_op list \<Rightarrow> (cache_key \<times> cache_value \<times> int \<times> int) set" where
  "tc_history [] = {}"
| "tc_history (TcSet k v ttl now # ops) = insert (k, v, ttl, now) (tc_history ops)"
| "tc_history (_ # ops) = tc_history ops"

lemma tc_run_live:
  "tc_live (tc_run ops c) s = Some x \<Longrightarrow>
   tc_live c s = Some x
   \<or> (\<exists>k v ttl now. (k, v, ttl, now) \<in> tc_history ops \<and> keyOf k = s \<and> 0 < ttl \<and> x = (v, now + ttl))"
proof (induction ops c rule: tc_run.induct)
  case (1 c)
  then show ?case by simp
next
  case (2 k now ops c)
  then show ?case using tc.lookup_live [of c "keyOf k" now s x] by (auto simp: tc_get_lookup)
next
  case (3 k v ttl now ops c)
  then show ?case using tc.put_live [of c "keyOf k" "(v, ttl)" now s x] by (auto simp: tc_set_put)
next
  case (4 k ops c)
  then show ?case by (auto simp: tc_invalidate_def tc_live_def omap_simps split: if_splits)
qed

text \<open>
  C25. A hit of the agents' token cache is a value that was stored for the same subject, audience,
  scope and authentication class (NUL-free, as JWT claims and configured names are), with a
  positive lifetime that has not run out: after a step-up the key differs, so the token of the
  weaker login is never served.
\<close>

theorem token_cache_hit:
  assumes "new_token_cache d = Some c" "tc_get (tc_run ops c) key now = (Some v, c')"
    and "nul_free key" "\<forall>(k, v, ttl, t) \<in> tc_history ops. nul_free k"
  shows "\<exists>ttl t. (key, v, ttl, t) \<in> tc_history ops \<and> 0 < ttl \<and> now < t + ttl"
proof -
  obtain e where e: "tc_live (tc_run ops c) (keyOf key) = Some (v, e)" "now < e"
    using tc.lookup_hit assms(2) by (metis tc_get_lookup)
  moreover have "tc_live c s = None" for s
    using assms(1) by (auto simp: new_token_cache_def tc_live_def omap_simps split: if_splits)
  ultimately obtain k ttl t where h: "(k, v, ttl, t) \<in> tc_history ops" "keyOf k = keyOf key"
    "0 < ttl" "e = t + ttl"
    using tc_run_live [OF e(1)] by auto
  then have "k = key" using keyOf_inj assms(3,4) by fastforce
  then show ?thesis using h e(2) by blast
qed

definition fixture_key :: cache_key where
  "fixture_key = \<lparr> ckSub = ''alice'', ckScope = ''a2a.invoke'', ckAudience = ''agent-specialist'', ckAcr = ''mfa'' \<rparr>"

definition fixture_value :: cache_value where
  "fixture_value = \<lparr> cvAccessToken = JStr ''T'', cvExpiresInSec = JNum 300, cvScope = JStr ''a2a.invoke'' \<rparr>"

theorem token_cache_hit_witness:
  "\<exists>ttl t. (fixture_key, fixture_value, ttl, t)
      \<in> tc_history [TcSet fixture_key fixture_value 60 5, TcSet (fixture_key\<lparr>ckAcr := ''password''\<rparr>) fixture_value 60 6]
    \<and> 0 < ttl \<and> 50 < t + ttl"
  by (rule token_cache_hit [of 60 "\<lparr> tcStore = [], tcTtlMs = 60 \<rparr>" _ fixture_key 50 fixture_value
        "tc_run [TcSet fixture_key fixture_value 60 5, TcSet (fixture_key\<lparr>ckAcr := ''password''\<rparr>) fixture_value 60 6]
          \<lparr> tcStore = [], tcTtlMs = 60 \<rparr>"])
     (simp_all add: new_token_cache_def tc_set_def tc_get_def fixture_key_def keyOf_def nul_def om_get_def nul_free_def)

end
