(* ===== verification/ShimCache.thy ===== *)
theory ShimCache
  imports TokenCache Exchange
begin

text \<open>
  \<^verbatim>\<open>apps/exchange-shim/src/exchange-cache.ts\<close>: the shim's short-lived memory of exchanged
  tokens, keyed by the hash of the whole caller token and the audience, with an LRU bound. It
  is the second instance of the contract of \<^verbatim>\<open>TokenCache\<close>.
\<close>

text \<open>The response members as the token endpoint gave them; \<^verbatim>\<open>expires_in\<close> is a number.\<close>

record exchange_response =
  erAccessToken :: js
  erTokenType :: js
  erExpiresIn :: int

record cache_entry =
  ceAccessToken :: js
  ceTokenType :: js
  ceExpiresAtMs :: int
  ceReuseUntilMs :: int

record exchange_cache =
  ecStore :: "(string, cache_entry) omap"
  ecTtlMs :: int
  ecMaxEntries :: nat
  ecSkewMs :: int

definition new_exchange_cache :: "int \<Rightarrow> nat \<Rightarrow> int option \<Rightarrow> exn + exchange_cache" where
  "new_exchange_cache ttlSeconds maxEntries skewSeconds =
     (if ttlSeconds < 0 then Inl (JsError ''Error'' ''ttlSeconds must be >= 0'')
      else if maxEntries < 1 then Inl (JsError ''Error'' ''maxEntries must be >= 1'')
      else Inr \<lparr> ecStore = [], ecTtlMs = ttlSeconds * 1000, ecMaxEntries = maxEntries,
                 ecSkewMs = or_else skewSeconds 30 * 1000 \<rparr>)"

definition cacheKeyOf :: "('w, 'j) platform \<Rightarrow> string \<Rightarrow> string \<Rightarrow> string" where
  "cacheKeyOf P callerToken audience = sha256 P callerToken @ [nul] @ audience"

definition entry_response :: "cache_entry \<Rightarrow> int \<Rightarrow> int \<Rightarrow> exchange_response" where
  "entry_response e skew now =
     \<lparr> erAccessToken = ceAccessToken e, erTokenType = ceTokenType e,
       erExpiresIn = (ceExpiresAtMs e + skew - now) div 1000 \<rparr>"

text \<open>\<open>get\<close> at a clock reading: drop a lapsed entry, or refresh its recency and serve it.\<close>

definition ec_get :: "exchange_cache \<Rightarrow> string \<Rightarrow> int \<Rightarrow> exchange_response option \<times> exchange_cache" where
  "ec_get c k now =
     (case om_get (ecStore c) k of
        None \<Rightarrow> (None, c)
      | Some e \<Rightarrow>
          if now \<ge> ceReuseUntilMs e then (None, c\<lparr>ecStore := om_delete (ecStore c) k\<rparr>)
          else (Some (entry_response e (ecSkewMs c) now),
                c\<lparr>ecStore := om_set (om_delete (ecStore c) k) k e\<rparr>))"

text \<open>Delete the oldest entries while there are more than the bound.\<close>

fun shrink :: "nat \<Rightarrow> ('k, 'v) omap \<Rightarrow> ('k, 'v) omap" where
  "shrink n [] = []"
| "shrink n (p # m) = (if n < length (p # m) then shrink n m else p # m)"

definition new_entry :: "int \<Rightarrow> int \<Rightarrow> exchange_response \<Rightarrow> int \<Rightarrow> cache_entry" where
  "new_entry ttlMs skewMs tok now =
     (let lifetimeMs = erExpiresIn tok * 1000 - skewMs
      in \<lparr> ceAccessToken = erAccessToken tok, ceTokenType = erTokenType tok,
           ceExpiresAtMs = now + lifetimeMs, ceReuseUntilMs = now + min ttlMs lifetimeMs \<rparr>)"

definition ec_set :: "exchange_cache \<Rightarrow> string \<Rightarrow> exchange_response \<Rightarrow> int \<Rightarrow> exchange_cache" where
  "ec_set c k tok now =
     (if ecTtlMs c = 0 then c
      else if erExpiresIn tok * 1000 - ecSkewMs c \<le> 0 then c
      else c\<lparr>ecStore := shrink (ecMaxEntries c) (om_set (om_delete (ecStore c) k) k (new_entry (ecTtlMs c) (ecSkewMs c) tok now))\<rparr>)"

lemmas shim_cache_eval [eval_simps] = new_exchange_cache_def cacheKeyOf_def entry_response_def
  ec_get_def new_entry_def ec_set_def

section \<open>Facts\<close>

definition ec_ok :: "exchange_cache \<Rightarrow> bool" where
  "ec_ok c = (om_ok (ecStore c) \<and> length (ecStore c) \<le> ecMaxEntries c \<and> 0 < ecMaxEntries c)"

lemma shrink_length: "length (shrink n m) = min (length m) n"
  by (induction m) auto

lemma shrink_drop: "shrink n m = drop (length m - n) m"
  by (induction m) (auto simp: Suc_diff_le)

lemma shrink_get: "om_ok m \<Longrightarrow> om_get (shrink n m) k = Some v \<Longrightarrow> om_get m k = Some v"
  by (metis in_set_dropD om_get_Some_iff om_get_in shrink_drop)

lemma om_ok_shrink: "om_ok m \<Longrightarrow> om_ok (shrink n m)"
  by (simp add: shrink_drop om_ok_drop)

lemma ec_get_ok: "ec_ok c \<Longrightarrow> ec_ok (snd (ec_get c k now))"
proof -
  assume a: "ec_ok c"
  have "om_get (ecStore c) k = Some e \<Longrightarrow> length (om_set (om_delete (ecStore c) k) k e) \<le> length (ecStore c)" for e
  proof -
    assume "om_get (ecStore c) k = Some e"
    then have "(k, e) \<in> set (ecStore c)" by (rule om_get_in)
    then have "length (om_delete (ecStore c) k) < length (ecStore c)"
      by (auto simp: om_delete_def intro: length_filter_less)
    then show ?thesis by (simp add: length_om_delete_set)
  qed
  then show ?thesis using a length_om_delete_le [of "ecStore c" k]
    by (fastforce simp: ec_get_def ec_ok_def omap_simps split: option.splits)
qed

lemma ec_set_ok: "ec_ok c \<Longrightarrow> ec_ok (ec_set c k tok now)"
  by (simp add: ec_set_def ec_ok_def omap_simps om_ok_shrink shrink_length)

text \<open>The contract's view: an entry is servable until its \<^verbatim>\<open>reuseUntilMs\<close>.\<close>

definition ec_live :: "exchange_cache \<Rightarrow> string \<Rightarrow> (cache_entry \<times> int) option" where
  "ec_live c k = map_option (\<lambda>e. (e, ceReuseUntilMs e)) (om_get (ecStore c) k)"

definition ec_lookup :: "exchange_cache \<Rightarrow> string \<Rightarrow> int \<Rightarrow> cache_entry option \<times> exchange_cache" where
  "ec_lookup c k now =
     (if fst (ec_get c k now) = None then None else om_get (ecStore c) k, snd (ec_get c k now))"

definition ec_given :: "int \<Rightarrow> int \<Rightarrow> exchange_response \<Rightarrow> int \<Rightarrow> cache_entry \<times> int \<Rightarrow> bool" where
  "ec_given ttlMs skewMs tok now x =
     (0 < erExpiresIn tok * 1000 - skewMs
      \<and> x = (new_entry ttlMs skewMs tok now, now + min ttlMs (erExpiresIn tok * 1000 - skewMs)))"

definition ec_sound :: "int \<Rightarrow> int \<Rightarrow> nat \<Rightarrow> exchange_cache \<Rightarrow> bool" where
  "ec_sound ttlMs skewMs n c = (ec_ok c \<and> ecTtlMs c = ttlMs \<and> ecSkewMs c = skewMs \<and> ecMaxEntries c = n)"

interpretation ec: ttl_cache ec_lookup ec_set ec_live "ec_given ttl skew" "ec_sound ttl skew n"
  for ttl skew :: int and n :: nat
proof unfold_locales
  fix c k now v c'
  assume "ec_sound ttl skew n c" "ec_lookup c k now = (Some v, c')"
  then show "\<exists>e. ec_live c k = Some (v, e) \<and> now < e"
    by (auto simp: ec_lookup_def ec_get_def ec_live_def split: option.splits if_splits)
next
  fix c k now k' x
  assume "ec_sound ttl skew n c" "ec_live (snd (ec_lookup c k now)) k' = Some x"
  then show "ec_live c k' = Some x"
    by (auto simp: ec_lookup_def ec_get_def ec_live_def omap_simps split: option.splits if_splits)
next
  fix c k now
  assume "ec_sound ttl skew n c"
  then show "ec_sound ttl skew n (snd (ec_lookup c k now))"
    using ec_get_ok [of c k now]
    by (auto simp: ec_sound_def ec_lookup_def ec_get_def split: option.splits if_splits)
next
  fix c k p now k' x
  assume s: "ec_sound ttl skew n c" and l: "ec_live (ec_set c k p now) k' = Some x"
  have ok: "om_ok (om_set (om_delete (ecStore c) k) k (new_entry (ecTtlMs c) (ecSkewMs c) p now))"
    using s by (simp add: ec_sound_def ec_ok_def omap_simps)
  show "k' = k \<and> ec_given ttl skew p now x \<or> ec_live c k' = Some x"
  proof (cases "ecTtlMs c = 0 \<or> erExpiresIn p * 1000 - ecSkewMs c \<le> 0")
    case True
    then have "ec_set c k p now = c" by (auto simp: ec_set_def)
    then show ?thesis using l by simp
  next
    case False
    then obtain e where e: "om_get (om_set (om_delete (ecStore c) k) k (new_entry (ecTtlMs c) (ecSkewMs c) p now)) k' = Some e"
      "x = (e, ceReuseUntilMs e)"
      using l shrink_get [OF ok] by (auto simp: ec_set_def ec_live_def)
    then show ?thesis using s False
      by (auto simp: omap_simps ec_live_def ec_given_def new_entry_def Let_def ec_sound_def split: if_splits)
  qed
next
  fix c k p now
  assume "ec_sound ttl skew n c"
  then show "ec_sound ttl skew n (ec_set c k p now)"
    using ec_set_ok [of c k p now] by (auto simp: ec_sound_def ec_set_def)
qed

definition ec_run :: "(string \<times> exchange_response option \<times> int) list \<Rightarrow> exchange_cache \<Rightarrow> exchange_cache" where
  "ec_run ops c = ttl_cache.run ec_lookup ec_set ops c"

lemma ec_run_simps [eval_simps]:
  "ec_run [] c = c"
  "ec_run ((k, None, now) # ops) c = ec_run ops (snd (ec_get c k now))"
  "ec_run ((k, Some tok, now) # ops) c = ec_run ops (ec_set c k tok now)"
  by (simp_all add: ec_run_def ec.run.simps ec_lookup_def)

lemma new_exchange_cache_sound:
  "new_exchange_cache ttl n skew = Inr c \<Longrightarrow>
   ec_sound (ttl * 1000) (or_else skew 30 * 1000) n c \<and> (\<forall>k. ec_live c k = None)"
  by (auto simp: new_exchange_cache_def ec_sound_def ec_ok_def ec_live_def omap_simps split: if_splits)

text \<open>
  Whatever calls the shim makes on its cache of exchanged tokens, it never holds more entries
  than its bound, nor two entries for one key.
\<close>

theorem exchange_cache_bounded:
  assumes "new_exchange_cache ttl n skew = Inr c"
  shows "length (ecStore (ec_run ops c)) \<le> n \<and> om_ok (ecStore (ec_run ops c))"
proof -
  have "ec_sound (ttl * 1000) (or_else skew 30 * 1000) n (ec_run ops c)"
    unfolding ec_run_def using new_exchange_cache_sound [OF assms] by (intro ec.run_sound) blast
  then show ?thesis by (auto simp: ec_sound_def ec_ok_def)
qed

definition fixture_response :: exchange_response where
  "fixture_response = \<lparr> erAccessToken = JStr ''T'', erTokenType = JStr ''Bearer'', erExpiresIn = 300 \<rparr>"

theorem exchange_cache_bounded_witness:
  "length (ecStore (ec_run [(''a'', Some fixture_response, 1), (''b'', Some fixture_response, 2)]
      \<lparr> ecStore = [], ecTtlMs = 60000, ecMaxEntries = 1, ecSkewMs = 30000 \<rparr>)) \<le> 1
   \<and> om_ok (ecStore (ec_run [(''a'', Some fixture_response, 1), (''b'', Some fixture_response, 2)]
      \<lparr> ecStore = [], ecTtlMs = 60000, ecMaxEntries = 1, ecSkewMs = 30000 \<rparr>))"
  by (rule exchange_cache_bounded [of 60 1 None]) (simp add: new_exchange_cache_def or_else_def)

text \<open>The calls of the shim, by caller token and audience, as calls on the keys.\<close>

definition keyed ::
  "('w, 'j) platform \<Rightarrow> ((string \<times> string) \<times> exchange_response option \<times> int) list
   \<Rightarrow> (string \<times> exchange_response option \<times> int) list" where
  "keyed P ops = map (\<lambda>(k, o', t). (cacheKeyOf P (fst k) (snd k), o', t)) ops"

text \<open>
  A hit of the shim's cache serves the token that was stored for exactly this caller token and
  this audience (up to collisions of the hash), only within the configured window and before the
  issued lifetime less the skew has passed, and reports the lifetime that is really left.
\<close>

theorem exchange_cache_hit:
  assumes "new_exchange_cache ttl n skew = Inr c"
    and "ec_get (ec_run (keyed P ops) c) (cacheKeyOf P tok aud) now = (Some r, c')"
    and "inj_on (sha256 P) (insert tok ((fst \<circ> fst) ` set ops))"
    and "\<forall>x. nul \<notin> set (sha256 P x)"
  shows "\<exists>resp t. ((tok, aud), Some resp, t) \<in> set ops \<and> erAccessToken r = erAccessToken resp
    \<and> now < t + ttl * 1000 \<and> now < t + erExpiresIn resp * 1000 - or_else skew 30 * 1000
    \<and> erExpiresIn r = (t + erExpiresIn resp * 1000 - now) div 1000"
proof -
  let ?T = "ttl * 1000" and ?S = "or_else skew 30 * 1000"
  let ?d = "ec_run (keyed P ops) c"
  have s: "ec_sound ?T ?S n c" "\<forall>k. ec_live c k = None"
    using new_exchange_cache_sound [OF assms(1)] by auto
  have sd: "ec_sound ?T ?S n ?d" unfolding ec_run_def using s(1) by (rule ec.run_sound)
  obtain e where e: "r = entry_response e ?S now" "ec_lookup ?d (cacheKeyOf P tok aud) now = (Some e, c')"
    using assms(2) sd
    by (auto simp: ec_lookup_def ec_get_def ec_sound_def split: option.splits if_splits)
  obtain resp t x where p: "(cacheKeyOf P tok aud, Some resp, t) \<in> set (keyed P ops)"
    "ec_given ?T ?S resp t (e, x)" "now < x"
    using ec.hit_was_put [OF s(1) _ e(2) [unfolded ec_run_def]] s(2) by blast
  obtain tok' aud' where k: "((tok', aud'), Some resp, t) \<in> set ops"
    "cacheKeyOf P tok' aud' = cacheKeyOf P tok aud"
    using p(1) by (auto simp: keyed_def)
  have "sha256 P tok' = sha256 P tok \<and> aud' = aud"
    using k(2) assms(4) append_nul_inj by (fastforce simp: cacheKeyOf_def)
  moreover have m: "tok' \<in> insert tok ((fst \<circ> fst) ` set ops)" using k(1) by force
  ultimately have "tok' = tok" "aud' = aud" using inj_onD [OF assms(3) _ m insertI1] by auto
  then show ?thesis using k(1) p(2,3) e(1)
    by (fastforce simp: ec_given_def new_entry_def entry_response_def Let_def)
qed

theorem exchange_cache_hit_witness:
  "\<exists>resp t. ((''tok'', ''mcp-ops''), Some resp, t) \<in> set [((''tok'', ''mcp-ops''), Some fixture_response, 5 :: int)]
    \<and> 2000 < t + 60 * 1000 \<and> erExpiresIn resp = 300"
proof -
  let ?c = "\<lparr> ecStore = [], ecTtlMs = 60000, ecMaxEntries = 10, ecSkewMs = 30000 \<rparr> :: exchange_cache"
  let ?P = "(fixture no_net (\<lambda>_. None))\<lparr>sha256 := map (\<lambda>c. if c = nul then CHR ''0'' else c)\<rparr>"
  let ?ops = "[((''tok'', ''mcp-ops''), Some fixture_response, 5 :: int)]"
  let ?g = "ec_get (ec_run (keyed ?P ?ops) ?c) (cacheKeyOf ?P ''tok'' ''mcp-ops'') 2000"
  have "?g = (Some (the (fst ?g)), snd ?g)"
    by (simp add: prod_eq_iff keyed_def eval_simps fixture_response_def)
  from exchange_cache_hit [OF _ this, where ttl = 60 and skew = None and n = 10]
  have "\<exists>resp t. ((''tok'', ''mcp-ops''), Some resp, t) \<in> set ?ops \<and> 2000 < t + 60 * 1000"
    by (fastforce simp: new_exchange_cache_def or_else_def nul_def split: if_splits)
  then show ?thesis by (auto simp: fixture_response_def)
qed

end
