(* ===== verification/Spiffe.thy ===== *)
theory Spiffe
  imports Runtime
begin

text \<open>
  \<^verbatim>\<open>packages/spiffe/src\<close>: reading a workload's JWT-SVID from the files the spiffe-helper
  sidecar writes, and the source object with its rotation handlers and file watchers. The file
  system is the parameters \<open>readFile\<close> and \<open>stat\<close>; a missing file is the error \<^verbatim>\<open>ENOENT\<close>.
\<close>

record svid =
  svJwt :: string
  svClaims :: js
  svAudience :: string
  svFilePath :: string

definition enoent :: "exn \<Rightarrow> bool" where
  "enoent e = (case e of JsError n _ \<Rightarrow> n = ''ENOENT'' | _ \<Rightarrow> False)"

definition invalid_jwt :: exn where
  "invalid_jwt = JsError ''JWTInvalid'' ''Invalid JWT''"

definition readSpiffeIdSync ::
  "('w, 'j) platform \<Rightarrow> (string \<Rightarrow> 'w \<Rightarrow> (exn + string) \<times> 'w) \<Rightarrow> string \<Rightarrow> ('w, 'j, 'z, string option) act" where
  "readSpiffeIdSync P readFile path =
     io_bind (io_catch (io_bind (world_try (readFile path)) (\<lambda>raw. io_return (Some (trim raw))))
                (\<lambda>e. if enoent e then io_return None else io_throw e)) (\<lambda>raw.
       case raw of
         None \<Rightarrow> io_return None
       | Some t \<Rightarrow>
           if t = [] then io_return None
           else (case decodeJwt P t of
                   None \<Rightarrow> io_throw invalid_jwt
                 | Some claims \<Rightarrow> io_return (as_str (jget claims ''sub''))))"

record svid_source =
  ssBindings :: "(string, string) omap"
  ssHandlers :: "nat list"        \<comment> \<open>the registered handlers, by identity\<close>
  ssWatchers :: "(string \<times> string) list"
  ssClosed :: bool

definition new_svid_source :: "(string \<times> string) list \<Rightarrow> svid_source" where
  "new_svid_source audiences =
     \<lparr> ssBindings = fold (\<lambda>b m. om_set m (fst b) (snd b)) audiences [],
       ssHandlers = [], ssWatchers = [], ssClosed = False \<rparr>"

definition listAudiences :: "svid_source \<Rightarrow> string list" where
  "listAudiences src = om_keys (ssBindings src)"

definition getSvid ::
  "('w, 'j) platform \<Rightarrow> (string \<Rightarrow> 'w \<Rightarrow> (exn + string) \<times> 'w) \<Rightarrow> svid_source \<Rightarrow> string
   \<Rightarrow> ('w, 'j, 'z, svid option) act" where
  "getSvid P readFile src audience =
     (case om_get (ssBindings src) audience of
        None \<Rightarrow> io_return None
      | Some path \<Rightarrow>
          if path = [] then io_return None
          else io_catch
            (io_bind (world_try (readFile path)) (\<lambda>raw.
               if trim raw = [] then io_return None
               else (case decodeJwt P (trim raw) of
                       None \<Rightarrow> io_throw invalid_jwt
                     | Some claims \<Rightarrow> io_return (Some \<lparr> svJwt = trim raw, svClaims = claims,
                                        svAudience = audience, svFilePath = path \<rparr>))))
            (\<lambda>e. if enoent e then io_return None else io_throw e))"

text \<open>\<open>start\<close> watches every configured file that exists; \<open>exists\<close> is \<^verbatim>\<open>stat\<close> not failing.\<close>

definition start :: "(string \<Rightarrow> bool) \<Rightarrow> svid_source \<Rightarrow> svid_source" where
  "start exists src = src\<lparr>ssWatchers := ssWatchers src @ filter (\<lambda>b. exists (snd b)) (ssBindings src)\<rparr>"

definition onRotate :: "nat \<Rightarrow> svid_source \<Rightarrow> svid_source" where
  "onRotate h src = (if h \<in> set (ssHandlers src) then src else src\<lparr>ssHandlers := ssHandlers src @ [h]\<rparr>)"

definition unsubscribe :: "nat \<Rightarrow> svid_source \<Rightarrow> svid_source" where
  "unsubscribe h src = src\<lparr>ssHandlers := filter (\<lambda>x. x \<noteq> h) (ssHandlers src)\<rparr>"

definition close :: "svid_source \<Rightarrow> svid_source" where
  "close src = (if ssClosed src then src
                else src\<lparr>ssClosed := True, ssWatchers := [], ssHandlers := []\<rparr>)"

text \<open>The handlers a rotation of an audience's file calls, with what they are called with.\<close>

definition emit_rotation ::
  "('w, 'j) platform \<Rightarrow> (string \<Rightarrow> 'w \<Rightarrow> (exn + string) \<times> 'w) \<Rightarrow> svid_source \<Rightarrow> string
   \<Rightarrow> ('w, 'j, 'z, (nat \<times> svid) list) act" where
  "emit_rotation P readFile src audience =
     io_bind (getSvid P readFile src audience) (\<lambda>r.
       io_return (case r of None \<Rightarrow> [] | Some v \<Rightarrow> map (\<lambda>h. (h, v)) (ssHandlers src)))"

lemmas spiffe_eval [eval_simps] = enoent_def invalid_jwt_def readSpiffeIdSync_def new_svid_source_def
  listAudiences_def getSvid_def start_def onRotate_def unsubscribe_def close_def emit_rotation_def

section \<open>Facts\<close>

text \<open>An SVID is only ever the content of the audience's configured file, never empty.\<close>

lemma getSvid_from_file:
  assumes "getSvid P readFile src audience s = (Inr (Some v), t)"
  shows "\<exists>path raw w'. om_get (ssBindings src) audience = Some path \<and> path \<noteq> []
    \<and> readFile path (world s) = (Inr raw, w') \<and> svJwt v = trim raw \<and> trim raw \<noteq> []
    \<and> decodeJwt P (trim raw) = Some (svClaims v)"
  using assms
  by (fastforce simp: getSvid_def io_simps split: option.splits if_splits prod.splits sum.splits)

lemma handlers_distinct:
  "distinct (ssHandlers src) \<Longrightarrow> distinct (ssHandlers (onRotate h src)) \<and> distinct (ssHandlers (unsubscribe h src))"
  by (simp add: onRotate_def unsubscribe_def)

end
