(* ===== verification/Shim.thy ===== *)
theory Shim
  imports ShimCache Spiffe
begin

text \<open>
  \<^verbatim>\<open>apps/exchange-shim/src\<close>: the token-exchange sidecar of the gateway. A process has the
  replay cache of \<open>Dpop\<close> and the optional cache of \<open>ShimCache\<close>; \<open>handleExchange\<close> is one
  \<^verbatim>\<open>extAuthz\<close> callout, \<open>exchangeHandler\<close> the HTTP handler around it. \<open>exchange\<close> and the SVID
  source are the handler's injected dependencies.
\<close>

section \<open>State, requests and dependencies\<close>

record ('w, 'j) shim = "('w, 'j) dpop_proc" +
  xcache :: "exchange_cache option"

record exchange_req =
  eqCallerToken :: string
  eqTargetAudience :: string
  eqProof :: "string option"
  eqHtm :: "string option"
  eqHtu :: "string option"

record ('w, 'j) handler_deps =
  hdGetSvidJwt :: "('w, 'j) shim \<Rightarrow> (exn + string) \<times> ('w, 'j) shim"
  hdExchange :: "exchange_params \<Rightarrow> ('w, 'j) shim \<Rightarrow> (exn + exchange_result) \<times> ('w, 'j) shim"
  hdTokenEndpoint :: string
  hdClientId :: string
  hdClientSecret :: string
  hdAudienceScopes :: "(string \<times> string) list"
  hdReplay :: bool

text \<open>
  \<^verbatim>\<open>audienceScopes[k]\<close> on an object literal: an own property, or what the object inherits, as
  the text it becomes when used as a scope.
\<close>

definition inherited_text :: "string \<Rightarrow> string option" where
  "inherited_text k =
     (if k \<notin> set object_prototype then None
      else if k = ''__proto__'' then Some ''[object Object]''
      else Some (''function '' @ (if k = ''constructor'' then ''Object'' else k) @ ''() { [native code] }''))"

definition allowed_scope :: "(string \<times> string) list \<Rightarrow> string \<Rightarrow> string option" where
  "allowed_scope scopes aud =
     (case map_of scopes aud of
        Some s \<Rightarrow> if s = [] then None else Some s
      | None \<Rightarrow> inherited_text aud)"

definition present :: "string option \<Rightarrow> bool" where
  "present x = (case x of None \<Rightarrow> False | Some s \<Rightarrow> s \<noteq> [])"

section \<open>The cache of the process\<close>

definition cache_get ::
  "('w, 'j) platform \<Rightarrow> string \<Rightarrow> string \<Rightarrow> ('w, 'j) shim \<Rightarrow> (exn + exchange_response option) \<times> ('w, 'j) shim" where
  "cache_get P tok aud s =
     (case xcache s of
        None \<Rightarrow> (Inr None, s)
      | Some c \<Rightarrow>
          (let k = cacheKeyOf P tok aud
           in if om_get (ecStore c) k = None then (Inr None, s)
              else io_bind (world_get (dateNow P)) (\<lambda>now u.
                     case ec_get c k now of (r, c') \<Rightarrow> (Inr r, u\<lparr>xcache := Some c'\<rparr>)) s))"

definition cache_set ::
  "('w, 'j) platform \<Rightarrow> string \<Rightarrow> string \<Rightarrow> exchange_response \<Rightarrow> ('w, 'j) shim \<Rightarrow> (exn + unit) \<times> ('w, 'j) shim" where
  "cache_set P tok aud body s =
     (case xcache s of
        None \<Rightarrow> (Inr (), s)
      | Some c \<Rightarrow>
          if ecTtlMs c = 0 then (Inr (), s)
          else io_bind (world_get (dateNow P)) (\<lambda>now u.
                 (Inr (), u\<lparr>xcache := Some (ec_set c (cacheKeyOf P tok aud) body now)\<rparr>)) s)"

section \<open>The handler\<close>

definition js_int :: "js \<Rightarrow> int" where
  "js_int v = (case v of JNum n \<Rightarrow> n | _ \<Rightarrow> 0)"

definition response_of :: "exchange_result \<Rightarrow> exchange_response" where
  "response_of r = \<lparr> erAccessToken = xrAccessToken r, erTokenType = xrTokenType r,
                     erExpiresIn = js_int (xrExpiresInSec r) \<rparr>"

definition dpop_gate ::
  "('w, 'j) platform \<Rightarrow> ('w, 'j) handler_deps \<Rightarrow> exchange_req \<Rightarrow> ('w, 'j) shim \<Rightarrow> (exn + unit) \<times> ('w, 'j) shim" where
  "dpop_gate P deps req =
     (case tokenCnfJkt P (eqCallerToken req) of
        None \<Rightarrow> io_return ()
      | Some jkt \<Rightarrow>
          if jkt = [] then io_return ()
          else if \<not> present (eqProof req) \<or> \<not> present (eqHtm req) \<or> \<not> present (eqHtu req) \<or> \<not> hdReplay deps
            then io_throw (DpopProofError ''DPoP proof required for a DPoP-bound token'')
          else verifyDpopProof P (the (eqProof req))
                 \<lparr> dcHtm = the (eqHtm req), dcHtu = the (eqHtu req), dcAccessToken = eqCallerToken req,
                   dcJkt = jkt, dcMaxAgeSec = None \<rparr>)"

definition shim_params ::
  "('w, 'j) handler_deps \<Rightarrow> exchange_req \<Rightarrow> string \<Rightarrow> string \<Rightarrow> exchange_params" where
  "shim_params deps req actorToken scope =
     \<lparr> xTokenEndpoint = hdTokenEndpoint deps, xClientId = hdClientId deps,
       xClientSecret = Some (hdClientSecret deps), xClientAuth = None,
       xSubjectToken = eqCallerToken req, xActorToken = actorToken,
       xAudience = eqTargetAudience req, xScope = scope, xSubjectTokenType = None,
       xActorTokenType = None, xRequestedTokenType = None, xDpop = None \<rparr>"

definition handleExchange ::
  "('w, 'j) platform \<Rightarrow> exchange_req \<Rightarrow> ('w, 'j) handler_deps
   \<Rightarrow> ('w, 'j) shim \<Rightarrow> (exn + exchange_response) \<times> ('w, 'j) shim" where
  "handleExchange P req deps =
     (case allowed_scope (hdAudienceScopes deps) (eqTargetAudience req) of
        None \<Rightarrow> io_throw (JsError ''Error'' (''audience not allowed: '' @ eqTargetAudience req))
      | Some scope \<Rightarrow>
          io_bind (dpop_gate P deps req) (\<lambda>_.
          io_bind (cache_get P (eqCallerToken req) (eqTargetAudience req)) (\<lambda>cached.
            case cached of
              Some r \<Rightarrow> io_return r
            | None \<Rightarrow>
                io_bind (hdGetSvidJwt deps) (\<lambda>actorToken.
                io_bind (hdExchange deps (shim_params deps req actorToken scope)) (\<lambda>result.
                io_bind (cache_set P (eqCallerToken req) (eqTargetAudience req) (response_of result)) (\<lambda>_.
                  io_return (response_of result)))))))"

section \<open>The HTTP app\<close>

record shim_config =
  shTokenEndpoint :: string
  shClientId :: string
  shClientSecret :: string
  shSvidFile :: string
  shSvidAudience :: string
  shAudienceScopes :: "(string \<times> string) list"
  shCacheTtlSeconds :: int
  shCacheMaxEntries :: int

definition nonNegativeInt :: "(string \<Rightarrow> string option) \<Rightarrow> string \<Rightarrow> int \<Rightarrow> exn + int" where
  "nonNegativeInt env k fallback =
     (case env k of
        None \<Rightarrow> Inr fallback
      | Some raw \<Rightarrow>
          if raw = [] then Inr fallback
          else (case js_number (JStr raw) of
                  None \<Rightarrow> Inl (JsError ''Error'' (k @ '' must be a non-negative integer, got '' @ raw))
                | Some n \<Rightarrow> if n < 0 then Inl (JsError ''Error'' (k @ '' must be a non-negative integer, got '' @ raw))
                            else Inr n))"

definition loadShimConfig :: "(string \<Rightarrow> string option) \<Rightarrow> exn + shim_config" where
  "loadShimConfig env =
     sum_bind (required_env env ''CURITY_TOKEN_ENDPOINT'') (\<lambda>ep.
     sum_bind (required_env env ''CURITY_CLIENT_SECRET'') (\<lambda>secret.
     sum_bind (nonNegativeInt env ''EXCHANGE_CACHE_TTL_SECONDS'' 60) (\<lambda>ttl.
     sum_bind (nonNegativeInt env ''EXCHANGE_CACHE_MAX_ENTRIES'' 1000) (\<lambda>mx.
       Inr \<lparr> shTokenEndpoint = ep,
             shClientId = or_else (env ''CURITY_CLIENT_ID'') ''agentgateway'',
             shClientSecret = secret,
             shSvidFile = or_else (env ''SPIFFE_SVID_PATH'') ''/run/spiffe/curity-actor.jwt'',
             shSvidAudience = or_else (env ''SVID_AUDIENCE'') ''https://curity.localtest.me/oauth/v2/oauth-token'',
             shAudienceScopes = [(''mcp-inspect'', ''inspect:read''), (''mcp-ops'', ''ops:write'')],
             shCacheTtlSeconds = ttl, shCacheMaxEntries = max 1 mx \<rparr>))))"

text \<open>The process \<open>createApp\<close> starts from: its cache and its replay memory.\<close>

definition app_cache :: "shim_config \<Rightarrow> exchange_cache option" where
  "app_cache cfg =
     (if shCacheTtlSeconds cfg > 0
      then (case new_exchange_cache (shCacheTtlSeconds cfg) (nat (shCacheMaxEntries cfg)) None of
              Inl _ \<Rightarrow> None | Inr c \<Rightarrow> Some c)
      else None)"

text \<open>\<^verbatim>\<open>callerAuth.replace(/^Bearer\s+/i, '')\<close>\<close>

definition strip_bearer :: "string \<Rightarrow> string" where
  "strip_bearer s =
     (if lower (take 6 s) = ''bearer'' \<and> drop 6 s \<noteq> [] \<and> is_ws (hd (drop 6 s))
      then dropWhile is_ws (drop 6 s) else s)"

definition js_res :: "int \<Rightarrow> (string \<times> string) list \<Rightarrow> js \<Rightarrow> http_res" where
  "js_res st hs b = \<lparr> rStatus = st, rHeaders = hs, rBody = b \<rparr>"

definition response_js :: "exchange_response \<Rightarrow> js" where
  "response_js r = JObj [(''access_token'', erAccessToken r), (''token_type'', erTokenType r),
                         (''expires_in'', JNum (erExpiresIn r))]"

definition svid_jwt ::
  "shim_config \<Rightarrow> (string \<Rightarrow> ('w, 'j) shim \<Rightarrow> (exn + svid option) \<times> ('w, 'j) shim)
   \<Rightarrow> ('w, 'j) shim \<Rightarrow> (exn + string) \<times> ('w, 'j) shim" where
  "svid_jwt cfg get =
     io_bind (get (shSvidAudience cfg)) (\<lambda>v.
       case v of
         None \<Rightarrow> io_throw (CurityAuthError (''SVID not available at '' @ shSvidFile cfg) InvalidActor)
       | Some sv \<Rightarrow> io_return (svJwt sv))"

definition shim_deps ::
  "shim_config \<Rightarrow> (string \<Rightarrow> ('w, 'j) shim \<Rightarrow> (exn + svid option) \<times> ('w, 'j) shim)
   \<Rightarrow> (exchange_params \<Rightarrow> ('w, 'j) shim \<Rightarrow> (exn + exchange_result) \<times> ('w, 'j) shim)
   \<Rightarrow> ('w, 'j) handler_deps" where
  "shim_deps cfg get exch =
     \<lparr> hdGetSvidJwt = svid_jwt cfg get, hdExchange = exch, hdTokenEndpoint = shTokenEndpoint cfg,
       hdClientId = shClientId cfg, hdClientSecret = shClientSecret cfg,
       hdAudienceScopes = shAudienceScopes cfg, hdReplay = True \<rparr>"

definition dpop_denial :: "('w, 'j) platform \<Rightarrow> shim_config \<Rightarrow> string \<Rightarrow> string \<Rightarrow> string \<Rightarrow> obo_event" where
  "dpop_denial P cfg callerToken aud msg =
     (let subj = summarizeJwt P (Some callerToken)
      in event (shClientId cfg) DENY (arrow @ '' '' @ aud @ '' (DPoP proof)'')
           [(''subject (sub)'', opt_js (jsSub subj)), (''subject act'', opt_js (jsAct subj)),
            (''error'', JStr ''invalid_dpop_proof''), (''reason'', JStr msg)])"

definition quote_free :: "string \<Rightarrow> string" where
  "quote_free s = replace_char CHR 0x22 CHR 0x27 s"

definition exchange_failure ::
  "('w, 'j) platform \<Rightarrow> shim_config \<Rightarrow> string \<Rightarrow> string \<Rightarrow> exn \<Rightarrow> ('w, 'j) shim \<Rightarrow> (exn + http_res) \<times> ('w, 'j) shim" where
  "exchange_failure P cfg callerToken aud e =
     (case e of
        DpopProofError m \<Rightarrow>
          io_bind (oboLog P (dpop_denial P cfg callerToken aud m)) (\<lambda>_.
            io_return (js_res 401
              [(''www-authenticate'', ''DPoP error=\"invalid_dpop_proof\", error_description=\"'' @ quote_free m @ ''\"'')]
              (JObj [(''error'', JStr ''invalid_dpop_proof''), (''error_description'', JStr m)])))
      | _ \<Rightarrow> io_return (js_res 403 []
              (JObj [(''error'', JStr ''exchange_failed''), (''error_description'', JStr (message_of e))])))"

text \<open>GET and POST \<^verbatim>\<open>/exchange\<close>: \<open>headers\<close> are the request's headers that are single strings.\<close>

definition exchangeHandler ::
  "('w, 'j) platform \<Rightarrow> shim_config \<Rightarrow> (string \<Rightarrow> ('w, 'j) shim \<Rightarrow> (exn + svid option) \<times> ('w, 'j) shim)
   \<Rightarrow> (exchange_params \<Rightarrow> ('w, 'j) shim \<Rightarrow> (exn + exchange_result) \<times> ('w, 'j) shim)
   \<Rightarrow> (string \<times> string) list \<Rightarrow> ('w, 'j) shim \<Rightarrow> (exn + http_res) \<times> ('w, 'j) shim" where
  "exchangeHandler P cfg get exch headers =
     (case (map_of headers ''x-caller-authorization'', map_of headers ''x-target-audience'') of
        (Some auth, Some aud) \<Rightarrow>
          (let tok = strip_bearer auth;
               req = \<lparr> eqCallerToken = tok, eqTargetAudience = aud,
                       eqProof = map_of headers ''x-dpop-proof'', eqHtm = map_of headers ''x-dpop-htm'',
                       eqHtu = map_of headers ''x-dpop-htu'' \<rparr>
           in io_bind (set_active_attrs (upstreamVerifiedIdentityAttributes P tok)) (\<lambda>_.
              io_catch
                (io_bind (handleExchange P req (shim_deps cfg get exch)) (\<lambda>body.
                   io_return (js_res 200 [] (response_js body))))
                (exchange_failure P cfg tok aud)))
      | _ \<Rightarrow> io_return (js_res 400 [] (JObj [(''error'', JStr ''invalid_request'')])))"

definition js_minus :: "js \<Rightarrow> int \<Rightarrow> js" where
  "js_minus v n = (case v of JNum m \<Rightarrow> JNum (m - n) | _ \<Rightarrow> JNull)"

definition spiffeIdHandler ::
  "('w, 'j) platform \<Rightarrow> shim_config \<Rightarrow> (string \<Rightarrow> ('w, 'j) shim \<Rightarrow> (exn + svid option) \<times> ('w, 'j) shim)
   \<Rightarrow> ('w, 'j) shim \<Rightarrow> (exn + http_res) \<times> ('w, 'j) shim" where
  "spiffeIdHandler P cfg get =
     io_catch
       (io_bind (get (shSvidAudience cfg)) (\<lambda>v.
          case v of
            None \<Rightarrow> io_return (js_res 503 [] (JObj [(''error'', JStr ''spiffe_svid_unavailable'')]))
          | Some sv \<Rightarrow>
              io_bind (world_get (dateNow P)) (\<lambda>now.
                (let c = svClaims sv
                 in io_return (js_res 200 []
                      (JObj [(''sub'', jget c ''sub''), (''aud'', jget c ''aud''), (''iss'', jget c ''iss''),
                             (''iat'', jget c ''iat''), (''exp'', jget c ''exp''),
                             (''ttl_seconds'', js_minus (jget c ''exp'') (now div 1000))]))))))
       (\<lambda>e. io_return (js_res 500 []
          (JObj [(''error'', JStr ''server_error''), (''error_description'', JStr (message_of e))])))"

lemmas shim_eval [eval_simps] = inherited_text_def allowed_scope_def present_def cache_get_def
  cache_set_def js_int_def response_of_def dpop_gate_def shim_params_def handleExchange_def
  nonNegativeInt_def loadShimConfig_def app_cache_def
  strip_bearer_def js_res_def response_js_def svid_jwt_def shim_deps_def dpop_denial_def
  quote_free_def exchange_failure_def exchangeHandler_def js_minus_def spiffeIdHandler_def

text \<open>A concrete callout with a bound token, for closed instances.\<close>

definition fixture_shim_platform :: "(int, string) platform" where
  "fixture_shim_platform = fixture no_net (\<lambda>t. if t = ''proof'' then Some fixture_proof
     else if t = ''tok'' then Some (JObj [(''cnf'', JObj [(''jkt'', JStr ''jkt'')])]) else None)"

definition fixture_shim :: "int \<Rightarrow> (int, string) shim" where
  "fixture_shim w = \<lparr> world = w, out = [], spans = [], jwksCache = [], oidcCache = [],
     dpopNonces = [], replay = new_replay_cache, xcache = None \<rparr>"

definition fixture_deps :: "exn + exchange_result \<Rightarrow> (int, string) handler_deps" where
  "fixture_deps r = \<lparr> hdGetSvidJwt = io_return ''svid'', hdExchange = (\<lambda>_. lift_sum r),
     hdTokenEndpoint = ''e'', hdClientId = ''c'', hdClientSecret = ''s'',
     hdAudienceScopes = [(''mcp-ops'', ''ops:write'')], hdReplay = True \<rparr>"

definition fixture_req :: exchange_req where
  "fixture_req = \<lparr> eqCallerToken = ''tok'', eqTargetAudience = ''mcp-ops'', eqProof = Some ''proof'',
     eqHtm = Some ''POST'', eqHtu = Some ''https://G.example:443/mcp'' \<rparr>"

definition fixture_result :: exchange_result where
  "fixture_result = \<lparr> xrAccessToken = JStr ''T'', xrTokenType = JStr ''Bearer'', xrExpiresInSec = JNum 300,
     xrScope = JStr ''ops:write'', xrIssuedTokenType = JStr ''jwt'' \<rparr>"

lemmas shim_fixture_eval = fixture_shim_platform_def fixture_shim_def fixture_deps_def fixture_req_def
  fixture_result_def fixture_proof_def eval_simps

section \<open>Facts\<close>

lemma io_catch_total:
  assumes "\<And>e s. \<exists>b u. h e s = (Inr b, u)"
  shows "\<exists>b u. io_catch m h s = (Inr b, u)"
proof (cases "m s")
  case (Pair r u)
  then show ?thesis using assms by (cases r) (auto simp: io_catch_def)
qed

text \<open>
  C7. A DPoP-bound caller token is answered, from the cache or by an exchange, only after a proof
  sent with this very request was verified against the token's key: holding the token, or
  finding its exchange in the cache, is not enough.
\<close>

theorem shim_bound_token_needs_proof:
  assumes "handleExchange P req deps s = (Inr r, t)"
    and "tokenCnfJkt P (eqCallerToken req) = Some jkt" "jkt \<noteq> []"
  shows "\<exists>prf htm htu u. eqProof req = Some prf \<and> eqHtm req = Some htm \<and> eqHtu req = Some htu
    \<and> verifyDpopProof P prf \<lparr> dcHtm = htm, dcHtu = htu, dcAccessToken = eqCallerToken req,
                              dcJkt = jkt, dcMaxAgeSec = None \<rparr> s = (Inr (), u)"
proof -
  obtain u where "dpop_gate P deps req s = (Inr (), u)"
    using assms(1) by (auto simp: handleExchange_def io_bind_Inr split: option.splits)
  then show ?thesis using assms(2,3)
    by (auto simp: dpop_gate_def present_def split: if_splits option.splits)
qed

lemma fixture_callout:
  "handleExchange fixture_shim_platform fixture_req (fixture_deps (Inr fixture_result)) (fixture_shim 101000)
   = (Inr (response_of fixture_result),
      snd (handleExchange fixture_shim_platform fixture_req (fixture_deps (Inr fixture_result)) (fixture_shim 101000)))"
  by (simp add: prod_eq_iff shim_fixture_eval)

theorem shim_bound_token_needs_proof_witness:
  "\<exists>u. verifyDpopProof fixture_shim_platform ''proof''
     \<lparr> dcHtm = ''POST'', dcHtu = ''https://G.example:443/mcp'', dcAccessToken = ''tok'', dcJkt = ''jkt'',
       dcMaxAgeSec = None \<rparr> (fixture_shim 101000) = (Inr (), u)"
proof -
  have "tokenCnfJkt fixture_shim_platform (eqCallerToken fixture_req) = Some ''jkt''"
    by (simp add: fixture_shim_platform_def fixture_def fixture_req_def tokenCnfJkt_def cnfJkt_def)
  from shim_bound_token_needs_proof [OF fixture_callout this] show ?thesis
    by (simp add: fixture_req_def)
qed

text \<open>
  The shim asks the token endpoint only for the one scope its configuration allows for the
  audience of the request, with the caller's token as subject; every answer is such an exchange
  or an answer of the cache for the same caller token and audience.
\<close>

theorem shim_answer_origin:
  assumes "handleExchange P req deps s = (Inr r, t)"
  shows "\<exists>scope. allowed_scope (hdAudienceScopes deps) (eqTargetAudience req) = Some scope
    \<and> ((\<exists>u. cache_get P (eqCallerToken req) (eqTargetAudience req) u = (Inr (Some r), t))
       \<or> (\<exists>actor u u' result. hdExchange deps (shim_params deps req actor scope) u = (Inr result, u')
             \<and> r = response_of result))"
  using assms by (fastforce simp: handleExchange_def io_bind_Inr split: option.splits)

lemma cache_hit_keeps_cache: "cache_get P tok aud u = (Inr (Some r), v) \<Longrightarrow> xcache v \<noteq> None"
  by (auto simp: cache_get_def Let_def io_simps split: option.splits if_splits prod.splits)

theorem shim_answer_origin_witness:
  "\<exists>actor u u' result. hdExchange (fixture_deps (Inr fixture_result))
      (shim_params (fixture_deps (Inr fixture_result)) fixture_req actor ''ops:write'') u = (Inr result, u')
    \<and> response_of fixture_result = response_of result"
proof -
  let ?s = "snd (handleExchange fixture_shim_platform fixture_req (fixture_deps (Inr fixture_result)) (fixture_shim 101000))"
  have "xcache ?s = None" by (simp add: shim_fixture_eval)
  then have "cache_get fixture_shim_platform ''tok'' ''mcp-ops'' u \<noteq> (Inr (Some r), ?s)" for u r
    using cache_hit_keeps_cache by metis
  then show ?thesis
    using shim_answer_origin [OF fixture_callout] by (auto simp: fixture_req_def fixture_deps_def allowed_scope_def)
qed

definition frames_cache :: "(('w, 'j) shim \<Rightarrow> (exn + 'a) \<times> ('w, 'j) shim) \<Rightarrow> bool" where
  "frames_cache m = (\<forall>s r t. m s = (r, t) \<longrightarrow> xcache t = xcache s)"

lemma frames_bind: "frames_cache m \<Longrightarrow> (\<And>a. frames_cache (f a)) \<Longrightarrow> frames_cache (io_bind m f)"
  by (fastforce simp: frames_cache_def io_bind_def split: prod.splits sum.splits)

lemma frames_atoms:
  "frames_cache (io_return a)" "frames_cache (io_throw e)" "frames_cache (world_get f)"
  "frames_cache (world_try g)" "frames_cache (lift_sum x)" "frames_cache (require_that b e)"
  by (auto simp: frames_cache_def io_simps require_that_def split: prod.splits)

lemma frames_catch: "frames_cache m \<Longrightarrow> (\<And>e. frames_cache (h e)) \<Longrightarrow> frames_cache (io_catch m h)"
  by (fastforce simp: frames_cache_def io_catch_def split: prod.splits sum.splits)

lemma frames_verify: "frames_cache (verifyDpopProof P prf opts)"
proof -
  have "frames_cache (remember_jti c ma now)" for c ma now
    by (auto simp: frames_cache_def remember_jti_def split: js.splits prod.splits)
  then show ?thesis unfolding verifyDpopProof_def check_claims_def
    by (auto intro!: frames_bind frames_catch frames_atoms split: option.splits)
qed

lemma frames_gate: "frames_cache (dpop_gate P deps req)"
  unfolding dpop_gate_def by (auto intro: frames_verify frames_atoms split: option.splits)

lemma frames_cacheD: "frames_cache m \<Longrightarrow> m s = (r, t) \<Longrightarrow> xcache t = xcache s"
  by (simp add: frames_cache_def)

definition entry_of :: "('w, 'j) shim \<Rightarrow> string \<Rightarrow> cache_entry option" where
  "entry_of s k = (case xcache s of None \<Rightarrow> None | Some c \<Rightarrow> om_get (ecStore c) k)"

lemma cache_get_entries:
  "cache_get P tok aud s = (r, t) \<Longrightarrow> entry_of t k = Some e \<Longrightarrow> entry_of s k = Some e"
  by (auto simp: cache_get_def Let_def io_simps ec_get_def entry_of_def omap_simps
      split: option.splits if_splits prod.splits)

lemma cache_set_total: "\<exists>u. cache_set P tok aud b s = (Inr (), u)"
  by (auto simp: cache_set_def io_simps split: option.splits prod.splits)

text \<open>
  A refusal is never remembered: when a callout fails, the cache holds nothing it did not hold
  before, so the next callout asks the token endpoint again.
\<close>

theorem shim_denial_not_cached:
  assumes "handleExchange P req deps s = (Inl e, t)"
    and "frames_cache (hdGetSvidJwt deps)" "\<And>x. frames_cache (hdExchange deps x)"
    and "entry_of t k = Some v"
  shows "entry_of s k = Some v"
proof (cases "allowed_scope (hdAudienceScopes deps) (eqTargetAudience req)")
  case None
  then show ?thesis using assms by (simp add: handleExchange_def io_simps)
next
  case (Some scope)
  obtain g u where g: "dpop_gate P deps req s = (g, u)" by fastforce
  have e1: "entry_of u k = entry_of s k" using frames_cacheD [OF frames_gate g] by (simp add: entry_of_def)
  show ?thesis
  proof (cases g)
    case (Inl x)
    then show ?thesis using assms g Some e1 by (simp add: handleExchange_def io_bind_def)
  next
    case (Inr y)
    obtain c u2 where c: "cache_get P (eqCallerToken req) (eqTargetAudience req) u = (c, u2)" by fastforce
    let ?rest = "io_bind (hdGetSvidJwt deps) (\<lambda>actorToken.
                io_bind (hdExchange deps (shim_params deps req actorToken scope)) (\<lambda>result.
                io_bind (cache_set P (eqCallerToken req) (eqTargetAudience req) (response_of result)) (\<lambda>_.
                  io_return (response_of result))))"
    have "t = u2 \<or> ?rest u2 = (Inl e, t)"
      using assms(1) Some g Inr c
      by (auto simp: handleExchange_def io_bind_def io_return_def split: sum.splits option.splits)
    moreover have "xcache t = xcache u2" if "?rest u2 = (Inl e, t)"
    proof -
      have "cache_set P (eqCallerToken req) (eqTargetAudience req) b v \<noteq> (Inl e, t)" for b v
        using cache_set_total [of P "eqCallerToken req" "eqTargetAudience req" b v] by auto
      then have "hdGetSvidJwt deps u2 = (Inl e, t)
          \<or> (\<exists>a u. hdGetSvidJwt deps u2 = (Inr a, u) \<and> hdExchange deps (shim_params deps req a scope) u = (Inl e, t))"
        using that by (auto simp: io_bind_Inl)
      then show ?thesis using frames_cacheD [OF assms(2)] frames_cacheD [OF assms(3)] by metis
    qed
    ultimately have "entry_of t k = entry_of u2 k" by (auto simp: entry_of_def)
    then show ?thesis using cache_get_entries [OF c, of k v] e1 assms(4) by simp
  qed
qed

theorem shim_denial_not_cached_witness:
  "entry_of (snd (handleExchange fixture_shim_platform fixture_req (fixture_deps (Inl (JsError ''E'' ''x'')))
     (fixture_shim 101000 \<lparr>xcache := Some \<lparr> ecStore = [(''k'', new_entry 1 0 fixture_response 5)],
        ecTtlMs = 60000, ecMaxEntries = 5, ecSkewMs = 0 \<rparr>\<rparr>))) ''k''
     = Some (new_entry 1 0 fixture_response 5)
   \<and> entry_of (fixture_shim 101000 \<lparr>xcache := Some \<lparr> ecStore = [(''k'', new_entry 1 0 fixture_response 5)],
        ecTtlMs = 60000, ecMaxEntries = 5, ecSkewMs = 0 \<rparr>\<rparr>) ''k'' = Some (new_entry 1 0 fixture_response 5)"
proof -
  let ?d = "fixture_deps (Inl (JsError ''E'' ''x''))"
  let ?s = "fixture_shim 101000 \<lparr>xcache := Some \<lparr> ecStore = [(''k'', new_entry 1 0 fixture_response 5)],
        ecTtlMs = 60000, ecMaxEntries = 5, ecSkewMs = 0 \<rparr>\<rparr>"
  let ?h = "handleExchange fixture_shim_platform fixture_req ?d ?s"
  have h: "?h = (Inl (JsError ''E'' ''x''), snd ?h)" by (simp add: prod_eq_iff shim_fixture_eval)
  have k: "entry_of (snd ?h) ''k'' = Some (new_entry 1 0 fixture_response 5)"
    by (simp add: entry_of_def shim_fixture_eval)
  have "frames_cache (hdGetSvidJwt ?d)" "frames_cache (hdExchange ?d x)" for x
    by (simp_all add: fixture_deps_def frames_atoms)
  from shim_denial_not_cached [OF h this k] k show ?thesis by blast
qed

text \<open>
  Every callout of \<^verbatim>\<open>/exchange\<close> is answered: 200 with the token, 400 for a malformed callout,
  401 for a refused proof and 403 for every other failure; no failure escapes the handler.
\<close>

theorem shim_always_answers:
  "\<exists>res t. exchangeHandler P cfg get exch headers s = (Inr res, t) \<and> rStatus res \<in> {200, 400, 401, 403}"
proof -
  have f: "\<exists>b u. exchange_failure P cfg tok aud e s' = (Inr b, u) \<and> rStatus b \<in> {401, 403}" for tok aud e s'
    by (cases e) (auto simp: exchange_failure_def io_simps oboLog_def js_res_def split: prod.splits)
  have c: "\<exists>b u. io_catch (io_bind m (\<lambda>body. io_return (js_res 200 [] (response_js body))))
      (exchange_failure P cfg tok aud) s' = (Inr b, u) \<and> rStatus b \<in> {200, 401, 403}" for m tok aud s'
  proof -
    obtain r u where "m s' = (r, u)" by fastforce
    then show ?thesis using f by (cases r) (fastforce simp: io_catch_def io_bind_def io_return_def js_res_def)+
  qed
  have a: "\<exists>u. set_active_attrs as s = (Inr (), u)" for as
    by (auto simp: set_active_attrs_def io_simps split: option.splits)
  show ?thesis
  proof (cases "map_of headers ''x-caller-authorization'' = None \<or> map_of headers ''x-target-audience'' = None")
    case True
    then show ?thesis
      by (auto simp: exchangeHandler_def io_return_def js_res_def split: option.splits)
  next
    case False
    then obtain au ad where h: "map_of headers ''x-caller-authorization'' = Some au"
      "map_of headers ''x-target-audience'' = Some ad" by auto
    obtain u where u: "set_active_attrs (upstreamVerifiedIdentityAttributes P (strip_bearer au)) s = (Inr (), u)"
      using a by blast
    show ?thesis using c [of _ "strip_bearer au" ad u]
      by (fastforce simp: exchangeHandler_def h Let_def io_bind_def u)
  qed
qed

text \<open>
  The allow-list of audiences is an object literal, so an audience that names a member of
  \<^verbatim>\<open>Object.prototype\<close> passes it; no configured list refuses \<^verbatim>\<open>constructor\<close>.
\<close>

theorem shim_allow_list_prototype:
  "map_of scopes ''constructor'' = None \<Longrightarrow> allowed_scope scopes ''constructor'' \<noteq> None"
  by (simp add: allowed_scope_def inherited_text_def object_prototype_def)

theorem shim_allow_list_prototype_witness:
  "allowed_scope [(''mcp-inspect'', ''inspect:read''), (''mcp-ops'', ''ops:write'')] ''constructor'' \<noteq> None"
  by (rule shim_allow_list_prototype) simp

end
