(* ===== verification/McpOps.thy ===== *)
theory McpOps
  imports OpsApi Spiffe
begin

text \<open>
  \<^verbatim>\<open>apps/mcp-ops/src\<close>: the MCP server of the write path. Its middleware is the policy of the
  write API with one actor less; its three tools apply a per-tool role gate, exchange the
  caller's token for one of the write API (the third hop of the delegation) and call it. The
  process remembers the last exchange. Tool schemas are enforced by the MCP SDK, outside the
  model; \<open>valid_call\<close> states them.
\<close>

section \<open>Configuration\<close>

record mcp_ops_config =
  moIssuer :: string
  moJwksUri :: string
  moAudience :: string
  moRequiredScopes :: "string list"
  moExpectedChain :: "(string \<Rightarrow> bool) list"
  moTargetNamespace :: string
  moToolRequiredRoles :: "(string, string list) omap"
  moRequiredAcr :: string
  moResourceMetadataUrl :: string
  moTokenEndpoint :: string
  moClientId :: string
  moClientSecret :: string
  moOpsApiUrl :: string
  moOpsApiAudience :: string
  moOpsApiScope :: string

definition default_tool_roles :: "(string, string list) omap" where
  "default_tool_roles = [(''restart_deployment'', [''sre'', ''oncall'']),
     (''scale_deployment'', [''sre'', ''oncall'']), (''set_deployment_image'', [''sre''])]"

definition malformed_roles :: "string \<Rightarrow> exn" where
  "malformed_roles entry = JsError ''Error'' (''TOOL_REQUIRED_ROLES: malformed entry \"'' @ entry
     @ ''\" '' @ [CHR 0xE2, CHR 0x80, CHR 0x94] @ '' expected \"tool=role role\" (roles separated by whitespace or |)'')"

definition role_sep :: "char \<Rightarrow> bool" where
  "role_sep c = (is_ws c \<or> c = CHR ''|'')"

text \<open>One entry: the tool before the first equals sign, the roles after it.\<close>

definition parse_entry :: "string \<Rightarrow> (string \<times> string list) option" where
  "parse_entry trimmed =
     (let (l, r) = break_at (\<lambda>c. c = CHR ''='') trimmed;
          tool = (if r = [] then [] else trim l);
          roles = (if r = [] then [] else words_by role_sep (drop 1 r))
      in if tool = [] \<or> roles = [] then None else Some (tool, roles))"

fun parse_entries :: "string list \<Rightarrow> (string, string list) omap \<Rightarrow> exn + (string, string list) omap" where
  "parse_entries [] m = Inr m"
| "parse_entries (e # es) m =
     (if trim e = [] then parse_entries es m
      else (case parse_entry (trim e) of
              None \<Rightarrow> Inl (malformed_roles (trim e))
            | Some (tool, roles) \<Rightarrow> parse_entries es (om_set m tool roles)))"

definition parseToolRequiredRoles :: "string option \<Rightarrow> exn + (string, string list) omap" where
  "parseToolRequiredRoles raw =
     (case raw of
        None \<Rightarrow> Inr default_tool_roles
      | Some r \<Rightarrow> if trim r = [] then Inr default_tool_roles else parse_entries (split_on CHR '','' r) [])"

definition mcp_ops_chain :: "(string \<times> string) list" where
  "mcp_ops_chain = [(''mcp'', ''agentgateway''), (''agents'', ''agent-specialist''), (''agents'', ''agent-copilot'')]"

definition loadMcpOpsConfig :: "(string \<Rightarrow> string option) \<Rightarrow> exn + mcp_ops_config" where
  "loadMcpOpsConfig env =
     sum_bind (required_env env ''CURITY_ISSUER'') (\<lambda>iss.
     sum_bind (required_env env ''CURITY_JWKS_URI'') (\<lambda>jwks.
     sum_bind (parseToolRequiredRoles (env ''TOOL_REQUIRED_ROLES'')) (\<lambda>roles.
     sum_bind (required_env env ''CURITY_TOKEN_ENDPOINT'') (\<lambda>ep.
     sum_bind (required_env env ''CURITY_CLIENT_SECRET'') (\<lambda>secret.
     sum_bind (required_env env ''OPS_API_URL'') (\<lambda>url.
       Inr \<lparr> moIssuer = iss, moJwksUri = jwks,
             moAudience = or_else (env ''EXPECTED_AUDIENCE'') ''mcp-ops'',
             moRequiredScopes = words_ws (or_else (env ''REQUIRED_SCOPES'') ''ops:write''),
             moExpectedChain = map (\<lambda>p. SPIFFE_ID (fst p) (snd p)) mcp_ops_chain,
             moTargetNamespace = or_else (env ''TARGET_NAMESPACE'') ''prod'',
             moToolRequiredRoles = roles,
             moRequiredAcr = or_else (env ''REQUIRED_ACR'') ''mfa'',
             moResourceMetadataUrl = or_else (env ''RESOURCE_METADATA_URL'')
               ''https://mcp-gateway.localtest.me/.well-known/oauth-protected-resource/ops/mcp'',
             moTokenEndpoint = ep, moClientId = or_else (env ''CURITY_CLIENT_ID'') ''mcp-ops'',
             moClientSecret = secret, moOpsApiUrl = url,
             moOpsApiAudience = or_else (env ''OPS_API_AUDIENCE'') ''ops-api'',
             moOpsApiScope = or_else (env ''OPS_API_SCOPE'') ''ops:write'' \<rparr>))))))"

section \<open>The middleware\<close>

definition readRoles :: "js \<Rightarrow> string list" where
  "readRoles payload =
     (case jget payload ''roles'' of
        JArr rs \<Rightarrow> map js_string rs
      | JStr s \<Rightarrow> words_ws s
      | _ \<Rightarrow> [])"

text \<open>An RFC 6750 challenge; absent members are left out, embedded double quotes become single.\<close>

definition bearerChallenge :: "(string \<times> string option) list \<Rightarrow> string" where
  "bearerChallenge ps =
     ''Bearer '' @ join '', '' (map (\<lambda>p. fst p @ ''=\"'' @ replace_char CHR 0x22 CHR 0x27 (the (snd p)) @ ''\"'')
                          (filter (\<lambda>p. snd p \<noteq> None) ps))"

definition mcp_ops_opts :: "mcp_ops_config \<Rightarrow> verify_options" where
  "mcp_ops_opts cfg = \<lparr> voIssuer = moIssuer cfg, voAudience = moAudience cfg,
     voJwksUri = Some (moJwksUri cfg), voAlgorithms = None, voTolerance = None \<rparr>"

definition challenged_missing :: "string \<Rightarrow> string list \<Rightarrow> string \<Rightarrow> http_res" where
  "challenged_missing aud scopes url =
     answer 401 [(''www-authenticate'', bearerChallenge [(''realm'', Some aud),
          (''scope'', Some (join '' '' scopes)), (''resource_metadata'', Some url)])]
       [(''error'', JStr ''invalid_token''), (''error_description'', JStr ''missing Bearer token'')]"

definition challenged_auth_error :: "string \<Rightarrow> string \<Rightarrow> string \<Rightarrow> auth_code \<Rightarrow> http_res" where
  "challenged_auth_error aud url m c =
     answer 401 [(''www-authenticate'', bearerChallenge [(''realm'', Some aud),
          (''error'', Some ''invalid_token''), (''error_description'', Some (code_str c @ '': '' @ m)),
          (''resource_metadata'', Some url)])]
       [(''error'', JStr (code_str c)), (''error_description'', JStr m)]"

definition insufficient_scope_md :: "string list \<Rightarrow> string \<Rightarrow> http_res" where
  "insufficient_scope_md missing url =
     answer 403 [(''www-authenticate'', ''Bearer error=\"insufficient_scope\", scope=\"'' @ join '' '' missing @ ''\", ''
          @ ''resource_metadata=\"'' @ url @ ''\"'')]
       [(''error'', JStr ''insufficient_scope''), (''missing_scopes'', JArr (map JStr missing))]"

definition mcp_ops_decide :: "mcp_ops_config \<Rightarrow> verified_jwt \<Rightarrow> http_res option" where
  "mcp_ops_decide cfg v =
     (let missing = missing_scopes (moRequiredScopes cfg) v;
          claim = jget (vPayload v) ''act'';
          chain = walkActChain claim
      in if missing \<noteq> [] then Some (insufficient_scope_md missing (moResourceMetadataUrl cfg))
         else if \<not> is_object claim then Some act_required
         else if length chain \<noteq> length (moExpectedChain cfg)
           then Some (chain_length_wrong (length (moExpectedChain cfg)) chain)
         else (case first_mismatch (moExpectedChain cfg) 0 (moExpectedChain cfg) chain of
                 Some (code, i, sub) \<Rightarrow> Some (chain_position_wrong code i sub chain)
               | None \<Rightarrow>
                   if jget (vPayload v) ''acr'' \<noteq> JStr (moRequiredAcr cfg)
                   then Some (step_up_challenge (moAudience cfg) (moRequiredAcr cfg) (moResourceMetadataUrl cfg))
                   else None))"

text \<open>What passes on to the tools (\<^verbatim>\<open>req.auth\<close>).\<close>

record auth_info =
  aiToken :: string
  aiClientId :: string
  aiScopes :: "js list"
  aiSub :: string
  aiRoles :: "string list"

definition mcp_ops_auth_info :: "string \<Rightarrow> verified_jwt \<Rightarrow> auth_info" where
  "mcp_ops_auth_info token v =
     (let p = vPayload v; chain = walkActChain (jget p ''act'')
      in \<lparr> aiToken = token,
           aiClientId = js_string (js_or (jget p ''client_id'') (case chain of [] \<Rightarrow> JStr ''unknown'' | a # _ \<Rightarrow> JStr a)),
           aiScopes = vScopes v,
           aiSub = js_string (js_or (jget p ''sub'') (JStr ''unknown'')),
           aiRoles = readRoles p \<rparr>)"

definition mcp_ops_auth ::
  "mcp_ops_config \<Rightarrow> ('w, 'j) platform \<Rightarrow> string option \<Rightarrow> ('w, 'j, 'z, auth_info gate) act" where
  "mcp_ops_auth cfg P =
     bearer_middleware P
       (challenged_missing (moAudience cfg) (moRequiredScopes cfg) (moResourceMetadataUrl cfg))
       (mcp_ops_opts cfg) (decorate_then (mcp_ops_decide cfg) mcp_ops_auth_info)
       (challenged_auth_error (moAudience cfg) (moResourceMetadataUrl cfg)) ''[mcp-ops/auth-middleware] unexpected error''"

definition mcp_ops_grants :: "mcp_ops_config \<Rightarrow> verified_jwt \<Rightarrow> bool" where
  "mcp_ops_grants cfg v =
     ((\<forall>s \<in> set (moRequiredScopes cfg). has_scope v s)
      \<and> is_object (jget (vPayload v) ''act'')
      \<and> list_all2 (\<lambda>p c. p c) (moExpectedChain cfg) (walkActChain (jget (vPayload v) ''act''))
      \<and> jget (vPayload v) ''acr'' = JStr (moRequiredAcr cfg))"

section \<open>The role gate\<close>

definition toolRoleDenial :: "string \<Rightarrow> string list \<Rightarrow> string list \<Rightarrow> string option" where
  "toolRoleDenial tool callerRoles requiredRoles =
     (if requiredRoles = [] then None
      else if list_ex (\<lambda>r. r \<in> set callerRoles) requiredRoles then None
      else Some (''calling '' @ tool @ '' requires one of these roles: '' @ join '', '' requiredRoles
                 @ ''; you have: '' @ (if callerRoles = [] then ''(none)'' else join '', '' callerRoles)))"

definition tool_roles :: "mcp_ops_config \<Rightarrow> string \<Rightarrow> string list" where
  "tool_roles cfg tool = or_else (om_get (moToolRequiredRoles cfg) tool) []"

definition requiredRolesMeta :: "mcp_ops_config \<Rightarrow> string \<Rightarrow> (string \<times> js) list" where
  "requiredRolesMeta cfg tool =
     (if tool_roles cfg tool = [] then []
      else [(''_meta'', JObj [(''io.curity.demo/required-roles'', JArr (map JStr (tool_roles cfg tool)))])])"

text \<open>A tool result: the value whose indented JSON text is the content, and the error flag.\<close>

record tool_result =
  trValue :: js
  trIsError :: bool

definition tool_error :: "string \<Rightarrow> js \<Rightarrow> tool_result" where
  "tool_error err msg = \<lparr> trValue = JObj [(''error'', JStr err), (''message'', msg)], trIsError = True \<rparr>"

definition roleGate :: "mcp_ops_config \<Rightarrow> auth_info \<Rightarrow> string \<Rightarrow> tool_result option" where
  "roleGate cfg ctx tool =
     map_option (\<lambda>d. tool_error ''forbidden'' (JStr d)) (toolRoleDenial tool (aiRoles ctx) (tool_roles cfg tool))"

section \<open>The write API as a client\<close>

record last_exchange =
  leSubjectToken :: string
  leAccessToken :: js
  leAt :: int

record ('w, 'j) mcp_proc = "('w, 'j) proc" +
  lastExchange :: "last_exchange option"

definition svid_audience :: string where
  "svid_audience = ''https://curity.localtest.me/oauth/v2/oauth-token''"

definition svid_file :: string where "svid_file = ''/run/spiffe/curity-actor.jwt''"

definition pod_svid_source :: svid_source where
  "pod_svid_source = new_svid_source [(svid_audience, svid_file)]"

type_synonym 'w file_reader = "string \<Rightarrow> 'w \<Rightarrow> (exn + string) \<times> 'w"

definition hop_params :: "string \<Rightarrow> string \<Rightarrow> string \<Rightarrow> string \<Rightarrow> string \<Rightarrow> string \<Rightarrow> string \<Rightarrow> exchange_params" where
  "hop_params endpoint clientId secret subject actor aud scope =
     \<lparr> xTokenEndpoint = endpoint, xClientId = clientId, xClientSecret = Some secret, xClientAuth = None,
       xSubjectToken = subject, xActorToken = actor, xAudience = aud, xScope = scope,
       xSubjectTokenType = None, xActorTokenType = None, xRequestedTokenType = None, xDpop = None \<rparr>"

definition remember_exchange ::
  "string \<Rightarrow> js \<Rightarrow> int \<Rightarrow> ('w, 'j, 'z) mcp_proc_scheme \<Rightarrow> (exn + unit) \<times> ('w, 'j, 'z) mcp_proc_scheme" where
  "remember_exchange subject tok now s =
     (Inr (), s\<lparr>lastExchange := Some \<lparr> leSubjectToken = subject, leAccessToken = tok, leAt = now \<rparr>\<rparr>)"

text \<open>
  The hop itself: read the SVID, exchange, remember. \<open>x\<close> builds the exchange from the SVID.
\<close>

definition obtain_token ::
  "('w, 'j) platform \<Rightarrow> 'w file_reader \<Rightarrow> (string \<Rightarrow> exchange_params) \<Rightarrow> string
   \<Rightarrow> ('w, 'j, 'z) mcp_proc_scheme \<Rightarrow> (exn + js) \<times> ('w, 'j, 'z) mcp_proc_scheme" where
  "obtain_token P readFile x subject =
     io_bind (getSvid P readFile pod_svid_source svid_audience) (\<lambda>v.
       case v of
         None \<Rightarrow> io_throw (CurityAuthError (''SPIFFE JWT-SVID not available at '' @ svid_file
                   @ '' (spiffe-helper not ready?)'') InvalidActor)
       | Some sv \<Rightarrow>
           io_bind (exchangeToken P (x (svJwt sv))) (\<lambda>r.
           io_bind (world_get (dateNow P)) (\<lambda>now.
           io_bind (remember_exchange subject (xrAccessToken r) now) (\<lambda>_.
             io_return (xrAccessToken r)))))"

definition obtainOpsApiToken ::
  "mcp_ops_config \<Rightarrow> ('w, 'j) platform \<Rightarrow> 'w file_reader \<Rightarrow> string
   \<Rightarrow> ('w, 'j, 'z) mcp_proc_scheme \<Rightarrow> (exn + js) \<times> ('w, 'j, 'z) mcp_proc_scheme" where
  "obtainOpsApiToken cfg P readFile subject =
     obtain_token P readFile
       (\<lambda>svid. hop_params (moTokenEndpoint cfg) (moClientId cfg) (moClientSecret cfg) subject svid
                 (moOpsApiAudience cfg) (moOpsApiScope cfg)) subject"

definition opsApiBase :: "mcp_ops_config \<Rightarrow> string" where
  "opsApiBase cfg =
     (if ends_with ''/restart'' (moOpsApiUrl cfg)
      then take (length (moOpsApiUrl cfg) - 8) (moOpsApiUrl cfg) else moOpsApiUrl cfg)"

definition upstream_error :: "string \<Rightarrow> http_rsp \<Rightarrow> exn" where
  "upstream_error svc rsp =
     (let detail = (case pJson rsp of Inl _ \<Rightarrow> [] | Inr j \<Rightarrow> json_text j)
      in JsError ''Error'' (svc @ '' responded '' @ int_str (pStatus rsp)
           @ (if detail = [] then [] else '': '' @ detail)))"

definition postJson :: "('w, 'j) platform \<Rightarrow> string \<Rightarrow> js \<Rightarrow> js \<Rightarrow> ('w, 'j, 'z, js) act" where
  "postJson P url bearer body =
     io_bind (http_fetch P \<lparr> qMethod = ''POST'', qUrl = url,
        qHeaders = [(''authorization'', ''Bearer '' @ js_string bearer), (''content-type'', ''application/json''),
                    (''accept'', ''application/json'')],
        qBody = json_text body \<rparr>) (\<lambda>rsp.
       if rsp_ok rsp then lift_sum (pJson rsp) else io_throw (upstream_error ''ops-api'' rsp))"

definition token_summary :: "('w, 'j) platform \<Rightarrow> js \<Rightarrow> jwt_summary" where
  "token_summary P bearer = summarizeJwt P (as_str bearer)"

datatype tool_call =
    RestartCall string "string option" "string option"           \<comment> \<open>name, namespace, reason\<close>
  | SetImageCall string string "string option" "string option"   \<comment> \<open>name, image, namespace, reason\<close>
  | ScaleCall string int "string option" "string option"         \<comment> \<open>name, replicas, namespace, reason\<close>

fun tool_name :: "tool_call \<Rightarrow> string" where
  "tool_name (RestartCall _ _ _) = ''restart_deployment''"
| "tool_name (SetImageCall _ _ _ _) = ''set_deployment_image''"
| "tool_name (ScaleCall _ _ _ _) = ''scale_deployment''"

fun failure_code :: "tool_call \<Rightarrow> string" where
  "failure_code (RestartCall _ _ _) = ''restart_failed''"
| "failure_code (SetImageCall _ _ _ _) = ''set_image_failed''"
| "failure_code (ScaleCall _ _ _ _) = ''scale_failed''"

text \<open>The schemas the SDK validates a call against before the handler runs.\<close>

fun valid_call :: "tool_call \<Rightarrow> bool" where
  "valid_call (RestartCall n _ r) = (n \<noteq> [] \<and> (case r of None \<Rightarrow> True | Some s \<Rightarrow> length s \<le> 512))"
| "valid_call (SetImageCall n i _ r) = (n \<noteq> [] \<and> i \<noteq> [] \<and> (case r of None \<Rightarrow> True | Some s \<Rightarrow> length s \<le> 512))"
| "valid_call (ScaleCall n k _ r) = (n \<noteq> [] \<and> 0 \<le> k \<and> k \<le> 20 \<and> (case r of None \<Rightarrow> True | Some s \<Rightarrow> length s \<le> 512))"

definition callOpsApi :: "mcp_ops_config \<Rightarrow> ('w, 'j) platform \<Rightarrow> js \<Rightarrow> tool_call \<Rightarrow> ('w, 'j, 'z, js) act" where
  "callOpsApi cfg P bearer call =
     (let tok = token_summary P bearer in
      case call of
        RestartCall name ns reason \<Rightarrow>
          io_bind (oboLog P (event ''mcp-ops'' CALL (arrow @ '' ops-api POST /restart'')
            [(''url'', JStr (moOpsApiUrl cfg)), (''deployment'', JStr name), (''namespace'', opt_js ns),
             (''token aud'', opt_js (jsAud tok)), (''token act'', opt_js (jsAct tok)), (''token acr'', opt_js (jsAcr tok))])) (\<lambda>_.
            postJson P (moOpsApiUrl cfg) bearer
              (JObj [(''name'', JStr name), (''namespace'', opt_js ns), (''reason'', opt_js reason)]))
      | SetImageCall name img ns reason \<Rightarrow>
          io_bind (oboLog P (event ''mcp-ops'' CALL (arrow @ '' ops-api POST /set-image'')
            [(''url'', JStr (opsApiBase cfg @ ''/set-image'')), (''deployment'', JStr name), (''image'', JStr img),
             (''token act'', opt_js (jsAct tok))])) (\<lambda>_.
            postJson P (opsApiBase cfg @ ''/set-image'') bearer
              (JObj [(''name'', JStr name), (''image'', JStr img), (''namespace'', opt_js ns), (''reason'', opt_js reason)]))
      | ScaleCall name replicas ns reason \<Rightarrow>
          io_bind (oboLog P (event ''mcp-ops'' CALL (arrow @ '' ops-api POST /scale'')
            [(''url'', JStr (opsApiBase cfg @ ''/scale'')), (''deployment'', JStr name), (''replicas'', JNum replicas),
             (''token act'', opt_js (jsAct tok))])) (\<lambda>_.
            postJson P (opsApiBase cfg @ ''/scale'') bearer
              (JObj [(''name'', JStr name), (''replicas'', JNum replicas), (''namespace'', opt_js ns), (''reason'', opt_js reason)])))"

section \<open>The tools\<close>

text \<open>\<^verbatim>\<open>namespace ?? cfg.targetNamespace\<close> in the arguments.\<close>

fun with_namespace :: "string \<Rightarrow> tool_call \<Rightarrow> tool_call" where
  "with_namespace d (RestartCall n ns r) = RestartCall n (Some (or_else ns d)) r"
| "with_namespace d (SetImageCall n i ns r) = SetImageCall n i (Some (or_else ns d)) r"
| "with_namespace d (ScaleCall n k ns r) = ScaleCall n k (Some (or_else ns d)) r"

fun call_fields :: "tool_call \<Rightarrow> (string \<times> js) list" where
  "call_fields (RestartCall n ns r) = [(''deployment'', JStr n), (''namespace'', opt_js ns), (''reason'', opt_js r)]"
| "call_fields (SetImageCall n i ns r) = [(''deployment'', JStr n), (''image'', JStr i), (''namespace'', opt_js ns)]"
| "call_fields (ScaleCall n k ns r) = [(''deployment'', JStr n), (''replicas'', JNum k), (''namespace'', opt_js ns)]"

definition received_event :: "('w, 'j) platform \<Rightarrow> auth_info \<Rightarrow> tool_call \<Rightarrow> obo_event" where
  "received_event P ctx call =
     (let tok = summarizeJwt P (Some (aiToken ctx)); roles = join '','' (aiRoles ctx)
      in event ''mcp-ops'' RECEIVE (''MCP tool '' @ tool_name call)
           ([(''user'', JStr (aiSub ctx)), (''act'', opt_js (jsAct tok)), (''acr'', opt_js (jsAcr tok)),
             (''roles'', JStr (if roles = [] then ''(none)'' else roles))] @ call_fields call))"

definition failure_message :: "exn \<Rightarrow> js" where
  "failure_message e = js_or (exn_prop e ''message'') (JStr (exn_string e))"

definition run_tool ::
  "mcp_ops_config \<Rightarrow> ('w, 'j) platform \<Rightarrow> 'w file_reader \<Rightarrow> auth_info \<Rightarrow> tool_call
   \<Rightarrow> ('w, 'j, 'z) mcp_proc_scheme \<Rightarrow> (exn + tool_result) \<times> ('w, 'j, 'z) mcp_proc_scheme" where
  "run_tool cfg P readFile ctx call0 =
     (let call = with_namespace (moTargetNamespace cfg) call0
      in io_bind (oboLog P (received_event P ctx call)) (\<lambda>_.
           case roleGate cfg ctx (tool_name call) of
             Some denied \<Rightarrow> io_return denied
           | None \<Rightarrow>
               io_catch
                 (io_bind (obtainOpsApiToken cfg P readFile (aiToken ctx)) (\<lambda>bearer.
                  io_bind (callOpsApi cfg P bearer call) (\<lambda>result.
                    io_return \<lparr> trValue = result, trIsError = False \<rparr>)))
                 (\<lambda>e. io_return (tool_error (failure_code call) (failure_message e)))))"

lemmas mcp_ops_eval [eval_simps] = default_tool_roles_def malformed_roles_def role_sep_def
  parse_entry_def parseToolRequiredRoles_def mcp_ops_chain_def loadMcpOpsConfig_def readRoles_def
  bearerChallenge_def mcp_ops_opts_def challenged_missing_def challenged_auth_error_def
  insufficient_scope_md_def mcp_ops_decide_def mcp_ops_auth_info_def mcp_ops_auth_def
  mcp_ops_grants_def toolRoleDenial_def tool_roles_def requiredRolesMeta_def tool_error_def
  roleGate_def svid_audience_def svid_file_def pod_svid_source_def hop_params_def
  remember_exchange_def obtain_token_def obtainOpsApiToken_def opsApiBase_def upstream_error_def
  postJson_def token_summary_def callOpsApi_def received_event_def failure_message_def run_tool_def

section \<open>The middleware meets its policy\<close>

lemma mcp_ops_decide_None: "mcp_ops_decide cfg v = None \<longleftrightarrow> mcp_ops_grants cfg v"
proof (cases "length (moExpectedChain cfg) = length (walkActChain (jget (vPayload v) ''act''))")
  case True
  then show ?thesis
    using first_mismatch_None [OF True, of "moExpectedChain cfg" 0]
    by (auto simp: mcp_ops_decide_def mcp_ops_grants_def missing_scopes_empty Let_def split: option.splits)
next
  case False
  then show ?thesis
    by (auto simp: mcp_ops_decide_def mcp_ops_grants_def missing_scopes_empty Let_def
        dest: list_all2_lengthD split: option.splits)
qed

lemma mcp_ops_decide_status: "mcp_ops_decide cfg v = Some res \<Longrightarrow> rStatus res \<in> {401, 403}"
  by (auto simp: mcp_ops_decide_def Let_def insufficient_scope_md_def act_required_def chain_length_wrong_def
      chain_position_wrong_def step_up_challenge_def answer_def split: if_splits option.splits)

interpretation mcp_ops_gate: bearer_gate "mcp_ops_auth cfg" "mcp_ops_opts cfg" "mcp_ops_grants cfg"
  for cfg :: mcp_ops_config
  unfolding mcp_ops_auth_def
  by (rule bearer_gate_decorate)
     (auto simp: challenged_missing_def challenged_auth_error_def answer_def mcp_ops_decide_None
        dest: mcp_ops_decide_status)

section \<open>What the server guarantees\<close>

text \<open>
  The MCP server of the write path admits a request exactly when its token verifies, carries
  the required scopes, its actor chain is the configured one actor by actor, and it has the
  required authentication class.
\<close>

theorem mcp_ops_admits:
  "(\<exists>ctx u. mcp_ops_auth cfg P h s = (Inr (Next ctx), u)) \<longleftrightarrow>
   (\<exists>tok v t. bearer_of h = Some tok \<and> verifyJwt P tok (mcp_ops_opts cfg) s = (Inr v, t)
      \<and> (\<forall>sc \<in> set (moRequiredScopes cfg). has_scope v sc)
      \<and> is_object (jget (vPayload v) ''act'')
      \<and> list_all2 (\<lambda>p c. p c) (moExpectedChain cfg) (walkActChain (jget (vPayload v) ''act''))
      \<and> jget (vPayload v) ''acr'' = JStr (moRequiredAcr cfg))"
  using mcp_ops_gate.next_iff [of cfg P h s] by (simp add: mcp_ops_grants_def)

definition fixture_mcp_ops_config :: mcp_ops_config where
  "fixture_mcp_ops_config =
     \<lparr> moIssuer = ''https://as'', moJwksUri = ''https://as/jwks'', moAudience = ''mcp-ops'',
       moRequiredScopes = [''ops:write''],
       moExpectedChain = map (\<lambda>p. SPIFFE_ID (fst p) (snd p)) mcp_ops_chain,
       moTargetNamespace = ''prod'', moToolRequiredRoles = default_tool_roles, moRequiredAcr = ''mfa'',
       moResourceMetadataUrl = ''https://md'', moTokenEndpoint = ''https://as/token'', moClientId = ''mcp-ops'',
       moClientSecret = ''s'', moOpsApiUrl = ''http://ops/restart'', moOpsApiAudience = ''ops-api'',
       moOpsApiScope = ''ops:write'' \<rparr>"

definition mcp_ops_actors :: "string list" where
  "mcp_ops_actors = map (\<lambda>p. spiffe_id (fst p) (snd p)) mcp_ops_chain"

definition fixture_mcp_ops_claims :: js where
  "fixture_mcp_ops_claims = fixture_claims mcp_ops_actors ''ops:write'' ''mfa''"

lemma fixture_claims_facts:
  "walkActChain (jget (fixture_claims chain sc acr) ''act'') = chain"
  "is_object (jget (fixture_claims chain sc acr) ''act'') \<longleftrightarrow> chain \<noteq> []"
  "jget (fixture_claims chain sc acr) ''acr'' = JStr acr"
  "vPayload (fixture_verified c) = c"
  by (simp_all add: fixture_claims_def walk_nested_chain nest_act_object fixture_verified_def verified_of_def)

lemma fixture_has_scope: "sc \<noteq> [] \<Longrightarrow> CHR '' '' \<notin> set sc \<Longrightarrow> has_scope (fixture_verified (fixture_claims chain sc acr)) sc"
  by (simp add: has_scope_def fixture_verified_def verified_of_def parseScopes_def fixture_claims_def split_on_id)

lemma fixture_mcp_ops_grants: "mcp_ops_grants fixture_mcp_ops_config (fixture_verified fixture_mcp_ops_claims)"
  by (simp add: mcp_ops_grants_def fixture_mcp_ops_claims_def fixture_claims_facts fixture_mcp_ops_config_def
      fixture_has_scope spiffe_chain_iff mcp_ops_actors_def)
     (simp add: mcp_ops_chain_def SPIFFE_ID_def)

theorem mcp_ops_admits_witness:
  "\<exists>ctx u. mcp_ops_auth fixture_mcp_ops_config (fixture_gate fixture_mcp_ops_claims) (Some ''Bearer tok'') (idle 0)
     = (Inr (Next ctx), u)"
proof -
  obtain t where "verifyJwt (fixture_gate fixture_mcp_ops_claims) ''tok'' (mcp_ops_opts fixture_mcp_ops_config) (idle 0)
      = (Inr (fixture_verified fixture_mcp_ops_claims), t)"
    using fixture_verifies [of "mcp_ops_opts fixture_mcp_ops_config"]
    by (auto simp: mcp_ops_opts_def fixture_mcp_ops_config_def)
  then show ?thesis
    using mcp_ops_admits [of fixture_mcp_ops_config "fixture_gate fixture_mcp_ops_claims" "Some ''Bearer tok''" "idle 0"]
      fixture_mcp_ops_grants fixture_bearer unfolding mcp_ops_grants_def by blast
qed

subsection \<open>Roles\<close>

lemma toolRoleDenial_None:
  "toolRoleDenial tool callerRoles required = None \<longleftrightarrow> required = [] \<or> set required \<inter> set callerRoles \<noteq> {}"
  by (auto simp: toolRoleDenial_def list_ex_iff)

definition may_call :: "mcp_ops_config \<Rightarrow> auth_info \<Rightarrow> tool_call \<Rightarrow> bool" where
  "may_call cfg ctx call =
     (tool_roles cfg (tool_name call) = [] \<or> set (tool_roles cfg (tool_name call)) \<inter> set (aiRoles ctx) \<noteq> {})"

lemma tool_name_namespace [simp]: "tool_name (with_namespace d call) = tool_name call"
  by (cases call) simp_all

lemma roleGate_None: "roleGate cfg ctx (tool_name call) = None \<longleftrightarrow> may_call cfg ctx call"
  by (simp add: roleGate_def toolRoleDenial_None may_call_def)

text \<open>
  The role gate is before the delegation: a tool call makes a request (to the authorization
  server or to the write API) only if the tool asks for no role or the caller has one of them;
  otherwise the result is an error naming the tool, and nothing left the server.
\<close>

theorem mcp_ops_role_gate:
  assumes "run_tool cfg P readFile ctx call s = (r, t)" "\<not> may_call cfg ctx call"
  shows "\<exists>d es. r = Inr (tool_error ''forbidden'' (JStr d)) \<and> out t = out s @ es \<and> requests es = []"
proof -
  obtain d where d: "roleGate cfg ctx (tool_name call) = Some (tool_error ''forbidden'' (JStr d))"
    using assms(2) roleGate_None [of cfg ctx call] unfolding roleGate_def by auto
  let ?l = "oboLog P (received_event P ctx (with_namespace (moTargetNamespace cfg) call))"
  have l: "\<exists>u. ?l s = (Inr (), u)" by (rule oboLog_Inr)
  then obtain u where u: "?l s = (Inr (), u)" by blast
  have "emits no_request ?l" by (intro emits_intros) simp
  then obtain es where es: "out u = out s @ es" "list_all no_request es" using emitsD u by blast
  have "r = Inr (tool_error ''forbidden'' (JStr d))" "t = u"
    using assms(1) d u by (simp_all add: run_tool_def Let_def io_bind_def io_return_def)
  then show ?thesis using es no_request_requests by blast
qed

definition fixture_ctx :: "string list \<Rightarrow> auth_info" where
  "fixture_ctx roles = \<lparr> aiToken = ''tok'', aiClientId = ''c'', aiScopes = [], aiSub = ''alice'', aiRoles = roles \<rparr>"

definition idle_mcp :: "int \<Rightarrow> (int, string) mcp_proc" where
  "idle_mcp w = \<lparr> world = w, out = [], spans = [], jwksCache = [], oidcCache = [], dpopNonces = [], lastExchange = None \<rparr>"

theorem mcp_ops_role_gate_witness:
  "\<exists>d. fst (run_tool fixture_mcp_ops_config (fixture no_net (\<lambda>_. None)) (\<lambda>_ w. (Inr ''svid'', w)) (fixture_ctx [''oncall''])
        (SetImageCall ''order-service'' ''img:1'' None None) (idle_mcp 0)) = Inr (tool_error ''forbidden'' (JStr d))"
proof -
  let ?r = "run_tool fixture_mcp_ops_config (fixture no_net (\<lambda>_. None)) (\<lambda>_ w. (Inr ''svid'', w)) (fixture_ctx [''oncall''])
        (SetImageCall ''order-service'' ''img:1'' None None) (idle_mcp 0)"
  have "\<not> may_call fixture_mcp_ops_config (fixture_ctx [''oncall'']) (SetImageCall ''order-service'' ''img:1'' None None)"
    by (simp add: may_call_def tool_roles_def fixture_mcp_ops_config_def default_tool_roles_def om_get_def or_else_def
        fixture_ctx_def)
  from mcp_ops_role_gate [OF prod.collapse [symmetric] this] show ?thesis by blast
qed

subsection \<open>The hop to the write API\<close>

lemma getSvid_frame: "getSvid P readFile src aud s = (r, u) \<Longrightarrow> lastExchange u = lastExchange s"
  by (auto simp: getSvid_def io_simps split: option.splits if_splits prod.splits sum.splits)

lemma pod_svid_Inr:
  assumes "getSvid P readFile pod_svid_source svid_audience s = (Inr (Some sv), u)"
  shows "\<exists>raw w. readFile svid_file (world s) = (Inr raw, w) \<and> svJwt sv = trim raw \<and> trim raw \<noteq> [] \<and> u = s\<lparr>world := w\<rparr>"
  using assms
  by (auto simp: getSvid_def pod_svid_source_def new_svid_source_def om_get_def svid_file_def svid_audience_def io_simps
      split: option.splits if_splits prod.splits sum.splits)

text \<open>What obtaining the token did, step by step: the file, the exchange, the note.\<close>

lemma obtain_token_Inr:
  fixes s :: "('w, 'j, 'z) mcp_proc_scheme"
  assumes "obtain_token P readFile x subject s = (Inr bearer, t)"
  shows "\<exists>raw w r u now w'. readFile svid_file (world s) = (Inr raw, w) \<and> trim raw \<noteq> []
    \<and> exchangeToken P (x (trim raw)) (s\<lparr>world := w\<rparr>) = (Inr r, u) \<and> bearer = xrAccessToken r
    \<and> dateNow P (world u) = (now, w')
    \<and> t = u\<lparr>world := w', lastExchange := Some \<lparr> leSubjectToken = subject, leAccessToken = xrAccessToken r, leAt = now \<rparr>\<rparr>"
proof -
  obtain v u0 where v: "getSvid P readFile pod_svid_source svid_audience s = (Inr v, u0)"
    "(case v of None \<Rightarrow> io_throw (CurityAuthError (''SPIFFE JWT-SVID not available at '' @ svid_file
                   @ '' (spiffe-helper not ready?)'') InvalidActor)
       | Some sv \<Rightarrow> io_bind (exchangeToken P (x (svJwt sv))) (\<lambda>r. io_bind (world_get (dateNow P)) (\<lambda>now.
           io_bind (remember_exchange subject (xrAccessToken r) now) (\<lambda>_. io_return (xrAccessToken r))))) u0 = (Inr bearer, t)"
    using iffD1 [OF io_bind_Inr assms [unfolded obtain_token_def]] by blast
  then obtain sv where sv: "v = Some sv" by (cases v) (simp_all add: io_throw_def)
  obtain raw w where raw: "readFile svid_file (world s) = (Inr raw, w)" "svJwt sv = trim raw" "trim raw \<noteq> []" "u0 = s\<lparr>world := w\<rparr>"
    using pod_svid_Inr v(1) unfolding sv by blast
  obtain r u where r: "exchangeToken P (x (trim raw)) (s\<lparr>world := w\<rparr>) = (Inr r, u)"
    "io_bind (world_get (dateNow P)) (\<lambda>now.
       io_bind (remember_exchange subject (xrAccessToken r) now) (\<lambda>_. io_return (xrAccessToken r))) u = (Inr bearer, t)"
    using v(2) unfolding sv option.case raw(2,4) by (auto simp: io_bind_Inr)
  obtain now w' where d: "dateNow P (world u) = (now, w')" by fastforce
  have "bearer = xrAccessToken r"
    "t = u\<lparr>world := w', lastExchange := Some \<lparr> leSubjectToken = subject, leAccessToken = xrAccessToken r, leAt = now \<rparr>\<rparr>"
    using r(2) d by (auto simp: io_simps remember_exchange_def)
  with raw(1,3) r(1) d show ?thesis by blast
qed

text \<open>
  C13. A tool that succeeds has delegated, in this order and with nothing in between: it logged the call, read the
  workload's SVID from the configured file, exchanged the caller's own token with exactly that SVID as actor for the
  audience and scope of the write API, noted that pair of tokens as the process's last exchange, and called the
  write API with the token it got; the result is the write API's answer.
\<close>

theorem mcp_ops_delegates:
  fixes s :: "('w, 'j, 'z) mcp_proc_scheme"
  assumes "run_tool cfg P readFile ctx call s = (Inr res, t)" "\<not> trIsError res"
  shows "\<exists>l svid w r u now w' v.
      oboLog P (received_event P ctx (with_namespace (moTargetNamespace cfg) call)) s = (Inr (), l)
    \<and> readFile svid_file (world l) = (Inr svid, w) \<and> trim svid \<noteq> []
    \<and> exchangeToken P (hop_params (moTokenEndpoint cfg) (moClientId cfg) (moClientSecret cfg)
             (aiToken ctx) (trim svid) (moOpsApiAudience cfg) (moOpsApiScope cfg)) (l\<lparr>world := w\<rparr>) = (Inr r, u)
    \<and> dateNow P (world u) = (now, w')
    \<and> v = u\<lparr>world := w', lastExchange := Some \<lparr> leSubjectToken = aiToken ctx, leAccessToken = xrAccessToken r, leAt = now \<rparr>\<rparr>
    \<and> callOpsApi cfg P (xrAccessToken r) (with_namespace (moTargetNamespace cfg) call) v = (Inr (trValue res), t)"
proof -
  let ?call = "with_namespace (moTargetNamespace cfg) call"
  obtain l :: "('w, 'j, 'z) mcp_proc_scheme" where l: "oboLog P (received_event P ctx ?call) s = (Inr (), l)"
    using oboLog_Inr by blast
  have g: "roleGate cfg ctx (tool_name ?call) = None"
    using assms l by (auto simp: run_tool_def Let_def io_bind_def io_return_def roleGate_def tool_error_def
        split: option.splits)
  let ?body = "io_bind (obtainOpsApiToken cfg P readFile (aiToken ctx)) (\<lambda>bearer.
                  io_bind (callOpsApi cfg P bearer ?call) (\<lambda>result.
                    io_return \<lparr> trValue = result, trIsError = False \<rparr>))"
  have c: "io_catch ?body (\<lambda>e. io_return (tool_error (failure_code ?call) (failure_message e))) l = (Inr res, t)"
    using assms(1) l g by (simp add: run_tool_def Let_def io_bind_def)
  have "?body l = (Inr res, t)"
  proof (cases "?body l")
    case (Pair x y)
    then show ?thesis using c assms(2) by (cases x) (auto simp: io_catch_def io_return_def tool_error_def)
  qed
  then obtain bearer v where o: "obtainOpsApiToken cfg P readFile (aiToken ctx) l = (Inr bearer, v)"
    and k: "callOpsApi cfg P bearer ?call v = (Inr (trValue res), t)"
    by (auto simp: io_bind_Inr io_return_def)
  from obtain_token_Inr [OF o [unfolded obtainOpsApiToken_def]] k l show ?thesis by blast
qed

definition two_step_net :: "http_req \<Rightarrow> int \<Rightarrow> (exn + http_rsp) \<times> int" where
  "two_step_net q w =
     (Inr (json_rsp 200 (if qUrl q = ''https://as/token'' then JObj [(''access_token'', JStr ''T'')]
                         else JObj [(''deployment'', JStr ''d'')])), w)"

theorem mcp_ops_delegates_witness:
  "\<exists>r u u'. exchangeToken (fixture two_step_net (\<lambda>t. Some (JObj [])))
      (hop_params ''https://as/token'' ''mcp-ops'' ''s'' ''tok'' ''svid'' ''ops-api'' ''ops:write'')
      (u :: (int, string) mcp_proc) = (Inr r, u')"
proof -
  let ?P = "fixture two_step_net (\<lambda>t. Some (JObj []))"
  let ?r = "run_tool fixture_mcp_ops_config ?P (\<lambda>_ w. (Inr ''svid'', w)) (fixture_ctx [''sre''])
        (RestartCall ''d'' None None) (idle_mcp 0)"
  have "\<exists>res t. ?r = (Inr res, t) \<and> \<not> trIsError res"
    by (simp add: eval_simps fixture_mcp_ops_config_def fixture_ctx_def idle_mcp_def two_step_net_def
        del: formatOboLog_def)
  then obtain res t where r: "?r = (Inr res, t)" "\<not> trIsError res" by blast
  have "trim ''svid'' = ''svid''" by code_simp
  with mcp_ops_delegates [OF r] show ?thesis by (fastforce simp: fixture_mcp_ops_config_def fixture_ctx_def)
qed

subsection \<open>Configured roles\<close>

lemma om_set_keys_mono: "k \<in> set (om_keys m) \<Longrightarrow> k \<in> set (om_keys (om_set m j v))"
  by (simp add: omap_keys_set)

lemma parse_entries_keeps: "parse_entries es m = Inr m' \<Longrightarrow> set (om_keys m) \<subseteq> set (om_keys m')"
proof (induction es m rule: parse_entries.induct)
  case (2 e es m)
  show ?case
  proof (cases "trim e = []")
    case True
    then show ?thesis using 2 by auto
  next
    case False
    then obtain t' rs where p: "parse_entry (trim e) = Some (t', rs)" and q: "parse_entries es (om_set m t' rs) = Inr m'"
      using 2(3) by (auto split: option.splits)
    have "set (om_keys (om_set m t' rs)) \<subseteq> set (om_keys m')" using 2(2) [OF False p _ q] by simp
    then show ?thesis by (auto simp: omap_keys_set)
  qed
qed simp

lemma parse_entry_sound:
  "parse_entry e = Some (tool, roles) \<Longrightarrow>
   tool \<noteq> [] \<and> roles \<noteq> [] \<and> (\<forall>r \<in> set roles. r \<noteq> [] \<and> (\<forall>c \<in> set r. \<not> role_sep c))"
  by (auto simp: parse_entry_def Let_def split: prod.splits if_splits dest: words_by_no_sep)

lemma parse_entries_sound:
  "parse_entries es m = Inr m' \<Longrightarrow> (tool, roles) \<in> set m' \<Longrightarrow>
   (tool, roles) \<in> set m \<or> (\<exists>e \<in> set es. parse_entry (trim e) = Some (tool, roles))"
proof (induction es m rule: parse_entries.induct)
  case (1 m)
  then show ?case by simp
next
  case (2 e es m)
  show ?case
  proof (cases "trim e = []")
    case True
    then show ?thesis using 2 by auto
  next
    case False
    then obtain t' rs where p: "parse_entry (trim e) = Some (t', rs)" and q: "parse_entries es (om_set m t' rs) = Inr m'"
      using 2(3) by (auto split: option.splits)
    then have "(tool, roles) \<in> set (om_set m t' rs) \<or> (\<exists>e \<in> set es. parse_entry (trim e) = Some (tool, roles))"
      using 2(2) [OF False p] 2(4) by blast
    then show ?thesis using p om_set_mem by fastforce
  qed
qed

lemma parse_entries_complete:
  "parse_entries es m = Inr m' \<Longrightarrow> e \<in> set es \<Longrightarrow> trim e \<noteq> [] \<Longrightarrow>
   \<exists>tool roles. parse_entry (trim e) = Some (tool, roles) \<and> tool \<in> set (om_keys m')"
proof (induction es m rule: parse_entries.induct)
  case (1 m)
  then show ?case by simp
next
  case (2 e' es m)
  show ?case
  proof (cases "trim e' = []")
    case True
    then show ?thesis using 2 by auto
  next
    case False
    then obtain t' rs where p: "parse_entry (trim e') = Some (t', rs)" and q: "parse_entries es (om_set m t' rs) = Inr m'"
      using 2(3) by (auto split: option.splits)
    have "t' \<in> set (om_keys m')" using parse_entries_keeps [OF q] by (auto simp: omap_keys_set)
    then show ?thesis using 2(2) [OF False p] 2(4,5) p q by auto
  qed
qed

text \<open>
  A role matrix given in the environment is never weakened by a typo: if it parses, every
  non-blank entry is well formed and gates its tool, and every gate has a tool and at least one
  role, none of them blank; anything else is refused at start-up.
\<close>

theorem tool_roles_parsed:
  assumes "parseToolRequiredRoles (Some raw) = Inr m" "trim raw \<noteq> []"
  shows "(\<forall>e \<in> set (split_on CHR '','' raw). trim e \<noteq> [] \<longrightarrow>
            (\<exists>tool roles. parse_entry (trim e) = Some (tool, roles) \<and> tool \<in> set (om_keys m)))
    \<and> (\<forall>(tool, roles) \<in> set m. tool \<noteq> [] \<and> roles \<noteq> [] \<and> (\<forall>r \<in> set roles. r \<noteq> [] \<and> (\<forall>c \<in> set r. \<not> role_sep c)))"
proof -
  have p: "parse_entries (split_on CHR '','' raw) [] = Inr m"
    using assms by (simp add: parseToolRequiredRoles_def)
  have "tool \<noteq> [] \<and> roles \<noteq> [] \<and> (\<forall>r \<in> set roles. r \<noteq> [] \<and> (\<forall>c \<in> set r. \<not> role_sep c))"
    if m: "(tool, roles) \<in> set m" for tool roles
  proof -
    obtain e where "parse_entry (trim e) = Some (tool, roles)" using parse_entries_sound [OF p m] by auto
    then show ?thesis by (rule parse_entry_sound)
  qed
  moreover have "\<exists>tool roles. parse_entry (trim e) = Some (tool, roles) \<and> tool \<in> set (om_keys m)"
    if "e \<in> set (split_on CHR '','' raw)" "trim e \<noteq> []" for e
    using parse_entries_complete [OF p that] .
  ultimately show ?thesis by blast
qed

theorem tool_roles_parsed_witness:
  "parseToolRequiredRoles (Some ''scale_deployment=sre|oncall,'') = Inr [(''scale_deployment'', [''sre'', ''oncall''])]
   \<and> ''scale_deployment'' \<noteq> [] \<and> [''sre'', ''oncall''] \<noteq> []"
proof -
  have p: "parseToolRequiredRoles (Some ''scale_deployment=sre|oncall,'') = Inr [(''scale_deployment'', [''sre'', ''oncall''])]"
    by (simp add: eval_simps)
  from tool_roles_parsed [OF this] show ?thesis using p by (simp add: eval_simps)
qed

subsection \<open>Challenges\<close>

lemma count_join: "count_list (join '', '' xs) CHR 0x22 = sum_list (map (\<lambda>x. count_list x CHR 0x22) xs)"
proof (induction "'', ''" xs rule: join.induct)
  case 3
  then show ?case by simp
qed simp_all

lemma count_quote_free: "count_list (replace_char CHR 0x22 CHR 0x27 s) CHR 0x22 = 0"
  by (induction s) (auto simp: replace_char_def)

text \<open>
  The MCP servers' challenges stay parseable whatever text they carry: the only double quotes
  of a challenge are the two around each of its values.
\<close>

theorem bearer_challenge_quotes:
  assumes "\<forall>p \<in> set ps. CHR 0x22 \<notin> set (fst p)"
  shows "count_list (bearerChallenge ps) CHR 0x22 = 2 * length (filter (\<lambda>p. snd p \<noteq> None) ps)"
proof -
  have "sum_list (map (\<lambda>p. count_list (fst p @ ''=\"'' @ replace_char CHR 0x22 CHR 0x27 (the (snd p)) @ ''\"'') CHR 0x22) qs)
      = 2 * length qs" if "\<forall>p \<in> set qs. CHR 0x22 \<notin> set (fst p)" for qs :: "(string \<times> string option) list"
    using that by (induction qs) (simp_all add: count_quote_free count_notin)
  from this [of "filter (\<lambda>p. snd p \<noteq> None) ps"] show ?thesis
    using assms by (simp add: bearerChallenge_def count_join comp_def)
qed

theorem bearer_challenge_quotes_witness:
  "count_list (bearerChallenge [(''realm'', Some ''a\"b''), (''scope'', None)]) CHR 0x22 = 2"
  by (subst bearer_challenge_quotes) simp_all

text \<open>
  The two APIs answer a refused token with its message verbatim between double quotes, so a
  message that has quotes of its own (the verifier's have) ends the value early: the header has
  more quotes than its two values account for.
\<close>

theorem api_challenge_unescaped:
  "count_list (snd (hd (rHeaders (ops_api_auth_error m c)))) CHR 0x22 = 4 + count_list (code_str c) CHR 0x22 + count_list m CHR 0x22"
  by (simp add: ops_api_auth_error_def answer_def)

end
