(* ===== verification/AgentTokens.thy ===== *)
theory AgentTokens
  imports AgentFetch TokenCache Shim McpOps
begin

text \<open>
  How the two agents obtain the tokens of their next hops: their published client identity
  (\<^verbatim>\<open>apps/*/src/cimd-identity.ts\<close>), the exchange every hop performs with the workload's SVID as
  actor, and the use of \<open>TokenExchangeCache\<close> around it. \<^verbatim>\<open>agent-copilot\<close> and \<^verbatim>\<open>agent-specialist\<close> write
  this sequence once per hop; the hops are defined in their own theories from these parts.
\<close>

section \<open>The agent process\<close>

record ('w, 'j) agent_host = "('w, 'j) agent_proc" +
  cimdCached :: "(exn + cimd_identity) option"

definition getCimdIdentity ::
  "('w, 'j) platform \<Rightarrow> string \<Rightarrow> string \<Rightarrow> ('w, 'j, 'z) agent_host_scheme \<Rightarrow> (exn + cimd_identity) \<times> ('w, 'j, 'z) agent_host_scheme" where
  "getCimdIdentity P pem clientId s =
     (case cimdCached s of
        Some r \<Rightarrow> (r, s)
      | None \<Rightarrow> (let r = createCimdIdentity P pem clientId in (r, s\<lparr>cimdCached := Some r\<rparr>)))"

definition svid_or_throw ::
  "('w, 'j) platform \<Rightarrow> 'w file_reader \<Rightarrow> string \<Rightarrow> ('w, 'j, 'z, svid) act" where
  "svid_or_throw P readFile hint =
     io_bind (getSvid P readFile pod_svid_source svid_audience) (\<lambda>v.
       case v of
         Some sv \<Rightarrow> io_return sv
       | None \<Rightarrow> io_throw (CurityAuthError (''SPIFFE JWT-SVID not available at '' @ svid_file @ hint) InvalidActor))"

definition not_ready :: string where "not_ready = '' (spiffe-helper not ready?)''"

section \<open>One hop\<close>

text \<open>What an agent asks for: itself as client, the user's token as subject, a target.\<close>

record hop =
  hpClientId :: string
  hpPrivateKeyPem :: string
  hpSubjectToken :: string
  hpAudience :: string
  hpScope :: string
  hpBound :: bool    \<comment> \<open>bind the token to the process's DPoP key\<close>

definition agent_params :: "hop \<Rightarrow> string \<Rightarrow> string \<Rightarrow> string \<Rightarrow> dpop_key option \<Rightarrow> exchange_params" where
  "agent_params h kid endpoint actor key =
     \<lparr> xTokenEndpoint = endpoint, xClientId = hpClientId h, xClientSecret = None,
       xClientAuth = Some (PrivateKeyJwt (hpPrivateKeyPem h) kid None endpoint),
       xSubjectToken = hpSubjectToken h, xActorToken = actor, xAudience = hpAudience h, xScope = hpScope h,
       xSubjectTokenType = None, xActorTokenType = None, xRequestedTokenType = None, xDpop = key \<rparr>"

text \<open>\<open>endpoint\<close> is the token endpoint: discovered already, or read from the issuer's metadata here.\<close>

definition mint ::
  "('w, 'j) platform \<Rightarrow> 'w file_reader \<Rightarrow> string \<Rightarrow> (('w, 'j, 'z) agent_host_scheme \<Rightarrow> (exn + string) \<times> ('w, 'j, 'z) agent_host_scheme)
   \<Rightarrow> hop \<Rightarrow> ('w, 'j, 'z) agent_host_scheme \<Rightarrow> (exn + exchange_result) \<times> ('w, 'j, 'z) agent_host_scheme" where
  "mint P readFile hint endpoint h =
     io_bind (svid_or_throw P readFile hint) (\<lambda>sv.
     io_bind (getCimdIdentity P (hpPrivateKeyPem h) (hpClientId h)) (\<lambda>ci.
     io_bind endpoint (\<lambda>ep.
     io_bind (if hpBound h then io_bind (processDpopKey P) (\<lambda>k. io_return (Some k)) else io_return None) (\<lambda>key.
       exchangeToken P (agent_params h (ciKid ci) ep (svJwt sv) key)))))"

definition issuer_endpoint ::
  "('w, 'j) platform \<Rightarrow> 'w mcp_sdk \<Rightarrow> string \<Rightarrow> ('w, 'j, 'z) agent_proc_scheme \<Rightarrow> (exn + string) \<times> ('w, 'j, 'z) agent_proc_scheme" where
  "issuer_endpoint P sdk issuer =
     io_bind (resolveAuthorizationServer P sdk issuer False None) (\<lambda>as. io_return (raTokenEndpoint as))"

section \<open>Reuse\<close>

text \<open>
  The lookups and stores around a hop; \<open>get\<close> and \<open>put\<close> reach the process's cache for it. The clock
  is read where the code reads it: when there is an entry, and when one is stored.
\<close>

definition cached_token ::
  "('w, 'j) platform \<Rightarrow> (('w, 'j, 'z) proc_scheme \<Rightarrow> token_cache) \<Rightarrow> (token_cache \<Rightarrow> ('w, 'j, 'z) proc_scheme \<Rightarrow> ('w, 'j, 'z) proc_scheme)
   \<Rightarrow> cache_key \<Rightarrow> ('w, 'j, 'z, js option) act" where
  "cached_token P get put key =
     io_bind (io_read get) (\<lambda>c.
       if om_get (tcStore c) (keyOf key) = None then io_return None
       else io_bind (world_get (dateNow P)) (\<lambda>now.
            io_bind (io_modify (put (snd (tc_get c key now)))) (\<lambda>_.
              io_return (map_option cvAccessToken (fst (tc_get c key now))))))"

definition store_token ::
  "('w, 'j) platform \<Rightarrow> (('w, 'j, 'z) proc_scheme \<Rightarrow> token_cache) \<Rightarrow> (token_cache \<Rightarrow> ('w, 'j, 'z) proc_scheme \<Rightarrow> ('w, 'j, 'z) proc_scheme)
   \<Rightarrow> cache_key \<Rightarrow> exchange_result \<Rightarrow> int \<Rightarrow> ('w, 'j, 'z, unit) act" where
  "store_token P get put key r ttlMs =
     (if ttlMs \<le> 0 then io_return ()
      else io_bind (world_get (dateNow P)) (\<lambda>now.
           io_modify (\<lambda>s. put (tc_set (get s) key
             \<lparr> cvAccessToken = xrAccessToken r, cvExpiresInSec = xrExpiresInSec r, cvScope = xrScope r \<rparr> ttlMs now) s)))"

text \<open>
  A cached hop: serve the entry, or exchange and store; either way \<open>stamp\<close> records the token as the
  process's latest of its kind.
\<close>

definition obtain_cached ::
  "('w, 'j) platform \<Rightarrow> (('w, 'j, 'z) proc_scheme \<Rightarrow> token_cache) \<Rightarrow> (token_cache \<Rightarrow> ('w, 'j, 'z) proc_scheme \<Rightarrow> ('w, 'j, 'z) proc_scheme)
   \<Rightarrow> cache_key \<Rightarrow> int \<Rightarrow> (js \<Rightarrow> ('w, 'j, 'z, unit) act) \<Rightarrow> ('w, 'j, 'z, exchange_result) act \<Rightarrow> ('w, 'j, 'z, js) act" where
  "obtain_cached P get put key ttlMs stamp minted =
     io_bind (cached_token P get put key) (\<lambda>cached.
       case cached of
         Some tok \<Rightarrow> io_bind (stamp tok) (\<lambda>_. io_return tok)
       | None \<Rightarrow>
           io_bind minted (\<lambda>r.
           io_bind (store_token P get put key r ttlMs) (\<lambda>_.
           io_bind (stamp (xrAccessToken r)) (\<lambda>_. io_return (xrAccessToken r)))))"

text \<open>\<open>secondsEnvToMs\<close> of both configurations.\<close>

definition secondsEnvToMs :: "(string \<Rightarrow> string option) \<Rightarrow> string \<Rightarrow> int \<Rightarrow> exn + int" where
  "secondsEnvToMs env k dflt = map_sum id (\<lambda>n. n * 1000) (nonNegativeInt env k dflt)"

text \<open>\<open>roles\<close> as an array or a space-delimited string: the claim as both agents read it.\<close>

definition rolesClaim :: "js \<Rightarrow> string list" where
  "rolesClaim v = (case v of JArr xs \<Rightarrow> map js_string xs | JStr s \<Rightarrow> words_ws s | _ \<Rightarrow> [])"

lemmas agent_tokens_eval [eval_simps] = getCimdIdentity_def svid_or_throw_def not_ready_def agent_params_def
  mint_def issuer_endpoint_def cached_token_def store_token_def obtain_cached_def secondsEnvToMs_def rolesClaim_def

section \<open>Facts\<close>

lemma mint_Inr:
  fixes s t :: "('w, 'j, 'z) agent_host_scheme"
  assumes "mint P readFile hint endpoint h s = (Inr r, t)"
  obtains sv :: svid and ci :: cimd_identity and ep key and u :: "('w, 'j, 'z) agent_host_scheme" where
    "exchangeToken P (agent_params h (ciKid ci) ep (svJwt sv) key) u = (Inr r, t)"
    "hpBound h \<longrightarrow> (\<exists>k. key = Some k \<and> processKey u = Some (Inr k))" "\<not> hpBound h \<longrightarrow> key = None"
proof -
  obtain sv :: svid and ci :: cimd_identity and ep key and u v :: "('w, 'j, 'z) agent_host_scheme" where
    x: "exchangeToken P (agent_params h (ciKid ci) ep (svJwt sv) key) u = (Inr r, t)"
    and k: "(if hpBound h then io_bind (processDpopKey P) (\<lambda>k. io_return (Some k)) else io_return None) v = (Inr key, u)"
    using assms unfolding mint_def by (auto simp: io_bind_Inr)
  have "hpBound h \<longrightarrow> (\<exists>k. key = Some k \<and> processKey u = Some (Inr k))"
    using k by (auto simp: io_bind_Inr processDpopKey_def io_return_def split: option.splits prod.splits)
  moreover have "\<not> hpBound h \<longrightarrow> key = None" using k by (auto simp: io_return_def)
  ultimately show thesis using that x by blast
qed

lemma obtain_cached_Inr:
  assumes "obtain_cached P get put key ttl stamp minted s = (Inr tok, t)"
  shows "(\<exists>u. cached_token P get put key s = (Inr (Some tok), u))
    \<or> (\<exists>r u v. minted u = (Inr r, v) \<and> tok = xrAccessToken r)"
proof -
  obtain c u where c: "cached_token P get put key s = (Inr c, u)"
    and r: "(case c of Some tok \<Rightarrow> io_bind (stamp tok) (\<lambda>_. io_return tok)
       | None \<Rightarrow> io_bind minted (\<lambda>r. io_bind (store_token P get put key r ttl) (\<lambda>_.
           io_bind (stamp (xrAccessToken r)) (\<lambda>_. io_return (xrAccessToken r))))) u = (Inr tok, t)"
    using assms unfolding obtain_cached_def io_bind_Inr by blast
  then show ?thesis by (cases c) (auto simp: io_bind_Inr)
qed

end
