(* ===== verification/Toolset.thy ===== *)
theory Toolset
  imports AgentFetch McpOps
begin

text \<open>
  \<^verbatim>\<open>packages/agent-runtime/src/mcp-toolset.ts\<close>: an agent's view of an MCP server as a set of tools
  for its language model. The MCP client is the SDK's, a parameter here: what it is constructed
  with and the four operations the code calls.
\<close>

section \<open>What a server lists\<close>

record listed_tool =
  ltName :: string
  ltDescription :: "string option"
  ltMeta :: "js option"

definition required_roles_key :: string where
  "required_roles_key = ''io.curity.demo/required-roles''"

text \<open>An entry of \<^verbatim>\<open>tools/list\<close>, as the SDK's schema admits it: its name is a string.\<close>

definition toListedTool :: "js \<Rightarrow> listed_tool" where
  "toListedTool t =
     \<lparr> ltName = js_string (jget t ''name''), ltDescription = as_str (jget t ''description''),
       ltMeta = (if truthy (jget t ''_meta'') then Some (jget t ''_meta'') else None) \<rparr>"

definition requiredRolesOf :: "listed_tool \<Rightarrow> string list option" where
  "requiredRolesOf t =
     (case ltMeta t of
        None \<Rightarrow> None
      | Some m \<Rightarrow> (case jget m required_roles_key of
                    JArr rs \<Rightarrow> if list_all (\<lambda>r. as_str r \<noteq> None) rs then Some (map js_string rs) else None
                  | _ \<Rightarrow> None))"

definition mcpInputSchema :: "js \<Rightarrow> js" where
  "mcpInputSchema schema =
     (if \<not> truthy schema \<or> jget schema ''type'' \<noteq> JStr ''object'' \<or> \<not> truthy (jget schema ''properties'')
      then JObj [(''type'', JStr ''object''), (''properties'', JObj [])] else schema)"

section \<open>The tools\<close>

text \<open>The client of the SDK, on the state of the process.\<close>

record 's mcp_client =
  mcConnect :: "('s, exn, unit) io"
  mcListTools :: "('s, exn, js list) io"
  mcCallTool :: "string \<Rightarrow> js \<Rightarrow> ('s, exn, js) io"
  mcClose :: "('s, exn, unit) io"

record client_opts =
  coUrl :: string
  coName :: string
  coPinnedVersion :: string
  coCachePartition :: string

record 's ai_tool =
  atDescription :: string
  atInputSchema :: js
  atExecute :: "js \<Rightarrow> ('s, exn, string) io"

record 's toolset =
  tsTools :: "(string, 's ai_tool) omap"
  tsListed :: "listed_tool list"
  tsClose :: "('s, exn, unit) io"

text \<open>\<^verbatim>\<open>/\bw\b/.test(s)\<close> for a word \<open>w\<close>; \<open>left\<close> says whether a word may begin here.\<close>

definition word_char :: "char \<Rightarrow> bool" where
  "word_char c = (c \<in> set ''ABCDEFGHIJKLMNOPQRSTUVWXYZabcdefghijklmnopqrstuvwxyz0123456789_'')"

fun has_word :: "bool \<Rightarrow> string \<Rightarrow> string \<Rightarrow> bool" where
  "has_word left w [] = False"
| "has_word left w (c # s) =
     ((left \<and> starts_with w (c # s) \<and> (case drop (length w) (c # s) of [] \<Rightarrow> True | d # _ \<Rightarrow> \<not> word_char d))
      \<or> has_word (\<not> word_char c) w s)"

definition is_denial :: "string \<Rightarrow> bool" where
  "is_denial msg = (has_word True ''403'' msg \<or> contains_ci ''forbidden'' msg \<or> contains_ci ''authorization failed'' msg)"

definition denied_text :: "string \<Rightarrow> string" where
  "denied_text tool =
     json_text (JObj [(''error'', JStr ''forbidden''), (''tool'', JStr tool),
       (''message'', JStr (''Authorization policy refused the '' @ [CHR 0x27] @ tool @ [CHR 0x27]
          @ '' call for this user (HTTP 403 at the gateway). ''
          @ ''The user is not authorized to invoke this tool.''))])"

definition content_text :: "js \<Rightarrow> exn + string" where
  "content_text result =
     (if nullish result then Inl (type_error (''Cannot read properties of '' @ js_string result))
      else (case js_or (jget result ''content'') (JArr []) of
              JArr cs \<Rightarrow> Inr (js_join [CHR 0x0A]
                (map (\<lambda>c. if jget c ''type'' = JStr ''text'' then js_or (jget c ''text'') (JStr []) else JStr (json_text c)) cs))
            | _ \<Rightarrow> Inl (type_error ''content.map is not a function'')))"

definition tool_execute :: "'s mcp_client \<Rightarrow> string \<Rightarrow> js \<Rightarrow> ('s, exn, string) io" where
  "tool_execute client name args =
     io_bind (io_try (mcCallTool client name args)) (\<lambda>r.
       case r of
         Inl e \<Rightarrow> if is_denial (error_text e) then io_return (denied_text name) else io_throw e
       | Inr result \<Rightarrow> lift_sum (content_text result))"

definition ai_tool_of :: "'s mcp_client \<Rightarrow> js \<Rightarrow> string \<times> 's ai_tool" where
  "ai_tool_of client t =
     (let name = js_string (jget t ''name'')
      in (name, \<lparr> atDescription = js_string (js_or (jget t ''description'') (JStr (''MCP tool: '' @ name))),
                  atInputSchema = mcpInputSchema (jget t ''inputSchema''),
                  atExecute = tool_execute client name \<rparr>))"

fun set_all :: "('k, 'v) omap \<Rightarrow> ('k \<times> 'v) list \<Rightarrow> ('k, 'v) omap" where
  "set_all m [] = m"
| "set_all m (p # ps) = set_all (om_set m (fst p) (snd p)) ps"

definition best_effort :: "('s, exn, unit) io \<Rightarrow> ('s, exn, unit) io" where
  "best_effort m = io_catch m (\<lambda>_. io_return ())"

text \<open>
  \<open>token\<close> is the provider's \<^verbatim>\<open>token()\<close>; \<open>inner\<close> the caller's \<^verbatim>\<open>fetchImpl\<close>, inside the DPoP wrapper;
  \<open>newClient\<close> the SDK: the client for these options on this fetch.
\<close>

type_synonym 's client_factory = "client_opts \<Rightarrow> (http_req \<Rightarrow> ('s, exn, http_rsp) io) \<Rightarrow> 's mcp_client"

definition call_event :: "string \<Rightarrow> string \<Rightarrow> string \<Rightarrow> jwt_summary \<Rightarrow> obo_event" where
  "call_event clientName label url tok =
     event clientName CALL (arrow @ '' MCP '' @ label)
       [(''url'', JStr url), (''token aud'', opt_js (jsAud tok)), (''token scope'', opt_js (jsScope tok)),
        (''token act'', opt_js (jsAct tok))]"

definition openMcpToolset ::
  "('w, 'j) platform \<Rightarrow> ('w, 'j, 'z) agent_proc_scheme client_factory
   \<Rightarrow> string \<Rightarrow> (('w, 'j, 'z) agent_proc_scheme \<Rightarrow> (exn + js) \<times> ('w, 'j, 'z) agent_proc_scheme) \<Rightarrow> string \<Rightarrow> string
   \<Rightarrow> (http_req \<Rightarrow> ('w, 'j, 'z) agent_proc_scheme \<Rightarrow> (exn + http_rsp) \<times> ('w, 'j, 'z) agent_proc_scheme)
   \<Rightarrow> ('w, 'j, 'z) agent_proc_scheme \<Rightarrow> (exn + ('w, 'j, 'z) agent_proc_scheme toolset) \<times> ('w, 'j, 'z) agent_proc_scheme" where
  "openMcpToolset P newClient url token clientName label inner =
     io_bind (require_that (parse_url url \<noteq> None) (type_error ''Invalid URL'')) (\<lambda>_.
     io_bind token (\<lambda>bearer.
     let tok = token_summary P (js_or bearer (JStr []));
         client = newClient \<lparr> coUrl = url, coName = clientName, coPinnedVersion = mcp_protocol_version,
                              coCachePartition = or_else (jsSub tok) [] \<rparr> (withProcessDpop P inner)
     in io_bind (mcConnect client) (\<lambda>_.
        io_bind (oboLog P (call_event clientName label url tok)) (\<lambda>_.
        io_bind (mcListTools client) (\<lambda>listed.
          io_return \<lparr> tsTools = set_all [] (map (ai_tool_of client) listed), tsListed = map toListedTool listed,
                      tsClose = best_effort (mcClose client) \<rparr>)))))"

lemmas toolset_eval [eval_simps] = required_roles_key_def toListedTool_def requiredRolesOf_def mcpInputSchema_def
  word_char_def is_denial_def denied_text_def content_text_def tool_execute_def ai_tool_of_def best_effort_def
  call_event_def openMcpToolset_def

section \<open>Facts\<close>

lemma best_effort_total: "\<exists>t. best_effort m s = (Inr (), t)"
  by (cases "m s"; cases "fst (m s)") (auto simp: best_effort_def io_catch_def io_return_def)

text \<open>A server that publishes the roles of its matrix is read back exactly.\<close>

lemma published_roles:
  "tool_roles cfg tool \<noteq> [] \<Longrightarrow>
   requiredRolesOf (toListedTool (JObj ((''name'', JStr tool) # requiredRolesMeta cfg tool))) = Some (tool_roles cfg tool)"
  by (simp add: requiredRolesOf_def toListedTool_def requiredRolesMeta_def required_roles_key_def list_all_iff comp_def)

lemma unpublished_roles:
  "tool_roles cfg tool = [] \<Longrightarrow>
   requiredRolesOf (toListedTool (JObj ((''name'', JStr tool) # requiredRolesMeta cfg tool))) = None"
  by (simp add: requiredRolesOf_def toListedTool_def requiredRolesMeta_def)

text \<open>A refusal at the gateway becomes a result that says so; any other failure is thrown on.\<close>

lemma tool_execute_throws:
  "tool_execute client name args s = (Inl e, t) \<Longrightarrow> mcCallTool client name args s = (Inl e, t) \<Longrightarrow> \<not> is_denial (error_text e)"
  by (auto simp: tool_execute_def io_bind_def io_try_def io_throw_def io_return_def split: if_splits)

end
