(* ===== verification/Remediation.thy ===== *)
theory Remediation
  imports Toolset
begin

text \<open>
  \<^verbatim>\<open>apps/agent-specialist/src/executor.ts\<close>: one remediation, from the inbound token to its result,
  and the A2A adapter that publishes it. As in the code, \<open>remediate\<close> is written over the operations
  it is given (\<^verbatim>\<open>RemediationDeps\<close>), here on an arbitrary state; \<open>Specialist\<close> supplies the real ones.
\<close>

section \<open>Steps and results\<close>

record remediation_step =
  rsToolCalls :: "(string \<times> js) list option"
  rsToolResults :: "(string \<times> js) list option"
  rsFinishReason :: js

datatype remediation_result =
    Done string "remediation_step list"
  | StepUp step_up_fields
  | Failed string string   \<comment> \<open>error, description\<close>

definition named :: "string \<Rightarrow> (string \<times> js) list option \<Rightarrow> js" where
  "named k ps =
     (case ps of None \<Rightarrow> JUndef | Some xs \<Rightarrow> JArr (map (\<lambda>p. JObj [(''name'', JStr (fst p)), (k, snd p)]) xs))"

definition step_js :: "remediation_step \<Rightarrow> js" where
  "step_js s = JObj [(''toolCalls'', named ''args'' (rsToolCalls s)), (''toolResults'', named ''result'' (rsToolResults s)),
                     (''finishReason'', rsFinishReason s)]"

text \<open>\<^verbatim>\<open>[...new Set(xs)]\<close>: the first occurrences, in order.\<close>

definition dedup :: "'a list \<Rightarrow> 'a list" where
  "dedup xs = rev (remdups (rev xs))"

definition result_text :: "js \<Rightarrow> string" where
  "result_text v = (case v of JStr s \<Rightarrow> s | _ \<Rightarrow> json_text v)"

definition looks_refused :: "string \<Rightarrow> bool" where
  "looks_refused text =
     list_ex (\<lambda>p. contains_ci p text) [''error'', ''forbidden'', ''denied'', ''not allowed'', ''requires'', ''unauthor'']"

definition em_dash :: string where "em_dash = [CHR 0xE2, CHR 0x80, CHR 0x94]"

definition fallbackSummary :: "remediation_step list \<Rightarrow> string" where
  "fallbackSummary steps =
     (let results = concat (map (\<lambda>s. or_else (rsToolResults s) []) steps);
          tools = dedup (map fst (concat (map (\<lambda>s. or_else (rsToolCalls s) []) steps)))
      in case find (\<lambda>r. looks_refused (result_text (snd r))) results of
           Some r \<Rightarrow> ''The requested change could not be completed. '' @ [CHR 0x60] @ fst r @ [CHR 0x60]
                     @ '' reported: '' @ take 400 (result_text (snd r))
         | None \<Rightarrow>
             if tools \<noteq> []
             then ''I inspected the deployment (called: '' @ join '', '' tools @ '') but did not complete the ''
                  @ ''requested change '' @ em_dash @ '' no authorized action was available to fulfil the goal.''
             else ''No action was taken and no summary was produced.'')"

section \<open>One remediation\<close>

text \<open>
  The operations it is given. The two provider objects and the step-up sink are local variables of
  the run: they are part of the state, \<open>rdSink\<close> and \<open>rdSetSink\<close> reach the sink. \<open>rdOpenOps\<close> gets the
  scope its intercepting fetch reports; \<open>rdRunLlm\<close> the goal, the tools, the model's token and the
  condition to stop early.
\<close>

record 's remediation_deps =
  rdDiscoverOps :: "('s, exn, mcp_discovery) io"
  rdAcquireOps :: "('s, exn, js) io"
  rdAcquireInspect :: "('s, exn, js) io"
  rdOpenInspect :: "('s, exn, 's toolset) io"
  rdOpenOps :: "string \<Rightarrow> ('s, exn, 's toolset) io"
  rdLlmToken :: "string \<Rightarrow> string \<Rightarrow> ('s, exn, js) io"   \<comment> \<open>of a subject and its acr\<close>
  rdRunLlm :: "string \<Rightarrow> (string, 's ai_tool) omap \<Rightarrow> js \<Rightarrow> ('s \<Rightarrow> bool) \<Rightarrow> ('s, exn, string \<times> remediation_step list) io"
  rdSink :: "'s \<Rightarrow> step_up_fields option"
  rdSetSink :: "step_up_fields option \<Rightarrow> 's \<Rightarrow> 's"

definition subject_of :: "verified_jwt \<Rightarrow> string" where
  "subject_of v = js_string (js_or (jget (vPayload v) ''sub'') (JStr ''unknown''))"

definition acr_of :: "verified_jwt \<Rightarrow> string" where
  "acr_of v = js_string (js_or (jget (vPayload v) ''acr'') (JStr []))"

definition stepUpFromDiscovery :: "mcp_discovery \<Rightarrow> string \<Rightarrow> step_up_fields" where
  "stepUpFromDiscovery d requiredAcr =
     \<lparr> acrValues = js_or (js_first (jget (mdResourceMetadata d) ''acr_values_supported'')) (JStr requiredAcr),
       resourceMetadata = JStr (mdResourceMetadataUrl d), suScope = JStr (mdScope d) \<rparr>"

fun failed :: "exn \<Rightarrow> remediation_result" where
  "failed (CurityAuthError m c) = Failed (code_str c) m"
| "failed e = Failed ''specialist_failure'' (exn_string e)"

text \<open>A refusal of the scope means that the user has to authenticate again.\<close>

definition refused :: "mcp_discovery \<Rightarrow> string \<Rightarrow> exn \<Rightarrow> remediation_result" where
  "refused d requiredAcr e =
     (case e of
        CurityAuthError m c \<Rightarrow>
          if code_str c = ''invalid_scope'' then StepUp (stepUpFromDiscovery d requiredAcr) else failed e
      | _ \<Rightarrow> failed e)"

text \<open>Both toolsets; when the second cannot be opened the first is closed before the failure is told.\<close>

definition open_toolsets :: "'s remediation_deps \<Rightarrow> string \<Rightarrow> ('s, exn, exn + 's toolset \<times> 's toolset) io" where
  "open_toolsets D scope =
     io_bind (io_try (io_bind (rdAcquireInspect D) (\<lambda>_. rdOpenInspect D))) (\<lambda>r.
       case r of
         Inl e \<Rightarrow> io_return (Inl e)
       | Inr readSet \<Rightarrow>
           io_bind (io_try (rdOpenOps D scope)) (\<lambda>w.
             case w of
               Inl e \<Rightarrow> io_bind (tsClose readSet) (\<lambda>_. io_return (Inl e))
             | Inr writeSet \<Rightarrow> io_return (Inr (readSet, writeSet))))"

definition run_model ::
  "'s remediation_deps \<Rightarrow> string \<Rightarrow> string \<Rightarrow> string \<Rightarrow> (string, 's ai_tool) omap \<Rightarrow> ('s, exn, remediation_result) io" where
  "run_model D sub acr goal tools =
     io_catch
       (io_bind (rdLlmToken D sub acr) (\<lambda>llmToken.
        io_bind (rdRunLlm D goal tools llmToken (\<lambda>s. rdSink D s \<noteq> None)) (\<lambda>out.
        io_bind (io_read (rdSink D)) (\<lambda>err.
          io_return (case err of Some f \<Rightarrow> StepUp f | None \<Rightarrow> Done (fst out) (snd out))))))
       (\<lambda>e. io_bind (io_read (rdSink D)) (\<lambda>err.
          io_return (case err of Some f \<Rightarrow> StepUp f | None \<Rightarrow> Failed ''specialist_failure'' (exn_string e))))"

definition with_toolsets ::
  "'s remediation_deps \<Rightarrow> string \<Rightarrow> mcp_discovery \<Rightarrow> verified_jwt \<Rightarrow> string \<Rightarrow> ('s, exn, remediation_result) io" where
  "with_toolsets D requiredAcr d v goal =
     io_bind (io_modify (rdSetSink D None)) (\<lambda>_.
     io_bind (open_toolsets D (mdScope d)) (\<lambda>r.
       case r of
         Inl e \<Rightarrow> io_return (refused d requiredAcr e)
       | Inr p \<Rightarrow>
           io_finally
             (run_model D (subject_of v) (acr_of v) goal (set_all (tsTools (fst p)) (tsTools (snd p))))
             (io_bind (tsClose (fst p)) (\<lambda>_. tsClose (snd p)))))"

definition remediate ::
  "'s remediation_deps \<Rightarrow> string \<Rightarrow> verified_jwt \<Rightarrow> string \<Rightarrow> ('s, exn, remediation_result) io" where
  "remediate D requiredAcr v goal =
     (if trim goal = [] then io_return (Failed ''bad_request'' ''empty request'')
      else io_bind (io_try (rdDiscoverOps D)) (\<lambda>r.
        case r of
          Inl e \<Rightarrow> io_return (failed e)
        | Inr d \<Rightarrow>
            io_bind (io_try (rdAcquireOps D)) (\<lambda>a.
              case a of
                Inl e \<Rightarrow> io_return (refused d requiredAcr e)
              | Inr _ \<Rightarrow>
                  if acr_of v \<noteq> requiredAcr then io_return (StepUp (stepUpFromDiscovery d requiredAcr))
                  else with_toolsets D requiredAcr d v goal)))"

text \<open>\<open>runRemediation\<close>: the same, with one DENY line for every challenge.\<close>

definition challenge_event :: "verified_jwt \<Rightarrow> string \<Rightarrow> step_up_fields \<Rightarrow> obo_event" where
  "challenge_event v goal f =
     event ''agent-specialist'' DENY (arrow @ '' mcp-ops (step-up required, RFC 9470)'')
       [(''user'', JStr (subject_of v)),
        (''acr'', JStr (js_string (js_or (jget (vPayload v) ''acr'') (JStr ''(none)'')))),
        (''acr required'', acrValues f), (''scope required'', suScope f), (''goal'', JStr goal)]"

definition runRemediation ::
  "('w, 'j) platform \<Rightarrow> ('w, 'j, 'z) proc_scheme remediation_deps \<Rightarrow> string \<Rightarrow> verified_jwt \<Rightarrow> string
   \<Rightarrow> ('w, 'j, 'z, remediation_result) act" where
  "runRemediation P D requiredAcr v goal =
     io_bind (remediate D requiredAcr v goal) (\<lambda>r.
       case r of
         StepUp f \<Rightarrow> io_bind (oboLog P (challenge_event v goal f)) (\<lambda>_. io_return r)
       | _ \<Rightarrow> io_return r)"

section \<open>The A2A adapter\<close>

datatype message_part = TextPart string | DataPart js | OtherPart

definition part_text :: "message_part \<Rightarrow> string" where
  "part_text p =
     (case p of TextPart s \<Rightarrow> s | DataPart d \<Rightarrow> if truthy d then json_text d else [] | OtherPart \<Rightarrow> [])"

definition goalFromMessage :: "message_part list \<Rightarrow> string" where
  "goalFromMessage ps = trim (join '' '' (filter (\<lambda>t. t \<noteq> []) (map part_text ps)))"

text \<open>
  What is published on the event bus: the task, a message (its id and the object its one text part
  is the indented JSON of), a status (state, final, timestamp, id and text of its message) and the
  end of the stream.
\<close>

datatype task_state = Working | Completed | FailedState

datatype bus_event =
    BusTask string string string                      \<comment> \<open>task id, context id, timestamp\<close>
  | BusMessage string string string js                \<comment> \<open>message id, task id, context id, object\<close>
  | BusStatus string string task_state bool string "(string \<times> string) option"
  | BusFinished

record request_context =
  rqTaskId :: string
  rqContextId :: string
  rqBearer :: "string option"     \<comment> \<open>\<open>bearerFromContext\<close> of its context\<close>
  rqParts :: "message_part list"

definition publishFinalMessage :: "('w, 'j) platform \<Rightarrow> request_context \<Rightarrow> js \<Rightarrow> ('w, 'j, 'z, bus_event) act" where
  "publishFinalMessage P rq obj =
     io_bind (world_get (randomUUID P)) (\<lambda>id. io_return (BusMessage id (rqTaskId rq) (rqContextId rq) obj))"

definition publishStatus ::
  "('w, 'j) platform \<Rightarrow> request_context \<Rightarrow> task_state \<Rightarrow> bool \<Rightarrow> string option \<Rightarrow> ('w, 'j, 'z, bus_event) act" where
  "publishStatus P rq st final text =
     io_bind (world_get (dateNow P)) (\<lambda>now.
       if or_else text [] = []
       then io_return (BusStatus (rqTaskId rq) (rqContextId rq) st final (isoTime P now) None)
       else io_bind (world_get (randomUUID P)) (\<lambda>id.
              io_return (BusStatus (rqTaskId rq) (rqContextId rq) st final (isoTime P now) (Some (id, or_else text [])))))"

definition publishWorkingTask :: "('w, 'j) platform \<Rightarrow> request_context \<Rightarrow> ('w, 'j, 'z, bus_event) act" where
  "publishWorkingTask P rq =
     io_bind (world_get (dateNow P)) (\<lambda>now. io_return (BusTask (rqTaskId rq) (rqContextId rq) (isoTime P now)))"

definition refuse_task :: "('w, 'j) platform \<Rightarrow> request_context \<Rightarrow> string \<Rightarrow> ('w, 'j, 'z, bus_event list) act" where
  "refuse_task P rq text =
     io_bind (publishWorkingTask P rq) (\<lambda>task.
     io_bind (publishStatus P rq FailedState True (Some text)) (\<lambda>status.
       io_return [task, status, BusFinished]))"

text \<open>The object a result is published as, and the final state that goes with it.\<close>

fun published :: "remediation_result \<Rightarrow> js \<times> task_state" where
  "published (StepUp f) = (toPayload f, FailedState)"
| "published (Failed err description) =
     (JObj [(''error'', JStr err), (''error_description'', JStr description)], FailedState)"
| "published (Done summary steps) =
     (JObj [(''ok'', JBool True), (''summary'', JStr summary), (''steps'', JArr (map step_js steps))], Completed)"

definition publish_result ::
  "('w, 'j) platform \<Rightarrow> request_context \<Rightarrow> remediation_result \<Rightarrow> ('w, 'j, 'z, bus_event list) act" where
  "publish_result P rq r =
     io_bind (publishFinalMessage P rq (fst (published r))) (\<lambda>message.
     io_bind (publishStatus P rq (snd (published r)) True None) (\<lambda>status.
       io_return [message, status, BusFinished]))"

definition received_task :: "('w, 'j) platform \<Rightarrow> string \<Rightarrow> verified_jwt \<Rightarrow> string \<Rightarrow> obo_event" where
  "received_task P bearer v goal =
     event ''agent-specialist'' RECEIVE ''A2A task (LLM remediation)''
       [(''user'', JStr (subject_of v)), (''scope'', JStr (js_join '' '' (vScopes v))),
        (''inbound act'', opt_js (jsAct (summarizeJwt P (Some bearer)))), (''goal'', JStr goal)]"

text \<open>
  \<open>execute\<close>: the result is what it published, in order. \<open>deps\<close> are built for the bearer and the
  token it was verified to be.
\<close>

definition execute ::
  "('w, 'j) platform \<Rightarrow> (string \<Rightarrow> verified_jwt \<Rightarrow> ('w, 'j, 'z) proc_scheme remediation_deps) \<Rightarrow> verify_options \<Rightarrow> string
   \<Rightarrow> request_context \<Rightarrow> ('w, 'j, 'z, bus_event list) act" where
  "execute P deps opts requiredAcr rq =
     (case rqBearer rq of
        None \<Rightarrow> refuse_task P rq ''unauthenticated''
      | Some bearer \<Rightarrow>
          if bearer = [] then refuse_task P rq ''unauthenticated''
          else io_bind (io_try (io_bind (verifyJwt P bearer opts) (\<lambda>v.
                 io_bind (decorateSpanWithIdentity v) (\<lambda>_. io_return v)))) (\<lambda>r.
            case r of
              Inl e \<Rightarrow> refuse_task P rq (case e of CurityAuthError m c \<Rightarrow> code_str c @ '': '' @ m | _ \<Rightarrow> exn_string e)
            | Inr v \<Rightarrow>
                (let goal = goalFromMessage (rqParts rq)
                 in io_bind (publishWorkingTask P rq) (\<lambda>task.
                    io_bind (oboLog P (received_task P bearer v goal)) (\<lambda>_.
                    io_bind (io_try (runRemediation P (deps bearer v) requiredAcr v goal)) (\<lambda>o'.
                      case o' of
                        Inr res \<Rightarrow> io_bind (publish_result P rq res) (\<lambda>es. io_return (task # es))
                      | Inl e \<Rightarrow>
                          io_bind (emit (ConsoleError ''[agent-specialist] remediation threw'')) (\<lambda>_.
                          io_bind (publish_result P rq (Failed ''specialist_failure'' (exn_string e))) (\<lambda>es.
                            io_return (task # es)))))))))"

lemmas remediation_eval [eval_simps] = named_def step_js_def dedup_def result_text_def looks_refused_def em_dash_def
  fallbackSummary_def subject_of_def acr_of_def stepUpFromDiscovery_def refused_def open_toolsets_def run_model_def
  with_toolsets_def remediate_def challenge_event_def runRemediation_def part_text_def goalFromMessage_def
  publishFinalMessage_def publishStatus_def publishWorkingTask_def refuse_task_def publish_result_def
  received_task_def execute_def

section \<open>What a remediation guarantees\<close>

text \<open>The phase that runs the model, as one step: what it ran, and what is made of it.\<close>

definition model_phase :: "'s remediation_deps \<Rightarrow> string \<Rightarrow> string \<Rightarrow> string \<Rightarrow> (string, 's ai_tool) omap
   \<Rightarrow> ('s, exn, string \<times> remediation_step list) io" where
  "model_phase D sub acr goal tools =
     io_bind (rdLlmToken D sub acr) (\<lambda>tok. rdRunLlm D goal tools tok (\<lambda>s. rdSink D s \<noteq> None))"

lemma run_model_outcome:
  assumes "model_phase D sub acr goal tools s = (q, u)"
  shows "run_model D sub acr goal tools s =
    (Inr (case rdSink D u of
            Some f \<Rightarrow> StepUp f
          | None \<Rightarrow> (case q of Inr m \<Rightarrow> Done (fst m) (snd m) | Inl e \<Rightarrow> Failed ''specialist_failure'' (exn_string e))), u)"
proof -
  obtain x v where x: "rdLlmToken D sub acr s = (x, v)" by fastforce
  show ?thesis
  proof (cases x)
    case (Inl e)
    then show ?thesis using assms x by (auto simp: run_model_def model_phase_def io_simps split: option.split)
  next
    case (Inr tok)
    obtain y w where y: "rdRunLlm D goal tools tok (\<lambda>s. rdSink D s \<noteq> None) v = (y, w)" by fastforce
    have e: "q = y" "u = w" using assms x Inr y by (simp_all add: model_phase_def io_bind_def)
    show ?thesis unfolding run_model_def io_catch_def io_bind_def x Inr prod.case sum.case y e
      by (cases y) (simp_all add: io_simps split: option.split)
  qed
qed

text \<open>
  C11. A recorded step-up challenge always wins: whatever the language model and its tools do, return
  or throw, the phase that runs them ends with exactly the challenge in the sink when there is one,
  and reports a challenge only then.
\<close>

theorem challenge_wins:
  assumes "run_model D sub acr goal tools s = (r, t)"
  shows "case rdSink D t of Some f \<Rightarrow> r = Inr (StepUp f) | None \<Rightarrow> \<exists>x. r = Inr x \<and> (\<forall>f. x \<noteq> StepUp f)"
proof -
  obtain q u where m: "model_phase D sub acr goal tools s = (q, u)" by fastforce
  show ?thesis using run_model_outcome [OF m] assms
    by (cases "rdSink D u") (auto split: sum.splits)
qed

definition fixture_deps :: "nat remediation_deps" where
  "fixture_deps =
     \<lparr> rdDiscoverOps = io_return \<lparr> mdServerUrl = ''https://mcp/ops'', mdResourceMetadataUrl = ''https://mcp/prm'',
         mdResourceMetadata = JObj [(''acr_values_supported'', JArr [JStr ''mfa''])], mdAuthorizationServer = ''https://as'',
         mdAsMetadata = JNull, mdTokenEndpoint = ''https://as/token'', mdScope = ''ops:write'', mdScopeSource = ''challenge'', mdDiscoveredAt = 0 \<rparr>,
       rdAcquireOps = io_return (JStr ''T''), rdAcquireInspect = io_return (JStr ''R''),
       rdOpenInspect = (\<lambda>n. (Inr \<lparr> tsTools = [], tsListed = [], tsClose = (\<lambda>n. (Inr (), n - 1)) \<rparr>, Suc n)),
       rdOpenOps = (\<lambda>_ n. (Inr \<lparr> tsTools = [], tsListed = [], tsClose = (\<lambda>n. (Inr (), n - 1)) \<rparr>, Suc n)),
       rdLlmToken = (\<lambda>_ _. io_return (JStr ''L'')), rdRunLlm = (\<lambda>_ _ _ _. io_return (''done'', [])),
       rdSink = (\<lambda>_. None), rdSetSink = (\<lambda>_ n. n) \<rparr>"

definition fixture_user :: "string \<Rightarrow> verified_jwt" where
  "fixture_user acr = fixture_verified (fixture_claims [''c''] ''agent:invoke'' acr)"

lemma fixture_user_acr: "acr_of (fixture_user ''mfa'') = ''mfa''" "acr_of (fixture_user ''pwd'') = ''pwd''"
  by (simp_all add: acr_of_def fixture_user_def fixture_verified_def fixture_claims_def verified_of_def js_or_def)

theorem challenge_wins_witness:
  "fst (run_model (fixture_deps\<lparr> rdSink := (\<lambda>_. Some \<lparr> acrValues = JStr ''mfa'', resourceMetadata = JNull, suScope = JNull \<rparr>) \<rparr>)
      ''alice'' ''mfa'' ''fix it'' [] 0)
   = Inr (StepUp \<lparr> acrValues = JStr ''mfa'', resourceMetadata = JNull, suScope = JNull \<rparr>)"
proof -
  let ?D = "fixture_deps\<lparr> rdSink := (\<lambda>_. Some \<lparr> acrValues = JStr ''mfa'', resourceMetadata = JNull, suScope = JNull \<rparr>) \<rparr>"
  obtain r t where h: "run_model ?D ''alice'' ''mfa'' ''fix it'' [] 0 = (r, t)" by fastforce
  then show ?thesis using challenge_wins [OF h] by simp
qed

lemma io_try_step: "io_bind (io_try m) f s = f (fst (m s)) (snd (m s))"
  by (simp add: io_bind_def io_try_def split: prod.splits)

text \<open>
  C10. The language model and the write tools stay out of reach without the required authentication:
  whatever the rest of the process would do, a caller whose token has another \<^verbatim>\<open>acr\<close> is never told
  that something was done, nothing beyond discovery and the acquisition of the token is run, and when
  both succeed the answer is the challenge the discovered server describes.
\<close>

theorem no_model_without_acr:
  assumes "acr_of v \<noteq> requiredAcr" "rdDiscoverOps E = rdDiscoverOps D" "rdAcquireOps E = rdAcquireOps D"
  shows "remediate E requiredAcr v goal s = remediate D requiredAcr v goal s
    \<and> (\<forall>summary steps. fst (remediate D requiredAcr v goal s) \<noteq> Inr (Done summary steps))
    \<and> (\<forall>d u tok w. trim goal \<noteq> [] \<and> rdDiscoverOps D s = (Inr d, u) \<and> rdAcquireOps D u = (Inr tok, w) \<longrightarrow>
         remediate D requiredAcr v goal s = (Inr (StepUp \<lparr>
           acrValues = js_or (js_first (jget (mdResourceMetadata d) ''acr_values_supported'')) (JStr requiredAcr),
           resourceMetadata = JStr (mdResourceMetadataUrl d), suScope = JStr (mdScope d) \<rparr>), w))"
proof -
  have never: "failed e \<noteq> Done summary steps" "refused d a e \<noteq> Done summary steps" for e d a summary steps
    by (cases e; simp add: refused_def)+
  obtain r u where d: "rdDiscoverOps D s = (r, u)" by fastforce
  obtain r' w where a: "rdAcquireOps D u = (r', w)" by fastforce
  show ?thesis using assms d a
    by (cases r; cases r') (auto simp: remediate_def io_try_step never io_return_def stepUpFromDiscovery_def)
qed

theorem no_model_without_acr_witness:
  "remediate (fixture_deps\<lparr> rdRunLlm := (\<lambda>_ _ _ _. io_throw (JsError ''Error'' ''never run'')) \<rparr>) ''mfa'' (fixture_user ''pwd'') ''fix it'' 0
   = remediate fixture_deps ''mfa'' (fixture_user ''pwd'') ''fix it'' 0"
  using no_model_without_acr [of "fixture_user ''pwd''" "''mfa''" "fixture_deps\<lparr> rdRunLlm := (\<lambda>_ _ _ _. io_throw (JsError ''Error'' ''never run'')) \<rparr>" fixture_deps]
  by (simp add: fixture_user_acr)

lemma with_toolsets_unfold:
  "with_toolsets D requiredAcr d v goal s =
     io_bind (open_toolsets D (mdScope d)) (\<lambda>r.
       case r of
         Inl e \<Rightarrow> io_return (refused d requiredAcr e)
       | Inr p \<Rightarrow> io_finally
           (run_model D (subject_of v) (acr_of v) goal (set_all (tsTools (fst p)) (tsTools (snd p))))
           (io_bind (tsClose (fst p)) (\<lambda>_. tsClose (snd p)))) (rdSetSink D None s)"
  by (simp add: with_toolsets_def io_bind_def io_modify_def)

text \<open>Opening: both sets, or a failure after which only what was opened has been closed.\<close>

lemma open_toolsets_cases:
  assumes "open_toolsets D scope s = (r, t)"
  obtains (acquire) e where "r = Inr (Inl e)" "rdAcquireInspect D s = (Inl e, t)"
    | (first) b u e where "r = Inr (Inl e)" "rdAcquireInspect D s = (Inr b, u)" "rdOpenInspect D u = (Inl e, t)"
    | (second) b u rs w e w' c where "rdAcquireInspect D s = (Inr b, u)" "rdOpenInspect D u = (Inr rs, w)"
        "rdOpenOps D scope w = (Inl e, w')" "tsClose rs w' = (c, t)" "r = map_sum id (\<lambda>_. Inl e) c"
    | (both) b u rs w ws where "rdAcquireInspect D s = (Inr b, u)" "rdOpenInspect D u = (Inr rs, w)"
        "rdOpenOps D scope w = (Inr ws, t)" "r = Inr (Inr (rs, ws))"
proof -
  obtain x u where x: "rdAcquireInspect D s = (x, u)" by fastforce
  show thesis
  proof (cases x)
    case (Inl e)
    then show thesis using assms x acquire by (auto simp: open_toolsets_def io_try_def io_bind_def io_return_def)
  next
    case (Inr b)
    obtain y w where y: "rdOpenInspect D u = (y, w)" by fastforce
    show thesis
    proof (cases y)
      case (Inl e)
      then show thesis using assms x Inr y first by (auto simp: open_toolsets_def io_try_def io_bind_def io_return_def)
    next
      case (Inr rs)
      obtain z w' where z: "rdOpenOps D scope w = (z, w')" by fastforce
      have op: "open_toolsets D scope s = (case z of Inl e \<Rightarrow> io_bind (tsClose rs) (\<lambda>_. io_return (Inl e)) w'
                | Inr ws \<Rightarrow> (Inr (Inr (rs, ws)), w'))"
        using x \<open>x = Inr b\<close> y Inr z
        by (cases z) (simp_all add: open_toolsets_def io_try_def io_bind_def io_return_def)
      show thesis
      proof (cases z)
        case (Inl e)
        obtain c w'' where c: "tsClose rs w' = (c, w'')" by fastforce
        show thesis using assms op Inl c x \<open>x = Inr b\<close> y \<open>y = Inr rs\<close> z second
          by (cases c) (auto simp: io_bind_def io_return_def)
      next
        case (Inr ws)
        then show thesis using assms op x \<open>x = Inr b\<close> y \<open>y = Inr rs\<close> z both by auto
      qed
    qed
  qed
qed

lemma remediate_reached:
  assumes "remediate D requiredAcr v goal s = (r, t)" "\<exists>summary steps. r = Inr (Done summary steps)"
  obtains d u a w where "rdDiscoverOps D s = (Inr d, u)" "rdAcquireOps D u = (Inr a, w)" "acr_of v = requiredAcr"
    "trim goal \<noteq> []" "with_toolsets D requiredAcr d v goal w = (r, t)"
proof -
  have never: "failed e \<noteq> Done summary steps" "refused d a e \<noteq> Done summary steps" for e d a summary steps
    by (cases e; simp add: refused_def)+
  obtain x u where d: "rdDiscoverOps D s = (x, u)" by fastforce
  obtain y w where a: "rdAcquireOps D u = (y, w)" by fastforce
  show thesis using assms d a never that
    by (cases x; cases y) (auto simp: remediate_def io_try_step io_return_def split: if_splits)
qed

text \<open>
  What a reported success stands for: the authorization server was discovered, the write token
  acquired under the required \<^verbatim>\<open>acr\<close>, both servers opened, the model run once on the user's goal with
  the tools of both and a token of its own, the summary and the steps are the model's, and no
  step-up challenge had been recorded when it ended.
\<close>

theorem success_is_earned:
  assumes "remediate D requiredAcr v goal s = (Inr (Done summary steps), t)"
  shows "\<exists>d s1 a s2 b s3 rs s4 ws s5 tok s6 s7.
     acr_of v = requiredAcr \<and> trim goal \<noteq> []
   \<and> rdDiscoverOps D s = (Inr d, s1) \<and> rdAcquireOps D s1 = (Inr a, s2)
   \<and> rdAcquireInspect D (rdSetSink D None s2) = (Inr b, s3) \<and> rdOpenInspect D s3 = (Inr rs, s4)
   \<and> rdOpenOps D (mdScope d) s4 = (Inr ws, s5)
   \<and> rdLlmToken D (subject_of v) (acr_of v) s5 = (Inr tok, s6)
   \<and> rdRunLlm D goal (set_all (tsTools rs) (tsTools ws)) tok (\<lambda>s. rdSink D s \<noteq> None) s6 = (Inr (summary, steps), s7)
   \<and> rdSink D s7 = None \<and> fst (io_bind (tsClose rs) (\<lambda>_. tsClose ws) s7) = Inr ()
   \<and> t = snd (io_bind (tsClose rs) (\<lambda>_. tsClose ws) s7)"
proof -
  obtain d s1 a s2 where o: "rdDiscoverOps D s = (Inr d, s1)" "rdAcquireOps D s1 = (Inr a, s2)" "acr_of v = requiredAcr"
    "trim goal \<noteq> []" and w: "with_toolsets D requiredAcr d v goal s2 = (Inr (Done summary steps), t)"
    using remediate_reached [OF assms] by blast
  have never: "refused d a e \<noteq> Done summary steps" for e d a by (cases e; simp add: refused_def)
  obtain r u where r: "open_toolsets D (mdScope d) (rdSetSink D None s2) = (r, u)" by fastforce
  from r show ?thesis
  proof (cases rule: open_toolsets_cases)
    case acquire
    then show ?thesis using w r never by (simp add: with_toolsets_unfold io_bind_def io_return_def)
  next
    case first
    then show ?thesis using w r never by (simp add: with_toolsets_unfold io_bind_def io_return_def)
  next
    case (second b x rs y e z c)
    then show ?thesis using w r never by (cases c) (simp_all add: with_toolsets_unfold io_bind_def io_return_def)
  next
    case (both b s3 rs s4 ws)
    let ?tools = "set_all (tsTools rs) (tsTools ws)"
    obtain q s7 where m: "model_phase D (subject_of v) (acr_of v) goal ?tools u = (q, s7)" by fastforce
    have f: "io_finally (run_model D (subject_of v) (acr_of v) goal ?tools) (io_bind (tsClose rs) (\<lambda>_. tsClose ws)) u
        = (Inr (Done summary steps), t)"
      using w r both by (simp add: with_toolsets_unfold io_bind_def)
    obtain c y where c: "io_bind (tsClose rs) (\<lambda>_. tsClose ws) s7 = (c, y)" by fastforce
    have e: "c = Inr ()" "y = t" "rdSink D s7 = None" "q = Inr (summary, steps)"
      using f c run_model_outcome [OF m]
      by (cases c; cases q; auto simp: io_finally_def split: option.splits)+
    obtain tok s6 where "rdLlmToken D (subject_of v) (acr_of v) u = (Inr tok, s6)"
      "rdRunLlm D goal ?tools tok (\<lambda>s. rdSink D s \<noteq> None) s6 = (Inr (summary, steps), s7)"
      using m unfolding e(4) model_phase_def io_bind_Inr by blast
    then show ?thesis using o both c e by fastforce
  qed
qed

theorem success_is_earned_witness:
  "\<exists>d s1. rdDiscoverOps fixture_deps 0 = (Inr d, s1) \<and> fst (remediate fixture_deps ''mfa'' (fixture_user ''mfa'') ''fix it'' 0) = Inr (Done ''done'' [])"
proof -
  have r: "fst (remediate fixture_deps ''mfa'' (fixture_user ''mfa'') ''fix it'' 0) = Inr (Done ''done'' [])"
    using fixture_user_acr by (simp add: remediate_def with_toolsets_def open_toolsets_def run_model_def fixture_deps_def
        io_simps io_try_def trim_def trim_start_def is_ws_def)
  then obtain t where "remediate fixture_deps ''mfa'' (fixture_user ''mfa'') ''fix it'' 0 = (Inr (Done ''done'' []), t)"
    by (metis prod.collapse)
  from success_is_earned [OF this] r show ?thesis by blast
qed

section \<open>Resources\<close>

text \<open>
  With \<open>c\<close> counting the open connections: operations that leave them alone, and those that open one. An opening
  that fails leaves no connection, unless it failed with one of \<open>L\<close>, which leave one that nobody can close.
\<close>

definition keeps :: "('s \<Rightarrow> nat) \<Rightarrow> ('s, exn, 'a) io \<Rightarrow> bool" where
  "keeps c m = (\<forall>s. c (snd (m s)) = c s)"

definition opens :: "('s \<Rightarrow> nat) \<Rightarrow> (exn \<Rightarrow> bool) \<Rightarrow> ('s, exn, 's toolset) io \<Rightarrow> bool" where
  "opens c L m = (\<forall>s r t. m s = (r, t) \<longrightarrow>
     (case r of
        Inl e \<Rightarrow> c t = c s \<or> L e \<and> c t = Suc (c s)
      | Inr ts \<Rightarrow> c t = Suc (c s) \<and> (\<forall>u. fst (tsClose ts u) = Inr () \<and> c (snd (tsClose ts u)) = c u - 1)))"

lemma keepsD: "keeps c m \<Longrightarrow> m s = (r, t) \<Longrightarrow> c t = c s"
  unfolding keeps_def by (metis snd_conv)

lemma opens_Inl: "opens c L m \<Longrightarrow> m s = (Inl e, t) \<Longrightarrow> c t = c s \<or> L e \<and> c t = Suc (c s)"
  unfolding opens_def by fastforce

lemma opens_Inr:
  assumes "opens c L m" "m s = (Inr ts, t)"
  shows "c t = Suc (c s) \<and> (\<exists>v. tsClose ts u = (Inr (), v) \<and> c v = c u - 1)"
proof -
  have "c t = Suc (c s) \<and> fst (tsClose ts u) = Inr () \<and> c (snd (tsClose ts u)) = c u - 1"
    using assms unfolding opens_def by fastforce
  then show ?thesis by (cases "tsClose ts u") simp
qed

lemma keeps_bind: "keeps c m \<Longrightarrow> (\<And>a. keeps c (f a)) \<Longrightarrow> keeps c (io_bind m f)"
  by (auto simp: keeps_def io_bind_def split: prod.splits sum.splits) (metis snd_conv)+

text \<open>The code's toolset: connecting opens, and so does a listing that fails after it.\<close>

definition counts_connections :: "('s \<Rightarrow> nat) \<Rightarrow> 's client_factory \<Rightarrow> bool" where
  "counts_connections c newClient =
     (\<forall>opts f s. c (snd (mcConnect (newClient opts f) s)) = (case fst (mcConnect (newClient opts f) s) of Inl _ \<Rightarrow> c s | Inr _ \<Rightarrow> Suc (c s))
        \<and> c (snd (mcListTools (newClient opts f) s)) = c s
        \<and> c (snd (mcClose (newClient opts f) s)) = c s - 1)"

definition listing_fails :: "'s client_factory \<Rightarrow> exn \<Rightarrow> bool" where
  "listing_fails newClient e = (\<exists>opts f s t. mcListTools (newClient opts f) s = (Inl e, t))"

lemma openMcpToolset_opens:
  fixes c :: "('w, 'j, 'z) agent_proc_scheme \<Rightarrow> nat"
  assumes "counts_connections c newClient" "keeps c token" "\<And>ev. keeps c (oboLog P ev)"
  shows "opens c (listing_fails newClient) (openMcpToolset P newClient url token clientName label inner)"
  unfolding opens_def
proof (intro allI impI)
  fix s r t assume h: "openMcpToolset P newClient url token clientName label inner s = (r, t)"
  let ?shape = "case r of
        Inl e \<Rightarrow> c t = c s \<or> listing_fails newClient e \<and> c t = Suc (c s)
      | Inr ts \<Rightarrow> c t = Suc (c s) \<and> (\<forall>u. fst (tsClose ts u) = Inr () \<and> c (snd (tsClose ts u)) = c u - 1)"
  obtain b s1 where b: "token s = (b, s1)" by fastforce
  note c1 = keepsD [OF assms(2) b]
  show ?shape
  proof (cases "parse_url url = None \<or> (\<exists>e. b = Inl e)")
    case True
    then show ?thesis using h b c1 by (auto simp: openMcpToolset_def io_bind_def require_that_def io_return_def io_throw_def split: if_splits)
  next
    case False
    then obtain bearer where url: "parse_url url \<noteq> None" "b = Inr bearer" by (cases b) auto
    define tok where "tok = token_summary P (js_or bearer (JStr []))"
    define client where "client = newClient \<lparr> coUrl = url, coName = clientName, coPinnedVersion = mcp_protocol_version,
                              coCachePartition = or_else (jsSub tok) [] \<rparr> (withProcessDpop P inner)"
    obtain x s2 where x: "mcConnect client s1 = (x, s2)" by fastforce
    have c2: "c s2 = (case x of Inl _ \<Rightarrow> c s1 | Inr _ \<Rightarrow> Suc (c s1))"
      using assms(1) x unfolding counts_connections_def client_def by (metis fst_conv snd_conv)
    have rest: "io_bind (mcConnect client) (\<lambda>_.
        io_bind (oboLog P (call_event clientName label url tok)) (\<lambda>_.
        io_bind (mcListTools client) (\<lambda>listed.
          io_return \<lparr> tsTools = set_all [] (map (ai_tool_of client) listed), tsListed = map toListedTool listed,
                      tsClose = best_effort (mcClose client) \<rparr>))) s1 = (r, t)"
      using h b url by (simp add: openMcpToolset_def Let_def tok_def client_def io_bind_def require_that_def io_return_def)
    show ?thesis
    proof (cases x)
      case (Inl e)
      then show ?thesis using rest x c1 c2 by (auto simp: io_bind_def)
    next
      case (Inr u)
      obtain s3 where l: "oboLog P (call_event clientName label url tok) s2 = (Inr (), s3)" using oboLog_Inr by blast
      obtain y s4 where y: "mcListTools client s3 = (y, s4)" by fastforce
      have c4: "c s4 = c s3" using assms(1) y unfolding counts_connections_def client_def by (metis snd_conv)
      have c5: "c s4 = Suc (c s)" using c1 c2 c4 keepsD [OF assms(3) l] Inr by simp
      show ?thesis
      proof (cases y)
        case (Inl e)
        then have "listing_fails newClient e" using y unfolding listing_fails_def client_def by blast
        then show ?thesis using rest x \<open>x = Inr u\<close> l y Inl c5 by (auto simp: io_bind_def)
      next
        case (Inr listed)
        have cl: "c (snd (mcClose client w)) = c w - 1" for w
          using assms(1) unfolding counts_connections_def client_def by blast
        have "fst (best_effort (mcClose client) w) = Inr () \<and> c (snd (best_effort (mcClose client) w)) = c w - 1" for w
          using cl [of w] by (cases "mcClose client w"; cases "fst (mcClose client w)") (auto simp: best_effort_def io_catch_def io_return_def)
        then show ?thesis using rest x \<open>x = Inr u\<close> l y Inr c5 by (auto simp: io_bind_def io_return_def)
      qed
    qed
  qed
qed

text \<open>A remediation closes what it opened, but for a connection whose opening failed and left it.\<close>

lemma remediate_balance:
  fixes c :: "'s \<Rightarrow> nat"
  assumes "keeps c (rdDiscoverOps D)" "keeps c (rdAcquireOps D)" "keeps c (rdAcquireInspect D)"
    and "\<And>sub acr. keeps c (rdLlmToken D sub acr)" "\<And>g tools tok stop. keeps c (rdRunLlm D g tools tok stop)"
    and "\<And>f s. c (rdSetSink D f s) = c s"
    and "opens c L (rdOpenInspect D)" "\<And>scope. opens c L (rdOpenOps D scope)"
    and "remediate D requiredAcr v goal s = (q, z)"
  shows "c z = c s \<or> c z = Suc (c s) \<and> (\<exists>e d. L e \<and> q = Inr (refused d requiredAcr e))"
proof -
  have model: "c (snd (run_model D sub acr g tools u)) = c u" for sub acr g tools u
  proof -
    obtain q w where m: "model_phase D sub acr g tools u = (q, w)" by fastforce
    have "keeps c (model_phase D sub acr g tools)"
      unfolding model_phase_def by (rule keeps_bind [OF assms(4) assms(5)])
    from keepsD [OF this m] show ?thesis using run_model_outcome [OF m] by simp
  qed
  have sets: "c z = c u \<or> c z = Suc (c u) \<and> (\<exists>e. L e \<and> q = Inr (refused d requiredAcr e))"
    if q: "with_toolsets D requiredAcr d v goal u = (q, z)" for d u
  proof -
    obtain r t where r: "open_toolsets D (mdScope d) (rdSetSink D None u) = (r, t)" by fastforce
    from r show ?thesis
    proof (cases rule: open_toolsets_cases)
      case acquire
      then show ?thesis using q r assms(6) keepsD [OF assms(3)] by (simp add: with_toolsets_unfold io_bind_def io_return_def)
    next
      case (first b x e)
      have "q = Inr (refused d requiredAcr e)" "z = t" using q r first by (simp_all add: with_toolsets_unfold io_bind_def io_return_def)
      then show ?thesis using assms(6) keepsD [OF assms(3) first(2)] opens_Inl [OF assms(7) first(3)] by auto
    next
      case (second b x rs y e y' k)
      obtain w where w: "tsClose rs y' = (Inr (), w)" "c w = c y' - 1" using opens_Inr [OF assms(7) second(2)] by blast
      then have "q = Inr (refused d requiredAcr e)" "z = w" using q r second by (simp_all add: with_toolsets_unfold io_bind_def io_return_def)
      then show ?thesis
        using assms(6) w keepsD [OF assms(3) second(1)] opens_Inr [OF assms(7) second(2)] opens_Inl [OF assms(8) second(3)] by auto
    next
      case (both b x rs y ws)
      let ?m = "run_model D (subject_of v) (acr_of v) goal (set_all (tsTools rs) (tsTools ws))"
      obtain k w where m: "?m t = (k, w)" by fastforce
      obtain w1 where w1: "tsClose rs w = (Inr (), w1)" "c w1 = c w - 1" using opens_Inr [OF assms(7) both(2)] by blast
      obtain w2 where w2: "tsClose ws w1 = (Inr (), w2)" "c w2 = c w1 - 1" using opens_Inr [OF assms(8) both(3)] by blast
      have "c w = Suc (Suc (c u))"
        using model [of "subject_of v" "acr_of v" goal "set_all (tsTools rs) (tsTools ws)" t] m assms(6)
          keepsD [OF assms(3) both(1)] opens_Inr [OF assms(7) both(2)] opens_Inr [OF assms(8) both(3)] by simp
      moreover have "z = w2" using q r both m w1 w2 by (simp add: with_toolsets_unfold io_bind_def io_finally_def)
      ultimately show ?thesis using w1 w2 by simp
    qed
  qed
  obtain x u where d: "rdDiscoverOps D s = (x, u)" by fastforce
  obtain y w where a: "rdAcquireOps D u = (y, w)" by fastforce
  have k: "c u = c s" "c w = c s" using keepsD [OF assms(1) d] keepsD [OF assms(2) a] by simp_all
  show ?thesis
  proof (cases "\<exists>dd tok. x = Inr dd \<and> y = Inr tok \<and> trim goal \<noteq> [] \<and> acr_of v = requiredAcr")
    case True
    then obtain dd tok where t: "x = Inr dd" "y = Inr tok" "trim goal \<noteq> []" "acr_of v = requiredAcr" by blast
    have "with_toolsets D requiredAcr dd v goal w = (q, z)" using assms(9) d a t by (simp add: remediate_def io_try_step)
    from sets [OF this] k show ?thesis by auto
  next
    case False
    then show ?thesis using assms(9) d a k
      by (cases x; cases y) (auto simp: remediate_def io_try_step io_return_def split: if_splits)
  qed
qed

section \<open>What the caller is told\<close>

definition task_shape :: "request_context \<Rightarrow> bus_event list \<Rightarrow> bool \<Rightarrow> bool" where
  "task_shape rq es ok =
     (\<exists>at pre at' msg. es = BusTask (rqTaskId rq) (rqContextId rq) at # pre
          @ [BusStatus (rqTaskId rq) (rqContextId rq) (if ok then Completed else FailedState) True at' msg, BusFinished]
        \<and> (pre = [] \<or> (\<exists>id obj. pre = [BusMessage id (rqTaskId rq) (rqContextId rq) obj])))"

lemma publishWorkingTask_Inr:
  "\<exists>at u. publishWorkingTask P rq s = (Inr (BusTask (rqTaskId rq) (rqContextId rq) at), u)"
  by (simp add: publishWorkingTask_def io_simps split: prod.splits)

lemma publishStatus_Inr:
  "\<exists>at msg u. publishStatus P rq st final text s = (Inr (BusStatus (rqTaskId rq) (rqContextId rq) st final at msg), u)"
  by (auto simp: publishStatus_def io_simps split: prod.splits)

lemma refuse_task_shape: "\<exists>es t. refuse_task P rq text s = (Inr es, t) \<and> task_shape rq es False"
proof -
  obtain at u where a: "publishWorkingTask P rq s = (Inr (BusTask (rqTaskId rq) (rqContextId rq) at), u)"
    using publishWorkingTask_Inr by blast
  obtain at' msg w where b: "publishStatus P rq FailedState True (Some text) u
      = (Inr (BusStatus (rqTaskId rq) (rqContextId rq) FailedState True at' msg), w)"
    using publishStatus_Inr by blast
  show ?thesis by (simp add: refuse_task_def io_bind_def a b io_return_def task_shape_def)
qed

lemma publish_result_shape:
  "\<exists>es t. publish_result P rq r s = (Inr es, t)
     \<and> task_shape rq (BusTask (rqTaskId rq) (rqContextId rq) at # es) (\<exists>summary steps. r = Done summary steps)"
proof -
  obtain id w where a: "publishFinalMessage P rq (fst (published r)) s
      = (Inr (BusMessage id (rqTaskId rq) (rqContextId rq) (fst (published r))), w)"
    by (cases "randomUUID P (world s)") (simp add: publishFinalMessage_def io_bind_def world_get_def io_return_def)
  obtain at' msg x where b: "publishStatus P rq (snd (published r)) True None w
      = (Inr (BusStatus (rqTaskId rq) (rqContextId rq) (snd (published r)) True at' msg), x)"
    using publishStatus_Inr by blast
  show ?thesis
    by (cases r) (use a b in \<open>simp_all add: publish_result_def io_bind_def io_return_def task_shape_def\<close>)
qed

text \<open>What is run for a bearer that verifies, up to the result.\<close>

definition task_run ::
  "('w, 'j) platform \<Rightarrow> (string \<Rightarrow> verified_jwt \<Rightarrow> ('w, 'j, 'z) proc_scheme remediation_deps) \<Rightarrow> verify_options \<Rightarrow> string
   \<Rightarrow> request_context \<Rightarrow> string \<Rightarrow> ('w, 'j, 'z, remediation_result) act" where
  "task_run P deps opts requiredAcr rq bearer =
     io_bind (verifyJwt P bearer opts) (\<lambda>v.
     io_bind (decorateSpanWithIdentity v) (\<lambda>_.
     io_bind (publishWorkingTask P rq) (\<lambda>_.
     io_bind (oboLog P (received_task P bearer v (goalFromMessage (rqParts rq)))) (\<lambda>_.
       runRemediation P (deps bearer v) requiredAcr v (goalFromMessage (rqParts rq))))))"

lemma execute_shape:
  assumes "rqBearer rq = Some bearer" "bearer \<noteq> []"
  shows "\<exists>es t. execute P deps opts requiredAcr rq s = (Inr es, t)
     \<and> task_shape rq es (\<exists>summary steps. fst (task_run P deps opts requiredAcr rq bearer s) = Inr (Done summary steps))"
proof -
  obtain x u where v: "verifyJwt P bearer opts s = (x, u)" by fastforce
  show ?thesis
  proof (cases x)
    case (Inl e)
    then show ?thesis
      using v refuse_task_shape [of P rq "case e of CurityAuthError m c \<Rightarrow> code_str c @ '': '' @ m | _ \<Rightarrow> exn_string e" u] assms
      by (simp add: execute_def task_run_def io_bind_def io_try_def)
  next
    case (Inr vj)
    obtain u1 where d: "decorateSpanWithIdentity vj u = (Inr (), u1)" using decorate_total by blast
    obtain at u2 where w: "publishWorkingTask P rq u1 = (Inr (BusTask (rqTaskId rq) (rqContextId rq) at), u2)"
      using publishWorkingTask_Inr by blast
    let ?goal = "goalFromMessage (rqParts rq)"
    obtain u3 where l: "oboLog P (received_task P bearer vj ?goal) u2 = (Inr (), u3)" using oboLog_Inr by blast
    obtain y u4 where r: "runRemediation P (deps bearer vj) requiredAcr vj ?goal u3 = (y, u4)" by fastforce
    have run: "task_run P deps opts requiredAcr rq bearer s = (y, u4)"
      by (simp add: task_run_def io_bind_def v Inr d w l r)
    have exec: "execute P deps opts requiredAcr rq s =
       (case y of
          Inr res \<Rightarrow> io_bind (publish_result P rq res) (\<lambda>es. io_return (BusTask (rqTaskId rq) (rqContextId rq) at # es)) u4
        | Inl e \<Rightarrow> io_bind (emit (ConsoleError ''[agent-specialist] remediation threw'')) (\<lambda>_.
             io_bind (publish_result P rq (Failed ''specialist_failure'' (exn_string e))) (\<lambda>es.
               io_return (BusTask (rqTaskId rq) (rqContextId rq) at # es))) u4)"
      using assms by (cases y) (simp_all add: execute_def io_bind_def io_try_def io_return_def v Inr d w l r Let_def)
    show ?thesis
    proof (cases y)
      case (Inl e)
      obtain u5 where c: "emit (ConsoleError ''[agent-specialist] remediation threw'') u4 = (Inr (), u5)"
        by (simp add: emit_def)
      then show ?thesis using exec run Inl
          publish_result_shape [of P rq "Failed ''specialist_failure'' (exn_string e)" u5 at]
        by (auto simp: io_bind_def io_return_def)
    next
      case (Inr res)
      then show ?thesis using exec run publish_result_shape [of P rq res u4 at]
        by (auto simp: io_bind_def io_return_def)
    qed
  qed
qed

text \<open>
  C35. A task never hangs and its outcome is told once: whatever the dependencies do, throwing
  included, the executor returns after publishing one task, at most one message, exactly one final
  status and the end of the stream, and the status is \<^verbatim>\<open>completed\<close> exactly when the remediation of a
  verified caller ended in success.
\<close>

theorem executor_always_finishes:
  "\<exists>es t at pre st at' msg. execute P deps opts requiredAcr rq s = (Inr es, t)
     \<and> es = BusTask (rqTaskId rq) (rqContextId rq) at # pre
            @ [BusStatus (rqTaskId rq) (rqContextId rq) st True at' msg, BusFinished]
     \<and> (pre = [] \<or> (\<exists>id obj. pre = [BusMessage id (rqTaskId rq) (rqContextId rq) obj]))
     \<and> st \<in> {Completed, FailedState}
     \<and> (st = Completed \<longleftrightarrow> (\<exists>bearer summary steps. rqBearer rq = Some bearer \<and> bearer \<noteq> []
            \<and> fst (task_run P deps opts requiredAcr rq bearer s) = Inr (Done summary steps)))"
proof -
  have "\<exists>es t. execute P deps opts requiredAcr rq s = (Inr es, t)
     \<and> task_shape rq es (\<exists>bearer summary steps. rqBearer rq = Some bearer \<and> bearer \<noteq> []
            \<and> fst (task_run P deps opts requiredAcr rq bearer s) = Inr (Done summary steps))"
  proof (cases "or_else (rqBearer rq) [] = []")
    case True
    then have "execute P deps opts requiredAcr rq s = refuse_task P rq ''unauthenticated'' s"
      and no: "(\<exists>bearer summary steps. rqBearer rq = Some bearer \<and> bearer \<noteq> []
            \<and> fst (task_run P deps opts requiredAcr rq bearer s) = Inr (Done summary steps)) = False"
      by (auto simp: execute_def or_else_def split: option.splits)
    then show ?thesis unfolding no using refuse_task_shape [of P rq "''unauthenticated''" s] by simp
  next
    case False
    then obtain bearer where b: "rqBearer rq = Some bearer" "bearer \<noteq> []"
      by (auto simp: or_else_def split: option.splits)
    then show ?thesis using execute_shape [OF b, of P deps opts requiredAcr s] by auto
  qed
  then obtain es t ok where e: "execute P deps opts requiredAcr rq s = (Inr es, t)"
    and k: "ok = (\<exists>bearer summary steps. rqBearer rq = Some bearer \<and> bearer \<noteq> []
            \<and> fst (task_run P deps opts requiredAcr rq bearer s) = Inr (Done summary steps))"
    and h: "task_shape rq es ok" by blast
  from h obtain at pre at' msg where "es = BusTask (rqTaskId rq) (rqContextId rq) at # pre
      @ [BusStatus (rqTaskId rq) (rqContextId rq) (if ok then Completed else FailedState) True at' msg, BusFinished]"
    "pre = [] \<or> (\<exists>id obj. pre = [BusMessage id (rqTaskId rq) (rqContextId rq) obj])"
    unfolding task_shape_def by blast
  then show ?thesis using e
    by (rule_tac x = es in exI, rule_tac x = t in exI, rule_tac x = at in exI, rule_tac x = pre in exI,
        rule_tac x = "if ok then Completed else FailedState" in exI, rule_tac x = at' in exI, rule_tac x = msg in exI)
       (use k in \<open>cases ok; simp\<close>)
qed

end
