(* ===== verification/McpInspect.thy ===== *)
theory McpInspect
  imports McpOps
begin

text \<open>
  \<^verbatim>\<open>apps/mcp-inspect/src\<close>: the MCP server of the read path. Its middleware asks for an actor
  (checked against a pattern, a predicate of the configuration) and the scopes; its three tools
  exchange the caller's token for one of the read API and fetch from it.
\<close>

section \<open>Configuration and middleware\<close>

record mcp_inspect_config =
  miIssuer :: string
  miJwksUri :: string
  miAudience :: string
  miRequiredScopes :: "string list"
  miResourceMetadataUrl :: string
  miActorPattern :: "string \<Rightarrow> bool"
  miTokenEndpoint :: string
  miClientId :: string
  miClientSecret :: string
  miInspectApiBaseUrl :: string
  miInspectApiAudience :: string
  miInspectApiScope :: string
  miTargetNamespace :: string

text \<open>\<open>compile\<close> is \<^verbatim>\<open>new RegExp\<close> on a configured pattern; the default pattern is one actor.\<close>

definition loadMcpInspectConfig :: "(string \<Rightarrow> string \<Rightarrow> bool) \<Rightarrow> (string \<Rightarrow> string option) \<Rightarrow> exn + mcp_inspect_config" where
  "loadMcpInspectConfig compile env =
     sum_bind (required_env env ''CURITY_ISSUER'') (\<lambda>iss.
     sum_bind (required_env env ''CURITY_JWKS_URI'') (\<lambda>jwks.
     sum_bind (required_env env ''CURITY_TOKEN_ENDPOINT'') (\<lambda>ep.
     sum_bind (required_env env ''CURITY_CLIENT_SECRET'') (\<lambda>secret.
     sum_bind (required_env env ''INSPECT_API_URL'') (\<lambda>base.
       Inr \<lparr> miIssuer = iss, miJwksUri = jwks,
             miAudience = or_else (env ''EXPECTED_AUDIENCE'') ''mcp-inspect'',
             miRequiredScopes = words_ws (or_else (env ''REQUIRED_SCOPES'') ''inspect:read''),
             miResourceMetadataUrl = or_else (env ''RESOURCE_METADATA_URL'')
               ''https://mcp-gateway.localtest.me/.well-known/oauth-protected-resource/inspect/mcp'',
             miActorPattern = (case env ''ACTOR_PATTERN'' of None \<Rightarrow> SPIFFE_ID ''mcp'' ''agentgateway'' | Some p \<Rightarrow> compile p),
             miTokenEndpoint = ep, miClientId = or_else (env ''CURITY_CLIENT_ID'') ''mcp-inspect'',
             miClientSecret = secret, miInspectApiBaseUrl = base,
             miInspectApiAudience = or_else (env ''INSPECT_API_AUDIENCE'') ''inspect-api'',
             miInspectApiScope = or_else (env ''INSPECT_API_SCOPE'') ''inspect:read'',
             miTargetNamespace = or_else (env ''TARGET_NAMESPACE'') ''prod'' \<rparr>)))))"

definition mcp_inspect_opts :: "mcp_inspect_config \<Rightarrow> verify_options" where
  "mcp_inspect_opts cfg = \<lparr> voIssuer = miIssuer cfg, voAudience = miAudience cfg,
     voJwksUri = Some (miJwksUri cfg), voAlgorithms = None, voTolerance = None \<rparr>"

definition missing_actor :: "mcp_inspect_config \<Rightarrow> http_res" where
  "missing_actor cfg =
     answer 401 [(''www-authenticate'', bearerChallenge [(''realm'', Some (miAudience cfg)), (''error'', Some ''invalid_token''),
          (''error_description'', Some ''missing act.sub (OBO required)''), (''resource_metadata'', Some (miResourceMetadataUrl cfg))])]
       [(''error'', JStr ''invalid_token''), (''error_description'', JStr ''missing act.sub (OBO required)'')]"

definition actor_refused :: "string \<Rightarrow> http_res" where
  "actor_refused sub = answer 403 (denied_header ''actor not allowed'')
     [(''error'', JStr ''access_denied''), (''error_description'', JStr (''actor '' @ sub @ '' not allowed''))]"

definition mcp_inspect_decide :: "mcp_inspect_config \<Rightarrow> verified_jwt \<Rightarrow> http_res option" where
  "mcp_inspect_decide cfg v =
     (let actSub = jget (jget (vPayload v) ''act'') ''sub'';
          missing = missing_scopes (miRequiredScopes cfg) v
      in if \<not> truthy actSub then Some (missing_actor cfg)
         else if \<not> miActorPattern cfg (js_string actSub) then Some (actor_refused (js_string actSub))
         else if missing \<noteq> [] then Some (insufficient_scope_md missing (miResourceMetadataUrl cfg))
         else None)"

definition mcp_inspect_auth_info :: "string \<Rightarrow> verified_jwt \<Rightarrow> auth_info" where
  "mcp_inspect_auth_info token v =
     (let p = vPayload v
      in \<lparr> aiToken = token,
           aiClientId = js_string (js_or (js_or (jget p ''client_id'') (jget (jget p ''act'') ''sub'')) (JStr ''unknown'')),
           aiScopes = vScopes v,
           aiSub = js_string (js_or (jget p ''sub'') (JStr ''unknown'')), aiRoles = [] \<rparr>)"

text \<open>Unlike the other gates this one decorates the span only when the request passes.\<close>

definition mcp_inspect_verified ::
  "mcp_inspect_config \<Rightarrow> string \<Rightarrow> verified_jwt \<Rightarrow> ('w, 'j, 'z, auth_info gate) act" where
  "mcp_inspect_verified cfg token v =
     (case mcp_inspect_decide cfg v of
        Some res \<Rightarrow> io_return (Respond res)
      | None \<Rightarrow> io_bind (decorateSpanWithIdentity v) (\<lambda>_. io_return (Next (mcp_inspect_auth_info token v))))"

definition mcp_inspect_auth ::
  "mcp_inspect_config \<Rightarrow> ('w, 'j) platform \<Rightarrow> string option \<Rightarrow> ('w, 'j, 'z, auth_info gate) act" where
  "mcp_inspect_auth cfg P =
     bearer_middleware P
       (challenged_missing (miAudience cfg) (miRequiredScopes cfg) (miResourceMetadataUrl cfg))
       (mcp_inspect_opts cfg) (mcp_inspect_verified cfg)
       (challenged_auth_error (miAudience cfg) (miResourceMetadataUrl cfg)) ''[auth-middleware] unexpected error''"

definition mcp_inspect_grants :: "mcp_inspect_config \<Rightarrow> verified_jwt \<Rightarrow> bool" where
  "mcp_inspect_grants cfg v =
     (truthy (jget (jget (vPayload v) ''act'') ''sub'')
      \<and> miActorPattern cfg (js_string (jget (jget (vPayload v) ''act'') ''sub''))
      \<and> (\<forall>s \<in> set (miRequiredScopes cfg). has_scope v s))"

section \<open>The read API as a client\<close>

definition obtainInspectApiToken ::
  "mcp_inspect_config \<Rightarrow> ('w, 'j) platform \<Rightarrow> 'w file_reader \<Rightarrow> string
   \<Rightarrow> ('w, 'j, 'z) mcp_proc_scheme \<Rightarrow> (exn + js) \<times> ('w, 'j, 'z) mcp_proc_scheme" where
  "obtainInspectApiToken cfg P readFile subject =
     obtain_token P readFile
       (\<lambda>svid. hop_params (miTokenEndpoint cfg) (miClientId cfg) (miClientSecret cfg) subject svid
                 (miInspectApiAudience cfg) (miInspectApiScope cfg)) subject"

text \<open>\<^verbatim>\<open>encodeURIComponent\<close>\<close>

definition uri_char :: "char \<Rightarrow> string" where
  "uri_char c =
     (if c \<in> set ''ABCDEFGHIJKLMNOPQRSTUVWXYZabcdefghijklmnopqrstuvwxyz0123456789-_.!~*()'' \<or> c = CHR 0x27 then [c]
      else (let n = (of_char c :: nat) in [CHR ''%'', upper_hex (n div 16), upper_hex (n mod 16)]))"

definition encodeURIComponent :: "string \<Rightarrow> string" where
  "encodeURIComponent s = concat (map uri_char s)"

text \<open>\<open>text_of\<close> is \<^verbatim>\<open>response.text()\<close> of a failed answer, \<open>None\<close> when it rejects.\<close>

definition getJson :: "('w, 'j) platform \<Rightarrow> (http_rsp \<Rightarrow> string option) \<Rightarrow> string \<Rightarrow> js \<Rightarrow> ('w, 'j, 'z, js) act" where
  "getJson P text_of url bearer =
     io_bind (http_fetch P \<lparr> qMethod = ''GET'', qUrl = url,
        qHeaders = [(''authorization'', ''Bearer '' @ js_string bearer), (''accept'', ''application/json'')], qBody = [] \<rparr>) (\<lambda>rsp.
       if rsp_ok rsp then lift_sum (pJson rsp)
       else (let detail = or_else (text_of rsp) []
             in io_throw (JsError ''Error'' (''inspect-api responded '' @ int_str (pStatus rsp)
                   @ (if detail = [] then [] else '': '' @ detail)))))"

datatype read_call =
    ListPods string              \<comment> \<open>namespace\<close>
  | GetPodLogs string string int \<comment> \<open>pod, namespace, lines\<close>
  | GetDeployment string string  \<comment> \<open>name, namespace\<close>

definition read_url :: "string \<Rightarrow> read_call \<Rightarrow> string" where
  "read_url base call =
     (case call of
        ListPods ns \<Rightarrow> base @ ''/pods?namespace='' @ encodeURIComponent ns
      | GetPodLogs pod ns n \<Rightarrow> base @ ''/pods/'' @ encodeURIComponent pod @ ''/logs''
          @ ''?namespace='' @ encodeURIComponent ns @ ''&tailLines='' @ int_str n
      | GetDeployment name ns \<Rightarrow> base @ ''/deployments/'' @ encodeURIComponent name @ ''?namespace='' @ encodeURIComponent ns)"

definition read_event :: "('w, 'j) platform \<Rightarrow> string \<Rightarrow> js \<Rightarrow> read_call \<Rightarrow> obo_event" where
  "read_event P url bearer call =
     (let act = (''token act'', opt_js (jsAct (token_summary P bearer)))
      in case call of
           ListPods ns \<Rightarrow> event ''mcp-inspect'' CALL (arrow @ '' inspect-api GET /pods'') [(''url'', JStr url), (''namespace'', JStr ns), act]
         | GetPodLogs pod ns n \<Rightarrow> event ''mcp-inspect'' CALL (arrow @ '' inspect-api GET /pods/:name/logs'')
             [(''pod'', JStr pod), (''namespace'', JStr ns), (''tailLines'', JNum n), act]
         | GetDeployment name ns \<Rightarrow> event ''mcp-inspect'' CALL (arrow @ '' inspect-api GET /deployments/:name'')
             [(''url'', JStr url), (''deployment'', JStr name), (''namespace'', JStr ns), act])"

definition callInspectApi ::
  "mcp_inspect_config \<Rightarrow> ('w, 'j) platform \<Rightarrow> (http_rsp \<Rightarrow> string option) \<Rightarrow> js \<Rightarrow> read_call \<Rightarrow> ('w, 'j, 'z, js) act" where
  "callInspectApi cfg P text_of bearer call =
     (let url = read_url (miInspectApiBaseUrl cfg) call
      in io_bind (oboLog P (read_event P url bearer call)) (\<lambda>_. getJson P text_of url bearer))"

section \<open>The tools\<close>

datatype read_tool =
    ToolListPods "string option"
  | ToolGetPodLogs string "string option" "int option"
  | ToolGetDeployment string "string option"

fun resolve_call :: "string \<Rightarrow> read_tool \<Rightarrow> read_call" where
  "resolve_call d (ToolListPods ns) = ListPods (or_else ns d)"
| "resolve_call d (ToolGetPodLogs pod ns n) = GetPodLogs pod (or_else ns d) (or_else n 50)"
| "resolve_call d (ToolGetDeployment name ns) = GetDeployment name (or_else ns d)"

fun read_tool_name :: "read_call \<Rightarrow> string" where
  "read_tool_name (ListPods _) = ''list_pods''"
| "read_tool_name (GetPodLogs _ _ _) = ''get_pod_logs''"
| "read_tool_name (GetDeployment _ _) = ''get_deployment''"

fun read_failure :: "read_call \<Rightarrow> string" where
  "read_failure (ListPods _) = ''list_failed''"
| "read_failure (GetPodLogs _ _ _) = ''logs_failed''"
| "read_failure (GetDeployment _ _) = ''get_deployment_failed''"

fun read_fields :: "read_call \<Rightarrow> (string \<times> js) list" where
  "read_fields (ListPods ns) = [(''namespace'', JStr ns)]"
| "read_fields (GetPodLogs pod ns n) = [(''pod'', JStr pod), (''namespace'', JStr ns), (''tail_lines'', JNum n)]"
| "read_fields (GetDeployment name ns) = [(''deployment'', JStr name), (''namespace'', JStr ns)]"

definition run_read_tool ::
  "mcp_inspect_config \<Rightarrow> ('w, 'j) platform \<Rightarrow> 'w file_reader \<Rightarrow> (http_rsp \<Rightarrow> string option) \<Rightarrow> auth_info \<Rightarrow> read_tool
   \<Rightarrow> ('w, 'j, 'z) mcp_proc_scheme \<Rightarrow> (exn + tool_result) \<times> ('w, 'j, 'z) mcp_proc_scheme" where
  "run_read_tool cfg P readFile text_of ctx tool =
     (let call = resolve_call (miTargetNamespace cfg) tool
      in io_bind (oboLog P (event ''mcp-inspect'' RECEIVE (''MCP tool '' @ read_tool_name call)
            ([(''user'', JStr (aiSub ctx)), (''act'', opt_js (jsAct (summarizeJwt P (Some (aiToken ctx)))))] @ read_fields call))) (\<lambda>_.
          io_catch
            (io_bind (obtainInspectApiToken cfg P readFile (aiToken ctx)) (\<lambda>bearer.
             io_bind (callInspectApi cfg P text_of bearer call) (\<lambda>result.
               io_return \<lparr> trValue = result, trIsError = False \<rparr>)))
            (\<lambda>e. io_return (tool_error (read_failure call) (failure_message e)))))"

section \<open>Metadata and the last exchange, for both MCP servers\<close>

definition buildResourceMetadata :: "string \<Rightarrow> string \<Rightarrow> string list \<Rightarrow> string list option \<Rightarrow> js" where
  "buildResourceMetadata resource asUrl scopes acrs =
     JObj ([(''resource'', JStr resource), (''authorization_servers'', JArr [JStr asUrl]),
            (''scopes_supported'', JArr (map JStr scopes)), (''bearer_methods_supported'', JArr [JStr ''header''])]
           @ (case acrs of None \<Rightarrow> [] | Some a \<Rightarrow> [(''acr_values_supported'', JArr (map JStr a))]))"

definition decodePart :: "('w, 'j) platform \<Rightarrow> string \<Rightarrow> nat \<Rightarrow> js" where
  "decodePart P token idx =
     (let parts = split_on CHR ''.'' token
      in if length parts \<le> idx \<or> parts ! idx = [] then JNull
         else (case jsonSegment P (parts ! idx) of None \<Rightarrow> JNull | Some v \<Rightarrow> v))"

definition chain_hop :: "('w, 'j) platform \<Rightarrow> bool \<Rightarrow> string \<Rightarrow> string \<Rightarrow> js" where
  "chain_hop P includeRaw name token =
     JObj ([(''hop'', JStr name), (''header'', decodePart P token 0), (''payload'', decodePart P token 1)]
           @ (if includeRaw then [(''token'', JStr token)] else []))"

text \<open>\<open>buildChain\<close> of \<^verbatim>\<open>mcp-inspect\<close> and \<^verbatim>\<open>mcp-ops\<close>: \<open>self\<close> and \<open>api\<close> name the legs.\<close>

definition buildChain :: "('w, 'j) platform \<Rightarrow> string \<Rightarrow> string \<Rightarrow> last_exchange option \<Rightarrow> bool \<Rightarrow> js list" where
  "buildChain P self api le includeRaw =
     (case le of
        None \<Rightarrow> []
      | Some l \<Rightarrow>
          [chain_hop P includeRaw (''agentgateway '' @ arrow @ '' '' @ self) (leSubjectToken l),
           chain_hop P includeRaw (self @ '' '' @ arrow @ '' '' @ api) (js_string (leAccessToken l))])"

definition last_token_auth :: "verify_options \<Rightarrow> string \<Rightarrow> ('w, 'j) platform \<Rightarrow> string option \<Rightarrow> ('w, 'j, 'z, unit gate) act" where
  "last_token_auth opts tag P =
     bearer_middleware P (answer 401 [] [(''error'', JStr ''invalid_token'')]) opts (\<lambda>_ _. io_return (Next ()))
       (\<lambda>m c. answer 401 [] [(''error'', JStr (code_str c)), (''error_description'', JStr m)]) (tag @ '' verify error'')"

definition last_token_handler ::
  "('w, 'j) platform \<Rightarrow> string \<Rightarrow> string \<Rightarrow> js \<Rightarrow> ('w, 'j, 'z) mcp_proc_scheme \<Rightarrow> (exn + http_res) \<times> ('w, 'j, 'z) mcp_proc_scheme" where
  "last_token_handler P self api query s =
     (Inr \<lparr> rStatus = 200, rHeaders = [], rBody =
        JObj [(''chain'', JArr (buildChain P self api (lastExchange s) (jget query ''raw'' = JStr ''1'')))] \<rparr>, s)"

section \<open>The middlewares meet their policies\<close>

lemma mcp_inspect_decide_None: "mcp_inspect_decide cfg v = None \<longleftrightarrow> mcp_inspect_grants cfg v"
  by (auto simp: mcp_inspect_decide_def mcp_inspect_grants_def missing_scopes_empty Let_def)

lemma mcp_inspect_decide_status: "mcp_inspect_decide cfg v = Some res \<Longrightarrow> rStatus res \<in> {401, 403}"
  by (auto simp: mcp_inspect_decide_def Let_def insufficient_scope_md_def missing_actor_def actor_refused_def
      answer_def split: if_splits)

interpretation mcp_inspect_gate: bearer_gate "mcp_inspect_auth cfg" "mcp_inspect_opts cfg" "mcp_inspect_grants cfg"
  for cfg :: mcp_inspect_config
  unfolding mcp_inspect_auth_def
proof (rule bearer_gate_frame)
  fix token v and s :: "('a, 'b, 'c) proc_scheme"
  obtain u where u: "decorateSpanWithIdentity v s = (Inr (), u)" using decorate_total by blast
  show "mcp_inspect_grants cfg v \<Longrightarrow> \<exists>n u. mcp_inspect_verified cfg token v s = (Inr (Next n), u)"
    using mcp_inspect_decide_None [of cfg v] u by (simp add: mcp_inspect_verified_def io_bind_def io_return_def)
  show "\<not> mcp_inspect_grants cfg v \<Longrightarrow>
      \<exists>res u. mcp_inspect_verified cfg token v s = (Inr (Respond res), u) \<and> rStatus res \<in> {401, 403}"
    using mcp_inspect_decide_None [of cfg v] mcp_inspect_decide_status [of cfg v]
    by (auto simp: mcp_inspect_verified_def io_return_def split: option.splits)
qed (simp_all add: challenged_missing_def challenged_auth_error_def answer_def)

interpretation last_token_gate: bearer_gate "last_token_auth opts tag" opts "\<lambda>v. True"
  for opts :: verify_options and tag :: string
  unfolding last_token_auth_def
  by (rule bearer_gate_frame) (simp_all add: answer_def io_return_def)

section \<open>What the server guarantees\<close>

text \<open>
  The MCP server of the read path admits a request exactly when its token verifies, its most
  recent actor is one the configured pattern accepts, and it carries the required scopes; the
  rest of the chain is left to the read API.
\<close>

theorem mcp_inspect_admits:
  "(\<exists>ctx u. mcp_inspect_auth cfg P h s = (Inr (Next ctx), u)) \<longleftrightarrow>
   (\<exists>tok v t. bearer_of h = Some tok \<and> verifyJwt P tok (mcp_inspect_opts cfg) s = (Inr v, t)
      \<and> truthy (jget (jget (vPayload v) ''act'') ''sub'')
      \<and> miActorPattern cfg (js_string (jget (jget (vPayload v) ''act'') ''sub''))
      \<and> (\<forall>sc \<in> set (miRequiredScopes cfg). has_scope v sc))"
  using mcp_inspect_gate.next_iff [of cfg P h s] by (simp add: mcp_inspect_grants_def)

definition fixture_mcp_inspect_config :: mcp_inspect_config where
  "fixture_mcp_inspect_config =
     \<lparr> miIssuer = ''https://as'', miJwksUri = ''https://as/jwks'', miAudience = ''mcp-inspect'',
       miRequiredScopes = [''inspect:read''], miResourceMetadataUrl = ''https://md'',
       miActorPattern = SPIFFE_ID ''mcp'' ''agentgateway'', miTokenEndpoint = ''https://as/token'',
       miClientId = ''mcp-inspect'', miClientSecret = ''s'', miInspectApiBaseUrl = ''http://inspect'',
       miInspectApiAudience = ''inspect-api'', miInspectApiScope = ''inspect:read'', miTargetNamespace = ''prod'' \<rparr>"

definition fixture_mcp_inspect_claims :: js where
  "fixture_mcp_inspect_claims = fixture_claims [spiffe_id ''mcp'' ''agentgateway''] ''inspect:read'' ''password''"

lemma fixture_mcp_inspect_grants:
  "mcp_inspect_grants fixture_mcp_inspect_config (fixture_verified fixture_mcp_inspect_claims)"
proof -
  have "jget (jget fixture_mcp_inspect_claims ''act'') ''sub'' = JStr (spiffe_id ''mcp'' ''agentgateway'')"
    by (simp add: fixture_mcp_inspect_claims_def fixture_claims_def)
  moreover have "has_scope (fixture_verified fixture_mcp_inspect_claims) ''inspect:read''"
    unfolding fixture_mcp_inspect_claims_def by (rule fixture_has_scope) simp_all
  ultimately show ?thesis
    by (simp add: mcp_inspect_grants_def fixture_mcp_inspect_config_def fixture_claims_facts(4) SPIFFE_ID_def)
       (simp add: spiffe_id_def)
qed

theorem mcp_inspect_admits_witness:
  "\<exists>ctx u. mcp_inspect_auth fixture_mcp_inspect_config (fixture_gate fixture_mcp_inspect_claims) (Some ''Bearer tok'') (idle 0)
     = (Inr (Next ctx), u)"
proof -
  obtain t where "verifyJwt (fixture_gate fixture_mcp_inspect_claims) ''tok'' (mcp_inspect_opts fixture_mcp_inspect_config) (idle 0)
      = (Inr (fixture_verified fixture_mcp_inspect_claims), t)"
    using fixture_verifies [of "mcp_inspect_opts fixture_mcp_inspect_config"]
    by (auto simp: mcp_inspect_opts_def fixture_mcp_inspect_config_def)
  then show ?thesis
    using mcp_inspect_admits [of fixture_mcp_inspect_config "fixture_gate fixture_mcp_inspect_claims" "Some ''Bearer tok''" "idle 0"]
      fixture_mcp_inspect_grants fixture_bearer unfolding mcp_inspect_grants_def by blast
qed

end
