(* ===== verification/Specialist.thy ===== *)
theory Specialist
  imports AgentTokens Remediation McpInspect
begin

text \<open>
  \<^verbatim>\<open>apps/agent-specialist/src\<close>: the configuration, the tokens of its three hops, its two MCP identities,
  the dependencies its executor runs with, and the two routes that show what it can do and did
  (\<^verbatim>\<open>/tools\<close>, \<^verbatim>\<open>/last-token\<close>). \<^verbatim>\<open>buildLlm\<close> of \<^verbatim>\<open>agent-runtime/src/llm.ts\<close> is here too.
\<close>

section \<open>Configuration\<close>

record specialist_config =
  spIssuer :: string
  spJwksUri :: string
  spAudience :: string
  spClientId :: string
  spPrivateKeyPem :: string
  spMcpOpsUrl :: string
  spDiscoveryTtlMs :: int
  spExchangeCacheTtlMs :: int
  spMcpOpsAudience :: string
  spPublicBaseUrl :: string
  spLlmGatewayUrl :: string
  spLlmGatewayAudience :: string
  spLlmGatewayScope :: string
  spMcpInspectUrl :: string
  spMcpInspectAudience :: string
  spRequiredAcr :: string

definition loadSpecialistConfig :: "(string \<Rightarrow> string option) \<Rightarrow> exn + specialist_config" where
  "loadSpecialistConfig env =
     sum_bind (required_env env ''CURITY_ISSUER'') (\<lambda>iss.
     sum_bind (required_env env ''CURITY_JWKS_URI'') (\<lambda>jwks.
     sum_bind (required_env env ''CURITY_AGENT_PRIVATE_KEY_PEM'') (\<lambda>pem.
     sum_bind (required_env env ''MCP_OPS_URL'') (\<lambda>ops.
     sum_bind (secondsEnvToMs env ''MCP_DISCOVERY_TTL_SECONDS'' 600) (\<lambda>dttl.
     sum_bind (secondsEnvToMs env ''TOKEN_EXCHANGE_CACHE_TTL_SECONDS'' 60) (\<lambda>xttl.
     sum_bind (required_env env ''MCP_INSPECT_URL'') (\<lambda>inspect.
       Inr \<lparr> spIssuer = iss, spJwksUri = jwks,
             spAudience = or_else (env ''EXPECTED_AUDIENCE'') ''agent-specialist'',
             spClientId = or_else (env ''CURITY_CLIENT_ID'') ''https://specialist.localtest.me/.well-known/oauth-client'',
             spPrivateKeyPem = pem, spMcpOpsUrl = ops, spDiscoveryTtlMs = dttl, spExchangeCacheTtlMs = xttl,
             spMcpOpsAudience = or_else (env ''MCP_OPS_AUDIENCE'') ''mcp-ops'',
             spPublicBaseUrl = or_else (env ''PUBLIC_BASE_URL'') ''https://specialist.localtest.me'',
             spLlmGatewayUrl = or_else (env ''LLM_GATEWAY_URL'') ''http://agentgateway.mcp.svc.cluster.local:8080/llm'',
             spLlmGatewayAudience = or_else (env ''LLM_GATEWAY_AUDIENCE'') ''llm-gateway'',
             spLlmGatewayScope = or_else (env ''LLM_GATEWAY_SCOPE'') ''llm:invoke'',
             spMcpInspectUrl = inspect,
             spMcpInspectAudience = or_else (env ''MCP_INSPECT_AUDIENCE'') ''mcp-inspect'',
             spRequiredAcr = or_else (env ''REQUIRED_ACR'') ''mfa'' \<rparr>)))))))"

definition specialist_opts :: "specialist_config \<Rightarrow> verify_options" where
  "specialist_opts cfg = \<lparr> voIssuer = spIssuer cfg, voAudience = spAudience cfg,
     voJwksUri = Some (spJwksUri cfg), voAlgorithms = None, voTolerance = None \<rparr>"

section \<open>State\<close>

text \<open>
  The module-level variables: the last exchange of each hop (with the subject for the write hop) and
  the cache of model tokens. A run adds the variables local to it: the two provider objects and the
  step-up sink.
\<close>

record ('w, 'j) specialist = "('w, 'j) agent_host" +
  spLastOps :: "(string \<times> js \<times> int) option"
  spLastInspect :: "(js \<times> int) option"
  spLastLlm :: "(js \<times> int) option"
  spLlmCache :: token_cache

record ('w, 'j) specialist_run = "('w, 'j) specialist" +
  runOps :: provider
  runInspect :: provider
  runSink :: "step_up_fields option"

section \<open>The tokens of the hops\<close>

definition specialist_hop :: "specialist_config \<Rightarrow> string \<Rightarrow> string \<Rightarrow> string \<Rightarrow> bool \<Rightarrow> hop" where
  "specialist_hop cfg subject aud scope bound =
     \<lparr> hpClientId = spClientId cfg, hpPrivateKeyPem = spPrivateKeyPem cfg, hpSubjectToken = subject,
       hpAudience = aud, hpScope = scope, hpBound = bound \<rparr>"

text \<open>\<open>recordLast\<close> is \<^verbatim>\<open>recordLastExchange !== false\<close>.\<close>

definition obtainOpsToken ::
  "specialist_config \<Rightarrow> ('w, 'j) platform \<Rightarrow> 'w file_reader \<Rightarrow> string \<Rightarrow> string \<Rightarrow> bool \<Rightarrow> string \<Rightarrow> string
   \<Rightarrow> ('w, 'j, 'z) specialist_scheme \<Rightarrow> (exn + js) \<times> ('w, 'j, 'z) specialist_scheme" where
  "obtainOpsToken cfg P readFile subject sub recordLast endpoint scope =
     io_bind (mint P readFile not_ready (io_return endpoint) (specialist_hop cfg subject (spMcpOpsAudience cfg) scope True)) (\<lambda>r.
       if recordLast
       then io_bind (world_get (dateNow P)) (\<lambda>now.
            io_bind (io_modify (\<lambda>s. s\<lparr> spLastOps := Some (sub, xrAccessToken r, now) \<rparr>)) (\<lambda>_. io_return (xrAccessToken r)))
       else io_return (xrAccessToken r))"

definition obtainInspectToken ::
  "specialist_config \<Rightarrow> ('w, 'j) platform \<Rightarrow> 'w file_reader \<Rightarrow> string \<Rightarrow> string \<Rightarrow> string
   \<Rightarrow> ('w, 'j, 'z) specialist_scheme \<Rightarrow> (exn + js) \<times> ('w, 'j, 'z) specialist_scheme" where
  "obtainInspectToken cfg P readFile subject endpoint scope =
     io_bind (mint P readFile [] (io_return endpoint) (specialist_hop cfg subject (spMcpInspectAudience cfg) scope True)) (\<lambda>r.
     io_bind (world_get (dateNow P)) (\<lambda>now.
     io_bind (io_modify (\<lambda>s. s\<lparr> spLastInspect := Some (xrAccessToken r, now) \<rparr>)) (\<lambda>_. io_return (xrAccessToken r))))"

definition llm_key :: "specialist_config \<Rightarrow> string \<Rightarrow> string \<Rightarrow> cache_key" where
  "llm_key cfg sub acr = \<lparr> ckSub = sub, ckScope = spLlmGatewayScope cfg, ckAudience = spLlmGatewayAudience cfg, ckAcr = acr \<rparr>"

definition stamp_llm ::
  "('w, 'j) platform \<Rightarrow> js \<Rightarrow> ('w, 'j, 'z) specialist_scheme \<Rightarrow> (exn + unit) \<times> ('w, 'j, 'z) specialist_scheme" where
  "stamp_llm P tok = io_bind (world_get (dateNow P)) (\<lambda>now. io_modify (\<lambda>s. s\<lparr> spLastLlm := Some (tok, now) \<rparr>))"

definition obtainLlmToken ::
  "specialist_config \<Rightarrow> ('w, 'j) platform \<Rightarrow> 'w mcp_sdk \<Rightarrow> 'w file_reader \<Rightarrow> string \<Rightarrow> string \<Rightarrow> string
   \<Rightarrow> ('w, 'j, 'z) specialist_scheme \<Rightarrow> (exn + js) \<times> ('w, 'j, 'z) specialist_scheme" where
  "obtainLlmToken cfg P sdk readFile subject sub acr =
     obtain_cached P spLlmCache (\<lambda>c s. s\<lparr> spLlmCache := c \<rparr>) (llm_key cfg sub acr) (spExchangeCacheTtlMs cfg) (stamp_llm P)
       (mint P readFile not_ready (issuer_endpoint P sdk (spIssuer cfg))
          (specialist_hop cfg subject (spLlmGatewayAudience cfg) (spLlmGatewayScope cfg) False))"

section \<open>The two MCP identities\<close>

definition ops_provider_config :: "specialist_config \<Rightarrow> provider_config" where
  "ops_provider_config cfg = \<lparr> pcServerUrl = spMcpOpsUrl cfg, pcService = ''agent-specialist'',
     pcAllowed = Some [spIssuer cfg], pcDiscoveryTtlMs = Some (spDiscoveryTtlMs cfg) \<rparr>"

definition inspect_provider_config :: "specialist_config \<Rightarrow> provider_config" where
  "inspect_provider_config cfg = \<lparr> pcServerUrl = spMcpInspectUrl cfg, pcService = ''agent-specialist'',
     pcAllowed = Some [spIssuer cfg], pcDiscoveryTtlMs = Some (spDiscoveryTtlMs cfg) \<rparr>"

text \<open>A provider method on the provider the run holds: its variables are written back, also on a throw.\<close>

definition on_provider ::
  "('s \<Rightarrow> provider) \<Rightarrow> (provider \<Rightarrow> 's \<Rightarrow> 's) \<Rightarrow> (provider \<Rightarrow> ('s, exn, (exn + 'a) \<times> provider) io) \<Rightarrow> ('s, exn, 'a) io" where
  "on_provider get put m =
     io_bind (io_read get) (\<lambda>pv.
     io_bind (m pv) (\<lambda>r.
     io_bind (io_modify (put (snd r))) (\<lambda>_. lift_sum (fst r))))"

definition ops_discover ::
  "specialist_config \<Rightarrow> ('w, 'j) platform \<Rightarrow> 'w mcp_sdk
   \<Rightarrow> ('w, 'j, 'z) specialist_run_scheme \<Rightarrow> (exn + mcp_discovery) \<times> ('w, 'j, 'z) specialist_run_scheme" where
  "ops_discover cfg P sdk =
     on_provider runOps (\<lambda>pv s. s\<lparr> runOps := pv \<rparr>) (provider_discover P sdk (ops_provider_config cfg) False None)"

definition ops_acquire ::
  "specialist_config \<Rightarrow> ('w, 'j) platform \<Rightarrow> 'w mcp_sdk \<Rightarrow> 'w file_reader \<Rightarrow> string \<Rightarrow> string \<Rightarrow> bool
   \<Rightarrow> ('w, 'j, 'z) specialist_run_scheme \<Rightarrow> (exn + js) \<times> ('w, 'j, 'z) specialist_run_scheme" where
  "ops_acquire cfg P sdk readFile subject sub recordLast =
     on_provider runOps (\<lambda>pv s. s\<lparr> runOps := pv \<rparr>) (provider_acquire P sdk (ops_provider_config cfg)
       (\<lambda>ei. obtainOpsToken cfg P readFile subject sub recordLast (eiTokenEndpoint ei) (eiScope ei)) False None)"

definition inspect_acquire ::
  "specialist_config \<Rightarrow> ('w, 'j) platform \<Rightarrow> 'w mcp_sdk \<Rightarrow> 'w file_reader \<Rightarrow> string
   \<Rightarrow> ('w, 'j, 'z) specialist_run_scheme \<Rightarrow> (exn + js) \<times> ('w, 'j, 'z) specialist_run_scheme" where
  "inspect_acquire cfg P sdk readFile subject =
     on_provider runInspect (\<lambda>pv s. s\<lparr> runInspect := pv \<rparr>) (provider_acquire P sdk (inspect_provider_config cfg)
       (\<lambda>ei. obtainInspectToken cfg P readFile subject (eiTokenEndpoint ei) (eiScope ei)) False None)"

text \<open>\<^verbatim>\<open>token()\<close> of a provider, as \<open>openMcpToolset\<close> reads it.\<close>

definition provider_token :: "('s \<Rightarrow> provider) \<Rightarrow> ('s, exn, js) io" where
  "provider_token get = io_read (\<lambda>s. or_else (pvToken (get s)) JUndef)"

section \<open>The language model\<close>

record llm_model =
  lmBaseUrl :: string
  lmApiKey :: js
  lmModel :: string

definition buildLlm :: "string \<Rightarrow> js \<Rightarrow> exn + llm_model" where
  "buildLlm gatewayUrl accessToken =
     (if gatewayUrl = [] then Inl (JsError ''Error'' ''LLM_GATEWAY_URL is required'')
      else if \<not> truthy accessToken
        then Inl (JsError ''Error'' ''buildLlm requires a per-request accessToken (aud=llm-gateway)'')
      else Inr \<lparr> lmBaseUrl = gatewayUrl, lmApiKey = accessToken, lmModel = ''model-pinned-at-gateway'' \<rparr>)"

text \<open>
  \<open>generate\<close> is \<^verbatim>\<open>generateText\<close> of the AI SDK with this agent's system prompt, run for at most eight
  steps or until the condition holds: the text it ends with and the steps it took.
\<close>

type_synonym 's generator =
  "llm_model \<Rightarrow> string \<Rightarrow> (string, 's ai_tool) omap \<Rightarrow> ('s \<Rightarrow> bool) \<Rightarrow> ('s, exn, string option \<times> remediation_step list) io"

definition runLlm ::
  "specialist_config \<Rightarrow> 's generator \<Rightarrow> string \<Rightarrow> (string, 's ai_tool) omap \<Rightarrow> js \<Rightarrow> ('s \<Rightarrow> bool)
   \<Rightarrow> ('s, exn, string \<times> remediation_step list) io" where
  "runLlm cfg generate goal tools accessToken stopEarly =
     io_bind (lift_sum (buildLlm (spLlmGatewayUrl cfg) accessToken)) (\<lambda>llm.
     io_bind (generate llm goal tools stopEarly) (\<lambda>result.
       io_return (if trim (or_else (fst result) []) \<noteq> [] then or_else (fst result) [] else fallbackSummary (snd result), snd result)))"

section \<open>The dependencies of a remediation\<close>

definition specialist_deps ::
  "specialist_config \<Rightarrow> ('w, 'j) platform \<Rightarrow> 'w mcp_sdk \<Rightarrow> 'w file_reader \<Rightarrow> ('w, 'j, 'z) specialist_run_scheme client_factory
   \<Rightarrow> ('w, 'j, 'z) specialist_run_scheme generator \<Rightarrow> string \<Rightarrow> verified_jwt \<Rightarrow> ('w, 'j, 'z) specialist_run_scheme remediation_deps" where
  "specialist_deps cfg P sdk readFile newClient generate bearer v =
     \<lparr> rdDiscoverOps = ops_discover cfg P sdk,
       rdAcquireOps = ops_acquire cfg P sdk readFile bearer (subject_of v) True,
       rdAcquireInspect = inspect_acquire cfg P sdk readFile bearer,
       rdOpenInspect = openMcpToolset P newClient (spMcpInspectUrl cfg) (provider_token runInspect) ''agent-specialist'' ''mcp-inspect'' (http_fetch P),
       rdOpenOps = (\<lambda>scope. openMcpToolset P newClient (spMcpOpsUrl cfg) (provider_token runOps) ''agent-specialist'' ''mcp-ops''
          (intercepting_fetch (http_fetch P) runSink (\<lambda>f s. s\<lparr> runSink := Some f \<rparr>) scope)),
       rdLlmToken = obtainLlmToken cfg P sdk readFile bearer,
       rdRunLlm = runLlm cfg generate,
       rdSink = runSink, rdSetSink = (\<lambda>f s. s\<lparr> runSink := f \<rparr>) \<rparr>"

text \<open>A run starts with fresh providers, built by the code when the remediation starts.\<close>

definition fresh_run :: "('w, 'j, 'z) specialist_run_scheme \<Rightarrow> ('w, 'j, 'z) specialist_run_scheme" where
  "fresh_run s = s\<lparr> runOps := new_provider, runInspect := new_provider, runSink := None \<rparr>"

lemmas specialist_eval [eval_simps] = loadSpecialistConfig_def specialist_opts_def specialist_hop_def obtainOpsToken_def
  obtainInspectToken_def llm_key_def stamp_llm_def obtainLlmToken_def ops_provider_config_def inspect_provider_config_def
  on_provider_def ops_discover_def ops_acquire_def inspect_acquire_def provider_token_def buildLlm_def runLlm_def
  specialist_deps_def fresh_run_def

section \<open>What it can do: the tools route\<close>

record tool_info =
  tiName :: string
  tiDescription :: "string option"
  tiRequiredRoles :: "string list option"
  tiCallable :: "bool option"

definition tool_info_of :: "string list \<Rightarrow> listed_tool \<Rightarrow> tool_info" where
  "tool_info_of callerRoles t =
     \<lparr> tiName = ltName t, tiDescription = ltDescription t, tiRequiredRoles = requiredRolesOf t,
       tiCallable = map_option (list_ex (\<lambda>r. r \<in> set callerRoles)) (requiredRolesOf t) \<rparr>"

definition toolInfos :: "listed_tool list \<Rightarrow> string list \<Rightarrow> tool_info list" where
  "toolInfos listed callerRoles = map (tool_info_of callerRoles) listed"

datatype ops_tools =
    ToolsOk "tool_info list"
  | ToolsStepUp js string        \<comment> \<open>acr values, scope\<close>
  | ToolsDenied string string
  | ToolsError string string

record caller_claims =
  ccSub :: string
  ccAcr :: "string option"
  ccRoles :: "string list"

text \<open>The operations of the provider built without recording, and the opening of the write server.\<close>

record 's tools_deps =
  tdDiscover :: "('s, exn, mcp_discovery) io"
  tdAcquire :: "('s, exn, js) io"
  tdOpen :: "('s, exn, 's toolset) io"

definition tools_failure :: "string \<Rightarrow> exn \<Rightarrow> ops_tools" where
  "tools_failure fallback e =
     (case e of CurityAuthError m c \<Rightarrow> ToolsError (code_str c) m | _ \<Rightarrow> ToolsError fallback (exn_string e))"

definition listOpsTools :: "'s tools_deps \<Rightarrow> string \<Rightarrow> caller_claims \<Rightarrow> ('s, exn, ops_tools) io" where
  "listOpsTools D requiredAcr claims =
     io_bind (io_try (tdDiscover D)) (\<lambda>r.
       case r of
         Inl e \<Rightarrow> io_return (tools_failure ''discovery_failed'' e)
       | Inr d \<Rightarrow>
           if or_else (ccAcr claims) [] \<noteq> requiredAcr
           then io_return (ToolsStepUp (acrValues (stepUpFromDiscovery d requiredAcr)) (mdScope d))
           else io_bind (io_try (tdAcquire D)) (\<lambda>a.
             case a of
               Inl e \<Rightarrow> io_return (case e of CurityAuthError m c \<Rightarrow> ToolsDenied (code_str c) m
                                           | _ \<Rightarrow> ToolsError ''exchange_failed'' (exn_string e))
             | Inr _ \<Rightarrow>
                 io_bind (io_try (tdOpen D)) (\<lambda>t.
                   case t of
                     Inl e \<Rightarrow> io_return (ToolsError ''mcp_unavailable'' (exn_string e))
                   | Inr ts \<Rightarrow> io_bind (tsClose ts) (\<lambda>_. io_return (ToolsOk (toolInfos (tsListed ts) (ccRoles claims)))))))"

definition specialist_tools_deps ::
  "specialist_config \<Rightarrow> ('w, 'j) platform \<Rightarrow> 'w mcp_sdk \<Rightarrow> 'w file_reader \<Rightarrow> ('w, 'j, 'z) specialist_run_scheme client_factory
   \<Rightarrow> string \<Rightarrow> string \<Rightarrow> ('w, 'j, 'z) specialist_run_scheme tools_deps" where
  "specialist_tools_deps cfg P sdk readFile newClient bearer sub =
     \<lparr> tdDiscover = ops_discover cfg P sdk, tdAcquire = ops_acquire cfg P sdk readFile bearer sub False,
       tdOpen = openMcpToolset P newClient (spMcpOpsUrl cfg) (provider_token runOps) ''agent-specialist''
                  ''mcp-ops (tools/list probe)'' (http_fetch P) \<rparr>"

definition claims_of :: "verified_jwt \<Rightarrow> caller_claims" where
  "claims_of v = \<lparr> ccSub = subject_of v,
     ccAcr = (if nullish (jget (vPayload v) ''acr'') then None else Some (js_string (jget (vPayload v) ''acr''))),
     ccRoles = rolesClaim (jget (vPayload v) ''roles'') \<rparr>"

definition tool_info_js :: "tool_info \<Rightarrow> js" where
  "tool_info_js t = JObj ([(''name'', JStr (tiName t))]
     @ (case tiDescription t of None \<Rightarrow> [] | Some d \<Rightarrow> [(''description'', JStr d)])
     @ (case tiRequiredRoles t of None \<Rightarrow> [] | Some rs \<Rightarrow> [(''requiredRoles'', JArr (map JStr rs))])
     @ (case tiCallable t of None \<Rightarrow> [] | Some b \<Rightarrow> [(''callable'', JBool b)]))"

fun ops_tools_js :: "ops_tools \<Rightarrow> (string \<times> js) list" where
  "ops_tools_js (ToolsOk ts) = [(''status'', JStr ''ok''), (''tools'', JArr (map tool_info_js ts))]"
| "ops_tools_js (ToolsStepUp acr scope) = [(''status'', JStr ''step-up''), (''acrValues'', acr), (''scope'', JStr scope)]"
| "ops_tools_js (ToolsDenied err d) = [(''status'', JStr ''denied''), (''error'', JStr err), (''description'', JStr d)]"
| "ops_tools_js (ToolsError err d) = [(''status'', JStr ''error''), (''error'', JStr err), (''description'', JStr d)]"

definition bearer_only ::
  "string \<Rightarrow> verify_options \<Rightarrow> ('w, 'j) platform \<Rightarrow> string option \<Rightarrow> ('w, 'j, 'z, (string \<times> verified_jwt) gate) act" where
  "bearer_only tag opts P =
     bearer_middleware P (answer 401 [] [(''error'', JStr ''invalid_token'')]) opts (\<lambda>token v. io_return (Next (token, v)))
       (\<lambda>m c. answer 401 [] [(''error'', JStr (code_str c)), (''error_description'', JStr m)]) tag"

definition tools_handler ::
  "specialist_config \<Rightarrow> ('w, 'j) platform \<Rightarrow> (string \<Rightarrow> caller_claims \<Rightarrow> ('w, 'j, 'z) specialist_run_scheme tools_deps) \<Rightarrow> string option
   \<Rightarrow> ('w, 'j, 'z) specialist_run_scheme \<Rightarrow> (exn + http_res) \<times> ('w, 'j, 'z) specialist_run_scheme" where
  "tools_handler cfg P deps header =
     io_bind (bearer_only ''[specialist/tools] verify error'' (specialist_opts cfg) P header) (\<lambda>g.
       case g of
         Respond res \<Rightarrow> io_return res
       | Next p \<Rightarrow>
           io_bind (listOpsTools (deps (fst p) (claims_of (snd p))) (spRequiredAcr cfg) (claims_of (snd p))) (\<lambda>r.
             io_return (answer 200 [] (ops_tools_js r))))"

interpretation bearer_only_gate: bearer_gate "bearer_only tag opts" opts "\<lambda>v. True"
  for opts :: verify_options and tag :: string
  unfolding bearer_only_def
  by (rule bearer_gate_frame) (simp_all add: answer_def io_return_def)

section \<open>What it did: the last-token route\<close>

text \<open>Whether the last model token belongs to the run the last write token came from.\<close>

definition selectLlmLeaf :: "int option \<Rightarrow> int option \<Rightarrow> bool" where
  "selectLlmLeaf opsAt llmAt = (case opsAt of None \<Rightarrow> False | Some o' \<Rightarrow> (case llmAt of None \<Rightarrow> False | Some l \<Rightarrow> l \<ge> o'))"

definition llm_leaf_note :: string where
  "llm_leaf_note = ''Model call '' @ em_dash @ '' a leaf, not a hop toward the cluster. The LLM provider sits outside ''
     @ ''the trust domain, so nothing exchanges this token onward.''"

definition decode_hop :: "('w, 'j) platform \<Rightarrow> string \<Rightarrow> js \<Rightarrow> bool \<Rightarrow> string option \<Rightarrow> exn + js" where
  "decode_hop P name token includeRaw note =
     (case as_str token of
        None \<Rightarrow> Inl invalid_jwt
      | Some t \<Rightarrow>
          (case (decodeProtectedHeader P t, decodeJwt P t) of
             (Some h, Some p) \<Rightarrow> Inr (JObj ([(''hop'', JStr name), (''header'', h), (''payload'', p)]
                @ (if includeRaw then [(''token'', token)] else [])
                @ (case note of None \<Rightarrow> [] | Some n \<Rightarrow> [(''note'', JStr n)])))
           | _ \<Rightarrow> Inl invalid_jwt))"

text \<open>\<^verbatim>\<open>...v\<close> in an argument list.\<close>

fun js_elements :: "js \<Rightarrow> exn + js list" where
  "js_elements (JArr xs) = Inr xs"
| "js_elements (JStr s) = Inr (map (\<lambda>c. JStr [c]) s)"
| "js_elements _ = Inl (type_error ''Spread syntax requires ...iterable[Symbol.iterator] to be a function'')"

definition fetchDownstreamChain ::
  "('w, 'j) platform \<Rightarrow> string \<Rightarrow> string \<Rightarrow> js \<Rightarrow> bool
   \<Rightarrow> ('w, 'j, 'z) agent_proc_scheme \<Rightarrow> (exn + js) \<times> ('w, 'j, 'z) agent_proc_scheme" where
  "fetchDownstreamChain P label url bearer includeRaw =
     io_catch
       (io_bind (withProcessDpop P (http_fetch P)
          \<lparr> qMethod = ''GET'', qUrl = (if includeRaw then url @ ''?raw=1'' else url),
            qHeaders = [(''authorization'', ''Bearer '' @ js_string bearer)], qBody = [] \<rparr>) (\<lambda>r.
          if \<not> rsp_ok r then io_return (JArr [])
          else io_bind (lift_sum (pJson r)) (\<lambda>body.
               io_bind (prop_of body ''chain'') (\<lambda>c. io_return (js_or c (JArr []))))))
       (\<lambda>e. io_bind (emit (ConsoleError (''[specialist/last-token] '' @ label @ '' fetch failed''))) (\<lambda>_. io_return (JArr [])))"

text \<open>\<^verbatim>\<open>url.replace(/\/mcp\/?$/, '') + '/last-token'\<close>\<close>

definition last_token_url :: "string \<Rightarrow> string" where
  "last_token_url url =
     (if ends_with ''/mcp/'' url then take (length url - 5) url
      else if ends_with ''/mcp'' url then take (length url - 4) url else url) @ ''/last-token''"

text \<open>A branch: the hop to the gateway, then what the server reports of its own.\<close>

definition branch ::
  "('w, 'j) platform \<Rightarrow> string \<Rightarrow> string \<Rightarrow> string \<Rightarrow> js option \<Rightarrow> bool
   \<Rightarrow> ('w, 'j, 'z) agent_proc_scheme \<Rightarrow> (exn + js list) \<times> ('w, 'j, 'z) agent_proc_scheme" where
  "branch P name label mcpUrl token includeRaw =
     (case token of
        None \<Rightarrow> io_return []
      | Some tok \<Rightarrow>
          io_bind (lift_sum (decode_hop P name tok includeRaw None)) (\<lambda>h.
          io_bind (fetchDownstreamChain P label (last_token_url mcpUrl) tok includeRaw) (\<lambda>c.
          io_bind (lift_sum (js_elements c)) (\<lambda>cs. io_return (h # cs)))))"

definition specialist_chain ::
  "specialist_config \<Rightarrow> ('w, 'j) platform \<Rightarrow> bool
   \<Rightarrow> ('w, 'j, 'z) specialist_scheme \<Rightarrow> (exn + js list) \<times> ('w, 'j, 'z) specialist_scheme" where
  "specialist_chain cfg P includeRaw =
     io_bind (io_read spLastOps) (\<lambda>ops.
     io_bind (io_read spLastLlm) (\<lambda>llm.
     io_bind (case llm of
                None \<Rightarrow> io_return []
              | Some l \<Rightarrow>
                  if selectLlmLeaf (map_option (\<lambda>o'. snd (snd o')) ops) (Some (snd l))
                  then io_bind (lift_sum (decode_hop P (''agent-specialist '' @ arrow @ '' agentgateway (/llm)'') (fst l) includeRaw
                         (Some llm_leaf_note))) (\<lambda>h. io_return [h])
                  else io_return []) (\<lambda>leaf.
     io_bind (io_read spLastInspect) (\<lambda>inspect.
     io_bind (branch P (''agent-specialist '' @ arrow @ '' agentgateway (/inspect/mcp)'') ''mcp-inspect'' (spMcpInspectUrl cfg)
        (map_option fst inspect) includeRaw) (\<lambda>reads.
     io_bind (branch P (''agent-specialist '' @ arrow @ '' agentgateway (/ops/mcp)'') ''mcp-ops'' (spMcpOpsUrl cfg)
        (map_option (\<lambda>o'. fst (snd o')) ops) includeRaw) (\<lambda>writes.
       io_return (leaf @ reads @ writes)))))))"

definition specialist_last_token ::
  "specialist_config \<Rightarrow> ('w, 'j) platform \<Rightarrow> js
   \<Rightarrow> ('w, 'j, 'z) specialist_scheme \<Rightarrow> (exn + http_res) \<times> ('w, 'j, 'z) specialist_scheme" where
  "specialist_last_token cfg P query =
     io_catch
       (io_bind (specialist_chain cfg P (jget query ''raw'' = JStr ''1'')) (\<lambda>chain.
          io_return (answer 200 [] [(''chain'', JArr chain)])))
       (\<lambda>e. io_bind (emit (ConsoleError ''[specialist/last-token] handler error'')) (\<lambda>_.
          io_return (answer 500 [] [(''error'', JStr ''server_error'')])))"

lemmas specialist_routes_eval [eval_simps] = tool_info_of_def toolInfos_def tools_failure_def listOpsTools_def
  specialist_tools_deps_def claims_of_def tool_info_js_def bearer_only_def tools_handler_def selectLlmLeaf_def
  llm_leaf_note_def decode_hop_def fetchDownstreamChain_def last_token_url_def branch_def specialist_chain_def
  specialist_last_token_def

section \<open>What the specialist guarantees\<close>

text \<open>
  What the tools card shows is what the write server does: for every tool of the server's role
  matrix, as it publishes itself, the specialist shows it as not callable exactly when the server
  would refuse a call by a caller with these roles, and shows required roles exactly when there are
  any.
\<close>

theorem callable_is_the_gate:
  "let info = tool_info_of roles (toListedTool (JObj ((''name'', JStr tool) # requiredRolesMeta cfg tool)))
   in (tiCallable info = Some False \<longleftrightarrow> toolRoleDenial tool roles (tool_roles cfg tool) \<noteq> None)
    \<and> tiRequiredRoles info = (if tool_roles cfg tool = [] then None else Some (tool_roles cfg tool))
    \<and> tiName info = tool"
proof (cases "tool_roles cfg tool = []")
  case True
  then show ?thesis
    by (simp add: tool_info_of_def unpublished_roles toolRoleDenial_def) (simp add: toListedTool_def)
next
  case False
  then show ?thesis
    by (simp add: tool_info_of_def published_roles toolRoleDenial_def Let_def) (simp add: toListedTool_def)
qed

end
