(* ===== verification/Intent.thy ===== *)
theory Intent
  imports OboLog
begin

text \<open>
  \<^verbatim>\<open>apps/agent-copilot/src/intent.ts\<close>: the deterministic gate in front of the privileged path. Its
  regular expressions are terms of a small matcher that tries what a backtracking matcher tries, in
  the same order. Texts are taken to be ASCII: white space, letters and case are those of ASCII.
\<close>

section \<open>Regular expressions\<close>

text \<open>A place in a text: the character before it, if any, and what follows.\<close>

type_synonym place = "char option \<times> string"

text \<open>
  \<open>Many lo hi p\<close> is a greedy repetition of one character class, \<open>Boundary\<close> is \<^verbatim>\<open>\b\<close>.
\<close>

datatype re =
    Class "char \<Rightarrow> bool"
  | Then re re
  | Or re re
  | Maybe re
  | Many nat "nat option" "char \<Rightarrow> bool"
  | Boundary

definition ascii_word :: "char \<Rightarrow> bool" where
  "ascii_word c = (c \<in> set ''ABCDEFGHIJKLMNOPQRSTUVWXYZabcdefghijklmnopqrstuvwxyz0123456789_'')"

definition at_boundary :: "place \<Rightarrow> bool" where
  "at_boundary x =
     ((case fst x of None \<Rightarrow> False | Some c \<Rightarrow> ascii_word c) \<noteq> (case snd x of [] \<Rightarrow> False | c # _ \<Rightarrow> ascii_word c))"

definition advance :: "nat \<Rightarrow> place \<Rightarrow> place" where
  "advance i x = (if i = 0 then fst x else Some (snd x ! (i - 1)), drop i (snd x))"

definition run_length :: "nat option \<Rightarrow> (char \<Rightarrow> bool) \<Rightarrow> string \<Rightarrow> nat" where
  "run_length hi p s = (case hi of None \<Rightarrow> length (takeWhile p s) | Some h \<Rightarrow> min h (length (takeWhile p s)))"

text \<open>The places where a match from here may end, the preferred one first.\<close>

fun ends :: "re \<Rightarrow> place \<Rightarrow> place list" where
  "ends (Class p) x = (case snd x of [] \<Rightarrow> [] | c # r \<Rightarrow> if p c then [(Some c, r)] else [])"
| "ends (Then a b) x = concat (map (ends b) (ends a x))"
| "ends (Or a b) x = ends a x @ ends b x"
| "ends (Maybe a) x = ends a x @ [x]"
| "ends (Many lo hi p) x = map (\<lambda>i. advance i x) (rev [lo ..< Suc (run_length hi p (snd x))])"
| "ends Boundary x = (if at_boundary x then [x] else [])"

text \<open>\<^verbatim>\<open>r.test(s)\<close>\<close>

fun found_from :: "re \<Rightarrow> char option \<Rightarrow> string \<Rightarrow> bool" where
  "found_from r l [] = (ends r (l, []) \<noteq> [])"
| "found_from r l (c # s) = (ends r (l, c # s) \<noteq> [] \<or> found_from r (Some c) s)"

definition re_test :: "re \<Rightarrow> string \<Rightarrow> bool" where
  "re_test r s = found_from r None s"

text \<open>
  The text of \<open>b\<close> in the first match of \<open>a\<close> followed by \<open>b\<close>, as \<^verbatim>\<open>exec\<close> reports it for \<open>b\<close> a group;
  an optional group after \<open>b\<close> does not change it, because it can always match nothing.
\<close>

definition group_at :: "re \<Rightarrow> re \<Rightarrow> place \<Rightarrow> string option" where
  "group_at a b x =
     (case concat (map (\<lambda>u. map (\<lambda>v. take (length (snd u) - length (snd v)) (snd u)) (ends b u)) (ends a x)) of
        [] \<Rightarrow> None | t # _ \<Rightarrow> Some t)"

fun group_from :: "re \<Rightarrow> re \<Rightarrow> char option \<Rightarrow> string \<Rightarrow> string option" where
  "group_from a b l [] = group_at a b (l, [])"
| "group_from a b l (c # s) = (case group_at a b (l, c # s) of Some t \<Rightarrow> Some t | None \<Rightarrow> group_from a b (Some c) s)"

fun lit_ci :: "string \<Rightarrow> re" where
  "lit_ci [] = Many 0 (Some 0) (\<lambda>_. True)"
| "lit_ci [c] = Class (\<lambda>d. lower_char d = c)"
| "lit_ci (c # d # s) = Then (Class (\<lambda>e. lower_char e = c)) (lit_ci (d # s))"

fun one_of :: "re list \<Rightarrow> re" where
  "one_of [] = Then (Class (\<lambda>_. False)) Boundary"
| "one_of [r] = r"
| "one_of (r # q # rs) = Or r (one_of (q # rs))"

section \<open>The three expressions\<close>

definition RESTART_VERBS :: re where
  "RESTART_VERBS =
     Or (Then Boundary (Then
          (one_of [lit_ci ''restart'', lit_ci ''reboot'', lit_ci ''kick'', lit_ci ''bounce'', lit_ci ''scale'', lit_ci ''deploy'',
                   Then (lit_ci ''roll'') (Then (Maybe (Class is_ws)) (lit_ci ''out'')), lit_ci ''upgrade'']) Boundary))
        (Then Boundary (Then (one_of [lit_ci ''update'', lit_ci ''set'', lit_ci ''change'', lit_ci ''switch'', lit_ci ''bump''])
          (Then (Many 1 None is_ws)
          (Then (Maybe (Then (Many 1 None (\<lambda>c. ascii_word c \<or> c = CHR ''-'')) (Many 1 None is_ws)))
          (Then (lit_ci ''image'') Boundary)))))"

definition lower_letter :: "char \<Rightarrow> bool" where
  "lower_letter c = (c \<in> set ''abcdefghijklmnopqrstuvwxyz'')"

definition label_end :: "char \<Rightarrow> bool" where
  "label_end c = (lower_letter c \<or> c \<in> set ''0123456789'')"

definition label_char :: "char \<Rightarrow> bool" where
  "label_char c = (label_end c \<or> c = CHR ''-'')"

text \<open>\<^verbatim>\<open>[a-z][a-z0-9-]{0,61}[a-z0-9]\<close>, of characters seen through \<open>f\<close> (for the flag \<^verbatim>\<open>i\<close>).\<close>

definition LABEL :: "(char \<Rightarrow> char) \<Rightarrow> re" where
  "LABEL f = Then (Class (lower_letter \<circ> f)) (Then (Many 0 (Some 61) (label_char \<circ> f)) (Class (label_end \<circ> f)))"

definition NAMESPACE_IN :: re where
  "NAMESPACE_IN = Then Boundary (Then (lit_ci ''in'') (Many 1 None is_ws))"

section \<open>The gate\<close>

definition STOP_WORDS :: "string list" where
  "STOP_WORDS = [''the'', ''a'', ''an'', ''please'', ''pod'', ''pods'', ''deployment'', ''deployments'', ''svc'', ''service'', ''in'',
     ''on'', ''and'', ''or'', ''restart'', ''reboot'', ''kick'', ''bounce'', ''scale'', ''deploy'', ''rollout'', ''upgrade'',
     ''image'', ''replicas'', ''to'', ''version'', ''namespace'', ''ns'']"

datatype intent = Inspect | RestartGoal string "string option" string   \<comment> \<open>deployment, namespace, reason hint\<close>

lemma advance_le: "length (snd (advance i x)) \<le> length (snd x)"
  by (simp add: advance_def)

lemma ends_shrink: "y \<in> set (ends r x) \<Longrightarrow> length (snd y) \<le> length (snd x)"
proof (induction r arbitrary: x y)
  case (Class p)
  then show ?case by (cases "snd x") (auto split: if_splits)
next
  case (Then a b)
  then obtain z where "z \<in> set (ends a x)" "y \<in> set (ends b z)" by auto
  then show ?case using Then.IH le_trans by blast
next
  case (Many lo hi p)
  then show ?case by (auto simp: advance_le)
qed (auto split: if_splits)

lemma class_shrinks: "y \<in> set (ends (Class p) x) \<Longrightarrow> length (snd y) < length (snd x)"
  by (cases "snd x") (auto split: if_splits)

lemma label_shorter: "y \<in> set (ends (LABEL f) x) \<Longrightarrow> length (snd y) < length (snd x)"
  unfolding LABEL_def ends.simps(2) [of "Class (lower_letter \<circ> f)"] set_concat set_map UN_iff bex_simps
  using class_shrinks ends_shrink by (meson le_less_trans)

text \<open>\<^verbatim>\<open>s.match(/\<dots>/g)\<close> for the label: each match is looked for after the one before.\<close>

function label_tokens :: "string \<Rightarrow> string list" where
  "label_tokens [] = []"
| "label_tokens (c # s) =
     (case ends (LABEL id) (None, c # s) of
        [] \<Rightarrow> label_tokens s
      | y # _ \<Rightarrow> take (length (c # s) - length (snd y)) (c # s) # label_tokens (snd y))"
  by pat_completeness auto

termination
proof (relation "measure length")
  fix c :: char and s y ys
  assume "ends (LABEL id) (None, c # s) = y # ys"
  then have "length (snd y) < length (c # s)" using label_shorter [of y id "(None, c # s)"] by simp
  then show "(snd y, c # s) \<in> measure length" by simp
qed simp_all

definition version_shaped :: "string \<Rightarrow> bool" where
  "version_shaped t = (case t of c # d # _ \<Rightarrow> lower_char c = CHR ''v'' \<and> d \<in> set ''0123456789'' | _ \<Rightarrow> False)"

definition deployment_shaped :: "string \<Rightarrow> bool" where
  "deployment_shaped t =
     (t \<notin> set STOP_WORDS \<and> list_ex (\<lambda>c. c = CHR ''-'' \<or> c \<in> set ''0123456789'') t \<and> \<not> version_shaped t)"

definition namespace_hint :: "string \<Rightarrow> string option" where
  "namespace_hint message =
     (case group_from NAMESPACE_IN (LABEL lower_char) None message of
        None \<Rightarrow> None
      | Some ns \<Rightarrow> if lower ns \<notin> set STOP_WORDS \<and> lower ns \<noteq> ''the'' then Some ns else None)"

definition detectIntent :: "string \<Rightarrow> intent" where
  "detectIntent message =
     (if \<not> re_test RESTART_VERBS message then Inspect
      else case find deployment_shaped (label_tokens (lower message)) of
             None \<Rightarrow> Inspect
           | Some deployment \<Rightarrow> RestartGoal deployment (namespace_hint message) (take 256 (trim message)))"

lemmas intent_eval [eval_simps] = ascii_word_def at_boundary_def advance_def run_length_def re_test_def group_at_def
  RESTART_VERBS_def lower_letter_def label_end_def label_char_def LABEL_def NAMESPACE_IN_def STOP_WORDS_def
  version_shaped_def deployment_shaped_def namespace_hint_def detectIntent_def

section \<open>What it lets through\<close>

text \<open>A DNS-1123 label of two characters or more.\<close>

definition dns_label :: "string \<Rightarrow> bool" where
  "dns_label t = (2 \<le> length t \<and> length t \<le> 63 \<and> lower_letter (hd t) \<and> label_end (last t) \<and> list_all label_char t)"

lemma takeWhile_take: "k \<le> length (takeWhile p s) \<Longrightarrow> list_all p (take k s)"
  by (metis takeWhile_eq_take nth_take order_less_le_trans list_all_length length_take min_less_iff_conj set_takeWhileD nth_mem takeWhile_nth)

lemma label_match:
  assumes "y \<in> set (ends (LABEL f) (l, s))"
  shows "dns_label (map f (take (length s - length (snd y)) s)) \<and> length (snd y) < length s \<and> snd y = drop (length s - length (snd y)) s"
proof -
  obtain c r where s: "s = c # r" "lower_letter (f c)"
    using assms by (auto simp: LABEL_def split: list.splits if_splits)
  obtain k where k: "k \<le> length (takeWhile (label_char \<circ> f) r)" "k \<le> 61" "y \<in> set (ends (Class (label_end \<circ> f)) (advance k (Some c, r)))"
    using assms s by (auto simp: LABEL_def run_length_def less_Suc_eq_le simp del: upt_Suc ends.simps(1))
      (auto simp: s(1))
  then obtain d q where d: "drop k r = d # q" "label_end (f d)" "snd y = q"
    by (cases "drop k r") (auto simp: advance_def split: if_splits)
  have kr: "k < length r" using d(1) by (metis drop_all list.distinct(1) not_le)
  have len: "length r - k = Suc (length q)" using arg_cong [OF d(1), of length] by simp
  have n: "length s - length q = Suc (Suc k)" using s(1) len kr by simp
  have t: "take (length s - length q) s = c # take k r @ [d]"
  proof -
    have "r ! k = d" using d(1) kr by (metis hd_drop_conv_nth list.sel(1))
    then show ?thesis unfolding n using s(1) kr by (simp add: take_Suc_conv_app_nth)
  qed
  have "list_all label_char (map f (take k r))" using takeWhile_take [OF k(1)] by (simp add: list_all_iff)
  moreover have "q = drop (length s - length q) s"
    unfolding n using d(1) s(1) by (simp add: drop_Suc tl_drop [symmetric])
  moreover have "length q < length s" using len kr s(1) by simp
  moreover have "label_end (f c)" using s(2) by (simp add: label_end_def)
  ultimately show ?thesis using s d t k(2) kr
    by (auto simp: dns_label_def label_char_def min_def)
qed

lemma label_tokens_labels: "t \<in> set (label_tokens s) \<Longrightarrow> dns_label t"
proof (induction s rule: label_tokens.induct)
  case (2 c s)
  show ?case
  proof (cases "ends (LABEL id) (None, c # s)")
    case Nil
    then show ?thesis using 2 by simp
  next
    case (Cons y ys)
    then have "dns_label (map id (take (length (c # s) - length (snd y)) (c # s)))"
      using label_match [of y id None "c # s"] by simp
    then show ?thesis using 2 Cons by auto
  qed
qed simp

lemma label_tokens_in: "t \<in> set (label_tokens s) \<Longrightarrow> \<exists>a b. s = a @ t @ b"
proof (induction s rule: label_tokens.induct)
  case (2 c s)
  show ?case
  proof (cases "ends (LABEL id) (None, c # s)")
    case Nil
    then obtain a b where "s = a @ t @ b" using 2 by auto
    then show ?thesis by (intro exI [of _ "c # a"] exI [of _ b]) simp
  next
    case (Cons y ys)
    let ?k = "length (c # s) - length (snd y)"
    have y: "snd y = drop ?k (c # s)" using label_match [of y id None "c # s"] Cons by simp
    from 2(3) Cons consider "t = take ?k (c # s)" | "t \<in> set (label_tokens (snd y))" by auto
    then show ?thesis
    proof cases
      case 1
      then show ?thesis by (intro exI [of _ "[]"] exI [of _ "drop ?k (c # s)"]) simp
    next
      case 2
      then obtain a b where "snd y = a @ t @ b" using "2.IH"(2) [OF Cons] by auto
      then have "c # s = (take ?k (c # s) @ a) @ t @ b" using y append_take_drop_id [of ?k "c # s"] by simp
      then show ?thesis by blast
    qed
  qed
qed simp

lemma group_from_at: "group_from a b l s = Some t \<Longrightarrow> \<exists>pre l' s'. s = pre @ s' \<and> group_at a b (l', s') = Some t"
proof (induction s arbitrary: l)
  case Nil
  then show ?case by auto
next
  case (Cons c s)
  show ?case
  proof (cases "group_at a b (l, c # s)")
    case None
    then obtain pre l' s' where "s = pre @ s'" "group_at a b (l', s') = Some t" using Cons.IH [of "Some c"] Cons.prems by fastforce
    then show ?thesis by (intro exI [of _ "c # pre"] exI [of _ l'] exI [of _ s']) simp
  next
    case (Some u)
    then show ?thesis using Cons.prems by (intro exI [of _ "[]"] exI [of _ l] exI [of _ "c # s"]) simp
  qed
qed

lemma group_at_ends:
  assumes "group_at a b x = Some t"
  obtains u v where "u \<in> set (ends a x)" "v \<in> set (ends b u)" "t = take (length (snd u) - length (snd v)) (snd u)"
proof -
  have "t \<in> set (concat (map (\<lambda>u. map (\<lambda>v. take (length (snd u) - length (snd v)) (snd u)) (ends b u)) (ends a x)))"
    using assms by (auto simp: group_at_def simp del: set_concat set_map split: list.splits)
  then show thesis using that by auto
qed

lemma namespace_in_ends:
  assumes "u \<in> set (ends NAMESPACE_IN (l, s))"
  shows "\<exists>i w. s = i @ w @ snd u \<and> lower i = ''in'' \<and> w \<noteq> [] \<and> list_all is_ws w"
proof -
  obtain c d r where s: "s = c # d # r" "lower_char c = CHR ''i''" "lower_char d = CHR ''n''"
    and u: "u \<in> set (ends (Many 1 None is_ws) (Some d, r))"
    using assms by (auto simp: NAMESPACE_IN_def split: list.splits if_splits simp del: ends.simps(5))
  then obtain k where k: "1 \<le> k" "k \<le> length (takeWhile is_ws r)" "u = advance k (Some d, r)"
    by (auto simp: run_length_def simp del: upt_Suc)
  have "list_all is_ws (take k r)" using takeWhile_take [OF k(2)] .
  moreover have "r \<noteq> []" using k(1,2) by auto
  ultimately show ?thesis using s k(1,3) by (intro exI [of _ "[c, d]"] exI [of _ "take k r"]) (auto simp: advance_def lower_def)
qed

lemma namespace_hint_in:
  assumes "namespace_hint m = Some ns"
  shows "\<exists>pre i w post. m = pre @ i @ w @ ns @ post \<and> lower i = ''in'' \<and> w \<noteq> [] \<and> list_all is_ws w"
proof -
  have "group_from NAMESPACE_IN (LABEL lower_char) None m = Some ns"
    using assms by (auto simp: namespace_hint_def split: option.splits if_splits)
  then obtain pre l s where m: "m = pre @ s" and g: "group_at NAMESPACE_IN (LABEL lower_char) (l, s) = Some ns"
    using group_from_at by blast
  from g obtain u v where uv: "u \<in> set (ends NAMESPACE_IN (l, s))" "v \<in> set (ends (LABEL lower_char) u)"
    "ns = take (length (snd u) - length (snd v)) (snd u)" by (rule group_at_ends)
  obtain i w where "s = i @ w @ snd u" "lower i = ''in''" "w \<noteq> []" "list_all is_ws w" using namespace_in_ends [OF uv(1)] by blast
  moreover have "snd u = ns @ drop (length (snd u) - length (snd v)) (snd u)" unfolding uv(3) by simp
  ultimately show ?thesis unfolding m by (metis append_assoc)
qed

lemma namespace_label: "namespace_hint m = Some ns \<Longrightarrow> dns_label (lower ns)"
proof -
  assume "namespace_hint m = Some ns"
  then have "group_from NAMESPACE_IN (LABEL lower_char) None m = Some ns"
    by (auto simp: namespace_hint_def split: option.splits if_splits)
  then obtain l s where "group_at NAMESPACE_IN (LABEL lower_char) (l, s) = Some ns"
    using group_from_at by blast
  then obtain u v where "v \<in> set (ends (LABEL lower_char) u)" "ns = take (length (snd u) - length (snd v)) (snd u)"
    by (rule group_at_ends)
  then show ?thesis using label_match [of v lower_char "fst u" "snd u"] by (simp add: lower_def)
qed

text \<open>
  C39. The gate of the privileged path: a message takes it only if it has one of the privileged verbs, and then for a
  deployment whose name stands in the message (in lower case), is a DNS-1123 label, no stop word and not a version;
  a namespace, when one is given, stands in the message after \<^verbatim>\<open>in\<close> and white space, is such a label but for its case,
  and no stop word; and the reason is the message itself, trimmed and cut off at 256 characters.
\<close>

theorem privileged_needs_verb_and_name:
  assumes "detectIntent m = RestartGoal d ns h"
  shows "re_test RESTART_VERBS m
    \<and> (\<exists>pre post. lower m = pre @ d @ post) \<and> dns_label d \<and> d \<notin> set STOP_WORDS \<and> \<not> version_shaped d
    \<and> list_all (\<lambda>n. (\<exists>pre i w post. m = pre @ i @ w @ n @ post \<and> lower i = ''in'' \<and> w \<noteq> [] \<and> list_all is_ws w)
         \<and> dns_label (lower n) \<and> lower n \<notin> set STOP_WORDS) (case ns of None \<Rightarrow> [] | Some n \<Rightarrow> [n])
    \<and> h = take 256 (trim m)"
proof -
  have v: "re_test RESTART_VERBS m" and f: "find deployment_shaped (label_tokens (lower m)) = Some d"
    and n: "ns = namespace_hint m" and h: "h = take 256 (trim m)"
    using assms by (auto simp: detectIntent_def split: if_splits option.splits)
  have d: "d \<in> set (label_tokens (lower m))" "deployment_shaped d" using f by (auto simp: find_Some_iff)
  have "(\<exists>pre i w post. m = pre @ i @ w @ n @ post \<and> lower i = ''in'' \<and> w \<noteq> [] \<and> list_all is_ws w)
         \<and> dns_label (lower n) \<and> lower n \<notin> set STOP_WORDS" if "namespace_hint m = Some n" for n
    using namespace_hint_in [OF that] namespace_label [OF that] that by (auto simp: namespace_hint_def split: option.splits if_splits)
  then show ?thesis using v n h d label_tokens_labels label_tokens_in by (auto simp: deployment_shaped_def split: option.splits)
qed

text \<open>Example messages.\<close>

lemma intent_examples:
  "detectIntent ''please restart order-service in staging'' = RestartGoal ''order-service'' (Some ''staging'') ''please restart order-service in staging''"
  "detectIntent ''roll out v1.3 to api-gateway'' = RestartGoal ''api-gateway'' None ''roll out v1.3 to api-gateway''"
  "detectIntent ''what changed in prod?'' = Inspect"
  by code_simp+

theorem privileged_needs_verb_and_name_witness:
  "re_test RESTART_VERBS ''please restart order-service in staging'' \<and> dns_label ''order-service''"
  using privileged_needs_verb_and_name [OF intent_examples(1)] by simp

end
