(* ===== verification/Copilot.thy ===== *)
theory Copilot
  imports Specialist Intent Json OpsApi
begin

text \<open>
  \<^verbatim>\<open>apps/agent-copilot/src\<close>: configuration, the tokens of its three hops, its A2A client and the \<open>/chat\<close>
  handler. The A2A client of the SDK is a parameter (\<open>send\<close>, for a bearer), as are the MCP client and
  the language model.
\<close>

section \<open>Configuration\<close>

record copilot_config =
  cpIssuer :: string
  cpDiscoveryTtlMs :: int
  cpExchangeCacheTtlMs :: int
  cpJwksUri :: string
  cpAudience :: string
  cpMcpInspectUrl :: string
  cpClientId :: string
  cpPrivateKeyPem :: string
  cpMcpInspectAudience :: string
  cpSpecialistA2aUrl :: string
  cpSpecialistAudience :: string
  cpSpecialistScope :: string
  cpLlmGatewayUrl :: string
  cpLlmGatewayAudience :: string
  cpLlmGatewayScope :: string

definition loadCopilotConfig :: "(string \<Rightarrow> string option) \<Rightarrow> exn + copilot_config" where
  "loadCopilotConfig env =
     sum_bind (required_env env ''CURITY_ISSUER'') (\<lambda>iss.
     sum_bind (required_env env ''CURITY_JWKS_URI'') (\<lambda>jwks.
     sum_bind (required_env env ''MCP_INSPECT_URL'') (\<lambda>inspect.
     sum_bind (secondsEnvToMs env ''MCP_DISCOVERY_TTL_SECONDS'' 600) (\<lambda>dttl.
     sum_bind (secondsEnvToMs env ''TOKEN_EXCHANGE_CACHE_TTL_SECONDS'' 60) (\<lambda>xttl.
     sum_bind (required_env env ''CURITY_AGENT_PRIVATE_KEY_PEM'') (\<lambda>pem.
       Inr \<lparr> cpIssuer = iss, cpDiscoveryTtlMs = dttl, cpExchangeCacheTtlMs = xttl, cpJwksUri = jwks,
             cpAudience = or_else (env ''EXPECTED_AUDIENCE'') ''agent-copilot'', cpMcpInspectUrl = inspect,
             cpClientId = or_else (env ''CURITY_CLIENT_ID'') ''https://copilot.localtest.me/.well-known/oauth-client'',
             cpPrivateKeyPem = pem,
             cpMcpInspectAudience = or_else (env ''MCP_INSPECT_AUDIENCE'') ''mcp-inspect'',
             cpSpecialistA2aUrl = or_else (env ''SPECIALIST_A2A_URL'') ''http://agent-specialist.agents.svc.cluster.local:8082/a2a'',
             cpSpecialistAudience = or_else (env ''SPECIALIST_AUDIENCE'') ''agent-specialist'',
             cpSpecialistScope = or_else (env ''SPECIALIST_SCOPE'') ''inspect:read ops:write llm:invoke'',
             cpLlmGatewayUrl = or_else (env ''LLM_GATEWAY_URL'') ''http://agentgateway.mcp.svc.cluster.local:8080/llm'',
             cpLlmGatewayAudience = or_else (env ''LLM_GATEWAY_AUDIENCE'') ''llm-gateway'',
             cpLlmGatewayScope = or_else (env ''LLM_GATEWAY_SCOPE'') ''llm:invoke'' \<rparr>))))))"

section \<open>The gate\<close>

definition copilot_opts :: "copilot_config \<Rightarrow> verify_options" where
  "copilot_opts cfg = \<lparr> voIssuer = cpIssuer cfg, voAudience = cpAudience cfg,
     voJwksUri = Some (cpJwksUri cfg), voAlgorithms = None, voTolerance = None \<rparr>"

definition copilot_missing :: "copilot_config \<Rightarrow> http_res" where
  "copilot_missing cfg =
     answer 401 [(''www-authenticate'', ''Bearer realm=\"'' @ cpAudience cfg @ ''\"'')]
       [(''error'', JStr ''invalid_token''), (''error_description'', JStr ''missing Bearer token'')]"

definition copilot_auth_error :: "string \<Rightarrow> auth_code \<Rightarrow> http_res" where
  "copilot_auth_error m c =
     answer 401 [(''www-authenticate'', ''Bearer error=\"'' @ code_str c @ ''\", error_description=\"'' @ m @ ''\"'')]
       [(''error'', JStr (code_str c)), (''error_description'', JStr m)]"

definition copilot_auth ::
  "copilot_config \<Rightarrow> ('w, 'j) platform \<Rightarrow> string option \<Rightarrow> ('w, 'j, 'z, (string \<times> verified_jwt) gate) act" where
  "copilot_auth cfg P =
     bearer_middleware P (copilot_missing cfg) (copilot_opts cfg) (decorate_then (\<lambda>_. None) Pair)
       copilot_auth_error ''[auth-middleware] unexpected error''"

interpretation copilot_gate: bearer_gate "copilot_auth cfg" "copilot_opts cfg" "\<lambda>v. True"
  for cfg :: copilot_config
  unfolding copilot_auth_def
  by (rule bearer_gate_decorate) (auto simp: copilot_missing_def copilot_auth_error_def answer_def)

section \<open>State\<close>

text \<open>What \<open>/last-token\<close> reads of the latest exchange of a kind, and the variables of the process.\<close>

record exchange_slot =
  slSub :: js
  slToken :: js
  slAt :: int
  slJti :: "string option"

record ('w, 'j) copilot = "('w, 'j) agent_host" +
  cpMcpCache :: token_cache
  cpSpecialistCache :: token_cache
  cpLlmCache :: token_cache
  cpLastMcp :: "exchange_slot option"
  cpLastSpecialist :: "exchange_slot option"
  cpLastLlm :: "exchange_slot option"
  cpSnapshots :: "(string, js) omap"
  cpProvider :: provider        \<comment> \<open>of the request being served\<close>

section \<open>The tokens of the hops\<close>

definition jtiOf :: "('w, 'j) platform \<Rightarrow> string \<Rightarrow> string option" where
  "jtiOf P token = (case decodeJwt P token of None \<Rightarrow> None | Some c \<Rightarrow> as_str (jget c ''jti''))"

definition slot_of :: "('w, 'j) platform \<Rightarrow> string \<Rightarrow> js \<Rightarrow> js \<Rightarrow> int \<Rightarrow> exchange_slot" where
  "slot_of P subject sub tok now = \<lparr> slSub = sub, slToken = tok, slAt = now, slJti = jtiOf P subject \<rparr>"

definition stamp_slot ::
  "('w, 'j) platform \<Rightarrow> (exchange_slot \<Rightarrow> ('w, 'j, 'z) proc_scheme \<Rightarrow> ('w, 'j, 'z) proc_scheme) \<Rightarrow> string \<Rightarrow> js \<Rightarrow> bool
   \<Rightarrow> js \<Rightarrow> ('w, 'j, 'z, unit) act" where
  "stamp_slot P put subject sub recordLast tok =
     (if recordLast then io_bind (world_get (dateNow P)) (\<lambda>now. io_modify (put (slot_of P subject sub tok now)))
      else io_return ())"

definition copilot_key :: "js \<Rightarrow> js \<Rightarrow> string \<Rightarrow> string \<Rightarrow> cache_key" where
  "copilot_key sub acr aud scope = \<lparr> ckSub = js_string sub, ckScope = scope, ckAudience = aud, ckAcr = js_string acr \<rparr>"

definition copilot_hop :: "copilot_config \<Rightarrow> string \<Rightarrow> string \<Rightarrow> string \<Rightarrow> bool \<Rightarrow> hop" where
  "copilot_hop cfg subject aud scope bound =
     \<lparr> hpClientId = cpClientId cfg, hpPrivateKeyPem = cpPrivateKeyPem cfg, hpSubjectToken = subject,
       hpAudience = aud, hpScope = scope, hpBound = bound \<rparr>"

definition obtainMcpToken ::
  "copilot_config \<Rightarrow> ('w, 'j) platform \<Rightarrow> 'w file_reader \<Rightarrow> string \<Rightarrow> js \<Rightarrow> js \<Rightarrow> bool \<Rightarrow> string \<Rightarrow> string \<Rightarrow> bool
   \<Rightarrow> ('w, 'j, 'z) copilot_scheme \<Rightarrow> (exn + js) \<times> ('w, 'j, 'z) copilot_scheme" where
  "obtainMcpToken cfg P readFile subject sub acr recordLast endpoint scope bypass =
     (let key = copilot_key sub acr (cpMcpInspectAudience cfg) scope
      in io_bind (io_modify (\<lambda>s. if bypass then s\<lparr> cpMcpCache := tc_invalidate (cpMcpCache s) key \<rparr> else s)) (\<lambda>_.
         obtain_cached P cpMcpCache (\<lambda>c s. s\<lparr> cpMcpCache := c \<rparr>) key (cpExchangeCacheTtlMs cfg)
           (stamp_slot P (\<lambda>x s. s\<lparr> cpLastMcp := Some x \<rparr>) subject sub recordLast)
           (mint P readFile not_ready (io_return endpoint) (copilot_hop cfg subject (cpMcpInspectAudience cfg) scope True))))"

definition obtainSpecialistToken ::
  "copilot_config \<Rightarrow> ('w, 'j) platform \<Rightarrow> 'w mcp_sdk \<Rightarrow> 'w file_reader \<Rightarrow> string \<Rightarrow> js \<Rightarrow> js \<Rightarrow> bool
   \<Rightarrow> ('w, 'j, 'z) copilot_scheme \<Rightarrow> (exn + js) \<times> ('w, 'j, 'z) copilot_scheme" where
  "obtainSpecialistToken cfg P sdk readFile subject sub acr recordLast =
     obtain_cached P cpSpecialistCache (\<lambda>c s. s\<lparr> cpSpecialistCache := c \<rparr>)
       (copilot_key sub acr (cpSpecialistAudience cfg) (cpSpecialistScope cfg)) (cpExchangeCacheTtlMs cfg)
       (stamp_slot P (\<lambda>x s. s\<lparr> cpLastSpecialist := Some x \<rparr>) subject sub recordLast)
       (mint P readFile [] (issuer_endpoint P sdk (cpIssuer cfg))
          (copilot_hop cfg subject (cpSpecialistAudience cfg) (cpSpecialistScope cfg) False))"

definition invalidateSpecialistTokenCache ::
  "copilot_config \<Rightarrow> js \<Rightarrow> js \<Rightarrow> ('w, 'j, 'z) copilot_scheme \<Rightarrow> (exn + unit) \<times> ('w, 'j, 'z) copilot_scheme" where
  "invalidateSpecialistTokenCache cfg sub acr =
     io_modify (\<lambda>s. s\<lparr> cpSpecialistCache :=
       tc_invalidate (cpSpecialistCache s) (copilot_key sub acr (cpSpecialistAudience cfg) (cpSpecialistScope cfg)) \<rparr>)"

definition obtainCopilotLlmToken ::
  "copilot_config \<Rightarrow> ('w, 'j) platform \<Rightarrow> 'w mcp_sdk \<Rightarrow> 'w file_reader \<Rightarrow> string \<Rightarrow> js \<Rightarrow> js
   \<Rightarrow> ('w, 'j, 'z) copilot_scheme \<Rightarrow> (exn + js) \<times> ('w, 'j, 'z) copilot_scheme" where
  "obtainCopilotLlmToken cfg P sdk readFile subject sub acr =
     obtain_cached P cpLlmCache (\<lambda>c s. s\<lparr> cpLlmCache := c \<rparr>)
       (copilot_key sub acr (cpLlmGatewayAudience cfg) (cpLlmGatewayScope cfg)) (cpExchangeCacheTtlMs cfg)
       (stamp_slot P (\<lambda>x s. s\<lparr> cpLastLlm := Some x \<rparr>) subject sub True)
       (mint P readFile not_ready (issuer_endpoint P sdk (cpIssuer cfg))
          (copilot_hop cfg subject (cpLlmGatewayAudience cfg) (cpLlmGatewayScope cfg) False))"

definition copilot_provider_config :: "copilot_config \<Rightarrow> provider_config" where
  "copilot_provider_config cfg = \<lparr> pcServerUrl = cpMcpInspectUrl cfg, pcService = ''agent-copilot'',
     pcAllowed = Some [cpIssuer cfg], pcDiscoveryTtlMs = Some (cpDiscoveryTtlMs cfg) \<rparr>"

definition copilot_acquire ::
  "copilot_config \<Rightarrow> ('w, 'j) platform \<Rightarrow> 'w mcp_sdk \<Rightarrow> 'w file_reader \<Rightarrow> string \<Rightarrow> js \<Rightarrow> js \<Rightarrow> bool
   \<Rightarrow> ('w, 'j, 'z) copilot_scheme \<Rightarrow> (exn + js) \<times> ('w, 'j, 'z) copilot_scheme" where
  "copilot_acquire cfg P sdk readFile subject sub acr recordLast =
     on_provider cpProvider (\<lambda>pv s. s\<lparr> cpProvider := pv \<rparr>) (provider_acquire P sdk (copilot_provider_config cfg)
       (\<lambda>ei. obtainMcpToken cfg P readFile subject sub acr recordLast (eiTokenEndpoint ei) (eiScope ei) (eiForced ei)) False None)"

section \<open>Asking the specialist\<close>

record specialist_response =
  srOk :: bool
  srStatus :: js
  srText :: "string option"
  srResult :: js
  srStepUp :: "js option"

definition user_message :: "string \<Rightarrow> string \<Rightarrow> string \<Rightarrow> string option \<Rightarrow> string \<Rightarrow> js" where
  "user_message mid goal deployment ns reason =
     JObj [(''kind'', JStr ''message''), (''messageId'', JStr mid), (''role'', JStr ''user''),
       (''parts'', JArr
          [JObj [(''kind'', JStr ''text''), (''text'', JStr goal)],
           JObj [(''kind'', JStr ''data''), (''data'', JObj [(''deployment'', JStr deployment), (''namespace'', opt_js ns),
              (''reason'', JStr reason)])]])]"

definition send_params :: "js \<Rightarrow> js" where
  "send_params message =
     JObj [(''message'', message), (''configuration'', JObj [(''acceptedOutputModes'', JArr [JStr ''application/json'', JStr ''text/plain'']),
       (''blocking'', JBool True)])]"

definition isErrorPayload :: "js \<Rightarrow> bool" where
  "isErrorPayload v = (is_object v \<and> (jget v ''ok'' = JBool False \<or> is_string (jget v ''error'')))"

definition lastAgentMessage :: "js \<Rightarrow> js option" where
  "lastAgentMessage history =
     (case history of JArr ms \<Rightarrow> find (\<lambda>m. jget m ''role'' = JStr ''agent'') (rev ms) | _ \<Rightarrow> None)"

definition part_string :: "js \<Rightarrow> string" where
  "part_string p =
     (if jget p ''kind'' = JStr ''text'' then or_else (as_str (jget p ''text'')) []
      else if jget p ''kind'' = JStr ''data'' \<and> jget p ''data'' \<noteq> JUndef then json_text (jget p ''data'')
      else [])"

definition extractText :: "js \<Rightarrow> string option" where
  "extractText m =
     (if \<not> truthy m then None
      else let t = join [CHR 0x0A] (filter (\<lambda>x. x \<noteq> []) (map part_string (case jget m ''parts'' of JArr ps \<Rightarrow> ps | _ \<Rightarrow> [])))
           in if t = [] then None else Some t)"

definition tryParse :: "string \<Rightarrow> js" where
  "tryParse text = or_else (json_parse text) (JStr text)"

text \<open>What a text means: a challenge or an error payload decides, otherwise \<open>otherwise\<close> does.\<close>

definition interpret_text :: "string option \<Rightarrow> bool \<times> js \<Rightarrow> specialist_response" where
  "interpret_text text otherwise =
     (let parsed = (case text of None \<Rightarrow> JUndef | Some t \<Rightarrow> tryParse t)
      in if isStepUpPayload parsed
           then \<lparr> srOk = False, srStatus = JStr ''step-up'', srText = text, srResult = parsed, srStepUp = Some (jget parsed ''data'') \<rparr>
         else if isErrorPayload parsed
           then \<lparr> srOk = False, srStatus = JStr ''failed'', srText = text, srResult = parsed, srStepUp = None \<rparr>
         else \<lparr> srOk = fst otherwise, srStatus = snd otherwise, srText = text, srResult = parsed, srStepUp = None \<rparr>)"

definition interpret_result :: "js \<Rightarrow> specialist_response" where
  "interpret_result result =
     (if jget result ''kind'' = JStr ''task''
      then (let state = js_or (jget (jget result ''status'') ''state'') (JStr ''unknown'')
            in interpret_text
                 (case lastAgentMessage (jget result ''history'') of
                    Some m \<Rightarrow> extractText m
                  | None \<Rightarrow> extractText (jget (jget result ''status'') ''message''))
                 (state = JStr ''completed'', state))
      else interpret_text (extractText result) (True, JStr ''completed''))"

definition callSpecialist ::
  "('w, 'j) platform \<Rightarrow> (js \<Rightarrow> js \<Rightarrow> ('w, 'j, 'z, js) act) \<Rightarrow> js \<Rightarrow> string \<Rightarrow> string \<Rightarrow> string option \<Rightarrow> string
   \<Rightarrow> ('w, 'j, 'z, specialist_response) act" where
  "callSpecialist P send bearer goal deployment ns reason =
     io_bind (world_get (randomUUID P)) (\<lambda>id.
     io_bind (send bearer (send_params (user_message id goal deployment ns reason))) (\<lambda>result.
       io_return (interpret_result result)))"

definition quoted :: "string \<Rightarrow> string" where
  "quoted s = [CHR 0x27] @ s @ [CHR 0x27]"

definition buildPrivilegedAnswer :: "specialist_response \<Rightarrow> string \<Rightarrow> string" where
  "buildPrivilegedAnswer resp deployment =
     (if \<not> srOk resp then ''Remediation on '' @ quoted deployment @ '' failed: '' @ or_else (srText resp) ''unknown error''
      else let summary = trim (or_else (as_str (jget (srResult resp) ''summary'')) [])
           in if summary \<noteq> [] then summary
              else ''Remediation on '' @ quoted deployment @ '' finished, but the specialist returned no summary.'')"

end
