(* ===== verification/Chat.thy ===== *)
theory Chat
  imports Copilot
begin

text \<open>
  The \<open>POST /chat\<close> handler of \<^verbatim>\<open>apps/agent-copilot/src/server.ts\<close>: the intent gate, the privileged path over
  A2A and the read path with the language model.
\<close>

section \<open>Who asks\<close>

record chat_user =
  cuSub :: js
  cuAcr :: js
  cuRoles :: "string list"
  cuScopes :: "js list"
  cuBearer :: string

definition chat_user_of :: "string \<Rightarrow> verified_jwt \<Rightarrow> chat_user" where
  "chat_user_of bearer v =
     \<lparr> cuSub = js_or (jget (vPayload v) ''sub'') (JStr ''unknown''), cuAcr = js_or (jget (vPayload v) ''acr'') (JStr []),
       cuRoles = rolesClaim (jget (vPayload v) ''roles''), cuScopes = vScopes v, cuBearer = bearer \<rparr>"

definition identity_js :: "chat_user \<Rightarrow> js" where
  "identity_js u = JObj [(''sub'', cuSub u), (''scopes'', JArr (cuScopes u)), (''roles'', JArr (map JStr (cuRoles u))), (''acr'', cuAcr u)]"

definition received_chat :: "chat_user \<Rightarrow> string \<Rightarrow> intent \<Rightarrow> obo_event" where
  "received_chat u message i =
     event ''agent-copilot'' RECEIVE
       (''POST /chat (route: '' @ (case i of RestartGoal _ _ _ \<Rightarrow> ''privileged-a2a'' | Inspect \<Rightarrow> ''read-mcp'') @ '')'')
       ([(''user'', cuSub u), (''scope'', JStr (js_join '' '' (cuScopes u))), (''acr'', cuAcr u), (''message'', JStr message)]
        @ (case i of RestartGoal d ns _ \<Rightarrow> [(''deployment'', JStr d), (''namespace'', opt_js ns)] | Inspect \<Rightarrow> []))"

section \<open>The privileged path\<close>

definition call_specialist_event :: "('w, 'j) platform \<Rightarrow> chat_user \<Rightarrow> js \<Rightarrow> string \<Rightarrow> string option \<Rightarrow> string \<Rightarrow> obo_event" where
  "call_specialist_event P u token deployment ns reason =
     (let tok = token_summary P token
      in event ''agent-copilot'' CALL (arrow @ '' A2A agent-specialist (restart_deployment)'')
           [(''user'', cuSub u), (''deployment'', JStr deployment), (''namespace'', opt_js ns), (''reason'', JStr reason),
            (''token aud'', opt_js (jsAud tok)), (''token scope'', opt_js (jsScope tok)), (''token act'', opt_js (jsAct tok))])"

definition step_up_answer :: "js \<Rightarrow> http_res" where
  "step_up_answer su =
     answer 401
       [(''WWW-Authenticate'', ''Bearer realm=\"agent-copilot\", error=\"insufficient_user_authentication\", acr_values=\"''
           @ js_string (jget su ''acrValues'') @ ''\", resource_metadata=\"'' @ js_string (jget su ''resourceMetadata'') @ ''\"'')]
       [(''kind'', JStr ''step-up''), (''acrValues'', jget su ''acrValues''), (''resourceMetadata'', jget su ''resourceMetadata''),
        (''scope'', jget su ''scope'')]"

definition response_js :: "specialist_response \<Rightarrow> js" where
  "response_js r = JObj [(''ok'', JBool (srOk r)), (''status'', srStatus r), (''text'', opt_js (srText r)), (''result'', srResult r),
     (''stepUp'', or_else (srStepUp r) JUndef)]"

definition privileged_answer ::
  "chat_user \<Rightarrow> string \<Rightarrow> string option \<Rightarrow> string \<Rightarrow> specialist_response \<Rightarrow> string option \<Rightarrow> http_res" where
  "privileged_answer u deployment ns reason resp trace =
     (let steps = jget (srResult resp) ''steps''
      in answer 200 []
        ([(''answer'', JStr (buildPrivilegedAnswer resp deployment)), (''route'', JStr ''privileged-a2a''),
          (''intent'', JObj [(''kind'', JStr ''restart''), (''deployment'', JStr deployment), (''namespace'', opt_js ns),
             (''reasonHint'', JStr reason)])]
         @ (case steps of JArr _ \<Rightarrow> [(''steps'', steps)] | _ \<Rightarrow> [])
         @ [(''specialist'', response_js resp), (''identity'', identity_js u), (''traceId'', opt_js trace)]))"

definition specialist_failure :: "exn \<Rightarrow> http_res" where
  "specialist_failure e =
     (case e of
        CurityAuthError m c \<Rightarrow>
          if code_str c = ''access_denied'' then answer 403 [] [(''kind'', JStr ''access-denied''), (''reason'', JStr m)]
          else answer 502 [] [(''error'', JStr (code_str c)), (''error_description'', JStr m)]
      | _ \<Rightarrow> answer 502 [] [(''error'', JStr ''specialist_failed''), (''error_description'', exn_prop e ''message'')])"

text \<open>\<open>mintToken\<close> is the exchange for the specialist, \<open>send\<close> the A2A client; a failed call forgets the token.\<close>

definition ask_specialist ::
  "('w, 'j) platform \<Rightarrow> ('w, 'j, 'z, unit) act \<Rightarrow> (js \<Rightarrow> js \<Rightarrow> ('w, 'j, 'z, js) act)
   \<Rightarrow> js \<Rightarrow> string \<Rightarrow> string \<Rightarrow> string option \<Rightarrow> string \<Rightarrow> ('w, 'j, 'z, specialist_response) act" where
  "ask_specialist P forget send token message deployment ns reason =
     io_bind (io_try (callSpecialist P send token message deployment ns reason)) (\<lambda>r.
       case r of
         Inl e \<Rightarrow> io_bind forget (\<lambda>_. io_throw e)
       | Inr resp \<Rightarrow> io_return resp)"

definition privileged ::
  "('w, 'j) platform \<Rightarrow> ('w, 'j, 'z, js) act \<Rightarrow> ('w, 'j, 'z, unit) act \<Rightarrow> (js \<Rightarrow> js \<Rightarrow> ('w, 'j, 'z, js) act)
   \<Rightarrow> chat_user \<Rightarrow> string \<Rightarrow> string \<Rightarrow> string option \<Rightarrow> string \<Rightarrow> ('w, 'j, 'z, http_res) act" where
  "privileged P mintToken forget send u message deployment ns reason =
     io_catch
       (io_bind mintToken (\<lambda>token.
        io_bind (oboLog P (call_specialist_event P u token deployment ns reason)) (\<lambda>_.
        io_bind (ask_specialist P forget send token message deployment ns reason) (\<lambda>resp.
          case (if srStatus resp = JStr ''step-up'' then srStepUp resp else None) of
            Some su \<Rightarrow> io_return (step_up_answer su)
          | None \<Rightarrow> io_bind (io_read activeTraceId) (\<lambda>trace. io_return (privileged_answer u deployment ns reason resp trace))))))
       (\<lambda>e. io_bind (emit (ConsoleError ''[agent-copilot] specialist call failed'')) (\<lambda>_. io_return (specialist_failure e)))"

section \<open>The read path\<close>

type_synonym 's copilot_generator =
  "llm_model \<Rightarrow> string \<Rightarrow> (string, 's ai_tool) omap \<Rightarrow> ('s, exn, string \<times> remediation_step list) io"

definition chat_prompt :: "chat_user \<Rightarrow> string \<Rightarrow> string" where
  "chat_prompt u message = ''User: '' @ js_string (cuSub u) @ [CHR 0x0A, CHR 0x0A] @ ''Question: '' @ message"

definition acquire_failure :: "exn \<Rightarrow> string \<times> http_res" where
  "acquire_failure e =
     (if isDiscoveryFailure e
      then (''[agent-copilot] MCP authorization discovery failed'',
            answer 502 [] [(''error'', JStr ''mcp_unavailable''), (''error_description'', exn_prop e ''message'')])
      else (''[agent-copilot] token-exchange failed'',
            answer 403 [] [(''error'', JStr (case e of CurityAuthError _ c \<Rightarrow> code_str c | _ \<Rightarrow> ''exchange_failed'')),
                           (''error_description'', exn_prop e ''message'')]))"

definition generate_answer ::
  "('w, 'j, 'z) proc_scheme copilot_generator \<Rightarrow> llm_model \<Rightarrow> chat_user \<Rightarrow> string \<Rightarrow> ('w, 'j, 'z) proc_scheme toolset
   \<Rightarrow> ('w, 'j, 'z, http_res) act" where
  "generate_answer generate llm u message ts =
     io_finally
       (io_catch
         (io_bind (generate llm (chat_prompt u message) (tsTools ts)) (\<lambda>r.
          io_bind (io_read activeTraceId) (\<lambda>trace.
            io_return (answer 200 [] [(''answer'', JStr (fst r)), (''steps'', JArr (map step_js (snd r))),
              (''identity'', identity_js u), (''traceId'', opt_js trace)]))))
         (\<lambda>e. io_bind (emit (ConsoleError ''[agent-copilot] generation error'')) (\<lambda>_.
            io_return (answer 500 [] [(''error'', JStr ''generation_error''), (''detail'', JStr (exn_string e))]))))
       (tsClose ts)"

definition read_path ::
  "copilot_config \<Rightarrow> ('w, 'j, 'z, js) act \<Rightarrow> ('w, 'j, 'z, js) act \<Rightarrow> ('w, 'j, 'z, ('w, 'j, 'z) proc_scheme toolset) act
   \<Rightarrow> ('w, 'j, 'z) proc_scheme copilot_generator \<Rightarrow> chat_user \<Rightarrow> string \<Rightarrow> ('w, 'j, 'z, http_res) act" where
  "read_path cfg acquire llmToken openTools generate u message =
     io_bind (io_try acquire) (\<lambda>a.
       case a of
         Inl e \<Rightarrow> io_bind (emit (ConsoleError (fst (acquire_failure e)))) (\<lambda>_. io_return (snd (acquire_failure e)))
       | Inr _ \<Rightarrow>
           io_bind (io_try llmToken) (\<lambda>l.
             case l of
               Inl e \<Rightarrow> io_bind (emit (ConsoleError ''[agent-copilot] llm token exchange failed'')) (\<lambda>_.
                           io_return (answer 502 [] [(''error'', JStr ''llm_unavailable'')]))
             | Inr tok \<Rightarrow>
                 io_bind (lift_sum (buildLlm (cpLlmGatewayUrl cfg) tok)) (\<lambda>llm.
                 io_bind (io_try openTools) (\<lambda>t.
                   case t of
                     Inl e \<Rightarrow> io_bind (emit (ConsoleError ''[agent-copilot] failed to open MCP toolset'')) (\<lambda>_.
                                 io_return (answer 502 [] [(''error'', JStr ''mcp_unavailable'')]))
                   | Inr ts \<Rightarrow> generate_answer generate llm u message ts))))"

section \<open>The handler\<close>

text \<open>What the handler calls, for the user of a request; \<open>copilot_services\<close> supplies the real ones.\<close>

record 's chat_services =
  csMintSpecialist :: "chat_user \<Rightarrow> ('s, exn, js) io"
  csForgetSpecialist :: "chat_user \<Rightarrow> ('s, exn, unit) io"
  csSend :: "js \<Rightarrow> js \<Rightarrow> ('s, exn, js) io"
  csAcquireMcp :: "chat_user \<Rightarrow> ('s, exn, js) io"
  csLlmToken :: "chat_user \<Rightarrow> ('s, exn, js) io"
  csOpenTools :: "('s, exn, 's toolset) io"
  csGenerate :: "'s copilot_generator"

definition chat_request ::
  "copilot_config \<Rightarrow> ('w, 'j) platform \<Rightarrow> ('w, 'j, 'z) proc_scheme chat_services \<Rightarrow> chat_user \<Rightarrow> js \<Rightarrow> ('w, 'j, 'z, http_res) act" where
  "chat_request cfg P S u body =
     (case jget body ''message'' of
        JStr message \<Rightarrow>
          if trim message = [] then io_return (answer 400 [] [(''error'', JStr ''bad_request''), (''error_description'', JStr ''message: string required'')])
          else io_bind (oboLog P (received_chat u message (detectIntent message))) (\<lambda>_.
               case detectIntent message of
                 RestartGoal deployment ns reason \<Rightarrow>
                   privileged P (csMintSpecialist S u) (csForgetSpecialist S u) (csSend S) u message deployment ns reason
               | Inspect \<Rightarrow> read_path cfg (csAcquireMcp S u) (csLlmToken S u) (csOpenTools S) (csGenerate S) u message)
      | _ \<Rightarrow> io_return (answer 400 [] [(''error'', JStr ''bad_request''), (''error_description'', JStr ''message: string required'')]))"

definition copilot_services ::
  "copilot_config \<Rightarrow> ('w, 'j) platform \<Rightarrow> 'w mcp_sdk \<Rightarrow> 'w file_reader \<Rightarrow> ('w, 'j, 'z) copilot_scheme client_factory
   \<Rightarrow> (js \<Rightarrow> js \<Rightarrow> ('w, 'j, 'z) copilot_scheme \<Rightarrow> (exn + js) \<times> ('w, 'j, 'z) copilot_scheme)
   \<Rightarrow> ('w, 'j, 'z) copilot_scheme copilot_generator \<Rightarrow> ('w, 'j, 'z) copilot_scheme chat_services" where
  "copilot_services cfg P sdk readFile newClient send generate =
     \<lparr> csMintSpecialist = (\<lambda>u. obtainSpecialistToken cfg P sdk readFile (cuBearer u) (cuSub u) (cuAcr u) True),
       csForgetSpecialist = (\<lambda>u. invalidateSpecialistTokenCache cfg (cuSub u) (cuAcr u)),
       csSend = send,
       csAcquireMcp = (\<lambda>u. io_bind (io_modify (\<lambda>s. s\<lparr> cpProvider := new_provider \<rparr>)) (\<lambda>_.
          copilot_acquire cfg P sdk readFile (cuBearer u) (cuSub u) (cuAcr u) True)),
       csLlmToken = (\<lambda>u. obtainCopilotLlmToken cfg P sdk readFile (cuBearer u) (cuSub u) (cuAcr u)),
       csOpenTools = openMcpToolset P newClient (cpMcpInspectUrl cfg) (provider_token cpProvider) ''agent-copilot'' ''mcp-inspect'' (http_fetch P),
       csGenerate = generate \<rparr>"

definition chat ::
  "copilot_config \<Rightarrow> ('w, 'j) platform \<Rightarrow> ('w, 'j, 'z) proc_scheme chat_services \<Rightarrow> string option \<Rightarrow> js \<Rightarrow> ('w, 'j, 'z, http_res) act" where
  "chat cfg P S header body =
     io_bind (copilot_auth cfg P header) (\<lambda>g.
       case g of
         Respond res \<Rightarrow> io_return res
       | Next p \<Rightarrow> chat_request cfg P S (chat_user_of (fst p) (snd p)) body)"

lemmas chat_eval [eval_simps] = chat_user_of_def identity_js_def received_chat_def call_specialist_event_def step_up_answer_def
  response_js_def privileged_answer_def specialist_failure_def ask_specialist_def privileged_def chat_prompt_def
  acquire_failure_def generate_answer_def read_path_def chat_request_def copilot_services_def chat_def

section \<open>The two paths\<close>

text \<open>
  C36. The two paths of a chat request do not mix: for a message the gate sends to the specialist the
  outcome is the same whatever the MCP hop, the model's token, the tools and the language model are,
  and for any other message it is the same whatever the exchange for the specialist and its client are.
\<close>

theorem chat_paths_do_not_mix:
  assumes "jget body ''message'' = JStr m"
  shows "chat cfg P (case detectIntent m of
      RestartGoal _ _ _ \<Rightarrow> S\<lparr> csAcquireMcp := a, csLlmToken := l, csOpenTools := tl', csGenerate := g \<rparr>
    | Inspect \<Rightarrow> S\<lparr> csMintSpecialist := a, csForgetSpecialist := f, csSend := sd \<rparr>) header body s
    = chat cfg P S header body s"
proof -
  let ?S = "case detectIntent m of
      RestartGoal _ _ _ \<Rightarrow> S\<lparr> csAcquireMcp := a, csLlmToken := l, csOpenTools := tl', csGenerate := g \<rparr>
    | Inspect \<Rightarrow> S\<lparr> csMintSpecialist := a, csForgetSpecialist := f, csSend := sd \<rparr>"
  have "chat_request cfg P ?S u body = chat_request cfg P S u body" for u
    using assms by (cases "detectIntent m") (simp_all add: chat_request_def)
  then show ?thesis by (simp add: chat_def cong: gate.case_cong)
qed

theorem chat_paths_do_not_mix_witness:
  "\<forall>cfg P (S :: (int, string, unit) proc_scheme chat_services) a l tl' g header s.
     chat cfg P (S\<lparr> csAcquireMcp := a, csLlmToken := l, csOpenTools := tl', csGenerate := g \<rparr>) header
       (JObj [(''message'', JStr ''please restart order-service in staging'')]) s
     = chat cfg P S header (JObj [(''message'', JStr ''please restart order-service in staging'')]) s"
proof (intro allI)
  fix cfg P and S :: "(int, string, unit) proc_scheme chat_services" and a l tl' g header s
  show "chat cfg P (S\<lparr> csAcquireMcp := a, csLlmToken := l, csOpenTools := tl', csGenerate := g \<rparr>) header
       (JObj [(''message'', JStr ''please restart order-service in staging'')]) s
     = chat cfg P S header (JObj [(''message'', JStr ''please restart order-service in staging'')]) s"
    using chat_paths_do_not_mix [where body = "JObj [(''message'', JStr ''please restart order-service in staging'')]"
        and m = "''please restart order-service in staging''" and S = S and a = a and l = l and tl' = tl' and g = g]
    by (simp add: intent_examples(1))
qed

text \<open>What a result of the specialist means to the user of the chat.\<close>

lemma tryParse_pretty: "json_ok v \<Longrightarrow> v \<noteq> JUndef \<Longrightarrow> tryParse (json_pretty 0 v) = json_norm v"
  by (simp add: tryParse_def json_parse_pretty or_else_def)

lemma json_norm_undef [simp]: "json_norm v = JUndef \<longleftrightarrow> v = JUndef"
  by (cases v) simp_all

lemma interpret_published:
  assumes "json_ok (fst (published r))"
  shows "interpret_text (Some (json_pretty 0 (fst (published r)))) w =
    (case r of
       StepUp f \<Rightarrow>
         if acrValues f = JUndef
         then \<lparr> srOk = fst w, srStatus = snd w, srText = Some (json_pretty 0 (toPayload f)), srResult = json_norm (toPayload f), srStepUp = None \<rparr>
         else \<lparr> srOk = False, srStatus = JStr ''step-up'', srText = Some (json_pretty 0 (toPayload f)),
                srResult = json_norm (toPayload f), srStepUp = Some (json_norm (jget (toPayload f) ''data'')) \<rparr>
     | Failed err d \<Rightarrow>
         \<lparr> srOk = False, srStatus = JStr ''failed'', srText = Some (json_pretty 0 (fst (published r))),
           srResult = fst (published r), srStepUp = None \<rparr>
     | Done summary steps \<Rightarrow>
         \<lparr> srOk = fst w, srStatus = snd w, srText = Some (json_pretty 0 (fst (published r))),
           srResult = json_norm (fst (published r)), srStepUp = None \<rparr>)"
proof -
  have u: "fst (published r) \<noteq> JUndef" by (cases r) (simp_all add: toPayload_def)
  show ?thesis unfolding interpret_text_def option.case tryParse_pretty [OF assms u]
    by (cases r) (auto simp: isStepUpPayload_def isErrorPayload_def toPayload_def step_up_code_def is_string_def Let_def)
qed

lemma privileged_step:
  assumes "mintToken s = (Inr tok, s1)" "\<And>p u. \<exists>t. send tok p u = (Inr result, t)"
  shows "\<exists>t. privileged P mintToken forget send u message deployment ns reason s =
    (Inr (case (if srStatus (interpret_result result) = JStr ''step-up'' then srStepUp (interpret_result result) else None) of
            Some su \<Rightarrow> step_up_answer su
          | None \<Rightarrow> privileged_answer u deployment ns reason (interpret_result result) (activeTraceId t)), t)"
proof -
  obtain s2 where l: "oboLog P (call_specialist_event P u tok deployment ns reason) s1 = (Inr (), s2)"
    using oboLog_Inr by blast
  obtain id s3 where i: "world_get (randomUUID P) s2 = (Inr id, s3)"
    by (cases "randomUUID P (world s2)") (simp add: world_get_def)
  obtain s4 where c: "send tok (send_params (user_message id message deployment ns reason)) s3 = (Inr result, s4)"
    using assms(2) by blast
  have "ask_specialist P forget send tok message deployment ns reason s2 = (Inr (interpret_result result), s4)"
    using i c by (simp add: ask_specialist_def callSpecialist_def io_try_def io_bind_def io_return_def)
  then show ?thesis using assms(1) l
    by (auto simp: privileged_def io_catch_def io_bind_def io_return_def io_read_def split: option.splits)
qed

text \<open>
  What the specialist publishes reaches the user as what it is. When the A2A reply carries the text of
  a result: a challenge is answered 401 with its acr values, never 200; a failure is answered with a text
  that says it failed; a finished run with its own summary, or with a neutral text when it has none.
\<close>

theorem specialist_outcome_reaches_user:
  assumes "mintToken s = (Inr tok, s1)" "\<And>p u. \<exists>t. send tok p u = (Inr result, t)"
    and "jget result ''kind'' = JStr ''message''" "extractText result = Some (json_pretty 0 (fst (published r)))"
    and "json_ok (fst (published r))"
  shows "\<exists>res t. privileged P mintToken forget send u message deployment ns reason s = (Inr res, t) \<and>
    (case r of
       StepUp f \<Rightarrow> acrValues f = JUndef \<or> (rStatus res = 401 \<and> jget (rBody res) ''kind'' = JStr ''step-up''
         \<and> jget (rBody res) ''acrValues'' = json_norm (acrValues f))
     | Failed err d \<Rightarrow> jget (rBody res) ''answer'' = JStr (''Remediation on '' @ quoted deployment @ '' failed: ''
         @ json_pretty 0 (fst (published r)))
     | Done summary steps \<Rightarrow> jget (rBody res) ''answer'' = JStr (if trim summary \<noteq> [] then trim summary
         else ''Remediation on '' @ quoted deployment @ '' finished, but the specialist returned no summary.''))"
proof -
  have i: "interpret_result result = interpret_text (Some (json_pretty 0 (fst (published r)))) (True, JStr ''completed'')"
    using assms(3,4) by (simp add: interpret_result_def)
  obtain t where t: "privileged P mintToken forget send u message deployment ns reason s =
    (Inr (case (if srStatus (interpret_result result) = JStr ''step-up'' then srStepUp (interpret_result result) else None) of
            Some su \<Rightarrow> step_up_answer su
          | None \<Rightarrow> privileged_answer u deployment ns reason (interpret_result result) (activeTraceId t)), t)"
    using privileged_step [where mintToken = mintToken and send = send, OF assms(1,2)] by blast
  show ?thesis
    unfolding t i interpret_published [OF assms(5)]
    by (intro exI conjI, rule refl)
       (cases r; simp add: step_up_answer_def answer_def privileged_answer_def buildPrivilegedAnswer_def toPayload_def or_else_def Let_def)
qed

definition fixture_chat_user :: chat_user where
  "fixture_chat_user = \<lparr> cuSub = JStr ''bob'', cuAcr = JStr ''mfa'', cuRoles = [''developer''], cuScopes = [], cuBearer = ''tok'' \<rparr>"

definition reply_of :: "remediation_result \<Rightarrow> js" where
  "reply_of r = JObj [(''kind'', JStr ''message''), (''role'', JStr ''agent''),
     (''parts'', JArr [JObj [(''kind'', JStr ''text''), (''text'', JStr (json_pretty 0 (fst (published r))))]])]"

lemma published_text: "json_pretty 0 (fst (published r)) \<noteq> []"
  by (cases r) (simp_all add: toPayload_def)

lemma reply_text: "jget (reply_of r) ''kind'' = JStr ''message''" "extractText (reply_of r) = Some (json_pretty 0 (fst (published r)))"
  using published_text [of r] by (simp_all add: reply_of_def extractText_def part_string_def or_else_def)

theorem specialist_outcome_reaches_user_witness:
  "\<exists>res t. privileged (fixture no_net (\<lambda>_. None)) (io_return (JStr ''tok'')) (io_return ())
      (\<lambda>_ _. io_return (reply_of (Failed ''access_denied'' ''no role''))) fixture_chat_user ''restart order-service'' ''order-service'' None
      ''why'' (idle 0) = (Inr res, t)
    \<and> jget (rBody res) ''answer'' = JStr (''Remediation on '' @ quoted ''order-service'' @ '' failed: ''
         @ json_pretty 0 (fst (published (Failed ''access_denied'' ''no role''))))"
  using specialist_outcome_reaches_user [where r = "Failed ''access_denied'' ''no role''" and mintToken = "io_return (JStr ''tok'')"
      and tok = "JStr ''tok''" and s = "idle 0" and send = "\<lambda>_ _. io_return (reply_of (Failed ''access_denied'' ''no role''))"
      and result = "reply_of (Failed ''access_denied'' ''no role'')"]
  by (simp add: reply_text io_return_def)

section \<open>Every request is answered\<close>

lemma privileged_total: "\<exists>res t. privileged P mintToken forget send u message deployment ns reason s = (Inr res, t)"
proof -
  obtain x v where m: "(io_bind mintToken (\<lambda>token.
        io_bind (oboLog P (call_specialist_event P u token deployment ns reason)) (\<lambda>_.
        io_bind (ask_specialist P forget send token message deployment ns reason) (\<lambda>resp.
          case (if srStatus resp = JStr ''step-up'' then srStepUp resp else None) of
            Some su \<Rightarrow> io_return (step_up_answer su)
          | None \<Rightarrow> io_bind (io_read activeTraceId) (\<lambda>trace. io_return (privileged_answer u deployment ns reason resp trace)))))) s = (x, v)"
    by fastforce
  show ?thesis unfolding privileged_def io_catch_def m by (cases x) (simp_all add: io_bind_def emit_def io_return_def)
qed

lemma generate_total:
  assumes "\<And>v. \<exists>w. tsClose ts v = (Inr (), w)"
  shows "\<exists>res t. generate_answer generate llm u message ts s = (Inr res, t)"
proof -
  obtain r v where m: "io_catch
         (io_bind (generate llm (chat_prompt u message) (tsTools ts)) (\<lambda>r.
          io_bind (io_read activeTraceId) (\<lambda>trace.
            io_return (answer 200 [] [(''answer'', JStr (fst r)), (''steps'', JArr (map step_js (snd r))),
              (''identity'', identity_js u), (''traceId'', opt_js trace)]))))
         (\<lambda>e. io_bind (emit (ConsoleError ''[agent-copilot] generation error'')) (\<lambda>_.
            io_return (answer 500 [] [(''error'', JStr ''generation_error''), (''detail'', JStr (exn_string e))]))) s = (r, v)"
    by fastforce
  then obtain res where "r = Inr res"
    unfolding io_catch_def by (auto simp: io_bind_def emit_def io_return_def split: prod.splits sum.splits)
  then show ?thesis using m assms [of v] by (auto simp: generate_answer_def io_finally_def)
qed

text \<open>
  C38. Every chat request is answered, whatever its parts throw, provided the gateway of the model is
  configured, a model token is never empty and closing the tools does not throw; the last holds of the
  toolset the code opens.
\<close>

theorem chat_always_answers:
  assumes "cpLlmGatewayUrl cfg \<noteq> []" "\<And>u s tok t. csLlmToken S u s = (Inr tok, t) \<Longrightarrow> truthy tok"
    and "\<And>s ts t v. csOpenTools S s = (Inr ts, t) \<Longrightarrow> \<exists>w. tsClose ts v = (Inr (), w)"
  shows "\<exists>res t. chat cfg P S header body s = (Inr res, t)"
proof -
  have read: "\<exists>res t. read_path cfg (csAcquireMcp S u) (csLlmToken S u) (csOpenTools S) (csGenerate S) u m s = (Inr res, t)" for u m s
  proof -
    obtain a v where a: "csAcquireMcp S u s = (a, v)" by fastforce
    obtain l w where l: "csLlmToken S u v = (l, w)" by fastforce
    obtain ot x where ot: "csOpenTools S w = (ot, x)" by fastforce
    show ?thesis
    proof (cases a)
      case (Inl e)
      then show ?thesis using a by (simp add: read_path_def io_try_def io_bind_def emit_def io_return_def)
    next
      case a': (Inr _)
      show ?thesis
      proof (cases l)
        case (Inl e)
        then show ?thesis using a a' l by (simp add: read_path_def io_try_def io_bind_def emit_def io_return_def)
      next
        case l': (Inr tok)
        then obtain llm where b: "buildLlm (cpLlmGatewayUrl cfg) tok = Inr llm" using assms(1,2) l by (auto simp: buildLlm_def)
        show ?thesis
        proof (cases ot)
          case (Inl e)
          then show ?thesis using a a' l l' b ot by (simp add: read_path_def io_try_def io_bind_def lift_sum_def emit_def io_return_def)
        next
          case (Inr ts)
          then show ?thesis using a a' l l' b ot generate_total [OF assms(3) [of w ts x]]
            by (simp add: read_path_def io_try_def io_bind_def lift_sum_def io_return_def)
        qed
      qed
    qed
  qed
  have req: "\<exists>res t. chat_request cfg P S u body s = (Inr res, t)" for u s
  proof (cases "jget body ''message''")
    case (JStr m)
    obtain v where "oboLog P (received_chat u m (detectIntent m)) s = (Inr (), v)" using oboLog_Inr by blast
    then show ?thesis using JStr privileged_total read
      by (cases "detectIntent m") (auto simp: chat_request_def io_bind_def io_return_def)
  qed (simp_all add: chat_request_def io_return_def)
  obtain g v where "copilot_auth cfg P header s = (Inr g, v)" using copilot_gate.total by blast
  then show ?thesis using req by (cases g) (auto simp: chat_def io_bind_def io_return_def)
qed

text \<open>The toolset the code opens can always be closed.\<close>

lemma opened_closes: "openMcpToolset P nc url tk cn lb inner s = (Inr ts, t) \<Longrightarrow> \<exists>w. tsClose ts v = (Inr (), w)"
  by (auto simp: openMcpToolset_def Let_def io_bind_Inr io_return_def best_effort_total)

definition fixture_services :: "(int, string, unit) proc_scheme chat_services" where
  "fixture_services =
     \<lparr> csMintSpecialist = (\<lambda>_. io_throw (type_error ''down'')), csForgetSpecialist = (\<lambda>_. io_return ()),
       csSend = (\<lambda>_ _. io_return JNull), csAcquireMcp = (\<lambda>_. io_return (JStr ''mcp'')), csLlmToken = (\<lambda>_. io_return (JStr ''llm'')),
       csOpenTools = io_return \<lparr> tsTools = [], tsListed = [], tsClose = io_return () \<rparr>,
       csGenerate = (\<lambda>_ _ _. io_throw (type_error ''model'')) \<rparr>"

definition fixture_copilot :: copilot_config where
  "fixture_copilot =
     \<lparr> cpIssuer = ''https://as'', cpDiscoveryTtlMs = 0, cpExchangeCacheTtlMs = 0, cpJwksUri = ''https://as/jwks'',
       cpAudience = ''agent-copilot'', cpMcpInspectUrl = ''https://gw/inspect/mcp'', cpClientId = ''https://copilot'', cpPrivateKeyPem = ''pem'',
       cpMcpInspectAudience = ''mcp-gateway'', cpSpecialistA2aUrl = ''https://sp/a2a'', cpSpecialistAudience = ''agent-specialist'',
       cpSpecialistScope = ''ops:write'', cpLlmGatewayUrl = ''https://gw/llm'', cpLlmGatewayAudience = ''llm-gateway'',
       cpLlmGatewayScope = ''llm:invoke'' \<rparr>"

theorem chat_always_answers_witness:
  "\<exists>res t. chat fixture_copilot (fixture_gate fixture_ops_claims) fixture_services (Some ''Bearer tok'')
      (JObj [(''message'', JStr ''how are the pods?'')]) (idle 0) = (Inr res, t)"
  by (rule chat_always_answers)
     (auto simp: fixture_copilot_def fixture_services_def io_return_def)

end
