(* ===== verification/Bff.thy ===== *)
theory Bff
  imports Chat
begin

text \<open>
  The server side of \<^verbatim>\<open>apps/web/src\<close>: the callbacks of \<^verbatim>\<open>auth.ts\<close>, which keep the user's access token in the
  encrypted session, and the routes under \<^verbatim>\<open>app/api\<close> the browser calls, which attach it to requests of the
  copilot. Auth.js (the session and its decrypted token) and \<^verbatim>\<open>response.text()\<close> are parameters.
\<close>

section \<open>Sessions\<close>

text \<open>The claims of a token, as far as it can be read (\<^verbatim>\<open>lib/asking.ts\<close>); payloads of tokens are objects.\<close>

record asking =
  akSub :: "string option"
  akRoles :: "string list"
  akAcr :: "string option"

definition identityFromAccessToken :: "('w, 'j) platform \<Rightarrow> js \<Rightarrow> asking" where
  "identityFromAccessToken P jwt =
     (let none = \<lparr> akSub = None, akRoles = [], akAcr = None \<rparr>;
          parts = (case jwt of JStr t \<Rightarrow> split_on CHR ''.'' t | _ \<Rightarrow> [])
      in if length parts < 2 \<or> parts ! 1 = [] then none
         else (case jsonSegment P (parts ! 1) of
                 None \<Rightarrow> none
               | Some p \<Rightarrow>
                   if nullish p then none
                   else \<lparr> akSub = str_unless_null (jget p ''sub''),
                          akRoles = (case jget p ''roles'' of
                                       JArr rs \<Rightarrow> map js_string rs
                                     | v \<Rightarrow> if nullish v then [] else [js_string v]),
                          akAcr = str_unless_null (jget p ''acr'') \<rparr>))"

definition asking_js :: "asking \<Rightarrow> js" where
  "asking_js a = JObj [(''sub'', opt_js (akSub a)), (''roles'', JArr (map JStr (akRoles a))), (''acr'', opt_js (akAcr a))]"

text \<open>The \<^verbatim>\<open>jwt\<close> callback, on the members of the token; \<open>JUndef\<close> for an absent argument.\<close>

definition jwt_callback :: "(string \<times> js) list \<Rightarrow> js \<Rightarrow> js \<Rightarrow> (string \<times> js) list" where
  "jwt_callback token account profile =
     (let token1 = (if truthy (jget account ''access_token'')
                    then om_set (om_set (om_set token ''accessToken'' (jget account ''access_token''))
                           ''tokenType'' (js_or (jget account ''token_type'') (JStr ''Bearer'')))
                           ''expiresAt'' (jget account ''expires_at'')
                    else token)
      in if truthy (jget profile ''sub'') then om_set token1 ''sub'' (jget profile ''sub'') else token1)"

definition own_props :: "js \<Rightarrow> (string \<times> js) list" where
  "own_props v =
     (case v of
        JObj kvs \<Rightarrow> kvs
      | JArr xs \<Rightarrow> zip (map nat_str [0..<length xs]) xs
      | JStr s \<Rightarrow> zip (map nat_str [0..<length s]) (map (\<lambda>c. JStr [c]) s)
      | _ \<Rightarrow> [])"

definition session_callback :: "('w, 'j) platform \<Rightarrow> (string \<times> js) list \<Rightarrow> js \<Rightarrow> (string \<times> js) list" where
  "session_callback P session token =
     (let session1 = (if truthy (jget token ''sub'')
                      then om_set session ''user'' (JObj (om_set (own_props (jget (JObj session) ''user'')) ''id'' (jget token ''sub'')))
                      else session)
      in om_set (om_set session1 ''asking'' (asking_js (identityFromAccessToken P (jget token ''accessToken''))))
           ''tokenExpiresAt'' (jget token ''expiresAt''))"

section \<open>The routes\<close>

record 'w web_deps =
  wbSession :: "'w \<Rightarrow> (exn + js) \<times> 'w"     \<comment> \<open>\<^verbatim>\<open>auth()\<close>\<close>
  wbToken :: "'w \<Rightarrow> (exn + js) \<times> 'w"       \<comment> \<open>\<^verbatim>\<open>getToken(...)\<close>\<close>
  wbText :: "http_rsp \<Rightarrow> exn + string"

datatype next_body = JsonBody js | TextBody string

record next_res =
  nxStatus :: int
  nxType :: "string option"
  nxBody :: next_body

definition next_json :: "int \<Rightarrow> (string \<times> js) list \<Rightarrow> next_res" where
  "next_json st kvs = \<lparr> nxStatus = st, nxType = Some ''application/json'', nxBody = JsonBody (JObj kvs) \<rparr>"

definition not_found :: next_res where
  "not_found = \<lparr> nxStatus = 404, nxType = None, nxBody = TextBody ''not found'' \<rparr>"

definition agent_url :: "(string \<Rightarrow> string option) \<Rightarrow> string" where
  "agent_url env = or_else (env ''AGENT_COPILOT_URL'') ''http://agent-copilot.agents.svc.cluster.local:8081''"

text \<open>The opening of every route for a signed-in user.\<close>

definition with_session :: "'w web_deps \<Rightarrow> (js \<Rightarrow> js \<Rightarrow> ('w, 'j, 'z, next_res) act) \<Rightarrow> ('w, 'j, 'z, next_res) act" where
  "with_session W k =
     io_bind (world_try (wbSession W)) (\<lambda>session.
       if \<not> truthy session then io_return (next_json 401 [(''error'', JStr ''unauthenticated'')])
       else io_bind (world_try (wbToken W)) (k session))"

definition with_access_token :: "'w web_deps \<Rightarrow> (js \<Rightarrow> js \<Rightarrow> ('w, 'j, 'z, next_res) act) \<Rightarrow> ('w, 'j, 'z, next_res) act" where
  "with_access_token W k =
     with_session W (\<lambda>_ token.
       if \<not> truthy (jget token ''accessToken'') then io_return (next_json 401 [(''error'', JStr ''no_access_token'')])
       else k token (jget token ''accessToken''))"

definition bearer_header :: "js \<Rightarrow> string \<times> string" where
  "bearer_header accessToken = (''authorization'', ''Bearer '' @ js_string accessToken)"

definition chat_call_event :: "('w, 'j) platform \<Rightarrow> js \<Rightarrow> js \<Rightarrow> obo_event" where
  "chat_call_event P accessToken message =
     (let tok = token_summary P accessToken
      in event ''web'' CALL (arrow @ '' agent-copilot POST /chat'')
           [(''user'', opt_js (jsSub tok)), (''scope'', opt_js (jsScope tok)), (''acr'', opt_js (jsAcr tok)),
            (''roles'', opt_js (jsRoles tok)), (''token aud'', opt_js (jsAud tok)), (''message'', message)])"

definition chat_forward :: "(string \<Rightarrow> string option) \<Rightarrow> js \<Rightarrow> js \<Rightarrow> http_req" where
  "chat_forward env accessToken message =
     \<lparr> qMethod = ''POST'', qUrl = agent_url env @ ''/chat'',
       qHeaders = [(''content-type'', ''application/json''), bearer_header accessToken],
       qBody = json_text (JObj [(''message'', message)]) \<rparr>"

definition bare_get :: "string \<Rightarrow> http_req" where
  "bare_get url = \<lparr> qMethod = ''GET'', qUrl = url, qHeaders = [], qBody = [] \<rparr>"

text \<open>The hint at the authorization server is best effort.\<close>

definition auth_server_hint :: "('w, 'j) platform \<Rightarrow> js \<Rightarrow> ('w, 'j, 'z, js) act" where
  "auth_server_hint P metadataUrl =
     io_catch
       (io_bind (http_fetch P (bare_get (js_string metadataUrl))) (\<lambda>r.
        io_bind (lift_sum (pJson r)) (\<lambda>md.
        io_bind (prop_of md ''authorization_servers'') (\<lambda>servers.
          io_return (js_or (js_first servers) (JStr []))))))
       (\<lambda>_. io_return (JStr []))"

definition passthrough :: "http_rsp \<Rightarrow> string \<Rightarrow> next_res" where
  "passthrough upstream raw =
     \<lparr> nxStatus = pStatus upstream, nxType = Some (or_else (rsp_header upstream ''content-type'') ''application/json''),
       nxBody = TextBody raw \<rparr>"

definition parse_or_undef :: "string \<Rightarrow> js" where
  "parse_or_undef raw = (if raw = [] then JUndef else or_else (json_parse raw) JUndef)"

text \<open>What the answer of the copilot becomes.\<close>

definition typed_answer :: "('w, 'j) platform \<Rightarrow> http_rsp \<Rightarrow> string \<Rightarrow> ('w, 'j, 'z, next_res) act" where
  "typed_answer P upstream raw =
     (let parsed = parse_or_undef raw; kind = jget parsed ''kind''
      in if pStatus upstream = 401 \<and> kind = JStr ''step-up''
           then io_bind (auth_server_hint P (jget parsed ''resourceMetadata'')) (\<lambda>authServer.
                  io_return (next_json 401 [(''kind'', JStr ''step-up''), (''acrValues'', jget parsed ''acrValues''),
                    (''scope'', jget parsed ''scope''), (''authServer'', authServer)]))
         else if pStatus upstream = 403 \<and> kind = JStr ''access-denied''
           then io_return (next_json 403 [(''kind'', JStr ''access-denied''), (''reason'', jget parsed ''reason'')])
         else io_return (passthrough upstream raw))"

text \<open>\<open>POST /api/agent\<close>; \<open>body\<close> is \<^verbatim>\<open>req.json()\<close>.\<close>

definition agent_post ::
  "(string \<Rightarrow> string option) \<Rightarrow> ('w, 'j) platform \<Rightarrow> 'w web_deps \<Rightarrow> exn + js \<Rightarrow> ('w, 'j, 'z, next_res) act" where
  "agent_post env P W body =
     with_access_token W (\<lambda>_ accessToken.
       io_bind (lift_sum body) (\<lambda>b.
       io_bind (prop_of b ''message'') (\<lambda>message.
         if \<not> truthy message then io_return (next_json 400 [(''error'', JStr ''message required'')])
         else io_bind (oboLog P (chat_call_event P accessToken message)) (\<lambda>_.
              io_bind (http_fetch P (chat_forward env accessToken message)) (\<lambda>upstream.
              io_bind (lift_sum (wbText W upstream)) (\<lambda>raw.
                if pStatus upstream = 401 \<or> pStatus upstream = 403 then typed_answer P upstream raw
                else io_return (passthrough upstream raw)))))))"

definition token_get :: "string \<Rightarrow> js \<Rightarrow> http_req" where
  "token_get url accessToken = \<lparr> qMethod = ''GET'', qUrl = url, qHeaders = [bearer_header accessToken], qBody = [] \<rparr>"

text \<open>What the three proxying routes share: an expired token is told apart from other failures.\<close>

definition proxied ::
  "('w, 'j) platform \<Rightarrow> 'w web_deps \<Rightarrow> string \<Rightarrow> string \<Rightarrow> js \<Rightarrow> (js \<Rightarrow> ('w, 'j, 'z, next_res) act) \<Rightarrow> ('w, 'j, 'z, next_res) act" where
  "proxied P W tag url accessToken k =
     io_bind (http_fetch P (token_get url accessToken)) (\<lambda>upstream.
       if rsp_ok upstream then io_bind (lift_sum (pJson upstream)) k
       else if pStatus upstream = 401 then io_return (next_json 401 [(''error'', JStr ''session_expired'')])
       else io_bind (lift_sum (wbText W upstream)) (\<lambda>raw.
            io_bind (emit (ConsoleError (''['' @ tag @ ''] upstream error '' @ int_str (pStatus upstream) @ '' '' @ raw))) (\<lambda>_.
              io_return (next_json 502 [(''error'', JStr ''upstream_error''), (''status'', JNum (pStatus upstream))]))))"

definition json_answer :: "js \<Rightarrow> next_res" where
  "json_answer v = \<lparr> nxStatus = 200, nxType = Some ''application/json'', nxBody = JsonBody v \<rparr>"

definition obo_chain_get :: "(string \<Rightarrow> string option) \<Rightarrow> ('w, 'j) platform \<Rightarrow> 'w web_deps \<Rightarrow> ('w, 'j, 'z, next_res) act" where
  "obo_chain_get env P W =
     with_access_token W (\<lambda>_ accessToken.
       proxied P W ''obo-chain'' (agent_url env @ ''/last-token'') accessToken (\<lambda>body. io_return (json_answer body)))"

definition tools_get :: "(string \<Rightarrow> string option) \<Rightarrow> ('w, 'j) platform \<Rightarrow> 'w web_deps \<Rightarrow> ('w, 'j, 'z, next_res) act" where
  "tools_get env P W =
     with_access_token W (\<lambda>_ accessToken.
       proxied P W ''tools'' (agent_url env @ ''/tools'') accessToken (\<lambda>body. io_return (json_answer body)))"

definition auth_debug :: "(string \<Rightarrow> string option) \<Rightarrow> bool" where
  "auth_debug env = (env ''AUTH_DEBUG'' = Some ''true'')"

definition tokens_get :: "(string \<Rightarrow> string option) \<Rightarrow> ('w, 'j) platform \<Rightarrow> 'w web_deps \<Rightarrow> ('w, 'j, 'z, next_res) act" where
  "tokens_get env P W =
     (if \<not> auth_debug env then io_return not_found
      else with_access_token W (\<lambda>token accessToken.
        proxied P W ''tokens'' (agent_url env @ ''/last-token?raw=1'') accessToken (\<lambda>body.
          io_bind (prop_of body ''chain'') (\<lambda>chain.
            io_return (next_json 200 [(''sub'', jget token ''sub''), (''expires_at'', jget token ''expiresAt''),
              (''chain'', js_or chain (JArr []))])))))"

definition dev_token_get :: "(string \<Rightarrow> string option) \<Rightarrow> 'w web_deps \<Rightarrow> ('w, 'j, 'z, next_res) act" where
  "dev_token_get env W =
     (if \<not> auth_debug env then io_return not_found
      else with_session W (\<lambda>_ token.
        (let accessToken = jget token ''accessToken''
         in if \<not> truthy accessToken then io_return (next_json 500 [(''error'', JStr ''no access token in session'')])
            else io_bind (emit (Console (json_text (JObj [(''tag'', JStr ''dev.token''), (''sub'', jget token ''sub''),
                   (''access_token'', accessToken)])))) (\<lambda>_.
                 io_return (next_json 200 [(''sub'', jget token ''sub''), (''expires_at'', jget token ''expiresAt''),
                   (''access_token'', accessToken),
                   (''curl_smoke_hint'', JStr ''export SMOKE_SUBJECT_TOKEN=\"<paste access_token value>\"; make smoke'')])))))"

text \<open>\<^verbatim>\<open>safeJwtHeader\<close> and \<^verbatim>\<open>safeJwtPayload\<close>: a part of the token as JSON, or null.\<close>

definition safe_jwt_part :: "('w, 'j) platform \<Rightarrow> nat \<Rightarrow> js \<Rightarrow> js" where
  "safe_jwt_part P i jwt =
     (let parts = split_on CHR ''.'' (js_string jwt)
      in if length parts < 2 then JNull else or_else (jsonSegment P (parts ! i)) JNull)"

definition safe_jwt_payload :: "('w, 'j) platform \<Rightarrow> js \<Rightarrow> js" where
  "safe_jwt_payload P jwt =
     (case safe_jwt_part P 1 jwt of
        JObj kvs \<Rightarrow> JObj (om_delete kvs ''signature'')
      | v \<Rightarrow> v)"

definition whoami_get :: "('w, 'j) platform \<Rightarrow> 'w web_deps \<Rightarrow> ('w, 'j, 'z, next_res) act" where
  "whoami_get P W =
     with_session W (\<lambda>session token.
       (let user = jget session ''user''; accessToken = jget token ''accessToken''
        in io_return (next_json 200
             [(''sub'', js_or (jget token ''sub'') (jget user ''id'')), (''name'', jget user ''name''), (''email'', jget user ''email''),
              (''has_access_token'', JBool (truthy accessToken)),
              (''access_token_jwt_header'', if truthy accessToken then safe_jwt_part P 0 accessToken else JNull),
              (''access_token_payload_preview'', if truthy accessToken then safe_jwt_payload P accessToken else JNull),
              (''token_type'', jget token ''tokenType''), (''expires_at'', jget token ''expiresAt'')])))"

definition health_get :: next_res where
  "health_get = next_json 200 [(''ok'', JBool True), (''service'', JStr ''web'')]"

section \<open>The workload identities\<close>

definition svid_audience :: string where "svid_audience = ''https://curity.localtest.me/oauth/v2/oauth-token''"

definition web_source :: svid_source where
  "web_source = new_svid_source [(svid_audience, ''/run/spiffe/curity-actor.jwt'')]"

definition svid_members :: "svid \<Rightarrow> int \<Rightarrow> (string \<times> js) list" where
  "svid_members sv now =
     (let c = svClaims sv
      in [(''sub'', jget c ''sub''), (''aud'', jget c ''aud''), (''iss'', jget c ''iss''), (''iat'', jget c ''iat''),
          (''exp'', jget c ''exp''), (''ttl_seconds'', js_minus (jget c ''exp'') (now div 1000))])"

text \<open>\<^verbatim>\<open>/spiffe-id\<close> of the agents and the MCP servers, the same file four times.\<close>

definition spiffe_route :: "('w, 'j) platform \<Rightarrow> 'w file_reader \<Rightarrow> ('w, 'j, 'z, http_res) act" where
  "spiffe_route P readFile =
     io_bind (getSvid P readFile web_source svid_audience) (\<lambda>r.
       case r of
         None \<Rightarrow> io_return (answer 503 [] [(''error'', JStr ''spiffe_svid_unavailable'')])
       | Some sv \<Rightarrow> io_bind (world_get (dateNow P)) (\<lambda>now. io_return (answer 200 [] (svid_members sv now))))"

definition fetchRemote :: "('w, 'j) platform \<Rightarrow> string \<Rightarrow> string \<Rightarrow> ('w, 'j, 'z, js) act" where
  "fetchRemote P workload url =
     io_catch
       (io_bind (http_fetch P (bare_get (url @ ''/spiffe-id''))) (\<lambda>r.
          if \<not> rsp_ok r
          then io_return (JObj [(''workload'', JStr workload), (''error'', JStr (int_str (pStatus r) @ '' '' @ pStatusText r))])
          else io_bind (lift_sum (pJson r)) (\<lambda>body. io_return (JObj (spread [(''workload'', JStr workload)] (own_props body))))))
       (\<lambda>e. io_return (JObj [(''workload'', JStr workload), (''error'', JStr (exn_string e))]))"

definition readLocalWebSvid :: "('w, 'j) platform \<Rightarrow> 'w file_reader \<Rightarrow> ('w, 'j, 'z, js) act" where
  "readLocalWebSvid P readFile =
     io_bind (getSvid P readFile web_source svid_audience) (\<lambda>r.
       case r of
         None \<Rightarrow> io_return (JObj [(''workload'', JStr ''web''), (''error'', JStr ''spiffe_svid_unavailable'')])
       | Some sv \<Rightarrow> io_bind (world_get (dateNow P)) (\<lambda>now. io_return (JObj ((''workload'', JStr ''web'') # svid_members sv now))))"

fun fetch_all :: "('w, 'j) platform \<Rightarrow> (string \<times> string) list \<Rightarrow> ('w, 'j, 'z, js list) act" where
  "fetch_all P [] = io_return []"
| "fetch_all P (w # ws) = io_bind (fetchRemote P (fst w) (snd w)) (\<lambda>v. io_bind (fetch_all P ws) (\<lambda>vs. io_return (v # vs)))"

text \<open>The workloads of a flow besides the web server and the copilot; \<open>flow\<close> is the query parameter.\<close>

definition svid_tail :: "(string \<Rightarrow> string option) \<Rightarrow> string option \<Rightarrow> (string \<times> string) list" where
  "svid_tail env flow =
     (let gateway = (''agentgateway'', or_else (env ''AGENTGATEWAY_URL'') ''http://agentgateway.mcp.svc.cluster.local:8080'');
          inspect = (''mcp-inspect'', or_else (env ''MCP_INSPECT_URL'') ''http://mcp-inspect.mcp.svc.cluster.local:8080'')
      in if flow = Some ''privileged''
         then [(''agent-specialist'', or_else (env ''AGENT_SPECIALIST_URL'') ''http://agent-specialist.agents.svc.cluster.local:8082''),
               gateway, inspect, (''mcp-ops'', or_else (env ''MCP_OPS_URL'') ''http://mcp-ops.mcp.svc.cluster.local:8080'')]
         else [gateway, inspect])"

text \<open>The requests are started together, those of the tail first; here one completes before the next.\<close>

definition spiffe_identities_get ::
  "(string \<Rightarrow> string option) \<Rightarrow> ('w, 'j) platform \<Rightarrow> 'w file_reader \<Rightarrow> string option \<Rightarrow> ('w, 'j, 'z, next_res) act" where
  "spiffe_identities_get env P readFile flow =
     io_bind (fetch_all P (svid_tail env flow)) (\<lambda>rest.
     io_bind (readLocalWebSvid P readFile) (\<lambda>web.
     io_bind (fetchRemote P ''agent-copilot'' (agent_url env)) (\<lambda>copilot.
       io_return (next_json 200 [(''workloads'', JArr (web # copilot # rest))]))))"

lemmas bff_eval [eval_simps] = identityFromAccessToken_def asking_js_def jwt_callback_def own_props_def session_callback_def
  next_json_def not_found_def agent_url_def with_session_def with_access_token_def bearer_header_def chat_call_event_def
  chat_forward_def bare_get_def auth_server_hint_def passthrough_def parse_or_undef_def typed_answer_def agent_post_def
  token_get_def proxied_def json_answer_def obo_chain_get_def tools_get_def auth_debug_def tokens_get_def dev_token_get_def
  safe_jwt_part_def safe_jwt_payload_def whoami_get_def health_get_def

section \<open>Where the user's token goes\<close>

text \<open>
  The nine routes under \<^verbatim>\<open>app/api\<close> but \<^verbatim>\<open>auth/[...nextauth]\<close>, which is the handler Auth.js itself exports. The
  route of the workload identities takes its query parameter \<^verbatim>\<open>flow\<close>.
\<close>

datatype bff_route =
    AgentRoute | OboChainRoute | ToolsRoute | TokensRoute | DevTokenRoute | WhoamiRoute | HealthRoute
  | SpiffeIdentitiesRoute "string option"

definition bff_serve ::
  "bff_route \<Rightarrow> (string \<Rightarrow> string option) \<Rightarrow> ('w, 'j) platform \<Rightarrow> 'w web_deps \<Rightarrow> 'w file_reader \<Rightarrow> exn + js
     \<Rightarrow> ('w, 'j, 'z, next_res) act" where
  "bff_serve r env P W readFile body =
     (case r of
        AgentRoute \<Rightarrow> agent_post env P W body
      | OboChainRoute \<Rightarrow> obo_chain_get env P W
      | ToolsRoute \<Rightarrow> tools_get env P W
      | TokensRoute \<Rightarrow> tokens_get env P W
      | DevTokenRoute \<Rightarrow> dev_token_get env W
      | WhoamiRoute \<Rightarrow> whoami_get P W
      | HealthRoute \<Rightarrow> io_return health_get
      | SpiffeIdentitiesRoute flow \<Rightarrow> spiffe_identities_get env P readFile flow)"

text \<open>
  What may leave the server for a token: one request of the copilot with it, at the path of the route, then,
  when the answer is the challenge of \<^verbatim>\<open>/api/agent\<close>, one bare lookup. And what leaves it for the workload
  identities: bare requests of \<^verbatim>\<open>/spiffe-id\<close> at the workloads of the flow.
\<close>

fun upstream_path :: "bff_route \<Rightarrow> string" where
  "upstream_path AgentRoute = ''/chat''"
| "upstream_path OboChainRoute = ''/last-token''"
| "upstream_path ToolsRoute = ''/tools''"
| "upstream_path TokensRoute = ''/last-token?raw=1''"
| "upstream_path r = []"

definition challenges :: "exn + next_res \<Rightarrow> bool" where
  "challenges x = (\<exists>a b. x = Inr a \<and> nxStatus a = 401 \<and> nxBody a = JsonBody b \<and> jget b ''kind'' = JStr ''step-up'')"

definition forwards :: "bff_route \<Rightarrow> (string \<Rightarrow> string option) \<Rightarrow> js \<Rightarrow> http_req list \<Rightarrow> exn + next_res \<Rightarrow> bool" where
  "forwards r env accessToken qs x =
     (qs = [] \<or> (\<exists>q rest. qs = q # rest \<and> qUrl q = agent_url env @ upstream_path r \<and> bearer_header accessToken \<in> set (qHeaders q)
        \<and> (rest = [] \<or> (r = AgentRoute \<and> challenges x \<and> (\<exists>u. rest = [bare_get u])))))"

definition identity_requests :: "(string \<Rightarrow> string option) \<Rightarrow> string option \<Rightarrow> http_req set" where
  "identity_requests env flow =
     (\<lambda>w. bare_get (snd w @ ''/spiffe-id'')) ` set ((''agent-copilot'', agent_url env) # svid_tail env flow)"

lemma does_hint: "does (auth_server_hint P u) (\<lambda>es x. requests es = [bare_get (js_string u)] \<and> (\<exists>v. x = Inr v))"
  by (auto simp: does_def auth_server_hint_def io_catch_def io_bind_def http_fetch_def emit_def world_try_def lift_sum_def prop_of_def
      io_return_def io_throw_def split: sum.splits prod.splits if_splits)

lemma does_if: "(b \<Longrightarrow> does m Q) \<Longrightarrow> (\<not> b \<Longrightarrow> does n Q) \<Longrightarrow> does (if b then m else n) Q"
  by simp

lemma does_typed:
  "does (typed_answer P upstream raw) (\<lambda>es x. requests es = [] \<or> challenges x \<and> (\<exists>u. requests es = [bare_get u]))"
  unfolding typed_answer_def Let_def
  by (intro does_if does_conseq [OF does_return] does_conseq [OF does_bind [OF does_hint does_return]])
     (auto simp: challenges_def next_json_def)

lemma does_forwarding:
  fixes P :: "('a, 'b) platform"
  shows "does (io_bind (http_fetch P (chat_forward env a m)) (\<lambda>upstream.
           io_bind (lift_sum (wbText W upstream)) (\<lambda>raw.
             if pStatus upstream = 401 \<or> pStatus upstream = 403 then typed_answer P upstream raw
             else io_return (passthrough upstream raw))) :: ('a, 'b, 'd, next_res) act) (\<lambda>es x. forwards AgentRoute env a (requests es) x)"
proof -
  have k: "does (if b then typed_answer P u raw else io_return (passthrough u raw) :: ('a, 'b, 'd, next_res) act)
      (\<lambda>es x. requests es = [] \<or> challenges x \<and> (\<exists>u. requests es = [bare_get u]))" for b u raw
    by (intro does_if does_typed does_conseq [OF does_return]) simp
  have t: "does (io_bind (lift_sum (wbText W u)) (\<lambda>raw. if b then typed_answer P u raw else io_return (passthrough u raw)) :: ('a, 'b, 'd, next_res) act)
      (\<lambda>es x. requests es = [] \<or> challenges x \<and> (\<exists>u. requests es = [bare_get u]))" for b u
    by (rule does_conseq [OF does_bind [OF does_lift_sum k]]) auto
  show ?thesis
    by (rule does_conseq [OF does_bind [OF does_http_fetch t]]) (auto simp: forwards_def chat_forward_def)
qed

lemma does_quiet: "emits no_request m \<Longrightarrow> does m (\<lambda>es x. requests es = [])"
  unfolding emits_def by (erule does_conseq) (rule no_request_requests)

lemma does_proxied:
  assumes "\<And>v. emits no_request (k v)" and "path = upstream_path r"
  shows "does (proxied P W tag (agent_url env @ path) a k) (\<lambda>es x. forwards r env a (requests es) x)"
  unfolding proxied_def
  by (rule does_conseq [OF does_bind [OF does_http_fetch does_quiet]])
     (intro emits_intros assms(1), auto simp: forwards_def token_get_def assms(2))

lemma with_session_does:
  assumes "with_session W k s = (x, t)" "\<And>sess tok. does (k sess tok) (R sess tok)"
  shows "\<exists>es. out t = out s @ es \<and> (es = [] \<or> (\<exists>sess tok w1 w2. wbSession W (world s) = (Inr sess, w1) \<and> truthy sess
    \<and> wbToken W w1 = (Inr tok, w2) \<and> R sess tok es x))"
proof -
  obtain a w1 where a: "wbSession W (world s) = (a, w1)" by fastforce
  show ?thesis
  proof (cases "\<exists>sess. a = Inr sess \<and> truthy sess")
    case True
    then obtain sess where sess: "a = Inr sess" "truthy sess" by blast
    obtain b w2 where b: "wbToken W w1 = (b, w2)" by fastforce
    show ?thesis
    proof (cases b)
      case (Inl e)
      then show ?thesis using assms(1) a sess b by (auto simp: with_session_def io_bind_def world_try_def)
    next
      case (Inr tok)
      then have "k sess tok (s\<lparr>world := w2\<rparr>) = (x, t)"
        using assms(1) a sess b by (simp add: with_session_def io_bind_def world_try_def)
      then obtain es where "out t = out s @ es" "R sess tok es x" using doesD [OF assms(2)] by fastforce
      then show ?thesis using a sess b Inr by blast
    qed
  next
    case False
    then show ?thesis using assms(1) a
      by (auto simp: with_session_def io_bind_def world_try_def io_return_def split: sum.splits)
  qed
qed

lemma does_after_quiet:
  assumes "emits no_request m" "\<And>x. Q [] x" "\<And>a. does (f a) (\<lambda>es x. Q (requests es) x)"
  shows "does (io_bind m f) (\<lambda>es x. Q (requests es) x)"
  by (rule does_conseq [OF does_bind [OF does_quiet [OF assms(1)] assms(3)]]) (auto simp: assms(2))

lemma does_no_request: "(\<And>x. Q [] x) \<Longrightarrow> emits no_request m \<Longrightarrow> does m (\<lambda>es x. Q (requests es) x)"
  by (rule does_conseq [OF does_quiet]) auto

text \<open>What a token allows, and the routes for a signed-in user.\<close>

definition allowed_by :: "bff_route \<Rightarrow> (string \<Rightarrow> string option) \<Rightarrow> js \<Rightarrow> http_req list \<Rightarrow> exn + next_res \<Rightarrow> bool" where
  "allowed_by r env tok qs x = (qs = [] \<or> (truthy (jget tok ''accessToken'') \<and> forwards r env (jget tok ''accessToken'') qs x))"

lemma with_access_token_does:
  assumes "\<And>tok. truthy (jget tok ''accessToken'') \<Longrightarrow> does (k tok (jget tok ''accessToken'')) (\<lambda>es x. forwards r env (jget tok ''accessToken'') (requests es) x)"
    and "with_access_token W k s = (x, t)"
  shows "\<exists>es. out t = out s @ es \<and> (es = [] \<or> (\<exists>sess tok w1 w2. wbSession W (world s) = (Inr sess, w1) \<and> truthy sess
    \<and> wbToken W w1 = (Inr tok, w2) \<and> allowed_by r env tok (requests es) x))"
  by (rule with_session_does [OF assms(2) [unfolded with_access_token_def]], rule does_if)
     (auto intro: does_conseq [OF does_return] does_conseq [OF assms(1)] simp: allowed_by_def)

lemma does_agent:
  "does (io_bind (lift_sum body) (\<lambda>b.
       io_bind (prop_of b ''message'') (\<lambda>message.
         if \<not> truthy message then io_return (next_json 400 [(''error'', JStr ''message required'')])
         else io_bind (oboLog P (chat_call_event P a message)) (\<lambda>_.
              io_bind (http_fetch P (chat_forward env a message)) (\<lambda>upstream.
              io_bind (lift_sum (wbText W upstream)) (\<lambda>raw.
                if pStatus upstream = 401 \<or> pStatus upstream = 403 then typed_answer P upstream raw
                else io_return (passthrough upstream raw))))))) (\<lambda>es x. forwards AgentRoute env a (requests es) x)"
  by (intro does_after_quiet does_if does_forwarding does_no_request emits_intros) (auto simp: forwards_def)

lemma dev_token_quiet: "emits no_request (dev_token_get env W)"
  unfolding dev_token_get_def with_session_def Let_def by (intro emits_intros) simp_all

lemma whoami_quiet: "emits no_request (whoami_get P W)"
  unfolding whoami_get_def with_session_def Let_def by (intro emits_intros)

text \<open>The workload identities are asked for with nothing but the address.\<close>

lemma web_svid_quiet: "emits no_request (readLocalWebSvid P readFile)"
  unfolding readLocalWebSvid_def getSvid_def by (auto intro!: emits_intros split: option.splits)

lemma does_fetchRemote: "does (fetchRemote P n u) (\<lambda>es x. requests es = [bare_get (u @ ''/spiffe-id'')])"
  by (auto simp: does_def fetchRemote_def io_catch_def io_bind_def http_fetch_def emit_def world_try_def lift_sum_def
      io_return_def io_throw_def split: sum.splits prod.splits if_splits)

lemma does_fetch_all:
  "does (fetch_all P ws) (\<lambda>es x. set (requests es) \<subseteq> (\<lambda>w. bare_get (snd w @ ''/spiffe-id'')) ` set ws)"
proof (induction ws)
  case Nil
  show ?case by (auto intro: does_conseq [OF does_return])
next
  case (Cons w ws)
  show ?case unfolding fetch_all.simps
    by (rule does_conseq [OF does_bind [OF does_fetchRemote does_bind [OF Cons.IH does_return]]]) auto
qed

lemma does_identities:
  "does (spiffe_identities_get env P readFile flow) (\<lambda>es x. set (requests es) \<subseteq> identity_requests env flow)"
  unfolding spiffe_identities_get_def
  by (rule does_conseq [OF does_bind [OF does_fetch_all does_bind [OF does_quiet [OF web_svid_quiet]
        does_bind [OF does_fetchRemote does_return]]]])
     (auto simp: identity_requests_def)

lemma proxied_paths:
  assumes "\<And>v. emits no_request (k v)"
  shows "does (proxied P W tag (agent_url env @ ''/last-token'') a k) (\<lambda>es x. forwards OboChainRoute env a (requests es) x)"
    and "does (proxied P W tag (agent_url env @ ''/tools'') a k) (\<lambda>es x. forwards ToolsRoute env a (requests es) x)"
    and "does (proxied P W tag (agent_url env @ ''/last-token?raw=1'') a k) (\<lambda>es x. forwards TokensRoute env a (requests es) x)"
  by (rule does_proxied [OF assms], simp)+

lemma signed_in:
  assumes "with_access_token W k s = (x, t)" "\<And>tok a. does (k tok a) (\<lambda>es x. forwards r env a (requests es) x)"
  shows "\<exists>es. out t = out s @ es \<and>
    (requests es = [] \<or> (\<exists>sess tok w1 w2. wbSession W (world s) = (Inr sess, w1) \<and> truthy sess \<and> wbToken W w1 = (Inr tok, w2)
       \<and> truthy (jget tok ''accessToken'') \<and> forwards r env (jget tok ''accessToken'') (requests es) x))"
  using with_access_token_does [OF assms(2) assms(1)] by (fastforce simp: allowed_by_def)

text \<open>The two debugging routes: nothing at all without AUTH_DEBUG.\<close>

lemma tokens_run:
  assumes "tokens_get env P W s = (x, t)"
  shows "\<exists>es. out t = out s @ es \<and> (\<not> auth_debug env \<longrightarrow> es = [] \<and> x = Inr not_found) \<and>
    (requests es = [] \<or> (\<exists>sess tok w1 w2. wbSession W (world s) = (Inr sess, w1) \<and> truthy sess \<and> wbToken W w1 = (Inr tok, w2)
       \<and> truthy (jget tok ''accessToken'') \<and> forwards TokensRoute env (jget tok ''accessToken'') (requests es) x))"
proof (cases "auth_debug env")
  case True
  then have "with_access_token W (\<lambda>token accessToken.
    proxied P W ''tokens'' (agent_url env @ ''/last-token?raw=1'') accessToken (\<lambda>body.
      io_bind (prop_of body ''chain'') (\<lambda>chain.
        io_return (next_json 200 [(''sub'', jget token ''sub''), (''expires_at'', jget token ''expiresAt''),
          (''chain'', js_or chain (JArr []))])))) s = (x, t)" using assms by (simp add: tokens_get_def)
  from signed_in [OF this proxied_paths(3) [OF emits_bind [OF emits_atoms(8) emits_atoms(1)]]] show ?thesis using True by simp
next
  case False
  then show ?thesis using assms by (simp add: tokens_get_def io_return_def)
qed

lemma dev_token_run:
  assumes "dev_token_get env W s = (x, t)"
  shows "\<exists>es. out t = out s @ es \<and> requests es = [] \<and> (\<not> auth_debug env \<longrightarrow> es = [] \<and> x = Inr not_found)"
proof (cases "auth_debug env")
  case True
  then show ?thesis using emitsD [OF dev_token_quiet assms] no_request_requests by blast
next
  case False
  then show ?thesis using assms by (simp add: dev_token_get_def io_return_def)
qed

text \<open>
  C14. The user's access token leaves the web server, in a request, only for the copilot. Every route but that of
  the workload identities makes no request unless the browser has a session with a token; then the first one goes
  to the route's own path at the configured copilot with that very token as bearer, and there is a second one only
  for \<^verbatim>\<open>/api/agent\<close>, when the browser is answered with the step-up challenge, and it carries no header at all. The
  route of the workload identities needs no session, and all its requests are bare ones, without header or body,
  of \<^verbatim>\<open>/spiffe-id\<close> at the copilot and at the workloads of the flow. The two debugging routes that show raw tokens
  do nothing unless AUTH_DEBUG is set to true.
\<close>

theorem token_stays_on_the_server:
  assumes "bff_serve r env P W readFile body s = (x, t)"
  shows "\<exists>es. out t = out s @ es
    \<and> (case r of
         SpiffeIdentitiesRoute flow \<Rightarrow> set (requests es) \<subseteq> identity_requests env flow
       | _ \<Rightarrow> requests es = [] \<or> (\<exists>sess tok w1 w2. wbSession W (world s) = (Inr sess, w1) \<and> truthy sess
           \<and> wbToken W w1 = (Inr tok, w2) \<and> truthy (jget tok ''accessToken'')
           \<and> forwards r env (jget tok ''accessToken'') (requests es) x))
    \<and> (r \<in> {TokensRoute, DevTokenRoute} \<and> \<not> auth_debug env \<longrightarrow> es = [] \<and> x = Inr not_found)"
proof -
  note serve = assms [unfolded bff_serve_def]
  show ?thesis
  proof (cases r)
    case AgentRoute
    have "agent_post env P W body s = (x, t)" using serve AgentRoute by simp
    from signed_in [OF this [unfolded agent_post_def]] does_agent show ?thesis unfolding AgentRoute by fastforce
  next
    case OboChainRoute
    have "obo_chain_get env P W s = (x, t)" using serve OboChainRoute by simp
    from signed_in [OF this [unfolded obo_chain_get_def] proxied_paths(1) [OF emits_atoms(1)]] show ?thesis
      unfolding OboChainRoute by simp
  next
    case ToolsRoute
    have "tools_get env P W s = (x, t)" using serve ToolsRoute by simp
    from signed_in [OF this [unfolded tools_get_def] proxied_paths(2) [OF emits_atoms(1)]] show ?thesis
      unfolding ToolsRoute by simp
  next
    case TokensRoute
    have "tokens_get env P W s = (x, t)" using serve TokensRoute by simp
    from tokens_run [OF this] show ?thesis unfolding TokensRoute by simp blast
  next
    case DevTokenRoute
    have "dev_token_get env W s = (x, t)" using serve DevTokenRoute by simp
    from dev_token_run [OF this] show ?thesis unfolding DevTokenRoute by simp blast
  next
    case WhoamiRoute
    then have "whoami_get P W s = (x, t)" using serve by simp
    then show ?thesis using WhoamiRoute emitsD [OF whoami_quiet] no_request_requests by fastforce
  next
    case HealthRoute
    then show ?thesis using serve by (simp add: io_return_def)
  next
    case (SpiffeIdentitiesRoute flow)
    then have "spiffe_identities_get env P readFile flow s = (x, t)" using serve by simp
    from doesD [OF does_identities this] show ?thesis using SpiffeIdentitiesRoute by auto
  qed
qed

definition fixture_web :: "(http_rsp \<Rightarrow> exn + string) \<Rightarrow> int web_deps" where
  "fixture_web text =
     \<lparr> wbSession = (\<lambda>w. (Inr (JObj [(''user'', JObj [])]), w)),
       wbToken = (\<lambda>w. (Inr (JObj [(''sub'', JStr ''alice''), (''accessToken'', JStr ''tok'')]), w)), wbText = text \<rparr>"

theorem token_stays_on_the_server_witness:
  "\<exists>es x t. bff_serve AgentRoute (\<lambda>_. None) (fixture no_net (\<lambda>_. None)) (fixture_web (\<lambda>_. Inr []))
        (\<lambda>_ w. (Inl (Thrown JUndef), w)) (Inr (JObj [(''message'', JStr ''hi'')])) (idle 0) = (x, t)
     \<and> out t = es \<and> (requests es = [] \<or> forwards AgentRoute (\<lambda>_. None) (JStr ''tok'') (requests es) x)"
proof -
  obtain x t where r: "bff_serve AgentRoute (\<lambda>_. None) (fixture no_net (\<lambda>_. None)) (fixture_web (\<lambda>_. Inr []))
        (\<lambda>_ w. (Inl (Thrown JUndef), w)) (Inr (JObj [(''message'', JStr ''hi'')])) (idle 0) = (x, t)" by fastforce
  from token_stays_on_the_server [OF r] show ?thesis unfolding r by (auto simp: fixture_web_def idle_def)
qed

end
