(* ===== verification/Delegation.thy ===== *)
theory Delegation
  imports Curity OpsApi
begin

text \<open>
  The delegation as a whole: an abstract account of it (who may act, for which audience, with
  which scopes), the refinement of that account by the token-exchange procedure, and what follows
  for every token that can come into being after a login, up to the gate of the write API.
\<close>

section \<open>The specification\<close>

record delegation =
  dgAudience :: js
  dgScopes :: "string set"
  dgActors :: "string list"       \<comment> \<open>most recent first\<close>
  dgMayAct :: "string option"
  dgAcr :: js
  dgRoles :: "string set"

text \<open>
  The exchange paths as the comment of the procedure lists them: actor, audience, the scopes it may
  carry, and the workload that presents the token next.
\<close>

definition exchange_paths :: "(string \<times> string \<times> string set \<times> string option) set" where
  "exchange_paths =
     {(SPIFFE_COPILOT, ''mcp-gateway'', {''inspect:read''}, Some SPIFFE_GATEWAY),
      (SPIFFE_COPILOT, ''agent-specialist'', {''inspect:read'', ''ops:write'', ''llm:invoke''}, Some SPIFFE_SPECIALIST),
      (SPIFFE_COPILOT, ''llm-gateway'', {''llm:invoke''}, None),
      (SPIFFE_SPECIALIST, ''mcp-gateway'', {''inspect:read'', ''ops:write''}, Some SPIFFE_GATEWAY),
      (SPIFFE_SPECIALIST, ''llm-gateway'', {''llm:invoke''}, None),
      (SPIFFE_GATEWAY, ''mcp-inspect'', {''inspect:read''}, Some SPIFFE_MCP_INSPECT),
      (SPIFFE_GATEWAY, ''mcp-ops'', {''ops:write''}, Some SPIFFE_MCP_OPS),
      (SPIFFE_MCP_INSPECT, ''inspect-api'', {''inspect:read''}, None),
      (SPIFFE_MCP_OPS, ''ops-api'', {''ops:write''}, None)}"

inductive delegates :: "delegation \<Rightarrow> delegation \<Rightarrow> bool" where
  delegate: "(actor, aud, cap, next) \<in> exchange_paths \<Longrightarrow> dgMayAct d \<in> {None, Some actor} \<Longrightarrow>
    scopes \<noteq> {} \<Longrightarrow> scopes \<subseteq> dgScopes d \<inter> cap \<Longrightarrow> (''ops:write'' \<in> scopes \<longrightarrow> {''sre'', ''oncall''} \<inter> dgRoles d \<noteq> {}) \<Longrightarrow>
    delegates d \<lparr> dgAudience = JArr [JStr aud], dgScopes = scopes, dgActors = actor # dgActors d, dgMayAct = next,
                  dgAcr = dgAcr d, dgRoles = dgRoles d \<rparr>"

inductive_cases delegatesE: "delegates d e"

inductive reaches :: "delegation \<Rightarrow> delegation \<Rightarrow> bool" for l where
  login: "reaches l l"
| hop: "reaches l d \<Longrightarrow> delegates d e \<Longrightarrow> reaches l e"

text \<open>A token's claims, as the specification sees them.\<close>

definition delegation_of :: "js \<Rightarrow> delegation" where
  "delegation_of c =
     \<lparr> dgAudience = jget c ''aud'', dgScopes = set (scope_words (jget c ''scope'')), dgActors = walkActChain (jget c ''act''),
       dgMayAct = proc_mayActSub (jget c ''may_act''), dgAcr = (if nullish (jget c ''acr'') then JUndef else jget c ''acr''),
       dgRoles = set (claimToArray (jget c ''roles'')) \<rparr>"

section \<open>What Curity does\<close>

text \<open>
  The default token data have the audience and the scopes asked for and none of the claims the
  procedure stamps, as the procedure's comments document.
\<close>

definition standard_data :: "('w, 'r) curity \<Rightarrow> bool" where
  "standard_data C =
     (\<forall>aud scopes w data w'. cuInit C aud scopes w = (Inr data, w') \<longrightarrow>
        jget (JObj data) ''aud'' = JArr [JStr aud] \<and> jget (JObj data) ''scope'' = JStr (join '' '' scopes)
        \<and> list_all (\<lambda>k. jget (JObj data) k = JUndef) [''act'', ''may_act'', ''acr'', ''roles'', ''scp''])"

text \<open>A run of the procedure up to the data it signs.\<close>

definition issue_data :: "('w, 'r) curity \<Rightarrow> exchange_request \<Rightarrow> ('w, 'r, (string \<times> js) list) procedure" where
  "issue_data C q = io_bind (lift_pe (decide q)) (\<lambda>d. token_data C q d)"

text \<open>The tokens that exist after a login: the login token and whatever the procedure issues for one.\<close>

inductive issued :: "('w, 'r) curity \<Rightarrow> js \<Rightarrow> js \<Rightarrow> bool" for C c0 where
  login_token: "issued C c0 c0"
| exchanged: "issued C c0 c \<Longrightarrow> erSubject q = c \<Longrightarrow> issue_data C q s = (Inr data, t) \<Longrightarrow> issued C c0 (JObj data)"

section \<open>Facts about the procedure\<close>

lemma jget_om_set [simp]: "jget (JObj (om_set m k v)) k' = (if k' = k then v else jget (JObj m) k')"
  using om_get_set [of m k v k'] by (simp add: om_get_def)

lemma jget_simps: "jget (JObj ((k, v) # m)) k' = (if k' = k then v else jget (JObj m) k')" "jget (JObj []) k' = JUndef"
  by simp_all

lemma walk_no_object: "\<not> is_object a \<Longrightarrow> walkActChain a = []"
  by (subst walkActChain.simps) simp

lemma walk_extended:
  "walkActChain (if nullish a then JObj [(''sub'', JStr s)] else JObj [(''sub'', JStr s), (''act'', a)]) = s # walkActChain a"
proof (cases "nullish a")
  case True
  then have "\<not> is_object a" by (cases a) simp_all
  with True show ?thesis by (subst walkActChain.simps) (simp add: walk_no_object)
next
  case False
  then show ?thesis by (subst walkActChain.simps) (simp add: walk_no_object)
qed

lemma split_by_join:
  "ws \<noteq> [] \<Longrightarrow> p d \<Longrightarrow> (\<And>w. w \<in> set ws \<Longrightarrow> list_all (\<lambda>c. \<not> p c) w) \<Longrightarrow> split_by p (join [d] ws) = ws"
proof (induction "[d]" ws rule: join.induct)
  case 1
  then show ?case by simp
next
  case (2 x)
  have "list_all (\<lambda>c. \<not> p c) x \<Longrightarrow> split_by p x = [x]" by (induction x) auto
  then show ?case using 2 by simp
next
  case (3 x y ys)
  have "list_all (\<lambda>c. \<not> p c) x \<Longrightarrow> split_by p (x @ d # r) = x # split_by p r" for r
    using 3(3) by (induction x) auto
  then show ?case using 3 by simp
qed

lemma words_ws_join:
  assumes "ws \<noteq> []" "\<And>w. w \<in> set ws \<Longrightarrow> w \<noteq> [] \<and> list_all (\<lambda>c. \<not> is_ws c) w"
  shows "words_ws (join '' '' ws) = ws"
proof -
  have "split_by is_ws (join '' '' ws) = ws"
    by (rule split_by_join [OF assms(1)]) (use assms(2) in \<open>auto simp: is_ws_def\<close>)
  then show ?thesis using assms(2) by (simp add: words_ws_def words_by_def filter_id_conv)
qed

lemma join_not_Nil: "ws \<noteq> [] \<Longrightarrow> hd ws \<noteq> [] \<Longrightarrow> join sep ws \<noteq> []"
  by (induction sep ws rule: join.induct) auto

lemma scope_words_clean: "w \<in> set (scope_words v) \<Longrightarrow> w \<noteq> [] \<and> list_all (\<lambda>c. \<not> is_ws c) w"
  using words_by_no_sep [of w is_ws] by (auto simp: scope_words_def words_ws_def list_all_iff split: if_splits)

lemma scope_words_join:
  assumes "ws \<noteq> []" "set ws \<subseteq> set (scope_words v)"
  shows "scope_words (JStr (join '' '' ws)) = ws"
proof -
  have c: "w \<in> set ws \<Longrightarrow> w \<noteq> [] \<and> list_all (\<lambda>c. \<not> is_ws c) w" for w using assms(2) scope_words_clean by blast
  moreover have "join '' '' ws \<noteq> []" by (rule join_not_Nil) (use assms(1) c in \<open>auto simp: hd_in_set\<close>)
  ultimately show ?thesis using words_ws_join [OF assms(1)] by (simp add: scope_words_def)
qed

text \<open>The policy realises the documented paths.\<close>

lemma spiffe_ids [simp]: "SPIFFE_COPILOT \<noteq> []" "SPIFFE_SPECIALIST \<noteq> []" "SPIFFE_GATEWAY \<noteq> []" "SPIFFE_MCP_OPS \<noteq> []"
  "SPIFFE_MCP_INSPECT \<noteq> []"
  by (simp_all add: SPIFFE_COPILOT_def SPIFFE_SPECIALIST_def SPIFFE_GATEWAY_def SPIFFE_MCP_OPS_def SPIFFE_MCP_INSPECT_def spiffe_id_def)

lemma om_get_mem: "om_get m k = Some v \<Longrightarrow> (k, v) \<in> set m"
  by (simp add: om_get_def map_of_SomeD)

lemma policy_paths:
  assumes "om_get CLIENT_POLICY client = Some p" "om_get (cpPerAudience p) aud = Some ap"
  shows "(cpAllowedActor p, aud, set (apScopes ap), apMayAct ap) \<in> exchange_paths \<and> apMayAct ap \<noteq> Some []"
proof -
  have "p \<in> set (map snd CLIENT_POLICY)" using om_get_mem [OF assms(1)] by force
  then show ?thesis using om_get_mem [OF assms(2)]
    unfolding CLIENT_POLICY_def grants_def exchange_paths_def by (simp del: One_nat_def) (elim disjE; simp; elim disjE; simp)
qed

lemma decide_Inr:
  assumes "decide q = Inr d"
  shows "om_get CLIENT_POLICY (erClientId q) = Some (dcPolicy d) \<and> erAudiences q = [dcAudience d]
    \<and> om_get (cpPerAudience (dcPolicy d)) (dcAudience d) = Some (dcAudPolicy d)
    \<and> dcNarrowed d = narrow q (apScopes (dcAudPolicy d)) \<and> dcNarrowed d \<noteq> [] \<and> \<not> lacks_write_role q (apScopes (dcAudPolicy d))
    \<and> dcRoles d = claimToArray (jget (erSubject q) ''roles'') \<and> erActor q = Some (dcActor d) \<and> erSubject q \<noteq> JNull"
  using assms
  by (auto simp: decide_def decide_scopes_def lookup_audience_def split: if_splits option.splits list.splits aud_lookup.splits)

lemma pe_bind_Inr: "io_bind m f s = (Inr b, t) \<longleftrightarrow> (\<exists>a u. m s = (Inr a, u) \<and> f a u = (Inr b, t))"
  by (auto simp: io_bind_def split: prod.splits sum.splits)

lemma token_data_Inr:
  assumes "token_data C q d s = (Inr data, t)"
  obtains data0 actor u w where "cuInit C (dcAudience d) (dcNarrowed d) (csWorld s) = (Inr data0, w)"
    and "verifySpiffeSvid C (dcActor d) (s\<lparr> csWorld := w \<rparr>) = (Inr actor, u)"
    and "actor = cpAllowedActor (dcPolicy d)" "proc_mayActSub (jget (erSubject q) ''may_act'') \<in> {None, Some actor}"
    and "data = stamp q d actor data0"
proof -
  obtain data0 u actor v where i: "cu_try (cuInit C (dcAudience d) (dcNarrowed d)) s = (Inr data0, u)"
    and a: "verifySpiffeSvid C (dcActor d) u = (Inr actor, v)"
    and g: "actor = cpAllowedActor (dcPolicy d)" "proc_mayActSub (jget (erSubject q) ''may_act'') \<in> {None, Some actor}"
    and d: "data = stamp q d actor data0"
    using assms unfolding token_data_def pe_bind_Inr
    by (auto simp: guard_def io_return_def io_throw_def split: if_splits)
  obtain w where "cuInit C (dcAudience d) (dcNarrowed d) (csWorld s) = (Inr data0, w)" "u = s\<lparr> csWorld := w \<rparr>"
    using i by (auto simp: cu_try_def split: prod.splits)
  then show thesis using that a g d by simp
qed

lemma stamp_other:
  "k \<notin> {''act'', ''may_act'', ''acr'', ''roles''} \<Longrightarrow> jget (JObj (stamp q d actor data0)) k = jget (JObj data0) k"
  by (auto simp del: jget.simps simp: stamp_def Let_def split: option.splits)

lemma stamp_fields:
  assumes "list_all (\<lambda>k. jget (JObj data0) k = JUndef) [''act'', ''may_act'', ''acr'', ''roles'', ''scp'']" "apMayAct (dcAudPolicy d) \<noteq> Some []"
  shows "jget (JObj (stamp q d actor data0)) ''aud'' = jget (JObj data0) ''aud''"
    and "jget (JObj (stamp q d actor data0)) ''scope'' = jget (JObj data0) ''scope''"
    and "walkActChain (jget (JObj (stamp q d actor data0)) ''act'') = actor # walkActChain (jget (erSubject q) ''act'')"
    and "proc_mayActSub (jget (JObj (stamp q d actor data0)) ''may_act'') = apMayAct (dcAudPolicy d)"
    and "jget (JObj (stamp q d actor data0)) ''acr'' = (if nullish (jget (erSubject q) ''acr'') then JUndef else jget (erSubject q) ''acr'')"
    and "claimToArray (jget (JObj (stamp q d actor data0)) ''roles'') = dcRoles d"
    and "jget (JObj (stamp q d actor data0)) ''scp'' = JUndef"
  using assms walk_extended [of "jget (erSubject q) ''act''" actor]
  by (auto simp del: jget.simps simp: stamp_def Let_def jget_simps proc_mayActSub_def claimToArray_def comp_def split: option.splits)

lemma issue_data_Inr:
  assumes "issue_data C q s = (Inr data, t)"
  obtains d data0 actor u w where "decide q = Inr d"
    and "cuInit C (dcAudience d) (dcNarrowed d) (csWorld s) = (Inr data0, w)"
    and "actor = cpAllowedActor (dcPolicy d)" "proc_mayActSub (jget (erSubject q) ''may_act'') \<in> {None, Some actor}"
    and "data = stamp q d actor data0"
proof -
  obtain d where "decide q = Inr d" "token_data C q d s = (Inr data, t)"
    using assms by (auto simp: issue_data_def pe_bind_Inr lift_pe_def)
  then show thesis using that by (elim token_data_Inr) blast
qed

lemma narrow_subset: "set (narrow q allowed) \<subseteq> set (scope_words (jget (erSubject q) ''scope'')) \<inter> set allowed"
  by (auto simp: narrow_def)

lemma narrow_role: "\<not> lacks_write_role q allowed \<Longrightarrow> ''ops:write'' \<in> set (narrow q allowed) \<Longrightarrow>
    {''sre'', ''oncall''} \<inter> set (claimToArray (jget (erSubject q) ''roles'')) \<noteq> {}"
  by (auto simp: narrow_def lacks_write_role_def Let_def)

text \<open>What an exchange produces: its delegation, and the scope claim it carries.\<close>

lemma issue_data_exact:
  assumes "standard_data C" "issue_data C q s = (Inr data, t)"
  obtains d where "decide q = Inr d" "proc_mayActSub (jget (erSubject q) ''may_act'') \<in> {None, Some (cpAllowedActor (dcPolicy d))}"
    and "delegation_of (JObj data) =
      \<lparr> dgAudience = JArr [JStr (dcAudience d)], dgScopes = set (dcNarrowed d),
        dgActors = cpAllowedActor (dcPolicy d) # dgActors (delegation_of (erSubject q)),
        dgMayAct = apMayAct (dcAudPolicy d), dgAcr = dgAcr (delegation_of (erSubject q)), dgRoles = dgRoles (delegation_of (erSubject q)) \<rparr>"
    and "jget (JObj data) ''scope'' = JStr (join '' '' (dcNarrowed d))" "jget (JObj data) ''scp'' = JUndef"
proof -
  obtain d data0 actor u w where d: "decide q = Inr d"
    and i: "cuInit C (dcAudience d) (dcNarrowed d) (csWorld s) = (Inr data0, w)"
    and a: "actor = cpAllowedActor (dcPolicy d)" "proc_mayActSub (jget (erSubject q) ''may_act'') \<in> {None, Some actor}"
    and e: "data = stamp q d actor data0"
    using assms(2) by (rule issue_data_Inr)
  let ?ap = "dcAudPolicy d" and ?S = "jget (erSubject q) ''scope''"
  note p = decide_Inr [OF d]
  have m: "apMayAct ?ap \<noteq> Some []"
    using policy_paths [of "erClientId q" "dcPolicy d" "dcAudience d" ?ap] p by auto
  have n: "dcNarrowed d \<noteq> []" "set (dcNarrowed d) \<subseteq> set (scope_words ?S)" "dcRoles d = claimToArray (jget (erSubject q) ''roles'')"
    using p narrow_subset [of q "apScopes ?ap"] by auto
  have s: "jget (JObj data0) ''aud'' = JArr [JStr (dcAudience d)]" "jget (JObj data0) ''scope'' = JStr (join '' '' (dcNarrowed d))"
    and z: "list_all (\<lambda>k. jget (JObj data0) k = JUndef) [''act'', ''may_act'', ''acr'', ''roles'', ''scp'']"
    using assms(1) i unfolding standard_data_def by blast+
  note f = stamp_fields [OF z m, of q actor, folded e]
  have "scope_words (jget (JObj data) ''scope'') = dcNarrowed d" using scope_words_join [OF n(1,2)] f(2) s(2) by simp
  then show thesis using that [of d] d a f s n(3) by (simp add: delegation_of_def del: jget.simps)
qed

lemma issue_data_delegates:
  assumes "standard_data C" "issue_data C q s = (Inr data, t)"
  shows "delegates (delegation_of (erSubject q)) (delegation_of (JObj data))
    \<and> (\<exists>ws. jget (JObj data) ''scope'' = JStr (join '' '' ws) \<and> ws \<noteq> [] \<and> set ws = dgScopes (delegation_of (JObj data))
        \<and> (\<forall>w \<in> set ws. w \<noteq> [] \<and> list_all (\<lambda>c. \<not> is_ws c) w)) \<and> jget (JObj data) ''scp'' = JUndef"
proof -
  obtain d where d: "decide q = Inr d"
    and a: "proc_mayActSub (jget (erSubject q) ''may_act'') \<in> {None, Some (cpAllowedActor (dcPolicy d))}"
    and new: "delegation_of (JObj data) =
      \<lparr> dgAudience = JArr [JStr (dcAudience d)], dgScopes = set (dcNarrowed d),
        dgActors = cpAllowedActor (dcPolicy d) # dgActors (delegation_of (erSubject q)),
        dgMayAct = apMayAct (dcAudPolicy d), dgAcr = dgAcr (delegation_of (erSubject q)), dgRoles = dgRoles (delegation_of (erSubject q)) \<rparr>"
    and s: "jget (JObj data) ''scope'' = JStr (join '' '' (dcNarrowed d))" "jget (JObj data) ''scp'' = JUndef"
    using assms by (rule issue_data_exact)
  let ?ap = "dcAudPolicy d"
  note p = decide_Inr [OF d]
  have path: "(cpAllowedActor (dcPolicy d), dcAudience d, set (apScopes ?ap), apMayAct ?ap) \<in> exchange_paths"
    using policy_paths [of "erClientId q" "dcPolicy d" "dcAudience d" ?ap] p by auto
  have n: "dcNarrowed d \<noteq> []" "set (dcNarrowed d) \<subseteq> dgScopes (delegation_of (erSubject q)) \<inter> set (apScopes ?ap)"
    "''ops:write'' \<in> set (dcNarrowed d) \<longrightarrow> {''sre'', ''oncall''} \<inter> dgRoles (delegation_of (erSubject q)) \<noteq> {}"
    using p narrow_subset [of q "apScopes ?ap"] narrow_role [of q "apScopes ?ap"] by (auto simp: delegation_of_def)
  have "delegates (delegation_of (erSubject q)) (delegation_of (JObj data))"
    unfolding new by (rule delegate [OF path]) (use a n in \<open>simp_all add: delegation_of_def\<close>)
  moreover have "\<forall>w \<in> set (dcNarrowed d). w \<noteq> [] \<and> list_all (\<lambda>c. \<not> is_ws c) w"
    using n(2) scope_words_clean by (fastforce simp: delegation_of_def)
  ultimately show ?thesis using new s n(1) by auto
qed

lemma issued_reaches:
  assumes "standard_data C" "issued C c0 c"
  shows "reaches (delegation_of c0) (delegation_of c)"
  using assms(2)
proof (induction rule: issued.induct)
  case login_token
  show ?case by (rule reaches.login)
next
  case (exchanged c q s data t)
  then show ?case using issue_data_delegates [OF assms(1) exchanged.hyps(3)] reaches.hop by blast
qed

lemma reaches_keeps:
  "reaches l d \<Longrightarrow> dgScopes d \<subseteq> dgScopes l \<and> dgAcr d = dgAcr l \<and> dgRoles d = dgRoles l \<and> (\<exists>as. dgActors d = as @ dgActors l)
     \<and> (''ops:write'' \<in> dgScopes d \<longrightarrow> d = l \<or> {''sre'', ''oncall''} \<inter> dgRoles l \<noteq> {})"
proof (induction rule: reaches.induct)
  case login
  then show ?case by simp
next
  case (hop d e)
  from hop.hyps(2) hop.IH show ?case by (auto elim!: delegatesE)
qed

text \<open>The path the write scope takes, and nothing else, while the actors named are the only ones that may act.\<close>

definition write_path :: "string list" where
  "write_path = [SPIFFE_COPILOT, SPIFFE_SPECIALIST, SPIFFE_GATEWAY, SPIFFE_MCP_OPS]"

lemma spiffe_distinct [simp]: "distinct [SPIFFE_COPILOT, SPIFFE_SPECIALIST, SPIFFE_GATEWAY, SPIFFE_MCP_OPS, SPIFFE_MCP_INSPECT]"
  by (simp add: SPIFFE_COPILOT_def SPIFFE_SPECIALIST_def SPIFFE_GATEWAY_def SPIFFE_MCP_OPS_def SPIFFE_MCP_INSPECT_def spiffe_id_def)

definition on_write_path :: "string option \<Rightarrow> string list \<Rightarrow> bool" where
  "on_write_path m as =
     ((\<exists>i < 4. as = rev (take i write_path) \<and> m = Some (write_path ! i)) \<or> (\<exists>xs. as = xs @ rev write_path))"

lemma length_write_path: "length write_path = 4"
  by (simp add: write_path_def)

lemma write_paths:
  "(actor, aud, cap, nxt) \<in> exchange_paths \<Longrightarrow> ''ops:write'' \<in> cap \<Longrightarrow>
   (actor, nxt) \<in> {(SPIFFE_COPILOT, Some SPIFFE_SPECIALIST), (SPIFFE_SPECIALIST, Some SPIFFE_GATEWAY),
     (SPIFFE_GATEWAY, Some SPIFFE_MCP_OPS), (SPIFFE_MCP_OPS, None)}"
  by (auto simp: exchange_paths_def)

lemma write_path_step:
  assumes "on_write_path m as" "(actor, aud, cap, nxt) \<in> exchange_paths" "''ops:write'' \<in> cap" "m \<in> {None, Some actor}"
  shows "on_write_path nxt (actor # as)"
proof -
  consider i where "i < 4" "as = rev (take i write_path)" "actor = write_path ! i" | xs where "as = xs @ rev write_path"
    using assms(1,4) unfolding on_write_path_def by auto
  then show ?thesis
  proof cases
    case 1
    have n: "i < 3 \<Longrightarrow> nxt = Some (write_path ! Suc i)"
      using write_paths [OF assms(2,3)] 1(1,3) spiffe_distinct by (auto simp: write_path_def less_Suc_eq numeral_eq_Suc)
    have a: "actor # as = rev (take (Suc i) write_path)"
      using 1 by (simp add: take_Suc_conv_app_nth length_write_path)
    show ?thesis
    proof (cases "i < 3")
      case True
      then show ?thesis using n a unfolding on_write_path_def by (intro disjI1 exI [of _ "Suc i"]) simp
    next
      case False
      then have "actor # as = [] @ rev write_path" using a 1(1) by (simp add: write_path_def)
      then show ?thesis unfolding on_write_path_def by blast
    qed
  next
    case 2
    then have "actor # as = (actor # xs) @ rev write_path" by simp
    then show ?thesis unfolding on_write_path_def by blast
  qed
qed

lemma reaches_write_path:
  assumes "reaches l d" "dgActors l = []" "dgMayAct l = Some SPIFFE_COPILOT"
  shows "''ops:write'' \<in> dgScopes d \<Longrightarrow> on_write_path (dgMayAct d) (dgActors d)"
  using assms(1)
proof (induction rule: reaches.induct)
  case login
  have "dgActors l = rev (take 0 write_path) \<and> dgMayAct l = Some (write_path ! 0)" using assms(2,3) by (simp add: write_path_def)
  then show ?case unfolding on_write_path_def by (intro disjI1 exI [of _ 0]) simp
next
  case (hop d e)
  obtain actor aud cap nxt scopes where p: "(actor, aud, cap, nxt) \<in> exchange_paths" "dgMayAct d \<in> {None, Some actor}"
      "scopes \<subseteq> dgScopes d \<inter> cap"
      and e: "e = \<lparr> dgAudience = JArr [JStr aud], dgScopes = scopes, dgActors = actor # dgActors d, dgMayAct = nxt,
                  dgAcr = dgAcr d, dgRoles = dgRoles d \<rparr>"
    using hop.hyps(2) by (rule delegatesE) blast
  have "''ops:write'' \<in> dgScopes d" "''ops:write'' \<in> cap" using hop.prems p(3) e by auto
  then show ?case using write_path_step [OF hop.IH p(1)] p(2) e by simp
qed

lemma on_write_path_take: "on_write_path m as \<Longrightarrow> take 4 (rev as) = take (length as) write_path"
  by (auto simp: on_write_path_def write_path_def min_def less_Suc_eq numeral_eq_Suc)


text \<open>A token of the procedure is the login token or carries a delegation a login reaches, with these scopes.\<close>

lemma issued_cases:
  assumes "standard_data C" "issued C c0 c"
  shows "c = c0 \<or> (set (parseScopes c) = JStr ` dgScopes (delegation_of c) \<and> dgActors (delegation_of c) \<noteq> [])"
  using assms(2)
proof (cases rule: issued.cases)
  case (exchanged c' q s data t)
  note d = issue_data_delegates [OF assms(1) exchanged(4)]
  have "dgActors (delegation_of (JObj data)) \<noteq> []" using d by (auto elim: delegatesE)
  moreover obtain ws where "jget (JObj data) ''scope'' = JStr (join '' '' ws)" "set ws = dgScopes (delegation_of (JObj data))"
    "\<forall>w \<in> set ws. w \<noteq> [] \<and> list_all (\<lambda>c. \<not> is_ws c) w" "jget (JObj data) ''scp'' = JUndef" using d by blast
  moreover from this(3) have "\<forall>w \<in> set ws. w \<noteq> [] \<and> CHR '' '' \<notin> set w" by (fastforce simp: list_all_iff is_ws_def)
  ultimately show ?thesis using exchanged(1) parseScopes_join [of "JObj data" ws] by simp
qed simp

end
