(* ===== verification/EndToEnd.thy ===== *)
theory EndToEnd
  imports Delegation
begin

text \<open>
  What the token-exchange procedure, the agents' exchange client and the write API guarantee
  together: for every token issued after a login, and for every request to the write API.
\<close>

section \<open>Fixtures\<close>

text \<open>A server whose SVIDs are the workload ids themselves and whose default token data are the standard ones.\<close>

definition fixture_curity :: "(unit, unit) curity" where
  "fixture_curity =
     \<lparr> cuNow = (\<lambda>w. (100000, w)), cuFetch = (\<lambda>w. (Inr (200, ''{}''), w)), cuKeys = (\<lambda>_. Inr ((), [Some ''k''])),
       cuHeader = (\<lambda>_. Inr (JObj [(''kid'', JStr ''k'')])), cuProcess = (\<lambda>_ t w. (Inr t, w)),
       cuInit = (\<lambda>aud sc w. (Inr [(''aud'', JArr [JStr aud]), (''scope'', JStr (join '' '' sc))], w)),
       cuIssue = (\<lambda>_ w. (Inr ''signed'', w)), cuSecondsUntil = (\<lambda>_. JNum 600) \<rparr>"

definition fixture_worker :: "(unit, unit) curity_state" where
  "fixture_worker = \<lparr> csWorld = (), csResolver = None, csKids = [], csFetchedAt = 0, csLog = [] \<rparr>"

definition fixture_login :: "(string \<times> js) list" where
  "fixture_login = [(''sub'', JStr ''alice''), (''scope'', JStr ''openid inspect:read ops:write''), (''roles'', JArr [JStr ''sre''])]"

definition fixture_request :: exchange_request where
  "fixture_request = \<lparr> erSubject = JObj (login_claims (JStr ''mfa'') fixture_login), erActor = Some SPIFFE_COPILOT,
     erClientId = copilot_client, erAudiences = [''agent-specialist''], erScopes = [''ops:write''] \<rparr>"

lemma fixture_standard: "standard_data fixture_curity"
  by (simp add: standard_data_def fixture_curity_def)

lemma fixture_verifies_svid: "\<exists>t. verifySpiffeSvid fixture_curity a s = (Inr a, t)"
  by (simp add: verifySpiffeSvid_def jwtHeaderKid_def fixture_curity_def getResolver_def refetch_def fetchJwks_def cu_get_def
      lift_pe_def io_bind_def io_return_def io_read_def io_modify_def split: list.splits option.splits)

text \<open>A request for one scope that the policy, the subject token and the roles all allow is granted.\<close>

lemma narrow_one: "erScopes q = [sc] \<Longrightarrow> sc \<in> set (scope_words (jget (erSubject q) ''scope'')) \<Longrightarrow> sc \<in> set allowed \<Longrightarrow> narrow q allowed = [sc]"
  by (simp add: narrow_def requested_scopes_def)

lemma issue_data_grants:
  assumes "om_get CLIENT_POLICY (erClientId q) = Some p" "erAudiences q = [aud]" "om_get (cpPerAudience p) aud = Some ap"
    and "erScopes q = [sc]" "sc \<in> set (scope_words (jget (erSubject q) ''scope''))" "sc \<in> set (apScopes ap)"
    and "\<not> lacks_write_role q (apScopes ap)" "erSubject q \<noteq> JNull" "erActor q = Some svid" "svid \<noteq> []"
    and "proc_mayActSub (jget (erSubject q) ''may_act'') \<in> {None, Some (cpAllowedActor p)}"
    and "\<And>w. \<exists>data0 w'. cuInit C aud [sc] w = (Inr data0, w')" "\<And>s. \<exists>t. verifySpiffeSvid C svid s = (Inr (cpAllowedActor p), t)"
  shows "\<exists>data t. issue_data C q s = (Inr data, t)"
proof -
  obtain d where d: "decide q = Inr d" "dcPolicy d = p" "dcAudience d = aud" "dcNarrowed d = [sc]" "dcActor d = svid"
    using assms(1-10) by (simp add: decide_def decide_scopes_def lookup_audience_def narrow_one)
  obtain data0 w' where i: "cuInit C aud [sc] (csWorld s) = (Inr data0, w')" using assms(12) by blast
  obtain u where "verifySpiffeSvid C svid (s\<lparr> csWorld := w' \<rparr>) = (Inr (cpAllowedActor p), u)" using assms(13) by blast
  then show ?thesis using d i assms(11)
    by (auto simp: issue_data_def token_data_def lift_pe_def cu_try_def guard_def io_bind_def io_return_def)
qed

text \<open>The entries of the write path.\<close>

lemma policy_write:
  "\<exists>p ap. om_get CLIENT_POLICY copilot_client = Some p \<and> om_get (cpPerAudience p) ''agent-specialist'' = Some ap
     \<and> ''ops:write'' \<in> set (apScopes ap) \<and> cpAllowedActor p = SPIFFE_COPILOT \<and> apMayAct ap = Some SPIFFE_SPECIALIST"
  "\<exists>p ap. om_get CLIENT_POLICY specialist_client = Some p \<and> om_get (cpPerAudience p) ''mcp-gateway'' = Some ap
     \<and> ''ops:write'' \<in> set (apScopes ap) \<and> cpAllowedActor p = SPIFFE_SPECIALIST \<and> apMayAct ap = Some SPIFFE_GATEWAY"
  "\<exists>p ap. om_get CLIENT_POLICY ''agentgateway'' = Some p \<and> om_get (cpPerAudience p) ''mcp-ops'' = Some ap
     \<and> ''ops:write'' \<in> set (apScopes ap) \<and> cpAllowedActor p = SPIFFE_GATEWAY \<and> apMayAct ap = Some SPIFFE_MCP_OPS"
  "\<exists>p ap. om_get CLIENT_POLICY ''mcp-ops'' = Some p \<and> om_get (cpPerAudience p) ''ops-api'' = Some ap
     \<and> ''ops:write'' \<in> set (apScopes ap) \<and> cpAllowedActor p = SPIFFE_MCP_OPS \<and> apMayAct ap = None"
  by (simp_all add: CLIENT_POLICY_def om_get_def grants_def copilot_client_def specialist_client_def)

text \<open>One hop of the write path, for a token that holds the scope and a user with a write role.\<close>

definition write_ready :: "js \<Rightarrow> bool" where
  "write_ready c = (c \<noteq> JNull \<and> ''ops:write'' \<in> dgScopes (delegation_of c) \<and> {''sre'', ''oncall''} \<inter> dgRoles (delegation_of c) \<noteq> {})"

lemma write_hop:
  assumes "standard_data C" "\<And>w. \<exists>data0 w'. cuInit C aud [''ops:write''] w = (Inr data0, w')"
    and "\<And>s. \<exists>t. verifySpiffeSvid C svid s = (Inr actor, t)" "svid \<noteq> []"
    and "\<exists>p ap. om_get CLIENT_POLICY client = Some p \<and> om_get (cpPerAudience p) aud = Some ap
      \<and> ''ops:write'' \<in> set (apScopes ap) \<and> cpAllowedActor p = actor \<and> apMayAct ap = nxt"
    and "write_ready c" "dgMayAct (delegation_of c) = Some actor"
  shows "\<exists>data t. issue_data C \<lparr> erSubject = c, erActor = Some svid, erClientId = client, erAudiences = [aud],
        erScopes = [''ops:write''] \<rparr> s = (Inr data, t)
      \<and> delegation_of (JObj data) = \<lparr> dgAudience = JArr [JStr aud], dgScopes = {''ops:write''},
          dgActors = actor # dgActors (delegation_of c), dgMayAct = nxt, dgAcr = dgAcr (delegation_of c), dgRoles = dgRoles (delegation_of c) \<rparr>
      \<and> set (parseScopes (JObj data)) = {JStr ''ops:write''}"
proof -
  let ?q = "\<lparr> erSubject = c, erActor = Some svid, erClientId = client, erAudiences = [aud], erScopes = [''ops:write''] \<rparr>"
  obtain p ap where p: "om_get CLIENT_POLICY client = Some p" "om_get (cpPerAudience p) aud = Some ap"
    "''ops:write'' \<in> set (apScopes ap)" "cpAllowedActor p = actor" "apMayAct ap = nxt" using assms(5) by blast
  have sc: "''ops:write'' \<in> set (scope_words (jget c ''scope''))" using assms(6) by (simp add: write_ready_def delegation_of_def)
  have r: "\<not> lacks_write_role ?q a" for a
    using assms(6) by (auto simp: lacks_write_role_def write_ready_def delegation_of_def Let_def)
  have "\<exists>data t. issue_data C ?q s = (Inr data, t)"
    by (rule issue_data_grants [where p = p and ap = ap and aud = aud and sc = "''ops:write''" and svid = svid])
       (use assms(2,3,4,6,7) p sc r in \<open>auto simp: write_ready_def delegation_of_def\<close>)
  then obtain data t where i: "issue_data C ?q s = (Inr data, t)" by blast
  obtain d where d: "decide ?q = Inr d"
    and new: "delegation_of (JObj data) =
      \<lparr> dgAudience = JArr [JStr (dcAudience d)], dgScopes = set (dcNarrowed d), dgActors = cpAllowedActor (dcPolicy d) # dgActors (delegation_of c),
        dgMayAct = apMayAct (dcAudPolicy d), dgAcr = dgAcr (delegation_of c), dgRoles = dgRoles (delegation_of c) \<rparr>"
    and s: "jget (JObj data) ''scope'' = JStr (join '' '' (dcNarrowed d))" "jget (JObj data) ''scp'' = JUndef"
    by (rule issue_data_exact [OF assms(1) i]) simp
  note f = decide_Inr [OF d]
  have e: "dcPolicy d = p" "dcAudience d = aud" "dcAudPolicy d = ap" using f p by auto
  then have n: "dcNarrowed d = [''ops:write'']" using f narrow_one [of ?q "''ops:write''" "apScopes ap"] sc p(3) by simp
  have "set (parseScopes (JObj data)) = JStr ` set [''ops:write'']"
    by (rule parseScopes_join) (use s n in \<open>simp_all del: jget.simps\<close>)
  then show ?thesis using i new e n p(4,5) by auto
qed

section \<open>The login token\<close>

lemma login_delegation:
  assumes "jget (JObj data0) ''act'' = JUndef"
  shows "delegation_of (JObj (login_claims acr data0)) =
    \<lparr> dgAudience = JArr [JStr ''agent-copilot''], dgScopes = set (scope_words (jget (JObj data0) ''scope'')),
      dgActors = [], dgMayAct = Some SPIFFE_COPILOT, dgAcr = (if nullish acr then JUndef else acr),
      dgRoles = set (claimToArray (jget (JObj data0) ''roles'')) \<rparr>"
  using assms by (simp add: delegation_of_def login_claims_def proc_mayActSub_def jget_simps walk_no_object del: jget.simps)

lemma fixture_login_facts:
  "jget (JObj fixture_login) ''act'' = JUndef" "set (scope_words (jget (JObj fixture_login) ''scope'')) = {''openid'', ''inspect:read'', ''ops:write''}"
  "set (claimToArray (jget (JObj fixture_login) ''roles'')) = {''sre''}"
proof -
  have "words_ws ''openid inspect:read ops:write'' = [''openid'', ''inspect:read'', ''ops:write'']"
    by (simp add: words_ws_def words_by_def is_ws_def)
  then show "set (scope_words (jget (JObj fixture_login) ''scope'')) = {''openid'', ''inspect:read'', ''ops:write''}"
    by (simp add: fixture_login_def scope_words_def)
qed (simp_all add: fixture_login_def claimToArray_def)

lemma fixture_write_ready: "write_ready (JObj (login_claims acr fixture_login))"
  using fixture_login_facts(2,3) by (simp add: write_ready_def login_delegation [OF fixture_login_facts(1)])

lemma fixture_exchange:
  "\<exists>r t. exchange_result fixture_curity fixture_request fixture_worker = (Inr r, t) \<and> jget r ''scope'' = JStr ''ops:write''"
proof -
  let ?l = "JObj (login_claims (JStr ''mfa'') fixture_login)"
  have "\<exists>data t. issue_data fixture_curity fixture_request fixture_worker = (Inr data, t) \<and> delegation_of (JObj data) =
      \<lparr> dgAudience = JArr [JStr ''agent-specialist''], dgScopes = {''ops:write''}, dgActors = SPIFFE_COPILOT # dgActors (delegation_of ?l),
        dgMayAct = Some SPIFFE_SPECIALIST, dgAcr = dgAcr (delegation_of ?l), dgRoles = dgRoles (delegation_of ?l) \<rparr>
      \<and> set (parseScopes (JObj data)) = {JStr ''ops:write''}"
    unfolding fixture_request_def
    by (rule write_hop [OF fixture_standard _ fixture_verifies_svid _ policy_write(1) fixture_write_ready])
       (simp_all add: login_delegation [OF fixture_login_facts(1)] fixture_curity_def)
  then obtain data t where i: "issue_data fixture_curity fixture_request fixture_worker = (Inr data, t)" by blast
  obtain d where d: "decide fixture_request = Inr d" "token_data fixture_curity fixture_request d fixture_worker = (Inr data, t)"
    using i by (auto simp: issue_data_def pe_bind_Inr lift_pe_def)
  obtain p ap where p: "om_get CLIENT_POLICY (erClientId fixture_request) = Some p" "om_get (cpPerAudience p) ''agent-specialist'' = Some ap"
    "''ops:write'' \<in> set (apScopes ap)" using policy_write(1) by (auto simp: fixture_request_def)
  have "erAudiences fixture_request = [''agent-specialist'']" by (simp add: fixture_request_def)
  then have e: "dcAudPolicy d = ap" using decide_Inr [OF d(1)] p by auto
  have "''ops:write'' \<in> set (scope_words (jget (erSubject fixture_request) ''scope''))"
    using fixture_write_ready [of "JStr ''mfa''"] by (simp add: fixture_request_def write_ready_def delegation_of_def)
  then have "dcNarrowed d = [''ops:write'']"
    using decide_Inr [OF d(1)] narrow_one [of fixture_request "''ops:write''" "apScopes ap"] e p(3) by (simp add: fixture_request_def)
  then show ?thesis using d
    by (simp add: exchange_result_def lift_pe_def io_bind_def io_return_def cu_try_def fixture_curity_def)
qed

section \<open>The procedure refines the specification\<close>

text \<open>
  C3. A response of the exchange procedure carries a token signed over claims whose delegation is one
  permitted step from the subject token's: an actor of the documented paths, allowed by the subject's
  may_act, is put in front of the actors, the scopes are non-empty and within both the subject's and
  the audience's, ops:write needs a write role, and acr and roles are kept.
\<close>

theorem exchange_refines_delegation:
  assumes "standard_data C" "exchange_result C q s = (Inr r, t)"
  shows "\<exists>data tok w w'. cuIssue C data w = (Inr tok, w') \<and> jget r ''access_token'' = JStr tok
    \<and> delegates (delegation_of (erSubject q)) (delegation_of (JObj data))
    \<and> set (scope_words (jget r ''scope'')) = dgScopes (delegation_of (JObj data))"
proof -
  obtain d data u v tok where d: "decide q = Inr d" "token_data C q d s = (Inr data, u)"
    "cu_try (cuIssue C data) u = (Inr tok, v)"
    and r: "jget r ''access_token'' = JStr tok" "jget r ''scope'' = JStr (join '' '' (dcNarrowed d))"
    using assms(2) by (auto simp: exchange_result_def pe_bind_Inr lift_pe_def io_return_def)
  have i: "issue_data C q s = (Inr data, u)" using d by (simp add: issue_data_def lift_pe_def io_bind_def)
  obtain ws where ws: "jget (JObj data) ''scope'' = JStr (join '' '' ws)" "delegates (delegation_of (erSubject q)) (delegation_of (JObj data))"
    using issue_data_delegates [OF assms(1) i] by blast
  obtain data0 actor w where "cuInit C (dcAudience d) (dcNarrowed d) (csWorld s) = (Inr data0, w)" "data = stamp q d actor data0"
    using d(2) by (rule token_data_Inr) blast
  moreover from this(1) have "jget (JObj data0) ''scope'' = JStr (join '' '' (dcNarrowed d))"
    using assms(1) unfolding standard_data_def by blast
  ultimately have "set (scope_words (jget r ''scope'')) = dgScopes (delegation_of (JObj data))"
    using r(2) stamp_other [of "''scope''" q d actor data0] by (simp add: delegation_of_def del: jget.simps)
  moreover have "\<exists>w w'. cuIssue C data w = (Inr tok, w')" using d(3) by (auto simp: cu_try_def split: prod.splits)
  ultimately show ?thesis using ws(2) r(1) by blast
qed

theorem exchange_refines_delegation_witness:
  "\<exists>data. delegates (delegation_of (erSubject fixture_request)) (delegation_of (JObj data)) \<and> dgScopes (delegation_of (JObj data)) = {''ops:write''}"
proof -
  obtain r t where "exchange_result fixture_curity fixture_request fixture_worker = (Inr r, t)" "jget r ''scope'' = JStr ''ops:write''"
    using fixture_exchange by blast
  moreover have "scope_words (JStr ''ops:write'') = [''ops:write'']" by (simp add: scope_words_def eval_simps)
  ultimately show ?thesis
    using exchange_refines_delegation [OF fixture_standard, of fixture_request fixture_worker r t] by auto
qed

text \<open>
  C5. Authority only shrinks along a delegation. Every token issued after a login has a subset of the
  login's scopes, its acr and its roles; and one with ops:write has been presented along the documented
  write path in order, copilot first, and exists only for a user with a write role, unless it is the
  login token itself.
\<close>

theorem authority_only_shrinks:
  assumes "standard_data C" "jget (JObj data0) ''act'' = JUndef" "issued C (JObj (login_claims acr data0)) c"
  shows "dgScopes (delegation_of c) \<subseteq> set (scope_words (jget (JObj data0) ''scope''))
    \<and> dgAcr (delegation_of c) = (if nullish acr then JUndef else acr)
    \<and> dgRoles (delegation_of c) = set (claimToArray (jget (JObj data0) ''roles''))
    \<and> (''ops:write'' \<in> dgScopes (delegation_of c) \<longrightarrow>
         take 4 (rev (dgActors (delegation_of c))) = take (length (dgActors (delegation_of c))) write_path
         \<and> (c = JObj (login_claims acr data0) \<or> ''sre'' \<in> dgRoles (delegation_of c) \<or> ''oncall'' \<in> dgRoles (delegation_of c)))"
proof -
  let ?l = "JObj (login_claims acr data0)"
  note l = login_delegation [OF assms(2), of acr]
  have r: "reaches (delegation_of ?l) (delegation_of c)" using issued_reaches [OF assms(1,3)] .
  have "''ops:write'' \<in> dgScopes (delegation_of c) \<Longrightarrow> on_write_path (dgMayAct (delegation_of c)) (dgActors (delegation_of c))"
    using reaches_write_path [OF r] l by simp
  then show ?thesis using reaches_keeps [OF r] l issued_cases [OF assms(1,3)] on_write_path_take by fastforce
qed

text \<open>
  The write path is open when Curity gives token data for the scope and the SVID of each of the four
  workloads verifies.
\<close>

definition write_path_open :: "('w, 'r) curity \<Rightarrow> (string \<Rightarrow> string) \<Rightarrow> bool" where
  "write_path_open C svid =
     ((\<forall>aud w. \<exists>data0 w'. cuInit C aud [''ops:write''] w = (Inr data0, w'))
      \<and> (\<forall>a \<in> set write_path. svid a \<noteq> [] \<and> (\<forall>s. \<exists>t. verifySpiffeSvid C (svid a) s = (Inr a, t))))"

lemma fixture_write_path: "write_path_open fixture_curity (\<lambda>a. a)"
proof -
  have "\<exists>data0 w'. cuInit fixture_curity aud [''ops:write''] w = (Inr data0, w')" for aud w by (simp add: fixture_curity_def)
  moreover have "a \<in> set write_path \<Longrightarrow> a \<noteq> []" for a using spiffe_ids by (auto simp: write_path_def simp del: spiffe_ids)
  ultimately show ?thesis unfolding write_path_open_def using fixture_verifies_svid by simp
qed

lemma write_next:
  assumes "standard_data C" "write_path_open C svid"
    and "issued C l c" "write_ready c" "actor \<in> set write_path"
    and "\<exists>p ap. om_get CLIENT_POLICY client = Some p \<and> om_get (cpPerAudience p) aud = Some ap
      \<and> ''ops:write'' \<in> set (apScopes ap) \<and> cpAllowedActor p = actor \<and> apMayAct ap = nxt"
    and "dgMayAct (delegation_of c) = Some actor"
  shows "\<exists>c'. issued C l c' \<and> write_ready c' \<and> set (parseScopes c') = {JStr ''ops:write''}
      \<and> delegation_of c' = \<lparr> dgAudience = JArr [JStr aud], dgScopes = {''ops:write''},
          dgActors = actor # dgActors (delegation_of c), dgMayAct = nxt, dgAcr = dgAcr (delegation_of c), dgRoles = dgRoles (delegation_of c) \<rparr>"
proof -
  fix s
  obtain data t where d: "issue_data C \<lparr> erSubject = c, erActor = Some (svid actor), erClientId = client, erAudiences = [aud],
        erScopes = [''ops:write''] \<rparr> s = (Inr data, t)"
      "delegation_of (JObj data) = \<lparr> dgAudience = JArr [JStr aud], dgScopes = {''ops:write''},
          dgActors = actor # dgActors (delegation_of c), dgMayAct = nxt, dgAcr = dgAcr (delegation_of c), dgRoles = dgRoles (delegation_of c) \<rparr>"
      "set (parseScopes (JObj data)) = {JStr ''ops:write''}"
    using write_hop [OF assms(1) _ _ _ assms(6,4,7)] assms(2,5) unfolding write_path_open_def by meson
  have "issued C l (JObj data)" using assms(3) _ d(1) by (rule issued.exchanged) simp
  moreover have "write_ready (JObj data)" using d(2) assms(4) by (simp add: write_ready_def)
  ultimately show ?thesis using d(2,3) by blast
qed

lemma write_path_token:
  assumes "standard_data C" "write_path_open C svid"
    and "jget (JObj data0) ''act'' = JUndef" "''ops:write'' \<in> set (scope_words (jget (JObj data0) ''scope''))"
    and "{''sre'', ''oncall''} \<inter> set (claimToArray (jget (JObj data0) ''roles'')) \<noteq> {}"
  shows "\<exists>c. issued C (JObj (login_claims acr data0)) c \<and> jget c ''aud'' = JArr [JStr ''ops-api'']
    \<and> walkActChain (jget c ''act'') = rev write_path \<and> dgAcr (delegation_of c) = (if nullish acr then JUndef else acr)
    \<and> set (parseScopes c) = {JStr ''ops:write''}"
proof -
  let ?l = "JObj (login_claims acr data0)" and ?d = "delegation_of (JObj (login_claims acr data0))"
  note l = login_delegation [OF assms(3), of acr] and hop = write_next [OF assms(1,2)]
  have a: "SPIFFE_COPILOT \<in> set write_path" "SPIFFE_SPECIALIST \<in> set write_path" "SPIFFE_GATEWAY \<in> set write_path"
    "SPIFFE_MCP_OPS \<in> set write_path" by (simp_all add: write_path_def)
  have r: "write_ready ?l" "dgMayAct ?d = Some SPIFFE_COPILOT" "dgActors ?d = []" using assms(4,5) l by (simp_all add: write_ready_def)
  obtain c1 where c1: "issued C ?l c1" "write_ready c1" "dgActors (delegation_of c1) = [SPIFFE_COPILOT]"
    "dgMayAct (delegation_of c1) = Some SPIFFE_SPECIALIST" "dgAcr (delegation_of c1) = dgAcr ?d"
    using hop [OF issued.login_token r(1) a(1) policy_write(1) r(2)] r(3) by auto
  obtain c2 where c2: "issued C ?l c2" "write_ready c2" "dgActors (delegation_of c2) = [SPIFFE_SPECIALIST, SPIFFE_COPILOT]"
    "dgMayAct (delegation_of c2) = Some SPIFFE_GATEWAY" "dgAcr (delegation_of c2) = dgAcr ?d"
    using hop [OF c1(1,2) a(2) policy_write(2) c1(4)] c1(3,5) by auto
  obtain c3 where c3: "issued C ?l c3" "write_ready c3" "dgActors (delegation_of c3) = [SPIFFE_GATEWAY, SPIFFE_SPECIALIST, SPIFFE_COPILOT]"
    "dgMayAct (delegation_of c3) = Some SPIFFE_MCP_OPS" "dgAcr (delegation_of c3) = dgAcr ?d"
    using hop [OF c2(1,2) a(3) policy_write(3) c2(4)] c2(3,5) by auto
  obtain c4 where c4: "issued C ?l c4" "dgActors (delegation_of c4) = rev write_path" "dgAudience (delegation_of c4) = JArr [JStr ''ops-api'']"
    "dgAcr (delegation_of c4) = dgAcr ?d" "set (parseScopes c4) = {JStr ''ops:write''}"
    using hop [OF c3(1,2) a(4) policy_write(4) c3(4)] c3(3,5) by (auto simp: write_path_def)
  have "jget c4 ''aud'' = dgAudience (delegation_of c4)" "walkActChain (jget c4 ''act'') = dgActors (delegation_of c4)"
    by (simp_all add: delegation_of_def)
  then show ?thesis using c4 l by (intro exI [of _ c4]) simp
qed

theorem authority_only_shrinks_witness:
  "\<exists>c. issued fixture_curity (JObj (login_claims (JStr ''mfa'') fixture_login)) c \<and> dgScopes (delegation_of c) \<noteq> {}
     \<and> dgScopes (delegation_of c) \<subseteq> {''openid'', ''inspect:read'', ''ops:write''} \<and> dgRoles (delegation_of c) = {''sre''}"
proof -
  obtain c where c: "issued fixture_curity (JObj (login_claims (JStr ''mfa'') fixture_login)) c" "set (parseScopes c) = {JStr ''ops:write''}"
    "walkActChain (jget c ''act'') = rev write_path"
    using write_path_token [OF fixture_standard fixture_write_path fixture_login_facts(1), of "JStr ''mfa''"] fixture_login_facts(2,3) by auto
  have "c \<noteq> JObj (login_claims (JStr ''mfa'') fixture_login)"
    using c(3) login_delegation [OF fixture_login_facts(1), of "JStr ''mfa''"] by (auto simp: delegation_of_def write_path_def)
  then have "dgScopes (delegation_of c) \<noteq> {}" using issued_cases [OF fixture_standard c(1)] c(2) by auto
  moreover note a = authority_only_shrinks [OF fixture_standard fixture_login_facts(1) c(1)]
  have "dgScopes (delegation_of c) \<subseteq> {''openid'', ''inspect:read'', ''ops:write''}"
    using a [THEN conjunct1] unfolding fixture_login_facts(2) .
  moreover have "dgRoles (delegation_of c) = {''sre''}"
    using a [THEN conjunct2, THEN conjunct2, THEN conjunct1] unfolding fixture_login_facts(3) .
  ultimately show ?thesis using c(1) by (intro exI [of _ c] conjI)
qed

section \<open>The write API\<close>

lemma default_ops_config:
  assumes "loadOpsApiConfig env = Inr cfg" "env ''REQUIRED_SCOPES'' = None" "env ''REQUIRED_ACR'' = None"
  shows "oaRequiredScopes cfg = [''ops:write'']" "oaRequiredAcr cfg = ''mfa''"
    "list_all2 (\<lambda>p c. p c) (oaExpectedChain cfg) xs = (xs = rev write_path)"
proof -
  obtain iss jwks where c: "required_env env ''CURITY_ISSUER'' = Inr iss" "required_env env ''CURITY_JWKS_URI'' = Inr jwks"
    using assms(1) unfolding loadOpsApiConfig_def
    by (cases "required_env env ''CURITY_ISSUER''"; cases "required_env env ''CURITY_JWKS_URI''"; simp add: sum_bind_def)
  have "words_ws ''ops:write'' = [''ops:write'']" by (simp add: words_ws_def words_by_def is_ws_def)
  then show "oaRequiredScopes cfg = [''ops:write'']" "oaRequiredAcr cfg = ''mfa''"
    using assms c by (auto simp: loadOpsApiConfig_def sum_bind_def or_else_def)
  have "oaExpectedChain cfg = map (\<lambda>p. SPIFFE_ID (fst p) (snd p)) ops_chain"
    using assms(1) c by (auto simp: loadOpsApiConfig_def sum_bind_def)
  moreover have "map (\<lambda>p. spiffe_id (fst p) (snd p)) ops_chain = rev write_path"
    by (simp add: ops_chain_def write_path_def SPIFFE_COPILOT_def SPIFFE_SPECIALIST_def SPIFFE_GATEWAY_def SPIFFE_MCP_OPS_def)
  ultimately show "list_all2 (\<lambda>p c. p c) (oaExpectedChain cfg) xs = (xs = rev write_path)"
    by (simp only: spiffe_chain_iff)
qed

text \<open>
  C6. The write path works: when Curity answers and the four workloads' SVIDs verify, the four exchanges
  of the documented path turn the login token of a user with a write role and the write scope, logged in
  with acr mfa, into a token for ops-api that its gate, as configured by default, lets through.
\<close>

theorem write_path_completes:
  assumes "standard_data C" "write_path_open C svid" "jget (JObj data0) ''act'' = JUndef"
    and "''ops:write'' \<in> set (scope_words (jget (JObj data0) ''scope''))"
    and "{''sre'', ''oncall''} \<inter> set (claimToArray (jget (JObj data0) ''roles'')) \<noteq> {}"
    and "loadOpsApiConfig env = Inr cfg" "env ''REQUIRED_SCOPES'' = None" "env ''REQUIRED_ACR'' = None"
  shows "\<exists>c. issued C (JObj (login_claims (JStr ''mfa'') data0)) c \<and> jget c ''aud'' = JArr [JStr ''ops-api'']
    \<and> ops_api_decide cfg (verified_of (c, h)) = None"
proof -
  obtain c where c: "issued C (JObj (login_claims (JStr ''mfa'') data0)) c" "jget c ''aud'' = JArr [JStr ''ops-api'']"
    "walkActChain (jget c ''act'') = rev write_path" "dgAcr (delegation_of c) = JStr ''mfa''" "set (parseScopes c) = {JStr ''ops:write''}"
    using write_path_token [OF assms(1-5), of "JStr ''mfa''"] by auto
  have "is_object (jget c ''act'')" using c(3) walk_no_object by (fastforce simp: write_path_def)
  moreover have "jget c ''acr'' = JStr ''mfa''" using c(4) by (auto simp: delegation_of_def split: if_splits)
  ultimately have "ops_api_grants cfg (verified_of (c, h))"
    using c(3,5) default_ops_config [OF assms(6-8)] by (simp add: ops_api_grants_def verified_of_def has_scope_def)
  then show ?thesis using c(1,2) ops_api_decide_None by blast
qed

definition default_env :: "string \<Rightarrow> string option" where
  "default_env = [''CURITY_ISSUER'' \<mapsto> ''https://as'', ''CURITY_JWKS_URI'' \<mapsto> ''https://as/jwks'']"

definition default_ops_api :: ops_api_config where
  "default_ops_api = fixture_ops_config\<lparr> oaResourceMetadataUrl := ''https://ops-api.localtest.me/.well-known/oauth-protected-resource'' \<rparr>"

lemma default_ops_api: "loadOpsApiConfig default_env = Inr default_ops_api"
  by (simp add: loadOpsApiConfig_def default_env_def default_ops_api_def fixture_ops_config_def sum_bind_def required_env_def
      or_else_def words_ws_def words_by_def is_ws_def)

theorem write_path_completes_witness:
  "\<exists>c. issued fixture_curity (JObj (login_claims (JStr ''mfa'') fixture_login)) c \<and> ops_api_decide default_ops_api (verified_of (c, JNull)) = None"
  using write_path_completes [OF fixture_standard fixture_write_path fixture_login_facts(1), of default_env default_ops_api JNull]
    fixture_login_facts(2,3) default_ops_api by (auto simp: default_env_def)

text \<open>
  What one accepted token says of the login it comes from: the requirements of the write API on the token are
  requirements on the login, whoever logged in.
\<close>

lemma granted_login:
  assumes "standard_data C" "jget (JObj data0) ''act'' = JUndef" "issued C (JObj (login_claims acr data0)) (vPayload v)"
    and "loadOpsApiConfig env = Inr cfg" "env ''REQUIRED_SCOPES'' = None" "env ''REQUIRED_ACR'' = None"
    and "ops_api_grants cfg v" "v = verified_of p"
  shows "acr = JStr ''mfa''" "''ops:write'' \<in> set (scope_words (jget (JObj data0) ''scope''))"
    "{''sre'', ''oncall''} \<inter> set (claimToArray (jget (JObj data0) ''roles'')) \<noteq> {}"
    "jget (vPayload v) ''acr'' = JStr ''mfa''" "walkActChain (jget (vPayload v) ''act'') = rev write_path"
proof -
  let ?l = "JObj (login_claims acr data0)" and ?d = "delegation_of (fst p)"
  note cfg = default_ops_config [OF assms(4-6)] and l = login_delegation [OF assms(2), of acr]
  have i: "issued C ?l (fst p)" using assms(3,8) by (simp add: verified_of_def)
  have g: "JStr ''ops:write'' \<in> set (parseScopes (fst p))" "dgActors ?d = rev write_path" "jget (fst p) ''acr'' = JStr ''mfa''"
    using assms(7,8) cfg by (simp_all add: ops_api_grants_def verified_of_def has_scope_def delegation_of_def)
  have n: "fst p \<noteq> ?l" using g(2) l by (auto simp: write_path_def)
  have w: "''ops:write'' \<in> dgScopes ?d" using issued_cases [OF assms(1) i] n g(1) by auto
  have a: "dgAcr ?d = JStr ''mfa''" using g(3) by (simp add: delegation_of_def)
  have "?d \<noteq> delegation_of ?l" using g(2) l by (auto simp: write_path_def)
  then have k: "dgScopes ?d \<subseteq> dgScopes (delegation_of ?l)" "dgAcr ?d = dgAcr (delegation_of ?l)"
    "{''sre'', ''oncall''} \<inter> dgRoles (delegation_of ?l) \<noteq> {}"
    using reaches_keeps [OF issued_reaches [OF assms(1) i]] w by blast+
  show "acr = JStr ''mfa''" using k(2) a unfolding l by (simp split: if_splits)
  show "''ops:write'' \<in> set (scope_words (jget (JObj data0) ''scope''))" using k(1) w unfolding l by auto
  show "{''sre'', ''oncall''} \<inter> set (claimToArray (jget (JObj data0) ''roles'')) \<noteq> {}" using k(3) unfolding l by simp
  show "jget (vPayload v) ''acr'' = JStr ''mfa''" "walkActChain (jget (vPayload v) ''act'') = rev write_path"
    using g(2,3) assms(8) by (simp_all add: delegation_of_def verified_of_def)
qed

text \<open>
  C4. Nothing reaches the cluster without the right login. Suppose Curity signs what it issues: each token the
  write API's verifier accepts under the configured key set, issuer and audience was issued by the exchange
  procedure, in any number of steps, from the token of some login, of any user and with any acr. Then each Kubernetes
  call of the default-configured service is made for a presented token that verified and was issued after a login with
  acr mfa and the write scope, of a user with a write role, delegated through exactly the four workloads.
\<close>

theorem write_needs_the_right_login:
  assumes "standard_data C" "jwks_cache_ok P s"
    and "\<And>tok w p w'. jwtVerify P tok (createRemoteJWKSet P (oaJwksUri cfg)) (jwt_expectations (ops_api_opts cfg)) w = (Inr p, w')
           \<Longrightarrow> \<exists>acr data0. jget (JObj data0) ''act'' = JUndef \<and> issued C (JObj (login_claims acr data0)) (fst p)"
    and "loadOpsApiConfig env = Inr cfg" "env ''REQUIRED_SCOPES'' = None" "env ''REQUIRED_ACR'' = None"
    and "ops_api_serve r cfg P patch authz body s = (x, t)"
  shows "\<exists>es. out t = out s @ es \<and> (k8s_calls es = [] \<or>
    (\<exists>tok v u data0. bearer_of authz = Some tok \<and> verifyJwt P tok (ops_api_opts cfg) s = (Inr v, u)
       \<and> issued C (JObj (login_claims (JStr ''mfa'') data0)) (vPayload v)
       \<and> ''ops:write'' \<in> set (scope_words (jget (JObj data0) ''scope''))
       \<and> {''sre'', ''oncall''} \<inter> set (claimToArray (jget (JObj data0) ''roles'')) \<noteq> {}
       \<and> jget (vPayload v) ''acr'' = JStr ''mfa'' \<and> walkActChain (jget (vPayload v) ''act'') = rev write_path))"
proof -
  obtain es where es: "out t = out s @ es" "k8s_calls es = [] \<or> (\<exists>b tok v u. k8s_calls es = [(''patchNamespacedDeployment'',
            [jget body ''name'', js_or (jget body ''namespace'') (JStr (oaTargetNamespace cfg)), b])]
       \<and> bearer_of authz = Some tok \<and> verifyJwt P tok (ops_api_opts cfg) s = (Inr v, u) \<and> ops_api_grants cfg v)"
    using serve_guard [OF assms(7)] by blast
  show ?thesis
  proof (cases "k8s_calls es = []")
    case False
    then obtain tok v u where v: "bearer_of authz = Some tok" "verifyJwt P tok (ops_api_opts cfg) s = (Inr v, u)" "ops_api_grants cfg v"
      using es(2) by blast
    obtain w p w' where p: "v = verified_of p"
      "jwtVerify P tok (createRemoteJWKSet P (oaJwksUri cfg)) (jwt_expectations (ops_api_opts cfg)) w = (Inr p, w')"
      using verifyJwt_success [OF v(2) assms(2)] by (auto simp: ops_api_opts_def)
    then obtain acr data0 where l: "jget (JObj data0) ''act'' = JUndef" "issued C (JObj (login_claims acr data0)) (vPayload v)"
      using assms(3) [OF p(2)] unfolding p(1) by (simp only: verified_of_def verified_jwt.simps) blast
    note g = granted_login [OF assms(1) l assms(4-6) v(3) p(1)]
    show ?thesis using es(1) v(1,2) l(2) g by (intro exI [of _ es] conjI disjI2 exI [of _ tok] exI [of _ v] exI [of _ u] exI [of _ data0]) simp_all
  qed (use es(1) in blast)
qed

theorem write_needs_the_right_login_witness:
  "\<exists>c. issued fixture_curity (JObj (login_claims (JStr ''password'') fixture_login)) c \<and> walkActChain (jget c ''act'') = rev write_path
     \<and> k8s_calls (out (snd (ops_api_serve Restart default_ops_api (fixture_gate c) (\<lambda>_ _ _ w. (Inr (JObj []), w)) (Some ''Bearer tok'')
          (JObj [(''name'', JStr ''checkout'')]) (idle 0)))) = []"
proof -
  obtain c where c: "issued fixture_curity (JObj (login_claims (JStr ''password'') fixture_login)) c"
    "walkActChain (jget c ''act'') = rev write_path" "dgAcr (delegation_of c) = JStr ''password''"
    using write_path_token [OF fixture_standard fixture_write_path fixture_login_facts(1), of "JStr ''password''"]
      fixture_login_facts(2,3) by auto
  let ?m = "ops_api_serve Restart default_ops_api (fixture_gate c) (\<lambda>_ _ _ w. (Inr (JObj []), w)) (Some ''Bearer tok'')
          (JObj [(''name'', JStr ''checkout'')]) (idle 0)"
  have acr: "jget c ''acr'' \<noteq> JStr ''mfa''" using c(3) by (auto simp: delegation_of_def split: if_splits)
  have v: "jwtVerify (fixture_gate c) tok j x w = (Inr p, w') \<Longrightarrow> fst p = c" for tok j x w p w'
    by (auto simp: fixture_gate_def fixture_def split: if_splits)
  have ok: "jwks_cache_ok (fixture_gate c) (idle 0)" by (simp add: jwks_cache_ok_def idle_def)
  have c': "vPayload y = c" if "verifyJwt (fixture_gate c) tok opts (idle 0) = (Inr y, u)" for tok y u opts
    using verifyJwt_success [OF that ok] v by (auto simp: verified_of_def)
  have "\<exists>es. out (snd ?m) = out (idle 0) @ es \<and> (k8s_calls es = [] \<or>
    (\<exists>tok y u data0. bearer_of (Some ''Bearer tok'') = Some tok \<and> verifyJwt (fixture_gate c) tok (ops_api_opts default_ops_api) (idle 0) = (Inr y, u)
       \<and> issued fixture_curity (JObj (login_claims (JStr ''mfa'') data0)) (vPayload y)
       \<and> ''ops:write'' \<in> set (scope_words (jget (JObj data0) ''scope''))
       \<and> {''sre'', ''oncall''} \<inter> set (claimToArray (jget (JObj data0) ''roles'')) \<noteq> {}
       \<and> jget (vPayload y) ''acr'' = JStr ''mfa'' \<and> walkActChain (jget (vPayload y) ''act'') = rev write_path))"
    by (rule write_needs_the_right_login [OF fixture_standard ok _ default_ops_api _ _ surjective_pairing])
       (use v c(1) fixture_login_facts(1) in \<open>auto simp: default_env_def\<close>)
  then have "k8s_calls (out (snd ?m)) = []" using acr c' by (auto simp: idle_def)
  then show ?thesis using c by blast
qed

section \<open>Refusals\<close>

definition policy_pairs :: "(string \<times> string) list" where
  "policy_pairs = concat (map (\<lambda>cp. map (\<lambda>ap. (fst cp, fst ap)) (cpPerAudience (snd cp))) CLIENT_POLICY)"

lemma policy_pairs_all:
  "om_get CLIENT_POLICY client = Some p \<Longrightarrow> om_get (cpPerAudience p) aud = Some ap \<Longrightarrow> list_all Q policy_pairs \<Longrightarrow> Q (client, aud)"
  by (drule om_get_mem)+ (force simp: policy_pairs_def list_all_iff)

lemma scope_refusal_text:
  assumes "om_get CLIENT_POLICY client = Some p" "om_get (cpPerAudience p) aud = Some ap"
  shows "\<not> contains_ci ''actor'' (snd (snd (wire (no_scope client aud)))) \<and> contains_ci ''invalid_scope'' (snd (snd (wire (no_scope client aud))))"
proof -
  let ?t = "\<lambda>ca. snd (snd (wire (no_scope (fst ca) (snd ca))))"
  have "list_all (\<lambda>ca. \<not> contains_ci ''actor'' (?t ca) \<and> contains_ci ''invalid_scope'' (?t ca)) policy_pairs" by code_simp
  then show ?thesis using policy_pairs_all [OF assms] by fastforce
qed

lemma decide_refuses:
  assumes "om_get CLIENT_POLICY (erClientId q) = Some p" "erAudiences q = [aud]" "om_get (cpPerAudience p) aud = Some ap"
    and "erSubject q \<noteq> JNull" "erActor q = Some svid" "svid \<noteq> []" "decide q = Inl e"
  shows "if narrow q (apScopes ap) = [] then e = no_scope (erClientId q) aud else (\<exists>m. e = Forbidden (CHR ''u'' # m))"
  using assms by (auto simp: decide_def decide_scopes_def lookup_audience_def split: if_splits)

text \<open>
  C32. A refusal of the exchange procedure reaches the agent as what it is: for a configured client and
  audience, when no scope is left the exchange client reports invalid scope, and when only the write role is
  missing it reports access denied, each with the procedure's description.
\<close>

theorem refusal_reaches_the_agent:
  assumes "om_get CLIENT_POLICY (erClientId q) = Some p" "erAudiences q = [aud]" "om_get (cpPerAudience p) aud = Some ap"
    and "erSubject q \<noteq> JNull" "erActor q = Some svid" "svid \<noteq> []" "decide q = Inl e"
    and "wire e = (pStatus rsp, err, desc)" "pJson rsp = Inr (JObj [(''error'', JStr err), (''error_description'', JStr desc)])"
  shows "refusal_error rsp = CurityAuthError desc (if narrow q (apScopes ap) = [] then InvalidScope else AccessDenied)"
proof (cases "narrow q (apScopes ap) = []")
  case True
  then have "e = no_scope (erClientId q) aud" using decide_refuses [OF assms(1-7)] by simp
  moreover from this have "err = ''invalid_request''" "desc \<noteq> []" "js_string (JStr desc) = desc" using assms(8) by (auto simp: no_scope_def)
  ultimately show ?thesis using True assms(8,9) scope_refusal_text [OF assms(1,3)]
    by (simp add: refusal_error_def js_or_def in_error_map_def error_map_def object_prototype_def Let_def)
next
  case False
  then obtain m where "e = Forbidden (CHR ''u'' # m)" using decide_refuses [OF assms(1-7)] by auto
  then have "err = ''access_denied''" "desc = CHR ''u'' # m" using assms(8) by auto
  then show ?thesis using False assms(9) by (simp add: refusal_error_def js_or_def in_error_map_def error_map_def Let_def)
qed

definition role_refusal :: procedure_error where
  "role_refusal = Forbidden (''user lacks a write role ('' @ [CHR 0x27] @ ''sre'' @ [CHR 0x27] @ '' or '' @ [CHR 0x27] @ ''oncall'' @ [CHR 0x27]
     @ '') for ops:write'')"

theorem refusal_reaches_the_agent_witness:
  "\<exists>desc. wire role_refusal = (403, ''access_denied'', desc)
     \<and> refusal_error \<lparr> pStatus = 403, pStatusText = [], pHeaders = [], pJson = Inr (JObj [(''error'', JStr ''access_denied''),
         (''error_description'', JStr desc)]) \<rparr> = CurityAuthError desc AccessDenied"
proof -
  let ?q = "fixture_request\<lparr> erSubject := JObj [(''scope'', JStr ''ops:write''), (''roles'', JStr ''developer'')] \<rparr>"
  obtain p ap where p: "om_get CLIENT_POLICY (erClientId ?q) = Some p" "om_get (cpPerAudience p) ''agent-specialist'' = Some ap"
    "''ops:write'' \<in> set (apScopes ap)" using policy_write(1) by (auto simp: fixture_request_def)
  have w: "words_ws ''ops:write'' = [''ops:write'']" "words_ws ''developer'' = [''developer'']"
    by (simp_all add: words_ws_def words_by_def is_ws_def)
  then have n: "narrow ?q (apScopes ap) = [''ops:write'']" "lacks_write_role ?q (apScopes ap)"
    using p(3) by (simp_all add: narrow_def lacks_write_role_def requested_scopes_def scope_words_def fixture_request_def claimToArray_def)
  then have d: "decide ?q = Inl role_refusal"
    using p by (simp add: decide_def decide_scopes_def lookup_audience_def fixture_request_def role_refusal_def)
  obtain desc where "wire role_refusal = (403, ''access_denied'', desc)" by (simp add: role_refusal_def)
  then show ?thesis
    using refusal_reaches_the_agent [OF p(1) _ p(2) _ _ _ d, of SPIFFE_COPILOT "\<lparr> pStatus = 403, pStatusText = [], pHeaders = [],
        pJson = Inr (JObj [(''error'', JStr ''access_denied''), (''error_description'', JStr desc)]) \<rparr>" "''access_denied''" desc] n(1)
    by (simp add: fixture_request_def)
qed

end
