(* ===== verification/Ledger.thy ===== *)
theory Ledger
  imports Json EndToEnd "HOL-Library.List_Lexorder" "HOL-Library.Char_ord"
begin

text \<open>
  \<^verbatim>\<open>apps/web/src/lib/token-view.ts\<close>: the view model of the delegation ledger, which reconstructs from the
  decoded tokens of a chain which token was exchanged from which, and what each exchange changed. The second
  part is the agreement of that reconstruction with the exchanges the procedures of Curity perform.
\<close>

section \<open>One token\<close>

text \<open>\<^verbatim>\<open>/^spiffe:\/\/[^/]+\/ns\/[^/]+\/sa\/([^/]+)$/\<close>: the five pieces between slashes after the scheme.\<close>

definition ledger_spiffe :: "string \<Rightarrow> string" where
  "ledger_spiffe x =
     (case split_on CHR ''/'' x of
        [sch, e, td, ns, n, sa, w] \<Rightarrow>
          (if sch = ''spiffe:'' \<and> e = [] \<and> td \<noteq> [] \<and> ns = ''ns'' \<and> n \<noteq> [] \<and> sa = ''sa'' \<and> w \<noteq> [] then w else x)
      | _ \<Rightarrow> x)"

definition listClaim :: "js \<Rightarrow> string list" where
  "listClaim v =
     (if nullish v then []
      else case v of
             JArr xs \<Rightarrow> map js_string xs
           | JStr s \<Rightarrow> words_ws s
           | _ \<Rightarrow> [js_string v])"

fun act_loop :: "nat \<Rightarrow> js \<Rightarrow> string list \<Rightarrow> string list" where
  "act_loop 0 cur newestFirst = newestFirst"
| "act_loop (Suc n) cur newestFirst =
     (if \<not> is_object cur then newestFirst
      else act_loop n (jget cur ''act'')
             (if nullish (jget cur ''sub'') then newestFirst else newestFirst @ [js_string (jget cur ''sub'')]))"

definition actChainIds :: "js \<Rightarrow> string list" where
  "actChainIds act = rev (act_loop 16 act [])"

definition ledger_chain :: "js \<Rightarrow> string list" where
  "ledger_chain act = map ledger_spiffe (actChainIds act)"

definition mayActId :: "js \<Rightarrow> string option" where
  "mayActId v =
     (let sub_of = (\<lambda>obj. if is_object obj then str_unless_null (jget obj ''sub'') else None)
      in if nullish v then None
         else case v of
                JStr s \<Rightarrow> (case json_parse s of None \<Rightarrow> Some s | Some obj \<Rightarrow> sub_of obj)
              | _ \<Rightarrow> sub_of v)"

definition ledger_may_act :: "js \<Rightarrow> string option" where
  "ledger_may_act v = map_option ledger_spiffe (mayActId v)"

record hop_summary =
  hsSub :: "string option"
  hsAud :: "string list"
  hsScopes :: "string list"
  hsAcr :: "string option"
  hsRoles :: "string list"
  hsAct :: "string list"
  hsActIds :: "string list"
  hsMayAct :: "string option"
  hsMayActId :: "string option"
  hsIat :: "int option"
  hsExp :: "int option"

definition summarizeHop :: "js \<Rightarrow> hop_summary" where
  "summarizeHop p =
     \<lparr> hsSub = str_unless_null (jget p ''sub''), hsAud = listClaim (jget p ''aud''), hsScopes = listClaim (jget p ''scope''),
       hsAcr = str_unless_null (jget p ''acr''), hsRoles = listClaim (jget p ''roles''), hsAct = ledger_chain (jget p ''act''),
       hsActIds = actChainIds (jget p ''act''), hsMayAct = ledger_may_act (jget p ''may_act''),
       hsMayActId = mayActId (jget p ''may_act''), hsIat = as_num (jget p ''iat''), hsExp = as_num (jget p ''exp'') \<rparr>"

section \<open>The rows\<close>

record hop_diff =
  hdScopesKept :: "string list"
  hdScopesDropped :: "string list"
  hdAudChanged :: bool
  hdActAppended :: "string option"
  hdMayActHonoured :: "bool option"

record ledger_row =
  lrIndex :: nat
  lrHop :: string
  lrSummary :: hop_summary
  lrParent :: "nat option"
  lrDiff :: hop_diff
  lrLeaf :: bool
  lrNumber :: "nat option"

text \<open>\<open>search_parent ss want j\<close> is the loop of \<^verbatim>\<open>findParentIndex\<close> at \<open>j - 1\<close>; with equal lengths \<^verbatim>\<open>isPrefix\<close> is equality.\<close>

definition isPrefix :: "string list \<Rightarrow> string list \<Rightarrow> bool" where
  "isPrefix p xs = (length p \<le> length xs \<and> take (length p) xs = p)"

fun search_parent :: "hop_summary list \<Rightarrow> string list \<Rightarrow> nat \<Rightarrow> nat option" where
  "search_parent ss want 0 = None"
| "search_parent ss want (Suc j) =
     (let cand = ss ! j
      in if length (hsAct cand) = length want \<and> isPrefix want (hsAct cand) then Some j else search_parent ss want j)"

definition findParentIndex :: "hop_summary list \<Rightarrow> nat \<Rightarrow> nat option" where
  "findParentIndex ss i =
     (if hsAct (ss ! i) = [] then None else search_parent ss (butlast (hsAct (ss ! i))) i)"

definition diffAgainst :: "hop_summary option \<Rightarrow> hop_summary \<Rightarrow> hop_diff" where
  "diffAgainst parent cur =
     (case parent of
        None \<Rightarrow> \<lparr> hdScopesKept = [], hdScopesDropped = [], hdAudChanged = False, hdActAppended = None, hdMayActHonoured = None \<rparr>
      | Some p \<Rightarrow>
          (let appended = (if hsAct cur = [] then None else Some (last (hsAct cur)))
           in \<lparr> hdScopesKept = filter (\<lambda>x. x \<in> set (hsScopes p)) (hsScopes cur),
                hdScopesDropped = filter (\<lambda>x. x \<notin> set (hsScopes cur)) (hsScopes p),
                hdAudChanged = (hsAud p \<noteq> hsAud cur), hdActAppended = appended,
                hdMayActHonoured = (case (hsMayAct p, appended) of
                                      (Some m, Some a) \<Rightarrow> Some (m = a)
                                    | _ \<Rightarrow> None) \<rparr>))"

text \<open>A hop as \<^verbatim>\<open>/api/obo-chain\<close> gives it; \<^verbatim>\<open>note\<close> marks a leaf.\<close>

record chain_hop =
  chHop :: string
  chPayload :: js
  chNote :: "string option"

definition is_leaf :: "chain_hop \<Rightarrow> bool" where
  "is_leaf h = (case chNote h of None \<Rightarrow> False | Some n \<Rightarrow> n \<noteq> [])"

fun ledger_rows :: "hop_summary list \<Rightarrow> nat \<Rightarrow> nat \<Rightarrow> chain_hop list \<Rightarrow> ledger_row list" where
  "ledger_rows ss i spine [] = []"
| "ledger_rows ss i spine (h # hs) =
     \<lparr> lrIndex = i, lrHop = chHop h, lrSummary = ss ! i, lrParent = findParentIndex ss i,
       lrDiff = diffAgainst (map_option ((!) ss) (findParentIndex ss i)) (ss ! i),
       lrLeaf = is_leaf h, lrNumber = (if is_leaf h then None else Some spine) \<rparr>
     # ledger_rows ss (Suc i) (if is_leaf h then spine else Suc spine) hs"

definition buildLedger :: "chain_hop list \<Rightarrow> ledger_row list" where
  "buildLedger chain = ledger_rows (map (\<lambda>h. summarizeHop (chPayload h)) chain) 0 0 chain"

section \<open>Above the rows\<close>

record chain_baseline =
  cbSub :: "string option"
  cbRoles :: "string list"
  cbAcr :: "string option"

definition chainBaseline :: "ledger_row list \<Rightarrow> chain_baseline" where
  "chainBaseline rows =
     (case (case find (\<lambda>r. lrParent r = None) rows of Some r \<Rightarrow> Some r | None \<Rightarrow> (case rows of [] \<Rightarrow> None | r # _ \<Rightarrow> Some r)) of
        None \<Rightarrow> \<lparr> cbSub = None, cbRoles = [], cbAcr = None \<rparr>
      | Some r \<Rightarrow> \<lparr> cbSub = hsSub (lrSummary r), cbRoles = hsRoles (lrSummary r), cbAcr = hsAcr (lrSummary r) \<rparr>)"

text \<open>Which of \<^verbatim>\<open>sub\<close>, \<^verbatim>\<open>roles\<close> and \<^verbatim>\<open>acr\<close> differ.\<close>

definition hopDeltas :: "hop_summary \<Rightarrow> chain_baseline \<Rightarrow> bool \<times> bool \<times> bool" where
  "hopDeltas s b =
     (let key = (\<lambda>r :: string list. join '' '' (sort r))
      in (hsSub s \<noteq> cbSub b, key (hsRoles s) \<noteq> key (cbRoles b), hsAcr s \<noteq> cbAcr b))"

definition names_write_hop :: "string \<Rightarrow> bool" where
  "names_write_hop s = list_ex (\<lambda>p. contains p s) [''agent-specialist'', ''mcp-ops'', ''ops-api'']"

text \<open>\<open>None\<close> before anything has run; otherwise whether the chain is the privileged one.\<close>

definition flowOfChain :: "chain_hop list \<Rightarrow> bool option" where
  "flowOfChain chain =
     (if length chain < 2 then None
      else Some (list_ex (\<lambda>h. names_write_hop (chHop h) \<or> list_ex names_write_hop (listClaim (jget (chPayload h) ''aud''))) chain))"

lemmas ledger_eval [eval_simps] = ledger_spiffe_def listClaim_def actChainIds_def ledger_chain_def mayActId_def ledger_may_act_def
  summarizeHop_def isPrefix_def findParentIndex_def diffAgainst_def is_leaf_def buildLedger_def chainBaseline_def

section \<open>The tree of exchanges\<close>

text \<open>Tokens and what was exchanged from each, and their listing as the agents return it: depth first.\<close>

datatype token_tree = Token (token_claims: js) (token_children: "token_tree list")

fun listing :: "token_tree \<Rightarrow> js list" where
  "listing (Token c ts) = c # concat (map listing ts)"

fun tree_depth :: "token_tree \<Rightarrow> nat" where
  "tree_depth (Token c ts) = foldr max (map (\<lambda>t. Suc (tree_depth t)) ts) 0"

text \<open>The position of each token's parent in the listing, for a tree listed from position \<open>n\<close>.\<close>

fun parent_list :: "nat option \<Rightarrow> nat \<Rightarrow> token_tree \<Rightarrow> nat option list"
  and parent_lists :: "nat \<Rightarrow> nat \<Rightarrow> token_tree list \<Rightarrow> nat option list" where
  "parent_list p n (Token c ts) = p # parent_lists n (Suc n) ts"
| "parent_lists p n [] = []"
| "parent_lists p n (t # ts) = parent_list (Some p) n t @ parent_lists p (n + length (listing t)) ts"

fun tree_rel :: "(js \<Rightarrow> js \<Rightarrow> bool) \<Rightarrow> token_tree \<Rightarrow> bool" where
  "tree_rel R (Token c ts) = list_all (\<lambda>t. R c (token_claims t) \<and> tree_rel R t) ts"

abbreviation claims_chain :: "js \<Rightarrow> string list" where
  "claims_chain c \<equiv> ledger_chain (jget c ''act'')"

definition grows :: "js \<Rightarrow> js \<Rightarrow> bool" where
  "grows c c' = (\<exists>x. claims_chain c' = claims_chain c @ [x])"

lemma listing_head: "\<exists>cs. listing t = token_claims t # cs"
  by (cases t) simp

lemma grows_length:
  "tree_rel grows t \<Longrightarrow> c \<in> set (listing t) \<Longrightarrow> length (claims_chain (token_claims t)) \<le> length (claims_chain c)"
proof (induction t)
  case (Token c0 ts)
  show ?case
  proof (cases "c = c0")
    case False
    then obtain t where t: "t \<in> set ts" "c \<in> set (listing t)" using Token.prems(2) by auto
    then have "tree_rel grows t" "grows c0 (token_claims t)" using Token.prems(1) by (auto simp: list_all_iff)
    then have "length (claims_chain (token_claims t)) \<le> length (claims_chain c)" using Token.IH [OF t(1) _ t(2)] by blast
    with \<open>grows c0 (token_claims t)\<close> show ?thesis by (auto simp: grows_def)
  qed simp
qed

lemma search_parent_hit:
  "p < n \<Longrightarrow> hsAct (ss ! p) = want \<Longrightarrow> (\<And>j. p < j \<Longrightarrow> j < n \<Longrightarrow> length want < length (hsAct (ss ! j))) \<Longrightarrow>
   search_parent ss want n = Some p"
proof (induction n)
  case (Suc n)
  show ?case
  proof (cases "p = n")
    case False
    then have "p < n" "length want \<noteq> length (hsAct (ss ! n))" using Suc.prems(1) Suc.prems(3) [of n] by auto
    then show ?thesis using Suc.IH Suc.prems(2,3) by simp
  qed (use Suc.prems in \<open>simp add: isPrefix_def\<close>)
qed simp

lemma search_parent_less: "search_parent ss want n = Some j \<Longrightarrow> j < n"
  by (induction n) (auto simp: Let_def less_SucI split: if_splits)

lemma upt_split: "[n..<n + (a + b)] = [n..<n + a] @ [n + a..<n + a + b]"
  using upt_add_eq_append [of n "n + a" b] by (simp add: add.assoc)

lemma upt_first: "[n..<n + length (x # xs)] = n # [Suc n..<Suc n + length xs]"
  by (simp add: upt_conv_Cons del: upt_Suc)

text \<open>With chains that grow by one actor per exchange, the search finds each token's parent.\<close>

lemma parents_found:
  fixes ss :: "hop_summary list"
  shows "map (\<lambda>j. hsAct (ss ! j)) [n..<n + length (listing t)] = map claims_chain (listing t) \<Longrightarrow> tree_rel grows t \<Longrightarrow>
      findParentIndex ss n = p \<Longrightarrow>
      map (findParentIndex ss) [n..<n + length (listing t)] = parent_list p n t"
    and "map (\<lambda>j. hsAct (ss ! j)) [n..<n + length (concat (map listing ts))] = map claims_chain (concat (map listing ts)) \<Longrightarrow>
      q < n \<Longrightarrow> list_all (\<lambda>t. (\<exists>x. claims_chain (token_claims t) = hsAct (ss ! q) @ [x]) \<and> tree_rel grows t) ts \<Longrightarrow>
      (\<And>j. q < j \<Longrightarrow> j < n \<Longrightarrow> length (hsAct (ss ! q)) < length (hsAct (ss ! j))) \<Longrightarrow>
      map (findParentIndex ss) [n..<n + length (concat (map listing ts))] = parent_lists q n ts"
proof (induction p n t and q n ts rule: parent_list_parent_lists.induct)
  case (1 p n c ts)
  have u: "[n..<n + length (listing (Token c ts))] = n # [Suc n..<Suc n + length (concat (map listing ts))]"
    by (simp only: listing.simps upt_first)
  have c: "hsAct (ss ! n) = claims_chain c"
    and m: "map (\<lambda>j. hsAct (ss ! j)) [Suc n..<Suc n + length (concat (map listing ts))] = map claims_chain (concat (map listing ts))"
    using 1(2) unfolding u by simp_all
  have "map (findParentIndex ss) [Suc n..<Suc n + length (concat (map listing ts))] = parent_lists n (Suc n) ts"
    by (rule 1(1) [OF m]) (use 1(3) c in \<open>auto simp: list_all_iff grows_def\<close>)
  then show ?case using 1(4) unfolding u by simp
next
  case (2 q n)
  then show ?case by simp
next
  case (3 q n t ts)
  let ?a = "length (listing t)" and ?b = "length (concat (map listing ts))"
  have u: "[n..<n + length (concat (map listing (t # ts)))] = [n..<n + ?a] @ [n + ?a..<n + ?a + ?b]"
    by (simp add: upt_split [symmetric])
  have m: "map (\<lambda>j. hsAct (ss ! j)) [n..<n + ?a] = map claims_chain (listing t)"
      "map (\<lambda>j. hsAct (ss ! j)) [n + ?a..<n + ?a + ?b] = map claims_chain (concat (map listing ts))"
    using 3(3) unfolding u by (simp_all add: append_eq_append_conv)
  obtain x where x: "claims_chain (token_claims t) = hsAct (ss ! q) @ [x]" and g: "tree_rel grows t" using 3(5) by auto
  obtain cs where l: "listing t = token_claims t # cs" using listing_head by blast
  have h: "hsAct (ss ! n) = hsAct (ss ! q) @ [x]" using m(1) x unfolding l upt_first by simp
  have "findParentIndex ss n = Some q"
    unfolding findParentIndex_def h using search_parent_hit [of q n ss "hsAct (ss ! q)"] 3(4,6) by simp
  note first = 3(1) [OF m(1) g this]
  have inside: "length (hsAct (ss ! q)) < length (hsAct (ss ! j))" if "n \<le> j" "j < n + ?a" for j
  proof -
    have "hsAct (ss ! j) \<in> set (map (\<lambda>j. hsAct (ss ! j)) [n..<n + ?a])" using that by auto
    then obtain c where "c \<in> set (listing t)" "hsAct (ss ! j) = claims_chain c" unfolding m(1) by auto
    then show ?thesis using grows_length [OF g] x by fastforce
  qed
  have "map (findParentIndex ss) [n + ?a..<n + ?a + ?b] = parent_lists q (n + ?a) ts"
  proof (rule 3(2) [OF m(2)])
    show "length (hsAct (ss ! q)) < length (hsAct (ss ! j))" if "q < j" "j < n + ?a" for j
      using 3(6) [OF that(1)] inside [OF _ that(2)] by (cases "j < n") auto
  qed (use 3(4,5) in auto)
  then show ?case using first unfolding u by simp
qed

text \<open>What holds between a token and its parent holds along those positions.\<close>

definition at_parent :: "(js \<Rightarrow> js \<Rightarrow> bool) \<Rightarrow> (nat \<Rightarrow> js) \<Rightarrow> nat \<Rightarrow> nat option \<Rightarrow> bool" where
  "at_parent R g i q = (case q of None \<Rightarrow> True | Some j \<Rightarrow> R (g j) (g i))"

lemma parents_related:
  fixes g :: "nat \<Rightarrow> js"
  shows "map g [n..<n + length (listing t)] = listing t \<Longrightarrow> tree_rel R t \<Longrightarrow> at_parent R g n p \<Longrightarrow>
      list_all2 (at_parent R g) [n..<n + length (listing t)] (parent_list p n t)"
    and "map g [n..<n + length (concat (map listing ts))] = concat (map listing ts) \<Longrightarrow>
      list_all (\<lambda>t. R (g q) (token_claims t) \<and> tree_rel R t) ts \<Longrightarrow>
      list_all2 (at_parent R g) [n..<n + length (concat (map listing ts))] (parent_lists q n ts)"
proof (induction p n t and q n ts rule: parent_list_parent_lists.induct)
  case (1 p n c ts)
  have u: "[n..<n + length (listing (Token c ts))] = n # [Suc n..<Suc n + length (concat (map listing ts))]"
    by (simp only: listing.simps upt_first)
  show ?case using 1 unfolding u by simp
next
  case (2 q n)
  then show ?case by simp
next
  case (3 q n t ts)
  let ?a = "length (listing t)" and ?b = "length (concat (map listing ts))"
  have u: "[n..<n + length (concat (map listing (t # ts)))] = [n..<n + ?a] @ [n + ?a..<n + ?a + ?b]"
    by (simp add: upt_split [symmetric])
  have m: "map g [n..<n + ?a] = listing t" "map g [n + ?a..<n + ?a + ?b] = concat (map listing ts)"
    using 3(3) unfolding u by (simp_all add: append_eq_append_conv)
  have "g n = token_claims t" using m(1) by (cases t) (simp only: listing.simps upt_first, simp)
  then show ?case using 3(1) [OF m(1)] 3(2) [OF m(2)] 3(4) unfolding u by (simp add: at_parent_def list_all2_appendI)
qed

lemma rows_parents: "map lrParent (ledger_rows ss i sp hs) = map (findParentIndex ss) [i..<i + length hs]"
  by (induction hs arbitrary: i sp) (simp_all only: ledger_rows.simps upt_first list.map ledger_row.simps, simp)

lemma rows_shape:
  "r \<in> set (ledger_rows ss i sp hs) \<Longrightarrow> \<exists>k. i \<le> k \<and> k < i + length hs \<and> lrParent r = findParentIndex ss k \<and> lrSummary r = ss ! k
     \<and> lrDiff r = diffAgainst (map_option ((!) ss) (findParentIndex ss k)) (ss ! k)"
proof (induction hs arbitrary: i sp)
  case (Cons h hs)
  show ?case
  proof (cases "r \<in> set (ledger_rows ss (Suc i) (if is_leaf h then sp else Suc sp) hs)")
    case True
    from Cons.IH [OF this] show ?thesis by (metis Suc_leD add_Suc_shift length_Cons)
  next
    case False
    then show ?thesis using Cons.prems by (intro exI [of _ i]) auto
  qed
qed simp

text \<open>The ledger of a listed tree: the parents are the tree's, and each row describes the step from its parent.\<close>

lemma ledger_of_tree:
  assumes "tree_rel grows t" "tree_rel R t" "map chPayload chain = listing t"
  shows "map lrParent (buildLedger chain) = parent_list None 0 t"
    and "\<And>r. r \<in> set (buildLedger chain) \<Longrightarrow> lrParent r \<noteq> None \<Longrightarrow>
      \<exists>c c'. R c c' \<and> lrSummary r = summarizeHop c' \<and> lrDiff r = diffAgainst (Some (summarizeHop c)) (summarizeHop c')"
proof -
  let ?ss = "map (\<lambda>h. summarizeHop (chPayload h)) chain"
  have n: "length chain = length (listing t)" using assms(3) by (metis length_map)
  have pay: "chPayload (chain ! j) = listing t ! j" if "j < length (listing t)" for j
    using that n arg_cong [OF assms(3), of "\<lambda>xs. xs ! j"] by simp
  have act: "hsAct (summarizeHop c) = claims_chain c" for c by (simp add: summarizeHop_def)
  have "map (\<lambda>j. hsAct (?ss ! j)) [0..<0 + length (listing t)] = map claims_chain (listing t)"
    by (rule nth_equalityI) (simp_all add: pay act n)
  then have P: "map (findParentIndex ?ss) [0..<0 + length (listing t)] = parent_list None 0 t"
    by (rule parents_found(1) [OF _ assms(1)]) (simp add: findParentIndex_def)
  then show "map lrParent (buildLedger chain) = parent_list None 0 t"
    unfolding buildLedger_def rows_parents n by simp
  have "map ((!) (listing t)) [0..<0 + length (listing t)] = listing t" by (simp add: map_nth)
  from parents_related(1) [OF this assms(2), of None]
  have L: "list_all2 (at_parent R ((!) (listing t))) [0..<0 + length (listing t)] (parent_list None 0 t)"
    by (simp add: at_parent_def)
  fix r assume r: "r \<in> set (buildLedger chain)" "lrParent r \<noteq> None"
  obtain k where k: "k < length (listing t)" "lrParent r = findParentIndex ?ss k" "lrSummary r = ?ss ! k"
    "lrDiff r = diffAgainst (map_option ((!) ?ss) (findParentIndex ?ss k)) (?ss ! k)"
    using rows_shape [OF r(1) [unfolded buildLedger_def]] n by auto
  obtain j where j: "findParentIndex ?ss k = Some j" using r(2) k(2) by auto
  have "at_parent R ((!) (listing t)) k (Some j)"
    using list_all2_nthD [OF L, of k] k(1) j arg_cong [OF P, of "\<lambda>xs. xs ! k"] by simp
  moreover have "j < k" using j unfolding findParentIndex_def
    by (auto split: if_splits dest!: search_parent_less)
  ultimately show "\<exists>c c'. R c c' \<and> lrSummary r = summarizeHop c' \<and> lrDiff r = diffAgainst (Some (summarizeHop c)) (summarizeHop c')"
    using k j pay n by (intro exI [of _ "listing t ! j"] exI [of _ "listing t ! k"]) (simp add: at_parent_def)
qed

section \<open>What Curity issued, and what the ledger shows\<close>

inductive exchanged_from :: "('w, 'r) curity \<Rightarrow> js \<Rightarrow> js \<Rightarrow> bool" for C c where
  "erSubject q = c \<Longrightarrow> issue_data C q s = (Inr data, t) \<Longrightarrow> exchanged_from C c (JObj data)"

text \<open>At most \<open>n\<close> actors deep, so that the loop's guard does not stop it.\<close>

fun shallow :: "nat \<Rightarrow> js \<Rightarrow> bool" where
  "shallow 0 a = (\<not> is_object a)"
| "shallow (Suc n) a = (is_object a \<longrightarrow> shallow n (jget a ''act''))"

text \<open>A token as the procedures leave it.\<close>

definition ledger_ready :: "nat \<Rightarrow> js \<Rightarrow> bool" where
  "ledger_ready n c =
     (shallow n (jget c ''act'') \<and> (\<exists>sc. jget c ''scope'' = JStr sc)
      \<and> (jget c ''may_act'' = JUndef \<or> (\<exists>m. jget c ''may_act'' = JObj [(''sub'', JStr m)])))"

definition step_shown :: "js \<Rightarrow> js \<Rightarrow> bool" where
  "step_shown c c' =
     (let d = diffAgainst (Some (summarizeHop c)) (summarizeHop c')
      in hdMayActHonoured d = map_option (\<lambda>_. True) (hsMayAct (summarizeHop c))
         \<and> hdScopesKept d = hsScopes (summarizeHop c') \<and> hdActAppended d \<noteq> None)"

lemma act_loop_acc: "act_loop n cur acc = acc @ act_loop n cur []"
proof (induction n arbitrary: cur acc)
  case (Suc n)
  show ?case
    using Suc.IH [of "jget cur ''act''" acc] Suc.IH [of "jget cur ''act''" "acc @ [js_string (jget cur ''sub'')]"]
      Suc.IH [of "jget cur ''act''" "[js_string (jget cur ''sub'')]"] by simp
qed simp

lemma act_loop_shallow: "shallow n a \<Longrightarrow> n \<le> m \<Longrightarrow> act_loop m a acc = act_loop n a acc"
proof (induction n arbitrary: m a acc)
  case 0
  then show ?case by (cases m) simp_all
next
  case (Suc n)
  then obtain k where "m = Suc k" "n \<le> k" by (cases m) auto
  then show ?case using Suc.IH [of "jget a ''act''" k] Suc.prems(1) by simp
qed

lemma chain_extended:
  assumes "shallow n a" "n < 16"
  shows "actChainIds (if nullish a then JObj [(''sub'', JStr s)] else JObj [(''sub'', JStr s), (''act'', a)]) = actChainIds a @ [s]"
proof -
  let ?a = "if nullish a then JUndef else a"
  have sixteen: "act_loop 16 = act_loop (Suc 15)" by simp
  have "act_loop 15 ?a [] = act_loop 16 ?a []"
    using act_loop_shallow [OF assms(1), of 15 "[]"] act_loop_shallow [OF assms(1), of 16 "[]"] assms(2)
    by (cases "nullish a") (simp_all add: numeral_eq_Suc)
  moreover have "act_loop 16 a [] = act_loop 16 ?a []" by (cases a) (simp_all add: numeral_eq_Suc)
  moreover have "act_loop 16 (if nullish a then JObj [(''sub'', JStr s)] else JObj [(''sub'', JStr s), (''act'', a)]) []
      = [s] @ act_loop 15 ?a []"
    unfolding sixteen using act_loop_acc [of 15 ?a "[s]"] by (cases "nullish a"; subst act_loop.simps(2); simp)
  ultimately show ?thesis by (simp add: actChainIds_def)
qed

lemma scopes_shown: "jget c ''scope'' = JStr sc \<Longrightarrow> hsScopes (summarizeHop c) = scope_words (jget c ''scope'')"
  by (simp add: summarizeHop_def listClaim_def scope_words_def words_ws_def words_by_def)

lemma may_act_shown:
  "hsMayAct (summarizeHop c) = (if jget c ''may_act'' = JUndef then None else Some (ledger_spiffe m))"
  if "jget c ''may_act'' = JUndef \<or> jget c ''may_act'' = JObj [(''sub'', JStr m)]"
  using that by (auto simp: summarizeHop_def ledger_may_act_def mayActId_def str_unless_null_def)

lemma exchange_shown:
  assumes "standard_data C" "exchanged_from C c c'" "ledger_ready n c" "n < 16"
  shows "ledger_ready (Suc n) c' \<and> grows c c' \<and> step_shown c c'"
  using assms(2)
proof (cases rule: exchanged_from.cases)
  case (1 q s data t)
  let ?act = "jget c ''act''"
  obtain d data0 actor u w where d: "decide q = Inr d"
    and i: "cuInit C (dcAudience d) (dcNarrowed d) (csWorld s) = (Inr data0, w)"
    and a: "actor = cpAllowedActor (dcPolicy d)" "proc_mayActSub (jget (erSubject q) ''may_act'') \<in> {None, Some actor}"
    and e: "data = stamp q d actor data0"
    using 1(3) by (rule issue_data_Inr)
  note p = decide_Inr [OF d]
  have z: "jget (JObj data0) ''scope'' = JStr (join '' '' (dcNarrowed d))" "jget (JObj data0) ''may_act'' = JUndef"
    using assms(1) i unfolding standard_data_def by (fastforce simp del: jget.simps)+
  have act: "jget c' ''act'' = (if nullish ?act then JObj [(''sub'', JStr actor)] else JObj [(''sub'', JStr actor), (''act'', ?act)])"
    using 1(1,2) e by (simp add: stamp_def Let_def split: option.splits del: jget.simps)
  have scope: "jget c' ''scope'' = JStr (join '' '' (dcNarrowed d))"
    using 1(1) e z(1) by (simp add: stamp_other del: jget.simps)
  have may: "jget c' ''may_act'' = JUndef \<or> (\<exists>m. jget c' ''may_act'' = JObj [(''sub'', JStr m)])"
    using 1(1) e z(2) by (auto simp: stamp_def Let_def split: option.splits simp del: jget.simps)
  have r: "shallow n ?act" using assms(3) by (simp add: ledger_ready_def)
  then have "shallow (Suc n) (jget c' ''act'')" unfolding act by (cases n) auto
  then have ready: "ledger_ready (Suc n) c'" using scope may by (simp add: ledger_ready_def)
  have ids: "actChainIds (jget c' ''act'') = actChainIds ?act @ [actor]"
    unfolding act by (rule chain_extended [OF r assms(4)])
  then have chain: "claims_chain c' = claims_chain c @ [ledger_spiffe actor]" by (simp add: ledger_chain_def)
  have sub: "dcNarrowed d \<noteq> []" "set (dcNarrowed d) \<subseteq> set (scope_words (jget c ''scope''))"
    using p narrow_subset [of q "apScopes (dcAudPolicy d)"] 1(2) by auto
  have kept: "scope_words (jget c' ''scope'') = dcNarrowed d" unfolding scope by (rule scope_words_join [OF sub])
  obtain sc m where c: "jget c ''scope'' = JStr sc" "jget c ''may_act'' = JUndef \<or> jget c ''may_act'' = JObj [(''sub'', JStr m)]"
    using assms(3) by (auto simp: ledger_ready_def)
  have "jget c ''may_act'' \<noteq> JUndef \<Longrightarrow> m = actor"
    using a(2) c(2) 1(2) by (auto simp: proc_mayActSub_def)
  then have "step_shown c c'"
    unfolding step_shown_def diffAgainst_def Let_def
    using chain kept sub(2) scopes_shown [OF c(1)] scopes_shown [OF scope] may_act_shown [OF c(2)]
    by (simp add: filter_id_conv subset_eq summarizeHop_def)
  then show ?thesis using ready chain unfolding grows_def by blast
qed

lemma depth_child: "t \<in> set ts \<Longrightarrow> Suc (tree_depth t) \<le> tree_depth (Token c ts)"
  by (induction ts) auto

lemma tree_shown:
  assumes "standard_data C"
  shows "tree_rel (exchanged_from C) t \<Longrightarrow> ledger_ready n (token_claims t) \<Longrightarrow> n + tree_depth t \<le> 16 \<Longrightarrow>
    tree_rel grows t \<and> tree_rel step_shown t"
proof (induction t arbitrary: n)
  case (Token c ts)
  have "grows c (token_claims t) \<and> step_shown c (token_claims t) \<and> tree_rel grows t \<and> tree_rel step_shown t" if t: "t \<in> set ts" for t
  proof -
    have n: "Suc n + tree_depth t \<le> 16" using depth_child [OF t, of c] Token.prems(3) by linarith
    have x: "exchanged_from C c (token_claims t)" "tree_rel (exchanged_from C) t" using Token.prems(1) t by (auto simp: list_all_iff)
    have s: "ledger_ready (Suc n) (token_claims t) \<and> grows c (token_claims t) \<and> step_shown c (token_claims t)"
      by (rule exchange_shown [OF assms x(1)]) (use Token.prems(2) n in auto)
    then show ?thesis using Token.IH [OF t x(2) _ n] by blast
  qed
  then show ?case by (simp add: list_all_iff)
qed

text \<open>
  C19. The ledger shows the delegation that took place. For the tokens of a login, listed depth first as the
  agents return them, it gives each token the parent Curity exchanged it from, finds the actor of every
  exchange to be the one the parent's may_act named wherever it names one, and no scope the parent had not.
\<close>

theorem ledger_shows_the_exchanges:
  assumes "standard_data C" "tree_rel (exchanged_from C) t" "token_claims t = JObj (login_claims acr data0)"
    and "jget (JObj data0) ''act'' = JUndef" "jget (JObj data0) ''scope'' = JStr sc" "tree_depth t \<le> 16"
    and "map chPayload chain = listing t"
  shows "map lrParent (buildLedger chain) = parent_list None 0 t
    \<and> (\<forall>r \<in> set (buildLedger chain). lrParent r \<noteq> None \<longrightarrow>
         hdMayActHonoured (lrDiff r) \<noteq> Some False \<and> hdActAppended (lrDiff r) \<noteq> None
         \<and> hdScopesKept (lrDiff r) = hsScopes (lrSummary r))"
proof -
  have "ledger_ready 0 (token_claims t)"
    unfolding ledger_ready_def assms(3) login_claims_def using assms(4,5) by (simp del: jget.simps)
  note shown = tree_shown [OF assms(1,2) this, unfolded add_0, OF assms(6)]
  note ledger = ledger_of_tree [OF conjunct1 [OF shown] conjunct2 [OF shown] assms(7)]
  have "hdMayActHonoured (lrDiff r) \<noteq> Some False \<and> hdActAppended (lrDiff r) \<noteq> None \<and> hdScopesKept (lrDiff r) = hsScopes (lrSummary r)"
    if "r \<in> set (buildLedger chain)" "lrParent r \<noteq> None" for r
    using ledger(2) [OF that] by (auto simp: step_shown_def Let_def)
  then show ?thesis using ledger(1) by blast
qed

theorem ledger_shows_the_exchanges_witness:
  "\<exists>c. map lrParent (buildLedger [\<lparr> chHop = ''user'', chPayload = JObj (login_claims (JStr ''mfa'') fixture_login), chNote = None \<rparr>,
      \<lparr> chHop = ''specialist'', chPayload = c, chNote = None \<rparr>]) = [None, Some 0]"
proof -
  let ?l = "JObj (login_claims (JStr ''mfa'') fixture_login)"
  obtain r u where "exchange_result fixture_curity fixture_request fixture_worker = (Inr r, u)" using fixture_exchange by blast
  then obtain data t where "issue_data fixture_curity fixture_request fixture_worker = (Inr data, t)"
    by (auto simp: exchange_result_def issue_data_def pe_bind_Inr)
  then have x: "exchanged_from fixture_curity ?l (JObj data)" by (intro exchanged_from.intros) (simp_all add: fixture_request_def)
  have "tree_rel (exchanged_from fixture_curity) (Token ?l [Token (JObj data) []])" using x by simp
  from ledger_shows_the_exchanges [OF fixture_standard this _ fixture_login_facts(1), of "JStr ''mfa''" "''openid inspect:read ops:write''"
      "[\<lparr> chHop = ''user'', chPayload = ?l, chNote = None \<rparr>, \<lparr> chHop = ''specialist'', chPayload = JObj data, chNote = None \<rparr>]"]
  show ?thesis by (intro exI [of _ "JObj data"]) (simp add: fixture_login_def)
qed

end
