(* ===== verification/ChatPage.thy ===== *)
theory ChatPage
  imports Bff Ledger
begin

text \<open>
  What the browser makes of the answers: \<^verbatim>\<open>apps/web/src/lib/chat-rules.ts\<close>, \<^verbatim>\<open>fetch-error.ts\<close>, \<^verbatim>\<open>step-up-return.ts\<close>,
  \<^verbatim>\<open>session-view.ts\<close>, and the request handling of \<^verbatim>\<open>app/chat.tsx\<close> (its state, \<^verbatim>\<open>submit\<close>, the return from a step-up and
  the sign-in it asks for). The second part follows a verdict from the specialist to the page.
\<close>

section \<open>Rules of the page\<close>

datatype flow = ReadFlow | PrivilegedFlow

definition flowOf :: "js \<Rightarrow> flow" where
  "flowOf response = (if truthy (jget response ''route'') \<or> truthy (jget response ''specialist'') then PrivilegedFlow else ReadFlow)"

text \<open>\<open>JNull\<close> before there is a response.\<close>

definition svidFlowToShow :: "js \<Rightarrow> flow option \<Rightarrow> flow option" where
  "svidFlowToShow response override =
     (case override of Some f \<Rightarrow> Some f | None \<Rightarrow> if truthy response then Some (flowOf response) else None)"

record panels =
  pnSvids :: bool
  pnChain :: bool
  pnTools :: bool

text \<open>What to refresh is what is open.\<close>

definition panelsToRefresh :: "panels \<Rightarrow> panels" where
  "panelsToRefresh opened = \<lparr> pnSvids = pnSvids opened, pnChain = pnChain opened, pnTools = pnTools opened \<rparr>"

datatype tier = ReadTier | WriteTier

definition SUGGESTIONS :: "(string \<times> tier) list" where
  "SUGGESTIONS =
     [(''List all pods in the prod namespace'', ReadTier),
      (''Show recent logs for the checkout-service deployment in prod'', ReadTier),
      (''What image and replica count is order-service running in prod?'', ReadTier),
      (''List the pods in the kube-system namespace'', ReadTier),
      (''Restart the order-service deployment in prod'', WriteTier),
      (''Scale checkout-service to 3 replicas in prod'', WriteTier),
      (''Update order-service to image busybox:1.36 and verify the rollout'', WriteTier)]"

definition SUGGESTION_GROUPS :: "(string \<times> tier \<times> (string \<times> tier) list) list" where
  "SUGGESTION_GROUPS =
     [(''Inspect'', ReadTier, filter (\<lambda>s. snd s = ReadTier) SUGGESTIONS), (''Act'', WriteTier, filter (\<lambda>s. snd s = WriteTier) SUGGESTIONS)]"

definition DEFAULT_PROMPT :: string where "DEFAULT_PROMPT = fst (hd SUGGESTIONS)"

definition friendlyErrorMessage :: "int \<Rightarrow> js \<Rightarrow> string \<Rightarrow> string" where
  "friendlyErrorMessage status code subject =
     (if status = 401 \<or> code \<in> {JStr ''session_expired'', JStr ''unauthenticated'', JStr ''no_access_token''}
        then ''Your session has expired. Sign in again to refresh your tokens.''
      else if status = 502 \<or> code = JStr ''upstream_error''
        then ''Couldn'' @ [CHR 0x27] @ ''t reach the agent to load '' @ subject @ ''. It may be restarting '' @ em_dash @ '' try again in a moment.''
      else ''Couldn'' @ [CHR 0x27] @ ''t load '' @ subject @ ''. Please try again.'')"

text \<open>\<open>body\<close> is \<^verbatim>\<open>res.json()\<close>; reading a member of null is caught like a body that is no JSON.\<close>

definition friendlyFetchError :: "int \<Rightarrow> exn + js \<Rightarrow> string \<Rightarrow> string" where
  "friendlyFetchError status body subject =
     friendlyErrorMessage status (case body of Inr b \<Rightarrow> jget b ''error'' | Inl _ \<Rightarrow> JUndef) subject"

datatype agent_failure =
    NeedsStepUp string string      \<comment> \<open>acr values, scope\<close>
  | Denied string
  | FailedRequest string string    \<comment> \<open>message, detail\<close>

definition classifyAgentFailure :: "int \<Rightarrow> js \<Rightarrow> agent_failure" where
  "classifyAgentFailure status body =
     (let kind = jget body ''kind''
      in if status = 401 \<and> kind = JStr ''step-up''
           then NeedsStepUp (js_string (js_or (jget body ''acrValues'') (JStr []))) (js_string (js_or (jget body ''scope'') (JStr [])))
         else if status = 403 \<and> kind = JStr ''access-denied''
           then Denied (js_string (js_or (jget body ''reason'') (JStr ''access denied'')))
         else (let code = (if is_string (jget body ''error'') then jget body ''error'' else JUndef);
                   raw = (case body of JUndef \<Rightarrow> [] | JStr s \<Rightarrow> s | v \<Rightarrow> json_text v)
               in FailedRequest (friendlyErrorMessage status code ''an answer from the copilot'')
                    (if raw \<noteq> [] then ''HTTP '' @ int_str status @ '' '' @ [CHR 0xC2, CHR 0xB7] @ '' '' @ raw else ''HTTP '' @ int_str status)))"

section \<open>The step-up handshake\<close>

text \<open>\<^verbatim>\<open>sessionStorage\<close>: strings by key.\<close>

type_synonym storage = "(string, string) omap"

definition stashStepUp :: "string \<Rightarrow> string \<Rightarrow> storage \<Rightarrow> storage" where
  "stashStepUp message scope st = om_set (om_set (om_set st ''sre.pendingMessage'' message) ''sre.pendingScope'' scope) ''sre.autoRetry'' ''1''"

record step_up_return =
  urMessage :: string
  urScope :: string
  urRetry :: bool

definition takeStepUpReturn :: "storage \<Rightarrow> step_up_return option \<times> storage" where
  "takeStepUpReturn st =
     (case om_get st ''sre.pendingMessage'' of
        None \<Rightarrow> (None, st)
      | Some message \<Rightarrow>
          (Some \<lparr> urMessage = message, urScope = or_else (om_get st ''sre.pendingScope'') [],
                 urRetry = (om_get st ''sre.autoRetry'' \<noteq> None) \<rparr>,
           om_delete (om_delete (om_delete st ''sre.pendingMessage'') ''sre.pendingScope'') ''sre.autoRetry''))"

text \<open>The parameters of the sign-in a challenge leads to.\<close>

definition step_up_params :: "string \<Rightarrow> string \<Rightarrow> (string \<times> string) list" where
  "step_up_params acr scope =
     [(''acr_values'', acr), (''prompt'', ''consent''), (''scope'', ''openid inspect:read llm:invoke '' @ scope)]"

section \<open>The state of the page\<close>

record chat_ui =
  uiMessage :: string
  uiLoading :: bool
  uiResponse :: js                  \<comment> \<open>null without one\<close>
  uiAsked :: "string option"
  uiError :: "agent_failure option"
  uiStepUp :: "(string \<times> string) option"
  uiMfaReturn :: "step_up_return option"

definition initial_ui :: chat_ui where
  "initial_ui = \<lparr> uiMessage = DEFAULT_PROMPT, uiLoading = False, uiResponse = JNull, uiAsked = None, uiError = None,
                  uiStepUp = None, uiMfaReturn = None \<rparr>"

text \<open>A reply to \<^verbatim>\<open>fetch('/api/agent')\<close>: the failure of the call, or a status and what the body parses to.\<close>

type_synonym reply = "exn + int \<times> js"

definition begin_submit :: "bool \<Rightarrow> chat_ui \<Rightarrow> chat_ui" where
  "begin_submit fromStepUp u =
     (let u1 = u\<lparr> uiLoading := True, uiError := None, uiResponse := JNull, uiStepUp := None \<rparr>
      in if fromStepUp then u1 else u1\<lparr> uiMfaReturn := None \<rparr>)"

definition call_failed :: "exn \<Rightarrow> agent_failure" where
  "call_failed e = FailedRequest (''Couldn'' @ [CHR 0x27] @ ''t reach the copilot. Check your connection and try again.'') (exn_string e)"

text \<open>With the identities open, an answer without a body makes \<^verbatim>\<open>flowOf\<close> throw after it is shown.\<close>

definition show_reply :: "bool \<Rightarrow> string \<Rightarrow> reply \<Rightarrow> chat_ui \<Rightarrow> chat_ui" where
  "show_reply svidsOpen outgoing r u =
     (case r of
        Inl e \<Rightarrow> u\<lparr> uiError := Some (call_failed e) \<rparr>
      | Inr (status, body) \<Rightarrow>
          if 200 \<le> status \<and> status \<le> 299
          then (let u1 = u\<lparr> uiResponse := body, uiAsked := Some outgoing \<rparr>
                in if svidsOpen \<and> nullish body
                   then u1\<lparr> uiError := Some (call_failed (type_error (''Cannot read properties of '' @ js_string body))) \<rparr> else u1)
          else (case classifyAgentFailure status body of
                  NeedsStepUp acr scope \<Rightarrow> u\<lparr> uiStepUp := Some (acr, scope) \<rparr>
                | f \<Rightarrow> u\<lparr> uiError := Some f \<rparr>))"

text \<open>\<open>ask\<close> sends a message; \<^verbatim>\<open>finally\<close> ends the loading state.\<close>

definition submit :: "(string \<Rightarrow> reply) \<Rightarrow> bool \<Rightarrow> string option \<Rightarrow> bool \<Rightarrow> chat_ui \<Rightarrow> chat_ui" where
  "submit ask svidsOpen override fromStepUp u =
     (let outgoing = or_else override (uiMessage u)
      in if trim outgoing = [] then u
         else (show_reply svidsOpen outgoing (ask outgoing) (begin_submit fromStepUp u))\<lparr> uiLoading := False \<rparr>)"

text \<open>What a successful answer refreshes, and the flow the identities are shown for.\<close>

definition after_answer :: "panels \<Rightarrow> reply \<Rightarrow> (panels \<times> flow) option" where
  "after_answer opened r =
     (case r of
        Inr (status, body) \<Rightarrow> if 200 \<le> status \<and> status \<le> 299 then Some (panelsToRefresh opened, flowOf body) else None
      | Inl _ \<Rightarrow> None)"

text \<open>The effect that runs when the page is mounted (no panel is open yet), with the storage it leaves.\<close>

definition mount_page :: "(string \<Rightarrow> reply) \<Rightarrow> storage \<Rightarrow> chat_ui \<Rightarrow> chat_ui \<times> storage" where
  "mount_page ask st u =
     (case takeStepUpReturn st of
        (None, st') \<Rightarrow> (u, st')
      | (Some back, st') \<Rightarrow>
          (let u1 = u\<lparr> uiMessage := urMessage back \<rparr>
           in if urRetry back then (submit ask False (Some (urMessage back)) True (u1\<lparr> uiMfaReturn := Some back \<rparr>), st') else (u1, st')))"

section \<open>The lifetime in the header\<close>

datatype level = LevelOk | LevelLow | LevelExpired

text \<open>Milliseconds are whole, so the floor of the difference is that of the quotient.\<close>

definition tokenLifetime :: "int option \<Rightarrow> int \<Rightarrow> (int \<times> level \<times> string) option" where
  "tokenLifetime expiresAt now =
     (case expiresAt of
        None \<Rightarrow> None
      | Some e \<Rightarrow>
          (let remaining = max 0 ((e * 1000 - now) div 1000)
           in if remaining = 0 then Some (remaining, LevelExpired, ''expired'')
              else (let m = remaining div 60; s = remaining mod 60
                    in Some (remaining, if remaining < 60 then LevelLow else LevelOk,
                         if m > 0 then int_str m @ ''m '' @ int_str s @ ''s left'' else int_str s @ ''s left''))))"

lemmas chat_page_eval [eval_simps] = flowOf_def svidFlowToShow_def panelsToRefresh_def SUGGESTIONS_def DEFAULT_PROMPT_def
  friendlyErrorMessage_def friendlyFetchError_def classifyAgentFailure_def stashStepUp_def takeStepUpReturn_def step_up_params_def
  initial_ui_def begin_submit_def call_failed_def show_reply_def submit_def after_answer_def mount_page_def tokenLifetime_def

section \<open>From the specialist to the page\<close>

text \<open>What the browser parses of an answer: the text of a JSON answer, or whatever was passed through.\<close>

definition browser_reply :: "next_res \<Rightarrow> reply" where
  "browser_reply ans =
     Inr (nxStatus ans, case nxBody ans of JsonBody v \<Rightarrow> json_norm v | TextBody raw \<Rightarrow> or_else (json_parse raw) JUndef)"

text \<open>A browser session with a token, and a network on which the copilot's answer arrives as its JSON text.\<close>

definition signed_in :: "'w web_deps \<Rightarrow> js \<Rightarrow> bool" where
  "signed_in W a =
     (truthy a \<and> (\<forall>w. (\<exists>sess w'. wbSession W w = (Inr sess, w') \<and> truthy sess)
        \<and> (\<exists>tok w'. wbToken W w = (Inr tok, w') \<and> jget tok ''accessToken'' = a)))"

definition delivers :: "(string \<Rightarrow> string option) \<Rightarrow> ('w, 'j) platform \<Rightarrow> 'w web_deps \<Rightarrow> js \<Rightarrow> string \<Rightarrow> http_res \<Rightarrow> bool" where
  "delivers env P W a message res =
     (\<forall>w. \<exists>rsp raw w'. fetchHttp P (chat_forward env a (JStr message)) w = (Inr rsp, w') \<and> pStatus rsp = rStatus res
        \<and> wbText W rsp = Inr raw \<and> json_parse raw = Some (json_norm (rBody res)))"

lemma hint_total: "\<exists>v t. auth_server_hint P u s = (Inr v, t)"
proof -
  obtain x t where "(io_bind (http_fetch P (bare_get (js_string u))) (\<lambda>r.
        io_bind (lift_sum (pJson r)) (\<lambda>md.
        io_bind (prop_of md ''authorization_servers'') (\<lambda>servers.
          io_return (js_or (js_first servers) (JStr [])))))) s = (x, t)" by fastforce
  then show ?thesis by (cases x) (simp_all add: auth_server_hint_def io_catch_def io_return_def)
qed

lemma json_parse_Nil: "json_parse raw = Some v \<Longrightarrow> raw \<noteq> []"
  by (auto simp: json_parse_def skip_ws_def)

lemma agent_post_answer:
  assumes "signed_in W a" "delivers env P W a message res" "message \<noteq> []"
  shows "\<exists>rsp raw u. pStatus rsp = rStatus res \<and> raw \<noteq> [] \<and> json_parse raw = Some (json_norm (rBody res))
    \<and> agent_post env P W (Inr (JObj [(''message'', JStr message)])) s =
        (if rStatus res = 401 \<or> rStatus res = 403 then typed_answer P rsp raw u else (Inr (passthrough rsp raw), u))"
proof -
  obtain sess w1 where s1: "wbSession W (world s) = (Inr sess, w1)" "truthy sess" using assms(1) unfolding signed_in_def by blast
  obtain tok w2 where s2: "wbToken W w1 = (Inr tok, w2)" "jget tok ''accessToken'' = a" "truthy a"
    using assms(1) unfolding signed_in_def by blast
  obtain u1 where l: "oboLog P (chat_call_event P a (JStr message)) (s\<lparr>world := w2\<rparr>) = (Inr (), u1)" using oboLog_Inr by blast
  define u2 where "u2 = u1\<lparr>out := out u1 @ [Request (chat_forward env a (JStr message))]\<rparr>"
  obtain rsp raw w3 where f: "fetchHttp P (chat_forward env a (JStr message)) (world u2) = (Inr rsp, w3)" "pStatus rsp = rStatus res"
      "wbText W rsp = Inr raw" "json_parse raw = Some (json_norm (rBody res))"
    using assms(2) unfolding delivers_def by blast
  have h: "http_fetch P (chat_forward env a (JStr message)) u1 = (Inr rsp, u2\<lparr>world := w3\<rparr>)"
    using f(1) by (simp add: http_fetch_def io_bind_def emit_def world_try_def u2_def)
  have "agent_post env P W (Inr (JObj [(''message'', JStr message)])) s =
      (if rStatus res = 401 \<or> rStatus res = 403 then typed_answer P rsp raw (u2\<lparr>world := w3\<rparr>) else (Inr (passthrough rsp raw), u2\<lparr>world := w3\<rparr>))"
    using s1 s2 l h f(2,3) assms(3)
    by (simp add: agent_post_def with_access_token_def with_session_def io_bind_def world_try_def lift_sum_def prop_of_def io_return_def)
  then show ?thesis using f(2,4) json_parse_Nil by blast
qed

text \<open>The three kinds of answers, through the web server.\<close>

lemma json_norm_idem [simp]: "json_norm (json_norm v) = json_norm v"
proof (induction v rule: json_norm.induct)
  case (1 xs)
  then show ?case by (auto simp: comp_def)
next
  case (2 kvs)
  then show ?case by (auto simp: comp_def filter_map)
qed simp_all

lemma challenge_forwarded:
  assumes "signed_in W a" "delivers env P W a message (step_up_answer su)" "message \<noteq> []"
  shows "\<exists>ans t b. agent_post env P W (Inr (JObj [(''message'', JStr message)])) s = (Inr ans, t) \<and> browser_reply ans = Inr (401, b)
    \<and> classifyAgentFailure 401 b = NeedsStepUp (js_string (js_or (json_norm (jget su ''acrValues'')) (JStr [])))
         (js_string (js_or (json_norm (jget su ''scope'')) (JStr [])))"
proof -
  let ?v = "json_norm (rBody (step_up_answer su))"
  obtain rsp raw u where r: "pStatus rsp = rStatus (step_up_answer su)" "raw \<noteq> []" "json_parse raw = Some ?v"
      "agent_post env P W (Inr (JObj [(''message'', JStr message)])) s =
        (if rStatus (step_up_answer su) = 401 \<or> rStatus (step_up_answer su) = 403 then typed_answer P rsp raw u else (Inr (passthrough rsp raw), u))"
    using agent_post_answer [OF assms] by blast
  have st: "rStatus (step_up_answer su) = 401" by (simp add: step_up_answer_def answer_def)
  have v: "jget ?v ''kind'' = JStr ''step-up''" "jget ?v ''acrValues'' = json_norm (jget su ''acrValues'')"
      "jget ?v ''scope'' = json_norm (jget su ''scope'')"
    by (simp_all add: step_up_answer_def answer_def)
  have p: "parse_or_undef raw = ?v" using r(2,3) by (simp add: parse_or_undef_def or_else_def)
  obtain h t where h: "auth_server_hint P (jget ?v ''resourceMetadata'') u = (Inr h, t)" using hint_total by blast
  have "agent_post env P W (Inr (JObj [(''message'', JStr message)])) s =
      (Inr (next_json 401 [(''kind'', JStr ''step-up''), (''acrValues'', json_norm (jget su ''acrValues'')),
         (''scope'', json_norm (jget su ''scope'')), (''authServer'', h)]), t)"
    using r(1,4) h unfolding typed_answer_def p Let_def v st by (simp add: st v io_bind_def io_return_def)
  then show ?thesis
    by (intro exI conjI) (assumption, simp add: browser_reply_def next_json_def,
      auto simp: classifyAgentFailure_def Let_def js_or_def)
qed

lemma denial_forwarded:
  assumes "signed_in W a" "delivers env P W a message (answer 403 [] [(''kind'', JStr ''access-denied''), (''reason'', JStr m)])" "message \<noteq> []"
  shows "\<exists>ans t b. agent_post env P W (Inr (JObj [(''message'', JStr message)])) s = (Inr ans, t) \<and> browser_reply ans = Inr (403, b)
    \<and> classifyAgentFailure 403 b = Denied m"
proof -
  let ?res = "answer 403 [] [(''kind'', JStr ''access-denied''), (''reason'', JStr m)]"
  obtain rsp raw u where r: "pStatus rsp = rStatus ?res" "raw \<noteq> []" "json_parse raw = Some (json_norm (rBody ?res))"
      "agent_post env P W (Inr (JObj [(''message'', JStr message)])) s =
        (if rStatus ?res = 401 \<or> rStatus ?res = 403 then typed_answer P rsp raw u else (Inr (passthrough rsp raw), u))"
    using agent_post_answer [OF assms] by blast
  have p: "parse_or_undef raw = JObj [(''kind'', JStr ''access-denied''), (''reason'', JStr m)]"
    using r(2,3) by (simp add: parse_or_undef_def or_else_def answer_def)
  have "agent_post env P W (Inr (JObj [(''message'', JStr message)])) s =
      (Inr (next_json 403 [(''kind'', JStr ''access-denied''), (''reason'', JStr m)]), u)"
    using r(1,4) unfolding typed_answer_def p Let_def by (simp add: answer_def io_return_def)
  then show ?thesis
    by (intro exI conjI) (assumption, simp add: browser_reply_def next_json_def,
      simp add: classifyAgentFailure_def js_or_def)
qed

lemma answer_forwarded:
  assumes "signed_in W a" "delivers env P W a message res" "message \<noteq> []" "rStatus res = 200"
  shows "\<exists>ans t. agent_post env P W (Inr (JObj [(''message'', JStr message)])) s = (Inr ans, t)
    \<and> browser_reply ans = Inr (200, json_norm (rBody res))"
  using agent_post_answer [OF assms(1-3), of s] assms(4)
  by (auto simp: browser_reply_def passthrough_def or_else_def)

text \<open>
  C12. A verdict reaches the page as what it is. With a signed-in browser and a network that delivers the
  copilot's answer: a challenge of the specialist becomes the step-up prompt for its acr values and scope and
  nothing else; a failure or a finished run is shown as an answer with exactly the text the copilot chose.
\<close>

theorem verdict_reaches_the_page:
  assumes "mintToken s = (Inr tok, s1)" "\<And>p v. \<exists>t. send tok p v = (Inr result, t)"
    and "jget result ''kind'' = JStr ''message''" "extractText result = Some (json_pretty 0 (fst (published r)))"
    and "json_ok (fst (published r))"
    and "privileged Pc mintToken forget send cu message deployment ns reason s = (Inr res, s2)"
    and "signed_in W a" "delivers env P W a message res" "trim message \<noteq> []"
  shows "\<exists>ans t. agent_post env P W (Inr (JObj [(''message'', JStr message)])) sw = (Inr ans, t) \<and>
    (let page = submit (\<lambda>_. browser_reply ans) False (Some message) False u
     in case r of
       StepUp f \<Rightarrow> acrValues f = JUndef \<or> (uiError page = None \<and> uiResponse page = JNull
         \<and> uiStepUp page = Some (js_string (js_or (json_norm (acrValues f)) (JStr [])), js_string (js_or (json_norm (suScope f)) (JStr []))))
     | Failed err d \<Rightarrow> uiError page = None \<and> uiStepUp page = None
         \<and> jget (uiResponse page) ''answer'' = JStr (''Remediation on '' @ quoted deployment @ '' failed: '' @ json_pretty 0 (fst (published r)))
     | Done summary steps \<Rightarrow> uiError page = None \<and> uiStepUp page = None
         \<and> jget (uiResponse page) ''answer'' = JStr (if trim summary \<noteq> [] then trim summary
            else ''Remediation on '' @ quoted deployment @ '' finished, but the specialist returned no summary.''))"
proof -
  have m: "message \<noteq> []" using assms(9) by (auto simp: trim_def trim_start_def)
  have i: "interpret_result result = interpret_text (Some (json_pretty 0 (fst (published r)))) (True, JStr ''completed'')"
    using assms(3,4) by (simp add: interpret_result_def)
  obtain t where t: "privileged Pc mintToken forget send cu message deployment ns reason s =
    (Inr (case (if srStatus (interpret_result result) = JStr ''step-up'' then srStepUp (interpret_result result) else None) of
            Some su \<Rightarrow> step_up_answer su
          | None \<Rightarrow> privileged_answer cu deployment ns reason (interpret_result result) (activeTraceId t)), t)"
    using privileged_step [where mintToken = mintToken and send = send, OF assms(1,2)] by blast
  show ?thesis
  proof (cases "\<exists>f. r = StepUp f \<and> acrValues f \<noteq> JUndef")
    case True
    then obtain f where f: "r = StepUp f" "acrValues f \<noteq> JUndef" by blast
    have res: "res = step_up_answer (json_norm (jget (toPayload f) ''data''))"
      using assms(6) f unfolding t i interpret_published [OF assms(5)] by simp
    from challenge_forwarded [OF assms(7) assms(8) [unfolded res] m, of sw]
    obtain ans w b where x: "agent_post env P W (Inr (JObj [(''message'', JStr message)])) sw = (Inr ans, w)" "browser_reply ans = Inr (401, b)"
      "classifyAgentFailure 401 b = NeedsStepUp (js_string (js_or (json_norm (acrValues f)) (JStr [])))
         (js_string (js_or (json_norm (suScope f)) (JStr [])))"
      by (auto simp: toPayload_def)
    then show ?thesis using f assms(9)
      by (intro exI conjI) (assumption, simp add: submit_def or_else_def show_reply_def begin_submit_def Let_def)
  next
    case False
    have res: "rStatus res = 200"
      using assms(6) False unfolding t i interpret_published [OF assms(5)]
      by (cases r) (auto simp: privileged_answer_def answer_def Let_def)
    from answer_forwarded [OF assms(7,8) m res, of sw]
    obtain ans w where x: "agent_post env P W (Inr (JObj [(''message'', JStr message)])) sw = (Inr ans, w)"
      "browser_reply ans = Inr (200, json_norm (rBody res))" by blast
    have page: "submit (\<lambda>_. browser_reply ans) False (Some message) False u =
        u\<lparr> uiLoading := False, uiError := None, uiResponse := json_norm (rBody res), uiStepUp := None, uiMfaReturn := None, uiAsked := Some message \<rparr>"
      using assms(9) x(2) by (simp add: submit_def or_else_def show_reply_def begin_submit_def)
    have "jget (json_norm (rBody res)) ''answer'' = jget (rBody res) ''answer''"
      using assms(6) False unfolding t i interpret_published [OF assms(5)]
      by (cases r) (auto simp: privileged_answer_def answer_def Let_def)
    moreover have "case r of StepUp f \<Rightarrow> True
      | Failed err d \<Rightarrow> jget (rBody res) ''answer'' = JStr (''Remediation on '' @ quoted deployment @ '' failed: '' @ json_pretty 0 (fst (published r)))
      | Done summary steps \<Rightarrow> jget (rBody res) ''answer'' = JStr (if trim summary \<noteq> [] then trim summary
            else ''Remediation on '' @ quoted deployment @ '' finished, but the specialist returned no summary.'')"
      using assms(6) unfolding t i interpret_published [OF assms(5)]
      by (cases r) (auto simp: privileged_answer_def answer_def buildPrivilegedAnswer_def or_else_def Let_def)
    ultimately show ?thesis using False
      by (intro exI [of _ ans] exI [of _ w] conjI x(1), unfold page Let_def) (cases r, auto)
  qed
qed

text \<open>A page, a web server and a network in which the copilot's answer \<open>res\<close> is delivered.\<close>

definition delivering_net :: "http_res \<Rightarrow> http_req \<Rightarrow> int \<Rightarrow> (exn + http_rsp) \<times> int" where
  "delivering_net res q w = (Inr \<lparr> pStatus = rStatus res, pStatusText = [], pHeaders = [], pJson = Inr (rBody res) \<rparr>, w)"

abbreviation delivering_web :: "http_res \<Rightarrow> int web_deps" where
  "delivering_web res \<equiv> fixture_web (\<lambda>_. Inr (json_pretty 0 (rBody res)))"

lemma fixture_signed_in: "signed_in (fixture_web text) (JStr ''tok'')"
  by (simp add: signed_in_def fixture_web_def)

lemma fixture_delivers:
  assumes "json_ok (rBody res)" "rBody res \<noteq> JUndef"
  shows "delivers env (fixture (delivering_net res) tok) (delivering_web res) a message res"
  using json_parse_pretty [OF assms] by (simp add: delivers_def fixture_def fixture_web_def delivering_net_def)

definition fixture_challenge :: step_up_fields where
  "fixture_challenge = \<lparr> acrValues = JStr ''mfa'', resourceMetadata = JStr ''https://gw/prm'', suScope = JStr ''ops:write'' \<rparr>"

theorem verdict_reaches_the_page_witness:
  "\<exists>ans t. agent_post (\<lambda>_. None) (fixture (delivering_net (step_up_answer (jget (toPayload fixture_challenge) ''data''))) (\<lambda>_. None))
        (delivering_web (step_up_answer (jget (toPayload fixture_challenge) ''data'')))
        (Inr (JObj [(''message'', JStr ''restart order-service'')])) (idle 0) = (Inr ans, t)
     \<and> uiStepUp (submit (\<lambda>_. browser_reply ans) False (Some ''restart order-service'') False initial_ui) = Some (''mfa'', ''ops:write'')"
proof -
  let ?f = fixture_challenge and ?res = "step_up_answer (jget (toPayload fixture_challenge) ''data'')"
  have ok: "json_ok (fst (published (StepUp ?f)))" by (simp add: toPayload_def fixture_challenge_def)
  have res: "privileged (fixture no_net (\<lambda>_. None)) (io_return (JStr ''tok'')) (io_return ()) (\<lambda>_ _. io_return (reply_of (StepUp ?f)))
      fixture_chat_user ''restart order-service'' ''order-service'' None ''why'' (idle 0) = (Inr ?res, s2)
      \<Longrightarrow> delivers (\<lambda>_. None) (fixture (delivering_net ?res) (\<lambda>_. None)) (delivering_web ?res) (JStr ''tok'') ''restart order-service'' ?res" for s2
    by (rule fixture_delivers) (simp_all add: step_up_answer_def answer_def toPayload_def fixture_challenge_def)
  obtain t where "privileged (fixture no_net (\<lambda>_. None)) (io_return (JStr ''tok'')) (io_return ()) (\<lambda>_ _. io_return (reply_of (StepUp ?f)))
      fixture_chat_user ''restart order-service'' ''order-service'' None ''why'' (idle 0) =
      (Inr (case (if srStatus (interpret_result (reply_of (StepUp ?f))) = JStr ''step-up'' then srStepUp (interpret_result (reply_of (StepUp ?f))) else None) of
            Some su \<Rightarrow> step_up_answer su
          | None \<Rightarrow> privileged_answer fixture_chat_user ''order-service'' None ''why'' (interpret_result (reply_of (StepUp ?f))) (activeTraceId t)), t)"
    using privileged_step [where mintToken = "io_return (JStr ''tok'')" and s = "idle 0" and tok = "JStr ''tok''" and ?s1.0 = "idle 0"
        and send = "\<lambda>_ _. io_return (reply_of (StepUp ?f))" and result = "reply_of (StepUp ?f)" and P = "fixture no_net (\<lambda>_. None)"
        and forget = "io_return ()" and u = fixture_chat_user and message = "''restart order-service''" and deployment = "''order-service''"
        and ns = None and reason = "''why''"] by (fastforce simp: io_return_def)
  moreover have "interpret_result (reply_of (StepUp ?f)) = interpret_text (Some (json_pretty 0 (fst (published (StepUp ?f))))) (True, JStr ''completed'')"
    using reply_text [of "StepUp ?f"] by (simp add: interpret_result_def)
  ultimately have p: "privileged (fixture no_net (\<lambda>_. None)) (io_return (JStr ''tok'')) (io_return ()) (\<lambda>_ _. io_return (reply_of (StepUp ?f)))
      fixture_chat_user ''restart order-service'' ''order-service'' None ''why'' (idle 0) = (Inr ?res, t)"
    unfolding interpret_published [OF ok] by (simp add: toPayload_def fixture_challenge_def)
  have acr: "acrValues ?f = JStr ''mfa''" "suScope ?f = JStr ''ops:write''" by (simp_all add: fixture_challenge_def)
  have start: "io_return (JStr ''tok'') (idle 0) = (Inr (JStr ''tok''), idle 0)" by (simp add: io_return_def)
  have said: "trim ''restart order-service'' \<noteq> []" by (simp add: trim_def trim_start_def is_ws_def)
  show ?thesis
    using verdict_reaches_the_page [OF start _ reply_text ok p fixture_signed_in res [OF p] said, of "idle 0" initial_ui]
    by (fastforce simp: io_return_def acr js_or_def Let_def)
qed

text \<open>
  C33. A refusal by the authorization server reaches the page as a denial with its reason: when the exchange
  for the specialist is answered with access_denied, nothing is sent to the specialist and the page shows
  the server's description as a denial, neither as an answer nor as a step-up.
\<close>

theorem denial_reaches_the_page:
  assumes "mintToken s = (Inl (CurityAuthError m c), s1)" "code_str c = ''access_denied''"
    and "privileged Pc mintToken forget send cu message deployment ns reason s = (Inr res, s2)"
    and "signed_in W a" "delivers env P W a message res" "trim message \<noteq> []"
  shows "\<exists>ans t. agent_post env P W (Inr (JObj [(''message'', JStr message)])) sw = (Inr ans, t) \<and>
    (let page = submit (\<lambda>_. browser_reply ans) False (Some message) False u
     in uiError page = Some (Denied m) \<and> uiResponse page = JNull \<and> uiStepUp page = None \<and> \<not> uiLoading page)
    \<and> (\<exists>es. out s2 = out s1 @ es \<and> requests es = [])"
proof -
  have msg: "message \<noteq> []" using assms(6) by (auto simp: trim_def trim_start_def)
  have res: "res = answer 403 [] [(''kind'', JStr ''access-denied''), (''reason'', JStr m)]"
    and out: "out s2 = out s1 @ [ConsoleError ''[agent-copilot] specialist call failed'']"
    using assms(1-3) by (auto simp: privileged_def io_catch_def io_bind_def io_return_def emit_def specialist_failure_def)
  from denial_forwarded [OF assms(4) assms(5) [unfolded res] msg, of sw]
  obtain ans t b where x: "agent_post env P W (Inr (JObj [(''message'', JStr message)])) sw = (Inr ans, t)"
    "browser_reply ans = Inr (403, b)" "classifyAgentFailure 403 b = Denied m" by blast
  then have "submit (\<lambda>_. browser_reply ans) False (Some message) False u =
      u\<lparr> uiLoading := False, uiError := Some (Denied m), uiResponse := JNull, uiStepUp := None, uiMfaReturn := None \<rparr>"
    using assms(6) by (simp add: submit_def or_else_def show_reply_def begin_submit_def)
  then show ?thesis using x(1) out by (simp add: Let_def)
qed

theorem denial_reaches_the_page_witness:
  "\<exists>ans t. agent_post (\<lambda>_. None) (fixture (delivering_net (answer 403 [] [(''kind'', JStr ''access-denied''), (''reason'', JStr ''no role'')])) (\<lambda>_. None))
        (delivering_web (answer 403 [] [(''kind'', JStr ''access-denied''), (''reason'', JStr ''no role'')]))
        (Inr (JObj [(''message'', JStr ''restart order-service'')])) (idle 0) = (Inr ans, t)
     \<and> uiError (submit (\<lambda>_. browser_reply ans) False (Some ''restart order-service'') False initial_ui) = Some (Denied ''no role'')"
proof -
  let ?res = "answer 403 [] [(''kind'', JStr ''access-denied''), (''reason'', JStr ''no role'')]"
  let ?mint = "io_throw (CurityAuthError ''no role'' AccessDenied) :: (int, string, unit, js) act"
  have d: "delivers (\<lambda>_. None) (fixture (delivering_net ?res) (\<lambda>_. None)) (delivering_web ?res) (JStr ''tok'') ''restart order-service'' ?res"
    by (rule fixture_delivers) (simp_all add: answer_def)
  have p: "privileged (fixture no_net (\<lambda>_. None)) ?mint (io_return ()) (\<lambda>_ _. io_return JNull) fixture_chat_user
      ''restart order-service'' ''order-service'' None ''why'' (idle 0) =
      (Inr ?res, (idle 0)\<lparr>out := [ConsoleError ''[agent-copilot] specialist call failed'']\<rparr>)"
    by (simp add: privileged_def io_catch_def io_bind_def io_throw_def io_return_def emit_def specialist_failure_def idle_def)
  show ?thesis
    using denial_reaches_the_page [OF _ _ p fixture_signed_in d, of "''no role''" AccessDenied "idle 0" "idle 0" initial_ui]
    by (auto simp: io_throw_def trim_def trim_start_def is_ws_def Let_def)
qed

text \<open>
  The step-up handshake: the prompt stashed before the redirect is sent again, as it was and marked as a
  retry, when the page is mounted next, and never a second time; the sign-in asks for the challenge's acr values
  and keeps the scopes of the login beside the challenge's.
\<close>

lemma step_up_is_retried_once:
  "\<exists>st'. mount_page ask (stashStepUp m sc st) u =
      (submit ask False (Some m) True (u\<lparr> uiMessage := m, uiMfaReturn := Some \<lparr> urMessage = m, urScope = sc, urRetry = True \<rparr> \<rparr>), st')
    \<and> mount_page ask' st' u' = (u', st')
    \<and> step_up_params acr sc = [(''acr_values'', acr), (''prompt'', ''consent''), (''scope'', ''openid inspect:read llm:invoke '' @ sc)]"
  by (simp add: mount_page_def takeStepUpReturn_def stashStepUp_def or_else_def Let_def step_up_params_def omap_simps)

text \<open>The example prompts go where their group says.\<close>

lemma reads_routed:
  "list_all (\<lambda>s. (snd s = WriteTier) = (detectIntent (fst s) \<noteq> Inspect)) (take 2 SUGGESTIONS)"
  "list_all (\<lambda>s. (snd s = WriteTier) = (detectIntent (fst s) \<noteq> Inspect)) (take 2 (drop 2 SUGGESTIONS))"
  by code_simp+

lemma writes_routed:
  "list_all (\<lambda>s. (snd s = WriteTier) = (detectIntent (fst s) \<noteq> Inspect)) (take 2 (drop 4 SUGGESTIONS))"
  by code_simp

lemma last_write_routed:
  "list_all (\<lambda>s. (snd s = WriteTier) = (detectIntent (fst s) \<noteq> Inspect)) (drop 6 SUGGESTIONS)"
  by code_simp

lemma suggestions_routed: "list_all (\<lambda>s. (snd s = WriteTier) = (detectIntent (fst s) \<noteq> Inspect)) SUGGESTIONS"
  using reads_routed writes_routed last_write_routed by (simp add: SUGGESTIONS_def)

end
