(* ===== verification/Views.thy ===== *)
theory Views
  imports ChatPage McpOps Curity WireLog "HOL-Library.Multiset"
begin

text \<open>
  The other view models of \<^verbatim>\<open>apps/web/src/lib\<close>: \<^verbatim>\<open>svid-view.ts\<close>, \<^verbatim>\<open>trace-view.ts\<close>, \<^verbatim>\<open>tool-view.ts\<close>, \<^verbatim>\<open>personas.ts\<close>,
  \<^verbatim>\<open>initials.ts\<close> and \<^verbatim>\<open>trace-link.ts\<close>. \<^verbatim>\<open>localeCompare\<close> is a parameter.
\<close>

section \<open>Workload identities\<close>

text \<open>The namespace of a SPIFFE id; a view of an SVID is the object the server sends.\<close>

definition svidNamespace :: "js \<Rightarrow> string option" where
  "svidNamespace sub =
     (case sub of
        JStr x \<Rightarrow>
          (case split_on CHR ''/'' x of
             [sch, e, td, ns, n, sa, w] \<Rightarrow>
               (if sch = ''spiffe:'' \<and> e = [] \<and> td \<noteq> [] \<and> ns = ''ns'' \<and> n \<noteq> [] \<and> sa = ''sa'' \<and> w \<noteq> [] then Some n else None)
           | _ \<Rightarrow> None)
      | _ \<Rightarrow> None)"

definition sharedFacts :: "js list \<Rightarrow> (js \<times> string list) option" where
  "sharedFacts svids =
     (case filter (\<lambda>s. \<not> truthy (jget s ''error'') \<and> truthy (jget s ''iss'')) svids of
        [] \<Rightarrow> None
      | u # us \<Rightarrow>
          (let iss = jget u ''iss''; aud = listClaim (jget u ''aud'')
           in if list_all (\<lambda>s. jget s ''iss'' = iss \<and> join '' '' (listClaim (jget s ''aud'')) = join '' '' aud) (u # us)
              then Some (iss, aud) else None))"

text \<open>Seconds left, the total when it is known, the fraction left as numerator and denominator, and the level.\<close>

definition svid_lifetime :: "int option \<Rightarrow> int option \<Rightarrow> int \<Rightarrow> (int \<times> int option \<times> (int \<times> int) \<times> level) option" where
  "svid_lifetime iat expires now =
     map_option (\<lambda>e.
       (let remaining = max 0 ((e * 1000 - now + 500) div 1000);
            total = map_option (\<lambda>i. max 0 (e - i)) iat;
            fraction = (case total of
                          Some t \<Rightarrow> if t \<noteq> 0 then (min t remaining, t) else (if remaining > 0 then 1 else 0, 1)
                        | None \<Rightarrow> (if remaining > 0 then 1 else 0, 1))
        in (remaining, total, fraction, if remaining \<le> 0 then LevelExpired else if remaining < 60 then LevelLow else LevelOk))) expires"

text \<open>The workloads whose SVID was issued after the one shown before.\<close>

definition rotatedWorkloads :: "js list option \<Rightarrow> js list \<Rightarrow> js set" where
  "rotatedWorkloads prev next =
     (case prev of
        None \<Rightarrow> {}
      | Some ss \<Rightarrow>
          (let before = fold (\<lambda>s m. om_set m (jget s ''workload'') (jget s ''iat'')) ss []
           in set (map (\<lambda>s. jget s ''workload'') (filter (\<lambda>s.
                case (om_get before (jget s ''workload''), jget s ''iat'') of
                  (Some (JNum was), JNum i) \<Rightarrow> i > was
                | _ \<Rightarrow> False) next))))"

section \<open>The trace of the tools\<close>

record trace_step =
  tsCalls :: "(string \<times> js) list"       \<comment> \<open>name and arguments\<close>
  tsResults :: "(string \<times> js) list"     \<comment> \<open>name and result\<close>
  tsFinish :: "string option"

record trace_row =
  trIndex :: nat
  trStep :: nat
  trTool :: string
  trArgs :: "(string \<times> string) list"
  trResult :: js
  trSummary :: string
  trFailed :: bool
  trFinish :: "string option"

definition truncate_summary :: "string \<Rightarrow> string" where
  "truncate_summary s = (if length s > 118 then take 117 s @ ellipsis else s)"

definition items :: "nat \<Rightarrow> string" where
  "items n = nat_str n @ '' item'' @ (if n = 1 then [] else ''s'')"

definition fmtValue :: "js \<Rightarrow> string" where
  "fmtValue v =
     (case v of
        JArr xs \<Rightarrow> ''['' @ items (length xs) @ '']''
      | JObj _ \<Rightarrow> ''{'' @ ellipsis @ ''}''
      | _ \<Rightarrow> js_string v)"

definition middle_dot :: string where "middle_dot = [CHR 0xC2, CHR 0xB7]"

definition summarizeResult :: "js \<Rightarrow> string" where
  "summarizeResult result =
     (case result of
        JUndef \<Rightarrow> ''no result''
      | JNull \<Rightarrow> ''null''
      | JStr s \<Rightarrow> truncate_summary (hd (split_lines s))
      | JArr xs \<Rightarrow> items (length xs)
      | JObj kvs \<Rightarrow> truncate_summary (join ('' '' @ middle_dot @ '' '') (map (\<lambda>p. fst p @ '': '' @ fmtValue (snd p)) kvs))
      | _ \<Rightarrow> js_string result)"

definition flattenArgs :: "js \<Rightarrow> (string \<times> string) list" where
  "flattenArgs args =
     (case args of
        JObj kvs \<Rightarrow> map (\<lambda>p. (fst p, if is_object (snd p) then json_text (snd p) else js_string (snd p))) kvs
      | JUndef \<Rightarrow> []
      | _ \<Rightarrow> [(''input'', fmtValue args)])"

definition decodeResult :: "js \<Rightarrow> js" where
  "decodeResult result =
     (case result of
        JStr s \<Rightarrow>
          (let t = trim s
           in if starts_with ''{'' t \<or> starts_with ''['' t then or_else (json_parse t) result else result)
      | _ \<Rightarrow> result)"

definition isFailure :: "js \<Rightarrow> bool" where
  "isFailure result = (case result of JObj kvs \<Rightarrow> ''error'' \<in> fst ` set kvs | _ \<Rightarrow> False)"

text \<open>\<open>take_result n pending\<close>: the first pending result of that name, and those left.\<close>

fun take_result :: "string \<Rightarrow> (string \<times> js) list \<Rightarrow> (js \<times> (string \<times> js) list) option" where
  "take_result n [] = None"
| "take_result n (r # rs) = (if fst r = n then Some (snd r, rs) else map_option (\<lambda>(v, rest). (v, r # rest)) (take_result n rs))"

fun step_rows :: "nat \<Rightarrow> nat \<Rightarrow> string option \<Rightarrow> (string \<times> js) list \<Rightarrow> (string \<times> js) list \<Rightarrow> trace_row list" where
  "step_rows i si fin [] pending = []"
| "step_rows i si fin (c # cs) pending =
     (let (hit, rest) = or_else (take_result (fst c) pending) (JUndef, pending);
          result = decodeResult hit
      in \<lparr> trIndex = Suc i, trStep = Suc si, trTool = fst c, trArgs = flattenArgs (snd c), trResult = result,
           trSummary = summarizeResult result, trFailed = isFailure result, trFinish = fin \<rparr>
         # step_rows (Suc i) si fin cs rest)"

fun trace_rows :: "nat \<Rightarrow> nat \<Rightarrow> trace_step list \<Rightarrow> trace_row list" where
  "trace_rows i si [] = []"
| "trace_rows i si (st # sts) =
     (let rows = step_rows i si (tsFinish st) (tsCalls st) (tsResults st) in rows @ trace_rows (i + length rows) (Suc si) sts)"

definition buildTraceRows :: "trace_step list \<Rightarrow> trace_row list" where
  "buildTraceRows steps = trace_rows 0 0 steps"

section \<open>The tools\<close>

datatype tool_tier = InspectTools | OpsTools

fun TOOL_ORDER :: "tool_tier \<Rightarrow> string list" where
  "TOOL_ORDER InspectTools = [''list_pods'', ''get_deployment'', ''get_pod_logs'']"
| "TOOL_ORDER OpsTools = [''restart_deployment'', ''scale_deployment'', ''set_deployment_image'']"

definition toolTier :: "string \<Rightarrow> tool_tier" where
  "toolTier name = (if name \<in> set (TOOL_ORDER OpsTools) then OpsTools else InspectTools)"

definition tool_rank :: "tool_tier \<Rightarrow> string \<Rightarrow> nat" where
  "tool_rank tier n = length (takeWhile (\<lambda>m. m \<noteq> n) (TOOL_ORDER tier))"

text \<open>\<open>before a b\<close>: \<^verbatim>\<open>a.localeCompare(b) < 0\<close>; the sort is stable.\<close>

definition tool_after :: "(string \<Rightarrow> string \<Rightarrow> bool) \<Rightarrow> tool_tier \<Rightarrow> string \<Rightarrow> string \<Rightarrow> bool" where
  "tool_after before tier a b =
     (tool_rank tier b < tool_rank tier a \<or> (tool_rank tier a = tool_rank tier b \<and> before b a))"

fun insert_tool :: "(string \<Rightarrow> string \<Rightarrow> bool) \<Rightarrow> tool_tier \<Rightarrow> js \<Rightarrow> js list \<Rightarrow> js list" where
  "insert_tool before tier t [] = [t]"
| "insert_tool before tier t (u # us) =
     (if tool_after before tier (js_string (jget t ''name'')) (js_string (jget u ''name''))
      then u # insert_tool before tier t us else t # u # us)"

definition orderTools :: "(string \<Rightarrow> string \<Rightarrow> bool) \<Rightarrow> tool_tier \<Rightarrow> js list \<Rightarrow> js list" where
  "orderTools before tier tools = foldr (insert_tool before tier) tools []"

datatype tone = ToneOk | ToneBlocked | ToneDenied | ToneUnknown

text \<open>What the gateway did on a tier, by the status of its probe; \<open>None\<close> for no status of the protocol.\<close>

definition tierVerdict :: "js \<Rightarrow> (string \<times> tone) option" where
  "tierVerdict t =
     (case jget t ''status'' of
        JStr s \<Rightarrow>
          if s = ''ok''
            then (let n = length (or_else (as_arr (jget t ''tools'')) [])
                  in Some (if n = 0 then (''nothing listed'', ToneBlocked)
                           else (nat_str n @ '' tool'' @ (if n = 1 then [] else ''s'') @ '' listed for you'', ToneOk)))
          else if s = ''step-up'' then Some (''not listed '' @ middle_dot @ '' step-up required'', ToneBlocked)
          else if s = ''denied'' then Some (''not listed '' @ middle_dot @ '' denied'', ToneDenied)
          else if s = ''error'' then Some (''could not probe'', ToneUnknown)
          else None
      | _ \<Rightarrow> None)"

section \<open>The people of the demo\<close>

datatype outcome = Success | Warning | Destructive

record persona =
  peUsername :: string
  peDisplayName :: string
  peJob :: string
  peRoles :: "string list"
  peVerdict :: string
  peOutcome :: outcome
  peStory :: string

definition PERSONAS :: "persona list" where
  "PERSONAS =
     [\<lparr> peUsername = ''alice'', peDisplayName = ''Alice Andersson'', peJob = ''SRE lead'', peRoles = [''sre''],
        peVerdict = ''step-up, then every tool'', peOutcome = Success,
        peStory = ''Reads freely. Privileged actions ask for a TOTP code, then go through.'' \<rparr>,
      \<lparr> peUsername = ''bob'', peDisplayName = ''Bob Bergstr'' @ [CHR 0xC3, CHR 0xB6] @ ''m'', peJob = ''Backend developer'', peRoles = [''developer''],
        peVerdict = ''ops:write refused'', peOutcome = Destructive,
        peStory = ''Reads freely. Every privileged action is refused.'' \<rparr>,
      \<lparr> peUsername = ''carol'', peDisplayName = ''Carol Carlsson'', peJob = ''On-call engineer this week'', peRoles = [''oncall''],
        peVerdict = ''one tool refused'', peOutcome = Warning,
        peStory = ''Reads freely and may restart or scale. Changing a deployment'' @ [CHR 0x27] @ ''s image is refused at the tool server.'' \<rparr>]"

text \<open>\<^verbatim>\<open>label.replace(/@.*/, '')\<close>: a dot matches no line end.\<close>

definition without_host :: "string \<Rightarrow> string" where
  "without_host label =
     takeWhile (\<lambda>c. c \<noteq> CHR ''@'') label @ dropWhile (\<lambda>c. c \<noteq> CHR 0x0A \<and> c \<noteq> CHR 0x0D) (dropWhile (\<lambda>c. c \<noteq> CHR ''@'') label)"

definition findPersona :: "string option \<Rightarrow> persona option" where
  "findPersona label =
     Option.bind (given label) (\<lambda>l.
       (let key = lower (trim (without_host l))
        in find (\<lambda>p. peUsername p = key \<or> lower (peDisplayName p) = key) PERSONAS))"

definition initials :: "string \<Rightarrow> string" where
  "initials label =
     (case words_by (\<lambda>c. is_ws c \<or> c \<in> set ''._-'') (without_host label) of
        [] \<Rightarrow> ''U''
      | [w] \<Rightarrow> map upper_char (take 2 w)
      | v # w # _ \<Rightarrow> map upper_char [hd v, hd w])"

definition grafanaTraceUrl :: "string \<Rightarrow> string \<Rightarrow> string" where
  "grafanaTraceUrl base traceId =
     (let panes = JObj [(''a'', JObj
            [(''datasource'', JStr ''tempo''),
             (''queries'', JArr [JObj [(''refId'', JStr ''A''), (''datasource'', JObj [(''type'', JStr ''tempo''), (''uid'', JStr ''tempo'')]),
                                   (''queryType'', JStr ''traceql''), (''query'', JStr traceId)]]),
             (''range'', JObj [(''from'', JStr ''now-1h''), (''to'', JStr ''now'')])])]
      in (if ends_with ''/'' base then butlast base else base) @ ''/explore?''
         @ form_encode [(''schemaVersion'', ''1''), (''orgId'', ''1''), (''panes'', json_text panes)])"

lemmas views_eval [eval_simps] = findPersona_def initials_def grafanaTraceUrl_def tierVerdict_def

section \<open>Facts\<close>

text \<open>The results of a step by name: the \<open>k\<close>-th call of a tool gets the \<open>k\<close>-th result of that tool.\<close>

definition nth_result :: "(string \<times> js) list \<Rightarrow> string \<Rightarrow> nat \<Rightarrow> js" where
  "nth_result results n k = (let hits = filter (\<lambda>r. fst r = n) results in if k < length hits then snd (hits ! k) else JUndef)"

definition paired :: "nat \<times> trace_step \<Rightarrow> (nat \<times> string \<times> js) list" where
  "paired st =
     map (\<lambda>j. let n = fst (tsCalls (snd st) ! j)
              in (Suc (fst st), n, decodeResult (nth_result (tsResults (snd st)) n (length (filter (\<lambda>c. fst c = n) (take j (tsCalls (snd st))))))))
         [0..<length (tsCalls (snd st))]"

lemma take_result_Some:
  "take_result n rs = Some (v, rest) \<Longrightarrow>
    filter (\<lambda>r. fst r = n) rs = (n, v) # filter (\<lambda>r. fst r = n) rest \<and> (\<forall>m. m \<noteq> n \<longrightarrow> filter (\<lambda>r. fst r = m) rest = filter (\<lambda>r. fst r = m) rs)"
  by (induction rs arbitrary: rest) (auto split: if_splits)

lemma take_result_None: "take_result n rs = None \<Longrightarrow> filter (\<lambda>r. fst r = n) rs = []"
  by (induction rs) (auto split: if_splits)

lemma nth_result_rest:
  assumes "or_else (take_result n rs) (JUndef, rs) = (v, rest)"
  shows "v = nth_result rs n 0" "nth_result rest m k = nth_result rs m (if m = n then Suc k else k)"
proof -
  have "v = nth_result rs n 0 \<and> nth_result rest m k = nth_result rs m (if m = n then Suc k else k)"
  proof (cases "take_result n rs")
    case None
    then show ?thesis using assms take_result_None [OF None] by (auto simp: or_else_def nth_result_def)
  next
    case (Some p)
    then have "take_result n rs = Some (v, rest)" using assms by (simp add: or_else_def)
    from take_result_Some [OF this] show ?thesis by (cases "m = n") (simp_all add: nth_result_def)
  qed
  then show "v = nth_result rs n 0" "nth_result rest m k = nth_result rs m (if m = n then Suc k else k)" by simp_all
qed

lemma step_rows_paired:
  "map (\<lambda>r. (trStep r, trTool r, trResult r)) (step_rows i si fin cs rs) =
     map (\<lambda>j. let n = fst (cs ! j) in (Suc si, n, decodeResult (nth_result rs n (length (filter (\<lambda>c. fst c = n) (take j cs)))))) [0..<length cs]
   \<and> map trIndex (step_rows i si fin cs rs) = [Suc i..<Suc (i + length cs)]"
proof (induction cs arbitrary: i rs)
  case Nil
  then show ?case by simp
next
  case (Cons c cs)
  obtain v rest where h: "or_else (take_result (fst c) rs) (JUndef, rs) = (v, rest)" by fastforce
  have up: "[0..<length (c # cs)] = 0 # map Suc [0..<length cs]" by (simp add: upt_conv_Cons map_Suc_upt del: upt_Suc)
  have ups: "[Suc i..<Suc (i + length (c # cs))] = Suc i # [Suc (Suc i)..<Suc (Suc i + length cs)]" by (simp add: upt_conv_Cons del: upt_Suc)
  show ?case unfolding up ups using Cons [of "Suc i" rest]
    by (simp add: h nth_result_rest [OF h] Let_def o_def del: upt_Suc)
qed

lemma trace_rows_paired:
  "map (\<lambda>r. (trStep r, trTool r, trResult r)) (trace_rows i si sts) = concat (map paired (enumerate si sts))
   \<and> map trIndex (trace_rows i si sts) = [Suc i..<Suc (i + length (trace_rows i si sts))]"
proof (induction sts arbitrary: i si)
  case (Cons st sts)
  let ?rows = "step_rows i si (tsFinish st) (tsCalls st) (tsResults st)"
  note h = step_rows_paired [of i si "tsFinish st" "tsCalls st" "tsResults st"]
  have len: "length ?rows = length (tsCalls st)" using arg_cong [OF h [THEN conjunct2], of length] by (simp del: upt_Suc)
  have app: "[Suc i..<Suc (i + (n + m))] = [Suc i..<Suc (i + n)] @ [Suc (i + n)..<Suc (i + n + m)]" for n m
    using upt_add_eq_append [of "Suc i" "Suc (i + n)" m] by (simp add: add.assoc del: upt_Suc)
  show ?case using h Cons [of "i + length (tsCalls st)" "Suc si"] len by (simp add: Let_def paired_def app del: upt_Suc)
qed simp

text \<open>
  C37. The trace shows every call of every step once, in order and numbered from 1, and gives the k-th call of a
  tool within a step the k-th result reported for that tool in the step, decoded when it is text that holds
  an object or an array, and none when there is no such result.
\<close>

theorem trace_pairs_calls:
  "map (\<lambda>r. (trStep r, trTool r, trResult r)) (buildTraceRows steps) = concat (map paired (enumerate 0 steps))
   \<and> map trIndex (buildTraceRows steps) = [1..<Suc (length (buildTraceRows steps))]"
  unfolding buildTraceRows_def using trace_rows_paired [of 0 0 steps] by (simp del: upt_Suc)

text \<open>Ordering neither loses nor adds a tool, and the known ones come in their fixed order.\<close>

lemma insert_tool_mset: "mset (insert_tool before tier t us) = add_mset t (mset us)"
  by (induction us) auto

lemma orderTools_mset: "mset (orderTools before tier tools) = mset tools"
  by (induction tools) (simp_all add: orderTools_def insert_tool_mset)

abbreviation rank_of :: "tool_tier \<Rightarrow> js \<Rightarrow> nat" where
  "rank_of tier t \<equiv> tool_rank tier (js_string (jget t ''name''))"

lemma insert_tool_sorted: "sorted (map (rank_of tier) us) \<Longrightarrow> sorted (map (rank_of tier) (insert_tool before tier t us))"
proof (induction us)
  case (Cons u us)
  have "set (insert_tool before tier t us) = insert t (set us)"
    using arg_cong [OF insert_tool_mset [of before tier t us], of set_mset] by simp
  with Cons show ?case by (auto simp: tool_after_def)
qed simp

lemma orderTools_sorted: "sorted (map (rank_of tier) (orderTools before tier tools))"
  by (induction tools) (simp_all add: orderTools_def insert_tool_sorted)

text \<open>The card of a person: the roles given at login, and what they get for them.\<close>

definition tools_refused :: "string list \<Rightarrow> string list" where
  "tools_refused roles = filter (\<lambda>t. toolRoleDenial t roles (or_else (om_get default_tool_roles t) []) \<noteq> None) (TOOL_ORDER OpsTools)"

definition write_refused :: "string list \<Rightarrow> bool" where
  "write_refused roles =
     lacks_write_role \<lparr> erSubject = JObj [(''roles'', JArr (map JStr roles))], erActor = None, erClientId = [], erAudiences = [],
       erScopes = [''ops:write''] \<rparr> [''ops:write'']"

definition sheet_outcome :: "string list \<Rightarrow> outcome" where
  "sheet_outcome roles = (if write_refused roles then Destructive else if tools_refused roles = [] then Success else Warning)"

lemma persona_sheet_true:
  "list_all (\<lambda>p. om_get (add_roles [(''subject'', JStr (peUsername p))]) ''roles'' = Some (JArr (map JStr (peRoles p)))
      \<and> peOutcome p = sheet_outcome (peRoles p)) PERSONAS"
  by code_simp

end
