(* ===== verification/Journey.thy ===== *)
theory Journey
  imports Curity InspectApi OpsApi Views Complex_Main
begin

text \<open>
  The journey of a request the landing page plays, \<^verbatim>\<open>apps/web/src/lib/hero-journey.ts\<close>: the topology, the script builder
  and the two scripts. Coordinates are whole; \<^verbatim>\<open>Math.hypot\<close> occurs only in durations that are rounded to
  milliseconds, so the model computes those with an integer square root, shown below to be the rounded real one.
\<close>

section \<open>Topology\<close>

datatype journey_tone = ReadTone | PrivilegedTone

type_synonym point = "int \<times> int"

record topo_node =
  tnId :: string
  tnX :: int
  tnY :: int
  tnW :: int
  tnH :: int
  tnNs :: string
  tnExchanges :: bool
  tnRoute :: "point list option"
  tnLabel :: "string option"
  tnExternal :: bool

definition CURITY_Y :: int where "CURITY_Y = 294"
definition NW :: int where "NW = 100"
definition NH :: int where "NH = 28"
definition ROW_TOP :: int where "ROW_TOP = 76"
definition ROW_MID :: int where "ROW_MID = 154"
definition ROW_BOTTOM :: int where "ROW_BOTTOM = 232"
definition CORRIDOR :: int where "CORRIDOR = (ROW_MID + ROW_BOTTOM) div 2"

definition topo :: "string \<Rightarrow> int \<Rightarrow> int \<Rightarrow> string \<Rightarrow> bool \<Rightarrow> point list option \<Rightarrow> topo_node" where
  "topo i x y ns exchanges route =
     \<lparr> tnId = i, tnX = x, tnY = y, tnW = NW, tnH = NH, tnNs = ns, tnExchanges = exchanges, tnRoute = route, tnLabel = None, tnExternal = False \<rparr>"

definition NODES :: "topo_node list" where
  "NODES =
     [topo ''web'' 56 ROW_MID ''web'' True None,
      topo ''agent-copilot'' 172 ROW_MID ''agents'' True None,
      topo ''agentgateway'' 388 ROW_MID ''mcp'' True None,
      topo ''agent-specialist'' 288 ROW_BOTTOM ''agents'' True None,
      topo ''mcp-inspect'' 504 ROW_TOP ''mcp'' True
        (Some [(504, ROW_TOP + NH div 2), (504, CORRIDOR), (424, CORRIDOR), (424, CURITY_Y)]),
      topo ''inspect-api'' 622 ROW_TOP ''apis'' False None,
      topo ''mcp-ops'' 504 ROW_BOTTOM ''mcp'' True None,
      topo ''ops-api'' 622 ROW_BOTTOM ''apis'' False None,
      (topo ''llm-provider'' 622 ROW_MID [] False None)\<lparr> tnLabel := Some ''LLM provider'', tnExternal := True \<rparr>]"

definition EDGES :: "(string \<times> string) list" where
  "EDGES =
     [(''web'', ''agent-copilot''), (''agent-copilot'', ''agentgateway''), (''agent-copilot'', ''agent-specialist''),
      (''agent-specialist'', ''agentgateway''), (''agentgateway'', ''mcp-inspect''), (''agentgateway'', ''mcp-ops''),
      (''mcp-inspect'', ''inspect-api''), (''mcp-ops'', ''ops-api''), (''agentgateway'', ''llm-provider'')]"

definition sep :: string where "sep = '' '' @ middle_dot @ '' ''"
definition towards :: "string \<Rightarrow> string \<Rightarrow> string" where "towards a b = a @ '' '' @ arrow @ '' '' @ b"

definition TIER_LABELS :: "(journey_tone \<times> string \<times> int \<times> int) list" where
  "TIER_LABELS =
     [(ReadTone, ''read tier'' @ sep @ ''inspect:read'', (504 + 622) div 2, ROW_TOP - NH div 2 - 8),
      (PrivilegedTone, ''write tier'' @ sep @ ''ops:write'' @ sep @ ''acr=mfa'', (504 + 622) div 2, ROW_BOTTOM + NH div 2 + 14)]"

definition edgeId :: "string \<Rightarrow> string \<Rightarrow> string" where "edgeId a b = a @ ''|'' @ b"

definition nodeById :: "string \<Rightarrow> exn + topo_node" where
  "nodeById i =
     (case find (\<lambda>n. tnId n = i) NODES of
        None \<Rightarrow> Inl (JsError ''Error'' (''unknown node '' @ i))
      | Some n \<Rightarrow> Inr n)"

definition spiffeIdOf :: "topo_node \<Rightarrow> string" where
  "spiffeIdOf n = ''spiffe://demo.curity.local/ns/'' @ tnNs n @ ''/sa/'' @ tnId n"

text \<open>The panel a node of the picture jumps to, and its tooltip (\<^verbatim>\<open>components/hero-stage.tsx\<close>).\<close>

definition targetOf :: "topo_node \<Rightarrow> string" where
  "targetOf n = (if tnExternal n then ''#chain'' else if tnNs n = ''apis'' then ''#tools'' else ''#identities'')"

definition tipOf :: "topo_node \<Rightarrow> string" where
  "tipOf n =
     (if tnExternal n
      then or_else (tnLabel n) (tnId n) @ sep @ ''outside the trust domain: reached only through agentgateway'' @ [CHR 0x27]
           @ ''s /llm route with an aud=llm-gateway leaf token. The vendor API key exists solely at the gateway.''
      else if tnExchanges n then spiffeIdOf n
      else tnId n @ sep @ ''verifies what arrives, never exchanges'')"

text \<open>Where the line between two centres leaves a box; \<open>None\<close> for the NaN of equal centres.\<close>

definition edgePoint :: "topo_node \<Rightarrow> topo_node \<Rightarrow> (rat \<times> rat) option" where
  "edgePoint a b =
     (let dx = of_int (tnX b - tnX a); dy = of_int (tnY b - tnY a);
          hx = of_int (tnW a) / 2 + 2; hy = of_int (tnH a) / 2 + 2;
          s = (if dx = 0 then (if dy = 0 then None else Some (hy / \<bar>dy\<bar>))
               else if dy = 0 then Some (hx / \<bar>dx\<bar>) else Some (min (hx / \<bar>dx\<bar>) (hy / \<bar>dy\<bar>)))
      in map_option (\<lambda>k. (of_int (tnX a) + dx * k, of_int (tnY a) + dy * k)) s)"

definition linkPathOf :: "string \<Rightarrow> exn + point list" where
  "linkPathOf i =
     sum_bind (nodeById i) (\<lambda>n.
       Inr (case tnRoute n of
              Some r \<Rightarrow> r
            | None \<Rightarrow> [(tnX n, tnY n + tnH n div 2), (tnX n, CURITY_Y)]))"

section \<open>Durations\<close>

function isqrt :: "int \<Rightarrow> int" where
  "isqrt n = (if n \<le> 0 then 0 else (let r = 2 * isqrt (n div 4) in if (r + 1) * (r + 1) \<le> n then r + 1 else r))"
  by pat_completeness auto
termination by (relation "measure nat") auto

declare isqrt.simps [simp del]

text \<open>\<^verbatim>\<open>Math.round(Math.max(380, Math.hypot(dx, dy) * 2.4))\<close>\<close>

definition travel_ms :: "point \<Rightarrow> point \<Rightarrow> int" where
  "travel_ms p q =
     max 380 ((isqrt (576 * ((fst q - fst p) * (fst q - fst p) + (snd q - snd p) * (snd q - snd p))) + 5) div 10)"

text \<open>The legs of a link are horizontal or vertical.\<close>

fun pathLength :: "point list \<Rightarrow> int" where
  "pathLength (p # q # ps) = (\<bar>fst q - fst p\<bar> + \<bar>snd q - snd p\<bar>) + pathLength (q # ps)"
| "pathLength _ = 0"

text \<open>\<^verbatim>\<open>Math.round(Math.max(360, len * 3.2))\<close> and \<^verbatim>\<open>Math.round(ms * 0.85)\<close>\<close>

definition down_ms :: "int \<Rightarrow> int" where "down_ms len = (max 3600 (32 * len) + 5) div 10"
definition up_ms :: "int \<Rightarrow> int" where "up_ms ms = (85 * ms + 50) div 100"

section \<open>The script builder\<close>

record stop =
  soAt :: string
  soX :: int
  soY :: int
  soMs :: int
  soHold :: int
  soLinear :: bool
  soVia :: "point list"
  soCaption :: string
  soGlow :: bool
  soPacket :: bool

record journey_step = stop +
  joLit :: "string list"
  joEdges :: "string list"
  joLinks :: "string list"
  joAmber :: "string list"
  joTone :: journey_tone

text \<open>The sets are in insertion order.\<close>

record script =
  scSteps :: "journey_step list"
  scLit :: "string list"
  scEdges :: "string list"
  scLinks :: "string list"
  scTone :: journey_tone

definition new_script :: "journey_tone \<Rightarrow> script" where
  "new_script t = \<lparr> scSteps = [], scLit = [], scEdges = [], scLinks = [], scTone = t \<rparr>"

definition set_add :: "string \<Rightarrow> string list \<Rightarrow> string list" where
  "set_add x xs = (if x \<in> set xs then xs else xs @ [x])"

definition push_stop :: "stop \<Rightarrow> script \<Rightarrow> script" where
  "push_stop p s = s\<lparr> scSteps := scSteps s @ [stop.extend p
     (journey_step.fields (scLit s) (scEdges s) (scLinks s)
        (if scTone s = PrivilegedTone then scLit s @ scEdges s @ scLinks s else []) (scTone s))] \<rparr>"

type_synonym scripting = "script \<Rightarrow> exn + script"

definition and_then :: "scripting \<Rightarrow> scripting \<Rightarrow> scripting" where
  "and_then f g s = sum_bind (f s) g"

definition start_at :: "string \<Rightarrow> string \<Rightarrow> int \<Rightarrow> scripting" where
  "start_at i caption hold s =
     sum_bind (nodeById i) (\<lambda>n.
       Inr (push_stop \<lparr> soAt = i, soX = tnX n, soY = tnY n, soMs = 1, soHold = hold, soLinear = False, soVia = [], soCaption = caption,
              soGlow = False, soPacket = True \<rparr> (s\<lparr> scLit := set_add i (scLit s) \<rparr>)))"

definition exchange_at :: "string \<Rightarrow> string \<Rightarrow> string \<Rightarrow> scripting" where
  "exchange_at from ask got s =
     sum_bind (linkPathOf from) (\<lambda>pts.
       (let down = tl pts; up = tl (rev pts); ms = down_ms (pathLength pts); steady = length pts > 2
        in Inr (push_stop \<lparr> soAt = from, soX = fst (last up), soY = snd (last up), soMs = up_ms ms, soHold = 260, soLinear = steady,
                  soVia = butlast up, soCaption = towards ''Curity'' from @ sep @ got, soGlow = False, soPacket = True \<rparr>
               (push_stop \<lparr> soAt = ''curity'', soX = fst (last down), soY = snd (last down), soMs = ms, soHold = 420, soLinear = steady,
                  soVia = butlast down, soCaption = towards from ''Curity'' @ sep @ ask, soGlow = True, soPacket = True \<rparr>
               (s\<lparr> scLinks := set_add from (scLinks s) \<rparr>)))))"

definition travel :: "string \<Rightarrow> string \<Rightarrow> string \<Rightarrow> int \<Rightarrow> scripting" where
  "travel from to caption hold s =
     sum_bind (nodeById from) (\<lambda>a. sum_bind (nodeById to) (\<lambda>b.
       Inr (push_stop \<lparr> soAt = to, soX = tnX b, soY = tnY b, soMs = travel_ms (tnX a, tnY a) (tnX b, tnY b), soHold = hold,
              soLinear = False, soVia = [], soCaption = caption, soGlow = False, soPacket = True \<rparr>
            (s\<lparr> scEdges := set_add (edgeId from to) (scEdges s), scLit := set_add to (scLit s) \<rparr>))))"

text \<open>The packet fades at the provider and is back where the call came from.\<close>

definition jump_to :: "string \<Rightarrow> int \<Rightarrow> int \<Rightarrow> bool \<Rightarrow> string \<Rightarrow> scripting" where
  "jump_to i ms hold steady caption s =
     sum_bind (nodeById i) (\<lambda>n.
       Inr (push_stop \<lparr> soAt = i, soX = tnX n, soY = tnY n, soMs = ms, soHold = hold, soLinear = steady, soVia = [], soCaption = caption,
              soGlow = False, soPacket = False \<rparr> s))"

definition model_call :: "string \<Rightarrow> (string \<times> string) option \<Rightarrow> scripting" where
  "model_call from ex =
     and_then (case ex of Some (ask, got) \<Rightarrow> exchange_at from ask got | None \<Rightarrow> Inr)
    (and_then (travel from ''agentgateway'' (towards from ''agentgateway'' @ '' (/llm)'' @ sep @ ''carrying the llm:invoke leaf token'') 200)
    (and_then (travel ''agentgateway'' ''llm-provider''
        (towards ''agentgateway'' ''LLM provider'' @ sep @ ''the gateway injects the vendor key; the provider never sees a user token'') 520)
    (and_then (jump_to ''llm-provider'' 1 380 True ''the completion returns the same way'')
              (jump_to from 1 160 True (from @ '' has the model'' @ [CHR 0x27] @ ''s plan'')))))"

definition finish_at :: "string \<Rightarrow> string \<Rightarrow> scripting" where
  "finish_at i caption = jump_to i 300 1500 False caption"

record hop =
  hoFrom :: string
  hoTo :: string
  hoAsk :: "string option"
  hoIssued :: "string option"
  hoCarry :: string

fun run_hops :: "hop list \<Rightarrow> scripting" where
  "run_hops [] s = Inr s"
| "run_hops (h # hs) s =
     sum_bind (case (given (hoAsk h), given (hoIssued h)) of
                 (Some a, Some i) \<Rightarrow> exchange_at (hoFrom h) a i s
               | _ \<Rightarrow> Inr s) (\<lambda>s1.
     sum_bind (travel (hoFrom h) (hoTo h) (hoCarry h) 300 s1) (run_hops hs))"

section \<open>The scripts\<close>

definition USER_HOP :: hop where
  "USER_HOP = \<lparr> hoFrom = ''web'', hoTo = ''agent-copilot'', hoAsk = None, hoIssued = None,
     hoCarry = towards ''web'' ''agent-copilot'' @ sep @ ''the request carries the user token'' \<rparr>"

definition LLM_ASK :: string where "LLM_ASK = ''asks for aud=llm-gateway scope=llm:invoke''"
definition LLM_ISSUED :: string where
  "LLM_ISSUED = ''issued aud=llm-gateway scope=llm:invoke'' @ sep @ ''no may_act: a leaf, nothing exchanges it onward''"

definition carrying :: "string \<Rightarrow> string \<Rightarrow> string" where
  "carrying a b = towards a b @ sep @ ''carrying the token it was just issued''"

definition READ_HOPS :: "hop list" where
  "READ_HOPS =
     [\<lparr> hoFrom = ''agent-copilot'', hoTo = ''agentgateway'',
        hoAsk = Some ''presents the user token + its SPIFFE SVID, asks for aud=mcp-gateway'',
        hoIssued = Some (''issued aud=mcp-gateway scope=inspect:read'' @ sep @ ''act: agent-copilot''),
        hoCarry = carrying ''agent-copilot'' ''agentgateway'' \<rparr>,
      \<lparr> hoFrom = ''agentgateway'', hoTo = ''mcp-inspect'', hoAsk = Some ''asks for aud=mcp-inspect'',
        hoIssued = Some (''issued aud=mcp-inspect scope=inspect:read'' @ sep @ ''act nests agentgateway''),
        hoCarry = carrying ''agentgateway'' ''mcp-inspect'' \<rparr>,
      \<lparr> hoFrom = ''mcp-inspect'', hoTo = ''inspect-api'', hoAsk = Some ''asks for aud=inspect-api'',
        hoIssued = Some (''issued aud=inspect-api scope=inspect:read'' @ sep @ ''act: 3 workloads deep''),
        hoCarry = carrying ''mcp-inspect'' ''inspect-api'' \<rparr>]"

definition A2A_HOP :: hop where
  "A2A_HOP =
     \<lparr> hoFrom = ''agent-copilot'', hoTo = ''agent-specialist'', hoAsk = Some ''asks for aud=agent-specialist'',
       hoIssued = Some (''issued aud=agent-specialist scope=ops:write inspect:read'' @ sep @ ''may_act: agent-specialist''),
       hoCarry = towards ''agent-copilot'' ''agent-specialist'' @ sep @ ''hands the goal over A2A with that token'' \<rparr>"

definition OPS_ASK :: string where
  "OPS_ASK = ''asks for aud=mcp-gateway scope=ops:write'' @ sep @ ''role sre + acr=mfa required (RFC 9470)'' @ sep @ ''then the aud=llm-gateway leaf''"
definition OPS_ISSUED :: string where
  "OPS_ISSUED = ''issued aud=mcp-gateway scope=ops:write acr=mfa'' @ sep @ ''act: agent-specialist, agent-copilot '' @ em_dash
     @ '' and aud=llm-gateway scope=llm:invoke, no may_act: a leaf''"
definition OPS_CARRY :: string where
  "OPS_CARRY = towards ''agent-specialist'' ''agentgateway'' @ sep @ ''carrying the privileged token''"

definition PRIVILEGED_HOPS :: "hop list" where
  "PRIVILEGED_HOPS =
     [\<lparr> hoFrom = ''agentgateway'', hoTo = ''mcp-ops'', hoAsk = Some ''asks for aud=mcp-ops'',
        hoIssued = Some (''issued aud=mcp-ops scope=ops:write acr=mfa'' @ sep @ ''act nests agentgateway''),
        hoCarry = carrying ''agentgateway'' ''mcp-ops'' \<rparr>,
      \<lparr> hoFrom = ''mcp-ops'', hoTo = ''ops-api'', hoAsk = Some ''asks for aud=ops-api'',
        hoIssued = Some (''issued aud=ops-api scope=ops:write acr=mfa'' @ sep @ ''act: 4 workloads deep''),
        hoCarry = carrying ''mcp-ops'' ''ops-api'' \<rparr>]"

fun journey_script :: "journey_tone \<Rightarrow> scripting" where
  "journey_script ReadTone =
     and_then (start_at ''web'' (''alice signs in at Curity'' @ sep @ ''web holds her user token (scope inspect:read ops:write)'') 900)
    (and_then (run_hops [USER_HOP])
    (and_then (model_call ''agent-copilot'' (Some (LLM_ASK, LLM_ISSUED)))
    (and_then (run_hops READ_HOPS)
              (finish_at ''inspect-api'' (''inspect-api never exchanges'' @ sep @ ''it verifies the act chain and reads the cluster'')))))"
| "journey_script PrivilegedTone =
     and_then (start_at ''web'' (''alice steps up with TOTP at Curity'' @ sep @ ''a stronger factor before anything privileged'') 900)
    (and_then (run_hops [USER_HOP, A2A_HOP])
    (and_then (exchange_at ''agent-specialist'' OPS_ASK OPS_ISSUED)
    (and_then (model_call ''agent-specialist'' None)
    (and_then (travel ''agent-specialist'' ''agentgateway'' OPS_CARRY 300)
    (and_then (run_hops PRIVILEGED_HOPS)
              (finish_at ''ops-api'' (''ops-api verifies the act chain + acr=mfa'' @ sep @ ''then restarts the deployment'')))))))"

definition buildJourney :: "journey_tone \<Rightarrow> exn + journey_step list" where
  "buildJourney kind = sum_bind (journey_script kind (new_script kind)) (\<lambda>s. Inr (scSteps s))"

definition IDLE_LOOP :: "exn + journey_step list" where
  "IDLE_LOOP = sum_bind (buildJourney ReadTone) (\<lambda>a. sum_bind (buildJourney PrivilegedTone) (\<lambda>b. Inr (a @ b)))"

section \<open>The durations are the rounded real ones\<close>

lemma isqrt_nonneg: "0 \<le> isqrt n"
  by (induction n rule: isqrt.induct) (subst isqrt.simps, auto simp: Let_def)

lemma isqrt_bounds: "0 \<le> n \<Longrightarrow> isqrt n * isqrt n \<le> n \<and> n < (isqrt n + 1) * (isqrt n + 1)"
proof (induction n rule: isqrt.induct)
  case (1 n)
  show ?case
  proof (cases "n \<le> 0")
    case True
    then show ?thesis using 1(2) by (subst isqrt.simps, subst (2) isqrt.simps) (simp add: isqrt.simps)
  next
    case False
    define k where "k = isqrt (n div 4)"
    have IH: "k * k \<le> n div 4" "n div 4 < (k + 1) * (k + 1)" using 1(1) False by (simp_all add: k_def)
    have "4 * (k * k) \<le> n" using IH(1) by linarith
    moreover have "n < 4 * ((k + 1) * (k + 1))" using IH(2) by linarith
    moreover have "isqrt n = (if (2 * k + 1) * (2 * k + 1) \<le> n then 2 * k + 1 else 2 * k)"
      using False by (subst isqrt.simps) (simp add: k_def Let_def)
    ultimately show ?thesis by (auto simp: algebra_simps)
  qed
qed

lemma isqrt_floor: "0 \<le> n \<Longrightarrow> isqrt n = \<lfloor>sqrt (real_of_int n)\<rfloor>"
proof -
  assume n: "0 \<le> n"
  have "real_of_int (isqrt n * isqrt n) \<le> real_of_int n" "real_of_int n < real_of_int ((isqrt n + 1) * (isqrt n + 1))"
    using isqrt_bounds [OF n] by (simp_all only: of_int_le_iff of_int_less_iff)
  then have b: "real_of_int (isqrt n) * real_of_int (isqrt n) \<le> real_of_int n"
      "real_of_int n < (real_of_int (isqrt n) + 1) * (real_of_int (isqrt n) + 1)" by simp_all
  have "real_of_int (isqrt n) \<le> sqrt (real_of_int n)"
    by (rule real_le_rsqrt) (use b(1) in \<open>simp add: power2_eq_square\<close>)
  moreover have "sqrt (real_of_int n) < real_of_int (isqrt n) + 1"
    by (rule real_less_lsqrt) (use b(2) isqrt_nonneg [of n] in \<open>simp_all add: power2_eq_square\<close>)
  ultimately show ?thesis by (intro floor_unique [symmetric]) simp_all
qed

lemma round_max: "round (max a b) = max (round a) (round b)" for a b :: real
  using round_mono [of a b] round_mono [of b a] by (cases "a \<le> b") (auto simp: max_def)

lemma travel_ms_real:
  "travel_ms p q = round (max 380 (sqrt (real_of_int ((fst q - fst p)\<^sup>2 + (snd q - snd p)\<^sup>2)) * (24 / 10)))"
proof -
  define d where "d = (fst q - fst p)\<^sup>2 + (snd q - snd p)\<^sup>2"
  have d: "0 \<le> d" by (simp add: d_def)
  have "sqrt (real_of_int (576 * d)) = 24 * sqrt (real_of_int d)"
    using real_sqrt_mult [of 576 "real_of_int d"] by simp
  then have "round (sqrt (real_of_int d) * (24 / 10)) = \<lfloor>(sqrt (real_of_int (576 * d)) + 5) / real_of_int 10\<rfloor>"
    by (simp add: round_def field_simps)
  also have "\<dots> = (\<lfloor>sqrt (real_of_int (576 * d))\<rfloor> + 5) div 10"
    by (subst floor_divide_real_eq_div) (simp_all add: floor_add_int [symmetric])
  also have "\<dots> = (isqrt (576 * d) + 5) div 10" using isqrt_floor [of "576 * d"] d by simp
  finally show ?thesis by (simp add: travel_ms_def round_max d_def power2_eq_square)
qed

section \<open>What every script keeps\<close>

text \<open>A step shows what was lit when it was pushed, amber exactly on a privileged run; nothing lit goes out again.\<close>

definition coloured :: "journey_tone \<Rightarrow> journey_step \<Rightarrow> bool" where
  "coloured t j = (joTone j = t \<and> joAmber j = (if t = PrivilegedTone then joLit j @ joEdges j @ joLinks j else []))"

definition dimmer :: "journey_step \<Rightarrow> journey_step \<Rightarrow> bool" where
  "dimmer a b = (set (joLit a) \<subseteq> set (joLit b) \<and> set (joEdges a) \<subseteq> set (joEdges b) \<and> set (joLinks a) \<subseteq> set (joLinks b))"

definition script_ok :: "script \<Rightarrow> bool" where
  "script_ok s =
     (list_all (coloured (scTone s)) (scSteps s) \<and> sorted_wrt dimmer (scSteps s)
      \<and> (\<forall>j \<in> set (scSteps s). set (joLit j) \<subseteq> set (scLit s) \<and> set (joEdges j) \<subseteq> set (scEdges s) \<and> set (joLinks j) \<subseteq> set (scLinks s)))"

text \<open>What a step of the builder may do to a script.\<close>

definition grows :: "script \<Rightarrow> script \<Rightarrow> bool" where
  "grows s s' = (script_ok s \<longrightarrow> script_ok s' \<and> scTone s' = scTone s)"

lemma grows_refl: "grows s s" by (simp add: grows_def)

lemma grows_trans: "grows s s' \<Longrightarrow> grows s' s'' \<Longrightarrow> grows s s''" by (auto simp: grows_def)

lemma grows_push: "grows s (push_stop p s)"
  by (auto simp: grows_def script_ok_def push_stop_def sorted_wrt_append coloured_def dimmer_def stop.defs journey_step.defs)

lemma set_set_add [simp]: "set (set_add x xs) = insert x (set xs)"
  by (auto simp: set_add_def)

lemma grows_light:
  "grows s (s\<lparr> scLit := set_add x (scLit s) \<rparr>)" "grows s (s\<lparr> scLinks := set_add x (scLinks s) \<rparr>)"
  "grows s (s\<lparr> scEdges := set_add y (scEdges s), scLit := set_add x (scLit s) \<rparr>)"
  by (auto simp: grows_def script_ok_def)

lemma sum_bind_Inr_iff: "sum_bind r f = Inr b \<longleftrightarrow> (\<exists>a. r = Inr a \<and> f a = Inr b)"
  by (cases r) (simp_all add: sum_bind_def)

lemma grows_start: "start_at i c h s = Inr s' \<Longrightarrow> grows s s'"
  by (auto simp: start_at_def sum_bind_Inr_iff intro: grows_trans grows_push grows_light)

lemma grows_exchange: "exchange_at i a g s = Inr s' \<Longrightarrow> grows s s'"
  unfolding exchange_at_def by (auto simp: sum_bind_Inr_iff Let_def intro!: grows_trans [OF grows_light(2) grows_trans [OF grows_push grows_push]])

lemma grows_travel: "travel i k c h s = Inr s' \<Longrightarrow> grows s s'"
  unfolding travel_def by (auto simp: sum_bind_Inr_iff intro!: grows_trans [OF grows_light(3) grows_push])

lemma grows_jump: "jump_to i ms h st c s = Inr s' \<Longrightarrow> grows s s'"
  unfolding jump_to_def by (auto simp: sum_bind_Inr_iff intro: grows_push)

lemma grows_and_then: "and_then f g s = Inr s' \<Longrightarrow> (\<And>a. f s = Inr a \<Longrightarrow> grows s a) \<Longrightarrow> (\<And>a. g a = Inr s' \<Longrightarrow> grows a s') \<Longrightarrow> grows s s'"
  by (auto simp: and_then_def sum_bind_Inr_iff intro: grows_trans)

lemma grows_run: "run_hops hs s = Inr s' \<Longrightarrow> grows s s'"
proof (induction hs arbitrary: s)
  case Nil
  then show ?case by (simp add: grows_refl)
next
  case (Cons h hs)
  then obtain s1 s2 where "s1 = s \<or> (\<exists>a i. exchange_at (hoFrom h) a i s = Inr s1)"
      "travel (hoFrom h) (hoTo h) (hoCarry h) 300 s1 = Inr s2" "run_hops hs s2 = Inr s'"
    by (auto simp: sum_bind_Inr_iff split: option.splits)
  then show ?case using Cons.IH grows_refl grows_exchange grows_travel grows_trans by metis
qed

lemma grows_model_call: "model_call i ex s = Inr s' \<Longrightarrow> grows s s'"
  unfolding model_call_def
  by (erule grows_and_then, force split: option.splits prod.splits intro: grows_exchange grows_refl,
      erule grows_and_then, erule grows_travel, erule grows_and_then, erule grows_travel, erule grows_and_then; erule grows_jump)

lemma script_new: "script_ok (new_script t)" "scTone (new_script t) = t"
  by (simp_all add: script_ok_def new_script_def)

lemma grows_journey: "journey_script t s = Inr s' \<Longrightarrow> grows s s'"
proof (cases t)
  case ReadTone
  assume "journey_script t s = Inr s'"
  then show ?thesis unfolding ReadTone journey_script.simps finish_at_def
    by (elim grows_and_then) (erule grows_start grows_run grows_model_call grows_jump)+
next
  case PrivilegedTone
  assume "journey_script t s = Inr s'"
  then show ?thesis unfolding PrivilegedTone journey_script.simps finish_at_def
    by (elim grows_and_then) (erule grows_start grows_run grows_model_call grows_jump grows_exchange grows_travel)+
qed

lemma journey_keeps: "buildJourney t = Inr js \<Longrightarrow> list_all (coloured t) js \<and> sorted_wrt dimmer js"
  using script_new [of t] grows_journey [of t "new_script t"]
  by (auto simp: buildJourney_def sum_bind_Inr_iff grows_def script_ok_def)

section \<open>What the picture says\<close>

text \<open>The stops of a journey: where, the caption, and whether the packet is seen.\<close>

type_synonym outline = "(string \<times> string \<times> bool) list"

definition outline_of :: "journey_step list \<Rightarrow> outline" where
  "outline_of js = map (\<lambda>j. (soAt j, soCaption j, soPacket j)) js"

definition plays :: "scripting \<Rightarrow> outline \<Rightarrow> bool" where
  "plays f xs = (\<forall>s. \<exists>s'. f s = Inr s' \<and> outline_of (scSteps s') = outline_of (scSteps s) @ xs)"

named_theorems plays_intros \<open>what the operations of the builder add\<close>

definition known :: "string \<Rightarrow> bool" where
  "known i = (\<exists>n. nodeById i = Inr n)"

lemma known_iff: "known i \<longleftrightarrow> i \<in> tnId ` set NODES"
proof -
  have "(\<exists>n. nodeById i = Inr n) \<longleftrightarrow> find (\<lambda>n. tnId n = i) NODES \<noteq> None"
    by (simp add: nodeById_def split: option.splits)
  then show ?thesis by (auto simp: known_def find_None_iff)
qed

lemma outline_push: "outline_of (scSteps (push_stop p s)) = outline_of (scSteps s) @ [(soAt p, soCaption p, soPacket p)]"
  by (simp add: outline_of_def push_stop_def stop.defs journey_step.defs)

lemma plays_start [plays_intros]: "known i \<Longrightarrow> plays (start_at i c h) [(i, c, True)]"
  by (auto simp: plays_def known_def start_at_def sum_bind_def outline_push)

lemma plays_jump [plays_intros]: "known i \<Longrightarrow> plays (jump_to i ms h st c) [(i, c, False)]"
  by (auto simp: plays_def known_def jump_to_def sum_bind_def outline_push)

lemma plays_travel [plays_intros]: "known i \<Longrightarrow> known k \<Longrightarrow> plays (travel i k c h) [(k, c, True)]"
  by (auto simp: plays_def known_def travel_def sum_bind_def outline_push)

definition dip :: "string \<Rightarrow> string \<Rightarrow> string \<Rightarrow> outline" where
  "dip i ask got = [(''curity'', towards i ''Curity'' @ sep @ ask, True), (i, towards ''Curity'' i @ sep @ got, True)]"

lemma plays_exchange [plays_intros]: "known i \<Longrightarrow> plays (exchange_at i ask got) (dip i ask got)"
  by (auto simp: plays_def known_def exchange_at_def linkPathOf_def sum_bind_def outline_push Let_def dip_def)

lemma plays_and_then [plays_intros]: "plays f xs \<Longrightarrow> plays g ys \<Longrightarrow> plays (and_then f g) (xs @ ys)"
  unfolding plays_def and_then_def sum_bind_def by (metis (no_types, lifting) append.assoc sum.simps(6))

lemma plays_nothing [plays_intros]: "plays Inr []"
  by (simp add: plays_def)

definition hop_outline :: "hop \<Rightarrow> outline" where
  "hop_outline h =
     (case (given (hoAsk h), given (hoIssued h)) of (Some a, Some g) \<Rightarrow> dip (hoFrom h) a g | _ \<Rightarrow> []) @ [(hoTo h, hoCarry h, True)]"

lemma plays_hops [plays_intros]:
  "list_all (\<lambda>h. known (hoFrom h) \<and> known (hoTo h)) hs \<Longrightarrow> plays (run_hops hs) (concat (map hop_outline hs))"
proof (induction hs)
  case Nil
  then show ?case by (simp add: plays_def)
next
  case (Cons h hs)
  define f where "f = (case (given (hoAsk h), given (hoIssued h)) of (Some a, Some i) \<Rightarrow> exchange_at (hoFrom h) a i | _ \<Rightarrow> Inr)"
  have "run_hops (h # hs) = and_then f (and_then (travel (hoFrom h) (hoTo h) (hoCarry h) 300) (run_hops hs))"
    by (rule ext) (auto simp: and_then_def [abs_def] f_def split: option.splits)
  moreover have "plays f (case (given (hoAsk h), given (hoIssued h)) of (Some a, Some g) \<Rightarrow> dip (hoFrom h) a g | _ \<Rightarrow> [])"
    using Cons.prems by (auto simp: f_def intro: plays_intros split: option.splits)
  ultimately show ?case using plays_and_then [OF _ plays_and_then [OF plays_travel Cons.IH]] Cons.prems
    by (simp add: hop_outline_def)
qed

definition model_outline :: "string \<Rightarrow> (string \<times> string) option \<Rightarrow> outline" where
  "model_outline i ex =
     (case ex of Some (a, g) \<Rightarrow> dip i a g | None \<Rightarrow> [])
     @ [(''agentgateway'', towards i ''agentgateway'' @ '' (/llm)'' @ sep @ ''carrying the llm:invoke leaf token'', True)]
     @ [(''llm-provider'', towards ''agentgateway'' ''LLM provider'' @ sep
           @ ''the gateway injects the vendor key; the provider never sees a user token'', True)]
     @ [(''llm-provider'', ''the completion returns the same way'', False)] @ [(i, i @ '' has the model'' @ [CHR 0x27] @ ''s plan'', False)]"

lemma known_nodes:
  "known ''web''" "known ''agent-copilot''" "known ''agentgateway''" "known ''agent-specialist''" "known ''mcp-inspect''"
  "known ''inspect-api''" "known ''mcp-ops''" "known ''ops-api''" "known ''llm-provider''"
  by (simp_all add: known_iff NODES_def topo_def)

lemma plays_model_call [plays_intros]:
  assumes "known i" shows "plays (model_call i ex) (model_outline i ex)"
proof -
  have "plays (case ex of Some (ask, got) \<Rightarrow> exchange_at i ask got | None \<Rightarrow> Inr) (case ex of Some (a, g) \<Rightarrow> dip i a g | None \<Rightarrow> [])"
    using assms by (auto intro: plays_intros split: option.splits)
  then show ?thesis unfolding model_call_def model_outline_def
    by (intro plays_and_then) (assumption | intro plays_intros known_nodes assms)+
qed

fun journey_outline :: "journey_tone \<Rightarrow> outline" where
  "journey_outline ReadTone =
     [(''web'', ''alice signs in at Curity'' @ sep @ ''web holds her user token (scope inspect:read ops:write)'', True)]
     @ concat (map hop_outline [USER_HOP]) @ model_outline ''agent-copilot'' (Some (LLM_ASK, LLM_ISSUED))
     @ concat (map hop_outline READ_HOPS)
     @ [(''inspect-api'', ''inspect-api never exchanges'' @ sep @ ''it verifies the act chain and reads the cluster'', False)]"
| "journey_outline PrivilegedTone =
     [(''web'', ''alice steps up with TOTP at Curity'' @ sep @ ''a stronger factor before anything privileged'', True)]
     @ concat (map hop_outline [USER_HOP, A2A_HOP]) @ dip ''agent-specialist'' OPS_ASK OPS_ISSUED
     @ model_outline ''agent-specialist'' None @ [(''agentgateway'', OPS_CARRY, True)] @ concat (map hop_outline PRIVILEGED_HOPS)
     @ [(''ops-api'', ''ops-api verifies the act chain + acr=mfa'' @ sep @ ''then restarts the deployment'', False)]"

lemma hops_known:
  "list_all (\<lambda>h. known (hoFrom h) \<and> known (hoTo h)) [USER_HOP]" "list_all (\<lambda>h. known (hoFrom h) \<and> known (hoTo h)) [USER_HOP, A2A_HOP]"
  "list_all (\<lambda>h. known (hoFrom h) \<and> known (hoTo h)) READ_HOPS" "list_all (\<lambda>h. known (hoFrom h) \<and> known (hoTo h)) PRIVILEGED_HOPS"
  by (simp_all add: USER_HOP_def A2A_HOP_def READ_HOPS_def PRIVILEGED_HOPS_def known_nodes)

lemma plays_journey: "plays (journey_script t) (journey_outline t)"
  by (cases t) (simp_all only: journey_script.simps journey_outline.simps finish_at_def, (intro plays_intros known_nodes hops_known)+)

lemma journey_built: "\<exists>js. buildJourney t = Inr js \<and> outline_of js = journey_outline t"
proof -
  obtain s' where "journey_script t (new_script t) = Inr s'" "outline_of (scSteps s') = outline_of (scSteps (new_script t)) @ journey_outline t"
    using plays_journey [of t] unfolding plays_def by blast
  then show ?thesis by (simp add: buildJourney_def sum_bind_def new_script_def outline_of_def)
qed

text \<open>The packet moves along an edge, or between Curity and a workload that exchanges; unseen it may be anywhere.\<close>

definition legs :: "outline \<Rightarrow> ((string \<times> string \<times> bool) \<times> (string \<times> string \<times> bool)) list" where
  "legs xs = zip xs (tl xs)"

definition exchanging :: "string \<Rightarrow> bool" where
  "exchanging i = (case nodeById i of Inr n \<Rightarrow> tnExchanges n | Inl _ \<Rightarrow> False)"

definition leg_ok :: "(string \<times> string \<times> bool) \<times> (string \<times> string \<times> bool) \<Rightarrow> bool" where
  "leg_ok l =
     (let a = fst (fst l); b = fst (snd l)
      in if a = ''curity'' then exchanging b else if b = ''curity'' then exchanging a
         else (a, b) \<in> set EDGES \<or> \<not> snd (snd (snd l)))"

text \<open>The returns from Curity: the workload and what the caption says was issued, by audience and scope.\<close>

fun stated :: "string \<Rightarrow> string list \<Rightarrow> (string \<times> string) list" where
  "stated a [] = []"
| "stated a (w # ws) =
     (if starts_with ''aud='' w then stated (drop 4 w) ws
      else if starts_with ''scope='' w then (a, takeWhile (\<lambda>c. c \<noteq> CHR '','') (drop 6 w)) # stated a ws
      else stated a ws)"

definition issues :: "outline \<Rightarrow> (string \<times> (string \<times> string) list) list" where
  "issues xs =
     map (\<lambda>l. (fst (snd l), stated [] (split_on CHR '' '' (fst (snd (snd l)))))) (filter (\<lambda>l. fst (fst l) = ''curity'') (legs xs))"

definition workload_id :: "string \<Rightarrow> string" where
  "workload_id i = (case nodeById i of Inr n \<Rightarrow> spiffeIdOf n | Inl _ \<Rightarrow> [])"

text \<open>The policy of the exchange procedure gives a workload a scope for an audience.\<close>

definition policy_gives :: "string \<Rightarrow> string \<times> string \<Rightarrow> bool" where
  "policy_gives actor x =
     list_ex (\<lambda>c. cpAllowedActor (snd c) = actor
        \<and> (case om_get (cpPerAudience (snd c)) (fst x) of Some ap \<Rightarrow> snd x \<in> set (apScopes ap) | None \<Rightarrow> False)) CLIENT_POLICY"

definition issue_ok :: "string \<times> (string \<times> string) list \<Rightarrow> bool" where
  "issue_ok i = (snd i \<noteq> [] \<and> list_all (policy_gives (workload_id (fst i))) (snd i))"

definition actors_of :: "outline \<Rightarrow> string list" where
  "actors_of xs = rev (map workload_id (remdups_adj (map fst (issues xs))))"

definition chain_at_the_end :: "journey_tone \<Rightarrow> (string \<times> string) list" where
  "chain_at_the_end t = (case t of ReadTone \<Rightarrow> hd inspect_chains | PrivilegedTone \<Rightarrow> ops_chain)"

lemma journeys_move: "list_all leg_ok (legs (journey_outline ReadTone))" "list_all leg_ok (legs (journey_outline PrivilegedTone))"
  by code_simp+

lemma journeys_issue: "list_all issue_ok (issues (journey_outline ReadTone))" "list_all issue_ok (issues (journey_outline PrivilegedTone))"
  by code_simp+

lemma journeys_chain:
  "actors_of (journey_outline ReadTone) = map (\<lambda>p. spiffe_id (fst p) (snd p)) (chain_at_the_end ReadTone)"
  "actors_of (journey_outline PrivilegedTone) = map (\<lambda>p. spiffe_id (fst p) (snd p)) (chain_at_the_end PrivilegedTone)"
  by code_simp+

text \<open>
  The picture of the landing page tells the truth about the delegation: both journeys can be played; the packet
  moves only along edges of the topology and between Curity and workloads that exchange; every token a caption says
  was issued is one the exchange procedure's policy gives that workload, for that audience and scope; the
  workloads that exchanged are, last first, the very actor chain the resource server at the end demands; and what was
  lit stays lit, drawn amber exactly on the privileged journey.
\<close>

theorem journey_tells_the_chain:
  "\<exists>js. buildJourney t = Inr js \<and> list_all leg_ok (legs (outline_of js)) \<and> list_all issue_ok (issues (outline_of js))
     \<and> list_all2 (\<lambda>p c. p c) (map (\<lambda>p. SPIFFE_ID (fst p) (snd p)) (chain_at_the_end t)) (actors_of (outline_of js))
     \<and> list_all (coloured t) js \<and> sorted_wrt dimmer js"
proof -
  obtain js where b: "buildJourney t = Inr js" "outline_of js = journey_outline t" using journey_built by blast
  then show ?thesis using journeys_move journeys_issue journeys_chain journey_keeps [OF b(1)]
    by (cases t) (auto simp: spiffe_chain_iff simp del: journey_outline.simps)
qed

end
