(* ===== verification/CopilotRoutes.thy ===== *)
theory CopilotRoutes
  imports Chat
begin

text \<open>
  The two debugging routes of \<^verbatim>\<open>apps/agent-copilot/src\<close>: \<^verbatim>\<open>last-token-route.ts\<close>, which shows the chain of
  exchanged tokens, and \<^verbatim>\<open>tools-route.ts\<close>, which shows what each tier lists. The two tiers are asked
  concurrently in the code; here the read tier is asked first.
\<close>

section \<open>Which exchanges belong to the caller\<close>

definition belongs :: "js \<Rightarrow> js \<Rightarrow> exchange_slot option \<Rightarrow> bool" where
  "belongs sub jti e =
     (case e of None \<Rightarrow> False | Some x \<Rightarrow> slSub x = sub \<and> is_string jti \<and> opt_js (slJti x) = jti)"

definition slot_at :: "exchange_slot option \<Rightarrow> int" where
  "slot_at e = (case e of None \<Rightarrow> 0 | Some x \<Rightarrow> slAt x)"

text \<open>Whether to show the read branch, the privileged branch and the model's leaf.\<close>

definition selectDownstreamBranch ::
  "js \<Rightarrow> js \<Rightarrow> exchange_slot option \<Rightarrow> exchange_slot option \<Rightarrow> exchange_slot option \<Rightarrow> bool \<times> bool \<times> bool" where
  "selectDownstreamBranch sub jti inspect spec llm =
     (let inspectOk = belongs sub jti inspect; specOk = belongs sub jti spec;
          showInspect = (if inspectOk \<and> specOk then slot_at inspect \<ge> slot_at spec else inspectOk);
          showSpec = (if inspectOk \<and> specOk then \<not> showInspect else specOk)
      in (showInspect, showSpec, showInspect \<and> belongs sub jti llm \<and> slot_at llm \<ge> slot_at inspect))"

section \<open>Walking downstream, with a memory\<close>

definition max_snapshots :: nat where "max_snapshots = 8"

fun evict_oldest :: "nat \<Rightarrow> ('k, 'v) omap \<Rightarrow> ('k, 'v) omap" where
  "evict_oldest n [] = []"
| "evict_oldest n (p # m) = (if length (p # m) > n then evict_oldest n m else p # m)"

definition remember_hops :: "nat \<Rightarrow> string \<Rightarrow> js \<Rightarrow> (string, js) omap \<Rightarrow> (string, js) omap" where
  "remember_hops n key hops m = evict_oldest n (om_set (om_delete m key) key hops)"

definition snapshot_key :: "string \<Rightarrow> bool \<Rightarrow> js \<Rightarrow> string" where
  "snapshot_key url includeRaw bearer = url @ ''|'' @ (if includeRaw then ''raw'' else ''decoded'') @ ''|'' @ js_string bearer"

definition remembered ::
  "string \<Rightarrow> ('w, 'j, 'z) copilot_scheme \<Rightarrow> (exn + js) \<times> ('w, 'j, 'z) copilot_scheme" where
  "remembered key = io_bind (io_read cpSnapshots) (\<lambda>m. io_return (or_else (om_get m key) (JArr [])))"

definition copilot_fetch_chain ::
  "('w, 'j) platform \<Rightarrow> string \<Rightarrow> js \<Rightarrow> bool \<Rightarrow> ('w, 'j, 'z) copilot_scheme \<Rightarrow> (exn + js) \<times> ('w, 'j, 'z) copilot_scheme" where
  "copilot_fetch_chain P url bearer includeRaw =
     (let key = snapshot_key url includeRaw bearer
      in io_catch
        (io_bind (withProcessDpop P (http_fetch P)
           \<lparr> qMethod = ''GET'', qUrl = (if includeRaw then url @ ''?raw=1'' else url),
             qHeaders = [(''authorization'', ''Bearer '' @ js_string bearer)], qBody = [] \<rparr>) (\<lambda>r.
           if \<not> rsp_ok r then remembered key
           else io_bind (lift_sum (pJson r)) (\<lambda>body.
                io_bind (prop_of body ''chain'') (\<lambda>c.
                io_bind (io_modify (\<lambda>s. s\<lparr> cpSnapshots := remember_hops max_snapshots key (js_or c (JArr [])) (cpSnapshots s) \<rparr>)) (\<lambda>_.
                  io_return (js_or c (JArr [])))))))
        (\<lambda>e. io_bind (emit (ConsoleError ''[last-token] downstream fetch failed'')) (\<lambda>_. remembered key)))"

text \<open>\<^verbatim>\<open>url.replace(/\/a2a\/?$/, '')\<close>\<close>

definition specialist_base :: "string \<Rightarrow> string" where
  "specialist_base url =
     (if ends_with ''/a2a/'' url then take (length url - 5) url
      else if ends_with ''/a2a'' url then take (length url - 4) url else url)"

section \<open>The chain\<close>

definition shown ::
  "('w, 'j) platform \<Rightarrow> string \<Rightarrow> string option \<Rightarrow> string option \<Rightarrow> bool \<Rightarrow> exchange_slot option
   \<Rightarrow> ('w, 'j, 'z) copilot_scheme \<Rightarrow> (exn + js list) \<times> ('w, 'j, 'z) copilot_scheme" where
  "shown P name url note includeRaw slot =
     (case slot of
        None \<Rightarrow> io_return []
      | Some x \<Rightarrow>
          io_bind (lift_sum (decode_hop P name (slToken x) includeRaw note)) (\<lambda>h.
            case url of
              None \<Rightarrow> io_return [h]
            | Some u \<Rightarrow>
                io_bind (copilot_fetch_chain P u (slToken x) includeRaw) (\<lambda>c.
                io_bind (lift_sum (js_elements c)) (\<lambda>cs. io_return (h # cs)))))"

definition when_shown :: "bool \<Rightarrow> exchange_slot option \<Rightarrow> exchange_slot option" where
  "when_shown b x = (if b then x else None)"

definition copilot_last_token ::
  "copilot_config \<Rightarrow> ('w, 'j) platform \<Rightarrow> string \<Rightarrow> verified_jwt \<Rightarrow> js
   \<Rightarrow> ('w, 'j, 'z) copilot_scheme \<Rightarrow> (exn + http_res) \<times> ('w, 'j, 'z) copilot_scheme" where
  "copilot_last_token cfg P bearer v query =
     (let includeRaw = (jget query ''raw'' = JStr ''1'')
      in io_bind (lift_sum (decode_hop P (''user '' @ arrow @ '' agent-copilot (inbound)'') (JStr bearer) includeRaw None)) (\<lambda>inbound.
         io_bind (io_read cpLastMcp) (\<lambda>inspect.
         io_bind (io_read cpLastSpecialist) (\<lambda>spec.
         io_bind (io_read cpLastLlm) (\<lambda>llm.
           case selectDownstreamBranch (jget (vPayload v) ''sub'') (jget (vPayload v) ''jti'') inspect spec llm of
             (showInspect, showSpec, showLlm) \<Rightarrow>
               io_bind (shown P (''agent-copilot '' @ arrow @ '' agentgateway (/llm)'') None (Some llm_leaf_note) includeRaw
                  (when_shown showLlm llm)) (\<lambda>leaf.
               io_bind (shown P (''agent-copilot '' @ arrow @ '' agentgateway (/inspect/mcp)'') (Some (last_token_url (cpMcpInspectUrl cfg)))
                  None includeRaw (when_shown showInspect inspect)) (\<lambda>reads.
               io_bind (shown P (''agent-copilot '' @ arrow @ '' agent-specialist'')
                  (Some (specialist_base (cpSpecialistA2aUrl cfg) @ ''/last-token'')) None includeRaw (when_shown showSpec spec)) (\<lambda>writes.
                 io_return (answer 200 [] [(''chain'', JArr (inbound # leaf @ reads @ writes))])))))))))"

section \<open>The tools of each tier\<close>

definition tier_auth_failure :: "exn \<Rightarrow> ops_tools" where
  "tier_auth_failure e =
     (case e of
        CurityAuthError m c \<Rightarrow> if isDiscoveryFailure e then ToolsError (code_str c) m else ToolsDenied (code_str c) m
      | _ \<Rightarrow> ToolsError ''exchange_failed'' (exn_string e))"

definition listReadTier ::
  "('s, exn, js) io \<Rightarrow> ('s, exn, 's toolset) io \<Rightarrow> string list \<Rightarrow> ('s, exn, ops_tools) io" where
  "listReadTier acquire open roles =
     io_bind (io_try acquire) (\<lambda>a.
       case a of
         Inl e \<Rightarrow> io_return (tier_auth_failure e)
       | Inr _ \<Rightarrow>
           io_bind (io_try open) (\<lambda>t.
             case t of
               Inl e \<Rightarrow> io_return (ToolsError ''mcp_unavailable'' (exn_string e))
             | Inr ts \<Rightarrow> io_bind (tsClose ts) (\<lambda>_. io_return (ToolsOk (toolInfos (tsListed ts) roles)))))"

definition fetchSpecialistTools ::
  "copilot_config \<Rightarrow> ('w, 'j) platform \<Rightarrow> js \<Rightarrow> ('w, 'j, 'z, js) act" where
  "fetchSpecialistTools cfg P bearer =
     io_bind (http_fetch P \<lparr> qMethod = ''GET'', qUrl = specialist_base (cpSpecialistA2aUrl cfg) @ ''/tools'',
        qHeaders = [(''authorization'', ''Bearer '' @ js_string bearer)], qBody = [] \<rparr>) (\<lambda>r.
       if \<not> rsp_ok r
       then io_return (JObj (ops_tools_js (ToolsError ''specialist_unavailable'' (''specialist /tools answered '' @ int_str (pStatus r)))))
       else lift_sum (pJson r))"

definition listWriteTier :: "('s, exn, js) io \<Rightarrow> (js \<Rightarrow> ('s, exn, js) io) \<Rightarrow> ('s, exn, js) io" where
  "listWriteTier obtainToken fetchTools =
     io_bind (io_try obtainToken) (\<lambda>d.
       case d of
         Inl e \<Rightarrow> io_return (JObj (ops_tools_js (tier_auth_failure e)))
       | Inr token \<Rightarrow>
           io_catch (fetchTools token)
             (\<lambda>e. io_return (JObj (ops_tools_js (ToolsError ''specialist_unavailable'' (exn_string e))))))"

text \<open>\<^verbatim>\<open>{ tier, route, ...status }\<close>: a member of the status replaces one before it.\<close>

definition js_members :: "js \<Rightarrow> (string \<times> js) list" where
  "js_members v =
     (case v of
        JObj kvs \<Rightarrow> kvs
      | JArr xs \<Rightarrow> map (\<lambda>i. (nat_str i, xs ! i)) [0..<length xs]
      | JStr s \<Rightarrow> map (\<lambda>i. (nat_str i, JStr [s ! i])) [0..<length s]
      | _ \<Rightarrow> [])"

definition tier_js :: "string \<Rightarrow> string \<Rightarrow> js \<Rightarrow> js" where
  "tier_js tier route status = JObj (set_all [(''tier'', JStr tier), (''route'', JStr route)] (js_members status))"

definition collectToolTiers ::
  "('s, exn, js) io \<Rightarrow> ('s, exn, 's toolset) io \<Rightarrow> ('s, exn, js) io \<Rightarrow> (js \<Rightarrow> ('s, exn, js) io) \<Rightarrow> string list \<Rightarrow> ('s, exn, js) io" where
  "collectToolTiers acquire open obtainToken fetchTools roles =
     io_bind (listReadTier acquire open roles) (\<lambda>read.
     io_bind (listWriteTier obtainToken fetchTools) (\<lambda>write.
       io_return (JObj [(''tiers'', JArr [tier_js ''inspect'' ''/inspect/mcp'' (JObj (ops_tools_js read)),
                                          tier_js ''ops'' ''/ops/mcp'' write])])))"

definition copilot_tools ::
  "copilot_config \<Rightarrow> ('w, 'j) platform \<Rightarrow> 'w mcp_sdk \<Rightarrow> 'w file_reader \<Rightarrow> ('w, 'j, 'z) copilot_scheme client_factory \<Rightarrow> string \<Rightarrow> verified_jwt
   \<Rightarrow> ('w, 'j, 'z) copilot_scheme \<Rightarrow> (exn + http_res) \<times> ('w, 'j, 'z) copilot_scheme" where
  "copilot_tools cfg P sdk readFile newClient bearer v =
     (let sub = JStr (subject_of v); acr = JStr (acr_of v)
      in io_catch
        (io_bind (collectToolTiers
            (io_bind (io_modify (\<lambda>s. s\<lparr> cpProvider := new_provider \<rparr>)) (\<lambda>_. copilot_acquire cfg P sdk readFile bearer sub acr False))
            (openMcpToolset P newClient (cpMcpInspectUrl cfg) (provider_token cpProvider) ''agent-copilot''
               ''mcp-inspect (tools/list probe)'' (http_fetch P))
            (obtainSpecialistToken cfg P sdk readFile bearer sub acr False)
            (fetchSpecialistTools cfg P) (rolesClaim (jget (vPayload v) ''roles''))) (\<lambda>j.
           io_return \<lparr> rStatus = 200, rHeaders = [], rBody = j \<rparr>))
        (\<lambda>e. io_bind (emit (ConsoleError ''[agent-copilot] /tools failed'')) (\<lambda>_.
           io_return (answer 500 [] [(''error'', JStr ''server_error'')]))))"

lemmas copilot_routes_eval [eval_simps] = belongs_def slot_at_def selectDownstreamBranch_def max_snapshots_def remember_hops_def
  snapshot_key_def remembered_def copilot_fetch_chain_def specialist_base_def shown_def when_shown_def copilot_last_token_def
  tier_auth_failure_def listReadTier_def fetchSpecialistTools_def listWriteTier_def js_members_def tier_js_def
  collectToolTiers_def copilot_tools_def

section \<open>What the routes show\<close>

text \<open>
  No exchange of another session is shown: a branch is chosen only if its latest exchange was made
  for the caller's subject from the very token presented (by its jti), never both branches, the more
  recent one when both qualify, and the model's leaf only with the read branch and made after it.
\<close>

theorem last_token_own_session:
  "case selectDownstreamBranch sub jti inspect spec llm of (i, p, l) \<Rightarrow>
     (i = (belongs sub jti inspect \<and> \<not> (belongs sub jti spec \<and> slot_at inspect < slot_at spec)))
     \<and> (p = (belongs sub jti spec \<and> \<not> (belongs sub jti inspect \<and> slot_at spec \<le> slot_at inspect)))
     \<and> \<not> (i \<and> p) \<and> (l = (i \<and> belongs sub jti llm \<and> slot_at inspect \<le> slot_at llm))"
  by (auto simp: selectDownstreamBranch_def Let_def)

lemma last_token_needs_jti: "\<not> is_string jti \<Longrightarrow> selectDownstreamBranch sub jti inspect spec llm = (False, False, False)"
  by (simp add: selectDownstreamBranch_def belongs_def Let_def split: option.splits)

text \<open>The memory of the walk stays within its bound, keeps the latest answer and serves only what was answered.\<close>

lemma evict_oldest_bound: "length (evict_oldest n m) \<le> n"
  by (induction m) auto

lemma remember_hops_bound: "length (remember_hops n key hops m) \<le> n"
  by (simp add: remember_hops_def evict_oldest_bound)

end
