(* ===== verification/Panels.thy ===== *)
theory Panels
  imports Views CopilotRoutes
begin

text \<open>
  What the panels of the web application show: \<^verbatim>\<open>components/tool-visibility.tsx, agent-trace.tsx, result-card.tsx\<close> and
  \<^verbatim>\<open>workload-identities.tsx\<close> as functions from the data a panel is given to the tree it renders. Class names are left
  out; texts, structure, icons, links, titles and data attributes are kept.
\<close>

section \<open>Rendered trees\<close>

datatype dom = Txt string | El string "(string \<times> string) list" "dom list"

fun dom_text :: "dom \<Rightarrow> string" where
  "dom_text (Txt s) = s"
| "dom_text (El n as ks) = concat (map dom_text ks)"

fun dom_all :: "(dom \<Rightarrow> bool) \<Rightarrow> dom \<Rightarrow> bool" where
  "dom_all p (Txt s) = p (Txt s)"
| "dom_all p (El n as ks) = (p (El n as ks) \<and> list_all (dom_all p) ks)"

definition attr_of :: "string \<Rightarrow> dom \<Rightarrow> string option" where
  "attr_of a d = (case d of Txt _ \<Rightarrow> None | El _ as _ \<Rightarrow> map_of as a)"

abbreviation icon :: "string \<Rightarrow> dom" where "icon n \<equiv> El n [] []"
abbreviation span :: "dom list \<Rightarrow> dom" where "span ks \<equiv> El ''span'' [] ks"
abbreviation para :: "dom list \<Rightarrow> dom" where "para ks \<equiv> El ''p'' [] ks"
abbreviation box :: "dom list \<Rightarrow> dom" where "box ks \<equiv> El ''div'' [] ks"
abbreviation badge :: "string \<Rightarrow> dom list \<Rightarrow> dom" where "badge variant ks \<equiv> El ''Badge'' [(''variant'', variant)] ks"
abbreviation shown_if :: "bool \<Rightarrow> dom list \<Rightarrow> dom list" where "shown_if b ks \<equiv> (if b then ks else [])"

text \<open>\<^verbatim>\<open>{v}\<close> as a child: React shows strings and numbers; null, undefined and booleans show nothing.\<close>

definition child :: "js \<Rightarrow> dom list" where
  "child v = (case v of JStr s \<Rightarrow> [Txt s] | JNum n \<Rightarrow> [Txt (int_str n)] | _ \<Rightarrow> [])"

definition rsquo :: string where "rsquo = [CHR 0xE2, CHR 0x80, CHR 0x99]"

definition json_block :: "js \<Rightarrow> dom" where
  "json_block v = El ''pre'' [] [Txt (if v = JUndef then [] else json_pretty 0 v)]"

definition details :: "string \<Rightarrow> dom list \<Rightarrow> dom" where
  "details title ks = El ''details'' [] [El ''summary'' [] [Txt title], box ks]"

definition FlowBadge :: "flow \<Rightarrow> dom" where
  "FlowBadge f =
     (case f of
        ReadFlow \<Rightarrow> badge ''secondary'' [icon ''Eye'', Txt ''Read flow'']
      | PrivilegedFlow \<Rightarrow> badge ''warning'' [icon ''Lock'', Txt ''Privileged flow''])"

section \<open>The tools a token can reach\<close>

text \<open>A tool is an object as the web server sends it, with \<^verbatim>\<open>requiredRoles\<close> a list of names when present.\<close>

definition required_roles :: "js \<Rightarrow> string list" where
  "required_roles t = map js_string (or_else (as_arr (jget t ''requiredRoles'')) [])"

definition call_refused :: "js \<Rightarrow> bool" where
  "call_refused t = (jget t ''callable'' = JBool False)"

definition role_badge :: "js \<Rightarrow> dom" where
  "role_badge t =
     (let roles = join '' or '' (required_roles t); off = call_refused t
      in El ''Badge''
           [(''variant'', if off then ''warning'' else ''success''),
            (''title'', if off then ''Listed, but calling it requires role '' @ roles @ '', which this user does not hold''
                        else ''Calling it requires role '' @ roles @ '', which this user holds'')]
           [icon (if off then ''Lock'' else ''Check''), Txt (if off then ''needs '' @ roles else ''role '' @ roles)])"

definition ToolRow :: "js \<Rightarrow> dom" where
  "ToolRow t =
     (let off = call_refused t
      in El ''li'' [(''data-tool'', js_string (jget t ''name''))]
           [icon ''Wrench'',
            box (box (span (child (jget t ''name'')) # shown_if (truthy (jget t ''requiredRoles'')) [role_badge t])
                 # shown_if (truthy (jget t ''description'')) [para (child (jget t ''description''))]),
            El ''span'' [(''title'', if off then ''Listed, but the call will be refused'' else ''Callable with this token''),
                         (''aria-label'', if off then ''call refused'' else ''callable'')]
              [icon (if off then ''Lock'' else ''Check'')]])"

text \<open>\<^verbatim>\<open>{i > 0 && ', '}\<close> before each but the first.\<close>

definition comma_spans :: "dom list \<Rightarrow> dom list" where
  "comma_spans ds = (case ds of [] \<Rightarrow> [] | d # es \<Rightarrow> span [d] # map (\<lambda>e. span [Txt '', '', e]) es)"

definition listed_not_callable :: "js list \<Rightarrow> dom" where
  "listed_not_callable off =
     para ([span [Txt (''Listed '' @ [CHR 0xE2, CHR 0x89, CHR 0xA0] @ '' callable.'')], Txt '' The gateway filters '', span [Txt ''tools/list''],
            Txt '' by tier scope only, so '']
           @ comma_spans (map (\<lambda>t. span (child (jget t ''name''))) off)
           @ [Txt '' stays visible but the call is refused without role '',
              span [Txt (join '' / '' (dedup (concat (map required_roles off))))], Txt ''.''])"

text \<open>The tiers' panels: nothing for a status the type does not have.\<close>

definition Verdict :: "(string \<Rightarrow> string \<Rightarrow> bool) \<Rightarrow> tool_tier \<Rightarrow> js \<Rightarrow> dom list" where
  "Verdict before tier t =
     (if jget t ''status'' = JStr ''ok''
        then (let tools = orderTools before tier (or_else (as_arr (jget t ''tools'')) []); off = filter call_refused tools
              in [box (shown_if (tools = []) [para [Txt ''The gateway listed no tools for this token.'']]
                       @ [El ''ul'' [] (map ToolRow tools)]
                       @ shown_if (off \<noteq> []) [listed_not_callable off])])
      else if jget t ''status'' = JStr ''step-up''
        then [box [icon ''Lock'', span [Txt (''Not listed '' @ em_dash @ '' This user has not authenticated with ''),
                span (Txt ''acr='' # child (jget t ''acrValues'')), Txt '', so no '', span (child (jget t ''scope'')), Txt '' token was minted.'']]]
      else if jget t ''status'' = JStr ''denied''
        then [box [icon ''Ban'', span ([Txt (''Not listed '' @ em_dash @ '' Curity refused the exchange (''), span (child (jget t ''error'')), Txt ''): '']
                @ child (jget t ''description''))]]
      else if jget t ''status'' = JStr ''error''
        then [box [icon ''ShieldAlert'', span ([Txt ''Could not probe this tier ('', span (child (jget t ''error'')), Txt ''): '']
                @ child (jget t ''description''))]]
      else [])"

record tier_meta =
  tmTitle :: string
  tmScope :: string
  tmBlurb :: string
  tmGate :: "dom list"
  tmIcon :: string

fun TIER_META :: "tool_tier \<Rightarrow> tier_meta" where
  "TIER_META InspectTools =
     \<lparr> tmTitle = ''Read tier'', tmScope = ''inspect:read'', tmBlurb = ''mcp-inspect, reached by the copilot directly.'',
       tmGate = [Txt ''Listed when '', span [Txt ''inspect:read''], Txt ('' is on the copilot'' @ rsquo @ ''s token.'')], tmIcon = ''Eye'' \<rparr>"
| "TIER_META OpsTools =
     \<lparr> tmTitle = ''Write tier'', tmScope = ''ops:write'', tmBlurb = ''mcp-ops, reached only by the specialist after MFA and a role check.'',
       tmGate = [Txt ''Listed only after an '', span [Txt ''ops:write''], Txt '' exchange, which Curity grants only with '', span [Txt ''acr=mfa''],
                 Txt '' and role '', span [Txt ''sre''], Txt '' or '', span [Txt ''oncall''], Txt ''.''], tmIcon = ''Lock'' \<rparr>"

fun VERDICT_VARIANT :: "tone \<Rightarrow> string" where
  "VERDICT_VARIANT ToneOk = ''success''"
| "VERDICT_VARIANT ToneBlocked = ''warning''"
| "VERDICT_VARIANT ToneDenied = ''destructive''"
| "VERDICT_VARIANT ToneUnknown = ''muted''"

definition tier_of :: "js \<Rightarrow> tool_tier option" where
  "tier_of v = (if v = JStr ''inspect'' then Some InspectTools else if v = JStr ''ops'' then Some OpsTools else None)"

text \<open>A tier or a status the types do not have makes the page throw.\<close>

definition tier_card :: "(string \<Rightarrow> string \<Rightarrow> bool) \<Rightarrow> js \<Rightarrow> exn + dom" where
  "tier_card before t =
     (case (tier_of (jget t ''tier''), tierVerdict t) of
        (Some tier, Some (label, tn)) \<Rightarrow>
          (let m = TIER_META tier
           in Inr (box ([box [box [icon (tmIcon m), span [Txt (tmTitle m)], badge ''outline'' (child (jget t ''route'')),
                            El ''Badge'' [(''variant'', ''outline''), (''title'', ''The tier'' @ [CHR 0x27] @ ''s requirement, the same for every caller'')]
                              [Txt (''requires '' @ tmScope m)]],
                       El ''Badge'' [(''variant'', VERDICT_VARIANT tn), (''title'', ''What the gateway did for your token'')] [Txt label]],
                     para [Txt (tmBlurb m)], para (tmGate m)]
                   @ Verdict before tier t)))
      | _ \<Rightarrow> Inl (type_error ''Cannot read properties of undefined''))"

fun sum_list_map :: "('a \<Rightarrow> 'e + 'b) \<Rightarrow> 'a list \<Rightarrow> 'e + 'b list" where
  "sum_list_map f [] = Inr []"
| "sum_list_map f (x # xs) = sum_bind (f x) (\<lambda>y. sum_bind (sum_list_map f xs) (\<lambda>ys. Inr (y # ys)))"

definition ToolVisibility :: "(string \<Rightarrow> string \<Rightarrow> bool) \<Rightarrow> js list \<Rightarrow> exn + dom" where
  "ToolVisibility before tiers = sum_bind (sum_list_map (tier_card before) tiers) (\<lambda>ks. Inr (box ks))"

section \<open>The tools card tells what the servers do\<close>

definition marked_refused :: "dom \<Rightarrow> bool" where
  "marked_refused d = (case d of El n as (i # b # sp # _) \<Rightarrow> attr_of ''aria-label'' sp = Some ''call refused'' | _ \<Rightarrow> False)"

lemma ToolRow_marks: "marked_refused (ToolRow t) \<longleftrightarrow> call_refused t" "attr_of ''data-tool'' (ToolRow t) = Some (js_string (jget t ''name''))"
  by (auto simp: marked_refused_def ToolRow_def attr_of_def Let_def)

text \<open>The rows a card renders for an answer of a tier.\<close>

definition card_rows :: "dom \<Rightarrow> dom list" where
  "card_rows d = (case d of El _ _ (_ # _ # _ # El _ _ ks # _) \<Rightarrow> concat (map (\<lambda>k. case k of El n _ rows \<Rightarrow> if n = ''ul'' then rows else [] | Txt _ \<Rightarrow> []) ks) | _ \<Rightarrow> [])"

lemma card_rows_ok:
  assumes "tier_of (jget t ''tier'') = Some tier" "jget t ''status'' = JStr ''ok''"
  shows "\<exists>d. tier_card before t = Inr d \<and> card_rows d = map ToolRow (orderTools before tier (or_else (as_arr (jget t ''tools'')) []))"
  using assms by (auto simp: tier_card_def tierVerdict_def Verdict_def card_rows_def Let_def listed_not_callable_def)

text \<open>An answer of the specialist's probe as the copilot passes it on.\<close>

definition ops_tier :: "ops_tools \<Rightarrow> js" where
  "ops_tier r = tier_js ''ops'' ''/ops/mcp'' (JObj (ops_tools_js r))"

lemma tool_info_js_facts:
  "jget (tool_info_js i) ''name'' = JStr (tiName i) \<and> (call_refused (tool_info_js i) \<longleftrightarrow> tiCallable i = Some False)"
  by (cases "tiDescription i"; cases "tiRequiredRoles i"; cases "tiCallable i") (simp_all add: tool_info_js_def call_refused_def)

lemma orderTools_map: "mset (map f (orderTools before tier tools)) = mset (map f tools)"
  by (simp add: orderTools_mset)

text \<open>A tool as the MCP client lists it from what the write server publishes of it.\<close>

definition listed_by_server :: "mcp_ops_config \<Rightarrow> string \<Rightarrow> listed_tool" where
  "listed_by_server cfg n = toListedTool (JObj ((''name'', JStr n) # requiredRolesMeta cfg n))"

text \<open>
  C17. From the write server to the screen: of the tools the write server publishes with its role matrix, the specialist
  lists and the web application renders for a caller, each appears once, and its row says the call will be refused
  exactly when the write server refuses that caller's call of it.
\<close>

theorem tools_card_tells_the_gate:
  "\<exists>d. tier_card before (ops_tier (ToolsOk (toolInfos (map (listed_by_server cfg) names) roles))) = Inr d
    \<and> mset (map (\<lambda>row. (attr_of ''data-tool'' row, marked_refused row)) (card_rows d))
      = mset (map (\<lambda>n. (Some n, toolRoleDenial n roles (tool_roles cfg n) \<noteq> None)) names)"
proof -
  let ?infos = "toolInfos (map (listed_by_server cfg) names) roles"
  let ?tools = "map tool_info_js ?infos"
  have t: "tier_of (jget (ops_tier (ToolsOk ?infos)) ''tier'') = Some OpsTools" "jget (ops_tier (ToolsOk ?infos)) ''status'' = JStr ''ok''"
    "or_else (as_arr (jget (ops_tier (ToolsOk ?infos)) ''tools'')) [] = ?tools"
    by (simp_all add: ops_tier_def tier_js_def js_members_def tier_of_def or_else_def)
  obtain d where d: "tier_card before (ops_tier (ToolsOk ?infos)) = Inr d" "card_rows d = map ToolRow (orderTools before OpsTools ?tools)"
    using card_rows_ok [OF t(1,2), of before] t(3) by auto
  have "mset (map (\<lambda>row. (attr_of ''data-tool'' row, marked_refused row)) (card_rows d))
      = mset (map (\<lambda>i. (Some (tiName i), tiCallable i = Some False)) ?infos)"
    unfolding d(2) using orderTools_map [of "\<lambda>t. (Some (js_string (jget t ''name'')), call_refused t)" before OpsTools ?tools]
    by (simp add: ToolRow_marks tool_info_js_facts js_string.simps o_def)
  also have "map (\<lambda>i. (Some (tiName i), tiCallable i = Some False)) ?infos
      = map (\<lambda>n. (Some n, toolRoleDenial n roles (tool_roles cfg n) \<noteq> None)) names"
    using callable_is_the_gate by (auto simp: toolInfos_def listed_by_server_def Let_def)
  finally show ?thesis using d(1) by blast
qed

end
