(* ===== verification/HeroStage.thy ===== *)
theory HeroStage
  imports Journey Panels
begin

text \<open>
  The moving picture of the landing page, \<^verbatim>\<open>components/hero-stage.tsx\<close>: the player as a machine over its timers, and the
  picture it shows in a state. The lengths of the legs are real numbers, as \<^verbatim>\<open>Math.hypot\<close> gives; all else computes.
\<close>

section \<open>The player\<close>

datatype timer_do = MoveTo point int bool | NextStep

record timer =
  tmAt :: int
  tmDo :: timer_do

definition hypot :: "point \<Rightarrow> point \<Rightarrow> real" where
  "hypot p q = sqrt ((real_of_int (fst p - fst q))\<^sup>2 + (real_of_int (snd p - snd q))\<^sup>2)"

definition place :: "('a) stop_scheme \<Rightarrow> point" where
  "place j = (soX j, soY j)"

definition legs_of :: "('a) stop_scheme \<Rightarrow> point list" where
  "legs_of j = soVia j @ [place j]"

text \<open>The milliseconds of each leg, its share of the step's; \<^verbatim>\<open>|| 1\<close> guards a step that goes nowhere.\<close>

definition leg_ms :: "point \<Rightarrow> ('a) stop_scheme \<Rightarrow> int list" where
  "leg_ms last_point j =
     (let lens = map2 hypot (legs_of j) (last_point # butlast (legs_of j));
          travelled = (if sum_list lens = 0 then 1 else sum_list lens)
      in map (\<lambda>l. round (real_of_int (soMs j) * l / travelled)) lens)"

text \<open>A leg starts when those before it are done.\<close>

fun leg_timers :: "bool \<Rightarrow> int \<Rightarrow> (point \<times> int) list \<Rightarrow> timer list" where
  "leg_timers steady since [] = []"
| "leg_timers steady since ((p, ms) # ls) = \<lparr> tmAt = since, tmDo = MoveTo p ms steady \<rparr> # leg_timers steady (since + ms) ls"

definition timers_of :: "point \<Rightarrow> ('a) stop_scheme \<Rightarrow> timer list" where
  "timers_of last_point j =
     leg_timers (soLinear j) 0 (zip (legs_of j) (leg_ms last_point j)) @ [\<lparr> tmAt = soMs j + soHold j, tmDo = NextStep \<rparr>]"

record player =
  plIndex :: nat
  plPos :: "point \<times> int \<times> bool"     \<comment> \<open>where the packet is bound, in how long, and whether at constant speed\<close>
  plLast :: point
  plTimers :: "timer list"
  plStopped :: bool

text \<open>The effect clears its timers and, unless stopped, sets those of the step at hand.\<close>

definition run_effect :: "journey_step list \<Rightarrow> player \<Rightarrow> player" where
  "run_effect steps p = p\<lparr> plTimers := if plStopped p then [] else timers_of (plLast p) (steps ! plIndex p) \<rparr>"

definition mount_player :: "journey_step list \<Rightarrow> bool \<Rightarrow> player" where
  "mount_player steps stopped =
     run_effect steps \<lparr> plIndex = 0, plPos = (place (steps ! 0), 0, True), plLast = place (steps ! 0), plTimers = [], plStopped = stopped \<rparr>"

text \<open>The next timer: the earliest, the first set among those of the same time.\<close>

fun take_first :: "timer list \<Rightarrow> (timer \<times> timer list) option" where
  "take_first [] = None"
| "take_first (t # ts) =
     (case take_first ts of
        None \<Rightarrow> Some (t, ts)
      | Some (u, us) \<Rightarrow> if tmAt t \<le> tmAt u then Some (t, ts) else Some (u, t # us))"

definition fire :: "journey_step list \<Rightarrow> player \<Rightarrow> player" where
  "fire steps p =
     (case take_first (plTimers p) of
        None \<Rightarrow> p
      | Some (t, ts) \<Rightarrow>
          (case tmDo t of
             MoveTo q ms steady \<Rightarrow> p\<lparr> plTimers := ts, plLast := q, plPos := (q, ms, steady) \<rparr>
           | NextStep \<Rightarrow> run_effect steps (p\<lparr> plIndex := (plIndex p + 1) mod length steps \<rparr>)))"

definition set_stopped :: "journey_step list \<Rightarrow> bool \<Rightarrow> player \<Rightarrow> player" where
  "set_stopped steps b p = (if plStopped p = b then p else run_effect steps (p\<lparr> plStopped := b \<rparr>))"

text \<open>The button toggles; a wish for reduced motion stops the player once it is mounted.\<close>

inductive player_run :: "journey_step list \<Rightarrow> player \<Rightarrow> bool" for steps where
  mounted: "player_run steps (mount_player steps b)"
| reduced: "player_run steps p \<Longrightarrow> player_run steps (set_stopped steps True p)"
| toggled: "player_run steps p \<Longrightarrow> player_run steps (set_stopped steps (\<not> plStopped p) p)"
| fired: "player_run steps p \<Longrightarrow> player_run steps (fire steps p)"

section \<open>The packet arrives before the next step begins\<close>

lemma hypot_nonneg [simp]: "0 \<le> hypot p q"
  by (simp add: hypot_def)

definition times_ok :: "('a) stop_scheme \<Rightarrow> bool" where
  "times_ok j \<longleftrightarrow> 0 \<le> soMs j \<and> int (length (soVia j)) \<le> soHold j"

definition shares :: "point \<Rightarrow> ('a) stop_scheme \<Rightarrow> real list" where
  "shares q j =
     (let lens = map2 hypot (legs_of j) (q # butlast (legs_of j))
      in map (\<lambda>l. real_of_int (soMs j) * l / (if sum_list lens = 0 then 1 else sum_list lens)) lens)"

lemma leg_ms_shares: "leg_ms q j = map round (shares q j)"
  by (simp add: leg_ms_def shares_def Let_def o_def)

lemma length_shares [simp]: "length (shares q j) = Suc (length (soVia j))"
  by (simp add: shares_def Let_def legs_of_def)

lemma sum_scaled: "sum_list (map (\<lambda>l. c * l / d) ls) = c * sum_list ls / d" for c d :: real
  by (induction ls) (simp_all add: field_simps add_divide_distrib)

lemma shares_bounds:
  assumes "0 \<le> soMs j"
  shows "\<forall>x \<in> set (shares q j). 0 \<le> x" "sum_list (shares q j) \<le> real_of_int (soMs j)"
proof -
  let ?lens = "map2 hypot (legs_of j) (q # butlast (legs_of j))"
  have n: "\<forall>l \<in> set ?lens. 0 \<le> l" by auto
  then have s: "0 \<le> sum_list ?lens" by (intro sum_list_nonneg) blast
  show "\<forall>x \<in> set (shares q j). 0 \<le> x" using n s assms by (auto simp: shares_def Let_def)
  show "sum_list (shares q j) \<le> real_of_int (soMs j)"
    unfolding shares_def Let_def sum_scaled using assms by simp
qed

lemma prefix_sum_le: "\<forall>x \<in> set xs. 0 \<le> x \<Longrightarrow> sum_list (take k xs) \<le> sum_list xs" for xs :: "real list"
proof -
  assume "\<forall>x \<in> set xs. 0 \<le> x"
  then have "0 \<le> sum_list (drop k xs)" by (intro sum_list_nonneg) (meson in_set_dropD)
  moreover have "sum_list xs = sum_list (take k xs) + sum_list (drop k xs)" by (metis append_take_drop_id sum_list_append)
  ultimately show ?thesis by simp
qed

lemma sum_round_le: "real_of_int (sum_list (map round xs)) \<le> sum_list xs + real (length xs)" for xs :: "real list"
proof (induction xs)
  case (Cons x xs)
  then show ?case using of_int_round_le [of x] by simp
qed simp

lemma leg_starts:
  assumes "times_ok j" "k \<le> length (soVia j)"
  shows "sum_list (take k (leg_ms q j)) \<le> soMs j + soHold j"
proof -
  have ok: "0 \<le> soMs j" "int k \<le> soHold j" using assms by (auto simp: times_ok_def)
  have "real_of_int (sum_list (take k (leg_ms q j))) \<le> sum_list (take k (shares q j)) + real (length (take k (shares q j)))"
    unfolding leg_ms_shares take_map by (rule sum_round_le)
  also have "\<dots> \<le> real_of_int (soMs j) + real k"
    using prefix_sum_le [OF shares_bounds(1) [OF ok(1)]] shares_bounds(2) [OF ok(1), of q] by (smt (verit) length_take min.cobounded2 of_nat_mono)
  finally show ?thesis using ok(2) by linarith
qed

lemma leg_ms_nonneg: "0 \<le> soMs j \<Longrightarrow> \<forall>m \<in> set (leg_ms q j). 0 \<le> m"
  using shares_bounds(1) [of j q] round_mono [of 0] by (auto simp: leg_ms_shares)

abbreviation in_order :: "timer list \<Rightarrow> bool" where "in_order \<equiv> sorted_wrt (\<lambda>t u. tmAt t \<le> tmAt u)"

fun moved_to :: "timer_do \<Rightarrow> point option" where
  "moved_to (MoveTo p _ _) = Some p"
| "moved_to NextStep = None"

lemma leg_timers_order:
  assumes "\<forall>m \<in> set (map snd ls). 0 \<le> m"
  shows "in_order (leg_timers b since ls) \<and> (\<forall>t \<in> set (leg_timers b since ls). since \<le> tmAt t)"
  using assms
proof (induction b since ls rule: leg_timers.induct)
  case (2 b since p ms ls)
  then show ?case by fastforce
qed simp

lemma leg_timers_latest:
  assumes "\<And>k. k < length ls \<Longrightarrow> sum_list (take k (map snd ls)) \<le> c - since"
  shows "\<forall>t \<in> set (leg_timers b since ls). tmAt t \<le> c"
  using assms
proof (induction b since ls rule: leg_timers.induct)
  case (2 b since p ms ls)
  have "since \<le> c" using "2.prems" [of 0] by simp
  moreover have "sum_list (take k (map snd ls)) \<le> c - (since + ms)" if "k < length ls" for k using "2.prems" [of "Suc k"] that by simp
  ultimately show ?case using "2.IH" by auto
qed simp

lemma leg_timers_moves: "map (moved_to \<circ> tmDo) (leg_timers b since ls) = map (Some \<circ> fst) ls"
  by (induction b since ls rule: leg_timers.induct) simp_all

text \<open>What holds of the player at any time: a player that runs has the moves of its step ahead, then the next step.\<close>

definition ahead :: "point \<Rightarrow> point \<Rightarrow> timer list \<Rightarrow> bool" where
  "ahead q target ts \<longleftrightarrow> in_order ts
     \<and> (\<exists>ms t. ts = ms @ [t] \<and> tmDo t = NextStep \<and> list_all (\<lambda>m. moved_to (tmDo m) \<noteq> None) ms
           \<and> last (Some q # map (moved_to \<circ> tmDo) ms) = Some target)"

definition player_ok :: "journey_step list \<Rightarrow> player \<Rightarrow> bool" where
  "player_ok steps p \<longleftrightarrow> plIndex p < length steps
     \<and> (if plStopped p then plTimers p = [] else ahead (plLast p) (place (steps ! plIndex p)) (plTimers p))"

lemma map_Some_list_all: "map f xs = map Some ys \<Longrightarrow> list_all (\<lambda>x. f x \<noteq> None) xs"
  by (induction xs arbitrary: ys) auto

lemma timers_ahead:
  assumes "times_ok j"
  shows "ahead q (place j) (timers_of q j)"
proof -
  let ?ls = "zip (legs_of j) (leg_ms q j)"
  have len: "length (leg_ms q j) = length (legs_of j)" by (simp add: leg_ms_shares legs_of_def)
  have snd: "map snd ?ls = leg_ms q j" and fst: "map fst ?ls = legs_of j" using len by simp_all
  have "in_order (leg_timers (soLinear j) 0 ?ls)"
    using leg_timers_order [of ?ls] leg_ms_nonneg [of j q] assms unfolding snd times_ok_def by blast
  moreover have "\<forall>t \<in> set (leg_timers (soLinear j) 0 ?ls). tmAt t \<le> soMs j + soHold j"
    using leg_starts [OF assms] len by (intro leg_timers_latest) (simp add: legs_of_def)
  ultimately have "in_order (timers_of q j)" by (simp add: timers_of_def sorted_wrt_append)
  moreover have moves: "map (moved_to \<circ> tmDo) (leg_timers (soLinear j) 0 ?ls) = map Some (legs_of j)"
    unfolding leg_timers_moves by (metis fst map_map)
  then have "list_all (\<lambda>m. moved_to (tmDo m) \<noteq> None) (leg_timers (soLinear j) 0 ?ls)"
    using map_Some_list_all by fastforce
  moreover have "last (Some q # map (moved_to \<circ> tmDo) (leg_timers (soLinear j) 0 ?ls)) = Some (place j)"
    unfolding moves by (simp add: legs_of_def)
  moreover have "timers_of q j = leg_timers (soLinear j) 0 ?ls @ [\<lparr> tmAt = soMs j + soHold j, tmDo = NextStep \<rparr>]"
    by (simp add: timers_of_def)
  moreover have "tmDo \<lparr> tmAt = soMs j + soHold j, tmDo = NextStep \<rparr> = NextStep" by simp
  ultimately show ?thesis unfolding ahead_def by blast
qed

lemma take_first_mem: "take_first ts = Some (u, us) \<Longrightarrow> u \<in> set ts"
  by (induction ts arbitrary: u us) (auto split: option.splits if_splits)

lemma take_first_in_order: "in_order (t # ts) \<Longrightarrow> take_first (t # ts) = Some (t, ts)"
  by (auto split: option.split dest: take_first_mem)

lemma effect_ok: "list_all times_ok steps \<Longrightarrow> plIndex p < length steps \<Longrightarrow> player_ok steps (run_effect steps p)"
  by (auto simp: player_ok_def run_effect_def list_all_length intro: timers_ahead)

lemma fire_moves:
  assumes "ahead (plLast p) target (plTimers p)"
  shows "(\<exists>q ms steady ts. fire steps p = p\<lparr> plTimers := ts, plLast := q, plPos := (q, ms, steady) \<rparr>
            \<and> ahead q target ts \<and> length (plTimers p) = Suc (length ts))
       \<or> (plLast p = target \<and> length (plTimers p) = 1 \<and> fire steps p = run_effect steps (p\<lparr> plIndex := (plIndex p + 1) mod length steps \<rparr>))"
proof -
  obtain ms t where a: "plTimers p = ms @ [t]" "tmDo t = NextStep" "list_all (\<lambda>m. moved_to (tmDo m) \<noteq> None) ms"
      "last (Some (plLast p) # map (moved_to \<circ> tmDo) ms) = Some target" "in_order (plTimers p)"
    using assms unfolding ahead_def by blast
  show ?thesis
  proof (cases ms)
    case Nil
    then show ?thesis using a by (simp add: fire_def)
  next
    case (Cons m ms')
    then obtain q d steady where m: "tmDo m = MoveTo q d steady" using a(3) by (cases "tmDo m") auto
    have f: "take_first (plTimers p) = Some (m, ms' @ [t])" using a(1,5) Cons take_first_in_order by simp
    have "last (Some q # map (moved_to \<circ> tmDo) ms') = Some target" using a(4) Cons m by simp
    then have "ahead q target (ms' @ [t])" unfolding ahead_def using a Cons by auto
    moreover have "fire steps p = p\<lparr> plTimers := ms' @ [t], plLast := q, plPos := (q, d, steady) \<rparr>"
      unfolding fire_def f by (simp add: m)
    moreover have "length (plTimers p) = Suc (length (ms' @ [t]))" using a(1) Cons by simp
    ultimately show ?thesis by blast
  qed
qed

lemma fire_stopped: "plTimers p = [] \<Longrightarrow> fire steps p = p"
  by (simp add: fire_def)

lemma fire_ok:
  assumes "list_all times_ok steps" "player_ok steps p"
  shows "player_ok steps (fire steps p)"
proof (cases "plStopped p")
  case True
  then show ?thesis using assms(2) by (simp add: player_ok_def fire_stopped)
next
  case False
  have "0 < length steps" using assms(2) by (cases steps) (auto simp: player_ok_def)
  then show ?thesis using fire_moves [of p "place (steps ! plIndex p)" steps] effect_ok [OF assms(1)] assms(2) False
    by (auto simp: player_ok_def)
qed

lemma player_run_ok:
  assumes "player_run steps p" "list_all times_ok steps" "steps \<noteq> []"
  shows "player_ok steps p"
  using assms(1)
proof induction
  case (mounted b)
  then show ?case using assms(2,3) by (simp add: mount_player_def effect_ok)
next
  case (reduced p)
  then show ?case using effect_ok [OF assms(2)] by (auto simp: set_stopped_def player_ok_def)
next
  case (toggled p)
  then show ?case using effect_ok [OF assms(2)] by (auto simp: set_stopped_def player_ok_def)
next
  case (fired p)
  then show ?case using fire_ok [OF assms(2)] by blast
qed

lemma fire_all:
  assumes "list_all times_ok steps" "player_ok steps p" "\<not> plStopped p"
  shows "\<exists>k. plIndex ((fire steps ^^ k) p) = (plIndex p + 1) mod length steps"
  using assms(2,3)
proof (induction "length (plTimers p)" arbitrary: p)
  case 0
  then show ?case by (auto simp: player_ok_def ahead_def)
next
  case (Suc n)
  have a: "ahead (plLast p) (place (steps ! plIndex p)) (plTimers p)" using Suc.prems by (simp add: player_ok_def)
  from fire_moves [OF this, of steps] show ?case
  proof
    assume "\<exists>q ms steady ts. fire steps p = p\<lparr> plTimers := ts, plLast := q, plPos := (q, ms, steady) \<rparr>
        \<and> ahead q (place (steps ! plIndex p)) ts \<and> length (plTimers p) = Suc (length ts)"
    then have "n = length (plTimers (fire steps p))" "\<not> plStopped (fire steps p)" "plIndex (fire steps p) = plIndex p"
      using Suc.hyps(2) Suc.prems by auto
    then obtain k where "plIndex ((fire steps ^^ k) (fire steps p)) = (plIndex p + 1) mod length steps"
      using Suc.hyps(1) fire_ok [OF assms(1) Suc.prems(1)] by metis
    then show ?thesis by (intro exI [of _ "Suc k"]) (simp add: funpow_swap1)
  next
    assume "plLast p = place (steps ! plIndex p) \<and> length (plTimers p) = 1
        \<and> fire steps p = run_effect steps (p\<lparr> plIndex := (plIndex p + 1) mod length steps \<rparr>)"
    then show ?thesis by (intro exI [of _ 1]) (simp add: run_effect_def)
  qed
qed

text \<open>Every step of the journeys lingers at least a millisecond a leg, which makes up for rounding.\<close>

definition on_time :: "scripting \<Rightarrow> bool" where
  "on_time f \<longleftrightarrow> (\<forall>s s'. f s = Inr s' \<longrightarrow> list_all times_ok (scSteps s) \<longrightarrow> list_all times_ok (scSteps s'))"

named_theorems timely

lemma times_ok_pushed: "times_ok p \<Longrightarrow> list_all times_ok (scSteps s) \<Longrightarrow> list_all times_ok (scSteps (push_stop p s))"
  by (simp add: push_stop_def times_ok_def stop.defs journey_step.defs)

lemma on_time_start [timely]: "0 \<le> h \<Longrightarrow> on_time (start_at i c h)"
  by (auto simp: on_time_def start_at_def sum_bind_Inr_iff times_ok_def intro!: times_ok_pushed)

lemma on_time_jump [timely]: "0 \<le> ms \<Longrightarrow> 0 \<le> h \<Longrightarrow> on_time (jump_to i ms h st c)"
  by (auto simp: on_time_def jump_to_def sum_bind_Inr_iff times_ok_def intro!: times_ok_pushed)

lemma travel_ms_pos: "0 \<le> travel_ms a b"
  by (simp add: travel_ms_def)

lemma on_time_travel [timely]: "0 \<le> h \<Longrightarrow> on_time (travel i k c h)"
  by (auto simp: on_time_def travel_def sum_bind_Inr_iff times_ok_def travel_ms_pos intro!: times_ok_pushed)

lemma routes_short: "list_all (\<lambda>n. case tnRoute n of Some r \<Rightarrow> length r \<le> 4 | None \<Rightarrow> True) NODES"
  by (simp add: NODES_def topo_def)

lemma nodeById_mem: "nodeById i = Inr n \<Longrightarrow> n \<in> set NODES"
  by (auto simp: nodeById_def find_Some_iff split: option.splits)

lemma link_short: "linkPathOf i = Inr pts \<Longrightarrow> length pts \<le> 4"
  using routes_short by (fastforce simp: linkPathOf_def sum_bind_Inr_iff list_all_iff dest: nodeById_mem split: option.splits)

lemma on_time_exchange [timely]: "on_time (exchange_at i a g)"
  unfolding on_time_def
proof (intro allI impI)
  fix s s'
  assume e: "exchange_at i a g s = Inr s'" and s: "list_all times_ok (scSteps s)"
  obtain pts where "linkPathOf i = Inr pts" using e by (auto simp: exchange_at_def sum_bind_Inr_iff)
  then have "length pts \<le> 4" by (rule link_short)
  then show "list_all times_ok (scSteps s')"
    using e s \<open>linkPathOf i = Inr pts\<close>
    by (auto simp: exchange_at_def sum_bind_Inr_iff Let_def times_ok_def down_ms_def up_ms_def intro!: times_ok_pushed)
qed

lemma on_time_and_then [timely]: "on_time f \<Longrightarrow> on_time g \<Longrightarrow> on_time (and_then f g)"
  unfolding on_time_def and_then_def sum_bind_Inr_iff by blast

lemma on_time_Inr [timely]: "on_time Inr"
  by (simp add: on_time_def)

lemma on_time_run [timely]: "on_time (run_hops hs)"
proof (induction hs)
  case (Cons h hs)
  have "on_time (\<lambda>s. case (given (hoAsk h), given (hoIssued h)) of (Some a, Some i) \<Rightarrow> exchange_at (hoFrom h) a i s | _ \<Rightarrow> Inr s)"
    using on_time_exchange on_time_Inr by (auto simp: on_time_def split: option.splits)
  moreover have "on_time (travel (hoFrom h) (hoTo h) (hoCarry h) 300)" by (rule on_time_travel) simp
  ultimately show ?case using Cons.IH unfolding on_time_def run_hops.simps sum_bind_Inr_iff by blast
qed (simp add: on_time_def)

lemma on_time_model_call [timely]: "on_time (model_call i ex)"
  unfolding model_call_def by (intro timely; (cases ex)?; auto intro: timely)

lemma on_time_journey: "on_time (journey_script t)"
  by (cases t) (simp_all only: journey_script.simps finish_at_def, (intro timely; simp)+)

lemma built_on_time: "buildJourney t = Inr js \<Longrightarrow> list_all times_ok js"
  using on_time_journey [of t] unfolding on_time_def buildJourney_def sum_bind_Inr_iff by (auto simp: new_script_def)

lemma idle_steps:
  assumes "IDLE_LOOP = Inr steps"
  shows "list_all times_ok steps" "steps \<noteq> []" "list_all (\<lambda>j. coloured (joTone j) j) steps"
proof -
  obtain a b where ab: "buildJourney ReadTone = Inr a" "buildJourney PrivilegedTone = Inr b" "steps = a @ b"
    using assms by (auto simp: IDLE_LOOP_def sum_bind_Inr_iff)
  show "list_all times_ok steps"
    using built_on_time [OF ab(1)] built_on_time [OF ab(2)] ab(3) by simp
  show "list_all (\<lambda>j. coloured (joTone j) j) steps"
    using journey_keeps [OF ab(1)] journey_keeps [OF ab(2)] ab(3) by (auto simp: list_all_iff coloured_def)
  have "outline_of a \<noteq> []" using journey_built [of ReadTone] ab(1) by auto
  then show "steps \<noteq> []" using ab(3) by (auto simp: outline_of_def)
qed

section \<open>The picture\<close>

definition LILAC :: string where "LILAC = ''hsl(263 100% 83%)''"
definition AMBER :: string where "AMBER = ''hsl(32 90% 59%)''"
definition toneColor :: "journey_tone \<Rightarrow> string" where "toneColor t = (if t = PrivilegedTone then AMBER else LILAC)"

text \<open>\<^verbatim>\<open>color.replace(')', ' / 0.18)')\<close> on a colour, which ends at its only parenthesis.\<close>

definition faint :: "string \<Rightarrow> string" where
  "faint color = takeWhile (\<lambda>c. c \<noteq> CHR '')'') color @ '' / 0.18)''"

record link_view =
  lkId :: string
  lkPoints :: "point list"
  lkStroke :: string
  lkWide :: bool

record edge_view =
  egId :: string
  egFrom :: "(rat \<times> rat) option"
  egTo :: "(rat \<times> rat) option"
  egStroke :: string

record label_view =
  lbTone :: journey_tone
  lbText :: string
  lbAt :: point
  lbFill :: string

record node_view =
  ndId :: string
  ndHref :: "string option"
  ndLit :: bool
  ndTip :: string
  ndBox :: "point \<times> point"
  ndFill :: string
  ndStroke :: string
  ndWide :: bool
  ndDashed :: bool
  ndLabel :: string
  ndTextFill :: string

record stage_view =
  svPaused :: bool
  svTitle :: string
  svLinks :: "link_view list"
  svEdges :: "edge_view list"
  svLabels :: "label_view list"
  svCurityHref :: "string option"
  svCurityFill :: string
  svNodes :: "node_view list"
  svPacketAt :: "point \<times> int \<times> bool"
  svPacketSeen :: bool
  svPacketColor :: string
  svLegend :: "(string option \<times> string) list"    \<comment> \<open>the colour of the sign, none for the neutral dashes, and its text\<close>
  svButton :: string

definition Jump :: "string \<Rightarrow> bool \<Rightarrow> string option" where
  "Jump href enabled = (if enabled then Some href else None)"

definition tier_color :: "string list \<Rightarrow> string \<Rightarrow> string" where
  "tier_color amber i = (if i \<in> set amber then AMBER else LILAC)"

definition link_view_of :: "journey_step \<Rightarrow> topo_node \<Rightarrow> exn + link_view" where
  "link_view_of step n =
     (let on = tnId n \<in> set (joLinks step)
      in sum_bind (linkPathOf (tnId n)) (\<lambda>pts.
           Inr \<lparr> lkId = tnId n, lkPoints = pts,
                 lkStroke = if on then tier_color (joAmber step) (tnId n) else ''hsl(0 0% 100% / 0.22)'', lkWide = on \<rparr>))"

definition edge_view_of :: "journey_step \<Rightarrow> string \<times> string \<Rightarrow> exn + edge_view" where
  "edge_view_of step e =
     (let i = edgeId (fst e) (snd e)
      in sum_bind (nodeById (fst e)) (\<lambda>a. sum_bind (nodeById (snd e)) (\<lambda>b.
           Inr \<lparr> egId = i, egFrom = edgePoint a b, egTo = edgePoint b a,
                 egStroke = if i \<in> set (joEdges step) then tier_color (joAmber step) i else ''hsl(0 0% 100% / 0.28)'' \<rparr>)))"

definition label_view_of :: "journey_tone \<times> string \<times> point \<Rightarrow> label_view" where
  "label_view_of l =
     \<lparr> lbTone = fst l, lbText = fst (snd l), lbAt = snd (snd l),
       lbFill = if fst l = PrivilegedTone then ''hsl(32 90% 59% / 0.75)'' else ''hsl(263 100% 83% / 0.7)'' \<rparr>"

definition node_view_of :: "bool \<Rightarrow> journey_step \<Rightarrow> topo_node \<Rightarrow> node_view" where
  "node_view_of signedIn step n =
     (let on = tnId n \<in> set (joLit step); color = tier_color (joAmber step) (tnId n)
      in \<lparr> ndId = tnId n, ndHref = Jump (targetOf n) signedIn, ndLit = on, ndTip = tipOf n,
           ndBox = ((tnX n - tnW n div 2, tnY n - tnH n div 2), (tnW n, tnH n)),
           ndFill = if on then faint color else ''hsl(0 0% 100% / 0.06)'', ndStroke = if on then color else ''hsl(0 0% 100% / 0.25)'',
           ndWide = on, ndDashed = tnExternal n, ndLabel = or_else (tnLabel n) (tnId n),
           ndTextFill = if on then ''white'' else ''hsl(0 0% 100% / 0.65)'' \<rparr>)"

definition stage_title :: string where
  "stage_title = ''How a request travels: left to right from web through the agents and the gateway to the tool servers and APIs, ''
     @ ''with a side trip through the gateway to the LLM provider, which sits outside the trust domain. Curity sits below the path; ''
     @ ''each workload drops down to it to exchange the token before its next hop.''"

definition stage_legend :: "(string option \<times> string) list" where
  "stage_legend =
     [(Some LILAC, ''read'' @ sep @ ''inspect:read''), (Some AMBER, ''privileged'' @ sep @ ''ops:write, acr=mfa''),
      (Some LILAC, ''request, carrying the token it was issued''), (None, ''token exchange'' @ sep @ ''RFC 8693'')]"

definition HeroStage :: "bool \<Rightarrow> journey_step list \<Rightarrow> player \<Rightarrow> exn + stage_view" where
  "HeroStage signedIn steps p =
     (let step = steps ! plIndex p
      in sum_bind (sum_list_map (link_view_of step) (filter tnExchanges NODES)) (\<lambda>links.
         sum_bind (sum_list_map (edge_view_of step) EDGES) (\<lambda>edges.
           Inr \<lparr> svPaused = plStopped p, svTitle = stage_title, svLinks = links, svEdges = edges, svLabels = map label_view_of TIER_LABELS,
                 svCurityHref = Jump ''#chain'' signedIn,
                 svCurityFill = if soGlow step then ''hsl(263 100% 83% / 0.22)'' else ''hsl(263 100% 83% / 0.10)'',
                 svNodes = map (node_view_of signedIn step) NODES,
                 svPacketAt = plPos p, svPacketSeen = soPacket step, svPacketColor = toneColor (joTone step),
                 svLegend = stage_legend, svButton = if plStopped p then ''Play animation'' else ''Pause animation'' \<rparr>)))"

section \<open>What it tells\<close>

lemma sum_list_map_all:
  assumes "sum_list_map f xs = Inr ys" "\<And>x y. f x = Inr y \<Longrightarrow> P y"
  shows "list_all P ys"
  using assms(1) by (induction xs arbitrary: ys) (auto simp: sum_bind_Inr_iff intro: assms(2))

lemma sum_list_map_total: "list_all (\<lambda>x. \<exists>y. f x = Inr y) xs \<Longrightarrow> \<exists>ys. sum_list_map f xs = Inr ys"
  by (induction xs) (auto simp: sum_bind_def)

definition lit_in :: "string \<Rightarrow> stage_view \<Rightarrow> journey_step \<Rightarrow> bool" where
  "lit_in c v step \<longleftrightarrow>
     list_all (\<lambda>l. lkId l \<in> set (joLinks step) \<longrightarrow> lkStroke l = c) (svLinks v)
     \<and> list_all (\<lambda>e. egId e \<in> set (joEdges step) \<longrightarrow> egStroke e = c) (svEdges v)
     \<and> list_all (\<lambda>n. ndId n \<in> set (joLit step) \<longrightarrow> ndStroke n = c \<and> ndFill n = faint c) (svNodes v)
     \<and> list_all (\<lambda>l. lkId l \<notin> set (joLinks step) \<longrightarrow> lkStroke l \<notin> {AMBER, LILAC}) (svLinks v)
     \<and> list_all (\<lambda>e. egId e \<notin> set (joEdges step) \<longrightarrow> egStroke e \<notin> {AMBER, LILAC}) (svEdges v)
     \<and> list_all (\<lambda>n. ndId n \<notin> set (joLit step) \<longrightarrow> ndStroke n \<notin> {AMBER, LILAC}) (svNodes v)"

lemma tier_color_coloured:
  assumes "coloured t step" "i \<in> set (joLit step) \<union> set (joEdges step) \<union> set (joLinks step)"
  shows "tier_color (joAmber step) i = toneColor t"
  using assms by (auto simp: tier_color_def coloured_def toneColor_def)

lemma stage_colours:
  assumes "HeroStage s steps p = Inr v" "coloured (joTone (steps ! plIndex p)) (steps ! plIndex p)"
  shows "lit_in (toneColor (joTone (steps ! plIndex p))) v (steps ! plIndex p)"
proof -
  let ?step = "steps ! plIndex p"
  obtain links edges where l: "sum_list_map (link_view_of ?step) (filter tnExchanges NODES) = Inr links"
      and e: "sum_list_map (edge_view_of ?step) EDGES = Inr edges"
      and v: "svLinks v = links" "svEdges v = edges" "svNodes v = map (node_view_of s ?step) NODES"
    using assms(1) by (auto simp: HeroStage_def Let_def sum_bind_Inr_iff)
  have "list_all (\<lambda>l. (lkId l \<in> set (joLinks ?step) \<longrightarrow> lkStroke l = toneColor (joTone ?step))
      \<and> (lkId l \<notin> set (joLinks ?step) \<longrightarrow> lkStroke l \<notin> {AMBER, LILAC})) links"
    by (rule sum_list_map_all [OF l])
      (auto simp: link_view_of_def Let_def sum_bind_Inr_iff AMBER_def LILAC_def tier_color_coloured [OF assms(2)])
  moreover have "list_all (\<lambda>e. (egId e \<in> set (joEdges ?step) \<longrightarrow> egStroke e = toneColor (joTone ?step))
      \<and> (egId e \<notin> set (joEdges ?step) \<longrightarrow> egStroke e \<notin> {AMBER, LILAC})) edges"
    by (rule sum_list_map_all [OF e])
      (auto simp: edge_view_of_def Let_def sum_bind_Inr_iff AMBER_def LILAC_def tier_color_coloured [OF assms(2)])
  moreover have "list_all (\<lambda>n. (ndId n \<in> set (joLit ?step) \<longrightarrow> ndStroke n = toneColor (joTone ?step) \<and> ndFill n = faint (toneColor (joTone ?step)))
      \<and> (ndId n \<notin> set (joLit ?step) \<longrightarrow> ndStroke n \<notin> {AMBER, LILAC})) (map (node_view_of s ?step) NODES)"
    using tier_color_coloured [OF assms(2)]
    by (auto simp: list_all_iff node_view_of_def Let_def AMBER_def LILAC_def)
  ultimately show ?thesis unfolding lit_in_def v by (simp add: list_all_iff)
qed

lemma known_edges: "list_all (\<lambda>e. (\<exists>n. nodeById (fst e) = Inr n) \<and> (\<exists>n. nodeById (snd e) = Inr n)) EDGES"
  "list_all (\<lambda>n. \<exists>m. nodeById (tnId n) = Inr m) NODES"
  by (simp_all add: EDGES_def nodeById_def NODES_def topo_def)

lemma links_drawn: "\<exists>links. sum_list_map (link_view_of step) (filter tnExchanges NODES) = Inr links"
proof (rule sum_list_map_total)
  have "\<exists>y. link_view_of step n = Inr y" if "n \<in> set NODES" for n
  proof -
    obtain m where "nodeById (tnId n) = Inr m" using known_edges(2) \<open>n \<in> set NODES\<close> unfolding list_all_iff by blast
    then show ?thesis by (simp add: link_view_of_def linkPathOf_def sum_bind_def Let_def)
  qed
  then show "list_all (\<lambda>n. \<exists>y. link_view_of step n = Inr y) (filter tnExchanges NODES)" unfolding list_all_iff by auto
qed

lemma edges_drawn: "\<exists>edges. sum_list_map (edge_view_of step) EDGES = Inr edges"
proof (rule sum_list_map_total)
  have "\<exists>y. edge_view_of step e = Inr y" if "e \<in> set EDGES" for e
  proof -
    obtain a b where "nodeById (fst e) = Inr a" "nodeById (snd e) = Inr b" using known_edges(1) \<open>e \<in> set EDGES\<close> unfolding list_all_iff by blast
    then show ?thesis by (simp add: edge_view_of_def sum_bind_def Let_def)
  qed
  then show "list_all (\<lambda>e. \<exists>y. edge_view_of step e = Inr y) EDGES" unfolding list_all_iff by blast
qed

lemma stage_drawn: "\<exists>v. HeroStage s steps p = Inr v"
proof -
  obtain links edges where "sum_list_map (link_view_of (steps ! plIndex p)) (filter tnExchanges NODES) = Inr links"
      "sum_list_map (edge_view_of (steps ! plIndex p)) EDGES = Inr edges"
    using links_drawn edges_drawn by blast
  then show ?thesis by (simp add: HeroStage_def sum_bind_def Let_def)
qed

text \<open>
  Whenever the next step of the picture begins the packet has arrived where the step before left it, whatever was
  pressed in between; a picture that is not stopped goes on; and at every moment everything that is lit is drawn in
  the colour of the request under way, amber for a privileged one, and nothing else in either colour.
\<close>

theorem stage_follows_the_request:
  assumes "IDLE_LOOP = Inr steps" "player_run steps p"
  shows "\<exists>v. HeroStage signedIn steps p = Inr v \<and> lit_in (svPacketColor v) v (steps ! plIndex p)
      \<and> (plIndex (fire steps p) \<noteq> plIndex p \<longrightarrow> plLast p = place (steps ! plIndex p))
      \<and> (\<not> plStopped p \<longrightarrow> (\<exists>k. plIndex ((fire steps ^^ k) p) = (plIndex p + 1) mod length steps))"
proof -
  note steps = idle_steps [OF assms(1)]
  have ok: "player_ok steps p" using player_run_ok [OF assms(2) steps(1,2)] .
  obtain v where v: "HeroStage signedIn steps p = Inr v" using stage_drawn by blast
  moreover have "svPacketColor v = toneColor (joTone (steps ! plIndex p))"
    using v by (auto simp: HeroStage_def Let_def sum_bind_Inr_iff)
  moreover have "coloured (joTone (steps ! plIndex p)) (steps ! plIndex p)"
    using ok steps(3) by (simp add: player_ok_def list_all_length)
  moreover have "plLast p = place (steps ! plIndex p)" if "plIndex (fire steps p) \<noteq> plIndex p"
  proof (cases "plStopped p")
    case True
    then show ?thesis using that ok by (simp add: player_ok_def fire_stopped)
  next
    case False
    then show ?thesis using that ok fire_moves [of p "place (steps ! plIndex p)" steps] by (auto simp: player_ok_def)
  qed
  ultimately show ?thesis using stage_colours [OF v] fire_all [OF steps(1) ok] by auto
qed

end
