(* ===== verification/LedgerPanel.thy ===== *)
theory LedgerPanel
  imports Panels
begin

text \<open>
  The panel of the delegation ledger, \<^verbatim>\<open>components/delegation-ledger.tsx\<close>: the tree it renders for a chain, over the view
  model of theory Ledger. The clock is an argument; class names are left out.
\<close>

section \<open>Times\<close>

definition fmtSeconds :: "int \<Rightarrow> string" where
  "fmtSeconds s =
     (if s < 60 then int_str s @ ''s''
      else if s mod 60 = 0 then int_str (s div 60) @ ''m'' else int_str (s div 60) @ ''m '' @ int_str (s mod 60) @ ''s'')"

text \<open>\<open>now\<close> is in milliseconds, the claims in seconds; \<^verbatim>\<open>Math.round\<close> rounds halves up.\<close>

definition TtlBadge :: "int option \<Rightarrow> int option \<Rightarrow> int \<Rightarrow> dom list" where
  "TtlBadge iat expires now =
     (case expires of
        None \<Rightarrow> []
      | Some e \<Rightarrow>
          (let remaining = (e * 1000 - now + 500) div 1000; gone = remaining \<le> 0
           in [badge (if gone then ''destructive'' else ''muted'')
                (icon ''Clock'' # (case iat of None \<Rightarrow> [] | Some i \<Rightarrow> [Txt (''ttl '' @ fmtSeconds (e - i) @ '' '' @ middle_dot @ '' '')])
                 @ [Txt (if gone then ''expired'' else fmtSeconds remaining @ '' left'')])]))"

section \<open>One row\<close>

text \<open>A hop with what only the panel reads: the header and, on the debug page, the encoded token.\<close>

record ledger_hop = chain_hop +
  lhHeader :: js
  lhToken :: "string option"

definition panel_row :: "string \<Rightarrow> dom list \<Rightarrow> dom" where
  "panel_row label ks = box (span [Txt label] # ks)"

definition dash :: dom where "dash = span [Txt em_dash]"

definition row_header :: "ledger_row \<Rightarrow> ledger_hop \<Rightarrow> int \<Rightarrow> bool \<Rightarrow> dom" where
  "row_header row hop now acr_changed =
     (let s = lrSummary row
      in box [span [Txt (lrHop row)],
              box (shown_if (lrLeaf row)
                     [El ''Badge'' ((''variant'', ''outline'') # (case chNote hop of None \<Rightarrow> [] | Some n \<Rightarrow> [(''title'', n)])) [icon ''Sparkles'', Txt ''leaf'']]
                   @ (case given (hsAcr s) of
                        None \<Rightarrow> []
                      | Some a \<Rightarrow> shown_if acr_changed
                          [El ''Badge'' [(''variant'', if a = ''mfa'' then ''success'' else ''secondary''), (''title'', ''Differs from the login token'')]
                             [Txt (''acr '' @ a)]])
                   @ TtlBadge (hsIat s) (hsExp s) now)])"

definition row_claims :: "ledger_row \<Rightarrow> bool \<Rightarrow> bool \<Rightarrow> dom list" where
  "row_claims row sub_changed roles_changed =
     (let s = lrSummary row; d = lrDiff row
      in shown_if sub_changed [panel_row ''sub'' [span [Txt (or_else (hsSub s) em_dash)]]]
         @ [panel_row ''aud'' [span
              (map (\<lambda>a. El ''Badge'' ((''variant'', if hdAudChanged d then ''accent'' else ''outline'')
                          # (if hdAudChanged d then [(''title'', ''Audience narrowed by this exchange'')] else [])) [Txt a]) (hsAud s)
               @ shown_if (hsAud s = []) [dash])],
            panel_row ''scope'' [span
              (map (\<lambda>sc. badge ''success'' [Txt sc]) (hsScopes s)
               @ map (\<lambda>sc. El ''Badge'' [(''variant'', ''muted''), (''title'', ''Held by the parent token, dropped by this exchange'')] [Txt sc])
                   (hdScopesDropped d)
               @ shown_if (hsScopes s = [] \<and> hdScopesDropped d = []) [dash])]]
         @ shown_if roles_changed
             [panel_row ''roles'' [span (map (\<lambda>r. badge ''secondary'' [Txt r]) (hsRoles s) @ shown_if (hsRoles s = []) [dash])]])"

definition act_title :: "ledger_row \<Rightarrow> string \<Rightarrow> bool \<Rightarrow> string \<Rightarrow> string" where
  "act_title row parentNo appended i =
     (if \<not> appended then i
      else if hdMayActHonoured (lrDiff row) = Some True
        then i @ '' '' @ em_dash @ '' appended by this exchange; hop '' @ parentNo @ rsquo @ ''s may_act named it''
      else i @ '' '' @ em_dash @ '' appended by this exchange'')"

definition act_badge :: "ledger_row \<Rightarrow> string \<Rightarrow> nat \<Rightarrow> dom" where
  "act_badge row parentNo i =
     (let s = lrSummary row; a = hsAct s ! i;
          appended = (i = length (hsAct s) - 1 \<and> given (hdActAppended (lrDiff row)) \<noteq> None);
          b = El ''Badge'' [(''variant'', if appended then ''accent'' else ''outline''),
                 (''title'', act_title row parentNo appended (if i < length (hsActIds s) then hsActIds s ! i else a))]
                (Txt a # shown_if (appended \<and> hdMayActHonoured (lrDiff row) = Some True)
                   [El ''Check'' [(''aria-label'', ''permitted by the parent'' @ rsquo @ ''s may_act'')] []])
      in span (shown_if (i > 0) [icon ''ArrowRight'']
               @ [if appended then El ''a'' [(''href'', ''#identities''), (''aria-label'', a @ '': see its workload identity'')] [b] else b]))"

text \<open>The alarm: the actor of the exchange is not the one the parent's \<^verbatim>\<open>may_act\<close> named.\<close>

definition may_act_alarm :: "ledger_row \<Rightarrow> string \<Rightarrow> dom" where
  "may_act_alarm row parentNo =
     box [icon ''X'',
          span [Txt (''Minted from hop '' @ parentNo @ rsquo @ ''s token, but presented by ''),
                span [Txt (or_else (hdActAppended (lrDiff row)) [])],
                Txt ('', not the actor hop '' @ parentNo @ rsquo @ ''s ''), span [Txt ''may_act''], Txt '' permitted'']]"

definition row_delegation :: "ledger_row \<Rightarrow> string \<Rightarrow> dom list" where
  "row_delegation row parentNo =
     (let s = lrSummary row
      in [panel_row ''act'' [span
            (shown_if (hsAct s = [])
               [span [Txt (em_dash @ '' ''), Txt (if lrParent row = None then ''nobody has acted yet: this is the user'' @ rsquo @ ''s own token'' else [])]]
             @ map (act_badge row parentNo) [0..<length (hsAct s)])],
          panel_row ''may_act'' [span
            (case given (hsMayAct s) of
               Some m \<Rightarrow> [icon ''ArrowRight'', El ''Badge'' [(''variant'', ''outline''), (''title'', or_else (hsMayActId s) m)] [Txt m],
                          span [Txt ''may present this token next'']]
             | None \<Rightarrow> [span [Txt (''none '' @ em_dash @ '' terminal token, nothing exchanges it onward'')]])]]
         @ shown_if (hdMayActHonoured (lrDiff row) = Some False) [may_act_alarm row parentNo])"

definition row_raw :: "ledger_hop \<Rightarrow> bool \<Rightarrow> dom" where
  "row_raw hop showRaw =
     details ''Raw JWT''
       (json_block (JObj [(''header'', lhHeader hop), (''payload'', chPayload hop)])
        # shown_if showRaw
            [case given (lhToken hop) of
               Some tok \<Rightarrow> box [box [span [icon ''KeyRound'', Txt '' Encoded token''], El ''CopyButton'' [(''value'', tok), (''label'', ''Copy token'')] []],
                                El ''pre'' [] [Txt tok]]
             | None \<Rightarrow> para [icon ''ShieldAlert'', Txt '' Raw token unavailable for this hop.'']])"

definition LedgerRowView :: "ledger_row \<Rightarrow> ledger_hop \<Rightarrow> bool \<Rightarrow> int \<Rightarrow> chain_baseline \<Rightarrow> (nat \<Rightarrow> nat) \<Rightarrow> dom" where
  "LedgerRowView row hop showRaw now base numberOf =
     (let parentNo = (case lrParent row of None \<Rightarrow> [] | Some p \<Rightarrow> nat_str (numberOf p));
          (sub_changed, roles_changed, acr_changed) = hopDeltas (lrSummary row) base;
          header = row_header row hop now acr_changed;
          body = box (row_claims row sub_changed roles_changed @ row_delegation row parentNo)
      in if lrLeaf row
         then El ''li'' [(''data-leaf'', ''true'')]
                [El ''span'' [(''title'', ''A leaf: this token is not exchanged onward'')] [icon ''CornerDownRight''],
                 box (header # (case given (chNote hop) of None \<Rightarrow> [] | Some n \<Rightarrow> [para [Txt n]]) @ [body, row_raw hop showRaw])]
         else El ''li'' []
                [El ''span'' (case lrNumber row of None \<Rightarrow> [] | Some n \<Rightarrow> [(''data-spine-number'', nat_str n)])
                   (case lrNumber row of None \<Rightarrow> [] | Some n \<Rightarrow> [Txt (nat_str n)]),
                 box [header, body, row_raw hop showRaw]])"

section \<open>The panel\<close>

definition Legend :: dom where
  "Legend =
     El ''div'' [(''data-chain-legend'', ''true'')]
       [span [span [Txt ''aud''], Txt ''narrowed by this exchange''],
        span [span [Txt ''scope''], Txt ''dropped by this exchange''],
        span [span [Txt ''actor''], Txt ''appended by this exchange''],
        span [icon ''Check'', Txt (''the parent'' @ rsquo @ ''s ''), span [Txt ''may_act''], Txt '' named it'']]"

definition chain_facts :: "chain_baseline \<Rightarrow> dom" where
  "chain_facts base =
     El ''div'' [(''data-chain-facts'', ''true'')]
       ([Txt ''Every token below carries sub '', span [Txt (or_else (cbSub base) em_dash)], Txt ('' '' @ middle_dot @ '' roles '')]
        @ (if cbRoles base = [] then [dash] else comma_spans (map (\<lambda>r. span [Txt r]) (cbRoles base)))
        @ [Txt '' '', Txt (middle_dot @ '' acr ''), span [Txt (or_else (cbAcr base) em_dash)],
           span [Txt '' '', Txt (em_dash @ '' a hop repeats these only where it differs.'')]])"

definition DelegationLedger :: "int \<Rightarrow> bool \<Rightarrow> ledger_hop list \<Rightarrow> dom" where
  "DelegationLedger now showRaw chain =
     (let rows = buildLedger (map chain_hop.truncate chain);
          base = chainBaseline rows;
          numberOf = (\<lambda>i. if i < length rows then or_else (lrNumber (rows ! i)) i else i)
      in box (shown_if (rows \<noteq> []) [chain_facts base, Legend]
              @ [El ''ol'' [] (map (\<lambda>row. LedgerRowView row (chain ! lrIndex row) showRaw now base numberOf) rows)]))"

section \<open>What the panel tells\<close>

definition forget_token :: "ledger_hop \<Rightarrow> ledger_hop" where
  "forget_token h = h\<lparr> lhToken := None \<rparr>"

definition raises_alarm :: "dom \<Rightarrow> bool" where
  "raises_alarm d = (\<not> dom_all (\<lambda>e. e \<noteq> icon ''X'') d)"

lemma alarm_simps [simp]:
  "\<not> raises_alarm (Txt s)"
  "raises_alarm (El n as ks) \<longleftrightarrow> n = ''X'' \<and> as = [] \<and> ks = [] \<or> list_ex raises_alarm ks"
  by (auto simp: raises_alarm_def list_ex_iff list_all_iff)

lemma alarm_lists [simp]: "list_ex raises_alarm (if b then ks else ls) \<longleftrightarrow> (if b then list_ex raises_alarm ks else list_ex raises_alarm ls)"
  by simp

lemma quiet_parts:
  "\<not> list_ex raises_alarm (TtlBadge iat e now)" "\<not> raises_alarm dash" "\<not> raises_alarm (json_block v)" "\<not> raises_alarm Legend"
  "\<not> raises_alarm (chain_facts base)"
  by (auto simp: TtlBadge_def dash_def json_block_def Legend_def chain_facts_def comma_spans_def Let_def list_ex_iff split: option.splits list.splits)

lemma quiet_rows:
  "\<not> raises_alarm (row_header row hop now b)" "\<not> list_ex raises_alarm (row_claims row b c)"
  "\<not> raises_alarm (act_badge row no i)" "\<not> raises_alarm (row_raw hop sr)"
  using quiet_parts
  by (auto simp: row_header_def row_claims_def act_badge_def row_raw_def panel_row_def details_def Let_def list_ex_iff split: option.splits if_splits)

lemma row_alarm: "list_ex raises_alarm (row_delegation row no) \<longleftrightarrow> hdMayActHonoured (lrDiff row) = Some False"
  using quiet_rows(3)
  by (auto simp: row_delegation_def panel_row_def may_act_alarm_def Let_def list_ex_iff split: option.splits)

lemma LedgerRowView_alarm: "raises_alarm (LedgerRowView row hop sr now base f) \<longleftrightarrow> hdMayActHonoured (lrDiff row) = Some False"
  by (simp add: LedgerRowView_def Let_def quiet_rows row_alarm split: option.split prod.split)

lemma DelegationLedger_alarm:
  "raises_alarm (DelegationLedger now sr chain) \<longleftrightarrow> (\<exists>r \<in> set (buildLedger (map chain_hop.truncate chain)). hdMayActHonoured (lrDiff r) = Some False)"
  using quiet_parts by (auto simp: DelegationLedger_def Let_def list_ex_iff LedgerRowView_alarm)

lemma row_raw_hidden: "row_raw (forget_token h) False = row_raw h False"
  by (simp add: row_raw_def forget_token_def)

lemma LedgerRowView_hidden: "LedgerRowView row (forget_token h) False now base f = LedgerRowView row h False now base f"
proof -
  have "chNote (forget_token h) = chNote h" "row_header row (forget_token h) now b = row_header row h now b" for b
    by (simp_all add: forget_token_def row_header_def)
  then show ?thesis by (cases "lrLeaf row") (simp_all add: LedgerRowView_def row_raw_hidden Let_def split: prod.split)
qed

lemma rows_index: "r \<in> set (ledger_rows ss i sp hs) \<Longrightarrow> i \<le> lrIndex r \<and> lrIndex r < i + length hs"
  by (induction hs arbitrary: i sp) fastforce+

lemma truncate_forget: "chain_hop.truncate (forget_token h) = chain_hop.truncate h"
  by (simp add: forget_token_def chain_hop.truncate_def)

lemma DelegationLedger_hidden: "DelegationLedger now False (map forget_token chain) = DelegationLedger now False chain"
proof -
  let ?rows = "buildLedger (map chain_hop.truncate chain)"
  have t: "map chain_hop.truncate (map forget_token chain) = map chain_hop.truncate chain" by (simp add: truncate_forget)
  have "LedgerRowView r (map forget_token chain ! lrIndex r) False now base f = LedgerRowView r (chain ! lrIndex r) False now base f"
    if "r \<in> set ?rows" for r base f
    using rows_index [OF that [unfolded buildLedger_def]] by (simp add: LedgerRowView_hidden)
  then show ?thesis unfolding DelegationLedger_def t by (simp add: Let_def cong: map_cong)
qed

text \<open>
  When a hop was minted by an actor its parent did not permit, said of the decoded claims alone. Workloads are known by
  their short names, the service account of a SPIFFE id; the token a hop was exchanged from is the nearest earlier one
  whose actors are the hop's but the newest.
\<close>

definition short_actors :: "js \<Rightarrow> string list" where
  "short_actors claims = ledger_chain (jget claims ''act'')"

definition minted_from :: "js list \<Rightarrow> nat \<Rightarrow> nat \<Rightarrow> bool" where
  "minted_from ps j i =
     (j < i \<and> short_actors (ps ! i) \<noteq> [] \<and> short_actors (ps ! j) = butlast (short_actors (ps ! i))
      \<and> (\<forall>k \<in> {j<..<i}. short_actors (ps ! k) \<noteq> butlast (short_actors (ps ! i))))"

definition unpermitted :: "js list \<Rightarrow> nat \<Rightarrow> bool" where
  "unpermitted ps i =
     (\<exists>j m. minted_from ps j i \<and> ledger_may_act (jget (ps ! j) ''may_act'') = Some m \<and> m \<noteq> last (short_actors (ps ! i)))"

lemma search_parent_iff:
  "search_parent ss want n = Some j \<longleftrightarrow> j < n \<and> hsAct (ss ! j) = want \<and> (\<forall>k \<in> {j<..<n}. hsAct (ss ! k) \<noteq> want)"
proof (induction n)
  case (Suc n)
  have hit: "search_parent ss want (Suc n) = (if hsAct (ss ! n) = want then Some n else search_parent ss want n)"
    by (auto simp: isPrefix_def Let_def)
  have "{j<..<Suc n} = (if j < n then insert n {j<..<n} else {})" by auto
  then show ?case using Suc.IH unfolding hit by (auto simp: less_Suc_eq)
qed simp

lemma findParentIndex_iff:
  assumes "i < length ps"
  shows "findParentIndex (map summarizeHop ps) i = Some j \<longleftrightarrow> minted_from ps j i"
proof -
  have n: "hsAct (map summarizeHop ps ! k) = short_actors (ps ! k)" if "k \<le> i" for k
    using that assms by (simp add: summarizeHop_def short_actors_def)
  show ?thesis using n by (auto simp: findParentIndex_def minted_from_def search_parent_iff)
qed

lemma diff_alarm:
  assumes "i < length ps"
  shows "hdMayActHonoured (diffAgainst (map_option ((!) (map summarizeHop ps)) (findParentIndex (map summarizeHop ps) i)) (map summarizeHop ps ! i))
           = Some False \<longleftrightarrow> unpermitted ps i"
proof (cases "findParentIndex (map summarizeHop ps) i")
  case None
  then have "\<not> minted_from ps j i" for j using findParentIndex_iff [OF assms, of j] by simp
  then show ?thesis using None by (simp add: diffAgainst_def unpermitted_def)
next
  case (Some j)
  then have j: "minted_from ps k i \<longleftrightarrow> k = j" for k using findParentIndex_iff [OF assms, of k] by auto
  then have "minted_from ps j i" by simp
  then have le: "j < length ps" "short_actors (ps ! i) \<noteq> []" using assms by (auto simp: minted_from_def)
  have u: "unpermitted ps i \<longleftrightarrow> (\<exists>m. ledger_may_act (jget (ps ! j) ''may_act'') = Some m \<and> m \<noteq> last (short_actors (ps ! i)))"
    unfolding unpermitted_def j by blast
  have h: "hsMayAct (map summarizeHop ps ! j) = ledger_may_act (jget (ps ! j) ''may_act'')"
    "hsAct (map summarizeHop ps ! i) = short_actors (ps ! i)"
    using le(1) assms by (simp_all add: summarizeHop_def short_actors_def)
  show ?thesis unfolding u Some option.map diffAgainst_def option.case Let_def hop_diff.simps h
    using le(2) by (simp split: option.split)
qed

lemma row_diffs:
  "map lrDiff (ledger_rows ss i sp hs) = map (\<lambda>k. diffAgainst (map_option ((!) ss) (findParentIndex ss k)) (ss ! k)) [i..<i + length hs]"
  by (induction hs arbitrary: i sp) (simp_all add: upt_rec)

lemma ledger_alarm:
  "(\<exists>r \<in> set (buildLedger chain). hdMayActHonoured (lrDiff r) = Some False) \<longleftrightarrow> (\<exists>i < length chain. unpermitted (map chPayload chain) i)"
proof -
  let ?ss = "map summarizeHop (map chPayload chain)"
  have "map lrDiff (buildLedger chain) = map (\<lambda>k. diffAgainst (map_option ((!) ?ss) (findParentIndex ?ss k)) (?ss ! k)) [0..<length chain]"
    unfolding buildLedger_def by (simp add: row_diffs o_def)
  from arg_cong [OF this, of set] have
    "(\<exists>d \<in> lrDiff ` set (buildLedger chain). hdMayActHonoured d = Some False)
       \<longleftrightarrow> (\<exists>i < length chain. hdMayActHonoured (diffAgainst (map_option ((!) ?ss) (findParentIndex ?ss i)) (?ss ! i)) = Some False)"
    by auto
  then show ?thesis using diff_alarm [of _ "map chPayload chain"] by auto
qed

text \<open>
  C18. Off the debug page the ledger shows nothing of an encoded token: what it renders is the same whatever the tokens
  of the chain are, down to their absence. And it raises its alarm, on the debug page as elsewhere, exactly when some
  hop's newest actor has another short name (the service account of its SPIFFE id) than the one the \<^verbatim>\<open>may_act\<close> of its
  parent names, the parent being the nearest earlier token with the hop's actors but the newest. Namespaces and trust
  domains play no part in it: \<open>same_account_no_alarm\<close> is a chain that raises none.
\<close>

theorem ledger_panel_tells:
  "DelegationLedger now False (map forget_token chain) = DelegationLedger now False chain
   \<and> (raises_alarm (DelegationLedger now showRaw chain) \<longleftrightarrow> list_ex (unpermitted (map chPayload chain)) [0..<length chain])"
proof -
  have "map chPayload (map chain_hop.truncate chain) = map chPayload chain" by (simp add: chain_hop.truncate_def)
  from ledger_alarm [of "map chain_hop.truncate chain", unfolded this length_map] show ?thesis
    by (simp only: DelegationLedger_hidden DelegationLedger_alarm list_ex_iff) auto
qed

text \<open>The service account of another trust domain and namespace passes for the one that was named.\<close>

lemma same_account_no_alarm:
  "\<not> raises_alarm (DelegationLedger 0 True
      [\<lparr> chHop = ''user'', chPayload = JObj [(''may_act'', JObj [(''sub'', JStr ''spiffe://demo/ns/agents/sa/copilot'')])], chNote = None,
         lhHeader = JNull, lhToken = None \<rparr>,
       \<lparr> chHop = ''copilot'', chPayload = JObj [(''act'', JObj [(''sub'', JStr ''spiffe://elsewhere/ns/other/sa/copilot'')])], chNote = None,
         lhHeader = JNull, lhToken = None \<rparr>])"
  by code_simp

text \<open>For the tokens Curity issued in the course of a login, listed as the agents return them, there is no alarm.\<close>

lemma no_alarm_for_issued_tokens:
  assumes "standard_data C" "tree_rel (exchanged_from C) t" "ledger_ready 0 (token_claims t)" "tree_depth t \<le> 16"
    and "map chPayload chain = listing t"
  shows "\<not> raises_alarm (DelegationLedger now showRaw chain)"
proof -
  note shown = tree_shown [OF assms(1,2,3), unfolded add_0, OF assms(4)]
  have p: "map chPayload (map chain_hop.truncate chain) = listing t"
    using assms(5) by (simp add: chain_hop.truncate_def o_def)
  note ledger = ledger_of_tree [OF conjunct1 [OF shown] conjunct2 [OF shown] p]
  have "hdMayActHonoured (lrDiff r) \<noteq> Some False" if r: "r \<in> set (buildLedger (map chain_hop.truncate chain))" for r
  proof (cases "lrParent r = None")
    case True
    then obtain k where "lrDiff r = diffAgainst (map_option ((!) (map (\<lambda>h. summarizeHop (chPayload h)) (map chain_hop.truncate chain)))
        (lrParent r)) (map (\<lambda>h. summarizeHop (chPayload h)) (map chain_hop.truncate chain) ! k)"
      using rows_shape [OF r [unfolded buildLedger_def]] by metis
    then show ?thesis using True by (simp add: diffAgainst_def)
  next
    case False
    then show ?thesis using ledger(2) [OF r False] by (auto simp: step_shown_def Let_def)
  qed
  then show ?thesis by (simp add: DelegationLedger_alarm)
qed

end
