(* ===== verification/ResultPanel.thy ===== *)
theory ResultPanel
  imports LedgerPanel
begin

text \<open>
  What the page shows of one answer: \<^verbatim>\<open>components/agent-trace.tsx\<close> (the trace of both paths), \<^verbatim>\<open>result-card.tsx\<close> and
  \<^verbatim>\<open>workload-identities.tsx\<close>. Class names and styles are left out.
\<close>

section \<open>The privileged action\<close>

definition default_namespace :: js where "default_namespace = JStr ''prod''"

definition IntentBadges :: "js \<Rightarrow> dom list" where
  "IntentBadges intent =
     shown_if (truthy (jget intent ''deployment''))
       [box [span [Txt ''Action''],
             badge ''secondary'' (icon ''RotateCw'' # child (js_or (jget intent ''kind'') (JStr ''restart''))),
             badge ''outline'' (icon ''Box'' # child (jget intent ''deployment'')),
             badge ''outline'' (icon ''Layers'' # child (js_or (jget intent ''namespace'') default_namespace))]]"

text \<open>
  The badge of a status: a status that is the name of a member of \<^verbatim>\<open>Object.prototype\<close> finds that member in the table, which
  has no icon, and rendering throws.
\<close>

definition status_conf :: "string \<Rightarrow> exn + string \<times> string" where
  "status_conf label =
     (case map_of [(''completed'', (''success'', ''CheckCircle2'')), (''failed'', (''destructive'', ''XCircle'')), (''step-up'', (''warning'', ''Lock''))] label of
        Some c \<Rightarrow> Inr c
      | None \<Rightarrow> if label \<in> set object_prototype then Inl (JsError ''Error'' ''Element type is invalid: got: undefined'')
                else Inr (''muted'', ''Clock''))"

definition status_label :: "js \<Rightarrow> js" where
  "status_label sp = js_or (jget sp ''status'') (JStr (if truthy (jget sp ''ok'') then ''completed'' else ''unknown''))"

definition SpecialistStatusBadge :: "js \<Rightarrow> exn + dom" where
  "SpecialistStatusBadge sp =
     sum_bind (status_conf (js_string (status_label sp))) (\<lambda>(variant, ic). Inr (badge variant (icon ic # child (status_label sp))))"

definition route_badges :: "js \<Rightarrow> js \<Rightarrow> exn + dom" where
  "route_badges route sp =
     sum_bind (if truthy sp then sum_bind (SpecialistStatusBadge sp) (\<lambda>b. Inr [b]) else Inr []) (\<lambda>bs.
       Inr (box (badge ''outline'' (icon ''Workflow'' # child (js_or route (JStr ''privileged''))) # bs)))"

definition PrivilegedTrace :: "js \<Rightarrow> js \<Rightarrow> js \<Rightarrow> exn + dom" where
  "PrivilegedTrace route intent sp =
     sum_bind (route_badges route sp) (\<lambda>badges.
       Inr (box
         ([para [Txt (''Privileged actions are routed to the specialist agent over A2A, which runs its own LLM tool-calling loop (inspect ''
              @ arrow @ '' act '' @ arrow @ '' verify); those steps appear here when the run executes. The authorization gates '' @ em_dash
              @ '' role, scope, and MFA step-up '' @ em_dash @ '' are enforced deterministically before the loop runs, so this summary is ''
              @ ''shown when no tool steps were produced (e.g. a step-up challenge or a denied/failed action).'')],
           badges]
          @ shown_if (truthy (jget intent ''deployment''))
              [El ''dl'' []
                 ([El ''dt'' [] [Txt ''Deployment''], El ''dd'' [] (child (jget intent ''deployment'')),
                   El ''dt'' [] [Txt ''Namespace''], El ''dd'' [] (child (js_or (jget intent ''namespace'') default_namespace))]
                  @ shown_if (truthy (jget intent ''reasonHint''))
                      [El ''dt'' [] [Txt ''Reason''], El ''dd'' [] (child (jget intent ''reasonHint''))])]
          @ shown_if (truthy (jget sp ''text''))
              [box [box [Txt ''Specialist response''], para (child (jget sp ''text''))]]
          @ [details ''Raw response'' [json_block (JObj [(''route'', route), (''intent'', intent), (''specialist'', sp)])]])))"

section \<open>The tools that were called\<close>

definition step_of :: "js \<Rightarrow> trace_step" where
  "step_of s =
     \<lparr> tsCalls = map (\<lambda>c. (js_string (jget c ''name''), jget c ''args'')) (or_else (as_arr (jget s ''toolCalls'')) []),
       tsResults = map (\<lambda>r. (js_string (jget r ''name''), jget r ''result'')) (or_else (as_arr (jget s ''toolResults'')) []),
       tsFinish = as_str (jget s ''finishReason'') \<rparr>"

fun tier_name :: "tool_tier \<Rightarrow> string" where
  "tier_name InspectTools = ''inspect''"
| "tier_name OpsTools = ''ops''"

definition trace_item :: "trace_row \<Rightarrow> dom" where
  "trace_item r =
     (let ops = (toolTier (trTool r) = OpsTools)
      in El ''li'' [(''data-tier'', tier_name (toolTier (trTool r)))]
           [span [Txt (nat_str (trIndex r))],
            box ([box [span ([icon (if ops then ''Lock'' else ''Wrench''), Txt (trTool r)]
                        @ shown_if ops [badge ''warning'' [Txt (''ops:write '' @ middle_dot @ '' mfa'')]]),
                       span [badge ''muted'' [Txt (''step '' @ nat_str (trStep r))],
                             badge (if trFailed r then ''destructive'' else ''success'')
                               [icon (if trFailed r then ''XCircle'' else ''CheckCircle2''), Txt (if trFailed r then ''failed'' else ''ok'')]]],
                  El ''dl'' []
                    [El ''dt'' [] [Txt ''args''],
                     El ''dd'' [] (shown_if (trArgs r = []) [span [Txt ''none'']]
                       @ map (\<lambda>p. badge ''outline'' [span [Txt (fst p @ ''='')], Txt (snd p)]) (trArgs r)),
                     El ''dt'' [] [Txt ''result''], El ''dd'' [] [Txt (trSummary r)]]]
                 @ shown_if (trResult r \<noteq> JUndef) [details ''Full result'' [json_block (trResult r)]])])"

definition trace_intro :: "flow \<Rightarrow> dom" where
  "trace_intro f =
     (case f of
        PrivilegedFlow \<Rightarrow>
          para [Txt (''The specialist'' @ [CHR 0x27] @ ''s LLM chose these tool calls, in order: inspect, act, verify. Reads went to mcp-inspect on ''),
                El ''code'' [] [Txt ''inspect:read''], Txt ''; the action went to mcp-ops on '', El ''code'' [] [Txt ''ops:write''],
                Txt '', which Curity only issues for '', El ''code'' [] [Txt ''acr=mfa''], Txt ''.'']
      | ReadFlow \<Rightarrow>
          para [Txt (''The copilot'' @ [CHR 0x27] @ ''s LLM chose these tool calls, in order. Each one travelled through agentgateway to mcp-inspect ''
                  @ ''on a token narrowed to ''),
                El ''code'' [] [Txt ''inspect:read''], Txt ''.''])"

definition plural :: "nat \<Rightarrow> string" where "plural n = (if n = 1 then [] else ''s'')"

definition ToolTrace :: "js list \<Rightarrow> flow \<Rightarrow> js \<Rightarrow> js \<Rightarrow> exn + dom" where
  "ToolTrace steps f route sp =
     (let rows = buildTraceRows (map step_of steps);
          finish = (if steps = [] then JUndef else jget (last steps) ''finishReason'')
      in sum_bind (if f = PrivilegedFlow then sum_bind (route_badges route sp) (\<lambda>b. Inr [b]) else Inr []) (\<lambda>badges.
           Inr (box
             ([trace_intro f] @ badges
              @ [El ''ol'' [] (map trace_item rows),
                 box ([Txt (nat_str (length rows) @ '' tool call'' @ plural (length rows) @ '' across '' @ nat_str (length steps) @ '' step''
                         @ plural (length steps))]
                      @ shown_if (truthy finish)
                          [El ''span'' [(''aria-hidden'', ''true'')] [Txt middle_dot], Txt ''finished: '', span (child finish)]),
                 details ''Raw steps'' [json_block (JArr steps)]]))))"

section \<open>The result card\<close>

definition labelled :: "string \<Rightarrow> dom list \<Rightarrow> dom" where
  "labelled label ks = box (span [Txt label] # ks)"

definition none_text :: dom where "none_text = span [Txt ''none'']"

definition TraceLink :: "string \<Rightarrow> string \<Rightarrow> dom" where
  "TraceLink traceId grafanaUrl =
     El ''div'' [(''data-trace-id'', ''true'')]
       [span [icon ''Activity'', Txt ''trace''], El ''code'' [] [Txt traceId],
        El ''CopyButton'' [(''value'', traceId)] [],
        El ''a'' [(''href'', grafanaTraceUrl grafanaUrl traceId), (''target'', ''_blank''), (''rel'', ''noreferrer'')] [Txt ''Open in Grafana'', icon ''ExternalLink''],
        span [Txt (middle_dot @ '' Tempo keeps traces for 30 minutes'')]]"

definition badges_or_none :: "string \<Rightarrow> js \<Rightarrow> dom list" where
  "badges_or_none variant v =
     (let xs = or_else (as_arr v) [] in if xs = [] then [none_text] else map (\<lambda>x. badge variant (child x)) xs)"

definition identity_tab :: "js \<Rightarrow> dom list" where
  "identity_tab i =
     (let acr = jget i ''acr''
      in [para [Txt (''The user token as the copilot received it '' @ em_dash @ '' before any exchange. The narrowed token each hop carried is in the ''),
                El ''a'' [(''href'', ''#chain'')] [Txt ''On-behalf-of chain''], Txt ''.''],
          labelled ''Subject'' [badge ''secondary'' (child (jget i ''sub''))],
          labelled ''Scopes'' (badges_or_none ''success'' (jget i ''scopes'')),
          labelled ''Roles'' (badges_or_none ''secondary'' (jget i ''roles'')),
          labelled ''ACR''
            ((if truthy acr then badge (if acr = JStr ''mfa'' then ''success'' else ''secondary'') (child acr) else none_text)
             # shown_if (acr \<noteq> JStr ''mfa'')
                 [El ''span'' [(''data-stepup-note'', ''true'')]
                    [Txt ''privileged actions need '', El ''code'' [] [Txt ''acr=mfa''],
                     Txt ('' '' @ em_dash @ '' the first one will ask you to step up'')]]),
          details ''Raw claims'' [json_block i]])"

definition trace_tab :: "js \<Rightarrow> string \<Rightarrow> exn + dom list" where
  "trace_tab response grafanaUrl =
     (let steps = or_else (as_arr (jget response ''steps'')) []; route = jget response ''route''; sp = jget response ''specialist''
      in sum_bind (if steps \<noteq> [] then ToolTrace steps (flowOf response) route sp
                   else if truthy route \<or> truthy sp then PrivilegedTrace route (jget response ''intent'') sp
                   else Inr (para [Txt ''No execution trace available for this response.''])) (\<lambda>body.
           Inr (shown_if (truthy (jget response ''traceId'')) [TraceLink (js_string (jget response ''traceId'')) grafanaUrl] @ [body])))"

definition ResultCard :: "js \<Rightarrow> string option \<Rightarrow> string \<Rightarrow> string \<Rightarrow> exn + dom" where
  "ResultCard response asked defaultTab grafanaUrl =
     sum_bind (trace_tab response grafanaUrl) (\<lambda>trace.
       Inr (El ''Card'' [(''id'', ''result'')]
         [El ''CardHeader'' []
            [El ''CardTitle'' [] [span [icon ''Bot''], Txt ''Result''],
             El ''CardDescription'' [] [Txt (''The agent'' @ rsquo @ ''s answer plus the identity it presented and the tools it called.'')],
             El ''div'' (if given asked \<noteq> None then [(''data-asked'', ''true'')] else [])
               (FlowBadge (flowOf response)
                # (case given asked of None \<Rightarrow> [] | Some q \<Rightarrow> [box [span [Txt ''You asked''], El ''q'' [] [Txt q]]]))],
          El ''CardContent'' []
            [El ''Tabs'' [(''defaultValue'', defaultTab)]
               [El ''TabsList'' []
                  [El ''TabsTrigger'' [(''value'', ''answer'')] [icon ''Sparkles'', Txt ''Answer''],
                   El ''TabsTrigger'' [(''value'', ''identity'')] [icon ''Fingerprint'', Txt ''Identity''],
                   El ''TabsTrigger'' [(''value'', ''trace'')] [icon ''Layers'', Txt ''Trace'']],
                El ''TabsContent'' [(''value'', ''answer'')]
                  (El ''Markdown'' [] (child (jget response ''answer'')) # IntentBadges (jget response ''intent'')),
                El ''TabsContent'' [(''value'', ''identity'')] (identity_tab (jget response ''identity'')),
                El ''TabsContent'' [(''value'', ''trace'')] trace]]]))"

section \<open>The identities of the workloads\<close>

text \<open>\<^verbatim>\<open>id.split(/(?<=\/)(?!\/)/)\<close>: after each slash that no slash follows, but not at the end.\<close>

fun slash_parts :: "string \<Rightarrow> string list" where
  "slash_parts [] = [[]]"
| "slash_parts [c] = [[c]]"
| "slash_parts (c # d # s) =
     (if c = CHR ''/'' \<and> d \<noteq> CHR ''/'' then [c] # slash_parts (d # s)
      else (case slash_parts (d # s) of [] \<Rightarrow> [[c]] | p # ps \<Rightarrow> (c # p) # ps))"

definition SpiffeId :: "string \<Rightarrow> dom list" where
  "SpiffeId i =
     (case map (\<lambda>p. El ''span'' [] [Txt p]) (slash_parts i) of [] \<Rightarrow> [] | d # ds \<Rightarrow> d # concat (map (\<lambda>e. [El ''wbr'' [] [], e]) ds))"

definition lifetime_of :: "js \<Rightarrow> int \<Rightarrow> (int \<times> int option \<times> (int \<times> int) \<times> level) option" where
  "lifetime_of s now = svid_lifetime (as_num (jget s ''iat'')) (as_num (jget s ''exp'')) now"

definition LifetimeBadge :: "js \<Rightarrow> int \<Rightarrow> dom list" where
  "LifetimeBadge s now =
     (case lifetime_of s now of
        None \<Rightarrow> []
      | Some (remaining, whole, _, lv) \<Rightarrow>
          [badge (case lv of LevelExpired \<Rightarrow> ''destructive'' | LevelLow \<Rightarrow> ''warning'' | LevelOk \<Rightarrow> ''muted'')
             (icon ''Clock'' # (case whole of None \<Rightarrow> [] | Some t \<Rightarrow> [Txt (''ttl '' @ fmtSeconds t @ '' '' @ middle_dot @ '' '')])
              @ [Txt (if lv = LevelExpired then ''expired'' else fmtSeconds remaining @ '' left'')])])"

definition LifetimeBar :: "js \<Rightarrow> int \<Rightarrow> dom list" where
  "LifetimeBar s now =
     (case lifetime_of s now of
        Some (_, Some _, (n, d), _) \<Rightarrow>
          [El ''div'' [(''role'', ''progressbar''), (''aria-label'', ''SVID lifetime remaining''), (''aria-valuemin'', ''0''), (''aria-valuemax'', ''100''),
                       (''aria-valuenow'', int_str ((200 * n + d) div (2 * d)))] [box []]]
      | _ \<Rightarrow> [])"

definition svid_card :: "js \<Rightarrow> nat \<Rightarrow> bool \<Rightarrow> bool \<Rightarrow> int \<Rightarrow> dom" where
  "svid_card s index showOwnFacts is_rotated now =
     box [box [span ([El ''span'' [(''data-chain-index'', nat_str index)] [Txt (nat_str index)], span (child (jget s ''workload''))]
                 @ (case svidNamespace (jget s ''sub'') of None \<Rightarrow> [] | Some ns \<Rightarrow> [badge ''outline'' [span [Txt ''ns''], span [Txt ns]]])
                 @ shown_if is_rotated [El ''Badge'' [(''variant'', ''success''), (''title'', ''Issued after the previous refresh'')] [icon ''RefreshCw'', Txt ''rotated'']])],
          if truthy (jget s ''error'') then para (child (jget s ''error''))
          else box
            ([box (LifetimeBar s now @ LifetimeBadge s now),
              panel_row ''sub'' [span (if truthy (jget s ''sub'') then SpiffeId (js_string (jget s ''sub'')) else [])]]
             @ shown_if showOwnFacts
                 [panel_row ''iss'' [span (child (jget s ''iss''))],
                  panel_row ''aud'' [span [Txt (join '' '' (map js_string (filter truthy
                    (case jget s ''aud'' of JArr xs \<Rightarrow> xs | v \<Rightarrow> [v]))))]]]
             @ [details ''Raw claims'' [json_block (JObj (map (\<lambda>k. (k, jget s k)) [''sub'', ''aud'', ''iss'', ''iat'', ''exp'']))]])]"

definition WorkloadIdentities :: "js list \<Rightarrow> flow \<Rightarrow> js set \<Rightarrow> int \<Rightarrow> dom" where
  "WorkloadIdentities svids f rotated now =
     (let facts = sharedFacts svids
      in box
        [box (FlowBadge f
              # (case facts of
                   None \<Rightarrow> []
                 | Some (iss, aud) \<Rightarrow>
                     [span [Txt ''Every SVID here is issued by '', span (child iss), Txt '' for audience '', span [Txt (join '' '' aud)]]])),
         El ''ol'' [(''data-chain-cards'', ''true'')]
           (map (\<lambda>(i, s). El ''li'' [] [svid_card s (Suc i) (facts = None) (jget s ''workload'' \<in> rotated) now]) (enumerate 0 svids))])"

section \<open>Facts\<close>

lemma slash_parts_nonempty: "slash_parts s \<noteq> []"
  by (induction s rule: slash_parts.induct) (auto split: list.splits)

lemma slash_parts_join: "concat (slash_parts s) = s"
proof (induction s rule: slash_parts.induct)
  case (3 c d s)
  then show ?case using slash_parts_nonempty [of "d # s"] by (cases "slash_parts (d # s)") auto
qed simp_all

text \<open>The text of a rendered SPIFFE id is the id.\<close>

lemma SpiffeId_text: "concat (map dom_text (SpiffeId i)) = i"
proof -
  have "concat (map dom_text (concat (map (\<lambda>e. [El ''wbr'' [] [], e]) (map (\<lambda>p. El ''span'' [] [Txt p]) ps)))) = concat ps" for ps
    by (induction ps) simp_all
  then have "concat (map dom_text (SpiffeId i)) = concat (slash_parts i)"
    by (cases "slash_parts i") (simp_all add: SpiffeId_def)
  then show ?thesis by (simp add: slash_parts_join)
qed

lemma status_conf_Inl: "(\<exists>e. status_conf l = Inl e) \<longleftrightarrow> l \<in> set object_prototype"
  by (auto simp: status_conf_def object_prototype_def)

lemma sum_bind_Inl: "(\<exists>e. sum_bind r f = Inl e) \<longleftrightarrow> (\<exists>e. r = Inl e) \<or> (\<exists>a e. r = Inr a \<and> f a = Inl e)"
  by (cases r) (auto simp: sum_bind_def)

text \<open>The card of an answer renders, unless the specialist reports a status that names a member every object inherits.\<close>

lemma result_card_throws_iff:
  "(\<exists>e. ResultCard response asked tab url = Inl e) \<longleftrightarrow>
     truthy (jget response ''specialist'') \<and> js_string (status_label (jget response ''specialist'')) \<in> set object_prototype"
  by (auto simp: ResultCard_def trace_tab_def ToolTrace_def PrivilegedTrace_def route_badges_def SpecialistStatusBadge_def flowOf_def
      Let_def sum_bind_Inl status_conf_Inl [symmetric])

lemmas result_panel_eval [eval_simps] = status_conf_def status_label_def SpecialistStatusBadge_def route_badges_def

end
