(* ===== verification/PageMachine.thy ===== *)
theory PageMachine
  imports Views
begin

text \<open>
  The chat page (\<^verbatim>\<open>app/chat.tsx\<close>) as a state machine. A handler runs to its first \<^verbatim>\<open>await\<close> in one step; the rest is a
  job, with what the closure had captured, that any later step may finish, in any order. A captured variable keeps the
  value of the render the handler belongs to; a setter acts on the state it finds.
\<close>

section \<open>State\<close>

datatype pane_name = Identities | Chain | Tools

instantiation pane_name :: enum
begin

definition enum_pane_name :: "pane_name list" where
  "enum_pane_name = [Identities, Chain, Tools]"

definition enum_all_pane_name :: "(pane_name \<Rightarrow> bool) \<Rightarrow> bool" where
  "enum_all_pane_name P = (P Identities \<and> P Chain \<and> P Tools)"

definition enum_ex_pane_name :: "(pane_name \<Rightarrow> bool) \<Rightarrow> bool" where
  "enum_ex_pane_name P = (P Identities \<or> P Chain \<or> P Tools)"

instance
proof
  have cover: "(UNIV :: pane_name set) = {Identities, Chain, Tools}" by (auto intro: pane_name.exhaust)
  then show "(UNIV :: pane_name set) = set enum_class.enum" by (simp add: enum_pane_name_def)
  show "distinct (enum_class.enum :: pane_name list)" by (simp add: enum_pane_name_def)
  show "enum_class.enum_all P \<longleftrightarrow> Ball UNIV P" "enum_class.enum_ex P \<longleftrightarrow> Bex UNIV P" for P :: "pane_name \<Rightarrow> bool"
    unfolding cover by (simp_all add: enum_all_pane_name_def enum_ex_pane_name_def)
qed

end

text \<open>The three states of a panel; null for none, and a panel is open when its data is not null.\<close>

record pane =
  paData :: js
  paLoading :: bool
  paError :: "string option"

definition closed_pane :: pane where
  "closed_pane = \<lparr> paData = JNull, paLoading = False, paError = None \<rparr>"

datatype job =
    Asking string "pane_name \<Rightarrow> js"     \<comment> \<open>the message, and the data of the panels when it was sent\<close>
  | LoadingSvids js flow                \<comment> \<open>the identities shown before\<close>
  | LoadingObo
  | LoadingTools

record page =
  pgUi :: chat_ui
  pgPanes :: "pane_name \<Rightarrow> pane"
  pgSvidFlow :: flow
  pgSvidRotated :: "js set"
  pgJobs :: "job list"
  pgStore :: storage

definition fresh_page :: "storage \<Rightarrow> page" where
  "fresh_page st =
     \<lparr> pgUi = initial_ui, pgPanes = (\<lambda>_. closed_pane), pgSvidFlow = ReadFlow, pgSvidRotated = {}, pgJobs = [], pgStore = st \<rparr>"

abbreviation pane_data :: "page \<Rightarrow> pane_name \<Rightarrow> js" where
  "pane_data p n \<equiv> paData (pgPanes p n)"

definition on_pane :: "pane_name \<Rightarrow> (pane \<Rightarrow> pane) \<Rightarrow> page \<Rightarrow> page" where
  "on_pane n f p = p\<lparr> pgPanes := (pgPanes p)(n := f (pgPanes p n)) \<rparr>"

definition with_ui :: "(chat_ui \<Rightarrow> chat_ui) \<Rightarrow> page \<Rightarrow> page" where
  "with_ui f p = p\<lparr> pgUi := f (pgUi p) \<rparr>"

definition spawn :: "job \<Rightarrow> page \<Rightarrow> page" where
  "spawn j p = p\<lparr> pgJobs := pgJobs p @ [j] \<rparr>"

section \<open>Loading a panel\<close>

definition begin_load :: "pane \<Rightarrow> pane" where
  "begin_load pa = pa\<lparr> paLoading := True, paError := None, paData := JNull \<rparr>"

definition load_failed :: "string \<Rightarrow> pane \<Rightarrow> pane" where
  "load_failed m pa = pa\<lparr> paError := Some m, paLoading := False \<rparr>"

definition loaded :: "js \<Rightarrow> pane \<Rightarrow> pane" where
  "loaded v pa = pa\<lparr> paData := v, paLoading := False \<rparr>"

text \<open>The reply to a load: the failure of the call, or the status with what reading the body as text or as JSON gives.\<close>

type_synonym load_reply = "exn + int \<times> (exn + string) \<times> (exn + js)"

definition ok_status :: "int \<Rightarrow> bool" where
  "ok_status status = (200 \<le> status \<and> status \<le> 299)"

text \<open>Without a flow nothing is fetched.\<close>

definition start_svids :: "js \<Rightarrow> js \<Rightarrow> flow option \<Rightarrow> page \<Rightarrow> page" where
  "start_svids before response override p =
     (let p1 = on_pane Identities begin_load p
      in case svidFlowToShow response override of
           None \<Rightarrow> on_pane Identities (loaded (JArr [])) p1\<lparr> pgSvidRotated := {} \<rparr>
         | Some f \<Rightarrow> spawn (LoadingSvids before f) p1)"

text \<open>\<^verbatim>\<open>rotatedWorkloads\<close> on what the server sent; it iterates over arrays and strings only.\<close>

definition rotated_now :: "js \<Rightarrow> js \<Rightarrow> exn + js set" where
  "rotated_now before nxt =
     (if \<not> truthy before then Inr {}
      else case as_arr before of
             None \<Rightarrow> Inl (type_error ''prev.map is not a function'')
           | Some ss \<Rightarrow>
               (case nxt of
                  JArr ts \<Rightarrow> Inr (rotatedWorkloads (Some ss) ts)
                | JStr _ \<Rightarrow> Inr {}
                | _ \<Rightarrow> Inl (type_error ''next is not iterable'')))"

definition finish_svids :: "js \<Rightarrow> flow \<Rightarrow> load_reply \<Rightarrow> page \<Rightarrow> page" where
  "finish_svids before f r p =
     (let failed = (\<lambda>m. on_pane Identities (load_failed m))
      in case r of
           Inl e \<Rightarrow> failed (exn_string e) p
         | Inr (status, txt, body) \<Rightarrow>
             if \<not> ok_status status
             then failed (case txt of Inl e \<Rightarrow> exn_string e | Inr t \<Rightarrow> int_str status @ '': '' @ t) p
             else (case body of
                     Inl e \<Rightarrow> failed (exn_string e) p
                   | Inr b \<Rightarrow>
                       (let p1 = p\<lparr> pgSvidFlow := f \<rparr>
                        in if nullish b then failed (exn_string (type_error (''Cannot read properties of '' @ js_string b))) p1
                           else case rotated_now before (jget b ''workloads'') of
                                  Inl e \<Rightarrow> failed (exn_string e) p1
                                | Inr ws \<Rightarrow> on_pane Identities (loaded (jget b ''workloads'')) p1\<lparr> pgSvidRotated := ws \<rparr>)))"

definition start_obo :: "page \<Rightarrow> page" where
  "start_obo p = spawn LoadingObo (on_pane Chain begin_load p)"

definition cannot_load :: "string \<Rightarrow> string" where
  "cannot_load subject = ''Couldn'' @ [CHR 0x27] @ ''t load '' @ subject @ ''. Please try again.''"

definition finish_obo :: "load_reply \<Rightarrow> page \<Rightarrow> page" where
  "finish_obo r p =
     (let caught = on_pane Chain (\<lambda>pa. load_failed (cannot_load ''the on-behalf-of chain'') (pa\<lparr> paData := JNull \<rparr>)) p
      in case r of
           Inl _ \<Rightarrow> caught
         | Inr (status, _, body) \<Rightarrow>
             if \<not> ok_status status
             then on_pane Chain (load_failed (friendlyFetchError status body ''the on-behalf-of chain'')) p
             else (case body of Inl _ \<Rightarrow> caught | Inr b \<Rightarrow> on_pane Chain (loaded b) p))"

definition start_tools :: "page \<Rightarrow> page" where
  "start_tools p = spawn LoadingTools (on_pane Tools begin_load p)"

definition finish_tools :: "load_reply \<Rightarrow> page \<Rightarrow> page" where
  "finish_tools r p =
     (let caught = on_pane Tools (load_failed (cannot_load ''the visible tools'')) p
      in case r of
           Inl _ \<Rightarrow> caught
         | Inr (status, _, body) \<Rightarrow>
             if \<not> ok_status status
             then on_pane Tools (load_failed (friendlyFetchError status body ''the visible tools'')) p
             else (case body of Inl _ \<Rightarrow> caught | Inr b \<Rightarrow> on_pane Tools (loaded b) p))"

text \<open>The button of a panel, and hiding one.\<close>

definition show_pane :: "pane_name \<Rightarrow> page \<Rightarrow> page" where
  "show_pane n p =
     (case n of
        Identities \<Rightarrow> start_svids (pane_data p Identities) (uiResponse (pgUi p)) None p
      | Chain \<Rightarrow> start_obo p
      | Tools \<Rightarrow> start_tools p)"

definition can_hide :: "pane \<Rightarrow> bool" where
  "can_hide pa = ((truthy (paData pa) \<or> or_else (paError pa) [] \<noteq> []) \<and> \<not> paLoading pa)"

definition hide_pane :: "pane \<Rightarrow> pane" where
  "hide_pane pa = pa\<lparr> paData := JNull, paError := None \<rparr>"

section \<open>Asking\<close>

definition can_send :: "page \<Rightarrow> bool" where
  "can_send p = (\<not> uiLoading (pgUi p) \<and> trim (uiMessage (pgUi p)) \<noteq> [])"

definition start_ask :: "bool \<Rightarrow> string \<Rightarrow> page \<Rightarrow> page" where
  "start_ask fromStepUp outgoing p =
     (if trim outgoing = [] then p
      else spawn (Asking outgoing (pane_data p)) (with_ui (begin_submit fromStepUp) p))"

text \<open>The panels that were open when the question was sent are refreshed, the chain first.\<close>

definition refresh_panes :: "(pane_name \<Rightarrow> js) \<Rightarrow> js \<Rightarrow> page \<Rightarrow> page" where
  "refresh_panes seen body p =
     (let plan = panelsToRefresh \<lparr> pnSvids = (seen Identities \<noteq> JNull), pnChain = (seen Chain \<noteq> JNull), pnTools = (seen Tools \<noteq> JNull) \<rparr>;
          p1 = (if pnChain plan then start_obo p else p)
      in if pnSvids plan \<and> nullish body then p1
         else (let p2 = (if pnSvids plan then start_svids (seen Identities) JNull (Some (flowOf body)) p1 else p1)
               in if pnTools plan then start_tools p2 else p2))"

definition finish_ask :: "string \<Rightarrow> (pane_name \<Rightarrow> js) \<Rightarrow> reply \<Rightarrow> page \<Rightarrow> page" where
  "finish_ask outgoing seen r p =
     (let p1 = with_ui (\<lambda>u. (show_reply (seen Identities \<noteq> JNull) outgoing r u)\<lparr> uiLoading := False \<rparr>) p
      in case r of
           Inr (status, body) \<Rightarrow> if ok_status status then refresh_panes seen body p1 else p1
         | Inl _ \<Rightarrow> p1)"

section \<open>Mounting and leaving\<close>

text \<open>The first render with the effect that runs after it, and the prompt the effect sends.\<close>

definition mount :: "storage \<Rightarrow> page" where
  "mount st =
     (case takeStepUpReturn st of
        (None, st') \<Rightarrow> fresh_page st'
      | (Some back, st') \<Rightarrow>
          (let p = with_ui (\<lambda>u. u\<lparr> uiMessage := urMessage back \<rparr>) (fresh_page st')
           in if urRetry back then start_ask True (urMessage back) (with_ui (\<lambda>u. u\<lparr> uiMfaReturn := Some back \<rparr>) p) else p))"

definition resent :: "storage \<Rightarrow> string option" where
  "resent st =
     (case fst (takeStepUpReturn st) of
        Some back \<Rightarrow> if urRetry back \<and> trim (urMessage back) \<noteq> [] then Some (urMessage back) else None
      | None \<Rightarrow> None)"

text \<open>What the user does, and what comes back. A mount drops the jobs of the page before it.\<close>

datatype event =
    Edited string
  | Sent string
  | Answered reply
  | Shown pane_name
  | Hidden pane_name
  | Loaded pane_name load_reply
  | SignedIn string string
  | Mounted "string option"

inductive page_step :: "page \<Rightarrow> event \<Rightarrow> page \<Rightarrow> bool" where
  edit: "page_step p (Edited m) (with_ui (\<lambda>u. u\<lparr> uiMessage := m \<rparr>) p)"
| send: "can_send p \<Longrightarrow> page_step p (Sent (uiMessage (pgUi p))) (start_ask False (uiMessage (pgUi p)) p)"
| answer: "pgJobs p = us @ Asking m seen # vs \<Longrightarrow> page_step p (Answered r) (finish_ask m seen r (p\<lparr> pgJobs := us @ vs \<rparr>))"
| show_it: "\<not> paLoading (pgPanes p n) \<Longrightarrow> page_step p (Shown n) (show_pane n p)"
| hide_it: "can_hide (pgPanes p n) \<Longrightarrow> page_step p (Hidden n) (on_pane n hide_pane p)"
| svids: "pgJobs p = us @ LoadingSvids before f # vs \<Longrightarrow>
    page_step p (Loaded Identities r) (finish_svids before f r (p\<lparr> pgJobs := us @ vs \<rparr>))"
| obo: "pgJobs p = us @ LoadingObo # vs \<Longrightarrow> page_step p (Loaded Chain r) (finish_obo r (p\<lparr> pgJobs := us @ vs \<rparr>))"
| tools: "pgJobs p = us @ LoadingTools # vs \<Longrightarrow> page_step p (Loaded Tools r) (finish_tools r (p\<lparr> pgJobs := us @ vs \<rparr>))"
| sign_in: "uiStepUp (pgUi p) = Some (acr, scope) \<Longrightarrow>
    page_step p (SignedIn (uiMessage (pgUi p)) scope) (p\<lparr> pgStore := stashStepUp (uiMessage (pgUi p)) scope (pgStore p) \<rparr>)"
| mounts: "page_step p (Mounted (resent (pgStore p))) (mount (pgStore p))"

text \<open>A page of a new tab, and the events so far, the last one first.\<close>

inductive page_run :: "event list \<Rightarrow> page \<Rightarrow> bool" where
  opened: "page_run [Mounted None] (mount [])"
| next_step: "page_run es p \<Longrightarrow> page_step p e q \<Longrightarrow> page_run (e # es) q"

named_theorems page_frame \<open>what the operations on panels leave alone\<close>

lemmas page_defs = on_pane_def with_ui_def spawn_def begin_load_def load_failed_def loaded_def start_svids_def start_obo_def
  start_tools_def show_pane_def hide_pane_def

inductive_cases page_step_elim: "page_step p e q"

lemmas page_eval [eval_simps] = closed_pane_def fresh_page_def ok_status_def rotated_now_def finish_svids_def cannot_load_def finish_obo_def
  finish_tools_def can_hide_def can_send_def start_ask_def refresh_panes_def finish_ask_def mount_def resent_def

section \<open>Invariants\<close>

fun is_ask :: "job \<Rightarrow> bool" where
  "is_ask (Asking m seen) = True"
| "is_ask _ = False"

fun is_load :: "pane_name \<Rightarrow> job \<Rightarrow> bool" where
  "is_load n (Asking m seen) = False"
| "is_load n (LoadingSvids before f) = (n = Identities)"
| "is_load n LoadingObo = (n = Chain)"
| "is_load n LoadingTools = (n = Tools)"

text \<open>What the page shows of an answer: the result card, the failure, the challenge.\<close>

definition outcomes :: "chat_ui \<Rightarrow> nat" where
  "outcomes u = length (filter id [truthy (uiResponse u), uiError u \<noteq> None, uiStepUp u \<noteq> None])"

definition ui_ok :: "page \<Rightarrow> bool" where
  "ui_ok p = (length (filter is_ask (pgJobs p)) = (if uiLoading (pgUi p) then 1 else 0)
     \<and> outcomes (pgUi p) \<le> 1 \<and> (uiLoading (pgUi p) \<longrightarrow> outcomes (pgUi p) = 0))"

definition panes_ok :: "page \<Rightarrow> bool" where
  "panes_ok p = (\<forall>n. paLoading (pgPanes p n) \<longrightarrow> list_ex (is_load n) (pgJobs p))"

text \<open>The operations on panels leave the questions alone.\<close>

lemma start_svids_ask [page_frame]:
  "pgUi (start_svids b x f p) = pgUi p" "filter is_ask (pgJobs (start_svids b x f p)) = filter is_ask (pgJobs p)"
  "pgStore (start_svids b x f p) = pgStore p"
  by (simp_all add: page_defs Let_def split: option.splits)

lemma start_ask_others [page_frame]:
  "pgUi (start_obo p) = pgUi p" "filter is_ask (pgJobs (start_obo p)) = filter is_ask (pgJobs p)" "pgStore (start_obo p) = pgStore p"
  "pgUi (start_tools p) = pgUi p" "filter is_ask (pgJobs (start_tools p)) = filter is_ask (pgJobs p)" "pgStore (start_tools p) = pgStore p"
  by (simp_all add: page_defs)

lemma show_pane_ask [page_frame]:
  "pgUi (show_pane n p) = pgUi p" "filter is_ask (pgJobs (show_pane n p)) = filter is_ask (pgJobs p)" "pgStore (show_pane n p) = pgStore p"
  by (cases n; simp add: show_pane_def page_frame)+

lemma refresh_panes_ask [page_frame]:
  "pgUi (refresh_panes seen b p) = pgUi p" "filter is_ask (pgJobs (refresh_panes seen b p)) = filter is_ask (pgJobs p)"
  "pgStore (refresh_panes seen b p) = pgStore p"
  by (simp_all add: refresh_panes_def page_frame Let_def)

lemma finish_svids_ask [page_frame]:
  "pgUi (finish_svids b f r p) = pgUi p" "pgJobs (finish_svids b f r p) = pgJobs p" "pgStore (finish_svids b f r p) = pgStore p"
  by (simp_all add: finish_svids_def on_pane_def Let_def split: sum.splits prod.splits)

lemma finish_others_ask [page_frame]:
  "pgUi (finish_obo r p) = pgUi p" "pgJobs (finish_obo r p) = pgJobs p" "pgStore (finish_obo r p) = pgStore p"
  "pgUi (finish_tools r p) = pgUi p" "pgJobs (finish_tools r p) = pgJobs p" "pgStore (finish_tools r p) = pgStore p"
  by (simp_all add: finish_obo_def finish_tools_def on_pane_def Let_def split: sum.splits prod.splits)

lemma on_pane_ask [page_frame]:
  "pgUi (on_pane n f p) = pgUi p" "pgJobs (on_pane n f p) = pgJobs p" "pgStore (on_pane n f p) = pgStore p"
  by (simp_all add: on_pane_def)

text \<open>An answer shows exactly one thing at most, starting from nothing.\<close>

lemma show_reply_one: "outcomes u = 0 \<Longrightarrow> outcomes (show_reply o_svids m r u) \<le> 1"
  by (auto simp: outcomes_def show_reply_def Let_def split: if_splits sum.splits prod.splits agent_failure.splits)
    (cases "snd (projr r)"; auto)+

lemma begin_submit_none: "outcomes (begin_submit b u) = 0"
  by (simp add: outcomes_def begin_submit_def Let_def)

lemma finish_ask_frame:
  "pgUi (finish_ask m seen r p) = (show_reply (seen Identities \<noteq> JNull) m r (pgUi p))\<lparr> uiLoading := False \<rparr>"
  "filter is_ask (pgJobs (finish_ask m seen r p)) = filter is_ask (pgJobs p)"
  "pgStore (finish_ask m seen r p) = pgStore p"
  by (simp_all add: finish_ask_def with_ui_def page_frame Let_def split: sum.splits prod.splits)

lemma ui_okI:
  "filter is_ask (pgJobs q) = filter is_ask (pgJobs p) \<Longrightarrow> uiLoading (pgUi q) = uiLoading (pgUi p) \<Longrightarrow> outcomes (pgUi q) = outcomes (pgUi p)
    \<Longrightarrow> ui_ok p \<Longrightarrow> ui_ok q"
  by (simp add: ui_ok_def)

lemma outcomes_frame [simp]:
  "outcomes (u\<lparr> uiMessage := m \<rparr>) = outcomes u" "outcomes (u\<lparr> uiLoading := b \<rparr>) = outcomes u"
  "outcomes (u\<lparr> uiMfaReturn := x \<rparr>) = outcomes u" "outcomes initial_ui = 0"
  by (simp_all add: outcomes_def initial_ui_def)

lemma show_reply_loading: "uiLoading (show_reply b m r u) = uiLoading u"
  by (simp add: show_reply_def Let_def split: sum.splits prod.splits agent_failure.splits)

lemma start_ask_ok:
  assumes "ui_ok p" "\<not> uiLoading (pgUi p)" shows "ui_ok (start_ask b m p)"
  using assms begin_submit_none [of b "pgUi p"]
  by (simp add: ui_ok_def start_ask_def spawn_def with_ui_def begin_submit_def Let_def)

lemma mount_ok: "ui_ok (mount st)"
proof -
  have "ui_ok (with_ui (\<lambda>u. u\<lparr> uiMfaReturn := x \<rparr>) (with_ui (\<lambda>u. u\<lparr> uiMessage := m \<rparr>) (fresh_page s)))"
      "\<not> uiLoading (pgUi (with_ui (\<lambda>u. u\<lparr> uiMfaReturn := x \<rparr>) (with_ui (\<lambda>u. u\<lparr> uiMessage := m \<rparr>) (fresh_page s))))"
      "ui_ok (with_ui (\<lambda>u. u\<lparr> uiMessage := m \<rparr>) (fresh_page s))" "ui_ok (fresh_page s)" for x m s
    by (simp_all add: ui_ok_def with_ui_def fresh_page_def) (simp add: initial_ui_def)+
  then show ?thesis by (auto simp: mount_def Let_def intro: start_ask_ok split: option.splits prod.splits)
qed

lemma ui_ok_step:
  assumes "page_step p e q" "ui_ok p" shows "ui_ok q"
  using assms
proof (cases rule: page_step.cases)
  case (answer us m seen vs r)
  have l: "uiLoading (pgUi p)" "outcomes (pgUi p) = 0" "filter is_ask us = []" "filter is_ask vs = []"
    using assms(2) answer by (auto simp: ui_ok_def split: if_splits)
  then show ?thesis using show_reply_one [of "pgUi p"] answer by (simp add: ui_ok_def finish_ask_frame)
next
  case send
  then show ?thesis using assms(2) by (auto simp: can_send_def intro: start_ask_ok)
next
  case mounts
  then show ?thesis by (simp add: mount_ok)
qed (auto simp: page_frame with_ui_def elim!: ui_okI [rotated 3])

text \<open>A panel is loading only while a load of it is under way.\<close>

lemma panes_okI: "(\<And>n. paLoading (pgPanes q n) \<Longrightarrow> list_ex (is_load n) (pgJobs q)) \<Longrightarrow> panes_ok q"
  by (simp add: panes_ok_def)

lemma start_panes_ok:
  "panes_ok p \<Longrightarrow> panes_ok (start_svids b x f p)" "panes_ok p \<Longrightarrow> panes_ok (start_obo p)" "panes_ok p \<Longrightarrow> panes_ok (start_tools p)"
  by (auto simp: panes_ok_def page_defs Let_def split: option.splits)

lemma refresh_panes_ok: "panes_ok p \<Longrightarrow> panes_ok (refresh_panes seen b p)"
  by (simp add: refresh_panes_def Let_def start_panes_ok)

lemma finish_loading:
  "paLoading (pgPanes (finish_svids b f r p) n) = (n \<noteq> Identities \<and> paLoading (pgPanes p n))"
  "paLoading (pgPanes (finish_obo r p) n) = (n \<noteq> Chain \<and> paLoading (pgPanes p n))"
  "paLoading (pgPanes (finish_tools r p) n) = (n \<noteq> Tools \<and> paLoading (pgPanes p n))"
  by (simp_all add: finish_svids_def finish_obo_def finish_tools_def page_defs Let_def split: sum.splits prod.splits)

lemma fresh_panes_ok: "panes_ok (fresh_page st)"
  by (simp add: panes_ok_def fresh_page_def closed_pane_def)

lemma start_ask_panes_ok: "panes_ok p \<Longrightarrow> panes_ok (start_ask b m p)"
  by (auto simp: panes_ok_def start_ask_def page_defs)

lemma with_ui_panes_ok: "panes_ok (with_ui f p) = panes_ok p"
  by (simp add: panes_ok_def with_ui_def)

lemma mount_panes_ok: "panes_ok (mount st)"
  by (simp add: mount_def Let_def fresh_panes_ok with_ui_panes_ok start_ask_panes_ok split: option.splits prod.splits)

lemma panes_ok_step:
  assumes "page_step p e q" "panes_ok p" shows "panes_ok q"
  using assms
proof (cases rule: page_step.cases)
  case (answer us m seen vs r)
  have "panes_ok (p\<lparr> pgJobs := us @ vs \<rparr>)" using assms(2) answer by (auto simp: panes_ok_def)
  then show ?thesis using answer
    by (auto simp: finish_ask_def Let_def with_ui_panes_ok refresh_panes_ok split: sum.splits prod.splits)
next
  case (show_it n)
  then show ?thesis using assms(2) by (cases n) (simp_all add: show_pane_def start_panes_ok)
next
  case (hide_it n)
  then show ?thesis using assms(2) by (auto simp: panes_ok_def on_pane_def hide_pane_def)
next
  case (svids us b f vs r)
  then show ?thesis using assms(2) by (auto simp: panes_ok_def finish_loading page_frame)
next
  case (obo us vs r)
  then show ?thesis using assms(2) by (auto simp: panes_ok_def finish_loading page_frame)
next
  case (tools us vs r)
  then show ?thesis using assms(2) by (auto simp: panes_ok_def finish_loading page_frame)
next
  case sign_in
  then show ?thesis using assms(2) by (simp add: panes_ok_def)
qed (use assms(2) in \<open>simp_all add: with_ui_panes_ok start_ask_panes_ok mount_panes_ok\<close>)

section \<open>History\<close>

text \<open>The panel's button was not pressed since the page was mounted.\<close>

fun never_shown :: "pane_name \<Rightarrow> event list \<Rightarrow> bool" where
  "never_shown n [] = True"
| "never_shown n (Mounted x # es) = True"
| "never_shown n (Shown k # es) = (k \<noteq> n \<and> never_shown n es)"
| "never_shown n (e # es) = never_shown n es"

text \<open>The prompt and scope of the last sign-in no mount has taken back yet.\<close>

fun stashed :: "event list \<Rightarrow> (string \<times> string) option" where
  "stashed [] = None"
| "stashed (Mounted x # es) = None"
| "stashed (SignedIn m sc # es) = Some (m, sc)"
| "stashed (e # es) = stashed es"

definition untouched :: "pane_name \<Rightarrow> page \<Rightarrow> bool" where
  "untouched n p = (pgPanes p n = closed_pane \<and> (\<forall>j \<in> set (pgJobs p). \<not> is_load n j \<and> (\<forall>m seen. j = Asking m seen \<longrightarrow> seen n = JNull)))"

definition asked :: "event list \<Rightarrow> page \<Rightarrow> bool" where
  "asked es p = (\<forall>m seen. Asking m seen \<in> set (pgJobs p) \<longrightarrow> Sent m \<in> set es \<or> Mounted (Some m) \<in> set es)"

definition store_holds :: "(string \<times> string) option \<Rightarrow> storage \<Rightarrow> bool" where
  "store_holds x st =
     (om_get st ''sre.pendingMessage'' = map_option fst x
      \<and> (case x of None \<Rightarrow> True | Some (m, sc) \<Rightarrow> om_get st ''sre.pendingScope'' = Some sc \<and> om_get st ''sre.autoRetry'' = Some ''1''))"

lemma asks_of: "filter is_ask (pgJobs q) = filter is_ask (pgJobs p) \<Longrightarrow> Asking m seen \<in> set (pgJobs q) \<longleftrightarrow> Asking m seen \<in> set (pgJobs p)"
proof -
  have "Asking m seen \<in> set js \<longleftrightarrow> Asking m seen \<in> set (filter is_ask js)" for js by simp
  then show "filter is_ask (pgJobs q) = filter is_ask (pgJobs p) \<Longrightarrow> ?thesis" by metis
qed

lemma untouched_start:
  "untouched n p \<Longrightarrow> n \<noteq> Identities \<Longrightarrow> untouched n (start_svids b x f p)"
  "untouched n p \<Longrightarrow> n \<noteq> Chain \<Longrightarrow> untouched n (start_obo p)"
  "untouched n p \<Longrightarrow> n \<noteq> Tools \<Longrightarrow> untouched n (start_tools p)"
  by (auto simp: untouched_def page_defs Let_def split: option.splits)

lemma untouched_refresh: "untouched n p \<Longrightarrow> seen n = JNull \<Longrightarrow> untouched n (refresh_panes seen b p)"
  by (cases n) (auto simp: refresh_panes_def Let_def panelsToRefresh_def intro!: untouched_start)

lemma untouched_finish:
  "n \<noteq> Identities \<Longrightarrow> untouched n (finish_svids b f r p) = untouched n p"
  "n \<noteq> Chain \<Longrightarrow> untouched n (finish_obo r p) = untouched n p"
  "n \<noteq> Tools \<Longrightarrow> untouched n (finish_tools r p) = untouched n p"
  by (simp_all add: untouched_def finish_svids_def finish_obo_def finish_tools_def page_defs Let_def split: sum.splits prod.splits)

lemma untouched_with_ui [simp]: "untouched n (with_ui f p) = untouched n p"
  by (simp add: untouched_def with_ui_def)

lemma untouched_ask: "untouched n p \<Longrightarrow> untouched n (start_ask b m p)"
  by (auto simp: untouched_def start_ask_def spawn_def with_ui_def closed_pane_def)

lemma untouched_mount: "untouched n (mount st)"
  by (auto simp: mount_def Let_def intro!: untouched_ask split: option.splits prod.splits) (simp_all add: untouched_def fresh_page_def)

lemma untouched_step:
  assumes "page_step p e q" "e \<noteq> Shown n" "untouched n p" shows "untouched n q"
  using assms(1)
proof (cases rule: page_step.cases)
  case (answer us m seen vs r)
  have u: "untouched n (p\<lparr> pgJobs := us @ vs \<rparr>)" "seen n = JNull" using assms(3) answer by (auto simp: untouched_def)
  then show ?thesis using answer by (auto simp: finish_ask_def Let_def untouched_refresh split: sum.splits prod.splits)
next
  case (show_it k)
  then show ?thesis using assms(2,3) by (cases k) (auto simp: show_pane_def untouched_start)
next
  case (hide_it k)
  then show ?thesis using assms(3) by (auto simp: untouched_def on_pane_def hide_pane_def closed_pane_def)
next
  case (svids us b f vs r)
  then have "n \<noteq> Identities" "untouched n (p\<lparr> pgJobs := us @ vs \<rparr>)" using assms(3) by (auto simp: untouched_def)
  then show ?thesis using svids by (simp add: untouched_finish)
next
  case (obo us vs r)
  then have "n \<noteq> Chain" "untouched n (p\<lparr> pgJobs := us @ vs \<rparr>)" using assms(3) by (auto simp: untouched_def)
  then show ?thesis using obo by (simp add: untouched_finish)
next
  case (tools us vs r)
  then have "n \<noteq> Tools" "untouched n (p\<lparr> pgJobs := us @ vs \<rparr>)" using assms(3) by (auto simp: untouched_def)
  then show ?thesis using tools by (simp add: untouched_finish)
next
  case sign_in
  then show ?thesis using assms(3) by (simp add: untouched_def)
qed (use assms(3) in \<open>simp_all add: untouched_ask untouched_mount\<close>)

lemma run_untouched: "page_run es p \<Longrightarrow> never_shown n es \<Longrightarrow> untouched n p"
proof (induction rule: page_run.induct)
  case opened
  show ?case by (rule untouched_mount)
next
  case (next_step es p e q)
  show ?case
  proof (cases e)
    case (Mounted x)
    with next_step(2) show ?thesis by (auto elim!: page_step.cases intro: untouched_mount)
  qed (use next_step in \<open>auto intro: untouched_step\<close>)
qed

lemma mount_frame:
  "pgStore (mount st) = snd (takeStepUpReturn st)"
  "pgJobs (mount st) = (case resent st of None \<Rightarrow> [] | Some m \<Rightarrow> [Asking m (\<lambda>_. JNull)])"
  by (simp_all add: mount_def resent_def Let_def start_ask_def spawn_def with_ui_def fresh_page_def closed_pane_def split: option.splits prod.splits)

lemma asked_step:
  assumes "page_step p e q" "asked es p" shows "asked (e # es) q"
  using assms(1)
proof (cases rule: page_step.cases)
  case send
  then show ?thesis using assms(2) by (auto simp: asked_def start_ask_def spawn_def with_ui_def split: if_splits)
next
  case (answer us m seen vs r)
  then have "Asking k s \<in> set (pgJobs q) \<Longrightarrow> Asking k s \<in> set (pgJobs p)" for k s
    using asks_of [OF finish_ask_frame(2) [of m seen r "p\<lparr> pgJobs := us @ vs \<rparr>"]] by auto
  then show ?thesis using assms(2) by (auto simp: asked_def)
next
  case (show_it n)
  then show ?thesis using assms(2) asks_of [OF show_pane_ask(2)] by (auto simp: asked_def)
next
  case mounts
  then show ?thesis by (auto simp: asked_def mount_frame split: option.splits)
qed (use assms(2) in \<open>auto simp: asked_def page_frame with_ui_def\<close>)

lemma store_holds_stash: "store_holds (Some (m, sc)) (stashStepUp m sc st)"
  by (simp add: store_holds_def stashStepUp_def omap_simps)

lemma store_holds_take: "store_holds x st \<Longrightarrow> store_holds None (snd (takeStepUpReturn st))"
  by (auto simp: store_holds_def takeStepUpReturn_def omap_simps split: option.splits)

lemma store_step:
  assumes "page_step p e q" "store_holds (stashed es) (pgStore p)" shows "store_holds (stashed (e # es)) (pgStore q)"
  using assms(1)
proof (cases rule: page_step.cases)
  case mounts
  then show ?thesis using assms(2) by (simp add: mount_frame store_holds_take)
next
  case send
  then show ?thesis using assms(2) by (simp add: start_ask_def spawn_def with_ui_def)
next
  case (sign_in acr sc)
  then show ?thesis by (simp add: store_holds_stash)
qed (use assms(2) in \<open>auto simp: page_frame with_ui_def finish_ask_frame\<close>)

lemma run_store: "page_run es p \<Longrightarrow> store_holds (stashed es) (pgStore p)"
proof (induction rule: page_run.induct)
  case opened
  then show ?case by code_simp
next
  case next_step
  then show ?case by (blast intro: store_step)
qed

lemma run_asked: "page_run es p \<Longrightarrow> asked es p"
proof (induction rule: page_run.induct)
  case opened
  then show ?case by (simp add: asked_def mount_frame resent_def takeStepUpReturn_def omap_simps)
next
  case next_step
  then show ?case by (blast intro: asked_step)
qed

lemma run_ok: "page_run es p \<Longrightarrow> ui_ok p \<and> panes_ok p"
  by (induction rule: page_run.induct) (auto simp: mount_ok mount_panes_ok intro: ui_ok_step panes_ok_step)

text \<open>Signing in and mounting end what an earlier sign-in stashed.\<close>

fun fence :: "event \<Rightarrow> bool" where
  "fence (SignedIn m sc) = True"
| "fence (Mounted x) = True"
| "fence _ = False"

lemma stashed_split:
  "stashed es = Some (m, sc) \<Longrightarrow> \<exists>us vs. es = us @ SignedIn m sc # vs \<and> \<not> list_ex fence us"
proof (induction es)
  case (Cons e es)
  show ?case
  proof (cases "fence e")
    case True
    then have "e = SignedIn m sc" using Cons.prems by (cases e) auto
    then show ?thesis by (intro exI [of _ "[]"] exI [of _ es]) auto
  next
    case False
    then obtain us vs where "es = us @ SignedIn m sc # vs" "\<not> list_ex fence us" using Cons by (cases e) auto
    then show ?thesis using False by (intro exI [of _ "e # us"] exI [of _ vs]) auto
  qed
qed simp

text \<open>A question and its answer, with nothing between them, are what \<open>submit\<close> does at once.\<close>

lemma ask_then_answer:
  assumes "trim m \<noteq> []"
  shows "pgUi (finish_ask m (pane_data p) r (start_ask b m p)) = submit (\<lambda>_. r) (pane_data p Identities \<noteq> JNull) (Some m) b (pgUi p)"
  using assms by (simp add: finish_ask_frame start_ask_def spawn_def with_ui_def submit_def or_else_def)

lemma first_question: "page_run [Sent DEFAULT_PROMPT, Mounted None] (start_ask False DEFAULT_PROMPT (mount []))"
proof -
  have "can_send (mount [])" "uiMessage (pgUi (mount [])) = DEFAULT_PROMPT" by code_simp+
  then show ?thesis using page_run.next_step [OF page_run.opened page_step.send] by metis
qed

lemma tools_opened: "page_run [Shown Tools, Mounted None] (start_tools (mount []))"
proof -
  have "\<not> paLoading (pgPanes (mount []) Tools)" by code_simp
  from page_run.next_step [OF page_run.opened page_step.show_it [OF this]] show ?thesis by (simp add: show_pane_def)
qed

text \<open>
  C21. Whatever the user does and in whatever order the replies come, the page shows at most one of an answer, a
  failure and a challenge; it is in the asking state exactly while one question is under way, shows none of the
  three then, and never has two questions under way; a panel is in the loading state only while a load of it is
  under way, so no button stays disabled once everything has been answered; and every question under way was
  sent by the user or resent when the page was mounted.
\<close>

theorem page_shows_one_outcome:
  assumes "page_run es p"
  shows "outcomes (pgUi p) \<le> 1 \<and> (uiLoading (pgUi p) \<longleftrightarrow> list_ex is_ask (pgJobs p)) \<and> (uiLoading (pgUi p) \<longrightarrow> outcomes (pgUi p) = 0)
    \<and> length (filter is_ask (pgJobs p)) \<le> 1 \<and> (\<forall>n. paLoading (pgPanes p n) \<longrightarrow> list_ex (is_load n) (pgJobs p))
    \<and> (\<forall>m seen. Asking m seen \<in> set (pgJobs p) \<longrightarrow> Sent m \<in> set es \<or> Mounted (Some m) \<in> set es)"
proof -
  have ok: "ui_ok p" "panes_ok p" "asked es p" using run_ok [OF assms] run_asked [OF assms] by auto
  have "list_ex P xs \<longleftrightarrow> length (filter P xs) \<noteq> 0" for P and xs :: "job list"
    by (auto simp: list_ex_iff filter_empty_conv)
  then have "(uiLoading (pgUi p) \<longleftrightarrow> list_ex is_ask (pgJobs p)) \<and> length (filter is_ask (pgJobs p)) \<le> 1"
    using ok(1) by (auto simp: ui_ok_def split: if_splits)
  then show ?thesis using ok unfolding ui_ok_def panes_ok_def asked_def by blast
qed

theorem page_shows_one_outcome_witness:
  "outcomes (pgUi (start_ask False DEFAULT_PROMPT (mount []))) = 0 \<and> uiLoading (pgUi (start_ask False DEFAULT_PROMPT (mount [])))"
proof -
  have "uiLoading (pgUi (start_ask False DEFAULT_PROMPT (mount [])))" by code_simp
  then show ?thesis using page_shows_one_outcome [OF first_question] by blast
qed

text \<open>
  C30. No panel opens by itself: one whose button was not pressed since the page was mounted is closed, idle and
  without a failure, no load of it is under way, and no answer that is still to come will open it.
\<close>

theorem nothing_opens_unasked:
  assumes "page_run es p" "never_shown n es"
  shows "pgPanes p n = closed_pane \<and> \<not> list_ex (is_load n) (pgJobs p)
    \<and> (\<forall>m seen r us vs. pgJobs p = us @ Asking m seen # vs \<longrightarrow> pgPanes (finish_ask m seen r (p\<lparr> pgJobs := us @ vs \<rparr>)) n = closed_pane)"
proof -
  have u: "untouched n p" using run_untouched [OF assms] .
  have "untouched n (finish_ask m seen r (p\<lparr> pgJobs := us @ vs \<rparr>))" if "pgJobs p = us @ Asking m seen # vs" for m seen r us vs
    using untouched_step [OF page_step.answer [OF that] _ u] by simp
  then show ?thesis using u by (simp add: untouched_def list_ex_iff)
qed

theorem nothing_opens_unasked_witness:
  "pgPanes (start_tools (mount [])) Chain = closed_pane \<and> paLoading (pgPanes (start_tools (mount [])) Tools)"
proof -
  have "paLoading (pgPanes (start_tools (mount [])) Tools)" by code_simp
  then show ?thesis using nothing_opens_unasked [OF tools_opened, of Chain] by simp
qed

text \<open>
  C22. A prompt is sent on the user's behalf only for a step-up: what a mount sends is what the box held at the last
  sign-in, which no mount before it has taken back, so one sign-in leads to one retry at most; the page then
  shows the prompt and names the scope, and a mount without such a sign-in sends nothing.
\<close>

theorem retry_was_signed_in:
  assumes "page_run (Mounted x # es) p"
  shows "case stashed es of
      None \<Rightarrow> x = None \<and> pgJobs p = [] \<and> uiMfaReturn (pgUi p) = None
    | Some (m, sc) \<Rightarrow> (\<exists>us vs. es = us @ SignedIn m sc # vs \<and> \<not> list_ex fence us)
        \<and> uiMessage (pgUi p) = m \<and> uiMfaReturn (pgUi p) = Some \<lparr> urMessage = m, urScope = sc, urRetry = True \<rparr>
        \<and> (if trim m = [] then x = None \<and> pgJobs p = [] else x = Some m \<and> pgJobs p = [Asking m (\<lambda>_. JNull)])"
  using assms
proof (cases rule: page_run.cases)
  case opened
  then show ?thesis by (simp add: mount_def takeStepUpReturn_def fresh_page_def initial_ui_def omap_simps)
next
  case (next_step p0)
  have "store_holds (stashed es) (pgStore p0)" using next_step(1) by (rule run_store)
  moreover have "x = resent (pgStore p0)" "p = mount (pgStore p0)" using next_step(2) by (auto elim: page_step.cases)
  ultimately show ?thesis
    by (cases "stashed es")
      (auto simp: store_holds_def takeStepUpReturn_def resent_def mount_def start_ask_def spawn_def with_ui_def fresh_page_def
        begin_submit_def initial_ui_def closed_pane_def or_else_def Let_def dest!: stashed_split)
qed

text \<open>A challenge, an edit before the sign-in, and the retry.\<close>

definition mfa_challenge :: reply where
  "mfa_challenge = Inr (401, JObj [(''kind'', JStr ''step-up''), (''acrValues'', JStr ''mfa''), (''scope'', JStr ''ops:write'')])"

definition challenged_page :: page where
  "challenged_page = finish_ask DEFAULT_PROMPT (\<lambda>_. JNull) mfa_challenge ((start_ask False DEFAULT_PROMPT (mount []))\<lparr> pgJobs := [] \<rparr>)"

lemma challenged_run: "page_run [Answered mfa_challenge, Sent DEFAULT_PROMPT, Mounted None] challenged_page"
proof -
  have "pgJobs (start_ask False DEFAULT_PROMPT (mount [])) = [] @ Asking DEFAULT_PROMPT (\<lambda>_. JNull) # []"
    by (simp add: mount_def takeStepUpReturn_def start_ask_def spawn_def with_ui_def fresh_page_def closed_pane_def omap_simps) code_simp
  from page_run.next_step [OF first_question page_step.answer [OF this]] show ?thesis by (simp add: challenged_page_def)
qed

text \<open>The prompt retried with the elevated token is the one in the box at the sign-in, not the one that was challenged.\<close>

lemma edited_prompt_retried:
  assumes said: "trim m \<noteq> []"
  shows "\<exists>p. page_run [Mounted (Some m), SignedIn m ''ops:write'', Edited m, Answered mfa_challenge, Sent DEFAULT_PROMPT, Mounted None] p"
proof -
  let ?p1 = "with_ui (\<lambda>u. u\<lparr> uiMessage := m \<rparr>) challenged_page"
  have "uiStepUp (pgUi challenged_page) = Some (''mfa'', ''ops:write'')" by code_simp
  then have s: "uiStepUp (pgUi ?p1) = Some (''mfa'', ''ops:write'')" "uiMessage (pgUi ?p1) = m" by (simp_all add: with_ui_def)
  have r: "resent (stashStepUp m sc st) = Some m" for sc st
    using said by (simp add: resent_def takeStepUpReturn_def stashStepUp_def omap_simps)
  from page_run.next_step [OF page_run.next_step [OF challenged_run page_step.edit] page_step.sign_in [OF s(1)]]
  have "page_run [SignedIn m ''ops:write'', Edited m, Answered mfa_challenge, Sent DEFAULT_PROMPT, Mounted None]
      (?p1\<lparr> pgStore := stashStepUp m ''ops:write'' (pgStore ?p1) \<rparr>)" unfolding s(2) .
  from page_run.next_step [OF this page_step.mounts] show ?thesis by (auto simp: r)
qed

theorem retry_was_signed_in_witness:
  "\<exists>p. page_run [Mounted (Some ''restart it''), SignedIn ''restart it'' ''ops:write'', Edited ''restart it'', Answered mfa_challenge,
        Sent DEFAULT_PROMPT, Mounted None] p \<and> pgJobs p = [Asking ''restart it'' (\<lambda>_. JNull)]
     \<and> uiMfaReturn (pgUi p) = Some \<lparr> urMessage = ''restart it'', urScope = ''ops:write'', urRetry = True \<rparr>"
proof -
  have said: "trim ''restart it'' \<noteq> []" by (simp add: trim_def trim_start_def is_ws_def)
  obtain p where p: "page_run [Mounted (Some ''restart it''), SignedIn ''restart it'' ''ops:write'', Edited ''restart it'', Answered mfa_challenge,
      Sent DEFAULT_PROMPT, Mounted None] p" using edited_prompt_retried [OF said] by blast
  from retry_was_signed_in [OF p] show ?thesis using p said by auto
qed

text \<open>
  A panel hidden while a question is under way opens again with the answer: the refresh follows what was open when the
  question was sent.
\<close>

lemma hidden_pane_reopens:
  "\<exists>p. page_run [Loaded Tools (Inr (200, Inr [], Inr (JObj []))), Answered (Inr (200, JObj [])), Hidden Tools, Sent DEFAULT_PROMPT,
       Loaded Tools (Inr (200, Inr [], Inr (JObj []))), Shown Tools, Mounted None] p \<and> pane_data p Tools = JObj []"
proof -
  let ?r = "Inr (200, Inr [], Inr (JObj [])) :: load_reply" and ?a = "Inr (200, JObj []) :: reply"
  define p1 where "p1 = start_tools (mount [])"
  define p2 where "p2 = finish_tools ?r (p1\<lparr> pgJobs := [] \<rparr>)"
  define p3 where "p3 = start_ask False DEFAULT_PROMPT p2"
  define p4 where "p4 = on_pane Tools hide_pane p3"
  define p5 where "p5 = finish_ask DEFAULT_PROMPT (pane_data p2) ?a (p4\<lparr> pgJobs := [] \<rparr>)"
  define p6 where "p6 = finish_tools ?r (p5\<lparr> pgJobs := [] \<rparr>)"
  note ps = p1_def p2_def p3_def p4_def p5_def p6_def
  have said: "trim DEFAULT_PROMPT \<noteq> []" by code_simp
  have "pgJobs p1 = [] @ LoadingTools # []" unfolding ps by code_simp
  from page_run.next_step [OF tools_opened [folded p1_def] page_step.tools [OF this, of ?r]]
  have 2: "page_run [Loaded Tools ?r, Shown Tools, Mounted None] p2" by (simp add: p2_def)
  have "can_send p2" "uiMessage (pgUi p2) = DEFAULT_PROMPT" unfolding ps by code_simp+
  from page_run.next_step [OF 2 page_step.send [OF this(1)]] this(2)
  have 3: "page_run [Sent DEFAULT_PROMPT, Loaded Tools ?r, Shown Tools, Mounted None] p3" by (simp add: p3_def)
  have "can_hide (pgPanes p3 Tools)" unfolding ps by code_simp
  from page_run.next_step [OF 3 page_step.hide_it [OF this]]
  have 4: "page_run [Hidden Tools, Sent DEFAULT_PROMPT, Loaded Tools ?r, Shown Tools, Mounted None] p4" by (simp add: p4_def)
  have "pgJobs p2 = []" unfolding ps by code_simp
  then have "pgJobs p4 = [] @ Asking DEFAULT_PROMPT (pane_data p2) # []"
    using said by (simp add: p4_def p3_def on_pane_def start_ask_def spawn_def with_ui_def)
  from page_run.next_step [OF 4 page_step.answer [OF this, of ?a]]
  have 5: "page_run [Answered ?a, Hidden Tools, Sent DEFAULT_PROMPT, Loaded Tools ?r, Shown Tools, Mounted None] p5" by (simp add: p5_def)
  have "pgJobs p5 = [] @ LoadingTools # []" unfolding ps by code_simp
  from page_run.next_step [OF 5 page_step.tools [OF this, of ?r]]
  have "page_run [Loaded Tools ?r, Answered ?a, Hidden Tools, Sent DEFAULT_PROMPT, Loaded Tools ?r, Shown Tools, Mounted None] p6"
    by (simp add: p6_def)
  moreover have "pane_data p6 Tools = JObj []" unfolding ps by code_simp
  ultimately show ?thesis by blast
qed

end
