(* ===== verification/PageView.thy ===== *)
theory PageView
  imports ResultPanel PageMachine
begin

text \<open>
  What the chat page shows in a state of PageMachine: the markup of \<^verbatim>\<open>app/chat.tsx\<close> with \<^verbatim>\<open>components/request-failure.tsx\<close> and
  \<^verbatim>\<open>result-skeleton.tsx\<close>. Handlers are the events of the machine; a button carries what decides whether it can be
  pressed.
\<close>

section \<open>Pieces\<close>

definition alert :: "string \<Rightarrow> string \<Rightarrow> string option \<Rightarrow> dom list \<Rightarrow> dom" where
  "alert variant ic title ks =
     El ''Alert'' [(''variant'', variant)]
       (icon ic # (case title of None \<Rightarrow> [] | Some t \<Rightarrow> [El ''AlertTitle'' [] [Txt t]]) @ [El ''AlertDescription'' [] ks])"

definition button :: "bool \<Rightarrow> dom list \<Rightarrow> dom" where
  "button disabled ks = El ''Button'' (if disabled then [(''type'', ''button''), (''disabled'', ''true'')] else [(''type'', ''button'')]) ks"

abbreviation code :: "string \<Rightarrow> dom" where "code s \<equiv> El ''code'' [] [Txt s]"

definition RequestFailure :: "agent_failure \<Rightarrow> dom list" where
  "RequestFailure f =
     (case f of
        Denied reason \<Rightarrow> [alert ''destructive'' ''ShieldX'' (Some ''Access denied'') [Txt reason]]
      | FailedRequest m detail \<Rightarrow> [alert ''destructive'' ''AlertTriangle'' (Some ''Request failed'') [para [Txt m], para [Txt detail]]]
      | NeedsStepUp _ _ \<Rightarrow> [])"

definition ResultSkeleton :: dom where
  "ResultSkeleton =
     El ''Card'' [(''role'', ''status''), (''aria-busy'', ''true''), (''aria-live'', ''polite'')]
       [El ''CardHeader'' [] [box [icon ''Loader2'', Txt (''Asking the copilot'' @ ellipsis @ '' exchanging tokens, calling tools, composing an answer.'')]],
        El ''CardContent'' [] [box [icon ''Skeleton'', icon ''Skeleton'', icon ''Skeleton''], icon ''Skeleton'', icon ''Skeleton'', icon ''Skeleton'', icon ''Skeleton'']]"

section \<open>The question\<close>

definition suggestion_button :: "string \<times> tier \<Rightarrow> dom" where
  "suggestion_button s =
     El ''button'' [(''type'', ''button''),
         (''title'', if snd s = WriteTier then ''Privileged: routes to the specialist and requires MFA step-up''
                   else ''Read-only: answered by the copilot via mcp-inspect'')] [Txt (fst s)]"

definition suggestion_group :: "string \<times> tier \<times> (string \<times> tier) list \<Rightarrow> dom" where
  "suggestion_group g =
     El ''div'' [(''data-prompt-group'', fst g)]
       [span [icon (if fst (snd g) = WriteTier then ''Lock'' else ''Eye''), Txt (fst g)], box (map suggestion_button (snd (snd g)))]"

definition asking_as :: "asking option \<Rightarrow> dom" where
  "asking_as asking =
     (case asking of
        None \<Rightarrow> span []
      | Some a \<Rightarrow>
          (case given (akSub a) of
             None \<Rightarrow> span []
           | Some sub \<Rightarrow>
               El ''p'' [(''data-asking-as'', ''true'')]
                 ([Txt ''Asking as '', span [Txt sub]]
                  @ shown_if (akRoles a \<noteq> []) [Txt '' '', Txt (middle_dot @ '' roles ''), span [Txt (join '', '' (akRoles a))]]
                  @ (case given (akAcr a) of None \<Rightarrow> [] | Some acr \<Rightarrow> [Txt '' '', Txt (middle_dot @ '' acr ''), span [Txt acr]])
                  @ shown_if (akAcr a \<noteq> Some ''mfa'') [span [Txt '' '', Txt (middle_dot @ '' privileged prompts will step up to MFA'')]])))"

definition ask_card :: "page \<Rightarrow> asking option \<Rightarrow> dom" where
  "ask_card p asking =
     El ''Card'' [(''id'', ''ask'')]
       [El ''CardHeader'' []
          [El ''CardTitle'' [] [span [icon ''Sparkles''], Txt ''Ask the copilot''],
           El ''CardDescription'' [] [Txt (''Read-only questions are answered by the copilot directly; privileged actions route to ''
             @ ''the specialist and trigger a step-up MFA prompt.'')]],
        El ''CardContent'' []
          [El ''Textarea'' [(''rows'', ''3''), (''value'', uiMessage (pgUi p)), (''placeholder'', ''e.g. List all pods in the prod namespace'')] [],
           box (map suggestion_group SUGGESTION_GROUPS),
           box [asking_as asking,
                span [El ''span'' [(''title'', ''Cmd or Ctrl + Enter sends'')]
                        [El ''kbd'' [] [Txt [CHR 0xE2, CHR 0x8C, CHR 0x98]], El ''kbd'' [] [Txt [CHR 0xE2, CHR 0x86, CHR 0xB5]]],
                      button (\<not> can_send p)
                        (if uiLoading (pgUi p) then [icon ''Loader2'', Txt (''Asking'' @ ellipsis)] else [icon ''SendHorizontal'', Txt ''Send''])]]]]"

section \<open>After the question\<close>

definition mfa_banner :: "bool \<Rightarrow> step_up_return \<Rightarrow> dom" where
  "mfa_banner loading back =
     alert ''info'' ''ShieldCheck'' (Some ''Re-authenticated with MFA'')
       ([Txt ''Curity issued a fresh token with '', code ''acr=mfa'']
        @ shown_if (urScope back \<noteq> []) [Txt '' '', Txt ''and scope '', code (urScope back)]
        @ [Txt ''. '', Txt (if loading then ''Retrying your request now'' @ ellipsis else ''Your request was retried automatically.'')])"

definition step_up_alert :: "string \<Rightarrow> dom" where
  "step_up_alert scope =
     alert ''warning'' ''Lock'' (Some ''Step-up authentication required'')
       [para [Txt ''This is a privileged action. Re-authenticate with multi-factor authentication to obtain an '', code ''acr=mfa'',
              Txt '' token for scope '', code scope, Txt ''.''],
        button False [icon ''ShieldCheck'', Txt ''Authenticate with MFA'']]"

definition result_card :: "page \<Rightarrow> string \<Rightarrow> exn + dom list" where
  "result_card p grafanaUrl =
     (if truthy (uiResponse (pgUi p))
      then sum_bind (ResultCard (uiResponse (pgUi p)) (uiAsked (pgUi p)) ''answer'' grafanaUrl) (\<lambda>d. Inr [d])
      else Inr [])"

section \<open>The panels\<close>

definition pane_buttons :: "string \<Rightarrow> string \<Rightarrow> pane \<Rightarrow> dom list" where
  "pane_buttons first_label busy pa =
     shown_if (can_hide pa) [button False [icon ''ChevronUp'', Txt ''Hide'']]
     @ [button (paLoading pa)
          [icon (if paLoading pa then ''Loader2'' else ''RefreshCw''),
           Txt (if paLoading pa then busy @ ellipsis else if truthy (paData pa) then ''Refresh'' else first_label)]]"

definition pane_card :: "string \<Rightarrow> string \<Rightarrow> string \<Rightarrow> dom list \<Rightarrow> string \<Rightarrow> string \<Rightarrow> pane \<Rightarrow> dom list \<Rightarrow> dom" where
  "pane_card i ic title description first_label busy pa content =
     El ''Card'' [(''id'', i)]
       (El ''CardHeader'' []
          [box [box [El ''CardTitle'' [] [span [icon ic], Txt title], El ''CardDescription'' [] description],
                box (pane_buttons first_label busy pa)]]
        # shown_if (given (paError pa) \<noteq> None \<or> truthy (paData pa))
            [El ''CardContent'' []
               ((case given (paError pa) of None \<Rightarrow> [] | Some m \<Rightarrow> [alert ''destructive'' ''AlertTriangle'' None [Txt m]]) @ content)])"

text \<open>The workloads are a list, as the web server sends them; what is neither list nor text has no length.\<close>

definition identities_card :: "page \<Rightarrow> int \<Rightarrow> dom" where
  "identities_card p now =
     (let pa = pgPanes p Identities
      in pane_card ''identities'' ''Fingerprint'' ''Workload Identities''
           [Txt ''Each pod carries its own SPIFFE JWT-SVID, distinct from the user token. These serve as the '', code ''actor_token'',
            Txt ('' in the RFC 8693 token exchange that delegates the user'' @ rsquo @ ''s authority down the chain. Shown in chain order for the ''
              @ ''flow you last ran.'')]
           ''Show identities'' ''Fetching'' pa
           (case paData pa of
              JArr [] \<Rightarrow> [para [Txt (''No flow yet '' @ em_dash @ '' ask the copilot a question first, then refresh.'')]]
            | JArr svids \<Rightarrow> [WorkloadIdentities svids (pgSvidFlow p) (pgSvidRotated p) now]
            | _ \<Rightarrow> []))"

text \<open>A hop of the chain as the web server sends it.\<close>

definition hop_of :: "js \<Rightarrow> ledger_hop" where
  "hop_of j =
     \<lparr> chHop = js_string (jget j ''hop''), chPayload = jget j ''payload'', chNote = as_str (jget j ''note''),
       lhHeader = jget j ''header'', lhToken = as_str (jget j ''token'') \<rparr>"

definition chain_flow :: "ledger_hop list \<Rightarrow> dom list" where
  "chain_flow chain =
     (case flowOfChain (map chain_hop.truncate chain) of
        None \<Rightarrow> []
      | Some delegated \<Rightarrow>
          [box [FlowBadge (if delegated then PrivilegedFlow else ReadFlow),
                span [Txt (if delegated then ''The copilot delegated to the specialist, which acted through mcp-ops.''
                           else ''The copilot read through mcp-inspect on its own.'')]]])"

text \<open>An answer without its list makes the page throw.\<close>

definition chain_card :: "page \<Rightarrow> int \<Rightarrow> exn + dom" where
  "chain_card p now =
     (let pa = pgPanes p Chain;
          card = pane_card ''chain'' ''Layers'' ''On-behalf-of chain''
            [Txt ''Each hop is one OAuth 2 token the request traveled with, diffed against the token it was exchanged from.'']
            ''Show chain'' ''Loading'' pa
      in if \<not> truthy (paData pa) then Inr (card [])
         else case as_arr (jget (paData pa) ''chain'') of
                None \<Rightarrow> Inl (type_error ''Cannot read properties of undefined'')
              | Some hops \<Rightarrow>
                  Inr (card [if hops = [] then para [Txt (''No hops yet '' @ em_dash @ '' ask the copilot a question first, then refresh.'')]
                             else box (chain_flow (map hop_of hops) @ [DelegationLedger now False (map hop_of hops)])]))"

definition tools_card :: "(string \<Rightarrow> string \<Rightarrow> bool) \<Rightarrow> page \<Rightarrow> exn + dom" where
  "tools_card before p =
     (let pa = pgPanes p Tools;
          card = pane_card ''tools'' ''Wrench'' ''Tools this token can reach''
            [Txt ''The MCP tools agentgateway lists for '', El ''em'' [] [Txt ''your''],
             Txt ('' token, per tier. The list is filtered by tier scope, and the write tier is only probed once the MFA and role ''
               @ ''conditions are met.'')]
            ''Check tools'' ''Probing'' pa
      in if \<not> truthy (paData pa) then Inr (card [])
         else case as_arr (jget (paData pa) ''tiers'') of
                None \<Rightarrow> Inl (type_error ''Cannot read properties of undefined'')
              | Some tiers \<Rightarrow> sum_bind (ToolVisibility before tiers) (\<lambda>d. Inr (card [d])))"

section \<open>The page\<close>

text \<open>What stands between the question and the panels.\<close>

definition outcome_part :: "page \<Rightarrow> string \<Rightarrow> exn + dom list" where
  "outcome_part p grafanaUrl =
     (let u = pgUi p
      in sum_bind (result_card p grafanaUrl) (\<lambda>result.
           Inr ((case uiError u of None \<Rightarrow> [] | Some f \<Rightarrow> RequestFailure f)
                @ (case uiMfaReturn u of None \<Rightarrow> [] | Some back \<Rightarrow> [mfa_banner (uiLoading u) back])
                @ (case uiStepUp u of None \<Rightarrow> [] | Some ch \<Rightarrow> [step_up_alert (snd ch)])
                @ shown_if (uiLoading u \<and> \<not> truthy (uiResponse u)) [ResultSkeleton]
                @ result)))"

definition chat_view :: "(string \<Rightarrow> string \<Rightarrow> bool) \<Rightarrow> string \<Rightarrow> asking option \<Rightarrow> int \<Rightarrow> page \<Rightarrow> exn + dom" where
  "chat_view before grafanaUrl asking now p =
     sum_bind (outcome_part p grafanaUrl) (\<lambda>middle.
     sum_bind (chain_card p now) (\<lambda>chain.
     sum_bind (tools_card before p) (\<lambda>tools.
       Inr (box ([ask_card p asking] @ middle @ [identities_card p now, chain, tools])))))"

lemmas page_view_eval [eval_simps] = alert_def button_def RequestFailure_def ResultSkeleton_def suggestion_button_def suggestion_group_def
  asking_as_def ask_card_def mfa_banner_def step_up_alert_def result_card_def pane_buttons_def pane_card_def identities_card_def
  hop_of_def chain_flow_def chain_card_def tools_card_def outcome_part_def chat_view_def

section \<open>What reaches the screen\<close>

text \<open>The cards and alerts that tell the outcome of a question, or that it is awaited.\<close>

definition tells_outcome :: "dom \<Rightarrow> bool" where
  "tells_outcome d =
     (case d of
        Txt _ \<Rightarrow> False
      | El n as ks \<Rightarrow> n = ''Alert'' \<and> map_of as ''variant'' \<in> {Some ''destructive'', Some ''warning''}
          \<or> n = ''Card'' \<and> (map_of as ''id'' = Some ''result'' \<or> map_of as ''role'' = Some ''status''))"

lemma tells_parts [simp]:
  "tells_outcome (alert v i t ks) \<longleftrightarrow> v = ''destructive'' \<or> v = ''warning''" "tells_outcome ResultSkeleton"
  "\<not> tells_outcome (ask_card p asking)" "tells_outcome (pane_card n ic title d l b pa content) \<longleftrightarrow> n = ''result''"
  by (auto simp: tells_outcome_def alert_def ResultSkeleton_def ask_card_def pane_card_def Let_def)

lemma ResultCard_tells: "ResultCard r a t g = Inr d \<Longrightarrow> tells_outcome d"
  by (auto simp: ResultCard_def sum_bind_def tells_outcome_def split: sum.splits)

lemma pane_cards_silent: "\<not> tells_outcome (identities_card p now)" "chain_card p now = Inr d \<Longrightarrow> \<not> tells_outcome d"
  "tools_card before p = Inr d \<Longrightarrow> \<not> tells_outcome d"
  by (auto simp: identities_card_def chain_card_def tools_card_def Let_def sum_bind_def split: if_splits option.splits sum.splits)

lemma failure_tells: "length (filter tells_outcome (RequestFailure f)) \<le> 1"
  by (cases f) (simp_all add: RequestFailure_def)

lemma outcome_part_tells:
  assumes "outcome_part p g = Inr ks"
  shows "length (filter tells_outcome ks) \<le> outcomes (pgUi p) + (if uiLoading (pgUi p) \<and> \<not> truthy (uiResponse (pgUi p)) then 1 else 0)"
proof -
  obtain result where r: "result_card p g = Inr result"
    and ks: "ks = (case uiError (pgUi p) of None \<Rightarrow> [] | Some f \<Rightarrow> RequestFailure f)
                @ (case uiMfaReturn (pgUi p) of None \<Rightarrow> [] | Some back \<Rightarrow> [mfa_banner (uiLoading (pgUi p)) back])
                @ (case uiStepUp (pgUi p) of None \<Rightarrow> [] | Some ch \<Rightarrow> [step_up_alert (snd ch)])
                @ shown_if (uiLoading (pgUi p) \<and> \<not> truthy (uiResponse (pgUi p))) [ResultSkeleton] @ result"
    using assms by (auto simp: outcome_part_def Let_def sum_bind_def split: sum.splits)
  have "length (filter tells_outcome result) = (if truthy (uiResponse (pgUi p)) then 1 else 0)"
    using r by (auto simp: result_card_def sum_bind_def ResultCard_tells split: if_splits sum.splits)
  moreover have "length (filter tells_outcome (case uiError (pgUi p) of None \<Rightarrow> [] | Some f \<Rightarrow> RequestFailure f)) \<le> (if uiError (pgUi p) \<noteq> None then 1 else 0)"
    using failure_tells by (auto split: option.splits)
  ultimately show ?thesis unfolding ks
    by (simp add: outcomes_def mfa_banner_def step_up_alert_def split: option.splits)
qed

text \<open>
  On the screen of any page a user can reach, at most one card or alert tells an outcome: an answer, a failure, a
  challenge, or the placeholder while a question is under way.
\<close>

theorem screen_shows_one_outcome:
  assumes "page_run es p" "chat_view before g asking now p = Inr (El n as ks)"
  shows "length (filter tells_outcome ks) \<le> 1"
proof -
  obtain middle chain tools where m: "outcome_part p g = Inr middle" "chain_card p now = Inr chain" "tools_card before p = Inr tools"
    and ks: "ks = [ask_card p asking] @ middle @ [identities_card p now, chain, tools]"
    using assms(2) by (auto simp: chat_view_def sum_bind_def split: sum.splits)
  have "length (filter tells_outcome middle) \<le> 1"
    using outcome_part_tells [OF m(1)] run_ok [OF assms(1)] unfolding ui_ok_def
    by (cases "uiLoading (pgUi p)") (auto split: if_splits)
  then show ?thesis unfolding ks using pane_cards_silent(1) pane_cards_silent(2) [OF m(2)] pane_cards_silent(3) [OF m(3)] by simp
qed

text \<open>The page shows nothing of an encoded token even when the web server sends one with a hop.\<close>

definition without_token :: "js \<Rightarrow> js" where
  "without_token j = (case j of JObj kvs \<Rightarrow> JObj (filter (\<lambda>p. fst p \<noteq> ''token'') kvs) | _ \<Rightarrow> j)"

lemma map_of_without [simp]:
  "map_of (filter (\<lambda>p. fst p \<noteq> c) kvs) k = (if k = c then None else map_of kvs k)"
  by (induction kvs) auto

lemma jget_without_token: "jget (without_token j) k = (if k = ''token'' then if \<exists>kvs. j = JObj kvs then JUndef else jget j k else jget j k)"
  by (cases j) (simp_all add: without_token_def)

lemma hop_without_token: "hop_of (without_token j) = forget_token (hop_of j)"
proof -
  have "jget (without_token j) ''token'' = JUndef"
    by (cases j) (simp_all add: without_token_def)
  then show ?thesis by (simp add: hop_of_def forget_token_def jget_without_token)
qed

lemma chain_flow_hidden: "chain_flow (map forget_token hops) = chain_flow hops"
  by (simp add: chain_flow_def o_def truncate_forget)

lemma chain_shows_no_token:
  "box (chain_flow (map hop_of (map without_token hops)) @ [DelegationLedger now False (map hop_of (map without_token hops))])
     = box (chain_flow (map hop_of hops) @ [DelegationLedger now False (map hop_of hops)])"
proof -
  have "map hop_of (map without_token hops) = map forget_token (map hop_of hops)" by (simp add: hop_without_token)
  then show ?thesis by (simp only: chain_flow_hidden DelegationLedger_hidden)
qed

end
