(* ===== verification/AppShell.thy ===== *)
theory AppShell
  imports HeroStage PageView
begin

text \<open>
  Around the chat page: \<^verbatim>\<open>components/app-shell.tsx, user-menu.tsx, persona-cards.tsx, sign-in-button.tsx,
  copy-button.tsx, session-tokens-view.tsx\<close>, the pages \<^verbatim>\<open>app/page.tsx\<close> and \<^verbatim>\<open>app/tokens/page.tsx\<close>, and what a sign-in asks
  the authorization server for. The moving picture stands as one element; HeroStage draws it.
\<close>

section \<open>Signing in\<close>

text \<open>
  What \<^verbatim>\<open>auth.ts\<close> asks for by default; Auth.js lets the parameters of one sign-in override these, as the comment there says.
\<close>

definition authorization_params :: "(string \<times> string) list" where
  "authorization_params = [(''scope'', ''openid inspect:read llm:invoke''), (''acr_values'', ''html-form''), (''prompt'', ''consent'')]"

definition sign_in :: "(string \<times> string) list \<Rightarrow> (string \<times> string) list" where
  "sign_in params = fold (\<lambda>p ps. om_set ps (fst p) (snd p)) params authorization_params"

definition signInAs :: "persona \<Rightarrow> (string \<times> string) list" where
  "signInAs p = [(''login_hint'', peUsername p), (''prompt'', ''login'')]"

definition sign_in_button_params :: "(string \<times> string) list" where
  "sign_in_button_params = [(''prompt'', ''login'')]"

definition SignInButton :: dom where
  "SignInButton = button False [icon ''LogIn'', Txt ''Sign in with Curity'']"

section \<open>The people\<close>

definition outcome_name :: "outcome \<Rightarrow> string" where
  "outcome_name w = (case w of Success \<Rightarrow> ''success'' | Warning \<Rightarrow> ''warning'' | Destructive \<Rightarrow> ''destructive'')"

definition PersonaCard :: "persona \<Rightarrow> dom" where
  "PersonaCard p =
     El ''li'' [(''data-persona'', peUsername p)]
       [box [El ''Avatar'' [(''data-avatar'', outcome_name (peOutcome p))] [El ''AvatarFallback'' [] [Txt (initials (peDisplayName p))]],
             box [El ''h3'' [] [Txt (peDisplayName p)], para [Txt (peJob p)]]],
        El ''dl'' [] [El ''dt'' [] [Txt ''username''], El ''dd'' [] [Txt (peUsername p)],
                    El ''dt'' [] [Txt ''roles''], El ''dd'' [] [Txt (join '', '' (peRoles p))]],
        box [badge (outcome_name (peOutcome p)) [Txt (peVerdict p)], para [Txt (peStory p)]],
        button False [icon ''LogIn'', Txt (''Sign in as '' @ peUsername p)]]"

definition PersonaCards :: dom where
  "PersonaCards =
     El ''section'' [(''aria-labelledby'', ''personas-title'')]
       [box [El ''h2'' [(''id'', ''personas-title'')] [Txt ''Sign in as one of the three seeded users''],
             para [Txt (''Same copilot, same cluster. Everyone signs in with a password and the first privileged ''
               @ ''action requires a TOTP code. What each person may do after that is decided by Curity, the ''
               @ ''gateway and the tool servers, with every decision displayed on this page in real time.'')]],
        El ''ul'' [] (map PersonaCard PERSONAS)]"

section \<open>The menu of the user\<close>

definition TokenCountdown :: "int option \<Rightarrow> int \<Rightarrow> dom list" where
  "TokenCountdown expiresAt now =
     (case tokenLifetime expiresAt now of
        None \<Rightarrow> []
      | Some (_, lvl, label) \<Rightarrow>
          (let expired = (lvl = LevelExpired)
           in [El ''div'' [(''data-token-countdown'', ''true''), (''title'', ''Curity access token '' @ em_dash @ '' the one every request is exchanged from'')]
                 [icon ''Clock'',
                  span ([Txt ''Access token '', span [Txt (if expired then ''expired'' else label)]]
                        @ shown_if expired [Txt ('' '' @ middle_dot @ '' sign in again'')])]]))"

definition menu_name :: "string \<Rightarrow> string option \<Rightarrow> string" where
  "menu_name nm email =
     (case findPersona (Some nm) of
        Some p \<Rightarrow> peDisplayName p
      | None \<Rightarrow> (case findPersona email of Some p \<Rightarrow> peDisplayName p | None \<Rightarrow> nm))"

definition UserMenu :: "string \<Rightarrow> string option \<Rightarrow> bool \<Rightarrow> string option \<Rightarrow> int option \<Rightarrow> int \<Rightarrow> dom" where
  "UserMenu nm email debug acr expiresAt now =
     (let life = tokenLifetime expiresAt now;
          tokenLow = (case life of None \<Rightarrow> False | Some (_, lvl, _) \<Rightarrow> lvl \<noteq> LevelOk)
      in El ''DropdownMenu'' []
           [El ''DropdownMenuTrigger'' []
              [El ''Button'' ((if tokenLow then [(''data-token-low'', ''true'')] else [])
                            @ (case life of None \<Rightarrow> [] | Some (_, _, label) \<Rightarrow> [(''title'', ''Access token '' @ label)]))
                 ([El ''Avatar'' [] [El ''AvatarFallback'' [(''data-avatar-initials'', ''true'')] [Txt (initials (menu_name nm email))]],
                   span [Txt nm]]
                  @ (case given acr of
                       None \<Rightarrow> []
                     | Some a \<Rightarrow> [El ''Badge'' [(''data-acr'', ''true''), (''variant'', if a = ''mfa'' then ''success'' else ''muted''),
                                   (''title'', ''acr of the current access token'')] [Txt a]])
                  @ [icon ''ChevronsUpDown''])],
            El ''DropdownMenuContent'' [(''align'', ''end'')]
              ([El ''DropdownMenuLabel'' []
                  (span [Txt nm] # (case given email of None \<Rightarrow> [] | Some e \<Rightarrow> shown_if (e \<noteq> nm) [span [Txt e]])),
                icon ''DropdownMenuSeparator'']
               @ TokenCountdown expiresAt now
               @ [El ''DropdownMenuItem'' [(''disabled'', ''true'')] [icon ''User2'', Txt ''Signed in via Curity'']]
               @ shown_if debug [El ''DropdownMenuItem'' [] [El ''Link'' [(''href'', ''/tokens'')] [icon ''KeyRound'', Txt ''Session tokens'']]]
               @ [icon ''DropdownMenuSeparator'', El ''DropdownMenuItem'' [] [icon ''LogOut'', Txt ''Sign out'']])])"

section \<open>The frame\<close>

definition CAPABILITIES :: "(string \<times> string \<times> string) list" where
  "CAPABILITIES =
     [(''Fingerprint'', ''SPIFFE workload identity'', ''#identities''), (''KeyRound'', ''RFC 8693 token exchange'', ''#chain''),
      (''ShieldAlert'', ''RFC 9470 step-up MFA'', ''#ask''), (''Radar'', ''OpenTelemetry tracing'', ''#result'')]"

definition capability_chip :: "bool \<Rightarrow> string \<times> string \<times> string \<Rightarrow> dom" where
  "capability_chip signedIn c =
     (if signedIn
      then El ''a'' [(''href'', snd (snd c)), (''title'', ''Jump to the panel that proves this'')] [icon (fst c), Txt (fst (snd c)), icon ''ArrowUpRight'']
      else span [icon (fst c), Txt (fst (snd c))])"

definition CapabilityChips :: "bool \<Rightarrow> dom" where
  "CapabilityChips signedIn = box (map (capability_chip signedIn) CAPABILITIES)"

text \<open>The environment of the web server decides whether the session's tokens can be looked at.\<close>

definition AppShell ::
  "(string \<Rightarrow> string option) \<Rightarrow> bool \<Rightarrow> string option \<Rightarrow> string option \<Rightarrow> string option \<Rightarrow> int option \<Rightarrow> int \<Rightarrow> dom list \<Rightarrow> dom" where
  "AppShell env signedIn displayName email acr tokenExpiresAt now children =
     box
       [El ''header'' []
          [box [box [El ''img'' [(''src'', ''/curity-logo-landscape-white.svg''), (''alt'', ''Curity'')] [],
                     El ''span'' [(''aria-hidden'', ''true'')] [],
                     box [box [icon ''ShieldCheck''], box [box [Txt ''SRE Copilot''], box [Txt ''Secure AI agent operations'']]]],
                if signedIn then UserMenu (or_else displayName []) email (auth_debug env) acr tokenExpiresAt now else SignInButton]],
        El ''main'' []
          [El ''section'' []
             [box [icon ''div'', icon ''div'',
                   box [box [El ''h1'' [] [Txt ''Secure AI agent'', icon ''br'', Txt ''authorization, '', span [Txt ''demonstrated.'']],
                             para [Txt (''A DevOps copilot that reads observability data and manages workloads on a user'' @ rsquo
                               @ ''s behalf. No standing credentials, no over-broad access.'')],
                             box [CapabilityChips signedIn]],
                        box [El ''HeroStage'' (if signedIn then [(''signedIn'', ''true'')] else []) [CapabilityChips signedIn]]]]],
           box children],
        El ''footer'' []
          [box [span [El ''img'' [(''src'', ''/curity-logo-landscape-white.svg''), (''alt'', ''Curity'')] [],
                      span [Txt (middle_dot @ '' SPIFFE '' @ middle_dot @ '' Istio Ambient '' @ em_dash
                        @ '' AI agent authentication & authorization demo'')]],
                span (shown_if (signedIn \<and> auth_debug env)
                        [El ''Button'' [(''variant'', ''link'')] [El ''Link'' [(''href'', ''/tokens'')] [Txt ''Session tokens'', icon ''ArrowUpRight'']]]
                      @ [El ''Button'' [(''variant'', ''link'')]
                           [El ''a'' [(''href'', ''https://github.com/curityio/ai-agents-auth-demo''), (''target'', ''_blank''), (''rel'', ''noreferrer'')]
                              [icon ''GitHubMark'', Txt ''Source on GitHub'', icon ''ArrowUpRight'']]])]]]"

text \<open>The home page. A session is what the session callback made of it; \<^verbatim>\<open>asking\<close> is read off its JSON.\<close>

definition asking_of :: "js \<Rightarrow> asking option" where
  "asking_of j =
     (if nullish j then None
      else Some \<lparr> akSub = as_str (jget j ''sub''), akRoles = map js_string (or_else (as_arr (jget j ''roles'')) []), akAcr = as_str (jget j ''acr'') \<rparr>)"

definition display_name :: "js \<Rightarrow> string" where
  "display_name session =
     (let user = jget session ''user'';
          named = js_or (jget user ''name'') (js_or (jget user ''email'') (js_or (jget user ''id'') (JStr [])))
      in js_string named)"

definition Home ::
  "(string \<Rightarrow> string option) \<Rightarrow> (asking option \<Rightarrow> exn + dom) \<Rightarrow> js \<Rightarrow> int \<Rightarrow> exn + dom" where
  "Home env panel session now =
     (let asking = asking_of (jget session ''asking'')
      in sum_bind (if truthy session then panel asking else Inr PersonaCards) (\<lambda>child.
           Inr (AppShell env (truthy session) (Some (display_name session)) (as_str (jget (jget session ''user'') ''email''))
                  (Option.bind asking akAcr) (as_num (jget session ''tokenExpiresAt'')) now [child])))"

section \<open>The tokens of the session\<close>

record tokens_view =
  tvData :: js
  tvError :: "string option"
  tvLoading :: bool

definition SESSION_TOKENS_ENDPOINT :: string where "SESSION_TOKENS_ENDPOINT = ''/api/tokens''"

definition begin_tokens :: "tokens_view \<Rightarrow> tokens_view" where
  "begin_tokens v = v\<lparr> tvLoading := True, tvError := None \<rparr>"

definition finish_tokens :: "load_reply \<Rightarrow> tokens_view \<Rightarrow> tokens_view" where
  "finish_tokens r v =
     (let caught = v\<lparr> tvError := Some (cannot_load ''session tokens''), tvLoading := False \<rparr>
      in case r of
           Inl _ \<Rightarrow> caught
         | Inr (status, _, body) \<Rightarrow>
             if \<not> ok_status status
             then v\<lparr> tvError := Some (friendlyFetchError status body ''session tokens''), tvData := JNull, tvLoading := False \<rparr>
             else (case body of Inl _ \<Rightarrow> caught | Inr b \<Rightarrow> v\<lparr> tvData := b, tvLoading := False \<rparr>))"

text \<open>The first load starts when the page is mounted; the button is off while one is under way.\<close>

inductive tokens_run :: "tokens_view \<Rightarrow> bool" where
  mounted: "tokens_run (begin_tokens \<lparr> tvData = JNull, tvError = None, tvLoading = False \<rparr>)"
| pressed: "tokens_run v \<Longrightarrow> \<not> tvLoading v \<Longrightarrow> tokens_run (begin_tokens v)"
| answered: "tokens_run v \<Longrightarrow> tvLoading v \<Longrightarrow> tokens_run (finish_tokens r v)"

text \<open>\<^verbatim>\<open>data?.chain ?? []\<close>; a chain is a list, as the web server sends it, and what is neither list nor text has no length.\<close>

definition session_chain :: "tokens_view \<Rightarrow> js list option" where
  "session_chain v = (let c = jget (tvData v) ''chain'' in if nullish (tvData v) \<or> nullish c then Some [] else as_arr c)"

definition tokens_body :: "int \<Rightarrow> tokens_view \<Rightarrow> dom list" where
  "tokens_body now v =
     (case given (tvError v) of Some m \<Rightarrow> [para [Txt m]] | None \<Rightarrow> [])
     @ shown_if (given (tvError v) = None \<and> session_chain v = Some [] \<and> \<not> tvLoading v)
         [para [Txt (''No tokens yet '' @ em_dash @ '' run a copilot request first, then refresh.'')]]
     @ (case session_chain v of
          Some (h # hs) \<Rightarrow> shown_if (given (tvError v) = None) [DelegationLedger now True (map hop_of (h # hs))]
        | _ \<Rightarrow> [])"

definition SessionTokensView :: "int \<Rightarrow> tokens_view \<Rightarrow> dom" where
  "SessionTokensView now v =
     box (box [box [icon ''ShieldAlert'',
                    para [Txt (''Every token available to this session right now '' @ em_dash @ '' the Curity-issued user access token ''
                      @ ''(hop 0) and each RFC'' @ [CHR 0xC2, CHR 0xA0] @ ''8693 exchanged token, diffed against the token it was exchanged ''
                      @ ''from. Raw JWTs are copyable under each hop. ''), El ''strong'' [] [Txt ''Debug-only.'']]],
               button (tvLoading v) [icon ''RefreshCw'', Txt ''Refresh'']]
          # tokens_body now v)"

datatype next_page = NotFoundPage | RedirectTo string | PageOf "dom list"

definition SessionTokensPage ::
  "(string \<Rightarrow> string option) \<Rightarrow> 'w web_deps \<Rightarrow> ('w, 'j, 'z, next_page) act" where
  "SessionTokensPage env W =
     (if \<not> auth_debug env then io_return NotFoundPage
      else io_bind (world_try (wbSession W)) (\<lambda>session.
        if \<not> truthy session then io_return (RedirectTo ''/'')
        else io_return (PageOf
          [El ''header'' []
             [El ''Link'' [(''href'', ''/'')] [icon ''ArrowLeft'', Txt ''Back to copilot''],
              box [box [icon ''KeyRound''], box [El ''h1'' [] [Txt ''Session tokens''], para [Txt ''Raw tokens available to this session'']]]],
           icon ''SessionTokensView''])))"

section \<open>What signing in asks for\<close>

lemma sign_in_as:
  "map_of (sign_in (signInAs p)) = [''scope'' \<mapsto> ''openid inspect:read llm:invoke'', ''acr_values'' \<mapsto> ''html-form'', ''prompt'' \<mapsto> ''login'', ''login_hint'' \<mapsto> peUsername p]"
  "map_of (sign_in sign_in_button_params) = [''scope'' \<mapsto> ''openid inspect:read llm:invoke'', ''acr_values'' \<mapsto> ''html-form'', ''prompt'' \<mapsto> ''login'']"
  "map_of (sign_in (step_up_params acr sc)) = [''scope'' \<mapsto> ''openid inspect:read llm:invoke '' @ sc, ''acr_values'' \<mapsto> acr, ''prompt'' \<mapsto> ''consent'']"
  by (auto simp: sign_in_def signInAs_def sign_in_button_params_def step_up_params_def authorization_params_def omap_simps)

definition scopes_asked :: "(string \<times> string) list \<Rightarrow> string set" where
  "scopes_asked params = (case map_of (sign_in params) ''scope'' of Some sc \<Rightarrow> set (split_on CHR '' '' sc) | None \<Rightarrow> {})"

text \<open>No login asks for the write scope; the step-up adds the one it was challenged for and keeps the others.\<close>

lemma scopes_of_sign_ins:
  "scopes_asked (signInAs p) = {''openid'', ''inspect:read'', ''llm:invoke''}"
  "scopes_asked sign_in_button_params = {''openid'', ''inspect:read'', ''llm:invoke''}"
  "scopes_asked (step_up_params acr sc) = scopes_asked (signInAs p) \<union> set (split_on CHR '' '' sc)"
  by (auto simp: scopes_asked_def sign_in_as)

section \<open>Links lead somewhere\<close>

fun hrefs :: "dom \<Rightarrow> string list" where
  "hrefs (Txt _) = []"
| "hrefs (El n as ks) = (case map_of as ''href'' of Some h \<Rightarrow> [h] | None \<Rightarrow> []) @ concat (map hrefs ks)"

fun ids_of :: "dom \<Rightarrow> string list" where
  "ids_of (Txt _) = []"
| "ids_of (El n as ks) = (case map_of as ''id'' of Some i \<Rightarrow> [i] | None \<Rightarrow> []) @ concat (map ids_of ks)"

lemma hrefs_countdown [simp]: "d \<in> set (TokenCountdown e now) \<Longrightarrow> hrefs d = []"
  by (auto simp: TokenCountdown_def Let_def split: option.splits if_splits)

lemma hrefs_menu: "set (hrefs (UserMenu nm email debug acr e now)) = (if debug then {''/tokens''} else {})"
  by (auto simp: UserMenu_def Let_def split: option.splits)

lemma hrefs_chips: "set (hrefs (CapabilityChips b)) = (if b then {''#identities'', ''#chain'', ''#ask'', ''#result''} else {})"
  by (auto simp: CapabilityChips_def capability_chip_def CAPABILITIES_def)

lemma hrefs_shell:
  "set (hrefs (AppShell env b n e a x now ks)) =
     {''https://github.com/curityio/ai-agents-auth-demo''} \<union> (if b then set (hrefs (CapabilityChips True)) else {})
     \<union> (if b \<and> auth_debug env then {''/tokens''} else {}) \<union> (\<Union>k \<in> set ks. set (hrefs k))"
  by (auto simp: AppShell_def SignInButton_def button_def hrefs_menu hrefs_chips)

text \<open>Whoever is shown the link to the session's tokens gets the page, and nobody else does.\<close>

theorem tokens_link_opens:
  assumes "wbSession W (world s) = (Inr session, w)" "''/tokens'' \<notin> (\<Union>k \<in> set ks. set (hrefs k))"
  shows "''/tokens'' \<in> set (hrefs (AppShell env (truthy session) n e a x now ks))
      \<longleftrightarrow> (\<exists>page t. SessionTokensPage env W s = (Inr (PageOf page), t))"
  using assms by (auto simp: hrefs_shell hrefs_chips SessionTokensPage_def io_bind_def io_return_def world_try_def)

lemma card_ids:
  "''ask'' \<in> set (ids_of (ask_card p asking))" "''identities'' \<in> set (ids_of (identities_card p now))"
  "chain_card p now = Inr d \<Longrightarrow> ''chain'' \<in> set (ids_of d)" "tools_card before p = Inr d \<Longrightarrow> ''tools'' \<in> set (ids_of d)"
  by (auto simp: ask_card_def identities_card_def chain_card_def tools_card_def pane_card_def Let_def sum_bind_Inr_iff split: if_splits option.splits)

lemma result_id: "ResultCard r a t g = Inr d \<Longrightarrow> ''result'' \<in> set (ids_of d)"
  by (auto simp: ResultCard_def sum_bind_Inr_iff)

text \<open>Every jump from the chips and the picture leads to a panel of the page, the chip of the answer once there is one.\<close>

theorem jumps_land:
  assumes "chat_view before g asking now p = Inr d"
  shows "\<forall>n \<in> set NODES. drop 1 (targetOf n) \<in> set (ids_of d)"
    "\<forall>c \<in> set CAPABILITIES. snd (snd c) = ''#result'' \<and> \<not> truthy (uiResponse (pgUi p)) \<or> drop 1 (snd (snd c)) \<in> set (ids_of d)"
proof -
  obtain middle chain tools where m: "outcome_part p g = Inr middle" "chain_card p now = Inr chain" "tools_card before p = Inr tools"
    and d: "d = box ([ask_card p asking] @ middle @ [identities_card p now, chain, tools])"
    using assms by (auto simp: chat_view_def sum_bind_Inr_iff)
  have panels: "{''ask'', ''identities'', ''chain'', ''tools''} \<subseteq> set (ids_of d)"
    using card_ids(1,2) card_ids(3) [OF m(2)] card_ids(4) [OF m(3)] unfolding d by auto
  then show "\<forall>n \<in> set NODES. drop 1 (targetOf n) \<in> set (ids_of d)" by (auto simp: targetOf_def)
  have "''result'' \<in> set (ids_of d)" if r: "truthy (uiResponse (pgUi p))"
  proof -
    obtain card where c: "ResultCard (uiResponse (pgUi p)) (uiAsked (pgUi p)) ''answer'' g = Inr card" "card \<in> set middle"
      using m(1) r by (auto simp: outcome_part_def Let_def sum_bind_Inr_iff result_card_def)
    show ?thesis using result_id [OF c(1)] c(2) unfolding d by auto
  qed
  then show "\<forall>c \<in> set CAPABILITIES. snd (snd c) = ''#result'' \<and> \<not> truthy (uiResponse (pgUi p)) \<or> drop 1 (snd (snd c)) \<in> set (ids_of d)"
    using panels by (auto simp: CAPABILITIES_def)
qed

lemma result_jump_before_an_answer:
  "case chat_view before g None now (fresh_page st) of Inr d \<Rightarrow> ''result'' \<notin> set (ids_of d) | Inl _ \<Rightarrow> False"
  by (simp add: page_view_eval fresh_page_def initial_ui_def closed_pane_def sum_bind_def SUGGESTION_GROUPS_def SUGGESTIONS_def can_hide_def given_def)

section \<open>The tokens on the screen\<close>

text \<open>An error is never blank, and none is kept while a load is under way.\<close>

definition tokens_ok :: "tokens_view \<Rightarrow> bool" where
  "tokens_ok v \<longleftrightarrow> tvError v \<noteq> Some [] \<and> (tvLoading v \<longrightarrow> tvError v = None)"

lemma tokens_run_ok: "tokens_run v \<Longrightarrow> tokens_ok v"
  by (induction rule: tokens_run.induct)
    (auto simp: tokens_ok_def begin_tokens_def finish_tokens_def Let_def cannot_load_def friendlyFetchError_def friendlyErrorMessage_def
          split: sum.splits prod.splits)

text \<open>
  The view of the session's tokens shows at most one thing, and exactly one when no load is under way: the failure, the
  note that there are none, or the ledger; never a token beside a failure.
\<close>

theorem tokens_view_shows_one:
  assumes "tokens_run v" "session_chain v \<noteq> None"
  shows "length (tokens_body now v) \<le> 1" "\<not> tvLoading v \<Longrightarrow> length (tokens_body now v) = 1"
    "tvError v = Some m \<Longrightarrow> tokens_body now v = [para [Txt m]]"
  using assms(2) tokens_run_ok [OF assms(1)]
  by (auto simp: tokens_body_def tokens_ok_def given_def split: option.splits list.splits)

text \<open>What the session callback hands to the page, the page reads back.\<close>

lemma asking_read_back: "asking_of (asking_js a) = Some a"
  by (cases "akSub a"; cases "akAcr a"; cases a) (simp_all add: asking_of_def asking_js_def o_def opt_js_def or_else_def js_string.simps)

end
