(* ===== verification/McpServer.thy ===== *)
theory McpServer
  imports McpInspect Bff
begin

text \<open>
  The two MCP servers as whole HTTP applications: \<^verbatim>\<open>server.ts\<close> and \<^verbatim>\<open>mcp-http.ts\<close> of \<^verbatim>\<open>apps/mcp-ops\<close> and
  \<^verbatim>\<open>apps/mcp-inspect\<close>. Express tries the routes in the order of their registration; the MCP SDK is a parameter.
\<close>

section \<open>Requests and routes\<close>

text \<open>Header names are in lower case, the path is without the query, the body is what \<^verbatim>\<open>express.json()\<close> parsed;
  a body it cannot parse is answered by Express before any route, so no request of this kind stands for it.\<close>

record http_in =
  hiMethod :: string
  hiPath :: string
  hiHeaders :: "(string \<times> string) list"
  hiQuery :: js
  hiBody :: js

text \<open>Express matches paths without regard to case and to one slash at the end; \<^verbatim>\<open>app.use\<close> also matches what is below.\<close>

definition path_is :: "string \<Rightarrow> string \<Rightarrow> bool" where
  "path_is pat path = (lower path = pat \<or> lower path = pat @ ''/'')"

definition path_below :: "string \<Rightarrow> string \<Rightarrow> bool" where
  "path_below pat path = (lower path = pat \<or> starts_with (pat @ ''/'') (lower path))"

text \<open>A route for GET requests (which also answers HEAD), or one mounted for every method and path below.\<close>

datatype 'r route = GetRoute string 'r | UseRoute string 'r

fun route_matches :: "http_in \<Rightarrow> 'r route \<Rightarrow> bool" where
  "route_matches q (GetRoute p r) = (hiMethod q \<in> {''GET'', ''HEAD''} \<and> path_is p (hiPath q))"
| "route_matches q (UseRoute p r) = path_below p (hiPath q)"

fun route_target :: "'r route \<Rightarrow> 'r" where
  "route_target (GetRoute p r) = r"
| "route_target (UseRoute p r) = r"

definition first_route :: "'r route list \<Rightarrow> http_in \<Rightarrow> 'r option" where
  "first_route rs q = map_option route_target (find (route_matches q) rs)"

definition header_of :: "http_in \<Rightarrow> string \<Rightarrow> string option" where
  "header_of q n = map_of (hiHeaders q) n"

section \<open>The MCP endpoint\<close>

text \<open>
  \<open>mhCall\<close>: the tool call, with arguments its schema accepts, that the SDK's handler makes for a request (none
  for anything else, and for callers of an older revision, which are refused); \<open>mhAnswer\<close>: what it answers, with what
  the tool gave; \<open>mhFinal\<close>: Express's answer to a request no route takes.
\<close>

record 'c mcp_host =
  mhCall :: "http_in \<Rightarrow> 'c option"
  mhAnswer :: "http_in \<Rightarrow> (exn + tool_result) option \<Rightarrow> http_res"
  mhFinal :: "http_in \<Rightarrow> http_res"

definition mcp_span_attrs :: "string \<Rightarrow> http_in \<Rightarrow> (string \<times> js) list" where
  "mcp_span_attrs url q =
     (case header_of q ''mcp-name'' of
        Some n \<Rightarrow> if jget (hiBody q) ''method'' = JStr ''tools/call''
                   then [(''mcp.tool'', JStr n), (''mcp.resource_metadata_url'', JStr url)] else []
      | None \<Rightarrow> [])"

text \<open>What a tool of the server built for this request runs with.\<close>

definition tool_context :: "auth_info option \<Rightarrow> auth_info" where
  "tool_context ai =
     (case ai of
        Some a \<Rightarrow> a
      | None \<Rightarrow> \<lparr> aiToken = [], aiClientId = [], aiScopes = [], aiSub = ''unknown'', aiRoles = [] \<rparr>)"

definition mcp_request_handler ::
  "'c mcp_host \<Rightarrow> string \<Rightarrow> (auth_info \<Rightarrow> 'c \<Rightarrow> ('w, 'j, 'z) mcp_proc_scheme \<Rightarrow> (exn + tool_result) \<times> ('w, 'j, 'z) mcp_proc_scheme)
   \<Rightarrow> auth_info option \<Rightarrow> http_in \<Rightarrow> ('w, 'j, 'z) mcp_proc_scheme \<Rightarrow> (exn + http_res) \<times> ('w, 'j, 'z) mcp_proc_scheme" where
  "mcp_request_handler H url run ai q =
     io_bind (if mcp_span_attrs url q = [] then io_return () else set_active_attrs (mcp_span_attrs url q)) (\<lambda>_.
       case mhCall H q of
         None \<Rightarrow> io_return (mhAnswer H q None)
       | Some c \<Rightarrow> io_bind (io_try (run (tool_context ai) c)) (\<lambda>r. io_return (mhAnswer H q (Some r))))"

text \<open>The router behind the middleware: POST to its root.\<close>

definition mcp_router ::
  "'c mcp_host \<Rightarrow> (string option \<Rightarrow> ('w, 'j, 'z) mcp_proc_scheme \<Rightarrow> (exn + auth_info gate) \<times> ('w, 'j, 'z) mcp_proc_scheme)
   \<Rightarrow> (auth_info option \<Rightarrow> http_in \<Rightarrow> ('w, 'j, 'z) mcp_proc_scheme \<Rightarrow> (exn + http_res) \<times> ('w, 'j, 'z) mcp_proc_scheme)
   \<Rightarrow> http_in \<Rightarrow> ('w, 'j, 'z) mcp_proc_scheme \<Rightarrow> (exn + http_res) \<times> ('w, 'j, 'z) mcp_proc_scheme" where
  "mcp_router H gate handler q =
     io_bind (gate (header_of q ''authorization'')) (\<lambda>g.
       case g of
         Respond res \<Rightarrow> io_return res
       | Next ai \<Rightarrow>
           if hiMethod q = ''POST'' \<and> path_is ''/mcp'' (hiPath q) then handler (Some ai) q else io_return (mhFinal H q))"

section \<open>The applications\<close>

datatype mcp_route = Healthz | SpiffeId | ResourceMetadata | McpEndpoint | LastToken

definition well_known_path :: string where
  "well_known_path = ''/.well-known/oauth-protected-resource''"

definition mcp_ops_routes :: "mcp_route route list" where
  "mcp_ops_routes =
     [GetRoute ''/healthz'' Healthz, GetRoute ''/spiffe-id'' SpiffeId, GetRoute well_known_path ResourceMetadata,
      UseRoute ''/mcp'' McpEndpoint, GetRoute ''/last-token'' LastToken]"

definition mcp_inspect_routes :: "mcp_route route list" where
  "mcp_inspect_routes =
     [GetRoute ''/healthz'' Healthz, GetRoute well_known_path ResourceMetadata, GetRoute ''/spiffe-id'' SpiffeId,
      UseRoute ''/mcp'' McpEndpoint, GetRoute ''/last-token'' LastToken]"

text \<open>\<^verbatim>\<open>s.replace(p, '')\<close>: the first occurrence.\<close>

fun remove_first :: "string \<Rightarrow> string \<Rightarrow> string" where
  "remove_first p [] = []"
| "remove_first p (c # s) = (if starts_with p (c # s) then drop (length p) (c # s) else c # remove_first p s)"

definition healthy :: "string \<Rightarrow> http_res" where
  "healthy service = answer 200 [] [(''ok'', JBool True), (''service'', JStr service)]"

definition last_token_route ::
  "('w, 'j) platform \<Rightarrow> verify_options \<Rightarrow> string \<Rightarrow> string \<Rightarrow> http_in
   \<Rightarrow> ('w, 'j, 'z) mcp_proc_scheme \<Rightarrow> (exn + http_res) \<times> ('w, 'j, 'z) mcp_proc_scheme" where
  "last_token_route P opts self api q =
     io_bind (last_token_auth opts (''['' @ self @ ''/last-token]'') P (header_of q ''authorization'')) (\<lambda>g.
       case g of Respond res \<Rightarrow> io_return res | Next _ \<Rightarrow> last_token_handler P self api (hiQuery q))"

definition mcp_ops_app ::
  "mcp_ops_config \<Rightarrow> ('w, 'j) platform \<Rightarrow> 'w file_reader \<Rightarrow> tool_call mcp_host \<Rightarrow> http_in
   \<Rightarrow> ('w, 'j, 'z) mcp_proc_scheme \<Rightarrow> (exn + http_res) \<times> ('w, 'j, 'z) mcp_proc_scheme" where
  "mcp_ops_app cfg P readFile H q =
     (case first_route mcp_ops_routes q of
        None \<Rightarrow> io_return (mhFinal H q)
      | Some Healthz \<Rightarrow> io_return (healthy ''mcp-ops'')
      | Some SpiffeId \<Rightarrow> spiffe_route P readFile
      | Some ResourceMetadata \<Rightarrow>
          io_return \<lparr> rStatus = 200, rHeaders = [], rBody =
            buildResourceMetadata (remove_first well_known_path (moResourceMetadataUrl cfg)) (moIssuer cfg) [''ops:write''] (Some [moRequiredAcr cfg]) \<rparr>
      | Some McpEndpoint \<Rightarrow>
          mcp_router H (mcp_ops_auth cfg P)
            (mcp_request_handler H (moResourceMetadataUrl cfg) (run_tool cfg P readFile)) q
      | Some LastToken \<Rightarrow> last_token_route P (mcp_ops_opts cfg) ''mcp-ops'' ''ops-api'' q)"

definition mcp_inspect_app ::
  "mcp_inspect_config \<Rightarrow> ('w, 'j) platform \<Rightarrow> 'w file_reader \<Rightarrow> (http_rsp \<Rightarrow> string option) \<Rightarrow> read_tool mcp_host \<Rightarrow> http_in
   \<Rightarrow> ('w, 'j, 'z) mcp_proc_scheme \<Rightarrow> (exn + http_res) \<times> ('w, 'j, 'z) mcp_proc_scheme" where
  "mcp_inspect_app cfg P readFile text_of H q =
     (case first_route mcp_inspect_routes q of
        None \<Rightarrow> io_return (mhFinal H q)
      | Some Healthz \<Rightarrow> io_return (healthy ''mcp-inspect'')
      | Some SpiffeId \<Rightarrow> spiffe_route P readFile
      | Some ResourceMetadata \<Rightarrow>
          io_return \<lparr> rStatus = 200, rHeaders = [], rBody =
            buildResourceMetadata (remove_first well_known_path (miResourceMetadataUrl cfg)) (miIssuer cfg) (miRequiredScopes cfg) None \<rparr>
      | Some McpEndpoint \<Rightarrow>
          mcp_router H (mcp_inspect_auth cfg P)
            (mcp_request_handler H (miResourceMetadataUrl cfg) (run_read_tool cfg P readFile text_of)) q
      | Some LastToken \<Rightarrow> last_token_route P (mcp_inspect_opts cfg) ''mcp-inspect'' ''inspect-api'' q)"

lemmas mcp_server_eval [eval_simps] = path_is_def path_below_def first_route_def header_of_def mcp_span_attrs_def tool_context_def
  mcp_request_handler_def mcp_router_def well_known_path_def mcp_ops_routes_def mcp_inspect_routes_def healthy_def
  last_token_route_def mcp_ops_app_def mcp_inspect_app_def

section \<open>Behind the gate\<close>

lemma middleware_next:
  assumes "bearer_middleware P missing opts on_verified on_err tag h s = (Inr (Next n), u)"
  shows "\<exists>tok v t. bearer_of h = Some tok \<and> verifyJwt P tok opts s = (Inr v, t) \<and> on_verified tok v t = (Inr (Next n), u)"
proof -
  obtain tok where tok: "bearer_of h = Some tok"
    using assms by (auto simp: bearer_middleware_def io_return_def split: option.splits)
  obtain x t where v: "verifyJwt P tok opts s = (x, t)" by fastforce
  show ?thesis
  proof (cases x)
    case (Inl e)
    then show ?thesis using assms tok v
      by (cases e) (auto simp: bearer_middleware_def io_catch_def io_bind_def io_return_def emit_def)
  next
    case (Inr a)
    obtain y t' where o: "on_verified tok a t = (y, t')" by fastforce
    show ?thesis
    proof (cases y)
      case (Inl e)
      then show ?thesis using assms tok v Inr o
        by (cases e) (auto simp: bearer_middleware_def io_catch_def io_bind_def io_return_def emit_def)
    next
      case Inr': (Inr b)
      then show ?thesis using assms tok v Inr o by (simp add: bearer_middleware_def io_catch_def io_bind_def)
    qed
  qed
qed

lemma mcp_ops_next:
  assumes "mcp_ops_auth cfg P h s = (Inr (Next ai), u)"
  shows "\<exists>tok v t. bearer_of h = Some tok \<and> verifyJwt P tok (mcp_ops_opts cfg) s = (Inr v, t) \<and> mcp_ops_grants cfg v
    \<and> ai = mcp_ops_auth_info tok v"
proof -
  from middleware_next [OF assms [unfolded mcp_ops_auth_def]] obtain tok v t where
    "bearer_of h = Some tok" "verifyJwt P tok (mcp_ops_opts cfg) s = (Inr v, t)"
    "decorate_then (mcp_ops_decide cfg) mcp_ops_auth_info tok v t = (Inr (Next ai), u)" by blast
  moreover from this(3) have "mcp_ops_decide cfg v = None" "ai = mcp_ops_auth_info tok v"
    by (auto simp: decorate_then_def io_bind_Inr io_return_def split: option.splits)
  ultimately show ?thesis using mcp_ops_decide_None by blast
qed

lemma mcp_inspect_next:
  assumes "mcp_inspect_auth cfg P h s = (Inr (Next ai), u)"
  shows "\<exists>tok v t. bearer_of h = Some tok \<and> verifyJwt P tok (mcp_inspect_opts cfg) s = (Inr v, t) \<and> mcp_inspect_grants cfg v
    \<and> ai = mcp_inspect_auth_info tok v"
proof -
  from middleware_next [OF assms [unfolded mcp_inspect_auth_def]] obtain tok v t where
    "bearer_of h = Some tok" "verifyJwt P tok (mcp_inspect_opts cfg) s = (Inr v, t)"
    "mcp_inspect_verified cfg tok v t = (Inr (Next ai), u)" by blast
  moreover from this(3) have "mcp_inspect_decide cfg v = None" "ai = mcp_inspect_auth_info tok v"
    by (auto simp: mcp_inspect_verified_def io_bind_Inr io_return_def split: option.splits)
  ultimately show ?thesis using mcp_inspect_decide_None by blast
qed

subsection \<open>What leaves the process\<close>

text \<open>Nothing leaves, not even through the key sets.\<close>

definition no_send :: "effect \<Rightarrow> bool" where
  "no_send x = (no_request x \<and> keys_from {} x)"

lemma no_send_simps [simp]:
  "\<not> no_send (Request q)" "\<not> no_send (KeySet u)" "no_send (Console l)" "no_send (ConsoleError l)"
  "no_send (SpanStart n as)" "no_send (SpanAttrs as)" "no_send SpanStatusOk" "no_send (SpanStatusError m)"
  "no_send (SpanException e)" "no_send SpanEnd" "no_send (K8sCall op args)"
  by (simp_all add: no_send_def)

lemma no_send_none: "list_all no_send es \<Longrightarrow> requests es = [] \<and> key_sets es = []"
  using no_request_requests keys_from_sets [of "{}" es] by (auto simp: no_send_def list_all_iff)

text \<open>Every request satisfies \<open>Q\<close>, and no key set is consulted.\<close>

definition sends :: "(http_req \<Rightarrow> bool) \<Rightarrow> effect list \<Rightarrow> bool" where
  "sends Q es = (list_all Q (requests es) \<and> key_sets es = [])"

lemma sends_simps [simp]: "sends Q []" "sends Q (es @ fs) = (sends Q es \<and> sends Q fs)" "sends Q [Request q] = Q q"
  by (auto simp: sends_def)

lemma sends_quiet: "emits no_send m \<Longrightarrow> does m (\<lambda>es r. sends Q es)"
  unfolding emits_def by (erule does_conseq) (simp add: sends_def no_send_none)

lemma sends_bind: "does m (\<lambda>es r. sends Q es) \<Longrightarrow> (\<And>a. does (f a) (\<lambda>es r. sends Q es)) \<Longrightarrow> does (io_bind m f) (\<lambda>es r. sends Q es)"
  by (rule does_conseq [OF does_bind]) auto

lemma sends_catch: "does m (\<lambda>es r. sends Q es) \<Longrightarrow> (\<And>e. does (h e) (\<lambda>es r. sends Q es)) \<Longrightarrow> does (io_catch m h) (\<lambda>es r. sends Q es)"
  by (rule does_conseq [OF does_catch]) auto

lemma sends_try: "does m (\<lambda>es r. sends Q es) \<Longrightarrow> does (io_try m) (\<lambda>es r. sends Q es)"
  by (auto simp: does_def io_try_def split: prod.splits)

lemma getSvid_silent: "emits p (getSvid P readFile src aud)"
  unfolding getSvid_def by (auto intro!: emits_intros split: option.splits)

lemma remember_silent: "emits p (remember_exchange sub tok now)"
  by (simp add: emits_def does_def remember_exchange_def)

lemma does_conj:
  assumes "does m Q" "does m R"
  shows "does m (\<lambda>es r. Q es r \<and> R es r)"
proof (rule doesI)
  fix s r t assume h: "m s = (r, t)"
  show "\<exists>es. out t = out s @ es \<and> Q es r \<and> R es r"
    using doesD [OF assms(1) h] doesD [OF assms(2) h] by auto
qed

lemma exchange_no_keys: "emits (keys_from {}) (exchangeToken P x)"
proof -
  have c: "emits (keys_from {}) (client_part P x)"
    unfolding client_part_def buildClientAssertion_def Let_def
    by (auto intro!: emits_intros split: client_auth.splits)
  have d: "emits (keys_from {}) (dpop_part P x)"
    unfolding dpop_part_def createDpopProof_def by (auto intro!: emits_intros split: option.splits)
  have n: "emits (keys_from {}) (store_nonce x rsp)" for rsp
    by (auto simp: store_nonce_def emits_def does_def io_return_def io_modify_def split: option.splits)
  have s: "emits (keys_from {}) (sendExchange P x)"
    unfolding sendExchange_def
    by (auto intro!: emits_intros c d n split: prod.splits)
  have g: "emits (keys_from {}) (granted P x rsp)" for rsp
    unfolding granted_def by (cases "pJson rsp") (auto intro!: emits_intros)
  have "emits (keys_from {}) (doExchange P x)"
    unfolding doExchange_def by (intro emits_intros s g)
  then show ?thesis unfolding exchangeToken_def logDenial_def
    by (auto intro!: emits_intros)
qed

lemma sends_exchange: "does (exchangeToken P x) (\<lambda>es r. sends (\<lambda>q. qUrl q = xTokenEndpoint x) es)"
  by (rule does_conseq [OF does_conj [OF does_exchangeToken exchange_no_keys [unfolded emits_def]]])
    (auto simp: attempt_trace_def sends_def exchange_request_def list_all_iff [of _ "requests _"] dest: keys_from_sets)

lemma sends_obtain:
  assumes "\<And>svid q. qUrl q = xTokenEndpoint (x svid) \<Longrightarrow> Q q"
  shows "does (obtain_token P readFile x subject) (\<lambda>es r. sends Q es)"
proof -
  have x: "does (exchangeToken P (x (svJwt sv))) (\<lambda>es r. sends Q es)" for sv
    by (rule does_conseq [OF sends_exchange]) (auto simp: sends_def list_all_iff assms)
  have "does (case v of
         None \<Rightarrow> io_throw (CurityAuthError m InvalidActor)
       | Some sv \<Rightarrow>
           io_bind (exchangeToken P (x (svJwt sv))) (\<lambda>r.
           io_bind (world_get (dateNow P)) (\<lambda>now.
           io_bind (remember_exchange subject (xrAccessToken r) now) (\<lambda>_.
             io_return (xrAccessToken r))))) (\<lambda>es r. sends Q es)" for v :: "svid option" and m
  proof (cases v)
    case None
    then show ?thesis by (simp add: sends_quiet emits_intros)
  next
    case (Some sv)
    then show ?thesis by (simp add: sends_bind x sends_quiet remember_silent emits_intros)
  qed
  then show ?thesis unfolding obtain_token_def by (rule sends_bind [OF sends_quiet [OF getSvid_silent]])
qed

text \<open>Where a tool of the write server may send anything.\<close>

definition ops_targets :: "mcp_ops_config \<Rightarrow> string set" where
  "ops_targets cfg =
     {moTokenEndpoint cfg, moOpsApiUrl cfg, opsApiBase cfg @ ''/set-image'', opsApiBase cfg @ ''/scale''}"

lemma sends_post: "Q url \<Longrightarrow> does (postJson P url bearer body) (\<lambda>es r. sends (\<lambda>q. Q (qUrl q)) es)"
  unfolding postJson_def
  by (rule sends_bind [OF does_conseq [OF does_http_fetch]]) (auto intro!: sends_quiet emits_intros)

lemma sends_ops_call: "does (callOpsApi cfg P bearer call) (\<lambda>es r. sends (\<lambda>q. qUrl q \<in> ops_targets cfg) es)"
  unfolding callOpsApi_def Let_def
  by (cases call; simp; intro sends_bind sends_quiet sends_post [of "\<lambda>u. u \<in> ops_targets cfg"] emits_intros; simp add: ops_targets_def)

lemma sends_run_tool: "does (run_tool cfg P readFile ctx call) (\<lambda>es r. sends (\<lambda>q. may_call cfg ctx call \<and> qUrl q \<in> ops_targets cfg) es)"
proof (cases "may_call cfg ctx call")
  case False
  then obtain d where "roleGate cfg ctx (tool_name call) = Some d" using roleGate_None [of cfg ctx call] by auto
  then show ?thesis
    by (simp add: run_tool_def Let_def) (intro sends_quiet emits_intros; simp)
next
  case True
  let ?S = "\<lambda>es (r :: exn + _). sends (\<lambda>q. qUrl q \<in> ops_targets cfg) es"
  have o: "does (obtainOpsApiToken cfg P readFile tok) ?S" for tok
    unfolding obtainOpsApiToken_def by (rule sends_obtain) (simp add: hop_params_def ops_targets_def)
  have body: "does (io_catch
      (io_bind (obtainOpsApiToken cfg P readFile (aiToken ctx)) (\<lambda>bearer.
       io_bind (callOpsApi cfg P bearer c) (\<lambda>result. io_return \<lparr> trValue = result, trIsError = False \<rparr>)))
      (\<lambda>e. io_return (tool_error (failure_code c) (failure_message e)))) ?S" for c
    by (intro sends_catch sends_bind [OF o] sends_bind [OF sends_ops_call]) (intro sends_quiet emits_intros)+
  have g: "roleGate cfg ctx (tool_name call) = None" using True roleGate_None by blast
  show ?thesis using True
    by (simp add: run_tool_def Let_def g) (rule sends_bind [OF sends_quiet [OF emits_oboLog] body]; simp)
qed

lemma sends_handler:
  assumes "\<And>c. mhCall H q = Some c \<Longrightarrow> does (run (tool_context ai) c) (\<lambda>es r. sends Q es)"
  shows "does (mcp_request_handler H url run ai q) (\<lambda>es r. sends (\<lambda>x. mhCall H q \<noteq> None \<and> Q x) es)"
proof (cases "mhCall H q")
  case None
  then show ?thesis by (auto simp: mcp_request_handler_def intro!: sends_quiet emits_intros)
next
  case (Some c)
  have "emits no_request (if b then io_return () else set_active_attrs as)" for b as
    by (auto intro!: emits_intros)
  then show ?thesis using assms [OF Some]
    by (simp add: mcp_request_handler_def Some)
      (intro conjI impI sends_bind sends_try; (assumption | (rule sends_quiet; intro emits_intros; simp)))
qed

lemma other_routes_silent:
  "emits p (spiffe_route P readFile)"
  "(\<And>l. p (ConsoleError l)) \<Longrightarrow> (\<And>uri. voJwksUri opts = Some uri \<Longrightarrow> p (KeySet uri)) \<Longrightarrow> emits p (last_token_route P opts self api q)"
proof -
  show "emits p (spiffe_route P readFile)"
    unfolding spiffe_route_def by (intro emits_intros getSvid_silent)
  have h: "emits p (last_token_handler P self api query)" for query
    by (simp add: emits_def does_def last_token_handler_def)
  assume p: "\<And>l. p (ConsoleError l)" "\<And>uri. voJwksUri opts = Some uri \<Longrightarrow> p (KeySet uri)"
  have "emits p (last_token_auth opts tag P h)" for tag h
    unfolding last_token_auth_def using p by (intro emits_intros) simp_all
  then show "emits p (last_token_route P opts self api q)"
    unfolding last_token_route_def by (intro emits_intros) (auto intro!: emits_intros h split: gate.splits)
qed

lemma gates_silent: "emits no_request (mcp_ops_auth cfg P h)" "emits no_request (mcp_inspect_auth cfg' P h)"
  unfolding mcp_ops_auth_def mcp_inspect_auth_def mcp_inspect_verified_def decorateSpanWithIdentity_def
  by (auto intro!: emits_intros split: option.splits)

lemma gates_keys: "emits (keys_from {moJwksUri cfg}) (mcp_ops_auth cfg P h)" "emits (keys_from {miJwksUri cfg'}) (mcp_inspect_auth cfg' P h)"
  unfolding mcp_ops_auth_def mcp_inspect_auth_def mcp_inspect_verified_def decorateSpanWithIdentity_def
  by (auto intro!: emits_intros simp: mcp_ops_opts_def mcp_inspect_opts_def split: option.splits)

text \<open>
  The common shape of both servers: nothing is sent unless the request is a POST to the MCP endpoint that the gate
  let through, and then only what the tool called sends; the only key set consulted is the gate's.
\<close>

lemma emits_both:
  assumes "emits no_request m" "emits (keys_from U) m" "m s = (r, t)"
  shows "\<exists>es. out t = out s @ es \<and> requests es = [] \<and> set (key_sets es) \<subseteq> U"
  using doesD [OF does_conj [OF assms(1,2) [unfolded emits_def]] assms(3)] no_request_requests keys_from_sets by blast

lemma router_sends:
  assumes "mcp_router H gate handler q s = (r, t)" "\<And>h. emits no_request (gate h)" "\<And>h. emits (keys_from U) (gate h)"
    and "\<And>ai. does (handler (Some ai) q) (\<lambda>es r. sends (Q ai) es)"
  shows "\<exists>es. out t = out s @ es \<and> set (key_sets es) \<subseteq> U \<and> (requests es = [] \<or> (hiMethod q = ''POST'' \<and> path_is ''/mcp'' (hiPath q)
    \<and> (\<exists>ai u. gate (header_of q ''authorization'') s = (Inr (Next ai), u) \<and> list_all (Q ai) (requests es))))"
proof -
  obtain g u where g: "gate (header_of q ''authorization'') s = (g, u)" by fastforce
  obtain es where es: "out u = out s @ es" "requests es = []" "set (key_sets es) \<subseteq> U"
    using emits_both [OF assms(2,3) g] by blast
  consider e where "g = Inl e" | res where "g = Inr (Respond res)" | ai where "g = Inr (Next ai)"
    by (metis gate.exhaust sum.exhaust)
  then show ?thesis
  proof cases
    case 1
    then show ?thesis using assms(1) g es by (auto simp: mcp_router_def io_bind_def)
  next
    case 2
    then show ?thesis using assms(1) g es by (auto simp: mcp_router_def io_bind_def io_return_def)
  next
    case (3 ai)
    show ?thesis
    proof (cases "hiMethod q = ''POST'' \<and> path_is ''/mcp'' (hiPath q)")
      case True
      then have "handler (Some ai) q u = (r, t)" using assms(1) g 3 by (simp add: mcp_router_def io_bind_def)
      then obtain fs where "out t = out u @ fs" "sends (Q ai) fs" using doesD [OF assms(4)] by blast
      then show ?thesis using True g 3 es by (intro exI [of _ "es @ fs"]) (auto simp: sends_def)
    next
      case False
      then show ?thesis using assms(1) g 3 es by (auto simp: mcp_router_def io_bind_def io_return_def)
    qed
  qed
qed

lemma silent_result: "m s = (r, t) \<Longrightarrow> emits no_request m \<Longrightarrow> \<exists>es. out t = out s @ es \<and> requests es = []"
  using doesD [OF does_quiet] by blast

text \<open>Without a bearer token the gates answer at once.\<close>

lemma unauthorized_quiet:
  assumes "mcp_ops_app cfg P readFile H q s = (r, t)" "bearer_of (header_of q ''authorization'') = None"
    "first_route mcp_ops_routes q \<in> {Some McpEndpoint, Some LastToken}"
  shows "out t = out s"
  using assms by (auto simp: mcp_ops_app_def mcp_router_def last_token_route_def last_token_auth_def mcp_ops_auth_def
      bearer_middleware_def io_bind_def io_return_def)

lemma admitted_call:
  assumes "mcp_ops_auth cfg P h s = (Inr (Next ai), u)" "may_call cfg ai call"
  shows "\<exists>tok v u. bearer_of h = Some tok \<and> verifyJwt P tok (mcp_ops_opts cfg) s = (Inr v, u) \<and> mcp_ops_grants cfg v
    \<and> (tool_roles cfg (tool_name call) = [] \<or> set (tool_roles cfg (tool_name call)) \<inter> set (readRoles (vPayload v)) \<noteq> {})"
proof -
  from mcp_ops_next [OF assms(1)] obtain tok v t' where v: "bearer_of h = Some tok"
    "verifyJwt P tok (mcp_ops_opts cfg) s = (Inr v, t')" "mcp_ops_grants cfg v" "ai = mcp_ops_auth_info tok v" by blast
  have "aiRoles ai = readRoles (vPayload v)" by (simp add: v(4) mcp_ops_auth_info_def Let_def)
  then show ?thesis using v(1-3) assms(2) by (auto simp: may_call_def)
qed

lemma other_routes_keys:
  assumes "mcp_ops_app cfg P readFile H q s = (r, t)" "first_route mcp_ops_routes q \<noteq> Some McpEndpoint"
  shows "\<exists>es. out t = out s @ es \<and> requests es = [] \<and> set (key_sets es) \<subseteq> {moJwksUri cfg}
    \<and> (first_route mcp_ops_routes q \<noteq> Some LastToken \<longrightarrow> key_sets es = [])"
proof (cases "first_route mcp_ops_routes q = Some LastToken")
  case True
  then have "last_token_route P (mcp_ops_opts cfg) ''mcp-ops'' ''ops-api'' q s = (r, t)" using assms(1) by (simp add: mcp_ops_app_def)
  from emits_both [OF other_routes_silent(2) other_routes_silent(2) this, of "{moJwksUri cfg}"] show ?thesis
    using True by (auto simp: mcp_ops_opts_def)
next
  case False
  have "\<exists>es. out t = out s @ es \<and> requests es = [] \<and> key_sets es = []" if "spiffe_route P readFile s = (r, t)"
    using emits_both [OF other_routes_silent(1) other_routes_silent(1) that, of "{}"] by auto
  then show ?thesis using assms False
    by (auto simp: mcp_ops_app_def io_return_def split: option.splits mcp_route.splits)
qed

text \<open>
  C15. The write path's MCP server as a whole: whatever HTTP request arrives, at whatever route, the program makes a
  request of its own only for a POST to its MCP endpoint whose bearer token verified and is granted by the policy
  (scopes, actor chain, authentication class), which the SDK takes for a tool call, and whose token's own roles allow
  that tool; and then only to the authorization server's token endpoint and to the three write operations of the API.
  The verifier may also download a key set, the one at the configured URI and no other, and only for a request to the
  MCP endpoint or the debug route that has a bearer token. Health, identity and metadata routes cause neither.
\<close>

theorem mcp_ops_server_gated:
  assumes "mcp_ops_app cfg P readFile H q s = (r, t)"
  shows "\<exists>es. out t = out s @ es \<and> set (key_sets es) \<subseteq> {moJwksUri cfg}
    \<and> (first_route mcp_ops_routes q \<notin> {Some McpEndpoint, Some LastToken} \<or> bearer_of (header_of q ''authorization'') = None
         \<longrightarrow> key_sets es = [])
    \<and> (requests es = [] \<or>
    (\<exists>tok v u call. hiMethod q = ''POST'' \<and> path_is ''/mcp'' (hiPath q)
      \<and> bearer_of (header_of q ''authorization'') = Some tok \<and> verifyJwt P tok (mcp_ops_opts cfg) s = (Inr v, u)
      \<and> mcp_ops_grants cfg v \<and> mhCall H q = Some call
      \<and> (tool_roles cfg (tool_name call) = [] \<or> set (tool_roles cfg (tool_name call)) \<inter> set (readRoles (vPayload v)) \<noteq> {})
      \<and> (\<forall>x \<in> set (requests es). qUrl x \<in>
            {moTokenEndpoint cfg, moOpsApiUrl cfg, opsApiBase cfg @ ''/set-image'', opsApiBase cfg @ ''/scale''})))"
proof (cases "bearer_of (header_of q ''authorization'') = None \<and> first_route mcp_ops_routes q \<in> {Some McpEndpoint, Some LastToken}")
  case True
  then show ?thesis using unauthorized_quiet [OF assms] by auto
next
  case bearer: False
  show ?thesis
  proof (cases "first_route mcp_ops_routes q = Some McpEndpoint")
    case True
    define Q where "Q ai x = (mhCall H q \<noteq> None \<and> may_call cfg ai (the (mhCall H q)) \<and> qUrl x \<in> ops_targets cfg)" for ai and x :: http_req
    have h: "does (mcp_request_handler H (moResourceMetadataUrl cfg) (run_tool cfg P readFile) (Some ai) q) (\<lambda>es r. sends (Q ai) es)" for ai
      by (rule does_conseq [OF sends_handler [where Q = "\<lambda>x. may_call cfg ai (the (mhCall H q)) \<and> qUrl x \<in> ops_targets cfg"]])
         (auto simp: Q_def [abs_def] tool_context_def intro: sends_run_tool)
    from True have "mcp_router H (mcp_ops_auth cfg P) (mcp_request_handler H (moResourceMetadataUrl cfg) (run_tool cfg P readFile)) q s = (r, t)"
      using assms by (simp add: mcp_ops_app_def)
    from router_sends [OF this gates_silent(1) gates_keys(1) h] obtain es where es: "out t = out s @ es" "set (key_sets es) \<subseteq> {moJwksUri cfg}"
      "requests es = [] \<or> (hiMethod q = ''POST'' \<and> path_is ''/mcp'' (hiPath q)
         \<and> (\<exists>ai u. mcp_ops_auth cfg P (header_of q ''authorization'') s = (Inr (Next ai), u) \<and> list_all (Q ai) (requests es)))" by blast
    show ?thesis
    proof (cases "requests es = []")
      case False
      then obtain ai u where a: "hiMethod q = ''POST''" "path_is ''/mcp'' (hiPath q)"
        "mcp_ops_auth cfg P (header_of q ''authorization'') s = (Inr (Next ai), u)" "list_all (Q ai) (requests es)" using es(3) by blast
      have all: "\<forall>x \<in> set (requests es). Q ai x" using a(4) by (simp add: list_all_iff)
      then obtain call where c: "mhCall H q = Some call" "may_call cfg ai call" using False by (cases "requests es") (auto simp: Q_def)
      have "\<forall>x \<in> set (requests es). qUrl x \<in> ops_targets cfg" using all by (simp add: Q_def)
      then show ?thesis using a(1,2) es(1,2) admitted_call [OF a(3) c(2)] c(1) bearer True unfolding ops_targets_def by blast
    qed (use es(1,2) bearer True in blast)
  next
    case False
    then show ?thesis using other_routes_keys [OF assms] bearer by blast
  qed
qed

text \<open>A caller whose token is admitted, asking for a restart: requests do leave.\<close>

definition bare_post :: "string \<Rightarrow> http_in" where
  "bare_post path = \<lparr> hiMethod = ''POST'', hiPath = path, hiHeaders = [], hiQuery = JUndef, hiBody = JUndef \<rparr>"

definition served :: "(int, string) platform" where
  "served = fixture two_step_net (\<lambda>t. if t = ''tok'' then Some fixture_mcp_ops_claims else Some (JObj []))"

definition bearer_post :: http_in where
  "bearer_post = (bare_post ''/mcp'')\<lparr> hiHeaders := [(''authorization'', ''Bearer tok'')] \<rparr>"

lemma served_verifies:
  "\<exists>t. verifyJwt served ''tok'' (mcp_ops_opts fixture_mcp_ops_config) (idle_mcp 0) = (Inr (fixture_verified fixture_mcp_ops_claims), t)"
  by (simp add: served_def fixture_verified_def idle_mcp_def mcp_ops_opts_def fixture_mcp_ops_config_def eval_simps del: verified_of_def)

lemma served_admits:
  "\<exists>u ai. mcp_ops_auth fixture_mcp_ops_config served (Some ''Bearer tok'') (idle_mcp 0) = (Inr (Next ai), u)"
  using mcp_ops_gate.next_iff [of fixture_mcp_ops_config served "Some ''Bearer tok''" "idle_mcp 0"] served_verifies fixture_mcp_ops_grants
  fixture_bearer by blast

lemma served_ai: "aiRoles (mcp_ops_auth_info tok (fixture_verified fixture_mcp_ops_claims)) = [''sre'']"
  by (simp add: mcp_ops_auth_info_def Let_def fixture_claims_facts) (simp add: fixture_mcp_ops_claims_def fixture_claims_def readRoles_def js_string.simps)

lemma served_tool: "aiRoles ai = [''sre''] \<Longrightarrow> requests (out (snd (run_tool fixture_mcp_ops_config served (\<lambda>_ w. (Inr ''svid'', w)) ai
        (RestartCall ''order-service'' None None) u))) \<noteq> []"
  by (simp add: eval_simps two_step_net_def served_def fixture_mcp_ops_config_def del: formatOboLog_def mcp_server_eval)

definition tool_host :: "tool_call mcp_host" where
  "tool_host = \<lparr> mhCall = (\<lambda>_. Some (RestartCall ''order-service'' None None)), mhAnswer = (\<lambda>_ _. answer 200 [] []), mhFinal = (\<lambda>_. answer 404 [] []) \<rparr>"

lemma snd_mcp_request_handler:
  "mcp_span_attrs url q = [] \<Longrightarrow> mhCall H q = Some c \<Longrightarrow> snd (mcp_request_handler H url run ai q s) = snd (run (tool_context ai) c s)"
  by (simp add: mcp_request_handler_def io_bind_def io_return_def io_try_def split: prod.splits sum.splits)

lemma served_requests:
  "requests (out (snd (mcp_ops_app fixture_mcp_ops_config served (\<lambda>_ w. (Inr ''svid'', w)) tool_host bearer_post (idle_mcp 0)))) \<noteq> []"
proof -
  obtain u ai where a: "mcp_ops_auth fixture_mcp_ops_config served (Some ''Bearer tok'') (idle_mcp 0) = (Inr (Next ai), u)"
    using served_admits by blast
  then have roles: "aiRoles ai = [''sre'']"
    using mcp_ops_next [OF a] served_verifies served_ai fixture_bearer by auto
  have r: "first_route mcp_ops_routes bearer_post = Some McpEndpoint" "path_is ''/mcp'' ''/mcp''"
    by (simp_all add: bearer_post_def bare_post_def eval_simps)
  have h: "header_of bearer_post ''authorization'' = Some ''Bearer tok''" "mcp_span_attrs url bearer_post = []"
    "mhCall tool_host bearer_post = Some (RestartCall ''order-service'' None None)" "hiMethod bearer_post = ''POST''"
    "hiPath bearer_post = ''/mcp''" for url
    by (simp_all add: bearer_post_def bare_post_def header_of_def mcp_span_attrs_def tool_host_def)
  show ?thesis using a r h(4,5) served_tool [OF roles]
    by (simp add: mcp_ops_app_def mcp_router_def io_bind_def h(1) snd_mcp_request_handler h(2,3) tool_context_def)
qed

theorem mcp_ops_server_gated_witness:
  "requests (out (snd (mcp_ops_app fixture_mcp_ops_config served (\<lambda>_ w. (Inr ''svid'', w)) tool_host bearer_post (idle_mcp 0)))) \<noteq> []
    \<and> (\<exists>v u. verifyJwt served ''tok'' (mcp_ops_opts fixture_mcp_ops_config) (idle_mcp 0) = (Inr v, u)
        \<and> mcp_ops_grants fixture_mcp_ops_config v)"
proof -
  have "bearer_of (header_of bearer_post ''authorization'') = Some ''tok''" "out (idle_mcp 0) = []"
    using fixture_bearer by (simp_all add: bearer_post_def header_of_def idle_mcp_def)
  then show ?thesis using served_requests
      mcp_ops_server_gated [OF prod.collapse [symmetric], of fixture_mcp_ops_config served
        "\<lambda>_ w. (Inr ''svid'', w)" tool_host bearer_post "idle_mcp 0"] by auto
qed
text \<open>The read path's server likewise; its tools send to the token endpoint and below the API's base.\<close>

lemma read_url_base: "\<exists>rest. read_url base call = base @ rest"
  by (cases call) (auto simp: read_url_def)

lemma sends_read_tool:
  "does (run_read_tool cfg P readFile text_of ctx tool)
     (\<lambda>es r. sends (\<lambda>q. qUrl q = miTokenEndpoint cfg \<or> (\<exists>rest. qUrl q = miInspectApiBaseUrl cfg @ rest)) es)"
proof -
  let ?Q = "\<lambda>q :: http_req. qUrl q = miTokenEndpoint cfg \<or> (\<exists>rest. qUrl q = miInspectApiBaseUrl cfg @ rest)"
  let ?S = "\<lambda>es (r :: exn + _). sends ?Q es"
  have o: "does (obtainInspectApiToken cfg P readFile tok) ?S" for tok
    unfolding obtainInspectApiToken_def by (rule sends_obtain) (simp add: hop_params_def)
  have g: "does (getJson P text_of (read_url (miInspectApiBaseUrl cfg) call) bearer) ?S" for call bearer
    unfolding getJson_def using read_url_base [of "miInspectApiBaseUrl cfg" call]
    by (intro sends_bind [OF does_conseq [OF does_http_fetch]]) (auto simp: Let_def intro!: sends_quiet emits_intros)
  have c: "does (callInspectApi cfg P text_of bearer call) ?S" for bearer call
    unfolding callInspectApi_def Let_def by (rule sends_bind [OF sends_quiet [OF emits_oboLog] g]) simp
  have body: "does (io_catch
      (io_bind (obtainInspectApiToken cfg P readFile (aiToken ctx)) (\<lambda>bearer.
       io_bind (callInspectApi cfg P text_of bearer call) (\<lambda>result. io_return \<lparr> trValue = result, trIsError = False \<rparr>)))
      (\<lambda>e. io_return (tool_error (read_failure call) (failure_message e)))) ?S" for call
    by (intro sends_catch sends_bind [OF o] sends_bind [OF c]) (intro sends_quiet emits_intros)+
  show ?thesis unfolding run_read_tool_def Let_def
    by (rule sends_bind [OF sends_quiet [OF emits_oboLog] body]) simp
qed

lemma mcp_inspect_server_gated:
  assumes "mcp_inspect_app cfg P readFile text_of H q s = (r, t)"
  shows "\<exists>es. out t = out s @ es \<and> set (key_sets es) \<subseteq> {miJwksUri cfg} \<and> (requests es = [] \<or>
    (\<exists>tok v u. hiMethod q = ''POST'' \<and> path_is ''/mcp'' (hiPath q) \<and> bearer_of (header_of q ''authorization'') = Some tok
      \<and> verifyJwt P tok (mcp_inspect_opts cfg) s = (Inr v, u) \<and> mcp_inspect_grants cfg v
      \<and> (\<forall>x \<in> set (requests es). qUrl x = miTokenEndpoint cfg \<or> (\<exists>rest. qUrl x = miInspectApiBaseUrl cfg @ rest))))"
proof (cases "first_route mcp_inspect_routes q = Some McpEndpoint")
  case True
  define Q where "Q ai x = (mhCall H q \<noteq> None \<and> (qUrl x = miTokenEndpoint cfg \<or> (\<exists>rest. qUrl x = miInspectApiBaseUrl cfg @ rest)))"
    for ai :: auth_info and x :: http_req
  have h: "does (mcp_request_handler H (miResourceMetadataUrl cfg) (run_read_tool cfg P readFile text_of) (Some ai) q) (\<lambda>es r. sends (Q ai) es)" for ai
    unfolding Q_def [abs_def] by (rule sends_handler) (auto simp: tool_context_def intro: sends_read_tool)
  from True have "mcp_router H (mcp_inspect_auth cfg P) (mcp_request_handler H (miResourceMetadataUrl cfg) (run_read_tool cfg P readFile text_of)) q s = (r, t)"
    using assms by (simp add: mcp_inspect_app_def)
  from router_sends [OF this gates_silent(2) gates_keys(2) h] show ?thesis
    by (fastforce simp: Q_def [abs_def] list_all_iff dest: mcp_inspect_next)
next
  case False
  have k: "emits (keys_from {miJwksUri cfg}) (last_token_route P (mcp_inspect_opts cfg) self api q)"
    "emits no_request (last_token_route P (mcp_inspect_opts cfg) self api q)" for self api
    by (rule other_routes_silent(2); simp add: mcp_inspect_opts_def)+
  have "\<exists>es. out t = out s @ es \<and> requests es = [] \<and> set (key_sets es) \<subseteq> {miJwksUri cfg}"
    using assms False emits_both [OF other_routes_silent(1) other_routes_silent(1), of P readFile s r t "{miJwksUri cfg}"] emits_both [OF k(2,1)]
    by (auto simp: mcp_inspect_app_def io_return_def split: option.splits mcp_route.splits)
  then show ?thesis by blast
qed

end
