(* ===== verification/AgentServer.thy ===== *)
theory AgentServer
  imports McpServer Specialist
begin

text \<open>
  The specialist as a whole HTTP application: \<^verbatim>\<open>apps/agent-specialist/src/server.ts\<close> with the agent card it publishes
  (\<^verbatim>\<open>agent-card.ts\<close>). Routing is as for the MCP servers; the A2A SDK is a parameter.
\<close>

section \<open>The agent card\<close>

definition in_quotes :: "string \<Rightarrow> string" where "in_quotes s = [CHR 0x27] @ s @ [CHR 0x27]"

definition in_prod :: string where
  "in_prod = ''in the demo'' @ [CHR 0x27] @ ''s '' @ in_quotes ''prod'' @ '' namespace ''"

definition privileged_terms :: string where
  "privileged_terms = ''via mcp-ops (ops:write). Requires aud=agent-specialist, scope ops:write, act.sub=agent-copilot, and acr=mfa step-up.''"

definition both_types :: js where "both_types = JArr [JStr ''text/plain'', JStr ''application/json'']"

definition skill :: "string \<Rightarrow> string \<Rightarrow> string \<Rightarrow> string list \<Rightarrow> js" where
  "skill i name description tags =
     JObj [(''id'', JStr i), (''name'', JStr name), (''description'', JStr description), (''tags'', JArr (map JStr tags)),
           (''inputModes'', both_types), (''outputModes'', JArr [JStr ''application/json''])]"

definition card_skills :: "js list" where
  "card_skills =
     [skill ''inspect-deployment'' ''Inspect Deployment''
        (''Read a Deployment'' @ [CHR 0x27] @ ''s current image, replica count, and ready/updated rollout status '' @ in_prod
           @ ''via the inspect tier (inspect:read). Used to plan a remediation and to verify the result afterward.'')
        [''kubernetes'', ''inspect'', ''read''],
      skill ''restart-deployment'' ''Restart Deployment''
        (''Trigger a rolling restart of a Deployment '' @ in_prod @ privileged_terms)
        [''kubernetes'', ''restart'', ''privileged''],
      skill ''set-deployment-image'' ''Set Deployment Image''
        (''Update a Deployment'' @ [CHR 0x27] @ ''s container image to a new version (rolling update) '' @ in_prod @ privileged_terms)
        [''kubernetes'', ''image'', ''deploy'', ''privileged''],
      skill ''scale-deployment'' ''Scale Deployment''
        (''Set the replica count of a Deployment '' @ in_prod @ privileged_terms)
        [''kubernetes'', ''scale'', ''privileged'']]"

definition buildAgentCard :: "specialist_config \<Rightarrow> js" where
  "buildAgentCard cfg =
     JObj [(''name'', JStr ''agent-specialist''),
           (''description'', JStr (''LLM-driven privileged remediation specialist. Accepts an A2A task carrying ''
              @ ''a Bearer aud=agent-specialist (act.sub=agent-copilot), then autonomously ''
              @ ''inspects deployments (inspect:read) and remediates them '' @ em_dash @ '' restart, set image, ''
              @ ''scale '' @ em_dash @ '' via mcp-ops (ops:write), with MFA step-up enforced before any write.'')),
           (''url'', JStr (spPublicBaseUrl cfg @ ''/a2a'')),
           (''version'', JStr ''0.0.1''), (''protocolVersion'', JStr ''0.3''), (''preferredTransport'', JStr ''JSONRPC''),
           (''capabilities'', JObj [(''streaming'', JBool False), (''pushNotifications'', JBool False)]),
           (''defaultInputModes'', both_types), (''defaultOutputModes'', both_types),
           (''securitySchemes'', JObj [(''bearer'', JObj [(''type'', JStr ''http''), (''scheme'', JStr ''bearer''),
              (''bearerFormat'', JStr ''JWT''),
              (''description'', JStr (''Curity-issued JWT, aud='' @ spAudience cfg @ '', act.sub=agent-copilot.''))])]),
           (''security'', JArr [JObj [(''bearer'', JArr [])]]),
           (''skills'', JArr card_skills)]"

section \<open>The A2A endpoint\<close>

text \<open>
  \<open>ahTask\<close>: the task (its id, its context, the parts of the message) the SDK has the executor run for a request,
  if it is one that sends a message; \<open>ahAnswer\<close>: the JSON-RPC answer, with what the executor published or threw;
  \<open>ahFault\<close>: the JSON-RPC error when the builder of the user threw; \<open>ahCard\<close>: how the card is served; \<open>ahFinal\<close>:
  Express's answer to a request no route takes.
\<close>

record a2a_host =
  ahTask :: "http_in \<Rightarrow> (string \<times> string \<times> message_part list) option"
  ahAnswer :: "http_in \<Rightarrow> (exn + bus_event list) option \<Rightarrow> http_res"
  ahFault :: "http_in \<Rightarrow> exn \<Rightarrow> http_res"
  ahCard :: "http_in \<Rightarrow> js \<Rightarrow> http_res"
  ahFinal :: "http_in \<Rightarrow> http_res"

definition verify_caller :: "specialist_config \<Rightarrow> ('w, 'j) platform \<Rightarrow> string \<Rightarrow> ('w, 'j, 'z, string) act" where
  "verify_caller cfg P bearer =
     io_catch
       (io_bind (verifyJwt P bearer (specialist_opts cfg)) (\<lambda>v.
        io_bind (decorateSpanWithIdentity v) (\<lambda>_. io_return (subject_of v))))
       (\<lambda>e. case e of
              CurityAuthError m c \<Rightarrow> io_throw (JsError ''Error'' (code_str c @ '': '' @ m))
            | _ \<Rightarrow> io_throw e)"

text \<open>The executor finds the bearer on the user it is given. Its remediation starts with fresh providers.\<close>

definition run_task ::
  "specialist_config \<Rightarrow> ('w, 'j) platform \<Rightarrow> 'w mcp_sdk \<Rightarrow> 'w file_reader \<Rightarrow> ('w, 'j, 'z) specialist_run_scheme client_factory
   \<Rightarrow> ('w, 'j, 'z) specialist_run_scheme generator \<Rightarrow> a2a_user \<Rightarrow> string \<times> string \<times> message_part list
   \<Rightarrow> ('w, 'j, 'z) specialist_run_scheme \<Rightarrow> (exn + bus_event list) \<times> ('w, 'j, 'z) specialist_run_scheme" where
  "run_task cfg P sdk readFile newClient generate user task =
     io_bind (io_modify fresh_run) (\<lambda>_.
       execute P (specialist_deps cfg P sdk readFile newClient generate) (specialist_opts cfg) (spRequiredAcr cfg)
         \<lparr> rqTaskId = fst task, rqContextId = fst (snd task), rqBearer = bearerFromContext (Some user), rqParts = snd (snd task) \<rparr>)"

definition a2a_endpoint ::
  "a2a_host \<Rightarrow> (string \<Rightarrow> ('s, exn, string) io) \<Rightarrow> (a2a_user \<Rightarrow> string \<times> string \<times> message_part list \<Rightarrow> ('s, exn, bus_event list) io)
   \<Rightarrow> http_in \<Rightarrow> ('s, exn, http_res) io" where
  "a2a_endpoint H verify run q =
     io_bind (io_try (bearer_user_builder verify (header_of q ''authorization''))) (\<lambda>r.
       case r of
         Inl e \<Rightarrow> io_return (ahFault H q e)
       | Inr user \<Rightarrow>
           (case ahTask H q of
              None \<Rightarrow> io_return (ahAnswer H q None)
            | Some task \<Rightarrow> io_bind (io_try (run user task)) (\<lambda>x. io_return (ahAnswer H q (Some x)))))"

section \<open>The application\<close>

datatype sp_route = SpHealthz | SpSpiffeId | SpClientMetadata | SpJwks | SpCard | SpA2a | SpLastToken | SpTools

definition specialist_routes :: "sp_route route list" where
  "specialist_routes =
     [GetRoute ''/healthz'' SpHealthz, GetRoute ''/spiffe-id'' SpSpiffeId,
      GetRoute ''/.well-known/oauth-client'' SpClientMetadata, GetRoute ''/.well-known/jwks.json'' SpJwks,
      UseRoute ''/.well-known/agent-card.json'' SpCard, UseRoute ''/a2a'' SpA2a,
      GetRoute ''/last-token'' SpLastToken, GetRoute ''/tools'' SpTools]"

definition specialist_last_token_route ::
  "specialist_config \<Rightarrow> ('w, 'j) platform \<Rightarrow> http_in
   \<Rightarrow> ('w, 'j, 'z) specialist_scheme \<Rightarrow> (exn + http_res) \<times> ('w, 'j, 'z) specialist_scheme" where
  "specialist_last_token_route cfg P q =
     io_bind (bearer_only ''[specialist/last-token] verify error'' (specialist_opts cfg) P (header_of q ''authorization'')) (\<lambda>g.
       case g of Respond res \<Rightarrow> io_return res | Next _ \<Rightarrow> specialist_last_token cfg P (hiQuery q))"

text \<open>A probe of the tools builds a provider of its own just before it asks it to discover.\<close>

definition fresh_deps :: "('w, 'j, 'z) specialist_run_scheme tools_deps \<Rightarrow> ('w, 'j, 'z) specialist_run_scheme tools_deps" where
  "fresh_deps D = D\<lparr> tdDiscover := io_bind (io_modify fresh_run) (\<lambda>_. tdDiscover D) \<rparr>"

definition specialist_app ::
  "specialist_config \<Rightarrow> ('w, 'j) platform \<Rightarrow> 'w mcp_sdk \<Rightarrow> 'w file_reader \<Rightarrow> ('w, 'j, 'z) specialist_run_scheme client_factory
   \<Rightarrow> ('w, 'j, 'z) specialist_run_scheme generator \<Rightarrow> cimd_identity \<Rightarrow> a2a_host \<Rightarrow> http_in
   \<Rightarrow> ('w, 'j, 'z) specialist_run_scheme \<Rightarrow> (exn + http_res) \<times> ('w, 'j, 'z) specialist_run_scheme" where
  "specialist_app cfg P sdk readFile newClient generate cimd H q =
     (case first_route specialist_routes q of
        None \<Rightarrow> io_return (ahFinal H q)
      | Some SpHealthz \<Rightarrow> io_return (healthy ''agent-specialist'')
      | Some SpSpiffeId \<Rightarrow> spiffe_route P readFile
      | Some SpClientMetadata \<Rightarrow> io_return \<lparr> rStatus = 200, rHeaders = [], rBody = metadataDocument cimd \<rparr>
      | Some SpJwks \<Rightarrow> io_return \<lparr> rStatus = 200, rHeaders = [], rBody = cimd_jwks cimd \<rparr>
      | Some SpCard \<Rightarrow> io_return (ahCard H q (buildAgentCard cfg))
      | Some SpA2a \<Rightarrow> a2a_endpoint H (verify_caller cfg P) (run_task cfg P sdk readFile newClient generate) q
      | Some SpLastToken \<Rightarrow> specialist_last_token_route cfg P q
      | Some SpTools \<Rightarrow>
          tools_handler cfg P (\<lambda>bearer claims. fresh_deps (specialist_tools_deps cfg P sdk readFile newClient bearer (ccSub claims)))
            (header_of q ''authorization''))"

text \<open>The server listens only when its client identity could be built.\<close>

definition specialist_main ::
  "specialist_config \<Rightarrow> ('w, 'j) platform \<Rightarrow> 'w mcp_sdk \<Rightarrow> 'w file_reader \<Rightarrow> ('w, 'j, 'z) specialist_run_scheme client_factory
   \<Rightarrow> ('w, 'j, 'z) specialist_run_scheme generator \<Rightarrow> a2a_host
   \<Rightarrow> ('w, 'j, 'z) specialist_run_scheme
   \<Rightarrow> (exn + (http_in \<Rightarrow> ('w, 'j, 'z) specialist_run_scheme \<Rightarrow> (exn + http_res) \<times> ('w, 'j, 'z) specialist_run_scheme))
      \<times> ('w, 'j, 'z) specialist_run_scheme" where
  "specialist_main cfg P sdk readFile newClient generate H =
     io_bind (getCimdIdentity P (spPrivateKeyPem cfg) (spClientId cfg)) (\<lambda>cimd.
       io_return (specialist_app cfg P sdk readFile newClient generate cimd H))"

lemmas agent_server_eval [eval_simps] = quoted_def in_prod_def privileged_terms_def both_types_def skill_def card_skills_def
  buildAgentCard_def verify_caller_def run_task_def a2a_endpoint_def specialist_routes_def specialist_last_token_route_def
  fresh_deps_def specialist_app_def specialist_main_def

section \<open>What the application does only for a verified caller\<close>

text \<open>Whether a request has a bearer the server accepts, in the state it arrives in.\<close>

definition caller_verified :: "specialist_config \<Rightarrow> ('w, 'j) platform \<Rightarrow> http_in \<Rightarrow> ('w, 'j, 'z) proc_scheme \<Rightarrow> bool" where
  "caller_verified cfg P q s =
     (\<exists>tok v u. bearer_of (header_of q ''authorization'') = Some tok \<and> verifyJwt P tok (specialist_opts cfg) s = (Inr v, u))"

lemma verify_caller_silent: "(\<And>as. p (SpanAttrs as)) \<Longrightarrow> p (KeySet (spJwksUri cfg)) \<Longrightarrow> emits p (verify_caller cfg P bearer)"
  unfolding verify_caller_def by (auto intro!: emits_intros simp: specialist_opts_def split: exn.splits)

lemma bearer_user_builder_silent: "(\<And>b. emits p (verify b)) \<Longrightarrow> emits p (bearer_user_builder verify header)"
  unfolding bearer_user_builder_def by (auto intro!: emits_intros split: option.splits)

lemma refuse_task_silent: "emits p (refuse_task P rq text)"
  unfolding refuse_task_def publishWorkingTask_def publishStatus_def by (auto intro!: emits_intros)

lemma silent_try: "emits p m \<Longrightarrow> emits p (io_try m)"
  by (auto simp: emits_def does_def io_try_def split: prod.splits)

lemma fresh_silent: "emits p (io_modify fresh_run)"
  by (simp add: emits_def does_def io_modify_def fresh_run_def)

lemma verify_caller_Inr: "verify_caller cfg P b s = (Inr sub, t) \<Longrightarrow> \<exists>v u. verifyJwt P b (specialist_opts cfg) s = (Inr v, u)"
  by (auto simp: verify_caller_def io_catch_def io_bind_def io_throw_def split: prod.splits sum.splits exn.splits)

lemma bearer_user_Inr:
  assumes "bearer_user_builder verify header s = (Inr (BearerUser b sub), t)"
  shows "bearer_of header = Some b \<and> (\<exists>x. verify b s = (Inr x, t))"
  using assms by (auto simp: bearer_user_builder_def io_bind_def io_return_def split: option.splits if_splits prod.splits sum.splits)

lemma a2a_unverified:
  assumes "a2a_endpoint H (verify_caller cfg P) (run_task cfg P sdk readFile newClient generate) q s = (r, t)"
    and "\<not> caller_verified cfg P q s"
  shows "\<exists>es. out t = out s @ es \<and> requests es = [] \<and> set (key_sets es) \<subseteq> {spJwksUri cfg}"
proof -
  obtain x u where b: "bearer_user_builder (verify_caller cfg P) (header_of q ''authorization'') s = (x, u)" by fastforce
  obtain es where es: "out u = out s @ es" "requests es = [] \<and> set (key_sets es) \<subseteq> {spJwksUri cfg}"
    using emits_both [OF bearer_user_builder_silent [OF verify_caller_silent] bearer_user_builder_silent [OF verify_caller_silent] b, of "{spJwksUri cfg}"] by auto
  have e: "a2a_endpoint H (verify_caller cfg P) run q s = (case x of
         Inl e \<Rightarrow> io_return (ahFault H q e)
       | Inr user \<Rightarrow>
           (case ahTask H q of
              None \<Rightarrow> io_return (ahAnswer H q None)
            | Some task \<Rightarrow> io_bind (io_try (run user task)) (\<lambda>x. io_return (ahAnswer H q (Some x))))) u" for run
    unfolding a2a_endpoint_def by (simp add: io_try_step b)
  show ?thesis
  proof (cases x)
    case (Inl f)
    then show ?thesis using assms(1) es by (auto simp: e io_return_def)
  next
    case (Inr user)
    have user: "user = UnauthenticatedUser"
    proof (cases user)
      case (BearerUser tok sub)
      then show ?thesis using assms(2) b Inr bearer_user_Inr [of "verify_caller cfg P" "header_of q ''authorization''" s tok sub u]
          verify_caller_Inr unfolding caller_verified_def by blast
    qed
    show ?thesis
    proof (cases "ahTask H q")
      case None
      then show ?thesis using assms(1) es Inr by (auto simp: e io_return_def)
    next
      case (Some task)
      have "emits p (run_task cfg P sdk readFile newClient generate user task)" for p
        unfolding run_task_def user by (rule emits_bind [OF fresh_silent]) (simp add: execute_def refuse_task_silent)
      then have k: "emits p (io_bind (io_try (run_task cfg P sdk readFile newClient generate user task)) (\<lambda>x. io_return (ahAnswer H q (Some x))))" for p
        by (intro emits_intros silent_try)
      have "io_bind (io_try (run_task cfg P sdk readFile newClient generate user task)) (\<lambda>x. io_return (ahAnswer H q (Some x))) u = (r, t)"
        using assms(1) by (simp add: e Inr Some)
      from emits_both [OF k k this, of "{}"] obtain fs where "out t = out u @ fs" "requests fs = []" "key_sets fs = []" by auto
      then show ?thesis using es by auto
    qed
  qed
qed

lemma bearer_only_unverified:
  assumes "io_bind (bearer_only tag (specialist_opts cfg) P (header_of q ''authorization'')) (\<lambda>g.
      case g of Respond res \<Rightarrow> io_return res | Next p \<Rightarrow> k p) s = (r, t)"
    and "\<not> caller_verified cfg P q s"
  shows "\<exists>es. out t = out s @ es \<and> requests es = [] \<and> set (key_sets es) \<subseteq> {spJwksUri cfg}"
proof -
  obtain x u where b: "bearer_only tag (specialist_opts cfg) P (header_of q ''authorization'') s = (x, u)" by fastforce
  have "emits no_request (bearer_only tag (specialist_opts cfg) P h)" "emits (keys_from {spJwksUri cfg}) (bearer_only tag (specialist_opts cfg) P h)" for h
    unfolding bearer_only_def by (intro emits_intros; simp add: specialist_opts_def)+
  from emits_both [OF this b] obtain es where es: "out u = out s @ es" "requests es = [] \<and> set (key_sets es) \<subseteq> {spJwksUri cfg}" by blast
  have "x \<noteq> Inr (Next p)" for p
  proof
    assume "x = Inr (Next p)"
    from middleware_next [OF b [unfolded bearer_only_def this]] show False using assms(2) unfolding caller_verified_def by blast
  qed
  then show ?thesis using assms(1) b es
    by (cases x; cases "projr x") (auto simp: io_bind_def io_return_def)
qed

text \<open>
  C16. The specialist as a whole acts only for a caller it has verified: whatever request arrives, if it is not for
  the A2A endpoint or one of the two debug routes, or if its bearer token is missing, empty or does not verify for this
  agent, the program makes no request (no discovery, no exchange, no model call, no tool call), and the verifier consults no
  key set but the one it is configured with.
\<close>

theorem specialist_acts_for_verified_callers:
  assumes "specialist_app cfg P sdk readFile newClient generate cimd H q s = (r, t)"
    and "first_route specialist_routes q \<notin> {Some SpA2a, Some SpLastToken, Some SpTools} \<or>
      \<not> (\<exists>tok v u. bearer_of (header_of q ''authorization'') = Some tok \<and> verifyJwt P tok (specialist_opts cfg) s = (Inr v, u))"
  shows "\<exists>es. out t = out s @ es \<and> requests es = [] \<and> set (key_sets es) \<subseteq> {spJwksUri cfg}"
proof (cases "first_route specialist_routes q \<in> {Some SpA2a, Some SpLastToken, Some SpTools}")
  case True
  then have un: "\<not> caller_verified cfg P q s" using assms(2) by (simp add: caller_verified_def)
  from True consider "first_route specialist_routes q = Some SpA2a" | "first_route specialist_routes q = Some SpLastToken"
    | "first_route specialist_routes q = Some SpTools" by blast
  then show ?thesis
  proof cases
    case 1
    then show ?thesis using assms(1) a2a_unverified un by (simp add: specialist_app_def) blast
  next
    case 2
    then show ?thesis using assms(1) bearer_only_unverified un
      by (simp add: specialist_app_def specialist_last_token_route_def) blast
  next
    case 3
    then show ?thesis using assms(1) bearer_only_unverified un
      by (simp add: specialist_app_def tools_handler_def) blast
  qed
next
  case False
  then show ?thesis using assms(1) emits_both [OF other_routes_silent(1) other_routes_silent(1), of P readFile s r t "{}"]
    by (auto simp: specialist_app_def io_return_def split: option.splits sp_route.splits)
qed

definition fixture_specialist_config :: specialist_config where
  "fixture_specialist_config =
     \<lparr> spIssuer = ''https://as'', spJwksUri = ''https://as/jwks'', spAudience = ''agent-specialist'',
       spClientId = ''https://sp/.well-known/oauth-client'', spPrivateKeyPem = ''pem'', spMcpOpsUrl = ''https://gw/ops/mcp'',
       spDiscoveryTtlMs = 600000, spExchangeCacheTtlMs = 60000, spMcpOpsAudience = ''mcp-ops'', spPublicBaseUrl = ''https://sp'',
       spLlmGatewayUrl = ''https://gw/llm'', spLlmGatewayAudience = ''llm-gateway'', spLlmGatewayScope = ''llm:invoke'',
       spMcpInspectUrl = ''https://gw/inspect/mcp'', spMcpInspectAudience = ''mcp-inspect'', spRequiredAcr = ''mfa'' \<rparr>"

definition idle_specialist :: "(int, string) specialist_run" where
  "idle_specialist =
     \<lparr> world = 0, out = [], spans = [], jwksCache = [], oidcCache = [], dpopNonces = [], asCache = [], discoveryCache = [],
       processKey = None, cimdCached = None, spLastOps = None, spLastInspect = None, spLastLlm = None,
       spLlmCache = \<lparr> tcStore = [], tcTtlMs = 60000 \<rparr>, runOps = new_provider, runInspect = new_provider, runSink = None \<rparr>"

definition idle_client :: "(int, string) specialist_run client_factory" where
  "idle_client _ _ =
     \<lparr> mcConnect = io_return (), mcListTools = io_return [], mcCallTool = (\<lambda>_ _. io_return JNull), mcClose = io_return () \<rparr>"

definition silent_model :: "(int, string) specialist_run generator" where
  "silent_model _ _ _ _ = io_return (None, [])"

definition task_host :: a2a_host where
  "task_host =
     \<lparr> ahTask = (\<lambda>_. Some (''task-1'', ''ctx-1'', [TextPart ''restart order-service''])),
       ahAnswer = (\<lambda>_ _. answer 200 [] []), ahFault = (\<lambda>_ _. answer 200 [] [(''error'', JNull)]),
       ahCard = (\<lambda>_ card. \<lparr> rStatus = 200, rHeaders = [], rBody = card \<rparr>), ahFinal = (\<lambda>_. answer 404 [] []) \<rparr>"

definition a2a_post :: http_in where
  "a2a_post = \<lparr> hiMethod = ''POST'', hiPath = ''/a2a'', hiHeaders = [(''authorization'', ''Bearer tok'')], hiQuery = JUndef, hiBody = JUndef \<rparr>"

lemma forged_fails:
  "verifyJwt (fixture no_net (\<lambda>_. None)) ''tok'' (specialist_opts fixture_specialist_config) idle_specialist \<noteq> (Inr v, u)"
  by (simp add: idle_specialist_def specialist_opts_def fixture_specialist_config_def eval_simps)

theorem specialist_acts_for_verified_callers_witness:
  "requests (out (snd (specialist_app fixture_specialist_config (fixture no_net (\<lambda>_. None)) fixture_sdk (\<lambda>_ w. (Inr ''svid'', w))
     idle_client silent_model \<lparr> ciKid = ''k'', ciClientId = ''c'', ciJwk = JObj [] \<rparr> task_host a2a_post idle_specialist))) = []"
proof -
  have "bearer_of (header_of a2a_post ''authorization'') = Some ''tok''"
    using fixture_bearer by (simp add: a2a_post_def header_of_def)
  then have "\<not> (\<exists>tok v u. bearer_of (header_of a2a_post ''authorization'') = Some tok
      \<and> verifyJwt (fixture no_net (\<lambda>_. None)) tok (specialist_opts fixture_specialist_config) idle_specialist = (Inr v, u))"
    using forged_fails by simp
  from specialist_acts_for_verified_callers [OF prod.collapse [symmetric] disjI2 [OF this],
      of fixture_sdk "\<lambda>_ w. (Inr ''svid'', w)" idle_client silent_model "\<lparr> ciKid = ''k'', ciClientId = ''c'', ciJwk = JObj [] \<rparr>" task_host]
  show ?thesis by (auto simp: idle_specialist_def)
qed

text \<open>The card promises, as privileged skills, exactly the tools of the write server.\<close>

definition skill_tool :: "js \<Rightarrow> string" where
  "skill_tool sk = replace_char (CHR ''-'') (CHR ''_'') (js_string (jget sk ''id''))"

lemma card_lists_the_tools:
  "set (map skill_tool (filter (\<lambda>sk. JStr ''privileged'' \<in> set (case jget sk ''tags'' of JArr xs \<Rightarrow> xs | _ \<Rightarrow> [])) card_skills))
     = set (om_keys default_tool_roles)"
  by (simp add: skill_tool_def card_skills_def skill_def default_tool_roles_def replace_char_def om_keys_def js_string.simps) blast

end
