(* ===== verification/Connections.thy ===== *)
theory Connections
  imports AgentServer
begin

text \<open>
  The MCP connections of a remediation, \<^verbatim>\<open>apps/agent-specialist/src/executor.ts\<close> with the dependencies its server
  gives it. How many connections are open is something the SDK knows: it is read off the part of the state that
  belongs to no record of this development, which the operations of the agent's own packages never look at.
\<close>

section \<open>What the agents' packages leave alone\<close>

text \<open>An invariant of the state that looks at none of the caches of an agent process either.\<close>

locale agent_state = stable_invariant I for I :: "('w, 'j, 'z) agent_host_scheme \<Rightarrow> bool" +
  assumes stable_as: "I s \<Longrightarrow> I (s\<lparr> asCache := ac \<rparr>)"
    and stable_discovery: "I s \<Longrightarrow> I (s\<lparr> discoveryCache := dc \<rparr>)"
    and stable_key: "I s \<Longrightarrow> I (s\<lparr> processKey := k \<rparr>)"
    and stable_cimd: "I s \<Longrightarrow> I (s\<lparr> cimdCached := ci \<rparr>)"
begin

lemma hit_ok: "ensures I (fresh_hit P force ttl hit) (\<lambda>_. True)"
  unfolding fresh_hit_def
  by (auto split: option.splits intro!: ensures_if ensures_return ensures_bind_any [OF world_get_ok])

lemma fetch_ok: "ensures I (fetch_as P sdk key) (\<lambda>_. True)"
  unfolding fetch_as_def
  by (intro ensures_bind_any [OF ensures_catch [OF world_try_ok ensures_throw]] ensures_bind_any [OF ensures_require]
      ensures_bind_any [OF lift_sum_ok] ensures_bind_any [OF world_get_ok] ensures_bind_any [OF ensures_modify] ensures_return)
     (simp_all add: stable_as)

lemma resolve_ok: "ensures I (resolveAuthorizationServer P sdk issuer force ttl) (\<lambda>_. True)"
  unfolding resolveAuthorizationServer_def Let_def
  by (rule ensures_bind_any [OF ensures_require], rule ensures_bind_any [OF ensures_read [where Q = "\<lambda>_. True"]], simp,
      rule ensures_bind_any [OF hit_ok]) (auto split: option.splits intro: ensures_return fetch_ok)

lemma probe_ok: "ensures I (probeUnauthenticated (http_fetch P) key) (\<lambda>_. True)"
  unfolding probeUnauthenticated_def
  by (rule ensures_bind_any [OF ensures_catch [OF http_fetch_ok ensures_throw] ensures_bind_any [OF ensures_require ensures_return]]) simp

lemma store_ok: "ensures I (store_discovery P service d) (\<lambda>_. True)"
  unfolding store_discovery_def
  by (intro ensures_bind_any [OF ensures_modify] ensures_bind_any [OF lift_sum_ok] ensures_bind_any [OF oboLog_ok] ensures_return)
     (simp_all add: stable_discovery)

lemma discover_ok: "ensures I (discoverMcpAuthorization P sdk (http_fetch P) url opts) (\<lambda>_. True)"
proof -
  have run: "ensures I (run_discovery P sdk (http_fetch P) key opts) (\<lambda>_. True)" for key
  proof -
    have challenge: "ensures I (case dpChallenge opts of Some c \<Rightarrow> io_return c | None \<Rightarrow> probeUnauthenticated (http_fetch P) key) (\<lambda>_. True)"
      by (cases "dpChallenge opts") (simp_all add: probe_ok ensures_return)
    show ?thesis unfolding run_discovery_def Let_def
      by (rule ensures_bind_any [OF challenge], rule ensures_bind_any [OF lift_sum_ok],
          rule ensures_bind_any [OF first_prm_ok [OF http_fetch_ok]])
         (auto split: option.splits intro!: ensures_throw ensures_bind_any [OF lift_sum_ok] ensures_bind_any [OF resolve_ok]
            ensures_bind_any [OF ensures_require] ensures_bind_any [OF world_get_ok] store_ok)
  qed
  show ?thesis unfolding discoverMcpAuthorization_def Let_def
    by (rule ensures_bind_any [OF ensures_read [where Q = "\<lambda>_. True"]], simp, rule ensures_bind_any [OF hit_ok])
       (auto split: option.splits intro: ensures_return run)
qed

lemma svid_ok: "ensures I (svid_or_throw P readFile hint) (\<lambda>_. True)"
proof -
  have "ensures I (getSvid P readFile src aud) (\<lambda>_. True)" for src aud
    unfolding getSvid_def
    by (auto split: option.splits intro!: ensures_if ensures_return ensures_throw ensures_catch ensures_bind_any [OF world_try_ok])
  then show ?thesis unfolding svid_or_throw_def
    by (auto intro!: ensures_bind_any ensures_return ensures_throw split: option.splits)
qed

lemma key_ok: "ensures I (processDpopKey P) (\<lambda>_. True)"
proof (rule ensuresI)
  fix s r t assume s: "I s" and h: "processDpopKey P s = (r, t)"
  have k: "ensures I (createDpopKey P) (\<lambda>_. True)"
    unfolding createDpopKey_def case_prod_unfold
    by (intro ensures_bind_any [OF world_get_ok] ensures_bind_any [OF lift_sum_ok] ensures_return) simp
  show "I t \<and> (\<forall>a. r = Inr a \<longrightarrow> True)"
    using h s ensures_kept [OF k s] by (auto simp: processDpopKey_def stable_key split: option.splits prod.splits)
qed

lemma mint_ok:
  assumes "ensures I endpoint (\<lambda>_. True)"
  shows "ensures I (mint P readFile hint endpoint h) (\<lambda>_. True)"
proof -
  have ci: "ensures I (getCimdIdentity P pem cid) (\<lambda>_. True)" for pem cid
    by (auto simp: ensures_def getCimdIdentity_def Let_def stable_cimd split: option.splits)
  show ?thesis unfolding mint_def
    by (intro ensures_bind_any [OF svid_ok] ensures_bind_any [OF ci] ensures_bind_any [OF assms]
        ensures_bind_any [OF ensures_if [OF ensures_bind_any [OF key_ok ensures_return] ensures_return]] exchangeToken_ok) simp_all
qed

lemma endpoint_ok: "ensures I (issuer_endpoint P sdk issuer) (\<lambda>_. True)"
  unfolding issuer_endpoint_def by (intro ensures_bind_any [OF resolve_ok] ensures_return) simp

lemma provider_discover_ok: "ensures I (provider_discover P sdk pc force ch pv) (\<lambda>_. True)"
  unfolding provider_discover_def
  by (rule ensures_bind_any [OF ensures_try [OF discover_ok]])
     (auto split: sum.splits intro!: ensures_return ensures_bind_any [OF oboLog_ok])

lemma provider_acquire_ok:
  assumes "\<And>ei. ensures I (exchange ei) (\<lambda>_. True)"
  shows "ensures I (provider_acquire P sdk pc exchange force ch pv) (\<lambda>_. True)"
proof -
  have l: "ensures I (provider_learn P sdk pc force ch pv) (\<lambda>_. True)"
    unfolding provider_learn_def by (auto split: option.splits intro!: ensures_if ensures_return provider_discover_ok)
  show ?thesis unfolding provider_acquire_def
    by (rule ensures_bind_any [OF l])
       (auto split: sum.splits intro!: ensures_return ensures_bind_any [OF ensures_try [OF assms]])
qed

end

section \<open>The specialist\<close>

definition held :: "('z \<Rightarrow> nat) \<Rightarrow> nat \<Rightarrow> ('w, 'j, 'z) specialist_run_scheme \<Rightarrow> bool" where
  "held n k s = (n (specialist_run.more s) = k)"

interpretation sdk: agent_state "held n k" for n :: "'z \<Rightarrow> nat" and k :: nat
  by unfold_locales (simp_all add: held_def)

definition connections :: "('z \<Rightarrow> nat) \<Rightarrow> ('w, 'j, 'z) specialist_run_scheme \<Rightarrow> nat" where
  "connections n s = n (specialist_run.more s)"

lemma keepsI: "(\<And>k. ensures (held n k) m (\<lambda>_. True)) \<Longrightarrow> keeps (connections n) m"
  unfolding keeps_def connections_def by (metis ensures_kept held_def)

lemma modify_held: "(\<And>s. specialist_run.more (f s) = specialist_run.more s) \<Longrightarrow> ensures (held n k) (io_modify f) (\<lambda>_. True)"
  by (rule ensures_modify) (simp add: held_def)

lemma obtain_cached_held:
  assumes "\<And>c s. specialist_run.more (put c s) = specialist_run.more s"
    and "\<And>tok. ensures (held n k) (stamp tok) (\<lambda>_. True)" "ensures (held n k) minted (\<lambda>_. True)"
  shows "ensures (held n k) (obtain_cached P get put key ttl stamp minted) (\<lambda>_. True)"
proof -
  have look: "ensures (held n k) (cached_token P get put key) (\<lambda>_. True)"
    unfolding cached_token_def
    by (rule ensures_bind_any [OF ensures_read [where Q = "\<lambda>_. True"]], simp)
       (auto intro!: ensures_if ensures_return ensures_bind_any [OF sdk.world_get_ok] ensures_bind_any [OF modify_held] simp: assms(1))
  have store: "ensures (held n k) (store_token P get put key r ttl) (\<lambda>_. True)" for r
    unfolding store_token_def
    by (auto intro!: ensures_if ensures_return ensures_bind_any [OF sdk.world_get_ok] modify_held simp: assms(1))
  show ?thesis unfolding obtain_cached_def
    by (rule ensures_bind_any [OF look])
       (auto split: option.splits intro!: ensures_return ensures_bind_any [OF assms(2)] ensures_bind_any [OF assms(3)] ensures_bind_any [OF store])
qed

lemma tokens_held:
  "ensures (held n k) (obtainOpsToken cfg P readFile subject sub recordLast endpoint scope) (\<lambda>_. True)"
  "ensures (held n k) (obtainInspectToken cfg P readFile subject endpoint scope) (\<lambda>_. True)"
  "ensures (held n k) (obtainLlmToken cfg P sdk readFile subject sub acr) (\<lambda>_. True)"
proof -
  note mints = ensures_bind_any [OF sdk.mint_ok [OF ensures_return]] and now = ensures_bind_any [OF sdk.world_get_ok]
  show "ensures (held n k) (obtainOpsToken cfg P readFile subject sub recordLast endpoint scope) (\<lambda>_. True)"
    unfolding obtainOpsToken_def by (intro mints ensures_if now ensures_bind_any [OF modify_held] ensures_return) simp_all
  show "ensures (held n k) (obtainInspectToken cfg P readFile subject endpoint scope) (\<lambda>_. True)"
    unfolding obtainInspectToken_def by (intro mints now ensures_bind_any [OF modify_held] ensures_return) simp_all
  have "ensures (held n k) (stamp_llm P tok) (\<lambda>_. True)" for tok
    unfolding stamp_llm_def by (intro now modify_held) simp
  then show "ensures (held n k) (obtainLlmToken cfg P sdk readFile subject sub acr) (\<lambda>_. True)"
    unfolding obtainLlmToken_def by (intro obtain_cached_held sdk.mint_ok sdk.endpoint_ok) simp_all
qed

lemma on_provider_held:
  assumes "\<And>pv. ensures (held n k) (m pv) (\<lambda>_. True)" "\<And>pv s. specialist_run.more (put pv s) = specialist_run.more s"
  shows "ensures (held n k) (on_provider get put m) (\<lambda>_. True)"
  unfolding on_provider_def
  by (rule ensures_bind_any [OF ensures_read [where Q = "\<lambda>_. True"]], simp)
     (intro ensures_bind_any [OF assms(1)] ensures_bind_any [OF modify_held] sdk.lift_sum_ok assms(2))

lemma deps_keep:
  "keeps (connections n) (ops_discover cfg P sdk)"
  "keeps (connections n) (ops_acquire cfg P sdk readFile subject sub recordLast)"
  "keeps (connections n) (inspect_acquire cfg P sdk readFile subject)"
  "keeps (connections n) (obtainLlmToken cfg P sdk readFile subject sub acr)"
  "keeps (connections n) (oboLog P ev)" "keeps (connections n) (provider_token get)"
  unfolding ops_discover_def ops_acquire_def inspect_acquire_def
  by (intro keepsI on_provider_held sdk.provider_discover_ok sdk.provider_acquire_ok tokens_held sdk.oboLog_ok, simp)+
     (intro keepsI tokens_held, intro keepsI sdk.oboLog_ok, simp add: keeps_def provider_token_def io_read_def)

lemma runLlm_keeps:
  assumes "\<And>llm g tools stop. keeps c (generate llm g tools stop)"
  shows "keeps c (runLlm cfg generate goal tools tok stop)"
  unfolding runLlm_def
  by (intro keeps_bind assms) (simp_all add: keeps_def lift_sum_def io_return_def)

text \<open>
  C34. A remediation leaves no MCP connection open, but for one. Take the dependencies the specialist's server gives its
  executor, an SDK client that is connected after \<^verbatim>\<open>connect\<close> succeeded and no longer after \<^verbatim>\<open>close\<close>, whatever \<^verbatim>\<open>close\<close>
  answers, and a language model whose loop opens and closes none. Whichever way the remediation ends, early, with a
  challenge, when a server cannot be reached, or because the model throws, as many connections are open as when it
  began, or exactly one more; and then it answers with the failure of listing a server's tools, which happens
  after connecting and before there is a toolset to close.
\<close>

theorem toolsets_closed:
  fixes n :: "'z \<Rightarrow> nat" and newClient :: "('w, 'j, 'z) specialist_run_scheme client_factory"
  assumes "\<And>opts f s. connections n (snd (mcConnect (newClient opts f) s)) =
        (case fst (mcConnect (newClient opts f) s) of Inl _ \<Rightarrow> connections n s | Inr _ \<Rightarrow> Suc (connections n s))"
    and "\<And>opts f s. connections n (snd (mcListTools (newClient opts f) s)) = connections n s"
    and "\<And>opts f s. connections n (snd (mcClose (newClient opts f) s)) = connections n s - 1"
    and "\<And>llm g tools stop s. connections n (snd (generate llm g tools stop s)) = connections n s"
    and "remediate (specialist_deps cfg P sdk readFile newClient generate bearer user) requiredAcr v goal s = (r, t)"
  shows "connections n t = connections n s
    \<or> connections n t = Suc (connections n s)
      \<and> (\<exists>e d opts f u w. mcListTools (newClient opts f) u = (Inl e, w) \<and> r = Inr (refused d requiredAcr e))"
proof -
  let ?D = "specialist_deps cfg P sdk readFile newClient generate bearer user" and ?c = "connections n :: ('w, 'j, 'z) specialist_run_scheme \<Rightarrow> nat"
  have cc: "counts_connections ?c newClient" using assms(1-3) by (simp add: counts_connections_def)
  have gen: "\<And>llm g tools stop. keeps ?c (generate llm g tools stop)" using assms(4) by (simp add: keeps_def)
  have both: "opens ?c (listing_fails newClient) (rdOpenInspect ?D)" "opens ?c (listing_fails newClient) (rdOpenOps ?D scope)" for scope
    unfolding specialist_deps_def remediation_deps.simps by (intro openMcpToolset_opens [OF cc] deps_keep)+
  have keep: "keeps ?c (rdDiscoverOps ?D)" "keeps ?c (rdAcquireOps ?D)" "keeps ?c (rdAcquireInspect ?D)"
    "keeps ?c (rdLlmToken ?D sub acr)" "keeps ?c (rdRunLlm ?D g tools tok stop)" "?c (rdSetSink ?D f q) = ?c q" for sub acr g tools tok stop f q
    unfolding specialist_deps_def remediation_deps.simps by (intro deps_keep runLlm_keeps gen)+ (simp add: connections_def)
  from remediate_balance [OF keep(1-6) both assms(5)] show ?thesis unfolding listing_fails_def by blast
qed

text \<open>A client of the SDK whose connections are all of the rest of the state.\<close>

definition counting_client :: "(exn + js list) \<Rightarrow> (int, string, nat) specialist_run_scheme client_factory" where
  "counting_client listed _ _ =
     \<lparr> mcConnect = io_modify (specialist_run.more_update Suc), mcListTools = lift_sum listed, mcCallTool = (\<lambda>_ _. io_return JNull),
       mcClose = io_modify (specialist_run.more_update (\<lambda>n. n - 1)) \<rparr>"

definition counting_run :: "nat \<Rightarrow> (int, string, nat) specialist_run_scheme" where
  "counting_run n =
     \<lparr> world = 0, out = [], spans = [], jwksCache = [], oidcCache = [], dpopNonces = [], asCache = [], discoveryCache = [],
       processKey = None, cimdCached = None, spLastOps = None, spLastInspect = None, spLastLlm = None,
       spLlmCache = \<lparr> tcStore = [], tcTtlMs = 60000 \<rparr>, runOps = new_provider, runInspect = new_provider, runSink = None, \<dots> = n \<rparr>"

theorem toolsets_closed_witness:
  "connections (\<lambda>n. n) (snd (remediate (specialist_deps fixture_specialist_config (fixture no_net (\<lambda>_. None)) fixture_sdk (\<lambda>_ w. (Inr ''svid'', w))
     (counting_client (Inr [])) (\<lambda>_ _ _ _. io_return (Some ''done'', [])) ''tok'' (fixture_user ''mfa'')) ''mfa'' (fixture_user ''mfa'') ''fix it''
     (counting_run 7))) = 7"
proof -
  let ?m = "remediate (specialist_deps fixture_specialist_config (fixture no_net (\<lambda>_. None)) fixture_sdk (\<lambda>_ w. (Inr ''svid'', w))
     (counting_client (Inr [])) (\<lambda>_ _ _ _. io_return (Some ''done'', [])) ''tok'' (fixture_user ''mfa'')) ''mfa'' (fixture_user ''mfa'') ''fix it''
     (counting_run 7)"
  have "connections (\<lambda>n. n) (snd ?m) = connections (\<lambda>n. n) (counting_run 7)
    \<or> connections (\<lambda>n. n) (snd ?m) = Suc (connections (\<lambda>n. n) (counting_run 7))
      \<and> (\<exists>e d opts f u w. mcListTools (counting_client (Inr []) opts f) u = (Inl e, w) \<and> fst ?m = Inr (refused d ''mfa'' e))"
    by (rule toolsets_closed [OF _ _ _ _ prod.collapse [symmetric]])
       (simp_all add: counting_client_def connections_def io_modify_def lift_sum_def io_return_def)
  then show ?thesis by (simp add: counting_client_def lift_sum_def counting_run_def connections_def)
qed

text \<open>The one that stays: a server accepts the connection and then fails to list its tools.\<close>

lemma failed_listing_leaves_one:
  assumes "parse_url url \<noteq> None"
  shows "connections (\<lambda>n. n) (snd (openMcpToolset (fixture no_net (\<lambda>_. None)) (counting_client (Inl e)) url (io_return JUndef) ''a'' ''b'' (http_fetch P)
     (counting_run 0))) = 1"
proof -
  let ?P = "fixture no_net (\<lambda>_. None) :: (int, string) platform"
  obtain w where l: "oboLog ?P (call_event ''a'' ''b'' url (token_summary ?P (js_or JUndef (JStr [])))) (specialist_run.more_update Suc (counting_run 0)) = (Inr (), w)"
    using oboLog_Inr by blast
  have "connections (\<lambda>n. n) w = 1"
    using keepsD [OF deps_keep(5) l] by (simp add: connections_def counting_run_def)
  then show ?thesis
    using assms l by (simp add: openMcpToolset_def Let_def counting_client_def io_bind_def require_that_def io_return_def io_modify_def lift_sum_def)
qed

end
