(* ===== verification/Telemetry.thy ===== *)
theory Telemetry
  imports Spiffe Exchange
begin

text \<open>
  How a process sets up tracing: \<^verbatim>\<open>packages/otel-bootstrap/src\<close>, files \<^verbatim>\<open>span-names.ts\<close>, \<^verbatim>\<open>instrumentation-config.ts\<close>,
  \<^verbatim>\<open>resource.ts\<close> and \<^verbatim>\<open>telemetry.ts\<close>. The OpenTelemetry SDK is third party: what is modelled is what it is given.
\<close>

section \<open>Names of spans\<close>

text \<open>\<^verbatim>\<open>url.slice(0, q)\<close> with \<^verbatim>\<open>q\<close> the first question mark, if any.\<close>

definition inboundSpanName :: "string \<Rightarrow> string \<Rightarrow> string" where
  "inboundSpanName m url = m @ '' '' @ takeWhile (\<lambda>c. c \<noteq> CHR ''?'') url"

definition outboundSpanName :: "string \<Rightarrow> string \<Rightarrow> string \<Rightarrow> string" where
  "outboundSpanName m origin path = inboundSpanName m path"

text \<open>A hook gives the name it updates the span to, if it does.\<close>

definition undiciRequestHook :: "js \<Rightarrow> string option" where
  "undiciRequestHook request =
     (case (as_str (jget request ''method''), as_str (jget request ''origin''), as_str (jget request ''path'')) of
        (Some m, Some origin, Some path) \<Rightarrow> if is_object request then Some (outboundSpanName m origin path) else None
      | _ \<Rightarrow> None)"

definition httpRequestHook :: "js \<Rightarrow> string option" where
  "httpRequestHook request =
     (case as_str (jget request ''method'') of
        None \<Rightarrow> None
      | Some m \<Rightarrow>
          if \<not> is_object request then None
          else (case as_str (jget request ''path'') of
                  Some path \<Rightarrow> Some (inboundSpanName m path)
                | None \<Rightarrow> map_option (inboundSpanName m) (as_str (jget request ''url''))))"

section \<open>Configuration of the SDK\<close>

datatype instrumentation = Disabled | RequestHook "js \<Rightarrow> string option"

definition NOISY_INSTRUMENTATIONS :: "string list" where
  "NOISY_INSTRUMENTATIONS =
     [''@opentelemetry/instrumentation-net'', ''@opentelemetry/instrumentation-dns'', ''@opentelemetry/instrumentation-fs'']"

definition INSTRUMENTATION_CONFIG :: "(string, instrumentation) omap" where
  "INSTRUMENTATION_CONFIG =
     map (\<lambda>n. (n, Disabled)) NOISY_INSTRUMENTATIONS
     @ [(''@opentelemetry/instrumentation-undici'', RequestHook undiciRequestHook),
        (''@opentelemetry/instrumentation-http'', RequestHook httpRequestHook)]"

definition buildResource :: "string option \<Rightarrow> (string \<times> js) list" where
  "buildResource spiffeId = [(''spiffe.id'', JStr (or_else spiffeId ''unknown''))]"

datatype propagator = W3CTraceContext | W3CBaggage

record sdk_options =
  soResource :: "(string \<times> js) list"
  soInstrumentations :: "(string, instrumentation) omap"
  soPropagators :: "propagator list"

text \<open>\<open>opt\<close> is \<^verbatim>\<open>opts.spiffeIdPath\<close>, \<open>env\<close> is \<^verbatim>\<open>process.env.SPIFFE_SVID_PATH\<close>; reading the file can throw.\<close>

definition startTelemetry ::
  "('w, 'j) platform \<Rightarrow> (string \<Rightarrow> 'w \<Rightarrow> (exn + string) \<times> 'w) \<Rightarrow> string option \<Rightarrow> string option \<Rightarrow> ('w, 'j, 'z, sdk_options) act" where
  "startTelemetry P readFile opt env =
     io_bind (readSpiffeIdSync P readFile (or_else opt (or_else env ''/run/spiffe/curity-actor.jwt''))) (\<lambda>spiffeId.
       io_return \<lparr> soResource = buildResource spiffeId, soInstrumentations = INSTRUMENTATION_CONFIG,
                   soPropagators = [W3CTraceContext, W3CBaggage] \<rparr>)"

lemmas telemetry_eval [eval_simps] = inboundSpanName_def outboundSpanName_def undiciRequestHook_def httpRequestHook_def
  NOISY_INSTRUMENTATIONS_def INSTRUMENTATION_CONFIG_def buildResource_def startTelemetry_def

section \<open>What a name can tell\<close>

text \<open>
  A name a hook gives is a method, a blank and the path of the request's own target: whatever follows the first
  question mark (authorization codes, states) is not part of it, and neither is the origin.
\<close>

definition path_of :: "string \<Rightarrow> string" where
  "path_of url = takeWhile (\<lambda>c. c \<noteq> CHR ''?'') url"

lemma path_of_prefix: "\<exists>rest. url = path_of url @ rest \<and> (rest = [] \<or> hd rest = CHR ''?'')"
proof -
  have "url = path_of url @ dropWhile (\<lambda>c. c \<noteq> CHR ''?'') url" by (simp add: path_of_def)
  moreover have "dropWhile (\<lambda>c. c \<noteq> CHR ''?'') url = [] \<or> hd (dropWhile (\<lambda>c. c \<noteq> CHR ''?'') url) = CHR ''?''"
    using hd_dropWhile [of "\<lambda>c. c \<noteq> CHR ''?''" url] by blast
  ultimately show ?thesis by blast
qed

lemma span_names_have_no_query:
  assumes "hook \<in> {undiciRequestHook, httpRequestHook}" "hook request = Some name"
  shows "\<exists>m target. jget request ''method'' = JStr m \<and> name = m @ '' '' @ path_of target \<and> CHR ''?'' \<notin> set (path_of target)
    \<and> (jget request ''path'' = JStr target \<or> as_str (jget request ''path'') = None \<and> jget request ''url'' = JStr target)"
proof -
  have p: "CHR ''?'' \<notin> set (path_of t)" for t unfolding path_of_def by (metis set_takeWhileD)
  have j: "as_str v = Some x \<longleftrightarrow> v = JStr x" for v x by (cases v) auto
  from assms show ?thesis
    by (auto simp: undiciRequestHook_def httpRequestHook_def outboundSpanName_def inboundSpanName_def path_of_def [symmetric] p j
        split: option.splits if_splits)
qed

lemma span_name_ignores_origin: "outboundSpanName m origin path = outboundSpanName m origin' path"
  by (simp add: outboundSpanName_def)

text \<open>A process without an SVID file starts all the same, under the name \<^verbatim>\<open>unknown\<close>; with a readable one, under its subject.\<close>

lemma telemetry_starts_without_svid:
  assumes "readFile (or_else opt (or_else env ''/run/spiffe/curity-actor.jwt'')) (world s) = (Inl e, w)" "enoent e"
  shows "\<exists>o' t. startTelemetry P readFile opt env s = (Inr o', t) \<and> soResource o' = [(''spiffe.id'', JStr ''unknown'')]"
  using assms by (simp add: startTelemetry_def readSpiffeIdSync_def io_simps world_try_def buildResource_def or_else_def)

end
