(* ===== verification/Spec2Isabelle.thy ===== *)
theory Spec2Isabelle
  imports InspectApi WireForm AppShell Connections Telemetry
begin

text \<open>
  A verification development for the AI-agents authorization demo: a chat agent (\<^verbatim>\<open>agent-copilot\<close>)
  answers questions about a Kubernetes cluster with read-only tools and hands privileged requests to a
  second agent (\<^verbatim>\<open>agent-specialist\<close>), and every hop carries the user's delegated token, exchanged
  (RFC 8693) at the Curity Identity Server so that it names the whole chain of workloads.

  \<^bold>\<open>The program's parts.\<close> A read goes copilot, gateway, \<^verbatim>\<open>mcp-inspect\<close>, \<^verbatim>\<open>inspect-api\<close>; a write goes
  copilot, specialist (over A2A), gateway, \<^verbatim>\<open>mcp-ops\<close>, \<^verbatim>\<open>ops-api\<close>. The gateway exchanges tokens through the
  sidecar \<^verbatim>\<open>exchange-shim\<close>. At every hop the holder of a token exchanges it with its SPIFFE JWT-SVID as actor,
  a procedure run by Curity decides the exchange, and the receiver checks signature, audience, scopes and the
  \<^verbatim>\<open>act\<close> chain (the write path also \<^verbatim>\<open>acr\<close>, answering with an RFC 9470 step-up challenge).

  \<^bold>\<open>How code is modelled.\<close> An \<^verbatim>\<open>async\<close> function is a function of a state to a result (\<open>Inl\<close> the thrown value)
  and a new state (\<open>io\<close> in theory Prelude; \<open>act\<close> in Runtime, over the record \<open>proc\<close> of a process, extended per
  program with its module-level variables). Everything a process does outside itself (HTTP requests, cluster
  calls, printed lines, spans, and the key set the verifier may download) is appended to \<open>out\<close>, in order. JavaScript values are the datatype \<open>js\<close>
  (numbers are integers; \<open>undefined\<close> is a value), a \<^verbatim>\<open>Map\<close> is an association list in insertion order, strings are
  byte lists in UTF-8, thrown values are the datatype \<open>exn\<close>. Third-party code is a parameter, mostly a field
  of the record \<open>platform\<close>: \<^verbatim>\<open>fetch\<close>, the clock, \<^verbatim>\<open>jose\<close>, hashes, random ids; and arguments for the Kubernetes
  client, the MCP and A2A SDKs, the language model, file reads, regular expressions taken from the environment
  and what Curity supplies to a procedure (record \<open>curity\<close>).

  \<^bold>\<open>Theories, in the order the code builds on them.\<close>
  \<^item> Prelude: values, strings, ordered maps (locale \<open>keyed_store\<close>), results. Runtime: errors
    (\<^verbatim>\<open>auth-curity/src/errors.ts\<close>), platform, processes, rules for what an operation adds to \<open>out\<close>. Invariant:
    contracts of operations, locale \<open>stable_invariant\<close>. Url: \<^verbatim>\<open>new URL\<close>.
  \<^item> Verify (\<^verbatim>\<open>verify.ts\<close>), OboLog (\<^verbatim>\<open>obo-log.ts, identity-span.ts, exchange-span.ts\<close>), Dpop (\<^verbatim>\<open>dpop.ts\<close>: proofs and
    the replay cache), Exchange (\<^verbatim>\<open>exchange.ts\<close>), Oidc (\<^verbatim>\<open>oidc.ts, cimd.ts\<close>), all of \<^verbatim>\<open>packages/auth-curity/src\<close>;
    Spiffe (\<^verbatim>\<open>packages/spiffe/src\<close>).
  \<^item> TokenCache (\<^verbatim>\<open>token-exchange-cache.ts\<close> of the agents) with the locale \<open>ttl_cache\<close>, also interpreted by
    ShimCache and used by Shim (\<^verbatim>\<open>apps/exchange-shim/src\<close>).
  \<^item> Gate: what the bearer middlewares share, as the locale \<open>bearer_gate\<close>, interpreted by OpsApi, InspectApi,
    McpOps, McpInspect, Copilot and the debug routes (\<^verbatim>\<open>apps/*/src\<close>), which add routes, tools and the next hop.
    McpServer: both MCP servers as HTTP applications (\<^verbatim>\<open>server.ts, mcp-http.ts\<close>): routes in the order of registration,
    the endpoint behind the gate, the SDK a parameter. AgentServer: the specialist's application and its agent card.
  \<^item> Discovery (\<^verbatim>\<open>agent-runtime/src/authorization-server.ts, mcp-oauth-client.ts\<close>), AgentFetch (\<^verbatim>\<open>dpop-fetch.ts\<close>,
    \<^verbatim>\<open>a2a-helpers\<close>, the challenge interceptor), AgentTokens (client identities and hops of the agents), Toolset
    (\<^verbatim>\<open>mcp-toolset.ts\<close>).
  \<^item> Remediation (\<^verbatim>\<open>agent-specialist/src/executor.ts\<close>) over a record of dependencies, as the code has it;
    Specialist: the real dependencies, configuration, \<^verbatim>\<open>/tools\<close> and \<^verbatim>\<open>/last-token\<close>. Connections: the connections
    of those dependencies, opened and closed over one remediation (locale \<open>agent_state\<close>).
  \<^item> Intent, Json, Copilot, Chat, CopilotRoutes: \<^verbatim>\<open>apps/agent-copilot/src\<close> (intent gate as regular expressions with
    backtracking order, the JSON the agents exchange, token hops and A2A client, \<^verbatim>\<open>POST /chat\<close>, the debug routes).
  \<^item> Curity: \<^verbatim>\<open>k8s/curity/procedures\<close>. Delegation: the abstract specification of one delegation step
    (\<open>delegates\<close>), chains of issued tokens (\<open>issued\<close>) and their invariants by rule induction. EndToEnd: the
    procedures, the exchange client and ops-api together.
  \<^item> The web application (\<^verbatim>\<open>apps/web/src\<close>): Bff (\<^verbatim>\<open>auth.ts\<close> and the routes under \<^verbatim>\<open>app/api\<close>), Ledger
    (\<^verbatim>\<open>lib/token-view.ts\<close>), ChatPage (the rules of the chat page, what a reply makes of its state, and the way of a verdict
    from the specialist to the page), Views (the other view models under \<^verbatim>\<open>lib\<close>), PageMachine (\<^verbatim>\<open>app/chat.tsx\<close> as a step
    relation whose states hold the requests in flight with what their closures captured). What the panels render, as trees of
    elements (\<^verbatim>\<open>components\<close>): Panels (the tools), LedgerPanel (the ledger), ResultPanel (an answer, its trace, the workloads),
    PageView (the chat page around them, over the states of PageMachine), AppShell (frame, menus, sign-in, the view of the
    session's tokens). Journey: the scripted journey of the landing page (\<^verbatim>\<open>lib/hero-journey.ts\<close>); HeroStage: its player as a
    machine over timers, and the picture.
  \<^item> The wire log (\<^verbatim>\<open>packages/otel-bootstrap/src/wire-log.ts\<close>): WireText (the text of a block), WireTokens (which tokens it
    shows), WireLog (the hook around \<^verbatim>\<open>fetch\<close>, numbers of a trace's calls; a call is one step, and blocks are printed in any
    order), WireForm (form encoding and the line that names an exchange). Telemetry: the set-up of tracing of the same package.

  \<^bold>\<open>What the lemmas show.\<close> Each gate admits exactly the requests of its written policy (\<open>*_admits\<close>), and the
  cluster is called only behind it. A bound token is accepted, and presented, only with a fresh proof; a
  proof is not accepted twice within its window. Caches serve only what was stored for the same key and is
  still live, within their bounds. Exchanges talk to one endpoint, log exactly one line and return what a 2xx answer
  said. The exchange procedure refines \<open>delegates\<close>, hence along any number of exchanges scopes only shrink, \<^verbatim>\<open>acr\<close>
  and roles persist, and a token with the write scope followed the documented path; the path also works.
  The write path's MCP server and the specialist, taken as whole applications, send nothing for a caller they have not
  verified, but for the download of the configured key set that verifying takes. A step-up challenge is never lost
  between ops-api and the user; the executor and the chat handler always answer; a remediation leaves as many MCP
  connections open as it found, if none of its listings of tools fails. The access token stays on the web server; the ledger shows exactly the exchanges the
  server made, the trace each call with its own result; the page shows one outcome at a time, opens no panel by itself
  and resends only what was in the box when the user went to step up; the tools card marks a tool as refused exactly
  when the write server refuses it, and the ledger panel shows no encoded token off the debug page. The wire log changes no call, and in
  readable mode prints no token and explains each one once, right below its line, while a block can be formatted. While one allow-list is
  used, discovery only yields authorization servers of it, and a token is renewed after a 401 only for what a forced
  discovery from that response found. Lemmas that are
  not numbered properties record corner cases, e.g. a proof replayed at the last instant of its window or
  names inherited from \<^verbatim>\<open>Object.prototype\<close>.

  \<^bold>\<open>Bounds and fuel.\<close> All loops are structural or have a measure, except the JSON parser, which is given
  \<open>2 * length + 1\<close> steps: every recursive call consumes a character or moves from an element to the rest of its list, and
  the round trip shows that the text of any value parses within it. Regular expressions are finite terms evaluated
  structurally over the text. The wire log remembers 256 traces, the replay memory and the caches their configured
  number of entries, as in the code.

  \<^bold>\<open>Not modelled.\<close> Start-up and listening code, the inside of Express and of the SDKs (routing and what an SDK is handed are
  modelled), the Kubernetes client's construction, class names and styles of the web application, the rendering of Markdown, styled
  wrappers, build and test scripts, manifests. Durations of the landing page's script are integer square roots, proved equal to
  the rounded real ones; the lengths of the player's legs are real numbers and do not compute.
  Concurrent requests of one process are not interleaved inside an operation: a sequence of operations is.
  Elsewhere numbers other than integers do not occur; timeouts appear as failures of the call.
\<close>

end
